(* ===== verification/Update_Prelude.thy ===== *)
theory Update_Prelude
  imports Main "HOL-Library.List_Lexorder" "HOL-Library.Char_ord"
begin

text \<open>
  What the components of the update service model share: the fixed-width integer
  conversions of the C++ code, the ordered associative container the code uses
  (\<open>std::map\<close>, kept as a list of entries in key order because its iteration order is
  observable through callbacks), and the collections of facts that carry the proofs.
\<close>

named_theorems width_simps \<open>conversions between machine integers that stay in range\<close>
named_theorems cmap_simps \<open>lookups after updates of an ordered container\<close>
named_theorems inv_intros \<open>operations that preserve a component's invariant\<close>

section \<open>Fixed-width integers\<close>

text \<open>
  Sizes and times of the code are \<open>int64_t\<close>, percentages \<open>uint32_t\<close> or \<open>int32_t\<close>. They are
  kept as \<open>int\<close> here and reduced to their width where the code computes with them.
\<close>

definition i64 :: "int \<Rightarrow> int" where
  "i64 x = (x + 2 ^ 63) mod 2 ^ 64 - 2 ^ 63"

definition i32 :: "int \<Rightarrow> int" where
  "i32 x = (x + 2 ^ 31) mod 2 ^ 32 - 2 ^ 31"

definition u32 :: "int \<Rightarrow> int" where
  "u32 x = x mod 2 ^ 32"

abbreviation INT64_MAX :: int where "INT64_MAX \<equiv> 9223372036854775807"
abbreviation INT64_MIN :: int where "INT64_MIN \<equiv> - 9223372036854775808"

lemma i64_id [width_simps]: "INT64_MIN \<le> x \<Longrightarrow> x \<le> INT64_MAX \<Longrightarrow> i64 x = x"
  by (simp add: i64_def)

lemma i32_id [width_simps]: "- 2147483648 \<le> x \<Longrightarrow> x \<le> 2147483647 \<Longrightarrow> i32 x = x"
  by (simp add: i32_def)

lemma u32_id [width_simps]: "0 \<le> x \<Longrightarrow> x < 4294967296 \<Longrightarrow> u32 x = x"
  by (simp add: u32_def)

lemma i64_range: "INT64_MIN \<le> i64 x" "i64 x \<le> INT64_MAX"
proof -
  have "0 \<le> (x + 2 ^ 63) mod 2 ^ 64" and "(x + 2 ^ 63) mod 2 ^ 64 < (2 ^ 64 :: int)"
    by simp_all
  then show "INT64_MIN \<le> i64 x" and "i64 x \<le> INT64_MAX"
    by (simp_all add: i64_def)
qed

lemma u32_range: "0 \<le> u32 x" "u32 x < 4294967296"
  by (simp_all add: u32_def)

lemma i64_wraps: "i64 (INT64_MAX + 1) = INT64_MIN"
  by (simp add: i64_def)

text \<open>C++ integer division truncates towards zero.\<close>

definition cdiv :: "int \<Rightarrow> int \<Rightarrow> int" where
  "cdiv a b = sgn a * sgn b * (\<bar>a\<bar> div \<bar>b\<bar>)"

lemma cdiv_nonneg [width_simps]: "0 \<le> a \<Longrightarrow> 0 < b \<Longrightarrow> cdiv a b = a div b"
  by (cases "a = 0") (simp_all add: cdiv_def)

section \<open>The ordered container\<close>

type_synonym ('k, 'v) cmap = "('k \<times> 'v) list"

text \<open>Assignment through \<open>operator[]\<close>: overwrite the entry, or insert it at its place in key order.\<close>

fun cm_put :: "'k::linorder \<Rightarrow> 'v \<Rightarrow> ('k, 'v) cmap \<Rightarrow> ('k, 'v) cmap" where
  "cm_put k v [] = [(k, v)]"
| "cm_put k v ((a, b) # m) =
     (if k = a then (k, v) # m
      else if k < a then (k, v) # (a, b) # m
      else (a, b) # cm_put k v m)"

text \<open>\<open>erase\<close> by key, \<open>count\<close>, and an in-place change of the object an entry points to.\<close>

definition cm_del :: "'k \<Rightarrow> ('k, 'v) cmap \<Rightarrow> ('k, 'v) cmap" where
  "cm_del k m = filter (\<lambda>e. fst e \<noteq> k) m"

definition cm_has :: "'k \<Rightarrow> ('k, 'v) cmap \<Rightarrow> bool" where
  "cm_has k m = (k \<in> set (map fst m))"

definition cm_adj :: "'k \<Rightarrow> ('v \<Rightarrow> 'v) \<Rightarrow> ('k, 'v) cmap \<Rightarrow> ('k, 'v) cmap" where
  "cm_adj k f m = map (\<lambda>(a, b). (a, if a = k then f b else b)) m"

definition cm_ok :: "('k::linorder, 'v) cmap \<Rightarrow> bool" where
  "cm_ok m = (sorted (map fst m) \<and> distinct (map fst m))"

lemma map_of_cm_put [simp, cmap_simps]: "map_of (cm_put k v m) = (map_of m)(k \<mapsto> v)"
  by (induction k v m rule: cm_put.induct) auto

lemma keys_cm_put [simp, cmap_simps]: "fst ` set (cm_put k v m) = insert k (fst ` set m)"
  by (induction k v m rule: cm_put.induct) auto

lemma map_of_cm_del [simp, cmap_simps]: "map_of (cm_del k m) = (map_of m)(k := None)"
  by (induction m) (auto simp: cm_del_def)

lemma keys_cm_del [simp, cmap_simps]: "fst ` set (cm_del k m) = fst ` set m - {k}"
  by (auto simp: cm_del_def)

lemma map_of_cm_adj [simp, cmap_simps]:
  "map_of (cm_adj k f m) = (\<lambda>x. if x = k then map_option f (map_of m x) else map_of m x)"
  by (induction m) (auto simp: cm_adj_def)

lemma keys_cm_adj [simp, cmap_simps]: "map fst (cm_adj k f m) = map fst m"
  by (induction m) (auto simp: cm_adj_def)

lemma set_keys_cm_adj [simp, cmap_simps]: "fst ` set (cm_adj k f m) = fst ` set m"
  by (metis keys_cm_adj list.set_map)

lemma length_cm_adj [simp, cmap_simps]: "length (cm_adj k f m) = length m"
  by (simp add: cm_adj_def)

lemma cm_has_iff [cmap_simps]: "cm_has k m \<longleftrightarrow> map_of m k \<noteq> None"
  by (simp add: cm_has_def map_of_eq_None_iff)

lemma cm_has_adj [simp, cmap_simps]: "cm_has x (cm_adj k f m) = cm_has x m"
  by (simp add: cm_has_def)

lemma cm_has_put [simp, cmap_simps]: "cm_has x (cm_put k v m) \<longleftrightarrow> x = k \<or> cm_has x m"
  by (simp add: cm_has_def)

lemma cm_has_del [simp, cmap_simps]: "cm_has x (cm_del k m) \<longleftrightarrow> x \<noteq> k \<and> cm_has x m"
  by (auto simp: cm_has_def)

lemma cm_put_mem: "e \<in> set (cm_put k v m) \<Longrightarrow> e = (k, v) \<or> e \<in> set m"
  by (induction k v m rule: cm_put.induct) (auto split: if_splits)

lemma cm_ok_put [inv_intros]: "cm_ok m \<Longrightarrow> cm_ok (cm_put k v m)"
proof (induction k v m rule: cm_put.induct)
  case (1 k v)
  then show ?case by (simp add: cm_ok_def)
next
  case (2 k v a b m)
  then have tl: "cm_ok m" and lt: "\<forall>x \<in> set (map fst m). a < x"
    by (auto simp: cm_ok_def order_less_le)
  show ?case
  proof (cases "k \<le> a")
    case True
    with "2.prems" lt show ?thesis by (auto simp: cm_ok_def)
  next
    case False
    with "2.IH" tl have ih: "cm_ok (cm_put k v m)" by auto
    have "\<forall>x \<in> set (map fst (cm_put k v m)). a < x"
      using False lt by auto
    with ih False show ?thesis by (auto simp: cm_ok_def less_imp_le)
  qed
qed

lemma cm_ok_del [inv_intros]: "cm_ok m \<Longrightarrow> cm_ok (cm_del k m)"
  by (induction m) (auto simp: cm_ok_def cm_del_def)

lemma cm_ok_adj [inv_intros]: "cm_ok (cm_adj k f m) = cm_ok m"
  by (simp add: cm_ok_def)

lemma cm_ok_nil [simp]: "cm_ok []"
  by (simp add: cm_ok_def)

section \<open>Lists and options\<close>

lemma list_all_map_update: "list_all P xs \<Longrightarrow> (\<And>x. P x \<Longrightarrow> P (f x)) \<Longrightarrow> list_all P (map f xs)"
  by (induction xs) auto

lemma sum_list_nonneg_ge: "(\<And>x. x \<in> set xs \<Longrightarrow> (0::int) \<le> f x) \<Longrightarrow> 0 \<le> sum_list (map f xs)"
  by (induction xs) auto

end
