(* ===== verification/Net_Manager.thy ===== *)
theory Net_Manager
  imports Update_Prelude "HOL-Library.Word"
begin

unbundle bit_operations_syntax

text \<open>
  The network manager, \<open>services/utils/src/dupdate_net_manager.cpp\<close>: the current network
  type, the availability test on its bits, and the notification of registered callbacks when
  the network changes. A registered function is identified by a number, a null
  \<open>std::function\<close> is \<open>None\<close>; the calls made are collected in order.
\<close>

datatype NetType =
    NO_NET | CELLULAR | METERED_WIFI | NOT_METERED_WIFI
  | CELLULAR_AND_METERED_WIFI | CELLULAR_AND_NOT_METERED_WIFI | WIFI | CELLULAR_AND_WIFI

fun net_code :: "NetType \<Rightarrow> 32 word" where
  "net_code NO_NET = 0"
| "net_code CELLULAR = 1"
| "net_code METERED_WIFI = 2"
| "net_code NOT_METERED_WIFI = 4"
| "net_code CELLULAR_AND_METERED_WIFI = 1 OR 2"
| "net_code CELLULAR_AND_NOT_METERED_WIFI = 1 OR 4"
| "net_code WIFI = 2 OR 4"
| "net_code CELLULAR_AND_WIFI = 1 OR (2 OR 4)"

datatype NetChangeCallbackType = HOTA_BI_REPORT | HOTA_DOWNLOAD | PARAM_AUTO_UPGRADE | COMMON_DOWNLOAD

text \<open>The callback map is ordered by the enumeration's value.\<close>

fun ncc_code :: "NetChangeCallbackType \<Rightarrow> nat" where
  "ncc_code HOTA_BI_REPORT = 0"
| "ncc_code HOTA_DOWNLOAD = 1"
| "ncc_code PARAM_AUTO_UPGRADE = 2"
| "ncc_code COMMON_DOWNLOAD = 3"

lemma ncc_code_inject: "ncc_code a = ncc_code b \<longleftrightarrow> a = b"
  by (cases a; cases b) simp_all

instantiation NetChangeCallbackType :: linorder
begin

definition less_eq_NetChangeCallbackType :: "NetChangeCallbackType \<Rightarrow> NetChangeCallbackType \<Rightarrow> bool" where
  "less_eq_NetChangeCallbackType a b = (ncc_code a \<le> ncc_code b)"

definition less_NetChangeCallbackType :: "NetChangeCallbackType \<Rightarrow> NetChangeCallbackType \<Rightarrow> bool" where
  "less_NetChangeCallbackType a b = (ncc_code a < ncc_code b)"

instance
  by standard (auto simp: less_eq_NetChangeCallbackType_def less_NetChangeCallbackType_def
      ncc_code_inject intro: antisym)

end

record net_callback =
  nc_types :: "NetType list"
  nc_function :: "nat option"

record net_manager =
  nm_type :: NetType
  nm_callbacks :: "(NetChangeCallbackType, net_callback) cmap"
  nm_queue :: "(nat \<times> NetType) list"
  nm_calls :: "(nat \<times> NetType) list"

definition IsBaseNetType :: "NetType \<Rightarrow> bool" where
  "IsBaseNetType t = (t \<in> {NO_NET, CELLULAR, METERED_WIFI, NOT_METERED_WIFI})"

definition net_available :: "NetType \<Rightarrow> NetType \<Rightarrow> bool" where
  "net_available cur req = (net_code cur AND net_code req > 0)"

definition IsNetAvailable :: "net_manager \<Rightarrow> NetType \<Rightarrow> bool" where
  "IsNetAvailable m t = net_available (nm_type m) t"

definition GetNetType :: "net_manager \<Rightarrow> NetType" where
  "GetNetType m = nm_type m"

text \<open>
  \<open>RegisterCallback\<close>: only base types; if one of them is available now, the callback is
  submitted once, for the first such type. A call through a null function throws in the queue:
  \<open>nm_queue\<close> records submissions of non-null functions only.
\<close>

definition RegisterCallback :: "NetChangeCallbackType \<Rightarrow> NetType list \<Rightarrow> nat option \<Rightarrow> net_manager
    \<Rightarrow> net_manager \<times> bool" where
  "RegisterCallback ty types fn m =
     (if types = [] then (m, False)
      else if \<not> list_all IsBaseNetType types then (m, False)
      else
        let m1 = m\<lparr>nm_callbacks := cm_put ty \<lparr>nc_types = types, nc_function = fn\<rparr> (nm_callbacks m)\<rparr>
        in case find (IsNetAvailable m1) types of
             None \<Rightarrow> (m1, True)
           | Some t \<Rightarrow> (m1\<lparr>nm_queue := nm_queue m1 @ (case fn of None \<Rightarrow> [] | Some f \<Rightarrow> [(f, t)])\<rparr>, True))"

fun drop_first_type :: "NetChangeCallbackType \<Rightarrow> (NetChangeCallbackType, net_callback) cmap
    \<Rightarrow> (NetChangeCallbackType, net_callback) cmap" where
  "drop_first_type ty [] = []"
| "drop_first_type ty (e # es) = (if fst e = ty then es else e # drop_first_type ty es)"

definition UnregisterCallback :: "NetChangeCallbackType \<Rightarrow> net_manager \<Rightarrow> net_manager" where
  "UnregisterCallback ty m = m\<lparr>nm_callbacks := drop_first_type ty (nm_callbacks m)\<rparr>"

text \<open>
  The notification loop, as written: a matching entry whose function is null takes
  \<open>continue\<close> without advancing the iterator. Not returning is \<open>None\<close>.
\<close>

partial_function (option) notify_loop :: "NetType \<Rightarrow> (NetChangeCallbackType, net_callback) cmap
    \<Rightarrow> (nat \<times> NetType) list \<Rightarrow> (nat \<times> NetType) list option" where
  "notify_loop t es calls =
     (case es of
        [] \<Rightarrow> Some calls
      | e # rest \<Rightarrow>
          if t \<in> set (nc_types (snd e)) then
            (case nc_function (snd e) of
               None \<Rightarrow> notify_loop t es calls
             | Some f \<Rightarrow> notify_loop t rest (calls @ [(f, t)]))
          else notify_loop t rest calls)"

definition OnNetChange :: "NetType \<Rightarrow> net_manager \<Rightarrow> (net_manager \<times> bool) option" where
  "OnNetChange t m =
     (if \<not> IsBaseNetType t then Some (m, False)
      else if t = nm_type m then Some (m, True)
      else map_option (\<lambda>calls. (m\<lparr>nm_type := t, nm_calls := calls\<rparr>, True))
             (notify_loop t (nm_callbacks m) (nm_calls m)))"

section \<open>Facts\<close>

text \<open>A callback entry is stuck when the network type selects it and its function is null.\<close>

definition stuck_entry :: "NetType \<Rightarrow> NetChangeCallbackType \<times> net_callback \<Rightarrow> bool" where
  "stuck_entry t e = (t \<in> set (nc_types (snd e)) \<and> nc_function (snd e) = None)"

definition selected_calls :: "NetType \<Rightarrow> (NetChangeCallbackType, net_callback) cmap \<Rightarrow> (nat \<times> NetType) list" where
  "selected_calls t es = concat (map (\<lambda>e. if t \<in> set (nc_types (snd e))
     then (case nc_function (snd e) of None \<Rightarrow> [] | Some f \<Rightarrow> [(f, t)]) else []) es)"

lemma notify_loop_returns:
  "\<forall>e \<in> set es. \<not> stuck_entry t e \<Longrightarrow> notify_loop t es calls = Some (calls @ selected_calls t es)"
proof (induction es arbitrary: calls)
  case Nil
  then show ?case by (subst notify_loop.simps) (simp add: selected_calls_def)
next
  case (Cons e es)
  then show ?case
    by (subst notify_loop.simps) (auto simp: selected_calls_def stuck_entry_def split: option.splits)
qed

lemma notify_loop_returned_not_stuck:
  assumes "notify_loop t es calls = Some r"
  shows "\<forall>e \<in> set es. \<not> stuck_entry t e"
proof (rule notify_loop.raw_induct [where P = "\<lambda>t es calls r. \<forall>e \<in> set es. \<not> stuck_entry t e", OF _ assms])
  fix f :: "NetType \<Rightarrow> (NetChangeCallbackType, net_callback) cmap \<Rightarrow> (nat \<times> NetType) list
            \<Rightarrow> (nat \<times> NetType) list option"
    and t es calls r
  assume IH: "\<And>t es calls r. f t es calls = Some r \<Longrightarrow> \<forall>e \<in> set es. \<not> stuck_entry t e"
    and eq: "(case es of [] \<Rightarrow> Some calls
      | e # rest \<Rightarrow> if t \<in> set (nc_types (snd e)) then
            (case nc_function (snd e) of None \<Rightarrow> f t es calls | Some g \<Rightarrow> f t rest (calls @ [(g, t)]))
          else f t rest calls) = Some r"
  show "\<forall>e \<in> set es. \<not> stuck_entry t e"
  proof (cases es)
    case Nil
    then show ?thesis by simp
  next
    case (Cons e rest)
    show ?thesis
    proof (cases "t \<in> set (nc_types (snd e)) \<and> nc_function (snd e) = None")
      case True
      then have "f t es calls = Some r" using eq Cons by simp
      then show ?thesis by (rule IH)
    next
      case False
      then obtain calls' where "f t rest calls' = Some r"
        using eq Cons by (auto split: if_splits option.splits)
      then have "\<forall>e \<in> set rest. \<not> stuck_entry t e" by (rule IH)
      then show ?thesis using Cons False by (simp add: stuck_entry_def)
    qed
  qed
qed

lemma net_available_sym: "net_available a b = net_available b a"
  by (simp add: net_available_def and.commute)

lemma net_available_none [simp]: "\<not> net_available NO_NET t"
  by (simp add: net_available_def)

lemma net_available_all: "net_available a CELLULAR_AND_WIFI \<longleftrightarrow> a \<noteq> NO_NET"
  by (cases a) (simp_all add: net_available_def)

end
