(* ===== verification/Cxx_Strings.thy ===== *)
theory Cxx_Strings
  imports Update_Prelude
begin

text \<open>
  The string helpers of \<open>foundations/ability/utils/include/string_utils.h\<close> and the HTTP
  header parser built on them, \<open>services/core/ability/utils/src/response_header_parse.cpp\<close>.
  A \<open>size_t\<close> position that may be \<open>std::string::npos\<close> is a \<open>nat option\<close>; a position passed as
  \<open>int\<close> is an \<open>int\<close>, and \<open>npos\<close> converted to \<open>int\<close> is \<open>-1\<close>.
\<close>

section \<open>Searching\<close>

definition cxx_isspace :: "char \<Rightarrow> bool" where
  "cxx_isspace c = (of_char c \<in> {9, 10, 11, 12, 13, 32::nat})"

definition cxx_isdigit :: "char \<Rightarrow> bool" where
  "cxx_isdigit c = (48 \<le> (of_char c :: nat) \<and> (of_char c :: nat) \<le> 57)"

text \<open>First position of a character with a property, \<open>None\<close> for \<open>npos\<close>.\<close>

fun find_pos :: "('a \<Rightarrow> bool) \<Rightarrow> 'a list \<Rightarrow> nat option" where
  "find_pos P [] = None"
| "find_pos P (x # xs) = (if P x then Some 0 else map_option Suc (find_pos P xs))"

definition find_last_pos :: "('a \<Rightarrow> bool) \<Rightarrow> 'a list \<Rightarrow> nat option" where
  "find_last_pos P xs = map_option (\<lambda>i. length xs - 1 - i) (find_pos P (rev xs))"

text \<open>\<open>s.find(sub, pos)\<close>: first occurrence of a substring at or after a position.\<close>

fun find_sub :: "string \<Rightarrow> string \<Rightarrow> nat option" where
  "find_sub sub [] = (if sub = [] then Some 0 else None)"
| "find_sub sub (c # s) =
     (if take (length sub) (c # s) = sub then Some 0 else map_option Suc (find_sub sub s))"

definition find_sub_from :: "string \<Rightarrow> string \<Rightarrow> nat \<Rightarrow> nat option" where
  "find_sub_from sub s pos =
     (if pos > length s then None else map_option (\<lambda>i. i + pos) (find_sub sub (drop pos s)))"

lemma find_pos_None: "find_pos P xs = None \<longleftrightarrow> (\<forall>x \<in> set xs. \<not> P x)"
  by (induction xs) auto

lemma find_pos_Some: "find_pos P xs = Some i \<Longrightarrow> i < length xs \<and> P (xs ! i) \<and> (\<forall>j < i. \<not> P (xs ! j))"
proof (induction xs arbitrary: i)
  case Nil
  then show ?case by simp
next
  case (Cons x xs)
  then show ?case
    by (auto simp: nth_Cons' split: if_splits)
qed

lemma find_pos_append:
  "\<forall>x \<in> set xs. \<not> P x \<Longrightarrow> P y \<Longrightarrow> find_pos P (xs @ y # ys) = Some (length xs)"
  by (induction xs) auto

lemma find_last_pos_None: "find_last_pos P xs = None \<longleftrightarrow> (\<forall>x \<in> set xs. \<not> P x)"
  by (simp add: find_last_pos_def find_pos_None)

lemma find_last_pos_Some:
  assumes "find_last_pos P xs = Some i"
  shows "i < length xs \<and> P (xs ! i) \<and> (\<forall>j. i < j \<longrightarrow> j < length xs \<longrightarrow> \<not> P (xs ! j))"
proof -
  from assms obtain k where k: "find_pos P (rev xs) = Some k" and i: "i = length xs - 1 - k"
    by (auto simp: find_last_pos_def)
  from find_pos_Some [OF k] have lt: "k < length xs" and Pk: "P (rev xs ! k)"
    and before: "\<forall>j < k. \<not> P (rev xs ! j)" by auto
  have Pi: "P (xs ! i)" using Pk lt i by (simp add: rev_nth)
  have "\<not> P (xs ! j)" if "i < j" "j < length xs" for j
  proof -
    have "length xs - 1 - j < k" using that lt i by linarith
    then have "\<not> P (rev xs ! (length xs - 1 - j))" using before by blast
    then show ?thesis using that lt by (simp add: rev_nth)
  qed
  then show ?thesis using Pi lt i by auto
qed

lemma find_sub_Some: "find_sub sub s = Some i \<Longrightarrow> i + length sub \<le> length s \<and> take (length sub) (drop i s) = sub"
proof (induction s arbitrary: i)
  case Nil
  then show ?case by (auto split: if_splits)
next
  case (Cons c s)
  show ?case
  proof (cases "take (length sub) (c # s) = sub")
    case True
    then have "length sub \<le> length (c # s)" by (metis length_take min.cobounded1)
    then show ?thesis using True Cons.prems by auto
  next
    case False
    with Cons.prems obtain k where "find_sub sub s = Some k" "i = Suc k" by auto
    with Cons.IH [of k] show ?thesis by auto
  qed
qed

lemma find_sub_None:
  "find_sub sub s = None \<Longrightarrow> take (length sub) (drop i s) = sub \<Longrightarrow> i \<le> length s \<Longrightarrow> False"
proof (induction s arbitrary: i)
  case Nil
  then show ?case by (auto split: if_splits)
next
  case (Cons c s)
  then show ?case
    by (cases i) (auto split: if_splits)
qed

section \<open>\<open>StringUtils\<close>\<close>

definition LTrim :: "string \<Rightarrow> string" where
  "LTrim s = dropWhile cxx_isspace s"

definition RTrim :: "string \<Rightarrow> string" where
  "RTrim s = rev (dropWhile cxx_isspace (rev s))"

definition Trim :: "string \<Rightarrow> string" where
  "Trim s = RTrim (LTrim s)"

text \<open>
  \<open>SafeSubString(sourceStr, beginIndex, endIndex, defaultStr)\<close>: the guard reads the second
  number as an end index, the call of \<open>substr\<close> below it as a length.
\<close>

definition SafeSubString :: "string \<Rightarrow> int \<Rightarrow> int \<Rightarrow> string \<Rightarrow> string" where
  "SafeSubString sourceStr beginIndex endIndex defaultStr =
     (if sourceStr = [] then defaultStr
      else if beginIndex < 0 \<or> endIndex < 0 \<or> int (length sourceStr) < endIndex
              \<or> endIndex < beginIndex then defaultStr
      else take (nat endIndex) (drop (nat beginIndex) sourceStr))"

text \<open>\<open>Split\<close>: the maximal runs of other characters between delimiters.\<close>

function Split :: "string \<Rightarrow> char \<Rightarrow> string list" where
  "Split str delimiter =
     (let rest = dropWhile (\<lambda>c. c = delimiter) str in
      if rest = [] then []
      else takeWhile (\<lambda>c. c \<noteq> delimiter) rest # Split (dropWhile (\<lambda>c. c \<noteq> delimiter) rest) delimiter)"
  by pat_completeness auto
termination
proof (relation "measure (\<lambda>(s, d). length s)")
  fix str :: string and delimiter :: char and x
  assume x: "x = dropWhile (\<lambda>c. c = delimiter) str" and ne: "x \<noteq> []"
  from ne x have "hd x \<noteq> delimiter" using hd_dropWhile [of "\<lambda>c. c = delimiter" str] by auto
  with ne have "length (dropWhile (\<lambda>c. c \<noteq> delimiter) x) < length x"
    by (cases x) (auto simp: le_imp_less_Suc length_dropWhile_le)
  also have "length x \<le> length str" using x by (simp add: length_dropWhile_le)
  finally show "((dropWhile (\<lambda>c. c \<noteq> delimiter) x, delimiter), str, delimiter) \<in> measure (\<lambda>(s, d). length s)"
    by simp
qed auto

declare Split.simps [simp del]

definition GetLastSplitString :: "string \<Rightarrow> string \<Rightarrow> string" where
  "GetLastSplitString stringName splitStr =
     (case find_last_pos (\<lambda>c. c \<in> set splitStr) stringName of
        None \<Rightarrow> []
      | Some found \<Rightarrow> drop (found + 1) stringName)"

text \<open>
  \<open>ReplaceStringAll\<close>: the loop resumes after the text it has just inserted. With an empty
  pattern the search succeeds at every position and the loop never ends; not returning is \<open>None\<close>.
\<close>

partial_function (option) replace_from :: "string \<Rightarrow> string \<Rightarrow> string \<Rightarrow> nat \<Rightarrow> string option" where
  "replace_from subString newString resultString pos =
     (case find_sub_from subString resultString pos of
        None \<Rightarrow> Some resultString
      | Some p \<Rightarrow> replace_from subString newString
          (take p resultString @ newString @ drop (p + length subString) resultString)
          (p + length newString))"

definition ReplaceStringAll :: "string \<Rightarrow> string \<Rightarrow> string \<Rightarrow> string option" where
  "ReplaceStringAll srcString subString newString = replace_from subString newString srcString 0"

definition StringRemove :: "string \<Rightarrow> string \<Rightarrow> string \<Rightarrow> string" where
  "StringRemove sourceString startString endString =
     (if sourceString = [] then sourceString
      else case find_sub startString sourceString of
        None \<Rightarrow> sourceString
      | Some indexStart \<Rightarrow>
          (case find_sub_from endString sourceString indexStart of
             None \<Rightarrow> sourceString
           | Some indexEnd \<Rightarrow>
               take indexStart sourceString @ drop (indexEnd + length endString) sourceString))"

subsection \<open>Decimal numbers\<close>

datatype StrCnvResult = SCR_SUCCESS | SCR_FAILED | SCR_INVALID_CHAR | SCR_NUMBER_FORMAT_ERROR | SCR_SPILL_OVER

fun dec_value :: "string \<Rightarrow> int \<Rightarrow> int" where
  "dec_value [] acc = acc"
| "dec_value (c # s) acc = dec_value s (10 * acc + (of_char c - 48))"

text \<open>
  \<open>std::from_chars\<close> for a signed type: an optional minus sign and the longest run of digits.
  The result is the unconsumed rest and the number, \<open>None\<close> when there is no digit.
\<close>

definition from_chars :: "string \<Rightarrow> (string \<times> int) option" where
  "from_chars s =
     (let (neg, body) = (case s of c # r \<Rightarrow> if c = CHR ''-'' then (True, r) else (False, s) | [] \<Rightarrow> (False, s));
          ds = takeWhile cxx_isdigit body
      in if ds = [] then None
         else Some (dropWhile cxx_isdigit body, (if neg then - dec_value ds 0 else dec_value ds 0)))"

text \<open>
  \<open>StringToNumberInner\<close> for a type with range \<open>[lo, hi]\<close>: the status, and the number the
  out-parameter holds afterwards (\<open>old\<close> where the code does not assign it).
\<close>

definition DecStringToNumber :: "int \<Rightarrow> int \<Rightarrow> string \<Rightarrow> int \<Rightarrow> StrCnvResult \<times> int" where
  "DecStringToNumber lo hi str old =
     (let strTemp = Trim str in
      case from_chars strTemp of
        None \<Rightarrow> (SCR_FAILED, old)
      | Some (rest, numTemp) \<Rightarrow>
          if numTemp < lo \<or> hi < numTemp then (SCR_SPILL_OVER, old)
          else if rest \<noteq> [] then (SCR_INVALID_CHAR, numTemp)
          else if length strTemp \<noteq> length str then (SCR_NUMBER_FORMAT_ERROR, numTemp)
          else (SCR_SUCCESS, numTemp))"

section \<open>\<open>ResponseHeaderParseUtils\<close>\<close>

definition FormatHeader :: "string list \<Rightarrow> string" where
  "FormatHeader headers = concat headers"

text \<open>The key before the colon of a header line, trimmed; \<open>None\<close> when the code skips the line.\<close>

definition header_key :: "string \<Rightarrow> string option" where
  "header_key header =
     (case find_pos (\<lambda>c. c = CHR '':'') header of
        None \<Rightarrow> None
      | Some colonPos \<Rightarrow>
          if colonPos = length header - 1 then None
          else let key = SafeSubString header 0 (int colonPos) [] in
               if key = [] then None else Some (Trim key))"

definition header_value :: "string \<Rightarrow> string" where
  "header_value header =
     (case find_pos (\<lambda>c. c = CHR '':'') header of
        None \<Rightarrow> []
      | Some colonPos \<Rightarrow>
          Trim (SafeSubString header (int colonPos + 1) (int (length header) - int colonPos - 1) []))"

fun ParseKeyFromHeader :: "string list \<Rightarrow> string \<Rightarrow> string" where
  "ParseKeyFromHeader [] importKey = []"
| "ParseKeyFromHeader (header # headers) importKey =
     (if header_key header = Some importKey then header_value header
      else ParseKeyFromHeader headers importKey)"

fun parse_keys_into :: "(string, string) cmap \<Rightarrow> string list \<Rightarrow> string set \<Rightarrow> (string, string) cmap" where
  "parse_keys_into m [] keys = m"
| "parse_keys_into m (header # headers) keys =
     (case header_key header of
        None \<Rightarrow> parse_keys_into m headers keys
      | Some key \<Rightarrow>
          if key \<in> keys then parse_keys_into (cm_put key (header_value header) m) headers keys
          else parse_keys_into m headers keys)"

definition ParseKeysFromHeader :: "string list \<Rightarrow> string set \<Rightarrow> (string, string) cmap" where
  "ParseKeysFromHeader headers keys = parse_keys_into [] headers keys"

definition ParseFirstMsgFromHeader :: "string list \<Rightarrow> string" where
  "ParseFirstMsgFromHeader headers = (case headers of [] \<Rightarrow> [] | h # _ \<Rightarrow> h)"

definition FindKeyFromHeader :: "string list \<Rightarrow> string \<Rightarrow> bool" where
  "FindKeyFromHeader headers importKey =
     list_ex (\<lambda>header.
       let key = SafeSubString header 0
                   (case find_pos (\<lambda>c. c = CHR '':'') header of None \<Rightarrow> -1 | Some p \<Rightarrow> int p) []
       in if key = [] then False else Trim key = importKey) headers"

section \<open>Facts about the helpers\<close>

lemma GetLastSplitString_no_separator: "c \<in> set splitStr \<Longrightarrow> c \<notin> set (GetLastSplitString s splitStr)"
proof
  assume c: "c \<in> set splitStr" and mem: "c \<in> set (GetLastSplitString s splitStr)"
  from mem obtain f where f: "find_last_pos (\<lambda>c. c \<in> set splitStr) s = Some f"
    and inn: "c \<in> set (drop (f + 1) s)"
    by (cases "find_last_pos (\<lambda>c. c \<in> set splitStr) s") (simp_all add: GetLastSplitString_def)
  from inn obtain i where "i < length (drop (f + 1) s)" "drop (f + 1) s ! i = c"
    by (auto simp: in_set_conv_nth)
  then have "f < f + 1 + i" "f + 1 + i < length s" "s ! (f + 1 + i) = c" by auto
  with find_last_pos_Some [OF f] c show False by blast
qed

lemma header_value_cases:
  assumes "CHR '':'' \<notin> set k"
  shows "header_value (k @ CHR '':'' # v) = (if length v < length k + 1 then [] else Trim v)"
proof -
  have pos: "find_pos (\<lambda>c. c = CHR '':'') (k @ CHR '':'' # v) = Some (length k)"
    using assms by (intro find_pos_append) auto
  have trimnil: "Trim [] = []" by (simp add: Trim_def LTrim_def RTrim_def)
  show ?thesis
    by (simp add: header_value_def pos SafeSubString_def trimnil nat_add_distrib)
qed

lemma header_key_of:
  assumes "CHR '':'' \<notin> set k" "k \<noteq> []" "v \<noteq> []"
  shows "header_key (k @ CHR '':'' # v) = Some (Trim k)"
proof -
  have pos: "find_pos (\<lambda>c. c = CHR '':'') (k @ CHR '':'' # v) = Some (length k)"
    using assms by (intro find_pos_append) auto
  show ?thesis using assms(2,3) by (simp add: header_key_def pos SafeSubString_def)
qed

text \<open>A reference definition of replacing every occurrence, from left to right.\<close>

function replace_all :: "string \<Rightarrow> string \<Rightarrow> string \<Rightarrow> string" where
  "replace_all sub new s =
     (if sub = [] then s
      else case find_sub sub s of
        None \<Rightarrow> s
      | Some p \<Rightarrow> take p s @ new @ replace_all sub new (drop (p + length sub) s))"
  by pat_completeness auto
termination
proof (relation "measure (\<lambda>(sub, new, s). length s)")
  fix sub new s :: string and p
  assume ne: "sub \<noteq> []" and p: "find_sub sub s = Some p"
  from ne have "0 < length sub" by simp
  with find_sub_Some [OF p] have "length s - (p + length sub) < length s" by linarith
  then show "((sub, new, drop (p + length sub) s), sub, new, s) \<in> measure (\<lambda>(sub, new, s). length s)"
    by simp
qed auto

declare replace_all.simps [simp del]

lemma find_sub_from_append:
  "find_sub_from sub (pre @ s) (length pre) = map_option (\<lambda>i. i + length pre) (find_sub sub s)"
  by (simp add: find_sub_from_def)

lemma replace_from_all:
  "sub \<noteq> [] \<Longrightarrow> replace_from sub new (pre @ s) (length pre) = Some (pre @ replace_all sub new s)"
proof (induction sub new s arbitrary: pre rule: replace_all.induct)
  case (1 sub new s)
  show ?case
  proof (cases "find_sub sub s")
    case None
    with "1.prems" show ?thesis
      by (subst replace_from.simps, subst replace_all.simps) (simp add: find_sub_from_append)
  next
    case (Some p)
    have le: "p \<le> length s" using find_sub_Some [OF Some] by simp
    let ?rest = "drop (p + length sub) s"
    have "replace_from sub new ((pre @ take p s @ new) @ ?rest) (length (pre @ take p s @ new))
          = Some ((pre @ take p s @ new) @ replace_all sub new ?rest)"
      using "1.IH" Some "1.prems" by blast
    moreover have "replace_from sub new (pre @ s) (length pre)
        = replace_from sub new ((pre @ take p s @ new) @ ?rest) (length (pre @ take p s @ new))"
      using Some le by (subst replace_from.simps) (simp add: find_sub_from_append add_ac)
    ultimately show ?thesis
      using Some "1.prems" by (simp add: replace_all.simps [of sub new s])
  qed
qed

lemma ReplaceStringAll_eq: "sub \<noteq> [] \<Longrightarrow> ReplaceStringAll s sub new = Some (replace_all sub new s)"
  using replace_from_all [of sub new "[]" s] by (simp add: ReplaceStringAll_def)

lemma Split_tokens: "t \<in> set (Split s d) \<Longrightarrow> t \<noteq> [] \<and> d \<notin> set t"
proof (induction s d rule: Split.induct)
  case (1 s d)
  show ?case
  proof (cases "dropWhile (\<lambda>c. c = d) s = []")
    case True
    with "1.prems" show ?thesis by (simp add: Split.simps)
  next
    case False
    define rest where "rest = dropWhile (\<lambda>c. c = d) s"
    have ne: "rest \<noteq> []" using False rest_def by simp
    have hd: "hd rest \<noteq> d" using ne hd_dropWhile [of "\<lambda>c. c = d" s] by (simp add: rest_def)
    have "t = takeWhile (\<lambda>c. c \<noteq> d) rest \<or> t \<in> set (Split (dropWhile (\<lambda>c. c \<noteq> d) rest) d)"
      using "1.prems" ne by (subst (asm) Split.simps) (simp add: Let_def flip: rest_def)
    then show ?thesis
    proof
      assume "t = takeWhile (\<lambda>c. c \<noteq> d) rest"
      then show ?thesis using ne hd by (cases rest) (auto dest: set_takeWhileD)
    next
      assume "t \<in> set (Split (dropWhile (\<lambda>c. c \<noteq> d) rest) d)"
      then show ?thesis using "1.IH" [OF rest_def] ne by simp
    qed
  qed
qed

section \<open>Printing numbers\<close>

text \<open>\<open>std::to_string\<close> of a signed integer, used by the error texts and the request headers.\<close>

fun nat_digits :: "nat \<Rightarrow> string" where
  "nat_digits n = (if n < 10 then [char_of (48 + n)] else nat_digits (n div 10) @ [char_of (48 + n mod 10)])"

declare nat_digits.simps [simp del]

definition to_string :: "int \<Rightarrow> string" where
  "to_string i = (if i < 0 then CHR ''-'' # nat_digits (nat (- i)) else nat_digits (nat i))"

lemma of_char_digit: "n < 10 \<Longrightarrow> (of_char (char_of (48 + n) :: char) :: nat) = 48 + n"
  by (simp add: of_char_of)

lemma of_char_digit_int: "n < 10 \<Longrightarrow> (of_char (char_of (48 + n) :: char) :: int) = 48 + int n"
  using of_char_digit [of n] by (metis of_nat_of_char of_nat_add of_nat_numeral)

lemma nat_digits_ne: "nat_digits n \<noteq> []"
  by (subst nat_digits.simps) simp

lemma nat_digits_digit: "c \<in> set (nat_digits n) \<Longrightarrow> cxx_isdigit c"
proof (induction n rule: nat_digits.induct)
  case (1 n)
  show ?case
  proof (cases "n < 10")
    case True
    with "1.prems" show ?thesis
      by (subst (asm) nat_digits.simps) (simp add: cxx_isdigit_def of_char_digit)
  next
    case False
    with 1 show ?thesis
      by (subst (asm) (2) nat_digits.simps) (auto simp: cxx_isdigit_def of_char_digit)
  qed
qed

lemma dec_value_append: "dec_value (s @ t) acc = dec_value t (dec_value s acc)"
  by (induction s arbitrary: acc) auto

lemma dec_value_nat_digits: "dec_value (nat_digits n) 0 = int n"
proof (induction n rule: nat_digits.induct)
  case (1 n)
  show ?case
  proof (cases "n < 10")
    case True
    then show ?thesis by (subst nat_digits.simps) (simp add: of_char_digit_int)
  next
    case False
    then have "dec_value (nat_digits n) 0 = 10 * int (n div 10) + int (n mod 10)"
      using 1 by (subst nat_digits.simps) (simp add: dec_value_append of_char_digit_int)
    also have "\<dots> = int n" by presburger
    finally show ?thesis .
  qed
qed

lemma cxx_isdigit_not_space: "cxx_isdigit c \<Longrightarrow> \<not> cxx_isspace c"
  by (auto simp: cxx_isdigit_def cxx_isspace_def)

lemma dropWhile_none: "\<forall>c \<in> set s. \<not> P c \<Longrightarrow> dropWhile P s = s"
  by (cases s) auto

lemma Trim_no_space: "\<forall>c \<in> set s. \<not> cxx_isspace c \<Longrightarrow> Trim s = s"
  by (simp add: Trim_def LTrim_def RTrim_def dropWhile_none)

lemma to_string_no_space: "c \<in> set (to_string i) \<Longrightarrow> \<not> cxx_isspace c"
proof -
  assume "c \<in> set (to_string i)"
  then have "c = CHR ''-'' \<or> cxx_isdigit c"
    by (auto simp: to_string_def dest: nat_digits_digit split: if_splits)
  then show "\<not> cxx_isspace c"
    using cxx_isdigit_not_space by (auto simp: cxx_isspace_def)
qed

lemma Trim_to_string: "Trim (to_string i) = to_string i"
  by (rule Trim_no_space) (use to_string_no_space in blast)

lemma nat_digits_scan:
  "takeWhile cxx_isdigit (nat_digits n) = nat_digits n" "dropWhile cxx_isdigit (nat_digits n) = []"
  using nat_digits_digit by (auto simp: takeWhile_eq_all_conv)

lemma nat_digits_not_minus: "nat_digits n = c # r \<Longrightarrow> c \<noteq> CHR ''-''"
  using nat_digits_digit [of c n] by (auto simp: cxx_isdigit_def)

lemma from_chars_plain:
  "s = c # r \<Longrightarrow> c \<noteq> CHR ''-'' \<Longrightarrow> from_chars s =
     (if takeWhile cxx_isdigit s = [] then None
      else Some (dropWhile cxx_isdigit s, dec_value (takeWhile cxx_isdigit s) 0))"
  by (simp add: from_chars_def Let_def)

lemma from_chars_to_string: "from_chars (to_string i) = Some ([], i)"
proof (cases "i < 0")
  case True
  then show ?thesis
    by (simp add: from_chars_def to_string_def nat_digits_scan nat_digits_ne dec_value_nat_digits)
next
  case False
  obtain c r where cr: "nat_digits (nat i) = c # r" using nat_digits_ne by (cases "nat_digits (nat i)") auto
  have "from_chars (nat_digits (nat i)) = Some ([], int (nat i))"
    using from_chars_plain [OF cr nat_digits_not_minus [OF cr]]
    by (simp add: nat_digits_scan dec_value_nat_digits nat_digits_ne)
  then show ?thesis using False by (simp add: to_string_def)
qed

lemma DecStringToNumber_to_string:
  "lo \<le> i \<Longrightarrow> i \<le> hi \<Longrightarrow> DecStringToNumber lo hi (to_string i) old = (SCR_SUCCESS, i)"
  by (simp add: DecStringToNumber_def Trim_to_string from_chars_to_string)

end
