(* ===== verification/Network_Request.thy ===== *)
theory Network_Request
  imports Cxx_Strings
begin

text \<open>
  The HTTP request of the download engine: \<open>services/core/ability/net/src/network_base_request.cpp\<close>
  and \<open>download_request.cpp\<close>. libcurl is a parameter: \<open>curl k\<close> is the code and the HTTP status
  of the \<open>k\<close>-th \<open>curl_easy_perform\<close>, \<open>max_write\<close> its \<open>CURL_MAX_WRITE_SIZE\<close>; what \<open>fwrite\<close>,
  \<open>fflush\<close> and \<open>fsync\<close> answer is an argument of the write callback.
\<close>

datatype RequestMethod = POST | GET

record NetworkResponse =
  nr_status :: int
  nr_result :: int
  nr_retryInfo :: string

definition new_response :: NetworkResponse where
  "new_response = \<lparr>nr_status = -1, nr_result = 0, nr_retryInfo = []\<rparr>"

record request =
  rq_url :: string
  rq_method :: RequestMethod
  rq_headers :: "(string, string) cmap"
  rq_requestBody :: string
  rq_maxRetryTimes :: int
  rq_retryInterval :: int
  rq_hasFile :: bool
  rq_downloadedSize :: int
  rq_isNeedStop :: bool
  rq_headersBuffer :: "string list"
  rq_fsyncSize :: int

definition new_request :: request where
  "new_request =
     \<lparr>rq_url = [], rq_method = POST, rq_headers = [], rq_requestBody = [], rq_maxRetryTimes = 0, rq_retryInterval = 0,
      rq_hasFile = False, rq_downloadedSize = 0, rq_isNeedStop = False, rq_headersBuffer = [], rq_fsyncSize = 0\<rparr>"

section \<open>Sending the request\<close>

definition starts_with :: "string \<Rightarrow> string \<Rightarrow> bool" where
  "starts_with prefix s = (take (length prefix) s = prefix)"

definition IsUrlValid :: "request \<Rightarrow> bool" where
  "IsUrlValid r = (starts_with ''http://'' (rq_url r) \<or> starts_with ''https://'' (rq_url r))"

definition SetPostResumeOption :: "request \<Rightarrow> string list \<Rightarrow> string list" where
  "SetPostResumeOption r headers =
     (if rq_downloadedSize r \<le> 0 then headers
      else headers @ [''Range: bytes='' @ to_string (rq_downloadedSize r) @ ''-''])"

text \<open>The header list handed to curl, \<open>None\<close> for the null pointer (no list is set).\<close>

definition SetCurlHeaders :: "request \<Rightarrow> string list option" where
  "SetCurlHeaders r =
     (if rq_method r \<noteq> POST \<and> rq_headers r = [] then None
      else Some (SetPostResumeOption r
        (''Content-Type:application/json;charset=UTF-8'' # map (\<lambda>(k, v). k @ '':'' @ v) (rq_headers r))))"

text \<open>\<open>CURLOPT_RESUME_FROM_LARGE\<close>, when it is set.\<close>

definition SetGetResumeOption :: "request \<Rightarrow> int option" where
  "SetGetResumeOption r =
     (if 0 < rq_downloadedSize r \<and> rq_method r = GET then Some (rq_downloadedSize r) else None)"

function perform_loop ::
  "(nat \<Rightarrow> int \<times> int) \<Rightarrow> int \<Rightarrow> int \<Rightarrow> nat \<Rightarrow> NetworkResponse \<Rightarrow> NetworkResponse \<times> nat" where
  "perform_loop curl maxRetryTimes retryInterval retryTimes response =
     (let (ret, status) = curl retryTimes;
          response' = response\<lparr>nr_result := ret, nr_status := status,
            nr_retryInfo := nr_retryInfo response @ to_string ret @ '',''\<rparr>
      in if ret = 0 then (response', retryTimes)
         else if int retryTimes < maxRetryTimes \<and> 0 < retryInterval
           then perform_loop curl maxRetryTimes retryInterval (retryTimes + 1) response'
         else (response', retryTimes + 1))"
  by pat_completeness auto
termination
  by (relation "measure (\<lambda>(c, m, i, t, r). nat (m - int t))") auto

declare perform_loop.simps [simp del]

definition PerformCurlRequest :: "(nat \<Rightarrow> int \<times> int) \<Rightarrow> request \<Rightarrow> NetworkResponse \<Rightarrow> NetworkResponse" where
  "PerformCurlRequest curl r response =
     (let (resp, retryTimes) = perform_loop curl (rq_maxRetryTimes r) (rq_retryInterval r) 0
            (response\<lparr>nr_retryInfo := nr_retryInfo response @ rq_url r @ '':''\<rparr>);
          info = butlast (nr_retryInfo resp) @ ''|'' @ to_string (int retryTimes)
      in resp\<lparr>nr_retryInfo := (if retryTimes = 0 then [] else info)\<rparr>)"

text \<open>\<open>curl = None\<close> when \<open>curl_easy_init\<close> returns null.\<close>

definition DoNetRequest :: "(nat \<Rightarrow> int \<times> int) option \<Rightarrow> request \<Rightarrow> NetworkResponse" where
  "DoNetRequest curl r =
     (if \<not> IsUrlValid r then new_response
      else case curl of
        None \<Rightarrow> new_response
      | Some c \<Rightarrow> PerformCurlRequest c r new_response)"

section \<open>The callbacks curl makes\<close>

datatype FunctionResult = FR_SUCCESS | FR_FAIL

text \<open>
  The transfer-information callback: the answer to curl, and the sizes passed to the client's
  \<open>onProgress\<close> when it is called.
\<close>

definition request_CallbackProgress ::
  "bool \<Rightarrow> request \<Rightarrow> int \<Rightarrow> int \<Rightarrow> FunctionResult \<times> (int \<times> int) option" where
  "request_CallbackProgress hasCallback r dlTotal dlNow =
     (if dlTotal = 0 \<and> dlNow = 0 then (FR_SUCCESS, None)
      else if rq_isNeedStop r then (FR_FAIL, None)
      else if \<not> hasCallback then (FR_FAIL, None)
      else (FR_SUCCESS, Some (i64 (dlTotal + rq_downloadedSize r), i64 (dlNow + rq_downloadedSize r))))"

definition MAX_HEADER_SIZE :: int where
  "MAX_HEADER_SIZE = 16 * 1024"

definition HeaderCallback :: "string \<Rightarrow> request \<Rightarrow> int \<times> request" where
  "HeaderCallback contents r =
     (if contents = [] then (0, r)
      else if MAX_HEADER_SIZE < int (length contents) then (0, r)
      else (int (length contents), r\<lparr>rq_headersBuffer := rq_headersBuffer r @ [Trim contents]\<rparr>))"

definition MIN_FILE_DOWNLOAD_SIZE :: int where
  "MIN_FILE_DOWNLOAD_SIZE = 10 * 1024 * 1024"

definition FSYNC_THRESHOLD :: "int \<Rightarrow> int" where
  "FSYNC_THRESHOLD max_write = MIN_FILE_DOWNLOAD_SIZE - max_write * 2"

record write_call =
  wc_size :: int
  wc_nmemb :: int
  wc_fwrite :: int
  wc_fflush :: int
  wc_fsync :: int

definition WriteFun :: "int \<Rightarrow> write_call \<Rightarrow> request \<Rightarrow> int \<times> request" where
  "WriteFun max_write w r =
     (if wc_size w = 0 \<or> wc_nmemb w = 0 \<or> max_write < wc_size w * wc_nmemb w then (0, r)
      else if rq_isNeedStop r then (0, r)
      else if \<not> rq_hasFile r then (0, r)
      else if wc_fwrite w \<noteq> wc_nmemb w then (0, r)
      else let r1 = r\<lparr>rq_fsyncSize := rq_fsyncSize r + wc_size w * wc_nmemb w\<rparr>
        in if FSYNC_THRESHOLD max_write \<le> rq_fsyncSize r1 then
             (if wc_fflush w \<noteq> 0 then (0, r1)
              else if wc_fsync w \<noteq> 0 then (0, r1)
              else (wc_size w * wc_nmemb w, r1\<lparr>rq_fsyncSize := 0\<rparr>))
           else (wc_size w * wc_nmemb w, r1))"

text \<open>
  The write callbacks of one transfer: curl aborts the transfer at the first callback that
  does not take all its bytes.
\<close>

fun write_calls :: "int \<Rightarrow> write_call list \<Rightarrow> request \<Rightarrow> request" where
  "write_calls max_write [] r = r"
| "write_calls max_write (w # ws) r =
     (let (taken, r') = WriteFun max_write w r
      in if taken = wc_size w * wc_nmemb w then write_calls max_write ws r' else r')"

section \<open>Facts\<close>

text \<open>How many retries the settings allow.\<close>

definition retry_budget :: "int \<Rightarrow> int \<Rightarrow> nat" where
  "retry_budget maxRetryTimes retryInterval = (if 0 < retryInterval then nat maxRetryTimes else 0)"

lemma perform_loop_spec:
  "t \<le> retry_budget m i \<Longrightarrow> perform_loop curl m i t r = (r', k) \<Longrightarrow>
     \<exists>n. t \<le> n \<and> n \<le> retry_budget m i \<and> (nr_result r', nr_status r') = curl n
       \<and> (\<forall>j. t \<le> j \<longrightarrow> j < n \<longrightarrow> fst (curl j) \<noteq> 0)
       \<and> (if fst (curl n) = 0 then k = n else n = retry_budget m i \<and> k = Suc n)"
proof (induction curl m i t r arbitrary: r' k rule: perform_loop.induct)
  case (1 curl m i t r)
  obtain ret st where c: "curl t = (ret, st)" by (cases "curl t")
  let ?r1 = "r\<lparr>nr_result := ret, nr_status := st, nr_retryInfo := nr_retryInfo r @ to_string ret @ '',''\<rparr>"
  show ?case
  proof (cases "ret \<noteq> 0 \<and> int t < m \<and> 0 < i")
    case False
    have "perform_loop curl m i t r = (?r1, if ret = 0 then t else Suc t)"
      using False c by (subst perform_loop.simps) auto
    then have res: "(nr_result r', nr_status r') = curl t" "k = (if ret = 0 then t else Suc t)"
      using "1.prems"(2) c by auto
    have "ret \<noteq> 0 \<Longrightarrow> t = retry_budget m i"
      using "1.prems"(1) False by (auto simp: retry_budget_def split: if_splits)
    then show ?thesis using res c "1.prems"(1) by (intro exI [of _ t]) auto
  next
    case True
    then have ne: "ret \<noteq> 0" and more: "int t < m \<and> 0 < i" by auto
    have le: "t + 1 \<le> retry_budget m i"
      using more by (simp add: retry_budget_def Suc_le_eq zless_nat_eq_int_zless)
    have run: "perform_loop curl m i (t + 1) ?r1 = (r', k)"
      using "1.prems"(2) True c by (subst (asm) perform_loop.simps) simp
    obtain n where n: "t + 1 \<le> n" "n \<le> retry_budget m i" "(nr_result r', nr_status r') = curl n"
        "\<forall>j. t + 1 \<le> j \<longrightarrow> j < n \<longrightarrow> fst (curl j) \<noteq> 0"
        "if fst (curl n) = 0 then k = n else n = retry_budget m i \<and> k = Suc n"
      using "1.IH" [OF c [symmetric] refl refl ne more le run] by blast
    have "\<forall>j. t \<le> j \<longrightarrow> j < n \<longrightarrow> fst (curl j) \<noteq> 0"
    proof (intro allI impI)
      fix j assume "t \<le> j" "j < n"
      then show "fst (curl j) \<noteq> 0" using n(4) c ne by (cases "j = t") auto
    qed
    then show ?thesis using n by (intro exI [of _ n]) simp
  qed
qed

lemma WriteFun_pending:
  assumes "0 \<le> rq_fsyncSize r" "rq_fsyncSize r < FSYNC_THRESHOLD mw" "0 \<le> mw"
    and "0 \<le> wc_size w * wc_nmemb w" "WriteFun mw w r = (taken, r')"
  shows "0 \<le> rq_fsyncSize r' \<and> rq_fsyncSize r' < FSYNC_THRESHOLD mw + mw \<and>
    (taken = wc_size w * wc_nmemb w \<longrightarrow> rq_fsyncSize r' < FSYNC_THRESHOLD mw)"
  using assms unfolding WriteFun_def Let_def by (auto split: if_splits)

text \<open>
  However many chunks arrive, and whether or not flushing fails, the bytes written since the last
  \<open>fsync\<close> stay below the threshold plus one write, hence below the roll-back size.
\<close>

lemma write_calls_pending:
  assumes "0 \<le> rq_fsyncSize r" "rq_fsyncSize r < FSYNC_THRESHOLD mw" "0 \<le> mw"
    and "\<forall>w \<in> set ws. 0 \<le> wc_size w \<and> 0 \<le> wc_nmemb w"
  shows "0 \<le> rq_fsyncSize (write_calls mw ws r) \<and> rq_fsyncSize (write_calls mw ws r) < FSYNC_THRESHOLD mw + mw"
  using assms
proof (induction ws arbitrary: r)
  case Nil
  then show ?case by simp
next
  case (Cons w ws)
  obtain taken r' where w: "WriteFun mw w r = (taken, r')" by (cases "WriteFun mw w r")
  have pos: "0 \<le> wc_size w * wc_nmemb w" using Cons.prems(4) by simp
  have p: "0 \<le> rq_fsyncSize r' \<and> rq_fsyncSize r' < FSYNC_THRESHOLD mw + mw \<and>
      (taken = wc_size w * wc_nmemb w \<longrightarrow> rq_fsyncSize r' < FSYNC_THRESHOLD mw)"
    by (rule WriteFun_pending [OF Cons.prems(1-3) pos w])
  show ?case
    using p Cons.IH [of r'] Cons.prems(3,4) by (simp add: w)
qed

end
