(* ===== verification/Download_Common.thy ===== *)
theory Download_Common
  imports Net_Manager Network_Request
begin

text \<open>
  The data of the download engine: the enumerations and structures of
  \<open>services/core/ability/download/common/include/download_common.h\<close> and
  \<open>services/core/ability/download/task/include/download_callback.h\<close>, with the member
  functions that decide how a package is treated. The members that only choose a sleep between two reads (the
  delay-strategy key) or are assigned by the database (the row id) are left out.
\<close>

abbreviation (input) DOWNLOAD_MAX_PERCENT :: int where "DOWNLOAD_MAX_PERCENT \<equiv> 100"

datatype DownloadEndReason =
    R_INIT | R_SUCCESS | R_DOWNLOADING | R_FAIL | R_VERIFY_FAIL | R_IO_EXCEPTION | R_REDIRECT
  | R_SERVER_TIMEOUT | R_PAUSE | R_CANCEL | R_NO_ENOUGH_MEMORY | R_NET_NOT_AVAILIABLE
  | R_DOWNLOAD_INFO_EMPTY | R_CURL_ERROR | R_SYSTEM_BUSY | R_INIT_PACKAGE_FAIL | R_NET_CHANGE
  | R_SIZE_ERROR | R_FINISH_SIZE_ERROR

fun reason_code :: "DownloadEndReason \<Rightarrow> int" where
  "reason_code R_INIT = 0" | "reason_code R_SUCCESS = 1" | "reason_code R_DOWNLOADING = 2"
| "reason_code R_FAIL = 3" | "reason_code R_VERIFY_FAIL = 4" | "reason_code R_IO_EXCEPTION = 5"
| "reason_code R_REDIRECT = 6" | "reason_code R_SERVER_TIMEOUT = 7" | "reason_code R_PAUSE = 8"
| "reason_code R_CANCEL = 9" | "reason_code R_NO_ENOUGH_MEMORY = 10"
| "reason_code R_NET_NOT_AVAILIABLE = 11" | "reason_code R_DOWNLOAD_INFO_EMPTY = 12"
| "reason_code R_CURL_ERROR = 13" | "reason_code R_SYSTEM_BUSY = 14"
| "reason_code R_INIT_PACKAGE_FAIL = 15" | "reason_code R_NET_CHANGE = 16"
| "reason_code R_SIZE_ERROR = 17" | "reason_code R_FINISH_SIZE_ERROR = 18"

datatype DownloadStatus =
    DS_INIT | DS_DOWNLOADING | DS_PAUSE | DS_CANCEL | DS_FAIL | DS_SUCCESS | DS_VERIFYING | DS_AUTO_PAUSE

fun dstatus_code :: "DownloadStatus \<Rightarrow> int" where
  "dstatus_code DS_INIT = 0" | "dstatus_code DS_DOWNLOADING = 20" | "dstatus_code DS_PAUSE = 21"
| "dstatus_code DS_CANCEL = 22" | "dstatus_code DS_FAIL = 23" | "dstatus_code DS_SUCCESS = 24"
| "dstatus_code DS_VERIFYING = 25" | "dstatus_code DS_AUTO_PAUSE = 26"

datatype DownloadDirType = UN_ENCRYPT_DIR | ENCRYPT_DIR
datatype DownloadCallResult = CALL_SUCCESS | CALL_FAIL
datatype DownloadResult = RES_SUCCESS | RES_FAIL

record DownloadError =
  de_endReason :: DownloadEndReason
  de_errorNum :: DownloadCallResult

definition no_error :: DownloadError where
  "no_error = \<lparr>de_endReason = R_INIT, de_errorNum = CALL_SUCCESS\<rparr>"

definition build_error :: "DownloadEndReason \<Rightarrow> DownloadCallResult \<Rightarrow> DownloadError" where
  "build_error reason result = \<lparr>de_endReason = reason, de_errorNum = result\<rparr>"

record DownloadErrorInfo =
  ei_curlErrorCode :: int
  ei_httpErrorCode :: int
  ei_header :: "string list"
  ei_errorInfo :: string

definition empty_error_info :: DownloadErrorInfo where
  "empty_error_info = \<lparr>ei_curlErrorCode = 0, ei_httpErrorCode = 0, ei_header = [], ei_errorInfo = []\<rparr>"

record DownloadCallbackInfo =
  ci_downloadId :: string
  ci_downloadedSize :: int
  ci_startTime :: int
  ci_endTime :: int
  ci_effectiveTime :: int
  ci_status :: DownloadStatus
  ci_endReason :: DownloadEndReason
  ci_resetRetryTimes :: bool
  ci_errorInfo :: DownloadErrorInfo
  ci_verifiedSize :: int

text \<open>The defaults of the member initialisers.\<close>

definition new_callback_info :: DownloadCallbackInfo where
  "new_callback_info =
     \<lparr>ci_downloadId = [], ci_downloadedSize = 0, ci_startTime = 0, ci_endTime = 0, ci_effectiveTime = 0,
      ci_status = DS_DOWNLOADING, ci_endReason = R_INIT, ci_resetRetryTimes = False,
      ci_errorInfo = empty_error_info, ci_verifiedSize = 0\<rparr>"

record DownloadInfo =
  di_downloadId :: string
  di_versionId :: string
  di_taskId :: string
  di_url :: string
  di_header :: "(string, string) cmap"
  di_requestBody :: string
  di_method :: RequestMethod
  di_reserveUrl :: string
  di_path :: string
  di_verifyInfo :: string
  di_endReason :: DownloadEndReason
  di_status :: DownloadStatus
  di_dirType :: DownloadDirType
  di_netType :: NetType
  di_retryTimes :: int
  di_packageSize :: int
  di_downloadedSize :: int
  di_startTime :: int
  di_endTime :: int
  di_effectiveTime :: int
  di_isNeedAutoResume :: bool
  di_errorInfo :: DownloadErrorInfo
  di_isCombineVerifyProgress :: bool
  di_verifiedSize :: int
  di_isIgnoredFail :: bool
  di_reportInterval :: int

definition new_download_info :: DownloadInfo where
  "new_download_info =
     \<lparr>di_downloadId = [], di_versionId = [], di_taskId = [], di_url = [], di_header = [],
      di_requestBody = [], di_method = GET, di_reserveUrl = [], di_path = [],
      di_verifyInfo = [], di_endReason = R_INIT, di_status = DS_INIT, di_dirType = UN_ENCRYPT_DIR,
      di_netType = NOT_METERED_WIFI, di_retryTimes = 0, di_packageSize = 0, di_downloadedSize = 0,
      di_startTime = 0, di_endTime = 0, di_effectiveTime = 0, di_isNeedAutoResume = False,
      di_errorInfo = empty_error_info, di_isCombineVerifyProgress = False, di_verifiedSize = 0,
      di_isIgnoredFail = False, di_reportInterval = 0\<rparr>"

section \<open>Member functions of \<open>DownloadInfo\<close>\<close>

definition UpdateDownloadInfo :: "DownloadCallbackInfo \<Rightarrow> DownloadInfo \<Rightarrow> DownloadInfo" where
  "UpdateDownloadInfo info d =
     d\<lparr>di_status := ci_status info, di_endReason := ci_endReason info,
       di_downloadedSize := ci_downloadedSize info, di_startTime := ci_startTime info,
       di_endTime := ci_endTime info, di_errorInfo := ci_errorInfo info,
       di_effectiveTime := ci_effectiveTime info, di_verifiedSize := ci_verifiedSize info,
       di_retryTimes := (if ci_resetRetryTimes info then 0 else di_retryTimes d)\<rparr>"

definition is_completed :: "DownloadStatus \<Rightarrow> bool" where
  "is_completed s = (s = DS_SUCCESS \<or> s = DS_FAIL)"

definition IsCompleted :: "DownloadInfo \<Rightarrow> bool" where
  "IsCompleted d = is_completed (di_status d)"

definition IsNeedVerify :: "DownloadInfo \<Rightarrow> bool" where
  "IsNeedVerify d = ((\<not> IsCompleted d \<and> di_packageSize d = di_downloadedSize d) \<or> di_status d = DS_VERIFYING)"

definition IsManualPaused :: "DownloadInfo \<Rightarrow> bool" where
  "IsManualPaused d = (di_status d = DS_PAUSE)"

definition IsPaused :: "DownloadInfo \<Rightarrow> bool" where
  "IsPaused d = (di_status d = DS_PAUSE \<or> di_status d = DS_AUTO_PAUSE)"

definition GetTaskStatus :: "DownloadInfo \<Rightarrow> DownloadStatus" where
  "GetTaskStatus d = (if di_status d = DS_FAIL \<and> di_isIgnoredFail d then DS_SUCCESS else di_status d)"

abbreviation (input) MAX_RETRY_TIMES :: int where "MAX_RETRY_TIMES \<equiv> 3"

definition IsRetryAble :: "DownloadInfo \<Rightarrow> bool" where
  "IsRetryAble d = (di_retryTimes d < MAX_RETRY_TIMES)"

section \<open>Progress reports\<close>

record DownloadProgress =
  dp_id :: string
  dp_percent :: int
  dp_startTime :: int
  dp_endTime :: int
  dp_effectiveTime :: int
  dp_status :: DownloadStatus
  dp_reason :: DownloadEndReason
  dp_errorInfo :: DownloadErrorInfo
  dp_downloadUrl :: string
  dp_packageSize :: int
  dp_downloadedSize :: int
  dp_verifiedSize :: int
  dp_isCombineVerifyProgress :: bool

text \<open>The converting constructor; the product is computed in \<open>int64_t\<close> and cut to \<open>uint32_t\<close>.\<close>

definition mk_progress :: "DownloadInfo \<Rightarrow> DownloadProgress" where
  "mk_progress info =
     \<lparr>dp_id = di_versionId info,
      dp_percent = (if di_packageSize info = 0 then 0
        else u32 (cdiv (i64 (di_downloadedSize info * DOWNLOAD_MAX_PERCENT)) (di_packageSize info))),
      dp_startTime = di_startTime info, dp_endTime = di_endTime info,
      dp_effectiveTime = di_effectiveTime info, dp_status = di_status info,
      dp_reason = di_endReason info, dp_errorInfo = di_errorInfo info, dp_downloadUrl = di_url info,
      dp_packageSize = di_packageSize info, dp_downloadedSize = di_downloadedSize info,
      dp_verifiedSize = di_verifiedSize info,
      dp_isCombineVerifyProgress = di_isCombineVerifyProgress info\<rparr>"

record ProgressInfo =
  pi_taskProgress :: int
  pi_taskStatus :: DownloadStatus
  pi_reason :: DownloadEndReason
  pi_progresses :: "DownloadProgress list"
  pi_packageSize :: int
  pi_downloadedSize :: int
  pi_verifiedSize :: int

definition new_progress_info :: ProgressInfo where
  "new_progress_info =
     \<lparr>pi_taskProgress = 0, pi_taskStatus = DS_INIT, pi_reason = R_INIT, pi_progresses = [],
      pi_packageSize = 0, pi_downloadedSize = 0, pi_verifiedSize = 0\<rparr>"

definition IsDownloadFinished :: "ProgressInfo \<Rightarrow> bool" where
  "IsDownloadFinished p = (pi_taskStatus p = DS_SUCCESS \<or> pi_taskStatus p = DS_FAIL)"

definition IsTaskCompleted :: "ProgressInfo \<Rightarrow> bool" where
  "IsTaskCompleted p =
     (pi_taskStatus p = DS_SUCCESS \<or> pi_taskStatus p = DS_FAIL \<or> pi_taskStatus p = DS_CANCEL
      \<or> pi_taskStatus p = DS_AUTO_PAUSE \<or> pi_taskStatus p = DS_PAUSE)"

definition IsSyncCallback :: "ProgressInfo \<Rightarrow> bool" where
  "IsSyncCallback p = (pi_taskStatus p = DS_CANCEL \<or> pi_taskStatus p = DS_PAUSE)"

section \<open>Facts\<close>

lemma reason_code_inject: "reason_code a = reason_code b \<longleftrightarrow> a = b"
  by (cases a; cases b) simp_all

lemma dstatus_code_inject: "dstatus_code a = dstatus_code b \<longleftrightarrow> a = b"
  by (cases a; cases b) simp_all

lemma UpdateDownloadInfo_sel [simp]:
  "di_downloadId (UpdateDownloadInfo i d) = di_downloadId d"
  "di_status (UpdateDownloadInfo i d) = ci_status i"
  "di_netType (UpdateDownloadInfo i d) = di_netType d"
  "di_path (UpdateDownloadInfo i d) = di_path d"
  "di_taskId (UpdateDownloadInfo i d) = di_taskId d"
  "di_packageSize (UpdateDownloadInfo i d) = di_packageSize d"
  "di_downloadedSize (UpdateDownloadInfo i d) = ci_downloadedSize i"
  "di_endReason (UpdateDownloadInfo i d) = ci_endReason i"
  "di_isIgnoredFail (UpdateDownloadInfo i d) = di_isIgnoredFail d"
  "di_isNeedAutoResume (UpdateDownloadInfo i d) = di_isNeedAutoResume d"
  "di_retryTimes (UpdateDownloadInfo i d) = (if ci_resetRetryTimes i then 0 else di_retryTimes d)"
  by (simp_all add: UpdateDownloadInfo_def)

lemma no_error_sel [simp]: "de_errorNum no_error = CALL_SUCCESS" "de_endReason no_error = R_INIT"
  by (simp_all add: no_error_def)

lemma build_error_sel [simp]:
  "de_errorNum (build_error r c) = c" "de_endReason (build_error r c) = r"
  by (simp_all add: build_error_def)

text \<open>A report of a single package never exceeds one hundred percent while its sizes are sane.\<close>

lemma mk_progress_percent:
  assumes "0 < di_packageSize d" "0 \<le> di_downloadedSize d" "di_downloadedSize d \<le> di_packageSize d"
    and "di_packageSize d * 100 \<le> INT64_MAX"
  shows "0 \<le> dp_percent (mk_progress d) \<and> dp_percent (mk_progress d) \<le> 100"
proof -
  let ?q = "(di_downloadedSize d * 100) div di_packageSize d"
  have mul: "i64 (di_downloadedSize d * 100) = di_downloadedSize d * 100"
    using assms by (intro i64_id) auto
  have q0: "0 \<le> ?q" using assms by (simp add: pos_imp_zdiv_nonneg_iff)
  have "?q \<le> (di_packageSize d * 100) div di_packageSize d"
    using assms by (intro zdiv_mono1) auto
  then have q1: "?q \<le> 100" using assms by simp
  have "dp_percent (mk_progress d) = ?q"
    using assms mul q0 q1 by (simp add: mk_progress_def cdiv_nonneg u32_id)
  then show ?thesis using q0 q1 by simp
qed

end
