(* ===== verification/Table_Store.thy ===== *)
theory Table_Store
  imports Update_Prelude "HOL-Library.AList"
begin

text \<open>
  The table layer: \<open>services/core/ability/sqlite/core/include/table_base_operator.h\<close>,
  \<open>itable.h\<close> and \<open>sqlite_db.cpp\<close>. The relational store below them is not part of the repository:
  a table is the list of its rows in insertion order with the next automatic id, and \<open>tb_up\<close> says
  whether \<open>GetDbStore\<close> yields a store (every operation fails without one). A row gives the value
  of each column; a value is an integer or a text, as \<open>ValuesBucket\<close> holds them.
\<close>

datatype db_value = DbInt int | DbStr string

type_synonym db_row = "(string \<times> db_value) list"
type_synonym db_predicate = "(string \<times> db_value) list"

record db_table =
  tb_up :: bool
  tb_rows :: "db_row list"
  tb_nextId :: int

definition COLUMN_ID :: string where
  "COLUMN_ID = ''id''"

section \<open>Columns\<close>

text \<open>
  \<open>GetColumnValue\<close> leaves the variable as it was when the column cannot be read. An \<open>int\<close> or
  \<open>bool\<close> is read with \<open>GetInt\<close>, an \<open>int64_t\<close> with \<open>GetLong\<close>. A \<open>bool\<close> becomes false
  when its column exists and \<open>GetInt\<close> fails.
\<close>

definition get_str :: "db_row \<Rightarrow> string \<Rightarrow> string \<Rightarrow> string" where
  "get_str row col v = (case map_of row col of Some (DbStr s) \<Rightarrow> s | _ \<Rightarrow> v)"

definition get_int :: "db_row \<Rightarrow> string \<Rightarrow> int \<Rightarrow> int" where
  "get_int row col v = (case map_of row col of Some (DbInt i) \<Rightarrow> i32 i | _ \<Rightarrow> v)"

definition get_long :: "db_row \<Rightarrow> string \<Rightarrow> int \<Rightarrow> int" where
  "get_long row col v = (case map_of row col of Some (DbInt i) \<Rightarrow> i64 i | _ \<Rightarrow> v)"

definition get_bool :: "db_row \<Rightarrow> string \<Rightarrow> bool \<Rightarrow> bool" where
  "get_bool row col v = (case map_of row col of Some (DbInt i) \<Rightarrow> i32 i \<noteq> 0 | Some (DbStr s) \<Rightarrow> False | None \<Rightarrow> v)"

definition put_str :: "string \<Rightarrow> string \<Rightarrow> string \<times> db_value" where
  "put_str col s = (col, DbStr s)"

definition put_int :: "string \<Rightarrow> int \<Rightarrow> string \<times> db_value" where
  "put_int col i = (col, DbInt (i32 i))"

definition put_long :: "string \<Rightarrow> int \<Rightarrow> string \<times> db_value" where
  "put_long col i = (col, DbInt (i64 i))"

definition put_bool :: "string \<Rightarrow> bool \<Rightarrow> string \<times> db_value" where
  "put_bool col b = (col, DbInt (if b then 1 else 0))"

section \<open>The operations of \<open>TableBaseOperator\<close>\<close>

text \<open>\<open>EqualTo\<close> for every pair.\<close>

definition row_matches :: "db_predicate \<Rightarrow> db_row \<Rightarrow> bool" where
  "row_matches preds row = list_all (\<lambda>(col, v). map_of row col = Some v) preds"

definition row_set :: "db_predicate \<Rightarrow> db_row \<Rightarrow> db_row" where
  "row_set vals row = fold (\<lambda>(col, v). AList.update col v) vals row"

fun insert_rows :: "db_row list \<Rightarrow> db_table \<Rightarrow> db_table" where
  "insert_rows [] t = t"
| "insert_rows (vals # rest) t =
     insert_rows rest (t\<lparr>tb_rows := tb_rows t @ [(COLUMN_ID, DbInt (tb_nextId t)) # vals],
                         tb_nextId := tb_nextId t + 1\<rparr>)"

definition table_Insert :: "('a \<Rightarrow> db_row) \<Rightarrow> 'a list \<Rightarrow> db_table \<Rightarrow> bool \<times> db_table" where
  "table_Insert build vals t = (if tb_up t then (True, insert_rows (map build vals) t) else (False, t))"

definition table_Delete :: "db_predicate \<Rightarrow> db_table \<Rightarrow> bool \<times> db_table" where
  "table_Delete preds t =
     (if tb_up t then (True, t\<lparr>tb_rows := filter (\<lambda>r. \<not> row_matches preds r) (tb_rows t)\<rparr>) else (False, t))"

definition table_DeleteAll :: "db_table \<Rightarrow> bool \<times> db_table" where
  "table_DeleteAll t = table_Delete [] t"

definition table_Query :: "(db_row \<Rightarrow> 'a) \<Rightarrow> db_predicate \<Rightarrow> db_table \<Rightarrow> bool \<times> 'a list" where
  "table_Query parse preds t =
     (if tb_up t then (True, map parse (filter (row_matches preds) (tb_rows t))) else (False, []))"

definition table_QueryAll :: "(db_row \<Rightarrow> 'a) \<Rightarrow> db_table \<Rightarrow> bool \<times> 'a list" where
  "table_QueryAll parse t = table_Query parse [] t"

definition table_Update :: "db_predicate \<Rightarrow> db_predicate \<Rightarrow> db_table \<Rightarrow> bool \<times> db_table" where
  "table_Update vals preds t =
     (if tb_up t
      then (True, t\<lparr>tb_rows := map (\<lambda>r. if row_matches preds r then row_set vals r else r) (tb_rows t)\<rparr>)
      else (False, t))"

section \<open>Facts\<close>

lemma row_matches_Nil [simp]: "row_matches [] row"
  by (simp add: row_matches_def)

lemma table_up [simp]:
  "tb_up (snd (table_Insert b vs t)) = tb_up t"
  "tb_up (snd (table_Delete p t)) = tb_up t"
  "tb_up (snd (table_DeleteAll t)) = tb_up t"
  "tb_up (snd (table_Update ws p t)) = tb_up t"
proof -
  have "tb_up (insert_rows rs t) = tb_up t" for rs
    by (induct rs t rule: insert_rows.induct) auto
  then show "tb_up (snd (table_Insert b vs t)) = tb_up t" by (simp add: table_Insert_def)
qed (simp_all add: table_Delete_def table_DeleteAll_def table_Update_def)

lemma map_of_row_set:
  "map_of (row_set vals row) col = (case map_of (rev vals) col of Some v \<Rightarrow> Some v | None \<Rightarrow> map_of row col)"
proof (induction vals arbitrary: row)
  case Nil
  then show ?case by (simp add: row_set_def)
next
  case (Cons x vals)
  obtain c v where x: "x = (c, v)" by (cases x)
  have "map_of (row_set (x # vals) row) col = map_of (row_set vals (AList.update c v row)) col"
    by (simp add: row_set_def x)
  also have "\<dots> = (case map_of (rev vals) col of Some v \<Rightarrow> Some v | None \<Rightarrow> map_of (AList.update c v row) col)"
    by (rule Cons.IH)
  finally show ?case
    by (auto simp: x update_conv' map_add_def split: option.splits)
qed

lemma insert_rows_shape:
  "\<exists>ids. length ids = length vs \<and>
     tb_rows (insert_rows vs t) = tb_rows t @ map2 (\<lambda>i v. (COLUMN_ID, DbInt i) # v) ids vs"
proof (induction vs t rule: insert_rows.induct)
  case (1 t)
  then show ?case by simp
next
  case (2 v rest t)
  then obtain ids where ids: "length ids = length rest"
    "tb_rows (insert_rows (v # rest) t)
       = (tb_rows t @ [(COLUMN_ID, DbInt (tb_nextId t)) # v]) @ map2 (\<lambda>i v. (COLUMN_ID, DbInt i) # v) ids rest"
    by auto
  then show ?case by (intro exI [of _ "tb_nextId t # ids"]) simp
qed

lemma table_DeleteAll_empty: "tb_up t \<Longrightarrow> tb_rows (snd (table_DeleteAll t)) = []"
  by (simp add: table_DeleteAll_def table_Delete_def)

text \<open>
  The contract of a table: reading back a row that was built from a value gives the value as far as
  it is stored (\<open>keep\<close> forgets the members that have no column), for the values in \<open>valid\<close>.
\<close>

locale table_codec =
  fixes build :: "'a \<Rightarrow> db_row" and parse :: "db_row \<Rightarrow> 'a" and keep :: "'a \<Rightarrow> 'a" and valid :: "'a \<Rightarrow> bool"
  assumes parse_build: "valid v \<Longrightarrow> keep (parse ((COLUMN_ID, DbInt i) # build v)) = keep v"
begin

lemma query_after_insert:
  assumes "tb_up t" "tb_rows t = []" "\<forall>v \<in> set vs. valid v"
  shows "map keep (snd (table_QueryAll parse (snd (table_Insert build vs t)))) = map keep vs"
proof -
  obtain ids where ids: "length ids = length (map build vs)"
    and rows: "tb_rows (insert_rows (map build vs) t)
      = tb_rows t @ map2 (\<lambda>i v. (COLUMN_ID, DbInt i) # v) ids (map build vs)"
    using insert_rows_shape by blast
  have up: "tb_up (insert_rows (map build vs) t)"
    using table_up(1) [of build vs t] assms(1) by (simp add: table_Insert_def)
  have "map keep (map parse (map2 (\<lambda>i v. (COLUMN_ID, DbInt i) # v) ids (map build vs))) = map keep vs"
    using ids assms(3)
  proof (induction vs arbitrary: ids)
    case Nil
    then show ?case by simp
  next
    case (Cons v vs)
    then obtain i ids' where "ids = i # ids'" by (cases ids) auto
    with Cons show ?case by (simp add: parse_build)
  qed
  then show ?thesis
    using rows up assms(1,2) by (simp add: table_Insert_def table_QueryAll_def table_Query_def)
qed

lemma length_query_after_insert:
  assumes "tb_up t" "tb_rows t = []"
  shows "length (snd (table_QueryAll parse (snd (table_Insert build vs t)))) = length vs"
proof -
  obtain ids where "length ids = length (map build vs)"
    and "tb_rows (insert_rows (map build vs) t)
      = tb_rows t @ map2 (\<lambda>i v. (COLUMN_ID, DbInt i) # v) ids (map build vs)"
    using insert_rows_shape by blast
  moreover have "tb_up (insert_rows (map build vs) t)"
    using table_up(1) [of build vs t] assms(1) by (simp add: table_Insert_def)
  ultimately show ?thesis
    using assms by (simp add: table_Insert_def table_QueryAll_def table_Query_def)
qed

lemma replace_all_rows:
  assumes "tb_up t" "\<forall>v \<in> set vs. valid v"
  shows "map keep (snd (table_QueryAll parse (snd (table_Insert build vs (snd (table_DeleteAll t)))))) = map keep vs"
  using assms by (intro query_after_insert) (simp_all add: table_DeleteAll_empty)

end

section \<open>Tables with a key column\<close>

text \<open>
  Most operators select rows by the text in one column. The contract: the column can be read off the
  parsed value. It gives the effect of an update, a query and a deletion on the parsed values, for
  tables in which every row has the column.
\<close>

definition has_text :: "string \<Rightarrow> db_row \<Rightarrow> bool" where
  "has_text col row = (case map_of row col of Some (DbStr s) \<Rightarrow> True | _ \<Rightarrow> False)"

definition column_text :: "string \<Rightarrow> db_table \<Rightarrow> bool" where
  "column_text col t = list_all (has_text col) (tb_rows t)"

definition assigns_text :: "string \<Rightarrow> db_predicate \<Rightarrow> bool" where
  "assigns_text col vals = list_all (\<lambda>(c, v). c = col \<longrightarrow> (case v of DbStr s \<Rightarrow> True | _ \<Rightarrow> False)) vals"

lemma has_textE: "has_text col row \<Longrightarrow> (\<And>s. map_of row col = Some (DbStr s) \<Longrightarrow> P) \<Longrightarrow> P"
  by (auto simp: has_text_def split: option.splits db_value.splits)

lemma has_text_row_set: "has_text col row \<Longrightarrow> assigns_text col vals \<Longrightarrow> has_text col (row_set vals row)"
  by (fastforce simp: has_text_def map_of_row_set assigns_text_def list_all_iff
      split: option.splits db_value.splits dest!: map_of_SomeD)

lemma column_text_Update:
  "column_text col t \<Longrightarrow> assigns_text col vals \<Longrightarrow> column_text col (snd (table_Update vals preds t))"
  by (auto simp: column_text_def table_Update_def list_all_iff has_text_row_set)

lemma column_text_Delete: "column_text col t \<Longrightarrow> column_text col (snd (table_Delete preds t))"
  by (auto simp: column_text_def table_Delete_def list_all_iff)

lemma column_text_DeleteAll: "column_text col t \<Longrightarrow> column_text col (snd (table_DeleteAll t))"
  by (simp add: table_DeleteAll_def column_text_Delete)

lemma column_text_insert_rows:
  "column_text col t \<Longrightarrow> col \<noteq> COLUMN_ID \<Longrightarrow> list_all (has_text col) vs \<Longrightarrow> column_text col (insert_rows vs t)"
  by (induction vs t rule: insert_rows.induct) (auto simp: column_text_def has_text_def)

lemma column_text_Insert:
  "column_text col t \<Longrightarrow> col \<noteq> COLUMN_ID \<Longrightarrow> (\<And>v. has_text col (build v)) \<Longrightarrow>
     column_text col (snd (table_Insert build vs t))"
  by (simp add: table_Insert_def column_text_insert_rows list_all_iff)

lemmas column_text_simps = column_text_Update column_text_Delete column_text_DeleteAll column_text_Insert

lemma table_rows_sel [simp]:
  "tb_up t \<Longrightarrow> tb_rows (snd (table_Update vals preds t))
     = map (\<lambda>r. if row_matches preds r then row_set vals r else r) (tb_rows t)"
  "tb_up t \<Longrightarrow> tb_rows (snd (table_Delete preds t)) = filter (\<lambda>r. \<not> row_matches preds r) (tb_rows t)"
  "tb_up t \<Longrightarrow> snd (table_Query parse preds t) = map parse (filter (row_matches preds) (tb_rows t))"
  "tb_up t \<Longrightarrow> snd (table_QueryAll parse t) = map parse (tb_rows t)"
  by (simp_all add: table_Update_def table_Delete_def table_Query_def table_QueryAll_def)

locale keyed_table =
  fixes parse :: "db_row \<Rightarrow> 'a" and col :: string and key :: "'a \<Rightarrow> string"
  assumes key_parse: "map_of row col = Some (DbStr k) \<Longrightarrow> key (parse row) = k"
begin

lemma matches_key: "has_text col row \<Longrightarrow> row_matches [(col, DbStr k)] row \<longleftrightarrow> key (parse row) = k"
  by (auto simp: row_matches_def key_parse elim!: has_textE)

lemma update_by_key:
  assumes "tb_up t" "column_text col t" "\<And>row. parse (row_set vals row) = f (parse row)"
  shows "snd (table_QueryAll parse (snd (table_Update vals [(col, DbStr k)] t)))
    = map (\<lambda>v. if key v = k then f v else v) (snd (table_QueryAll parse t))"
  using assms by (auto simp: column_text_def list_all_iff matches_key)

lemma query_by_key:
  assumes "tb_up t" "column_text col t"
  shows "snd (table_Query parse [(col, DbStr k)] t) = filter (\<lambda>v. key v = k) (snd (table_QueryAll parse t))"
proof -
  have "filter (row_matches [(col, DbStr k)]) (tb_rows t) = filter (\<lambda>r. key (parse r) = k) (tb_rows t)"
    using assms(2) by (intro filter_cong) (auto simp: column_text_def list_all_iff matches_key)
  then show ?thesis using assms(1) by (simp add: filter_map o_def)
qed

lemma delete_by_key:
  assumes "tb_up t" "column_text col t"
  shows "snd (table_QueryAll parse (snd (table_Delete [(col, DbStr k)] t)))
    = filter (\<lambda>v. key v \<noteq> k) (snd (table_QueryAll parse t))"
proof -
  have "filter (\<lambda>r. \<not> row_matches [(col, DbStr k)] r) (tb_rows t) = filter (\<lambda>r. key (parse r) \<noteq> k) (tb_rows t)"
    using assms(2) by (intro filter_cong) (auto simp: column_text_def list_all_iff matches_key)
  then show ?thesis using assms(1) by (simp add: filter_map o_def)
qed

end

end
