(* ===== verification/Download_Table.thy ===== *)
theory Download_Table
  imports Download_Common Table_Store
begin

text \<open>
  The table of download packages: \<open>services/core/ability/download/data/src/download_info_table.cpp\<close>
  and \<open>download_info_operator.cpp\<close>. The columns are those of \<open>download_info_table_const.h\<close>.
\<close>

section \<open>Enumerations as stored\<close>

text \<open>\<open>static_cast\<close> from the stored number; other numbers are not stored by the code below.\<close>

definition reason_of_code :: "int \<Rightarrow> DownloadEndReason" where
  "reason_of_code n =
     (case find (\<lambda>r. reason_code r = n)
        [R_INIT, R_SUCCESS, R_DOWNLOADING, R_FAIL, R_VERIFY_FAIL, R_IO_EXCEPTION, R_REDIRECT, R_SERVER_TIMEOUT,
         R_PAUSE, R_CANCEL, R_NO_ENOUGH_MEMORY, R_NET_NOT_AVAILIABLE, R_DOWNLOAD_INFO_EMPTY, R_CURL_ERROR,
         R_SYSTEM_BUSY, R_INIT_PACKAGE_FAIL, R_NET_CHANGE, R_SIZE_ERROR, R_FINISH_SIZE_ERROR] of
        Some r \<Rightarrow> r | None \<Rightarrow> R_INIT)"

definition dstatus_of_code :: "int \<Rightarrow> DownloadStatus" where
  "dstatus_of_code n =
     (case find (\<lambda>s. dstatus_code s = n)
        [DS_INIT, DS_DOWNLOADING, DS_PAUSE, DS_CANCEL, DS_FAIL, DS_SUCCESS, DS_VERIFYING, DS_AUTO_PAUSE] of
        Some s \<Rightarrow> s | None \<Rightarrow> DS_INIT)"

fun dirtype_code :: "DownloadDirType \<Rightarrow> int" where
  "dirtype_code UN_ENCRYPT_DIR = 0" | "dirtype_code ENCRYPT_DIR = 1"

definition dirtype_of_code :: "int \<Rightarrow> DownloadDirType" where
  "dirtype_of_code n = (if n = 1 then ENCRYPT_DIR else UN_ENCRYPT_DIR)"

fun method_code :: "RequestMethod \<Rightarrow> int" where
  "method_code POST = 0" | "method_code GET = 1"

definition method_of_code :: "int \<Rightarrow> RequestMethod" where
  "method_of_code n = (if n = 0 then POST else GET)"

definition nettype_of_code :: "int \<Rightarrow> NetType" where
  "nettype_of_code n =
     (case find (\<lambda>t. uint (net_code t) = n)
        [NO_NET, CELLULAR, METERED_WIFI, NOT_METERED_WIFI, CELLULAR_AND_METERED_WIFI,
         CELLULAR_AND_NOT_METERED_WIFI, WIFI, CELLULAR_AND_WIFI] of
        Some t \<Rightarrow> t | None \<Rightarrow> NO_NET)"

lemma reason_of_code [simp]: "reason_of_code (reason_code r) = r"
  by (cases r) (simp_all add: reason_of_code_def)

lemma dstatus_of_code [simp]: "dstatus_of_code (dstatus_code s) = s"
  by (cases s) (simp_all add: dstatus_of_code_def)

lemma dirtype_of_code [simp]: "dirtype_of_code (dirtype_code d) = d"
  by (cases d) (simp_all add: dirtype_of_code_def)

lemma method_of_code [simp]: "method_of_code (method_code m) = m"
  by (cases m) (simp_all add: method_of_code_def)

lemma nettype_of_code [simp]: "nettype_of_code (uint (net_code t)) = t"
  by (cases t) (simp_all add: nettype_of_code_def)

lemma i32_reason_code [simp]: "i32 (reason_code r) = reason_code r"
  by (cases r) (simp_all add: i32_def)

lemma i32_dstatus_code [simp]: "i32 (dstatus_code s) = dstatus_code s"
  by (cases s) (simp_all add: i32_def)

lemma i32_dirtype_code [simp]: "i32 (dirtype_code d) = dirtype_code d"
  by (cases d) (simp_all add: i32_def)

lemma i32_method_code [simp]: "i32 (method_code m) = method_code m"
  by (cases m) (simp_all add: i32_def)

lemma i32_net_code [simp]: "i32 (uint (net_code t)) = uint (net_code t)"
  by (cases t) (simp_all add: i32_def)

section \<open>The header column\<close>

definition Concatenate :: "(string, string) cmap \<Rightarrow> string" where
  "Concatenate inputMap = concat (map (\<lambda>(k, v). k @ '':'' @ v @ ''|'') inputMap)"

text \<open>One element of the split text; \<open>insert\<close> keeps the entry that is already there.\<close>

definition split_element :: "string \<Rightarrow> (string, string) cmap \<Rightarrow> (string, string) cmap" where
  "split_element element m =
     (case find_pos (\<lambda>c. c = CHR '':'') element of
        None \<Rightarrow> m
      | Some p \<Rightarrow>
          if cm_has (take p element) m then m
          else cm_put (take p element) (drop (p + 1) element) m)"

definition Split2Map :: "string \<Rightarrow> (string, string) cmap" where
  "Split2Map str = fold split_element (Split str CHR ''|'') []"

text \<open>The texts that survive: the separators do not occur where they would be taken for structure.\<close>

definition header_ok :: "(string, string) cmap \<Rightarrow> bool" where
  "header_ok m = (cm_ok m \<and> (\<forall>(k, v) \<in> set m. CHR '':'' \<notin> set k \<and> CHR ''|'' \<notin> set k \<and> CHR ''|'' \<notin> set v))"

lemma Split_step:
  assumes "x \<noteq> []" "d \<notin> set x"
  shows "Split (x @ d # rest) d = x # Split rest d"
proof -
  have hd: "dropWhile (\<lambda>c. c = d) (x @ d # rest) = x @ d # rest"
    using assms by (cases x) auto
  have tw: "takeWhile (\<lambda>c. c \<noteq> d) (x @ d # rest) = x" "dropWhile (\<lambda>c. c \<noteq> d) (x @ d # rest) = d # rest"
    using assms(2) by (simp_all add: takeWhile_append dropWhile_append)
  have "Split (d # rest) d = Split rest d"
    by (simp add: Split.simps [of "d # rest"] Split.simps [of rest])
  then show ?thesis
    using assms(1) by (subst Split.simps) (simp add: Let_def hd tw)
qed

lemma Split_Nil: "Split [] d = []"
  by (simp add: Split.simps)

lemma Split_Concatenate:
  "header_ok m \<Longrightarrow> Split (Concatenate m) CHR ''|'' = map (\<lambda>(k, v). k @ '':'' @ v) m"
proof (induction m)
  case Nil
  then show ?case by (simp add: Concatenate_def Split_Nil)
next
  case (Cons e m)
  obtain k v where e: "e = (k, v)" by (cases e)
  have ok: "header_ok m" using Cons.prems by (auto simp: header_ok_def cm_ok_def)
  have "Concatenate (e # m) = (k @ '':'' @ v) @ CHR ''|'' # Concatenate m"
    by (simp add: Concatenate_def e)
  moreover have "CHR ''|'' \<notin> set (k @ '':'' @ v)"
    using Cons.prems by (auto simp: header_ok_def e)
  ultimately have "Split (Concatenate (e # m)) CHR ''|'' = (k @ '':'' @ v) # Split (Concatenate m) CHR ''|''"
    using Split_step [of "k @ '':'' @ v"] by simp
  then show ?case using Cons.IH [OF ok] by (simp add: e)
qed

lemma cm_put_last: "\<forall>x \<in> set (map fst m). x < k \<Longrightarrow> cm_put k v m = m @ [(k, v)]"
  by (induction m) (auto simp: order.asym)

lemma split_elements:
  "cm_ok (acc @ m) \<Longrightarrow> \<forall>(k, v) \<in> set m. CHR '':'' \<notin> set k \<Longrightarrow>
     fold split_element (map (\<lambda>(k, v). k @ '':'' @ v) m) acc = acc @ m"
proof (induction m arbitrary: acc)
  case Nil
  then show ?case by simp
next
  case (Cons e m)
  obtain k v where e: "e = (k, v)" by (cases e)
  have pos: "find_pos (\<lambda>c. c = CHR '':'') (k @ CHR '':'' # v) = Some (length k)"
    using Cons.prems(2) e by (intro find_pos_append) auto
  have lt: "\<forall>x \<in> set (map fst acc). x < k"
  proof
    fix x assume x: "x \<in> set (map fst acc)"
    from Cons.prems(1) x have "x \<le> k" "x \<noteq> k"
      by (auto simp: cm_ok_def sorted_append e)
    then show "x < k" by simp
  qed
  then have "\<not> cm_has k acc" by (auto simp: cm_has_def)
  then have step: "split_element (k @ CHR '':'' # v) acc = acc @ [(k, v)]"
    using lt by (simp add: split_element_def pos cm_put_last)
  show ?case
    using Cons.IH [of "acc @ [(k, v)]"] Cons.prems by (simp add: e step)
qed

lemma Split2Map_Concatenate: "header_ok m \<Longrightarrow> Split2Map (Concatenate m) = m"
  using split_elements [of "[]" m] by (auto simp: Split2Map_def Split_Concatenate header_ok_def)

section \<open>Rows of the table\<close>

definition download_BuildDbValue :: "DownloadInfo \<Rightarrow> db_row" where
  "download_BuildDbValue v =
     [put_str ''downloadId'' (di_downloadId v), put_str ''versionId'' (di_versionId v),
      put_str ''taskId'' (di_taskId v), put_str ''url'' (di_url v), put_str ''reserveUrl'' (di_reserveUrl v),
      put_str ''path'' (di_path v), put_str ''veriftInfo'' (di_verifyInfo v),
      put_str ''header'' (Concatenate (di_header v)), put_str ''requestBody'' (di_requestBody v),
      put_int ''endReason'' (reason_code (di_endReason v)), put_int ''status'' (dstatus_code (di_status v)),
      put_int ''mode'' (dirtype_code (di_dirType v)), put_int ''netType'' (uint (net_code (di_netType v))),
      put_int ''method'' (method_code (di_method v)), put_int ''retryTimes'' (di_retryTimes v),
      put_long ''packageSize'' (di_packageSize v), put_long ''downloadedSize'' (di_downloadedSize v),
      put_bool ''isNeedAutoResume'' (di_isNeedAutoResume v), put_long ''startTime'' (di_startTime v),
      put_long ''endTime'' (di_endTime v), put_long ''effectiveTime'' (di_effectiveTime v),
      put_bool ''isCombineVerifyProgress'' (di_isCombineVerifyProgress v),
      put_long ''verifiedSize'' (di_verifiedSize v), put_bool ''extends1'' (di_isIgnoredFail v)]"

definition download_ParseDbValue :: "db_row \<Rightarrow> DownloadInfo" where
  "download_ParseDbValue row = (let d = new_download_info in
     d\<lparr>di_downloadId := get_str row ''downloadId'' (di_downloadId d),
       di_versionId := get_str row ''versionId'' (di_versionId d),
       di_taskId := get_str row ''taskId'' (di_taskId d),
       di_url := get_str row ''url'' (di_url d),
       di_reserveUrl := get_str row ''reserveUrl'' (di_reserveUrl d),
       di_path := get_str row ''path'' (di_path d),
       di_verifyInfo := get_str row ''veriftInfo'' (di_verifyInfo d),
       di_header := Split2Map (get_str row ''header'' []),
       di_requestBody := get_str row ''requestBody'' (di_requestBody d),
       di_endReason := reason_of_code (get_int row ''endReason'' (reason_code R_INIT)),
       di_status := dstatus_of_code (get_int row ''status'' (dstatus_code DS_DOWNLOADING)),
       di_dirType := dirtype_of_code (get_int row ''mode'' (dirtype_code UN_ENCRYPT_DIR)),
       di_netType := nettype_of_code (get_int row ''netType'' (uint (net_code NO_NET))),
       di_method := method_of_code (get_int row ''method'' (method_code GET)),
       di_retryTimes := get_int row ''retryTimes'' (di_retryTimes d),
       di_packageSize := get_long row ''packageSize'' (di_packageSize d),
       di_downloadedSize := get_long row ''downloadedSize'' (di_downloadedSize d),
       di_isNeedAutoResume := get_bool row ''isNeedAutoResume'' (di_isNeedAutoResume d),
       di_startTime := get_long row ''startTime'' (di_startTime d),
       di_endTime := get_long row ''endTime'' (di_endTime d),
       di_effectiveTime := get_long row ''effectiveTime'' (di_effectiveTime d),
       di_isCombineVerifyProgress := get_bool row ''isCombineVerifyProgress'' (di_isCombineVerifyProgress d),
       di_verifiedSize := get_long row ''verifiedSize'' (di_verifiedSize d),
       di_isIgnoredFail := get_bool row ''extends1'' (di_isIgnoredFail d)\<rparr>)"

text \<open>The two members without a column, and the values whose numbers fit their types.\<close>

definition download_keep :: "DownloadInfo \<Rightarrow> DownloadInfo" where
  "download_keep d = d\<lparr>di_errorInfo := empty_error_info, di_reportInterval := 0\<rparr>"

definition is_i32 :: "int \<Rightarrow> bool" where "is_i32 x = (- 2147483648 \<le> x \<and> x \<le> 2147483647)"
definition is_i64 :: "int \<Rightarrow> bool" where "is_i64 x = (INT64_MIN \<le> x \<and> x \<le> INT64_MAX)"

definition download_valid :: "DownloadInfo \<Rightarrow> bool" where
  "download_valid d =
     (header_ok (di_header d) \<and> is_i32 (di_retryTimes d) \<and> is_i64 (di_packageSize d)
      \<and> is_i64 (di_downloadedSize d) \<and> is_i64 (di_startTime d) \<and> is_i64 (di_endTime d)
      \<and> is_i64 (di_effectiveTime d) \<and> is_i64 (di_verifiedSize d))"

lemma i32_idem [simp]: "i32 (i32 x) = i32 x"
  by (simp add: i32_def mod_simps)

lemma i64_idem [simp]: "i64 (i64 x) = i64 x"
  by (simp add: i64_def mod_simps)

lemma is_i32_id [simp]: "is_i32 x \<Longrightarrow> i32 x = x"
  by (simp add: is_i32_def i32_id)

lemma is_i64_id [simp]: "is_i64 x \<Longrightarrow> i64 x = x"
  by (simp add: is_i64_def i64_id)

lemmas get_put = get_str_def get_int_def get_long_def get_bool_def put_str_def put_int_def put_long_def
  put_bool_def COLUMN_ID_def

lemma i32_bit [simp]: "i32 (if b then 1 else 0) = (if b then 1 else 0)"
  by (simp add: i32_def)

lemma download_parse_build:
  assumes "download_valid v"
  shows "download_keep (download_ParseDbValue ((COLUMN_ID, DbInt i) # download_BuildDbValue v)) = download_keep v"
  using assms
  by (simp add: download_keep_def download_ParseDbValue_def download_BuildDbValue_def get_put Let_def
      download_valid_def Split2Map_Concatenate new_download_info_def)

interpretation download_codec: table_codec download_BuildDbValue download_ParseDbValue download_keep download_valid
  by unfold_locales (rule download_parse_build)

section \<open>\<open>DownloadInfoOperator\<close>\<close>

definition download_Insert :: "DownloadInfo \<Rightarrow> db_table \<Rightarrow> db_table" where
  "download_Insert d t = snd (table_Insert download_BuildDbValue [d] t)"

definition DeleteDownloadInfo :: "DownloadInfo \<Rightarrow> db_table \<Rightarrow> db_table" where
  "DeleteDownloadInfo d t = snd (table_Delete [(''downloadId'', DbStr (di_downloadId d))] t)"

definition UpdateProgressById :: "DownloadInfo \<Rightarrow> db_table \<Rightarrow> bool \<times> db_table" where
  "UpdateProgressById d t =
     table_Update
       [put_int ''endReason'' (reason_code (di_endReason d)), put_int ''status'' (dstatus_code (di_status d)),
        put_long ''downloadedSize'' (di_downloadedSize d), put_long ''startTime'' (di_startTime d),
        put_long ''endTime'' (di_endTime d), put_long ''effectiveTime'' (di_effectiveTime d),
        put_long ''verifiedSize'' (di_verifiedSize d)]
       [(''downloadId'', DbStr (di_downloadId d))] t"

definition UpdateStatusById :: "DownloadInfo \<Rightarrow> db_table \<Rightarrow> bool \<times> db_table" where
  "UpdateStatusById d t =
     table_Update [put_int ''status'' (dstatus_code (di_status d))] [(''downloadId'', DbStr (di_downloadId d))] t"

definition UpdateRetryTimesById :: "DownloadInfo \<Rightarrow> db_table \<Rightarrow> bool \<times> db_table" where
  "UpdateRetryTimesById d t =
     table_Update [put_int ''retryTimes'' (di_retryTimes d)] [(''downloadId'', DbStr (di_downloadId d))] t"

definition UpdateNetTypeById :: "DownloadInfo \<Rightarrow> db_table \<Rightarrow> bool \<times> db_table" where
  "UpdateNetTypeById d t =
     table_Update [put_int ''netType'' (uint (net_code (di_netType d)))]
       [(''downloadId'', DbStr (di_downloadId d))] t"

definition DeleteByTaskId :: "string \<Rightarrow> db_table \<Rightarrow> db_table" where
  "DeleteByTaskId taskId t = snd (table_Delete [(''taskId'', DbStr taskId)] t)"

definition download_QueryAll :: "db_table \<Rightarrow> DownloadInfo list" where
  "download_QueryAll t = snd (table_QueryAll download_ParseDbValue t)"

end
