(* ===== verification/File_Utils.thy ===== *)
theory File_Utils
  imports Cxx_Strings
begin

text \<open>
  The file helpers of \<open>services/core/ability/utils/src/file_utils.cpp\<close> and the digest check of
  \<open>sha256_utils.cpp\<close>, over a file system that maps a path to what lies there. The operating
  system's refusals (no permission, no space) are the argument \<open>os_ok\<close>; the digest itself, which
  OpenSSL computes, is the argument \<open>sha\<close> from a file's bytes to its hexadecimal text.
\<close>

datatype fnode = Directory int | Regular string

type_synonym file_system = "string \<Rightarrow> fnode option"

section \<open>Paths\<close>

definition is_slash :: "char \<Rightarrow> bool" where
  "is_slash c = (c = CHR ''/'')"

text \<open>\<open>std::filesystem::path::parent_path\<close>: empty for a name without a slash, the root for a
  path directly below it.\<close>

definition GetParentDir :: "string \<Rightarrow> string" where
  "GetParentDir fileDir =
     (case find_last_pos is_slash fileDir of
        None \<Rightarrow> []
      | Some p \<Rightarrow>
          let dir = rev (dropWhile is_slash (rev (take p fileDir)))
          in if dir = [] then ''/'' else dir)"

definition GetCurrentDir :: "string \<Rightarrow> string" where
  "GetCurrentDir fileDir =
     (if fileDir \<noteq> [] \<and> last fileDir = CHR ''/'' then GetParentDir fileDir else fileDir)"

definition has_dot_segment :: "string \<Rightarrow> bool" where
  "has_dot_segment name = (find_sub ''/.'' name \<noteq> None \<or> find_sub ''./'' name \<noteq> None)"

section \<open>Queries\<close>

definition IsFileExist :: "file_system \<Rightarrow> string \<Rightarrow> bool" where
  "IsFileExist fs fileName = (fs fileName \<noteq> None)"

definition GetFileSize :: "file_system \<Rightarrow> string \<Rightarrow> int" where
  "GetFileSize fs fileName =
     (case fs fileName of Some (Regular content) \<Rightarrow> int (length content) | _ \<Rightarrow> 0)"

text \<open>\<open>IsSpaceEnough\<close>: \<open>statfs\<close> answers the block size and the blocks available, or fails. The
  required space is reinterpreted as \<open>uint64_t\<close>.\<close>

definition IsSpaceEnough :: "(int \<times> int) option \<Rightarrow> int \<Rightarrow> bool" where
  "IsSpaceEnough statfs requiredSpace =
     (let freeSpace = (case statfs of Some (bsize, bavail) \<Rightarrow> (bsize * bavail) mod 2 ^ 64 | None \<Rightarrow> 0)
      in requiredSpace mod 2 ^ 64 \<le> freeSpace)"

section \<open>Creating directories\<close>

definition CreatDirWithPermission ::
  "(string \<Rightarrow> bool) \<Rightarrow> string \<Rightarrow> int \<Rightarrow> file_system \<Rightarrow> bool \<times> file_system" where
  "CreatDirWithPermission os_ok fileDir dirPermission fs =
     (if fileDir = [] \<or> has_dot_segment fileDir then (False, fs)
      else case fs fileDir of
        Some (Regular c) \<Rightarrow> (False, fs)
      | Some (Directory p) \<Rightarrow>
          if os_ok fileDir then (True, fs(fileDir \<mapsto> Directory dirPermission)) else (False, fs)
      | None \<Rightarrow>
          (case fs (GetParentDir fileDir) of
             Some (Directory q) \<Rightarrow>
               if os_ok fileDir then (True, fs(fileDir \<mapsto> Directory dirPermission)) else (False, fs)
           | _ \<Rightarrow> (False, fs)))"

text \<open>The \<open>do ... while\<close> that collects the missing directories, the outermost one on top.\<close>

partial_function (option) missing_dirs :: "file_system \<Rightarrow> string \<Rightarrow> string list \<Rightarrow> string list option" where
  "missing_dirs fs curDir dirStack =
     (if GetParentDir curDir \<noteq> [] \<and> \<not> IsFileExist fs (GetParentDir curDir)
      then missing_dirs fs (GetParentDir curDir) (curDir # dirStack)
      else Some (curDir # dirStack))"

fun create_dirs ::
  "(string \<Rightarrow> bool) \<Rightarrow> int \<Rightarrow> string list \<Rightarrow> file_system \<Rightarrow> bool \<times> file_system" where
  "create_dirs os_ok permission [] fs = (True, fs)"
| "create_dirs os_ok permission (d # ds) fs =
     (case CreatDirWithPermission os_ok d permission fs of
        (True, fs') \<Rightarrow> create_dirs os_ok permission ds fs'
      | (False, fs') \<Rightarrow> (False, fs'))"

definition CreateMultiDirWithPermission ::
  "(string, int) cmap \<Rightarrow> (string \<Rightarrow> bool) \<Rightarrow> string \<Rightarrow> int \<Rightarrow> file_system \<Rightarrow> (bool \<times> file_system) option" where
  "CreateMultiDirWithPermission baseDirMap os_ok fileDir permission fs =
     (let curDir = GetCurrentDir fileDir
      in if IsFileExist fs curDir then Some (True, fs)
         else map_option
           (\<lambda>dirs. create_dirs os_ok
              (case map_of baseDirMap fileDir of Some p \<Rightarrow> p | None \<Rightarrow> permission) dirs fs)
           (missing_dirs fs curDir []))"

text \<open>\<open>DeleteFile\<close> removes the tree below a path, with or without the path itself.\<close>

definition is_below :: "string \<Rightarrow> string \<Rightarrow> bool" where
  "is_below root p =
     (length root < length p \<and> take (length root) p = root
      \<and> (p ! length root = CHR ''/'' \<or> root = ''/''))"

definition DeleteFile :: "string \<Rightarrow> bool \<Rightarrow> file_system \<Rightarrow> file_system" where
  "DeleteFile rootPath isDeleteRootDir fs =
     (if \<not> IsFileExist fs rootPath then fs
      else (\<lambda>p. if is_below rootPath p \<or> (isDeleteRootDir \<and> p = rootPath) then None else fs p))"

text \<open>The base directories of the service: each is created when it is missing, and its permission is remembered.\<close>

record DirInfo =
  dr_dirName :: string
  dr_dirPermissions :: int
  dr_isAllowDestroyContents :: bool

definition InitAndCreateBaseDirs ::
  "(string \<Rightarrow> bool) \<Rightarrow> DirInfo list \<Rightarrow> (string, int) cmap \<times> file_system \<Rightarrow> (string, int) cmap \<times> file_system" where
  "InitAndCreateBaseDirs os_ok dirInfos st =
     fold (\<lambda>d (m, fs). (cm_put (dr_dirName d) (dr_dirPermissions d) m,
        if IsFileExist fs (dr_dirName d) then fs
        else snd (CreatDirWithPermission os_ok (dr_dirName d) (dr_dirPermissions d) fs))) dirInfos st"

definition DestroyBaseDirectory :: "DirInfo list \<Rightarrow> file_system \<Rightarrow> file_system" where
  "DestroyBaseDirectory dirInfos fs =
     fold (\<lambda>d fs. if dr_isAllowDestroyContents d then DeleteFile (dr_dirName d) False fs else fs) dirInfos fs"

definition GetFileRealPath :: "(string \<Rightarrow> string option) \<Rightarrow> string \<Rightarrow> string" where
  "GetFileRealPath realpath filePath =
     (if filePath = [] then []
      else case find_last_pos is_slash filePath of
        None \<Rightarrow> []
      | Some p \<Rightarrow>
          (case realpath (take p filePath) of
             None \<Rightarrow> []
           | Some real \<Rightarrow> real @ ''/'' @ drop (p + 1) filePath))"

section \<open>The digest check\<close>

datatype Sha256ErrCode = SHA_SUCCESS | SHA_FILE_NOT_EXIST | SHA_NOT_MATCH | SHA_OBTAIN_FAIL

fun sha_err_code :: "Sha256ErrCode \<Rightarrow> int" where
  "sha_err_code SHA_SUCCESS = 0" | "sha_err_code SHA_FILE_NOT_EXIST = -1"
| "sha_err_code SHA_NOT_MATCH = -2" | "sha_err_code SHA_OBTAIN_FAIL = -3"

definition cxx_tolower :: "char \<Rightarrow> char" where
  "cxx_tolower c =
     (let n = (of_char c :: nat) in if 65 \<le> n \<and> n \<le> 90 then char_of (n + 32) else c)"

definition strcaseeq :: "string \<Rightarrow> string \<Rightarrow> bool" where
  "strcaseeq a b = (map cxx_tolower a = map cxx_tolower b)"

text \<open>
  \<open>GetFileSha256Str\<close> ignores the answer of \<open>GetDigestFromFile\<close>: when the file cannot be read
  (\<open>readable\<close> is false) it formats the digest buffer as it was initialised, all zero. Formatting
  never fails, since the buffer of 65 characters holds the 32 bytes.
\<close>

definition zero_digest :: string where
  "zero_digest = replicate 64 CHR ''0''"

definition GetFileSha256Str :: "(string \<Rightarrow> string) \<Rightarrow> bool \<Rightarrow> file_system \<Rightarrow> string \<Rightarrow> string" where
  "GetFileSha256Str sha readable fs fileName =
     (case fs fileName of
        Some (Regular content) \<Rightarrow> if readable then sha content else zero_digest
      | _ \<Rightarrow> zero_digest)"

definition GetFileSha256VerifyResult ::
  "(string \<Rightarrow> string) \<Rightarrow> bool \<Rightarrow> file_system \<Rightarrow> string \<Rightarrow> string \<Rightarrow> Sha256ErrCode \<times> string" where
  "GetFileSha256VerifyResult sha readable fs fileName sha256String =
     (if \<not> IsFileExist fs fileName then (SHA_FILE_NOT_EXIST, [])
      else let result = GetFileSha256Str sha readable fs fileName
        in if \<not> strcaseeq result sha256String then (SHA_NOT_MATCH, result)
           else (SHA_SUCCESS, []))"

definition CheckFileSha256String ::
  "(string \<Rightarrow> string) \<Rightarrow> bool \<Rightarrow> file_system \<Rightarrow> string \<Rightarrow> string \<Rightarrow> bool" where
  "CheckFileSha256String sha readable fs fileName sha256String =
     (IsFileExist fs fileName \<and> strcaseeq (GetFileSha256Str sha readable fs fileName) sha256String)"

text \<open>The sizes \<open>GetDigestFromFile\<close> reports while it reads the file in blocks of 1024 bytes; the
  last read meets the end of the file, so it reports the size once more on a block boundary.\<close>

definition SHA_BUFFER_LENGTH :: nat where
  "SHA_BUFFER_LENGTH = 1024"

definition verify_sizes :: "nat \<Rightarrow> int list" where
  "verify_sizes n = map (\<lambda>k. int (min ((k + 1) * SHA_BUFFER_LENGTH) n)) [0 ..< n div SHA_BUFFER_LENGTH + 1]"

definition verify_reports :: "bool \<Rightarrow> file_system \<Rightarrow> string \<Rightarrow> int list" where
  "verify_reports readable fs fileName =
     (case fs fileName of
        Some (Regular content) \<Rightarrow> if readable then verify_sizes (length content) else []
      | _ \<Rightarrow> [])"

section \<open>Facts\<close>

lemma GetFileSize_nonneg [simp]: "0 \<le> GetFileSize fs p"
  by (simp add: GetFileSize_def split: option.split fnode.split)

lemma GetParentDir_shorter: "GetParentDir s \<noteq> [] \<Longrightarrow> s \<noteq> ''/'' \<Longrightarrow> length (GetParentDir s) < length s \<or> GetParentDir s = ''/''"
proof -
  assume ne: "GetParentDir s \<noteq> []" and "s \<noteq> ''/''"
  then obtain p where p: "find_last_pos is_slash s = Some p"
    by (auto simp: GetParentDir_def split: option.splits)
  have "p < length s" using find_last_pos_Some [OF p] by simp
  moreover have "length (dropWhile is_slash (rev (take p s))) \<le> length (rev (take p s))"
    by (rule length_dropWhile_le)
  ultimately show ?thesis using p by (auto simp: GetParentDir_def Let_def)
qed

lemma missing_dirs_returns:
  assumes root: "IsFileExist fs ''/''"
  shows "\<exists>dirs. missing_dirs fs s stack = Some dirs"
proof (induction "length s" arbitrary: s stack rule: less_induct)
  case less
  let ?p = "GetParentDir s"
  show ?case
  proof (cases "?p \<noteq> [] \<and> \<not> IsFileExist fs ?p")
    case False
    then show ?thesis by (subst missing_dirs.simps) auto
  next
    case True
    then have np: "?p \<noteq> ''/''" using root by auto
    have "s \<noteq> ''/''"
    proof
      assume "s = ''/''"
      moreover have "GetParentDir ''/'' = ''/''" by code_simp
      ultimately have "?p = ''/''" by simp
      with np show False by simp
    qed
    then have "length ?p < length s" using GetParentDir_shorter True np by blast
    then obtain dirs where "missing_dirs fs ?p (s # stack) = Some dirs" using less by blast
    then show ?thesis using True by (subst missing_dirs.simps) auto
  qed
qed

lemma missing_dirs_last: "missing_dirs fs s stack = Some dirs \<Longrightarrow> \<exists>pre. dirs = pre @ s # stack"
proof (induction rule: missing_dirs.raw_induct [rotated 1, consumes 1])
  case (1 f fs s stack dirs)
  show ?case
  proof (cases "GetParentDir s \<noteq> [] \<and> \<not> IsFileExist fs (GetParentDir s)")
    case True
    with "1"(2) have "f fs (GetParentDir s) (s # stack) = Some dirs" by simp
    from "1"(1) [OF this] obtain pre where "dirs = pre @ GetParentDir s # s # stack" by auto
    then show ?thesis by (intro exI [of _ "pre @ [GetParentDir s]"]) simp
  next
    case False
    with "1"(2) show ?thesis by auto
  qed
qed

lemma CreatDir_exists:
  "CreatDirWithPermission os_ok d perm fs = (b, fs') \<Longrightarrow>
     (\<forall>p. IsFileExist fs p \<longrightarrow> IsFileExist fs' p) \<and> (b \<longrightarrow> IsFileExist fs' d)"
  by (auto simp: CreatDirWithPermission_def IsFileExist_def split: if_splits option.splits fnode.splits)

lemma create_dirs_exist:
  "create_dirs os_ok perm ds fs = (b, fs') \<Longrightarrow>
     (\<forall>p. IsFileExist fs p \<longrightarrow> IsFileExist fs' p) \<and> (b \<longrightarrow> (\<forall>d \<in> set ds. IsFileExist fs' d))"
proof (induction ds arbitrary: fs)
  case Nil
  then show ?case by simp
next
  case (Cons d ds)
  obtain b1 fs1 where c: "CreatDirWithPermission os_ok d perm fs = (b1, fs1)"
    by (cases "CreatDirWithPermission os_ok d perm fs")
  show ?case
    using Cons.prems Cons.IH [of fs1] CreatDir_exists [OF c] by (cases b1) (auto simp: c)
qed

lemma CreateMultiDir_exists:
  assumes "CreateMultiDirWithPermission bm os_ok dir perm fs = Some (True, fs')"
  shows "IsFileExist fs' (GetCurrentDir dir)"
proof (cases "IsFileExist fs (GetCurrentDir dir)")
  case True
  with assms show ?thesis by (simp add: CreateMultiDirWithPermission_def)
next
  case False
  with assms obtain dirs where d: "missing_dirs fs (GetCurrentDir dir) [] = Some dirs"
    and run: "create_dirs os_ok (case map_of bm dir of Some p \<Rightarrow> p | None \<Rightarrow> perm) dirs fs = (True, fs')"
    by (auto simp: CreateMultiDirWithPermission_def)
  have "GetCurrentDir dir \<in> set dirs" using missing_dirs_last [OF d] by auto
  then show ?thesis using create_dirs_exist [OF run] by blast
qed

lemma GetFileSha256VerifyResult_success:
  "fst (GetFileSha256VerifyResult sha readable fs name expected) = SHA_SUCCESS \<longleftrightarrow>
     IsFileExist fs name \<and> strcaseeq (GetFileSha256Str sha readable fs name) expected"
  by (simp add: GetFileSha256VerifyResult_def Let_def)

lemma GetFileSha256VerifyResult_never_obtain_fail:
  "fst (GetFileSha256VerifyResult sha readable fs name expected) \<noteq> SHA_OBTAIN_FAIL"
  by (simp add: GetFileSha256VerifyResult_def Let_def)

lemma verify_sizes_bounds: "v \<in> set (verify_sizes n) \<Longrightarrow> 0 \<le> v \<and> v \<le> int n"
  unfolding verify_sizes_def set_map by (elim imageE) (simp only: of_nat_0_le_iff of_nat_le_iff min.cobounded2)

lemma verify_sizes_last: "last (verify_sizes n) = int n"
proof -
  let ?m = "n div SHA_BUFFER_LENGTH"
  have "n mod SHA_BUFFER_LENGTH < SHA_BUFFER_LENGTH" by (simp add: SHA_BUFFER_LENGTH_def)
  then have "n \<le> (?m + 1) * SHA_BUFFER_LENGTH"
    unfolding add_mult_distrib mult_1_left
    using div_mult_mod_eq [of n SHA_BUFFER_LENGTH] by linarith
  then have "min ((?m + 1) * SHA_BUFFER_LENGTH) n = n" by (rule min.absorb2)
  moreover have "last (verify_sizes n) = int (min ((?m + 1) * SHA_BUFFER_LENGTH) n)"
    by (simp add: verify_sizes_def)
  ultimately show ?thesis by (simp only:)
qed

end
