(* ===== verification/Foundation_Claims.thy ===== *)
theory Foundation_Claims
  imports Download_Table File_Utils
begin

text \<open>
  The properties of the layers under the download service: the string helpers, the network
  observer, the HTTP request, the file helpers and the table of packages.
\<close>

section \<open>Strings\<close>

lemma replace_from_empty:
  assumes "replace_from sub new s pos = Some r"
  shows "\<not> (sub = [] \<and> pos \<le> length s)"
proof (rule replace_from.raw_induct [where P = "\<lambda>sub new s pos r. \<not> (sub = [] \<and> pos \<le> length s)", OF _ assms])
  fix f :: "string \<Rightarrow> string \<Rightarrow> string \<Rightarrow> nat \<Rightarrow> string option" and sub new s pos r
  assume IH: "\<And>sub new s pos r. f sub new s pos = Some r \<Longrightarrow> \<not> (sub = [] \<and> pos \<le> length s)"
    and eq: "(case find_sub_from sub s pos of None \<Rightarrow> Some s
      | Some p \<Rightarrow> f sub new (take p s @ new @ drop (p + length sub) s) (p + length new)) = Some r"
  show "\<not> (sub = [] \<and> pos \<le> length s)"
  proof
    assume a: "sub = [] \<and> pos \<le> length s"
    then have "find_sub_from sub s pos = Some pos"
      by (cases "drop pos s") (simp_all add: find_sub_from_def)
    with eq a IH show False by fastforce
  qed
qed

text \<open>Replacing all occurrences of a text does what the left-to-right reference definition says, and
  never returns exactly when the text to replace is empty.\<close>

theorem ReplaceStringAll_reference:
  "ReplaceStringAll s sub new = (if sub = [] then None else Some (replace_all sub new s))"
  using replace_from_empty [of "[]" new s 0] ReplaceStringAll_eq [of sub s new]
  by (cases "replace_from [] new s 0") (auto simp: ReplaceStringAll_def)

text \<open>A decimal text written by \<open>std::to_string\<close> is read back as the number, when it fits the type.\<close>

theorem number_text_roundtrip:
  assumes "lo \<le> i" "i \<le> hi"
  shows "DecStringToNumber lo hi (to_string i) old = (SCR_SUCCESS, i)"
  by (rule DecStringToNumber_to_string [OF assms])

theorem number_text_roundtrip_witness:
  "DecStringToNumber INT64_MIN INT64_MAX (to_string (- 42)) 0 = (SCR_SUCCESS, - 42)"
  using number_text_roundtrip [of INT64_MIN "- 42" INT64_MAX 0] by simp

section \<open>The network observer\<close>

text \<open>A change of the network is delivered to every callback registered for the new type, in the order of
  the registry. The notification returns exactly when no selected callback is null; with a null
  function in a selected entry the loop does not advance and runs for ever.\<close>

theorem net_change_notifies:
  "OnNetChange t m =
     (if \<not> IsBaseNetType t then Some (m, False)
      else if t = nm_type m then Some (m, True)
      else if \<exists>e \<in> set (nm_callbacks m). t \<in> set (nc_types (snd e)) \<and> nc_function (snd e) = None then None
      else Some (m\<lparr>nm_type := t, nm_calls := nm_calls m @ selected_calls t (nm_callbacks m)\<rparr>, True))"
proof (cases "\<exists>e \<in> set (nm_callbacks m). stuck_entry t e")
  case True
  then have "notify_loop t (nm_callbacks m) (nm_calls m) = None"
    using notify_loop_returned_not_stuck by (metis option.exhaust)
  then show ?thesis using True by (simp add: OnNetChange_def stuck_entry_def)
next
  case False
  then show ?thesis
    using notify_loop_returns [of "nm_callbacks m" t "nm_calls m"] by (auto simp: OnNetChange_def stuck_entry_def)
qed

section \<open>The request\<close>

text \<open>A request is repeated until the first success or until the retries the settings allow are used up: the
  answer is that of the last attempt, every earlier attempt failed, and no attempt beyond the budget
  is made.\<close>

theorem request_retries:
  "\<exists>n \<le> (if 0 < rq_retryInterval r then nat (rq_maxRetryTimes r) else 0).
     (nr_result (PerformCurlRequest curl r resp), nr_status (PerformCurlRequest curl r resp)) = curl n
     \<and> (\<forall>j < n. fst (curl j) \<noteq> 0)
     \<and> (fst (curl n) \<noteq> 0 \<longrightarrow> n = (if 0 < rq_retryInterval r then nat (rq_maxRetryTimes r) else 0))"
proof -
  obtain r' k where run: "perform_loop curl (rq_maxRetryTimes r) (rq_retryInterval r) 0
      (resp\<lparr>nr_retryInfo := nr_retryInfo resp @ rq_url r @ '':''\<rparr>) = (r', k)" by fastforce
  from perform_loop_spec [OF _ this] obtain n where
    "n \<le> retry_budget (rq_maxRetryTimes r) (rq_retryInterval r)" "(nr_result r', nr_status r') = curl n"
    "\<forall>j < n. fst (curl j) \<noteq> 0" "fst (curl n) \<noteq> 0 \<longrightarrow> n = retry_budget (rq_maxRetryTimes r) (rq_retryInterval r)"
    by (auto split: if_splits)
  then show ?thesis
    by (intro exI [of _ n]) (simp add: PerformCurlRequest_def run retry_budget_def)
qed

definition ex_request :: request where
  "ex_request = new_request\<lparr>rq_url := ''https://a/b'', rq_maxRetryTimes := 2, rq_retryInterval := 1, rq_hasFile := True\<rparr>"

definition ex_curl :: "nat \<Rightarrow> int \<times> int" where
  "ex_curl k = (if k = 1 then (0, 200) else (28, 0))"

theorem request_retries_witness:
  "nr_status (PerformCurlRequest ex_curl ex_request new_response) = 200"
proof -
  have "0 < rq_retryInterval ex_request" "nat (rq_maxRetryTimes ex_request) = 2"
    by (simp_all add: ex_request_def new_request_def)
  then obtain n where n: "n \<le> 2" "\<forall>j < n. fst (ex_curl j) \<noteq> 0" "fst (ex_curl n) \<noteq> 0 \<longrightarrow> n = 2"
      "nr_status (PerformCurlRequest ex_curl ex_request new_response) = snd (ex_curl n)"
    using request_retries [of ex_request ex_curl new_response] by (auto simp: prod_eq_iff)
  have "n = 1" using n(2,3) by (cases "fst (ex_curl n) = 0") (auto simp: ex_curl_def split: if_splits)
  then show ?thesis using n(4) by (simp add: ex_curl_def)
qed

text \<open>However many chunks a transfer writes and whichever flushes fail, the bytes not yet synchronised stay
  below the size a resumed download rolls back by, so a roll-back always reaches synchronised data.\<close>

theorem unsynchronised_bytes_bound:
  assumes "0 \<le> rq_fsyncSize r" "rq_fsyncSize r < FSYNC_THRESHOLD mw" "0 \<le> mw"
    and "\<forall>w \<in> set ws. 0 \<le> wc_size w \<and> 0 \<le> wc_nmemb w"
  shows "rq_fsyncSize (write_calls mw ws r) < MIN_FILE_DOWNLOAD_SIZE"
  using write_calls_pending [OF assms] assms(3) by (simp add: FSYNC_THRESHOLD_def)

theorem unsynchronised_bytes_bound_witness:
  "rq_fsyncSize (write_calls 16384 (replicate 700 \<lparr>wc_size = 1, wc_nmemb = 16384, wc_fwrite = 16384, wc_fflush = 0,
     wc_fsync = 0\<rparr>) ex_request) < MIN_FILE_DOWNLOAD_SIZE"
  using unsynchronised_bytes_bound [of ex_request 16384]
  by (auto simp: ex_request_def new_request_def FSYNC_THRESHOLD_def MIN_FILE_DOWNLOAD_SIZE_def)

section \<open>Files\<close>

lemma CreateMultiDir_keeps:
  assumes "CreateMultiDirWithPermission bm os_ok dir perm fs = Some (b, fs')" "IsFileExist fs p"
  shows "IsFileExist fs' p"
proof (cases "IsFileExist fs (GetCurrentDir dir)")
  case True
  then show ?thesis using assms by (simp add: CreateMultiDirWithPermission_def)
next
  case False
  then obtain dirs where "create_dirs os_ok (case map_of bm dir of Some p \<Rightarrow> p | None \<Rightarrow> perm) dirs fs = (b, fs')"
    using assms(1) by (auto simp: CreateMultiDirWithPermission_def)
  then show ?thesis using create_dirs_exist assms(2) by blast
qed

text \<open>Creating the directories of a download path always ends, and when it answers true the directory exists
  and nothing that existed before is gone.\<close>

theorem directories_are_created:
  assumes "IsFileExist fs ''/''"
  shows "\<exists>b fs'. CreateMultiDirWithPermission bm os_ok dir perm fs = Some (b, fs')
     \<and> (b \<longrightarrow> IsFileExist fs' (GetCurrentDir dir)) \<and> (\<forall>p. IsFileExist fs p \<longrightarrow> IsFileExist fs' p)"
proof -
  obtain dirs where "missing_dirs fs (GetCurrentDir dir) [] = Some dirs"
    using missing_dirs_returns [OF assms] by blast
  then have "CreateMultiDirWithPermission bm os_ok dir perm fs \<noteq> None"
    by (simp only: CreateMultiDirWithPermission_def Let_def) auto
  then obtain b fs' where "CreateMultiDirWithPermission bm os_ok dir perm fs = Some (b, fs')" by auto
  note run = this
  show ?thesis
    by (intro exI [of _ b] exI [of _ fs'] conjI impI allI run)
      (use CreateMultiDir_exists CreateMultiDir_keeps run in auto)
qed

theorem directories_are_created_witness:
  "\<exists>b fs'. CreateMultiDirWithPermission [] (\<lambda>_. True) ''/data/a/b/'' 504 [''/'' \<mapsto> Directory 493] = Some (b, fs')
     \<and> IsFileExist fs' ''/''"
proof -
  have "IsFileExist [''/'' \<mapsto> Directory 493] ''/''" by (simp add: IsFileExist_def)
  from directories_are_created [OF this, of "[]" "\<lambda>_. True" "''/data/a/b/''" 504] this show ?thesis by blast
qed

section \<open>The table of packages\<close>

text \<open>The request headers of a package are read back from their column as they were written, when no key
  holds a colon or a bar and no value holds a bar.\<close>

theorem header_text_roundtrip:
  assumes "cm_ok m" "\<forall>(k, v) \<in> set m. CHR '':'' \<notin> set k \<and> CHR ''|'' \<notin> set k \<and> CHR ''|'' \<notin> set v"
  shows "Split2Map (Concatenate m) = m"
  using Split2Map_Concatenate assms by (simp add: header_ok_def)

theorem header_text_roundtrip_witness:
  "Split2Map (Concatenate [(''Accept'', ''*/*''), (''Host'', ''a:80'')]) = [(''Accept'', ''*/*''), (''Host'', ''a:80'')]"
proof -
  have "cm_ok [(''Accept'', ''*/*''), (''Host'', ''a:80'')]" by code_simp
  then show ?thesis using header_text_roundtrip by simp
qed

text \<open>Rewriting the table of packages and reading it back gives the packages, except for the error detail
  and the report interval, which have no column.\<close>

theorem packages_roundtrip:
  assumes "tb_up t" "\<forall>d \<in> set ds. download_valid d"
  shows "map download_keep (snd (table_QueryAll download_ParseDbValue
     (snd (table_Insert download_BuildDbValue ds (snd (table_DeleteAll t)))))) = map download_keep ds"
  by (rule download_codec.replace_all_rows [OF assms])

definition ex_table :: db_table where
  "ex_table = \<lparr>tb_up = True, tb_rows = [], tb_nextId = 1\<rparr>"

definition ex_package :: DownloadInfo where
  "ex_package = new_download_info\<lparr>di_downloadId := ''v'', di_versionId := ''v'', di_packageSize := 5000000000,
     di_header := [(''Host'', ''a'')]\<rparr>"

theorem packages_roundtrip_witness:
  "map download_keep (snd (table_QueryAll download_ParseDbValue
     (snd (table_Insert download_BuildDbValue [ex_package] (snd (table_DeleteAll ex_table)))))) = [download_keep ex_package]"
proof -
  have "tb_up ex_table" "\<forall>d \<in> set [ex_package]. download_valid d" by code_simp+
  then show ?thesis using packages_roundtrip by fastforce
qed

end
