(* ===== verification/Download_Progress.thy ===== *)
theory Download_Progress
  imports Download_Common
begin

text \<open>
  The aggregation of package states into the state of a download task,
  \<open>task/src/download_task_progress_processor.cpp\<close>. The processor shares the package objects
  with the task and the service; here the current objects are an argument of its operations.
\<close>

record processor =
  pp_totalInfoSize :: int
  pp_packageSize :: int
  pp_downloadedSize :: int
  pp_verifiedSize :: int
  pp_status :: DownloadStatus
  pp_endReason :: DownloadEndReason

text \<open>The constructor's loop over the packages.\<close>

fun processor_add :: "processor \<Rightarrow> DownloadInfo list \<Rightarrow> processor" where
  "processor_add p [] = p"
| "processor_add p (d # ds) = processor_add
     (p\<lparr>pp_totalInfoSize := pp_totalInfoSize p + 1,
        pp_packageSize := i64 (pp_packageSize p + di_packageSize d),
        pp_downloadedSize := i64 (pp_downloadedSize p + di_downloadedSize d)\<rparr>) ds"

definition new_processor :: "DownloadInfo list \<Rightarrow> processor" where
  "new_processor ds = processor_add
     \<lparr>pp_totalInfoSize = 0, pp_packageSize = 0, pp_downloadedSize = 0, pp_verifiedSize = 0,
      pp_status = DS_INIT, pp_endReason = R_INIT\<rparr> ds"

section \<open>Status of the task\<close>

type_synonym count_map = "DownloadStatus \<rightharpoonup> int"

definition GetStatusCount :: "count_map \<Rightarrow> DownloadStatus \<Rightarrow> int" where
  "GetStatusCount countMap status = (case countMap status of None \<Rightarrow> 0 | Some n \<Rightarrow> n)"

definition CalcDownloadTaskStatus :: "int \<Rightarrow> count_map \<Rightarrow> DownloadStatus" where
  "CalcDownloadTaskStatus totalInfoSize countMap =
     (if GetStatusCount countMap DS_SUCCESS = totalInfoSize then DS_SUCCESS
      else if GetStatusCount countMap DS_DOWNLOADING \<noteq> 0 \<or> GetStatusCount countMap DS_VERIFYING \<noteq> 0
        then DS_DOWNLOADING
      else if GetStatusCount countMap DS_PAUSE \<noteq> 0 then DS_PAUSE
      else if GetStatusCount countMap DS_AUTO_PAUSE \<noteq> 0 then DS_AUTO_PAUSE
      else if GetStatusCount countMap DS_CANCEL \<noteq> 0 then DS_CANCEL
      else if GetStatusCount countMap DS_FAIL \<noteq> 0 then DS_FAIL
      else DS_DOWNLOADING)"

record tally_state =
  tl_downloadSize :: int
  tl_verifiedSize :: int
  tl_countMap :: count_map
  tl_endReasonMap :: "DownloadStatus \<rightharpoonup> DownloadEndReason"

definition new_tally :: tally_state where
  "new_tally = \<lparr>tl_downloadSize = 0, tl_verifiedSize = 0, tl_countMap = Map.empty, tl_endReasonMap = Map.empty\<rparr>"

definition tally_one :: "DownloadInfo \<Rightarrow> tally_state \<Rightarrow> tally_state" where
  "tally_one d t =
     (let taskStatus = GetTaskStatus d in
      t\<lparr>tl_downloadSize := i64 (tl_downloadSize t + di_downloadedSize d),
        tl_verifiedSize := i64 (tl_verifiedSize t + di_verifiedSize d),
        tl_countMap := (tl_countMap t)(taskStatus \<mapsto> GetStatusCount (tl_countMap t) taskStatus + 1),
        tl_endReasonMap := (tl_endReasonMap t)(taskStatus \<mapsto> di_endReason d)\<rparr>)"

fun tally :: "DownloadInfo list \<Rightarrow> tally_state \<Rightarrow> tally_state" where
  "tally [] t = t"
| "tally (d # ds) t = tally ds (tally_one d t)"

definition processor_update :: "DownloadInfo list \<Rightarrow> processor \<Rightarrow> processor" where
  "processor_update ds p =
     (let t = tally ds new_tally;
          p1 = p\<lparr>pp_downloadedSize := tl_downloadSize t, pp_verifiedSize := tl_verifiedSize t\<rparr>
      in if GetStatusCount (tl_countMap t) DS_INIT = pp_totalInfoSize p then p1
         else
           let s = CalcDownloadTaskStatus (pp_totalInfoSize p) (tl_countMap t) in
           p1\<lparr>pp_status := s,
              pp_endReason := (if s = DS_SUCCESS then R_SUCCESS
                else case tl_endReasonMap t s of None \<Rightarrow> R_INIT | Some r \<Rightarrow> r)\<rparr>)"

section \<open>Progress of the task\<close>

definition CalcDownloadProgress :: "processor \<Rightarrow> int" where
  "CalcDownloadProgress p =
     (if pp_packageSize p \<le> 0 then 0
      else if pp_packageSize p < pp_downloadedSize p then DOWNLOAD_MAX_PERCENT
      else i32 (cdiv (i64 (pp_downloadedSize p * DOWNLOAD_MAX_PERCENT)) (pp_packageSize p)))"

definition processor_GetTaskProgress :: "DownloadInfo list \<Rightarrow> processor \<Rightarrow> processor \<times> ProgressInfo" where
  "processor_GetTaskProgress ds p =
     (let p1 = processor_update ds p in
      (p1, \<lparr>pi_taskProgress = CalcDownloadProgress p1, pi_taskStatus = pp_status p1,
            pi_reason = pp_endReason p1, pi_progresses = map mk_progress ds,
            pi_packageSize = pp_packageSize p1, pi_downloadedSize = pp_downloadedSize p1,
            pi_verifiedSize = pp_verifiedSize p1\<rparr>))"

section \<open>Abstract specification of the status\<close>

text \<open>What the chain of counters decides, stated on the packages themselves.\<close>

definition task_status_spec :: "DownloadStatus list \<Rightarrow> DownloadStatus" where
  "task_status_spec ss =
     (if \<forall>s \<in> set ss. s = DS_SUCCESS then DS_SUCCESS
      else if DS_DOWNLOADING \<in> set ss \<or> DS_VERIFYING \<in> set ss then DS_DOWNLOADING
      else if DS_PAUSE \<in> set ss then DS_PAUSE
      else if DS_AUTO_PAUSE \<in> set ss then DS_AUTO_PAUSE
      else if DS_CANCEL \<in> set ss then DS_CANCEL
      else if DS_FAIL \<in> set ss then DS_FAIL
      else DS_DOWNLOADING)"

lemma tally_count:
  "GetStatusCount (tl_countMap (tally ds t)) s
     = GetStatusCount (tl_countMap t) s + int (count_list (map GetTaskStatus ds) s)"
proof (induction ds arbitrary: t)
  case Nil
  then show ?case by simp
next
  case (Cons d ds)
  have "GetStatusCount (tl_countMap (tally_one d t)) s
      = GetStatusCount (tl_countMap t) s + (if GetTaskStatus d = s then 1 else 0)"
    by (simp add: tally_one_def Let_def GetStatusCount_def)
  with Cons.IH show ?case by simp
qed

lemma tally_count0:
  "GetStatusCount (tl_countMap (tally ds new_tally)) s = int (count_list (map GetTaskStatus ds) s)"
  by (simp add: tally_count) (simp add: new_tally_def GetStatusCount_def)

lemma count_list_full: "count_list xs a = length xs \<longleftrightarrow> (\<forall>x \<in> set xs. x = a)"
proof (induction xs)
  case Nil
  then show ?case by simp
next
  case (Cons x xs)
  have "count_list xs a \<le> length xs" by (rule count_le_length)
  with Cons show ?case by auto
qed

lemma CalcDownloadTaskStatus_spec:
  assumes "n = int (length ds)"
  shows "CalcDownloadTaskStatus n (tl_countMap (tally ds new_tally)) = task_status_spec (map GetTaskStatus ds)"
  using assms
  by (simp add: CalcDownloadTaskStatus_def task_status_spec_def tally_count0 count_list_0_iff
      count_list_full [of "map GetTaskStatus ds" DS_SUCCESS, simplified])

text \<open>The reference is the value of a fold over status ranks: it only depends on which states occur.\<close>

lemma task_status_spec_set: "set xs = set ys \<Longrightarrow> task_status_spec xs = task_status_spec ys"
  by (simp add: task_status_spec_def)

lemma task_status_spec_SUCCESS: "task_status_spec ss = DS_SUCCESS \<longleftrightarrow> (\<forall>s \<in> set ss. s = DS_SUCCESS)"
  by (auto simp: task_status_spec_def)

lemma task_status_spec_FAIL:
  "task_status_spec ss = DS_FAIL \<longleftrightarrow> DS_FAIL \<in> set ss \<and> set ss \<subseteq> {DS_FAIL, DS_SUCCESS, DS_INIT}"
proof -
  have sub: "set ss \<subseteq> {DS_FAIL, DS_SUCCESS, DS_INIT}
      \<longleftrightarrow> set ss \<inter> {DS_DOWNLOADING, DS_VERIFYING, DS_PAUSE, DS_AUTO_PAUSE, DS_CANCEL} = {}"
  proof
    assume d: "set ss \<inter> {DS_DOWNLOADING, DS_VERIFYING, DS_PAUSE, DS_AUTO_PAUSE, DS_CANCEL} = {}"
    show "set ss \<subseteq> {DS_FAIL, DS_SUCCESS, DS_INIT}"
    proof
      fix x assume "x \<in> set ss"
      with d show "x \<in> {DS_FAIL, DS_SUCCESS, DS_INIT}" by (cases x) auto
    qed
  qed auto
  show ?thesis
    unfolding sub by (auto simp: task_status_spec_def split: if_splits)
qed

lemma tally_sizes:
  "tl_downloadSize (tally ds t) = i64 (tl_downloadSize t + sum_list (map di_downloadedSize ds))
     \<or> ds = []"
proof (induction ds arbitrary: t)
  case Nil
  then show ?case by simp
next
  case (Cons d ds)
  have one: "tl_downloadSize (tally_one d t) = i64 (tl_downloadSize t + di_downloadedSize d)"
    by (simp add: tally_one_def Let_def)
  have mod_add: "i64 (i64 a + b) = i64 (a + b)" for a b
    by (simp add: i64_def algebra_simps mod_simps)
  show ?case
  proof (cases "ds = []")
    case True
    then show ?thesis by (simp add: one)
  next
    case False
    with Cons.IH [of "tally_one d t"] have
      "tl_downloadSize (tally ds (tally_one d t))
         = i64 (i64 (tl_downloadSize t + di_downloadedSize d) + sum_list (map di_downloadedSize ds))"
      by (simp add: one)
    then show ?thesis by (simp add: mod_add add.assoc)
  qed
qed

lemma GetTaskStatus_INIT [simp]: "GetTaskStatus d = DS_INIT \<longleftrightarrow> di_status d = DS_INIT"
  by (simp add: GetTaskStatus_def)

lemma processor_update_status:
  assumes "pp_totalInfoSize p = int (length ds)" "\<not> (\<forall>d \<in> set ds. di_status d = DS_INIT)"
  shows "pp_status (processor_update ds p) = task_status_spec (map GetTaskStatus ds)"
proof -
  have "count_list (map GetTaskStatus ds) DS_INIT \<noteq> length (map GetTaskStatus ds)"
    using assms(2) unfolding count_list_full by simp
  then have "GetStatusCount (tl_countMap (tally ds new_tally)) DS_INIT \<noteq> pp_totalInfoSize p"
    using assms(1) by (simp add: tally_count0)
  then show ?thesis
    using assms(1) by (simp add: processor_update_def Let_def CalcDownloadTaskStatus_spec)
qed

lemma processor_update_total [simp]:
  "pp_totalInfoSize (processor_update ds p) = pp_totalInfoSize p"
  "pp_packageSize (processor_update ds p) = pp_packageSize p"
  by (simp_all add: processor_update_def Let_def)

lemma processor_add_total: "pp_totalInfoSize (processor_add p ds) = pp_totalInfoSize p + int (length ds)"
  by (induction ds arbitrary: p) auto

lemma new_processor_total [simp]: "pp_totalInfoSize (new_processor ds) = int (length ds)"
  by (simp add: new_processor_def processor_add_total)

text \<open>Percentages stay in range, and more data never shows a smaller percentage.\<close>

lemma CalcDownloadProgress_eq:
  assumes "0 < pp_packageSize p" "0 \<le> pp_downloadedSize p" "pp_downloadedSize p \<le> pp_packageSize p"
    "pp_packageSize p * 100 \<le> INT64_MAX"
  shows "CalcDownloadProgress p = (pp_downloadedSize p * 100) div pp_packageSize p"
    "0 \<le> CalcDownloadProgress p" "CalcDownloadProgress p \<le> 100"
proof -
  let ?q = "(pp_downloadedSize p * 100) div pp_packageSize p"
  have mul: "i64 (pp_downloadedSize p * 100) = pp_downloadedSize p * 100"
    using assms by (intro i64_id) auto
  have q0: "0 \<le> ?q" using assms by (simp add: pos_imp_zdiv_nonneg_iff)
  have "?q \<le> (pp_packageSize p * 100) div pp_packageSize p"
    using assms by (intro zdiv_mono1) auto
  then have q1: "?q \<le> 100" using assms by simp
  show eq: "CalcDownloadProgress p = ?q"
    using assms mul q0 q1 by (simp add: CalcDownloadProgress_def cdiv_nonneg i32_id)
  show "0 \<le> CalcDownloadProgress p" "CalcDownloadProgress p \<le> 100"
    unfolding eq by (rule q0, rule q1)
qed

lemma CalcDownloadProgress_range:
  assumes "pp_packageSize p * 100 \<le> INT64_MAX" "0 \<le> pp_downloadedSize p"
  shows "0 \<le> CalcDownloadProgress p \<and> CalcDownloadProgress p \<le> 100"
proof (cases "pp_packageSize p \<le> 0 \<or> pp_packageSize p < pp_downloadedSize p")
  case True
  then show ?thesis by (auto simp: CalcDownloadProgress_def)
next
  case False
  with assms CalcDownloadProgress_eq [of p] show ?thesis by auto
qed

end
