(* ===== verification/Download_Thread.thy ===== *)
theory Download_Thread
  imports Download_Common File_Utils
begin

text \<open>
  One package's download thread, \<open>services/core/ability/download/task/src/download_thread.cpp\<close>:
  its members are the record \<open>dthread\<close>, its member functions are functions on that record, and
  each call of the service's callback is appended to \<open>th_out\<close> in the order it is made.

  The transfer is driven by the calls that reach the thread while \<open>curl_easy_perform\<close> runs: curl's
  header, write and transfer-information callbacks, and the operations of other threads
  (\<open>Stop\<close>, \<open>NetChangeToPause\<close>, \<open>SetDisableCallbackFlag\<close>), in any order. The environment supplies
  the clock, the file system, the answers of the operating system, the digest and curl's result.

  The file system is not the same all along, because the transfer itself writes the file and other
  processes may touch it: \<open>te_fs\<close> is what the constructor sees, \<open>te_verifyFs\<close> what \<open>DoVerify\<close> sees, at
  0 when it reads the size, at 1 when the digest is computed and at 2 when it reads the size of a file
  that did not match. Nothing relates the four to one another.
\<close>

record dthread =
  th_info :: DownloadInfo
  th_hasCallback :: bool
  th_status :: DownloadStatus
  th_cb :: DownloadCallbackInfo
  th_percent :: int
  th_downloadedSize :: int
  th_totalSize :: int
  th_fileInitSize :: int
  th_verifiedSize :: int
  th_verifiedPercent :: int
  th_isNeedAutoPause :: bool
  th_isNeedCancel :: bool
  th_isPackageSizeVerified :: bool
  th_isStarted :: bool
  th_isRequestFinished :: bool
  th_isDisableCallbackFlag :: bool
  th_downloadStartTime :: int
  th_lastEffectiveTime :: int
  th_prevCallbackTime :: int
  th_request :: request
  th_ticks :: nat
  th_out :: "DownloadCallbackInfo list"

datatype thread_op = OP_Stop | OP_NetChangeToPause | OP_DisableCallback bool

datatype curl_event =
    CE_Header string
  | CE_Write write_call
  | CE_Xfer int int
  | CE_Op thread_op

record thread_env =
  te_clock :: "nat \<Rightarrow> int"
  te_fs :: file_system
  te_verifyFs :: "nat \<Rightarrow> file_system"
  te_sha :: "string \<Rightarrow> string"
  te_readable :: bool
  te_mkdir :: bool
  te_open :: bool
  te_fseek :: int
  te_errno :: "int \<times> string"
  te_net :: bool
  te_maxWrite :: int
  te_curl :: "(nat \<Rightarrow> int \<times> int) option"
  te_events :: "curl_event list"
  te_verifyOps :: "nat \<Rightarrow> thread_op list"

section \<open>Construction and callbacks\<close>

definition CalculatedRollBackSize :: "int \<Rightarrow> int" where
  "CalculatedRollBackSize fileDownloadSize =
     (if fileDownloadSize \<le> 0 then 0
      else if fileDownloadSize \<le> MIN_FILE_DOWNLOAD_SIZE then fileDownloadSize
      else MIN_FILE_DOWNLOAD_SIZE)"

text \<open>Reading the clock.\<close>

definition th_now :: "thread_env \<Rightarrow> dthread \<Rightarrow> int" where
  "th_now env th = te_clock env (th_ticks th)"

definition th_tick :: "dthread \<Rightarrow> dthread" where
  "th_tick th = th\<lparr>th_ticks := Suc (th_ticks th)\<rparr>"

text \<open>The constructor: the downloaded size is rolled back from the size of the file.\<close>

definition new_thread :: "thread_env \<Rightarrow> DownloadInfo \<Rightarrow> bool \<Rightarrow> dthread" where
  "new_thread env info hasCallback =
     (let fileRealSize = GetFileSize (te_fs env) (di_path info);
          size = max (fileRealSize - CalculatedRollBackSize fileRealSize) 0
      in \<lparr>th_info = info\<lparr>di_downloadedSize := size\<rparr>, th_hasCallback = hasCallback,
          th_status = di_status info,
          th_cb = new_callback_info\<lparr>ci_downloadedSize := size, ci_verifiedSize := di_verifiedSize info,
            ci_startTime := di_startTime info\<rparr>,
          th_percent = 0, th_downloadedSize = size, th_totalSize = di_packageSize info,
          th_fileInitSize = fileRealSize, th_verifiedSize = di_verifiedSize info, th_verifiedPercent = 0,
          th_isNeedAutoPause = False, th_isNeedCancel = False, th_isPackageSizeVerified = False,
          th_isStarted = False, th_isRequestFinished = False, th_isDisableCallbackFlag = False,
          th_downloadStartTime = 0, th_lastEffectiveTime = di_effectiveTime info,
          th_prevCallbackTime = (if 0 < di_reportInterval info then te_clock env 0 else 0),
          th_request = new_request,
          th_ticks = (if 0 < di_reportInterval info then 1 else 0), th_out = []\<rparr>)"

text \<open>The default error argument of \<open>CallbackDownload\<close>, and \<open>BuildDownloadErrorInfo\<close>.\<close>

definition BuildDownloadErrorInfo :: "string \<Rightarrow> string list \<Rightarrow> int \<Rightarrow> int \<Rightarrow> DownloadErrorInfo" where
  "BuildDownloadErrorInfo errorInfo headers curlErrorCode httpErrorCode =
     \<lparr>ei_curlErrorCode = curlErrorCode, ei_httpErrorCode = httpErrorCode, ei_header = headers,
      ei_errorInfo = errorInfo\<rparr>"

abbreviation (input) CURLE_OK :: int where "CURLE_OK \<equiv> 0"
abbreviation (input) CURLE_WRITE_ERROR :: int where "CURLE_WRITE_ERROR \<equiv> 23"
abbreviation (input) CURLE_READ_ERROR :: int where "CURLE_READ_ERROR \<equiv> 26"
abbreviation (input) CODE_SUCCESS :: int where "CODE_SUCCESS \<equiv> 200"

definition default_error :: DownloadErrorInfo where
  "default_error = BuildDownloadErrorInfo [] [] CURLE_OK CODE_SUCCESS"

definition stamp_callback :: "thread_env \<Rightarrow> dthread \<Rightarrow> dthread" where
  "stamp_callback env th =
     (if 0 < di_reportInterval (th_info th) then th_tick (th\<lparr>th_prevCallbackTime := th_now env th\<rparr>) else th)"

definition stamp_start :: "thread_env \<Rightarrow> dthread \<Rightarrow> dthread" where
  "stamp_start env th =
     (if ci_startTime (th_cb th) = 0 then th_tick (th\<lparr>th_cb := (th_cb th)\<lparr>ci_startTime := th_now env th\<rparr>\<rparr>)
      else th)"

definition stamp_end :: "thread_env \<Rightarrow> DownloadStatus \<Rightarrow> dthread \<Rightarrow> dthread" where
  "stamp_end env status th =
     (if status = DS_SUCCESS \<or> status = DS_FAIL
      then th_tick (th\<lparr>th_cb := (th_cb th)\<lparr>ci_endTime := th_now env th\<rparr>\<rparr>) else th)"

definition fill_callback ::
  "DownloadStatus \<Rightarrow> DownloadEndReason \<Rightarrow> DownloadErrorInfo \<Rightarrow> dthread \<Rightarrow> DownloadCallbackInfo" where
  "fill_callback status endReason err th =
     (th_cb th)\<lparr>ci_downloadId := di_downloadId (th_info th), ci_status := status, ci_endReason := endReason,
       ci_downloadedSize :=
         (if th_downloadedSize th < th_fileInitSize th then th_fileInitSize th
          else if status = DS_FAIL then th_totalSize th else th_downloadedSize th),
       ci_verifiedSize := (if status = DS_FAIL then th_totalSize th else th_verifiedSize th),
       ci_errorInfo := err\<rparr>"

definition CallbackDownload ::
  "thread_env \<Rightarrow> DownloadStatus \<Rightarrow> DownloadEndReason \<Rightarrow> DownloadErrorInfo \<Rightarrow> dthread \<Rightarrow> dthread" where
  "CallbackDownload env status endReason err th =
     (if \<not> th_hasCallback th then th
      else let th1 = stamp_end env status (stamp_start env (stamp_callback env th));
               cb = fill_callback status endReason err th1
           in th1\<lparr>th_cb := cb, th_out := th_out th1 @ [cb]\<rparr>)"

section \<open>Operations of other threads\<close>

definition thread_Stop :: "dthread \<Rightarrow> dthread" where
  "thread_Stop th = th\<lparr>th_isNeedCancel := True, th_request := (th_request th)\<lparr>rq_isNeedStop := True\<rparr>\<rparr>"

definition thread_NetChangeToPause :: "thread_env \<Rightarrow> dthread \<Rightarrow> DownloadResult \<times> dthread" where
  "thread_NetChangeToPause env th =
     (if th_status th = DS_INIT
      then (RES_SUCCESS, CallbackDownload env DS_AUTO_PAUSE R_NET_CHANGE default_error th)
      else if th_status th \<noteq> DS_DOWNLOADING then (RES_FAIL, th)
      else (RES_SUCCESS, th\<lparr>th_isNeedAutoPause := True,
              th_request := (th_request th)\<lparr>rq_isNeedStop := True\<rparr>\<rparr>))"

definition SetDisableCallbackFlag :: "bool \<Rightarrow> dthread \<Rightarrow> dthread" where
  "SetDisableCallbackFlag flag th = th\<lparr>th_isDisableCallbackFlag := flag\<rparr>"

fun thread_op_step :: "thread_env \<Rightarrow> thread_op \<Rightarrow> dthread \<Rightarrow> dthread" where
  "thread_op_step env OP_Stop th = thread_Stop th"
| "thread_op_step env OP_NetChangeToPause th = snd (thread_NetChangeToPause env th)"
| "thread_op_step env (OP_DisableCallback flag) th = SetDisableCallbackFlag flag th"

section \<open>Size checks\<close>

definition GetResponseSize :: "dthread \<Rightarrow> int" where
  "GetResponseSize th =
     (case DecStringToNumber INT64_MIN INT64_MAX
             (ParseKeyFromHeader (rq_headersBuffer (th_request th)) ''Content-Length'') 0 of
        (SCR_SUCCESS, n) \<Rightarrow> n
      | _ \<Rightarrow> 0)"

definition IsContentLengtAbnormal :: "int \<Rightarrow> dthread \<Rightarrow> bool" where
  "IsContentLengtAbnormal dlTotal th =
     (if FindKeyFromHeader (rq_headersBuffer (th_request th)) ''Transfer-Encoding'' then True
      else let contentDownloadSize = i64 (GetResponseSize th + th_downloadedSize th)
        in if contentDownloadSize \<noteq> dlTotal then False
           else contentDownloadSize = di_packageSize (th_info th))"

text \<open>Despite its name, the answer \<open>True\<close> means that nothing abnormal was found.\<close>

definition IsPackageSizeAbnormal :: "int \<Rightarrow> int \<Rightarrow> dthread \<Rightarrow> bool \<times> dthread" where
  "IsPackageSizeAbnormal dlTotal dlNow th =
     (if th_isPackageSizeVerified th \<or> dlTotal = dlNow then (True, th)
      else let th1 = th\<lparr>th_isPackageSizeVerified := True\<rparr>
        in if di_packageSize (th_info th) = 0 then (False, th1)
           else if IsContentLengtAbnormal dlTotal th1 then (True, th1)
           else if di_packageSize (th_info th) \<noteq> dlTotal then (False, th1)
           else (True, th1))"

definition size_error_text :: "int \<Rightarrow> int \<Rightarrow> string" where
  "size_error_text requestSize packageSize =
     ''realPackageSize='' @ to_string requestSize @ '';'' @ ''filelistPackageSize='' @ to_string packageSize"

definition HandleSizeError :: "thread_env \<Rightarrow> int \<Rightarrow> DownloadEndReason \<Rightarrow> dthread \<Rightarrow> dthread" where
  "HandleSizeError env requestSize endReason th =
     CallbackDownload env DS_FAIL endReason
       (BuildDownloadErrorInfo (size_error_text requestSize (di_packageSize (th_info th)))
          (rq_headersBuffer (th_request th)) CURLE_OK CODE_SUCCESS) th"

section \<open>The end of a transfer\<close>

definition errno_text :: "thread_env \<Rightarrow> string" where
  "errno_text env =
     ''errno='' @ to_string (fst (te_errno env)) @ '';'' @ ''errnoMsg='' @ snd (te_errno env)"

definition HandleNetworkCheck :: "thread_env \<Rightarrow> int \<Rightarrow> int \<Rightarrow> dthread \<Rightarrow> dthread" where
  "HandleNetworkCheck env curlRet responseCode th =
     (let err = BuildDownloadErrorInfo [] (rq_headersBuffer (th_request th)) curlRet responseCode
      in if \<not> te_net env then CallbackDownload env DS_AUTO_PAUSE R_NET_NOT_AVAILIABLE err th
         else if th_isNeedAutoPause th
           then CallbackDownload env DS_AUTO_PAUSE R_NET_CHANGE err (th\<lparr>th_isNeedAutoPause := False\<rparr>)
         else CallbackDownload env DS_AUTO_PAUSE R_CURL_ERROR err th)"

definition HandleFail :: "thread_env \<Rightarrow> int \<Rightarrow> int \<Rightarrow> dthread \<Rightarrow> dthread" where
  "HandleFail env curlRet responseCode th =
     (let headers = rq_headersBuffer (th_request th) in
      if curlRet = CURLE_WRITE_ERROR \<or> curlRet = CURLE_READ_ERROR then
        CallbackDownload env DS_FAIL R_IO_EXCEPTION
          (BuildDownloadErrorInfo (errno_text env @ '';'') headers curlRet responseCode) th
      else if responseCode = 503 \<or> responseCode = 504 then
        CallbackDownload env DS_FAIL R_SERVER_TIMEOUT
          (BuildDownloadErrorInfo [] headers curlRet responseCode) th
      else if responseCode = 301 \<or> responseCode = 302 \<or> responseCode = 303 \<or> responseCode = 307 then
        CallbackDownload env DS_FAIL R_REDIRECT
          (BuildDownloadErrorInfo [] headers curlRet responseCode) th
      else HandleNetworkCheck env curlRet responseCode th)"

section \<open>Verification of the downloaded file\<close>

definition CallbackVerifyProgress :: "thread_env \<Rightarrow> int \<Rightarrow> int \<Rightarrow> dthread \<Rightarrow> dthread" where
  "CallbackVerifyProgress env fileSize verifiedSize th =
     (if th_isNeedCancel th then th
      else if fileSize \<le> 0 \<or> fileSize < verifiedSize then th
      else if verifiedSize \<le> th_verifiedSize th then th
      else let th1 = th\<lparr>th_verifiedSize := verifiedSize\<rparr>;
               verifiedPercent = i32 (cdiv (i64 (verifiedSize * DOWNLOAD_MAX_PERCENT)) fileSize)
           in if th_verifiedPercent th1 < verifiedPercent \<and> verifiedPercent mod 10 = 0 then
                CallbackDownload env DS_VERIFYING R_INIT default_error
                  (th1\<lparr>th_status := DS_VERIFYING, th_verifiedPercent := verifiedPercent\<rparr>)
              else th1)"

text \<open>The reports of the digest computation, with the operations that arrive before each of them.\<close>

fun verify_loop :: "thread_env \<Rightarrow> int \<Rightarrow> nat \<Rightarrow> int list \<Rightarrow> dthread \<Rightarrow> dthread" where
  "verify_loop env fileSize k [] th = fold (thread_op_step env) (te_verifyOps env k) th"
| "verify_loop env fileSize k (v # vs) th =
     verify_loop env fileSize (Suc k) vs
       (CallbackVerifyProgress env fileSize v (fold (thread_op_step env) (te_verifyOps env k) th))"

definition sha_fail_text :: "Sha256ErrCode \<Rightarrow> string \<Rightarrow> int \<Rightarrow> string" where
  "sha_fail_text code result fileSize =
     ''sha256ErrCode='' @ to_string (sha_err_code code) @ '';'' @ ''sha256Result='' @ result @ '';''
     @ ''DownloadFileSize='' @ to_string fileSize"

text \<open>\<open>NotifyCancel\<close>: whether the thread was stopped; the stopper is woken up.\<close>

definition NotifyCancel :: "dthread \<Rightarrow> bool \<times> dthread" where
  "NotifyCancel th =
     (if th_isNeedCancel th then (True, th\<lparr>th_isRequestFinished := True\<rparr>) else (False, th))"

definition verify_result :: "thread_env \<Rightarrow> DownloadInfo \<Rightarrow> Sha256ErrCode \<times> string" where
  "verify_result env info =
     GetFileSha256VerifyResult (te_sha env) (te_readable env) (te_verifyFs env 1) (di_path info)
       (di_verifyInfo info)"

definition finish_verify :: "thread_env \<Rightarrow> int \<Rightarrow> dthread \<Rightarrow> dthread" where
  "finish_verify env fileRealSize th =
     (case verify_result env (th_info th) of
        (SHA_SUCCESS, result) \<Rightarrow>
          CallbackDownload env DS_SUCCESS R_SUCCESS
            (BuildDownloadErrorInfo [] (rq_headersBuffer (th_request th)) CURLE_OK CODE_SUCCESS)
            (th\<lparr>th_verifiedSize := fileRealSize\<rparr>)
      | (code, result) \<Rightarrow>
          CallbackDownload env DS_FAIL R_VERIFY_FAIL
            (BuildDownloadErrorInfo (sha_fail_text code result (GetFileSize (te_verifyFs env 2) (di_path (th_info th))))
               (rq_headersBuffer (th_request th)) CURLE_OK CODE_SUCCESS) th)"

definition DoVerify :: "thread_env \<Rightarrow> dthread \<Rightarrow> dthread" where
  "DoVerify env th =
     (let th1 = CallbackDownload env DS_VERIFYING R_INIT default_error
                  (th\<lparr>th_status := DS_VERIFYING, th_verifiedPercent := 0\<rparr>);
          fileRealSize = GetFileSize (te_verifyFs env 0) (di_path (th_info th1));
          reports = (if di_isCombineVerifyProgress (th_info th1)
                     then verify_reports (te_readable env) (te_verifyFs env 1) (di_path (th_info th1)) else []);
          th2 = verify_loop env fileRealSize 0 reports th1
      in case NotifyCancel th2 of
           (True, th3) \<Rightarrow> th3
         | (False, th3) \<Rightarrow> finish_verify env fileRealSize th3)"

definition HandleDownloadFinish :: "thread_env \<Rightarrow> int \<Rightarrow> int \<Rightarrow> dthread \<Rightarrow> dthread" where
  "HandleDownloadFinish env curlRet responseCode th =
     (let th1 = th_tick (th\<lparr>th_cb := (th_cb th)\<lparr>ci_effectiveTime :=
                  i64 (th_now env th - th_downloadStartTime th + th_lastEffectiveTime th)\<rparr>\<rparr>)
      in if th_isNeedAutoPause th1 then
           CallbackDownload env DS_AUTO_PAUSE R_NET_CHANGE default_error (th1\<lparr>th_isNeedAutoPause := False\<rparr>)
         else if curlRet = CURLE_OK \<or> th_downloadedSize th1 = di_packageSize (th_info th1) then
           (if th_downloadedSize th1 \<noteq> di_packageSize (th_info th1)
            then HandleSizeError env (th_downloadedSize th1) R_FINISH_SIZE_ERROR th1
            else DoVerify env th1)
         else HandleFail env curlRet responseCode th1)"

section \<open>The transfer\<close>

definition report_percent :: "dthread \<Rightarrow> int" where
  "report_percent th =
     (if di_packageSize (th_info th) = 0 then 0
      else i32 (cdiv (i64 (th_downloadedSize th * DOWNLOAD_MAX_PERCENT)) (di_packageSize (th_info th))))"

definition CallbackProgress :: "thread_env \<Rightarrow> int \<Rightarrow> dthread \<Rightarrow> dthread" where
  "CallbackProgress env dlNow th =
     (let th0 = (if \<not> ci_resetRetryTimes (th_cb th) \<and> th_fileInitSize th \<noteq> 0 \<and> th_fileInitSize th < dlNow
                 then th\<lparr>th_cb := (th_cb th)\<lparr>ci_resetRetryTimes := True\<rparr>\<rparr> else th);
          th1 = th0\<lparr>th_downloadedSize := dlNow\<rparr>
      in if th_isDisableCallbackFlag th1 then th1
         else let outputProgress = report_percent th1
           in if th_percent th1 < outputProgress \<and> outputProgress \<le> DOWNLOAD_MAX_PERCENT then
                let th2 = th1\<lparr>th_percent := outputProgress, th_status := DS_DOWNLOADING\<rparr>;
                    th3 = th_tick (th2\<lparr>th_cb := (th_cb th2)\<lparr>ci_effectiveTime :=
                            i64 (th_now env th2 - th_downloadStartTime th2 + th_lastEffectiveTime th2)\<rparr>\<rparr>)
                in CallbackDownload env DS_DOWNLOADING R_INIT default_error th3
              else if di_reportInterval (th_info th1) \<le> 0 then th1
              else let currTime = th_now env th1; th2 = th_tick th1
                in if di_reportInterval (th_info th2) < i64 (currTime - th_prevCallbackTime th2)
                   then CallbackDownload env DS_DOWNLOADING R_INIT default_error th2 else th2)"

text \<open>The callback \<open>DoDownload\<close> installs in the request.\<close>

definition on_progress :: "thread_env \<Rightarrow> int \<Rightarrow> int \<Rightarrow> dthread \<Rightarrow> dthread" where
  "on_progress env dlTotal dlNow th =
     (case IsPackageSizeAbnormal dlTotal dlNow th of
        (False, th1) \<Rightarrow>
          HandleSizeError env dlTotal R_SIZE_ERROR
            (th1\<lparr>th_isNeedCancel := True, th_request := (th_request th1)\<lparr>rq_isNeedStop := True\<rparr>\<rparr>)
      | (True, th1) \<Rightarrow> CallbackProgress env dlNow th1)"

fun curl_step :: "thread_env \<Rightarrow> curl_event \<Rightarrow> dthread \<Rightarrow> dthread" where
  "curl_step env (CE_Header contents) th =
     th\<lparr>th_request := snd (HeaderCallback contents (th_request th))\<rparr>"
| "curl_step env (CE_Write w) th =
     th\<lparr>th_request := snd (WriteFun (te_maxWrite env) w (th_request th))\<rparr>"
| "curl_step env (CE_Xfer dlTotal dlNow) th =
     (case snd (request_CallbackProgress True (th_request th) dlTotal dlNow) of
        None \<Rightarrow> th
      | Some (tot, now) \<Rightarrow> on_progress env tot now th)"
| "curl_step env (CE_Op op) th = thread_op_step env op th"

text \<open>The state in which \<open>DoDownload\<close> hands the request to curl.\<close>

definition start_transfer :: "thread_env \<Rightarrow> dthread \<Rightarrow> dthread" where
  "start_transfer env th =
     (let th1 = th_tick (th\<lparr>th_downloadStartTime := th_now env th, th_isRequestFinished := False\<rparr>)
      in th1\<lparr>th_request := (th_request th1)
           \<lparr>rq_url := di_url (th_info th1), rq_headers := di_header (th_info th1),
            rq_requestBody := di_requestBody (th_info th1), rq_method := di_method (th_info th1),
            rq_hasFile := True, rq_downloadedSize := th_downloadedSize th1\<rparr>\<rparr>)"

definition DoDownload :: "thread_env \<Rightarrow> dthread \<Rightarrow> dthread" where
  "DoDownload env th =
     (let th2 = start_transfer env th;
          response = DoNetRequest (te_curl env) (th_request th2);
          th3 = (if IsUrlValid (th_request th2) \<and> te_curl env \<noteq> None
                 then fold (curl_step env) (te_events env) th2 else th2)
      in case NotifyCancel th3 of
           (True, th4) \<Rightarrow> th4
         | (False, th4) \<Rightarrow>
             (HandleDownloadFinish env (nr_result response) (nr_status response) th4)
               \<lparr>th_isRequestFinished := True\<rparr>)"

definition InitPackageParam :: "thread_env \<Rightarrow> string \<Rightarrow> DownloadResult \<times> string" where
  "InitPackageParam env fileName =
     (if \<not> te_mkdir env then (RES_FAIL, ''CreateMultiDirWithPermission fail'')
      else if has_dot_segment fileName then (RES_FAIL, fileName @ ''is invalid'')
      else if \<not> te_open env then (RES_FAIL, errno_text env)
      else if te_fseek env \<noteq> 0 then (RES_FAIL, errno_text env @ '';'' @ ''fseekRet='' @ to_string (te_fseek env))
      else (RES_SUCCESS, []))"

definition CheckBeforeStartDownload :: "thread_env \<Rightarrow> dthread \<Rightarrow> bool \<times> dthread" where
  "CheckBeforeStartDownload env th =
     (if IsCompleted (th_info th) then
        (False, CallbackDownload env (di_status (th_info th)) R_INIT default_error th)
      else if IsNeedVerify (th_info th) then (False, DoVerify env th)
      else (True, th))"

definition DownloadVersion :: "thread_env \<Rightarrow> dthread \<Rightarrow> dthread" where
  "DownloadVersion env th =
     (case CheckBeforeStartDownload env th of
        (False, th1) \<Rightarrow> th1
      | (True, th1) \<Rightarrow>
          let th2 = CallbackDownload env DS_DOWNLOADING R_INIT default_error
                      (th1\<lparr>th_status := DS_DOWNLOADING, th_percent := 0\<rparr>)
          in case InitPackageParam env (di_path (th_info th2)) of
               (RES_FAIL, errorMsg) \<Rightarrow>
                 CallbackDownload env DS_FAIL R_INIT_PACKAGE_FAIL
                   (BuildDownloadErrorInfo errorMsg [] CURLE_OK CODE_SUCCESS) th2
             | (RES_SUCCESS, _) \<Rightarrow> DoDownload env th2)"

text \<open>\<open>Start\<close>; \<open>busy\<close> when another thread holds the lock, i.e. is downloading.\<close>

definition thread_Start :: "thread_env \<Rightarrow> bool \<Rightarrow> dthread \<Rightarrow> dthread" where
  "thread_Start env busy th = (if busy then th else DownloadVersion env (th\<lparr>th_isStarted := True\<rparr>))"

section \<open>What a thread promises to the service\<close>

text \<open>
  The contract of a single callback, relative to the members that never change during a run:
  the identity of the package, the statuses a thread can report, success only for a file whose
  digest matches (or for a package that had already succeeded), no downloaded size below the size
  the file had when the thread was created, and a failure that accounts for the whole package.
\<close>

definition report_ok :: "thread_env \<Rightarrow> dthread \<Rightarrow> DownloadCallbackInfo \<Rightarrow> bool" where
  "report_ok env th cb =
     (ci_downloadId cb = di_downloadId (th_info th)
      \<and> ci_status cb \<in> {DS_DOWNLOADING, DS_VERIFYING, DS_SUCCESS, DS_FAIL, DS_AUTO_PAUSE}
      \<and> (ci_status cb = DS_SUCCESS \<longrightarrow>
           di_status (th_info th) = DS_SUCCESS \<or> fst (verify_result env (th_info th)) = SHA_SUCCESS)
      \<and> (ci_status cb \<noteq> DS_FAIL \<longrightarrow> th_fileInitSize th \<le> ci_downloadedSize cb)
      \<and> (ci_status cb = DS_FAIL \<longrightarrow> ci_verifiedSize cb = th_totalSize th
           \<and> ci_downloadedSize cb \<in> {th_totalSize th, th_fileInitSize th}))"

text \<open>A run only adds reports that keep the contract, and leaves those members alone.\<close>

definition thread_ext :: "thread_env \<Rightarrow> dthread \<Rightarrow> dthread \<Rightarrow> bool" where
  "thread_ext env th th' =
     (th_info th' = th_info th \<and> th_fileInitSize th' = th_fileInitSize th
      \<and> th_totalSize th' = th_totalSize th \<and> th_hasCallback th' = th_hasCallback th
      \<and> (\<exists>new. th_out th' = th_out th @ new \<and> (\<forall>cb \<in> set new. report_ok env th cb)))"

named_theorems thread_exts \<open>thread operations that only add reports within the contract\<close>

lemma report_ok_cong:
  "th_info th' = th_info th \<Longrightarrow> th_fileInitSize th' = th_fileInitSize th \<Longrightarrow>
     th_totalSize th' = th_totalSize th \<Longrightarrow> report_ok env th' cb = report_ok env th cb"
  by (simp add: report_ok_def)

lemma thread_ext_refl [simp, thread_exts]: "thread_ext env th th"
  by (simp add: thread_ext_def)

lemma thread_ext_trans: "thread_ext env th th1 \<Longrightarrow> thread_ext env th1 th2 \<Longrightarrow> thread_ext env th th2"
  unfolding thread_ext_def using report_ok_cong [of th1 th env] by (auto simp: ball_Un)

lemma thread_ext_left [simp]:
  "thread_ext env (th\<lparr>th_status := a\<rparr>) = thread_ext env th"
  "thread_ext env (th\<lparr>th_cb := b\<rparr>) = thread_ext env th"
  "thread_ext env (th\<lparr>th_percent := c\<rparr>) = thread_ext env th"
  "thread_ext env (th\<lparr>th_downloadedSize := c\<rparr>) = thread_ext env th"
  "thread_ext env (th\<lparr>th_verifiedSize := c\<rparr>) = thread_ext env th"
  "thread_ext env (th\<lparr>th_verifiedPercent := c\<rparr>) = thread_ext env th"
  "thread_ext env (th\<lparr>th_isNeedAutoPause := d\<rparr>) = thread_ext env th"
  "thread_ext env (th\<lparr>th_isNeedCancel := d\<rparr>) = thread_ext env th"
  "thread_ext env (th\<lparr>th_isPackageSizeVerified := d\<rparr>) = thread_ext env th"
  "thread_ext env (th\<lparr>th_isStarted := d\<rparr>) = thread_ext env th"
  "thread_ext env (th\<lparr>th_isRequestFinished := d\<rparr>) = thread_ext env th"
  "thread_ext env (th\<lparr>th_isDisableCallbackFlag := d\<rparr>) = thread_ext env th"
  "thread_ext env (th\<lparr>th_downloadStartTime := c\<rparr>) = thread_ext env th"
  "thread_ext env (th\<lparr>th_prevCallbackTime := c\<rparr>) = thread_ext env th"
  "thread_ext env (th\<lparr>th_request := e\<rparr>) = thread_ext env th"
  "thread_ext env (th_tick th) = thread_ext env th"
  by (simp_all add: thread_ext_def report_ok_def fun_eq_iff th_tick_def)

lemma thread_ext_right [simp]:
  "thread_ext env th0 (th\<lparr>th_status := a\<rparr>) = thread_ext env th0 th"
  "thread_ext env th0 (th\<lparr>th_cb := b\<rparr>) = thread_ext env th0 th"
  "thread_ext env th0 (th\<lparr>th_percent := c\<rparr>) = thread_ext env th0 th"
  "thread_ext env th0 (th\<lparr>th_downloadedSize := c\<rparr>) = thread_ext env th0 th"
  "thread_ext env th0 (th\<lparr>th_verifiedSize := c\<rparr>) = thread_ext env th0 th"
  "thread_ext env th0 (th\<lparr>th_verifiedPercent := c\<rparr>) = thread_ext env th0 th"
  "thread_ext env th0 (th\<lparr>th_isNeedAutoPause := d\<rparr>) = thread_ext env th0 th"
  "thread_ext env th0 (th\<lparr>th_isNeedCancel := d\<rparr>) = thread_ext env th0 th"
  "thread_ext env th0 (th\<lparr>th_isPackageSizeVerified := d\<rparr>) = thread_ext env th0 th"
  "thread_ext env th0 (th\<lparr>th_isStarted := d\<rparr>) = thread_ext env th0 th"
  "thread_ext env th0 (th\<lparr>th_isRequestFinished := d\<rparr>) = thread_ext env th0 th"
  "thread_ext env th0 (th\<lparr>th_isDisableCallbackFlag := d\<rparr>) = thread_ext env th0 th"
  "thread_ext env th0 (th\<lparr>th_downloadStartTime := c\<rparr>) = thread_ext env th0 th"
  "thread_ext env th0 (th\<lparr>th_prevCallbackTime := c\<rparr>) = thread_ext env th0 th"
  "thread_ext env th0 (th\<lparr>th_request := e\<rparr>) = thread_ext env th0 th"
  "thread_ext env th0 (th_tick th) = thread_ext env th0 th"
  by (simp_all add: thread_ext_def th_tick_def)

lemma th_tick_sel [simp]:
  "th_info (th_tick th) = th_info th" "th_cb (th_tick th) = th_cb th" "th_out (th_tick th) = th_out th"
  "th_hasCallback (th_tick th) = th_hasCallback th" "th_totalSize (th_tick th) = th_totalSize th"
  "th_fileInitSize (th_tick th) = th_fileInitSize th" "th_request (th_tick th) = th_request th"
  "th_downloadedSize (th_tick th) = th_downloadedSize th" "th_isNeedAutoPause (th_tick th) = th_isNeedAutoPause th"
  by (simp_all add: th_tick_def)

lemma stamps_sel [simp]:
  "th_info (stamp_callback env th) = th_info th" "th_info (stamp_start env th) = th_info th"
  "th_info (stamp_end env s th) = th_info th"
  "th_out (stamp_callback env th) = th_out th" "th_out (stamp_start env th) = th_out th"
  "th_out (stamp_end env s th) = th_out th"
  "th_totalSize (stamp_callback env th) = th_totalSize th" "th_totalSize (stamp_start env th) = th_totalSize th"
  "th_totalSize (stamp_end env s th) = th_totalSize th"
  "th_fileInitSize (stamp_callback env th) = th_fileInitSize th"
  "th_fileInitSize (stamp_start env th) = th_fileInitSize th"
  "th_fileInitSize (stamp_end env s th) = th_fileInitSize th"
  "th_hasCallback (stamp_callback env th) = th_hasCallback th"
  "th_hasCallback (stamp_start env th) = th_hasCallback th"
  "th_hasCallback (stamp_end env s th) = th_hasCallback th"
  by (simp_all add: stamp_callback_def stamp_start_def stamp_end_def)

lemma CallbackDownload_ext_same:
  assumes "status \<in> {DS_DOWNLOADING, DS_VERIFYING, DS_SUCCESS, DS_FAIL, DS_AUTO_PAUSE}"
    and "status = DS_SUCCESS \<Longrightarrow>
      di_status (th_info th) = DS_SUCCESS \<or> fst (verify_result env (th_info th)) = SHA_SUCCESS"
  shows "thread_ext env th (CallbackDownload env status reason err th)"
  using assms
  by (auto simp: CallbackDownload_def thread_ext_def Let_def report_ok_def fill_callback_def)

lemma thread_info_fixed: "thread_ext env th th' \<Longrightarrow> th_info th' = th_info th"
  by (simp add: thread_ext_def)

lemma CallbackDownload_ext [thread_exts]:
  assumes "thread_ext env th0 th"
    and "status \<in> {DS_DOWNLOADING, DS_VERIFYING, DS_SUCCESS, DS_FAIL, DS_AUTO_PAUSE}"
    and "status = DS_SUCCESS \<Longrightarrow>
      di_status (th_info th0) = DS_SUCCESS \<or> fst (verify_result env (th_info th0)) = SHA_SUCCESS"
  shows "thread_ext env th0 (CallbackDownload env status reason err th)"
  using assms thread_info_fixed [OF assms(1)]
  by (intro thread_ext_trans [OF assms(1)] CallbackDownload_ext_same) auto

lemma thread_op_step_ext [thread_exts]: "thread_ext env th0 th \<Longrightarrow> thread_ext env th0 (thread_op_step env op th)"
  by (cases op)
    (auto simp: thread_Stop_def thread_NetChangeToPause_def SetDisableCallbackFlag_def intro: thread_exts)

lemma thread_ops_ext [thread_exts]:
  "thread_ext env th0 th \<Longrightarrow> thread_ext env th0 (fold (thread_op_step env) ops th)"
  by (induction ops arbitrary: th) (auto intro: thread_exts)

lemma HandleSizeError_ext [thread_exts]:
  "thread_ext env th0 th \<Longrightarrow> thread_ext env th0 (HandleSizeError env sz r th)"
  by (auto simp: HandleSizeError_def intro: thread_exts)

lemma HandleFail_ext [thread_exts]: "thread_ext env th0 th \<Longrightarrow> thread_ext env th0 (HandleFail env c h th)"
  by (auto simp: HandleFail_def HandleNetworkCheck_def Let_def intro: thread_exts)

lemma CallbackVerifyProgress_ext [thread_exts]:
  "thread_ext env th0 th \<Longrightarrow> thread_ext env th0 (CallbackVerifyProgress env fs v th)"
  by (auto simp: CallbackVerifyProgress_def Let_def intro: thread_exts)

lemma verify_loop_ext [thread_exts]:
  "thread_ext env th0 th \<Longrightarrow> thread_ext env th0 (verify_loop env fs k vs th)"
proof (induction vs arbitrary: k th)
  case Nil
  then show ?case by (auto intro: thread_exts)
next
  case (Cons v vs)
  show ?case
    unfolding verify_loop.simps
    by (intro Cons.IH CallbackVerifyProgress_ext thread_ops_ext Cons.prems)
qed

lemma NotifyCancel_ext: "thread_ext env th0 th \<Longrightarrow> thread_ext env th0 (snd (NotifyCancel th))"
  by (simp add: NotifyCancel_def)

lemma finish_verify_ext [thread_exts]:
  "thread_ext env th0 th \<Longrightarrow> thread_ext env th0 (finish_verify env fs th)"
  using thread_info_fixed [of env th0 th]
  by (auto simp: finish_verify_def intro!: thread_exts split: prod.split Sha256ErrCode.split)

lemma DoVerify_ext [thread_exts]: "thread_ext env th0 th \<Longrightarrow> thread_ext env th0 (DoVerify env th)"
  by (auto simp: DoVerify_def Let_def NotifyCancel_def intro!: thread_exts split: prod.split)

lemma HandleDownloadFinish_ext [thread_exts]:
  "thread_ext env th0 th \<Longrightarrow> thread_ext env th0 (HandleDownloadFinish env c h th)"
  by (auto simp: HandleDownloadFinish_def Let_def intro!: thread_exts)

lemma CallbackProgress_ext [thread_exts]:
  "thread_ext env th0 th \<Longrightarrow> thread_ext env th0 (CallbackProgress env n th)"
  by (auto simp: CallbackProgress_def Let_def intro!: thread_exts)

lemma on_progress_ext [thread_exts]: "thread_ext env th0 th \<Longrightarrow> thread_ext env th0 (on_progress env t n th)"
  by (auto simp: on_progress_def IsPackageSizeAbnormal_def Let_def intro!: thread_exts)

lemma curl_step_ext [thread_exts]: "thread_ext env th0 th \<Longrightarrow> thread_ext env th0 (curl_step env e th)"
  by (cases e) (auto intro!: thread_exts split: option.split prod.split)

lemma curl_steps_ext [thread_exts]:
  "thread_ext env th0 th \<Longrightarrow> thread_ext env th0 (fold (curl_step env) es th)"
  by (induction es arbitrary: th) (auto intro: thread_exts)

lemma start_transfer_ext [thread_exts]: "thread_ext env th0 th \<Longrightarrow> thread_ext env th0 (start_transfer env th)"
  by (simp add: start_transfer_def Let_def)

lemma DoDownload_ext [thread_exts]: "thread_ext env th0 th \<Longrightarrow> thread_ext env th0 (DoDownload env th)"
  by (auto simp: DoDownload_def Let_def NotifyCancel_def intro!: thread_exts split: prod.split)

lemma CheckBeforeStartDownload_ext:
  "CheckBeforeStartDownload env th = (go, th') \<Longrightarrow> thread_ext env th th'"
  by (auto simp: CheckBeforeStartDownload_def IsCompleted_def is_completed_def
      intro!: CallbackDownload_ext DoVerify_ext split: if_splits)

lemma DownloadVersion_ext: "thread_ext env th (DownloadVersion env th)"
proof -
  obtain go th1 where c: "CheckBeforeStartDownload env th = (go, th1)"
    by (cases "CheckBeforeStartDownload env th")
  have e: "thread_ext env th th1" by (rule CheckBeforeStartDownload_ext [OF c])
  show ?thesis
    using e by (cases go)
      (auto simp: DownloadVersion_def c Let_def intro!: thread_exts split: prod.split DownloadResult.split)
qed

lemma thread_Start_ext: "thread_ext env th (thread_Start env busy th)"
  using DownloadVersion_ext [of env "th\<lparr>th_isStarted := True\<rparr>"] by (simp add: thread_Start_def)

section \<open>The size header is not understood\<close>

text \<open>
  A server names the size as \<open>Content-Length: \<close> followed by the number. The header value is cut out
  with \<open>SafeSubString\<close>, whose guard takes the length for an end index, so the number is lost unless
  it has more than fourteen characters.
\<close>

lemma ParseKeyFromHeader_single:
  "header_key h = Some k \<Longrightarrow> ParseKeyFromHeader [h] k = header_value h"
  by simp

lemma content_length_lost:
  assumes "rq_headersBuffer (th_request th) = [''Content-Length:'' @ v]" "length v < 15"
  shows "GetResponseSize th = 0"
proof -
  have col: "CHR '':'' \<notin> set ''Content-Length''" by simp
  have "header_value (''Content-Length'' @ CHR '':'' # v) = []"
    using assms(2) by (subst header_value_cases [OF col]) simp
  then have "ParseKeyFromHeader (rq_headersBuffer (th_request th)) ''Content-Length'' = []"
    using assms(1) by simp
  moreover have "DecStringToNumber INT64_MIN INT64_MAX [] 0 = (SCR_FAILED, 0)"
    by (simp add: DecStringToNumber_def Trim_def LTrim_def RTrim_def from_chars_def)
  ultimately show ?thesis by (simp add: GetResponseSize_def)
qed

section \<open>Resuming\<close>

lemma rollback_bounds:
  "0 \<le> CalculatedRollBackSize n"
  "CalculatedRollBackSize n \<le> max n 0"
  "CalculatedRollBackSize n \<le> MIN_FILE_DOWNLOAD_SIZE"
  by (auto simp: CalculatedRollBackSize_def MIN_FILE_DOWNLOAD_SIZE_def)

lemma new_thread_sel [simp]:
  "th_info (new_thread env info cb) = info\<lparr>di_downloadedSize :=
     max (GetFileSize (te_fs env) (di_path info) - CalculatedRollBackSize (GetFileSize (te_fs env) (di_path info))) 0\<rparr>"
  "th_fileInitSize (new_thread env info cb) = GetFileSize (te_fs env) (di_path info)"
  "th_totalSize (new_thread env info cb) = di_packageSize info"
  "th_out (new_thread env info cb) = []"
  "th_hasCallback (new_thread env info cb) = cb"
  "th_downloadedSize (new_thread env info cb) =
     max (GetFileSize (te_fs env) (di_path info) - CalculatedRollBackSize (GetFileSize (te_fs env) (di_path info))) 0"
  by (simp_all add: new_thread_def Let_def)

section \<open>Stopping\<close>

text \<open>A thread that was told to stop while it was downloading reports nothing any more.\<close>

definition stopped :: "dthread \<Rightarrow> bool" where
  "stopped th = (th_isNeedCancel th \<and> rq_isNeedStop (th_request th) \<and> th_status th \<noteq> DS_INIT)"

lemma stopped_op: "stopped th \<Longrightarrow>
    stopped (thread_op_step env op th) \<and> th_out (thread_op_step env op th) = th_out th"
  by (cases op) (auto simp: stopped_def thread_Stop_def thread_NetChangeToPause_def SetDisableCallbackFlag_def)

lemma HeaderCallback_stop [simp]: "rq_isNeedStop (snd (HeaderCallback c r)) = rq_isNeedStop r"
  by (simp add: HeaderCallback_def)

lemma WriteFun_stop [simp]: "rq_isNeedStop (snd (WriteFun mw w r)) = rq_isNeedStop r"
  by (simp add: WriteFun_def Let_def)

lemma stopped_curl_step: "stopped th \<Longrightarrow>
    stopped (curl_step env e th) \<and> th_out (curl_step env e th) = th_out th"
  using stopped_op [of th env]
  by (cases e) (auto simp: stopped_def request_CallbackProgress_def)

lemma stopped_curl_steps: "stopped th \<Longrightarrow>
    stopped (fold (curl_step env) es th) \<and> th_out (fold (curl_step env) es th) = th_out th"
  by (induction es arbitrary: th) (auto simp: stopped_curl_step)

lemma thread_Stop_stops: "th_status th \<noteq> DS_INIT \<Longrightarrow> stopped (thread_Stop th)"
  by (simp add: stopped_def thread_Stop_def)

lemma DoDownload_stopped:
  assumes "te_events env = es @ CE_Op OP_Stop # es'"
    and "IsUrlValid (th_request (start_transfer env th))" "te_curl env \<noteq> None"
    and "th_status (fold (curl_step env) es (start_transfer env th)) \<noteq> DS_INIT"
  shows "th_out (DoDownload env th) = th_out (fold (curl_step env) es (start_transfer env th))"
proof -
  let ?th = "fold (curl_step env) es (start_transfer env th)"
  let ?fin = "fold (curl_step env) es' (thread_Stop ?th)"
  have s: "stopped (thread_Stop ?th)" by (rule thread_Stop_stops [OF assms(4)])
  have e: "stopped ?fin \<and> th_out ?fin = th_out (thread_Stop ?th)"
    by (rule stopped_curl_steps [OF s])
  have "fold (curl_step env) (te_events env) (start_transfer env th) = ?fin"
    using assms(1) by simp
  then have "DoDownload env th = snd (NotifyCancel ?fin)"
    using assms(2,3) e
    by (simp add: DoDownload_def Let_def NotifyCancel_def stopped_def)
  then show ?thesis using e by (simp add: NotifyCancel_def thread_Stop_def stopped_def)
qed

end
