(* ===== verification/Download_Task.thy ===== *)
theory Download_Task
  imports Download_Progress Download_Thread Download_Table
begin

text \<open>
  A download task and its service, \<open>services/core/ability/download/task/src/download_task.cpp\<close>
  and \<open>download_service.cpp\<close>. The package objects are shared by pointer between the task's map,
  the service's map and the progress processor: they are the list \<open>tk_heap\<close>, and the two maps hold
  positions in it. \<open>threadMap_\<close> holds the threads themselves (\<open>dthread\<close>): the service constructs them,
  stops them, pauses them and switches their callback off with the thread's own operations, and what
  a thread reports goes through \<open>CallbackUpdateDownloadProgress\<close>. What a thread does on its own,
  while its transfer runs, arrives as a step that replaces its private members and makes a report.
  A thread object outlives its entry in the map, because the running task holds it too: the threads
  the service has stopped and let go are the list \<open>tk_stopped\<close>, each as \<open>Stop\<close> left it.

  Pending work is explicit: \<open>tk_queue\<close> holds the reports submitted to the serial queue,
  \<open>tk_timers\<close> the delayed report tasks, \<open>tk_started\<close> the threads started so far, and
  \<open>tk_reports\<close> what the client's callback received.
\<close>

record dtask =
  tk_taskId :: string
  tk_heap :: "DownloadInfo list"
  tk_map :: "(string, nat) cmap"
  tk_srv :: "(string, nat) cmap"
  tk_threads :: "(string, dthread) cmap"
  tk_stopped :: "(string \<times> dthread) list"
  tk_started :: "DownloadInfo list"
  tk_srvStop :: bool
  tk_srvHasCallback :: bool
  tk_proc :: processor
  tk_status :: DownloadStatus
  tk_reportedTaskProgress :: int
  tk_progressInfo :: ProgressInfo
  tk_hasCallback :: bool
  tk_stopCallback :: bool
  tk_lastReportTime :: int
  tk_timers :: "nat list"
  tk_timerHandle :: "nat option"
  tk_nextTimer :: nat
  tk_queue :: "ProgressInfo list"
  tk_reports :: "ProgressInfo list"
  tk_db :: db_table
  tk_fs :: file_system

record task_env =
  en_now :: int
  en_nowMs :: int
  en_net :: NetType
  en_packageRoot :: string
  en_encryptedRoot :: string
  en_baseDirs :: "(string, int) cmap"
  en_statfs :: "string \<Rightarrow> (int \<times> int) option"
  en_osOk :: "string \<Rightarrow> bool"
  en_thread :: thread_env

section \<open>The shared package objects\<close>

definition heap_adj :: "nat \<Rightarrow> (DownloadInfo \<Rightarrow> DownloadInfo) \<Rightarrow> dtask \<Rightarrow> dtask" where
  "heap_adj i f t = t\<lparr>tk_heap := (tk_heap t)[i := f (tk_heap t ! i)]\<rparr>"

definition GetDownloadInfo :: "string \<Rightarrow> dtask \<Rightarrow> DownloadInfo option" where
  "GetDownloadInfo downloadId t = map_option (\<lambda>i. tk_heap t ! i) (map_of (tk_srv t) downloadId)"

definition task_GetTaskProgress :: "dtask \<Rightarrow> dtask \<times> ProgressInfo" where
  "task_GetTaskProgress t =
     (let (p, info) = processor_GetTaskProgress (tk_heap t) (tk_proc t) in (t\<lparr>tk_proc := p\<rparr>, info))"

section \<open>Reporting (download task)\<close>

definition CallbackProgressLocked :: "task_env \<Rightarrow> ProgressInfo \<Rightarrow> dtask \<Rightarrow> dtask" where
  "CallbackProgressLocked env p t =
     (if \<not> tk_hasCallback t then t
      else if \<not> IsSyncCallback p \<and> tk_stopCallback t then t
      else t\<lparr>tk_reports := tk_reports t @ [p], tk_lastReportTime := en_nowMs env\<rparr>)"

definition CancelTimedTask :: "dtask \<Rightarrow> dtask" where
  "CancelTimedTask t =
     (case tk_timerHandle t of
        None \<Rightarrow> t
      | Some h \<Rightarrow> t\<lparr>tk_timers := filter (\<lambda>x. x \<noteq> h) (tk_timers t)\<rparr>)"

definition SubmitTimedTask :: "dtask \<Rightarrow> dtask" where
  "SubmitTimedTask t =
     t\<lparr>tk_timers := tk_timers t @ [tk_nextTimer t], tk_timerHandle := Some (tk_nextTimer t),
       tk_nextTimer := Suc (tk_nextTimer t)\<rparr>"

text \<open>The delay of the next timed report, in microseconds.\<close>

definition CalcNextReportInterval :: "task_env \<Rightarrow> dtask \<Rightarrow> int" where
  "CalcNextReportInterval env t =
     (let reportInterval = 1000 * 1000 * 10;
          lastReportDuration = i64 ((en_nowMs env - tk_lastReportTime t) * 1000)
      in if lastReportDuration \<le> 0 then reportInterval
         else if reportInterval - lastReportDuration \<le> 0 then 0
         else reportInterval - lastReportDuration)"

definition IsProgressChanged :: "ProgressInfo \<Rightarrow> dtask \<Rightarrow> bool \<times> dtask" where
  "IsProgressChanged p t =
     (if pi_taskStatus p = tk_status t
         \<and> (pi_downloadedSize p < pi_downloadedSize (tk_progressInfo t)
            \<or> pi_verifiedSize p < pi_verifiedSize (tk_progressInfo t)) then (False, t)
      else if pi_taskStatus p = tk_status t \<and> IsTaskCompleted p then (False, t)
      else let isChanged = (pi_taskProgress p \<noteq> tk_reportedTaskProgress t \<or> pi_taskStatus p \<noteq> tk_status t
                 \<or> pi_verifiedSize p \<noteq> pi_verifiedSize (tk_progressInfo t)
                 \<or> pi_downloadedSize p \<noteq> pi_downloadedSize (tk_progressInfo t))
           in (isChanged, t\<lparr>tk_reportedTaskProgress := pi_taskProgress p, tk_status := pi_taskStatus p,
                            tk_progressInfo := p\<rparr>))"

definition UpdateTaskProgress :: "task_env \<Rightarrow> dtask \<Rightarrow> dtask" where
  "UpdateTaskProgress env t =
     (let (t1, p) = task_GetTaskProgress t;
          (isChanged, t2) = IsProgressChanged p t1
      in if \<not> isChanged then t2
         else let t3 = (if IsTaskCompleted p then CancelTimedTask t2 else t2)
           in if IsSyncCallback p then CallbackProgressLocked env p t3
              else t3\<lparr>tk_queue := tk_queue t3 @ [p]\<rparr>)"

text \<open>The serial queue runs its next task; a timed task fires.\<close>

definition run_queue :: "task_env \<Rightarrow> dtask \<Rightarrow> dtask" where
  "run_queue env t =
     (case tk_queue t of
        [] \<Rightarrow> t
      | p # rest \<Rightarrow>
          let (t1, cur) = task_GetTaskProgress (t\<lparr>tk_queue := rest\<rparr>)
          in if IsSyncCallback cur then t1 else CallbackProgressLocked env p t1)"

definition NEXT_REPORT_INTERVAL_MS :: int where
  "NEXT_REPORT_INTERVAL_MS = 10 * 1000"

definition run_timer :: "task_env \<Rightarrow> nat \<Rightarrow> dtask \<Rightarrow> dtask" where
  "run_timer env h t =
     (let (t1, p) = task_GetTaskProgress (t\<lparr>tk_timers := filter (\<lambda>x. x \<noteq> h) (tk_timers t)\<rparr>)
      in if pi_taskStatus p \<in> {DS_FAIL, DS_SUCCESS, DS_CANCEL, DS_PAUSE, DS_AUTO_PAUSE} then t1
         else let t2 = (if NEXT_REPORT_INTERVAL_MS \<le> i64 (en_nowMs env - tk_lastReportTime t1)
                        then CallbackProgressLocked env p t1 else t1)
           in SubmitTimedTask (CancelTimedTask t2))"

section \<open>The service's bookkeeping\<close>

definition RemoveThread :: "string \<Rightarrow> dtask \<Rightarrow> dtask" where
  "RemoveThread downloadId t = t\<lparr>tk_threads := cm_del downloadId (tk_threads t)\<rparr>"

text \<open>The environment of a thread: its clock, and the file system as it is now.\<close>

definition thread_world :: "task_env \<Rightarrow> dtask \<Rightarrow> thread_env" where
  "thread_world env t = (en_thread env)\<lparr>te_fs := tk_fs t\<rparr>"

definition StartDownloadThread :: "task_env \<Rightarrow> DownloadInfo \<Rightarrow> dtask \<Rightarrow> dtask" where
  "StartDownloadThread env d t =
     t\<lparr>tk_threads := cm_put (di_downloadId d) (new_thread (thread_world env t) d True) (tk_threads t),
       tk_started := tk_started t @ [d]\<rparr>"

definition service_UpdateDownloadInfo :: "DownloadCallbackInfo \<Rightarrow> dtask \<Rightarrow> dtask" where
  "service_UpdateDownloadInfo info t =
     (case map_of (tk_srv t) (ci_downloadId info) of
        None \<Rightarrow> t
      | Some i \<Rightarrow>
          if ci_status info = DS_DOWNLOADING \<and> tk_srvStop t then t
          else let t1 = heap_adj i (UpdateDownloadInfo info) t
            in if ci_status info \<noteq> DS_CANCEL
               then t1\<lparr>tk_db := snd (UpdateProgressById (tk_heap t1 ! i) (tk_db t1))\<rparr> else t1)"

definition CallbackDownloadProgress :: "task_env \<Rightarrow> dtask \<Rightarrow> dtask" where
  "CallbackDownloadProgress env t = (if \<not> tk_srvHasCallback t then t else UpdateTaskProgress env t)"

definition ClearPackage :: "task_env \<Rightarrow> string \<Rightarrow> dtask \<Rightarrow> dtask" where
  "ClearPackage env path t =
     (case tk_fs t path of
        Some (Regular content) \<Rightarrow> if en_osOk env path then t\<lparr>tk_fs := (tk_fs t)(path := None)\<rparr> else t
      | _ \<Rightarrow> t)"

definition switch_url :: "DownloadEndReason \<Rightarrow> DownloadInfo \<Rightarrow> DownloadInfo" where
  "switch_url endReason d =
     (if endReason = R_REDIRECT \<or> endReason = R_SIZE_ERROR
      then d\<lparr>di_url := (if di_reserveUrl d = [] then di_url d else di_reserveUrl d), di_reserveUrl := di_url d\<rparr>
      else d)"

definition HandleRetry :: "task_env \<Rightarrow> string \<Rightarrow> DownloadEndReason \<Rightarrow> dtask \<Rightarrow> DownloadResult \<times> dtask" where
  "HandleRetry env downloadId endReason t =
     (case map_of (tk_srv t) downloadId of
        None \<Rightarrow> (RES_FAIL, t)
      | Some i \<Rightarrow>
          let t1 = heap_adj i (\<lambda>d. d\<lparr>di_retryTimes := di_retryTimes d + 1\<rparr>) t;
              t2 = t1\<lparr>tk_db := snd (UpdateRetryTimesById (tk_heap t1 ! i) (tk_db t1))\<rparr>;
              t3 = heap_adj i (switch_url endReason) t2
          in (RES_SUCCESS, StartDownloadThread env (tk_heap t3 ! i) t3))"

definition UpdateDownloadProgress :: "task_env \<Rightarrow> DownloadCallbackInfo \<Rightarrow> dtask \<Rightarrow> dtask" where
  "UpdateDownloadProgress env info t =
     (let t1 = (if ci_status info \<noteq> DS_DOWNLOADING \<and> ci_status info \<noteq> DS_VERIFYING
                then RemoveThread (ci_downloadId info) t else t)
      in if ci_status info \<noteq> DS_FAIL
         then CallbackDownloadProgress env (service_UpdateDownloadInfo info t1)
         else case GetDownloadInfo (ci_downloadId info) t1 of
             None \<Rightarrow> t1
           | Some d \<Rightarrow>
               if ci_endReason info = R_IO_EXCEPTION \<or> ci_endReason info = R_VERIFY_FAIL
               then CallbackDownloadProgress env
                      (service_UpdateDownloadInfo info (ClearPackage env (di_path d) t1))
               else if \<not> IsRetryAble d
               then CallbackDownloadProgress env (service_UpdateDownloadInfo info t1)
               else case HandleRetry env (ci_downloadId info) (ci_endReason info) t1 of
                   (RES_SUCCESS, t2) \<Rightarrow> t2
                 | (RES_FAIL, t2) \<Rightarrow> CallbackDownloadProgress env (service_UpdateDownloadInfo info t2))"

definition CallbackUpdateDownloadProgress :: "task_env \<Rightarrow> DownloadCallbackInfo \<Rightarrow> dtask \<Rightarrow> dtask" where
  "CallbackUpdateDownloadProgress env info t =
     (if tk_srvStop t then t else UpdateDownloadProgress env info t)"

section \<open>Operations of the service\<close>

text \<open>The net type of the first package decides.\<close>

definition IsNetSatisfied :: "task_env \<Rightarrow> dtask \<Rightarrow> bool" where
  "IsNetSatisfied env t =
     (case tk_srv t of [] \<Rightarrow> False | (downloadId, i) # _ \<Rightarrow> net_available (en_net env) (di_netType (tk_heap t ! i)))"

definition start_package :: "task_env \<Rightarrow> string \<times> nat \<Rightarrow> dtask \<Rightarrow> dtask" where
  "start_package env e t =
     (let d = tk_heap t ! snd e
      in if cm_has (di_downloadId d) (tk_threads t) then t
         else if IsCompleted d then t
         else StartDownloadThread env d (t\<lparr>tk_db := download_Insert d (tk_db t)\<rparr>))"

definition service_Start :: "task_env \<Rightarrow> DownloadError \<Rightarrow> dtask \<Rightarrow> DownloadError \<times> dtask" where
  "service_Start env err t =
     (if tk_srv t = [] then (build_error R_DOWNLOAD_INFO_EMPTY CALL_FAIL, t)
      else if \<not> IsNetSatisfied env t then (build_error R_NET_NOT_AVAILIABLE CALL_FAIL, t)
      else (err, fold (start_package env) (tk_srv t) (t\<lparr>tk_srvHasCallback := True, tk_srvStop := False\<rparr>)))"

text \<open>Every thread of the map is stopped, then the map is cleared.\<close>

definition StopAllDownloadThread :: "dtask \<Rightarrow> dtask" where
  "StopAllDownloadThread t =
     (let t1 = t\<lparr>tk_srvStop := True\<rparr>;
          stopped = map (\<lambda>(downloadId, th). (downloadId, thread_Stop th)) (tk_threads t1)
      in t1\<lparr>tk_stopped := tk_stopped t1 @ stopped, tk_threads := []\<rparr>)"

definition pause_info :: "DownloadInfo \<Rightarrow> DownloadCallbackInfo" where
  "pause_info d =
     new_callback_info\<lparr>ci_downloadId := di_downloadId d, ci_downloadedSize := di_downloadedSize d,
       ci_status := DS_PAUSE, ci_endReason := R_PAUSE, ci_verifiedSize := di_verifiedSize d\<rparr>"

definition NotifyPauseCompleted :: "task_env \<Rightarrow> dtask \<Rightarrow> dtask" where
  "NotifyPauseCompleted env t =
     fold (\<lambda>e s. UpdateDownloadProgress env (pause_info (tk_heap s ! snd e)) s) (tk_srv t) t"

definition service_Pause :: "task_env \<Rightarrow> dtask \<Rightarrow> DownloadError \<times> dtask" where
  "service_Pause env t =
     (build_error R_SUCCESS CALL_SUCCESS, NotifyPauseCompleted env (StopAllDownloadThread t))"

definition set_net_type :: "NetType \<Rightarrow> string \<times> nat \<Rightarrow> dtask \<Rightarrow> dtask" where
  "set_net_type netType e t =
     (if netType = di_netType (tk_heap t ! snd e) then t
      else let t1 = heap_adj (snd e) (\<lambda>d. d\<lparr>di_netType := netType\<rparr>) t
        in t1\<lparr>tk_db := snd (UpdateNetTypeById (tk_heap t1 ! snd e) (tk_db t1))\<rparr>)"

definition UpdateDownloadNetType :: "NetType \<Rightarrow> dtask \<Rightarrow> dtask" where
  "UpdateDownloadNetType netType t = fold (set_net_type netType) (tk_srv t) t"

definition resume_info :: "DownloadInfo \<Rightarrow> DownloadInfo" where
  "resume_info d = (if IsPaused d then d\<lparr>di_status := DS_DOWNLOADING\<rparr> else d)\<lparr>di_retryTimes := 0\<rparr>"

definition resume_package :: "task_env \<Rightarrow> string \<times> nat \<Rightarrow> dtask \<Rightarrow> dtask" where
  "resume_package env e t =
     (if cm_has (fst e) (tk_threads t) then t
      else if IsCompleted (tk_heap t ! snd e) then t
      else let t1 = heap_adj (snd e) resume_info t in StartDownloadThread env (tk_heap t1 ! snd e) t1)"

definition service_Resume :: "task_env \<Rightarrow> NetType \<Rightarrow> dtask \<Rightarrow> DownloadError \<times> dtask" where
  "service_Resume env netType t =
     (if tk_srv t = [] then (build_error R_DOWNLOAD_INFO_EMPTY CALL_FAIL, t)
      else let t1 = UpdateDownloadNetType netType (t\<lparr>tk_srvStop := False\<rparr>)
        in if \<not> IsNetSatisfied env t1 then (build_error R_NET_NOT_AVAILIABLE CALL_FAIL, t1)
           else (build_error R_SUCCESS CALL_SUCCESS, fold (resume_package env) (tk_srv t1) t1))"

definition DeleteDownloadedFiles :: "task_env \<Rightarrow> dtask \<Rightarrow> dtask" where
  "DeleteDownloadedFiles env t = fold (\<lambda>e s. ClearPackage env (di_path (tk_heap s ! snd e)) s) (tk_srv t) t"

definition cancel_info :: "task_env \<Rightarrow> DownloadInfo \<Rightarrow> DownloadCallbackInfo" where
  "cancel_info env d =
     new_callback_info\<lparr>ci_downloadId := di_downloadId d, ci_downloadedSize := di_downloadedSize d,
       ci_endTime := en_now env, ci_status := DS_CANCEL, ci_endReason := R_CANCEL,
       ci_verifiedSize := di_verifiedSize d\<rparr>"

definition NotifyCancelCompleted :: "task_env \<Rightarrow> dtask \<Rightarrow> dtask" where
  "NotifyCancelCompleted env t =
     (let t1 = fold (\<lambda>e s. UpdateDownloadProgress env (cancel_info env (tk_heap s ! snd e)) s) (tk_srv t) t
      in t1\<lparr>tk_db := DeleteByTaskId (tk_taskId t1) (tk_db t1)\<rparr>)"

definition service_Cancel :: "task_env \<Rightarrow> bool \<Rightarrow> dtask \<Rightarrow> dtask" where
  "service_Cancel env isDeleteFiles t =
     (let t1 = StopAllDownloadThread t;
          t2 = (if isDeleteFiles then DeleteDownloadedFiles env t1 else t1)
      in NotifyCancelCompleted env t2)"

definition recover_info :: "DownloadInfo \<Rightarrow> DownloadCallbackInfo" where
  "recover_info d =
     new_callback_info\<lparr>ci_downloadId := di_downloadId d, ci_downloadedSize := di_downloadedSize d,
       ci_status := DS_AUTO_PAUSE, ci_endReason := R_INIT, ci_verifiedSize := di_verifiedSize d\<rparr>"

definition recover_package :: "task_env \<Rightarrow> string \<times> nat \<Rightarrow> dtask \<Rightarrow> dtask" where
  "recover_package env e t =
     (let d = tk_heap t ! snd e
      in if IsCompleted d \<or> IsManualPaused d then t else UpdateDownloadProgress env (recover_info d) t)"

definition service_Recover :: "task_env \<Rightarrow> dtask \<Rightarrow> dtask" where
  "service_Recover env t =
     (if tk_srv t = [] then t
      else fold (recover_package env) (tk_srv t) (t\<lparr>tk_srvHasCallback := True\<rparr>))"

definition RemoveDownloadTask :: "dtask \<Rightarrow> dtask" where
  "RemoveDownloadTask t = t\<lparr>tk_srvHasCallback := False, tk_srv := []\<rparr>"

definition service_SetDisableCallbackFlag :: "bool \<Rightarrow> dtask \<Rightarrow> dtask" where
  "service_SetDisableCallbackFlag flag t =
     t\<lparr>tk_threads := map (\<lambda>(downloadId, th). (downloadId, SetDisableCallbackFlag flag th)) (tk_threads t)\<rparr>"

text \<open>
  \<open>NetChangeToPause\<close> walks over \<open>threadMap_\<close> with a range-based loop and calls each thread. What the
  thread reports during the call reaches the service at once, on the same recursive lock, and the
  service may change the map the loop is walking over. An iterator whose element was erased cannot be
  advanced: the result is then \<open>None\<close>, undefined behaviour.
\<close>

definition pause_thread :: "task_env \<Rightarrow> string \<Rightarrow> dthread \<Rightarrow> dtask \<Rightarrow> dtask" where
  "pause_thread env downloadId th t =
     (let th1 = snd (thread_NetChangeToPause (thread_world env t) th);
          reports = drop (length (th_out th)) (th_out th1)
      in fold (CallbackUpdateDownloadProgress env) reports
           (t\<lparr>tk_threads := cm_adj downloadId (\<lambda>_. th1) (tk_threads t)\<rparr>))"

fun net_pause_loop :: "task_env \<Rightarrow> string list \<Rightarrow> dtask \<Rightarrow> dtask option" where
  "net_pause_loop env [] t = Some t"
| "net_pause_loop env (downloadId # rest) t =
     (case map_of (tk_threads t) downloadId of
        None \<Rightarrow> None
      | Some th \<Rightarrow>
          let t1 = pause_thread env downloadId th t
          in if cm_has downloadId (tk_threads t1) then net_pause_loop env rest t1 else None)"

definition service_NetChangeToPause :: "task_env \<Rightarrow> dtask \<Rightarrow> dtask option" where
  "service_NetChangeToPause env t = net_pause_loop env (map fst (tk_threads t)) t"

definition net_start_package :: "task_env \<Rightarrow> string \<times> nat \<Rightarrow> dtask \<Rightarrow> dtask" where
  "net_start_package env e t =
     (let d = tk_heap t ! snd e
      in if di_status d \<noteq> DS_AUTO_PAUSE \<or> \<not> di_isNeedAutoResume d then t
         else if cm_has (fst e) (tk_threads t) then t
         else StartDownloadThread env d t)"

definition service_NetChangeToStart :: "task_env \<Rightarrow> dtask \<Rightarrow> dtask" where
  "service_NetChangeToStart env t = fold (net_start_package env) (tk_srv t) t"

section \<open>Operations of the task\<close>

definition GetRootPath :: "task_env \<Rightarrow> dtask \<Rightarrow> string" where
  "GetRootPath env t =
     (case tk_map t of
        [] \<Rightarrow> []
      | (downloadId, i) # _ \<Rightarrow>
          if di_dirType (tk_heap t ! i) = ENCRYPT_DIR then en_encryptedRoot env else en_packageRoot env)"

definition GetRequiredNetType :: "dtask \<Rightarrow> NetType" where
  "GetRequiredNetType t =
     (case tk_map t of [] \<Rightarrow> NOT_METERED_WIFI | (downloadId, i) # _ \<Rightarrow> di_netType (tk_heap t ! i))"

definition task_GetTaskId :: "dtask \<Rightarrow> string" where
  "task_GetTaskId t = (case tk_map t of [] \<Rightarrow> [] | (downloadId, i) # _ \<Rightarrow> di_taskId (tk_heap t ! i))"

abbreviation (input) FOLDER_PERMISSION :: int where "FOLDER_PERMISSION \<equiv> 488"

definition IsMemoryEnough :: "task_env \<Rightarrow> int \<Rightarrow> dtask \<Rightarrow> bool \<times> dtask" where
  "IsMemoryEnough env requiredSize t =
     (let rootPath = GetRootPath env t
      in if length rootPath < 3 then (False, t)
         else let t1 = (if IsFileExist (tk_fs t) rootPath then t
                else case CreateMultiDirWithPermission (en_baseDirs env) (en_osOk env) rootPath
                            FOLDER_PERMISSION (tk_fs t) of
                       Some (_, fs) \<Rightarrow> t\<lparr>tk_fs := fs\<rparr> | None \<Rightarrow> t)
              in (IsSpaceEnough (en_statfs env rootPath) requiredSize, t1))"

definition DisableCallback :: "dtask \<Rightarrow> dtask" where
  "DisableCallback t = CancelTimedTask (service_SetDisableCallbackFlag True t)"

definition EnableCallback :: "dtask \<Rightarrow> dtask" where
  "EnableCallback t =
     SubmitTimedTask ((service_SetDisableCallbackFlag False t)\<lparr>tk_stopCallback := False\<rparr>)"

text \<open>\<open>InitDownloadInfo\<close> and the constructor.\<close>

definition init_info :: "file_system \<Rightarrow> string \<Rightarrow> DownloadInfo \<Rightarrow> DownloadInfo" where
  "init_info fs taskId d =
     d\<lparr>di_downloadId := di_versionId d, di_taskId := taskId, di_downloadedSize := GetFileSize fs (di_path d)\<rparr>"

fun index_infos :: "nat \<Rightarrow> DownloadInfo list \<Rightarrow> (string, nat) cmap \<Rightarrow> (string, nat) cmap" where
  "index_infos n [] m = m"
| "index_infos n (d # ds) m = index_infos (Suc n) ds (cm_put (di_downloadId d) n m)"

definition new_task :: "file_system \<Rightarrow> db_table \<Rightarrow> string \<Rightarrow> DownloadInfo list \<Rightarrow> dtask" where
  "new_task fs db taskId downloadInfos =
     (let heap = map (init_info fs taskId) downloadInfos;
          m = index_infos 0 heap [];
          (proc, p) = processor_GetTaskProgress heap (new_processor heap)
      in \<lparr>tk_taskId = taskId, tk_heap = heap, tk_map = m, tk_srv = m, tk_threads = [], tk_stopped = [], tk_started = [],
          tk_srvStop = False, tk_srvHasCallback = False, tk_proc = proc, tk_status = pi_taskStatus p,
          tk_reportedTaskProgress = 0, tk_progressInfo = p, tk_hasCallback = False, tk_stopCallback = False,
          tk_lastReportTime = 0, tk_timers = [], tk_timerHandle = None, tk_nextTimer = 0, tk_queue = [],
          tk_reports = [], tk_db = db, tk_fs = fs\<rparr>)"

definition task_Start :: "task_env \<Rightarrow> DownloadError \<Rightarrow> dtask \<Rightarrow> DownloadError \<times> dtask" where
  "task_Start env err t =
     (if tk_map t = [] then (build_error R_DOWNLOAD_INFO_EMPTY CALL_FAIL, t)
      else let (enough, t1) = IsMemoryEnough env
                 (i64 (pi_packageSize (tk_progressInfo t) - pi_downloadedSize (tk_progressInfo t)))
                 (t\<lparr>tk_hasCallback := True\<rparr>)
        in if \<not> enough then (build_error R_NO_ENOUGH_MEMORY CALL_FAIL, t1)
           else let (err1, t2) = service_Start env err t1 in (err1, EnableCallback t2))"

definition task_Pause :: "task_env \<Rightarrow> dtask \<Rightarrow> DownloadError \<times> dtask" where
  "task_Pause env t = service_Pause env (DisableCallback (t\<lparr>tk_stopCallback := True\<rparr>))"

definition reset_failed :: "DownloadInfo \<Rightarrow> DownloadInfo" where
  "reset_failed d = (if di_status d = DS_FAIL then d\<lparr>di_status := DS_INIT\<rparr> else d)"

definition task_Resume :: "task_env \<Rightarrow> NetType \<Rightarrow> bool \<Rightarrow> dtask \<Rightarrow> DownloadError \<times> dtask" where
  "task_Resume env netType hasCallback t =
     (let t1 = fold (\<lambda>e. heap_adj (snd e) reset_failed) (tk_map t) t;
          t2 = EnableCallback (t1\<lparr>tk_hasCallback := hasCallback\<rparr>);
          (err, t3) = service_Resume env netType t2;
          (t4, p) = task_GetTaskProgress t3
      in (err, t4\<lparr>tk_progressInfo := p, tk_status := pi_taskStatus p\<rparr>))"

definition task_Cancel :: "task_env \<Rightarrow> bool \<Rightarrow> dtask \<Rightarrow> DownloadError \<times> dtask" where
  "task_Cancel env isDeleteFiles t =
     (build_error R_SUCCESS CALL_SUCCESS,
      (service_Cancel env isDeleteFiles (DisableCallback (t\<lparr>tk_stopCallback := True\<rparr>)))\<lparr>tk_hasCallback := False\<rparr>)"

definition task_Recover :: "task_env \<Rightarrow> dtask \<Rightarrow> dtask" where
  "task_Recover env t =
     (if tk_map t = [] then t else service_Recover env (t\<lparr>tk_taskId := task_GetTaskId t\<rparr>))"

definition DestroyTask :: "dtask \<Rightarrow> dtask" where
  "DestroyTask t = RemoveDownloadTask t"

definition task_OnNetChange :: "task_env \<Rightarrow> dtask \<Rightarrow> dtask option" where
  "task_OnNetChange env t =
     (if net_available (en_net env) (GetRequiredNetType t)
      then Some (service_NetChangeToStart env (EnableCallback t))
      else service_NetChangeToPause env (DisableCallback t))"

end
