(* ===== verification/Download_Task_Inv.thy ===== *)
theory Download_Task_Inv
  imports Download_Task
begin

text \<open>
  The invariant of a download task under everything that can happen to it: reports of its threads,
  the serial queue and the timers, changes of the file system, and the operations of its owner.
\<close>

definition in_retry_range :: "DownloadInfo \<Rightarrow> bool" where
  "in_retry_range d = (0 \<le> di_retryTimes d \<and> di_retryTimes d \<le> MAX_RETRY_TIMES)"

text \<open>The rows of the table: the counter a restart would read from each of them is in range.\<close>

definition db_ok :: "db_table \<Rightarrow> bool" where
  "db_ok db = (\<forall>r \<in> set (tb_rows db). in_retry_range (download_ParseDbValue r))"

text \<open>The map of threads: every thread is filed under its package and reports to the service.\<close>

definition threads_ok :: "(string, dthread) cmap \<Rightarrow> bool" where
  "threads_ok m = (cm_ok m \<and> (\<forall>(downloadId, th) \<in> set m. di_downloadId (th_info th) = downloadId \<and> th_hasCallback th))"

text \<open>
  The packages: the maps agree with the objects, no thread works on a package that has ended, and the
  retry counters are in range. The invariant of a task is this with its threads and its rows in order.
\<close>

definition packages_ok :: "dtask \<Rightarrow> bool" where
  "packages_ok t =
     (cm_ok (tk_map t) \<and> (tk_srv t = tk_map t \<or> tk_srv t = [])
      \<and> (\<forall>(downloadId, i) \<in> set (tk_map t).
           i < length (tk_heap t) \<and> di_downloadId (tk_heap t ! i) = downloadId
           \<and> (cm_has downloadId (tk_threads t) \<longrightarrow> \<not> IsCompleted (tk_heap t ! i)))
      \<and> pp_totalInfoSize (tk_proc t) = int (length (tk_heap t))
      \<and> (\<forall>d \<in> set (tk_heap t). 0 \<le> di_retryTimes d \<and> di_retryTimes d \<le> MAX_RETRY_TIMES))"

definition task_wf :: "dtask \<Rightarrow> bool" where
  "task_wf t = (packages_ok t \<and> threads_ok (tk_threads t) \<and> db_ok (tk_db t))"

text \<open>The members the invariant reads.\<close>

definition task_core :: "dtask \<Rightarrow> (string, nat) cmap \<times> (string, nat) cmap \<times> DownloadInfo list
    \<times> (string, dthread) cmap \<times> (string \<times> dthread) list \<times> db_table \<times> int" where
  "task_core t = (tk_map t, tk_srv t, tk_heap t, tk_threads t, tk_stopped t, tk_db t, pp_totalInfoSize (tk_proc t))"

lemma task_wf_core: "task_core t' = task_core t \<Longrightarrow> task_wf t' = task_wf t"
  by (simp add: task_core_def task_wf_def packages_ok_def)

lemma GetTaskProgress_core [simp]: "task_core (fst (task_GetTaskProgress t)) = task_core t"
  by (simp add: task_GetTaskProgress_def processor_GetTaskProgress_def task_core_def Let_def)

lemma CallbackProgressLocked_core [simp]: "task_core (CallbackProgressLocked env p t) = task_core t"
  by (simp add: CallbackProgressLocked_def task_core_def)

lemma CancelTimedTask_core [simp]: "task_core (CancelTimedTask t) = task_core t"
  by (simp add: CancelTimedTask_def task_core_def split: option.split)

lemma SubmitTimedTask_core [simp]: "task_core (SubmitTimedTask t) = task_core t"
  by (simp add: SubmitTimedTask_def task_core_def)

lemma IsProgressChanged_core [simp]: "task_core (snd (IsProgressChanged p t)) = task_core t"
  by (simp add: IsProgressChanged_def task_core_def Let_def)

lemma task_core_update [simp]:
  "task_core (t\<lparr>tk_queue := q\<rparr>) = task_core t" "task_core (t\<lparr>tk_timers := ts\<rparr>) = task_core t"
  "task_core (t\<lparr>tk_fs := fs\<rparr>) = task_core t"
  "task_core (t\<lparr>tk_srvStop := b\<rparr>) = task_core t" "task_core (t\<lparr>tk_srvHasCallback := b\<rparr>) = task_core t"
  "task_core (t\<lparr>tk_hasCallback := b\<rparr>) = task_core t" "task_core (t\<lparr>tk_stopCallback := b\<rparr>) = task_core t"
  "task_core (t\<lparr>tk_taskId := s\<rparr>) = task_core t"
  "task_core (t\<lparr>tk_progressInfo := p, tk_status := st\<rparr>) = task_core t"
  by (simp_all add: task_core_def)

lemma UpdateTaskProgress_core [simp]: "task_core (UpdateTaskProgress env t) = task_core t"
proof -
  obtain t1 p where g: "task_GetTaskProgress t = (t1, p)" by (cases "task_GetTaskProgress t")
  obtain b t2 where c: "IsProgressChanged p t1 = (b, t2)" by (cases "IsProgressChanged p t1")
  have "task_core t1 = task_core t" "task_core t2 = task_core t1"
    using GetTaskProgress_core [of t] IsProgressChanged_core [of p t1] by (simp_all add: g c)
  then show ?thesis by (simp add: UpdateTaskProgress_def g c Let_def)
qed

lemma CallbackDownloadProgress_core [simp]: "task_core (CallbackDownloadProgress env t) = task_core t"
  by (simp add: CallbackDownloadProgress_def)

lemma run_queue_core [simp]: "task_core (run_queue env t) = task_core t"
proof (cases "tk_queue t")
  case Nil
  then show ?thesis by (simp add: run_queue_def)
next
  case (Cons p rest)
  obtain t1 c where g: "task_GetTaskProgress (t\<lparr>tk_queue := rest\<rparr>) = (t1, c)" by fastforce
  then have "task_core t1 = task_core t"
    using GetTaskProgress_core [of "t\<lparr>tk_queue := rest\<rparr>"] by simp
  then show ?thesis by (simp add: run_queue_def Cons g)
qed

lemma run_timer_core [simp]: "task_core (run_timer env h t) = task_core t"
proof -
  let ?t = "t\<lparr>tk_timers := filter (\<lambda>x. x \<noteq> h) (tk_timers t)\<rparr>"
  obtain t1 c where g: "task_GetTaskProgress ?t = (t1, c)" by fastforce
  then have "task_core t1 = task_core t" using GetTaskProgress_core [of ?t] by simp
  then show ?thesis by (simp add: run_timer_def g Let_def)
qed

lemma ClearPackage_core [simp]: "task_core (ClearPackage env path t) = task_core t"
  by (simp add: ClearPackage_def split: option.split fnode.split)

lemma IsMemoryEnough_core [simp]: "task_core (snd (IsMemoryEnough env n t)) = task_core t"
  by (simp add: IsMemoryEnough_def Let_def split: option.split prod.split)

lemma DeleteDownloadedFiles_core [simp]: "task_core (DeleteDownloadedFiles env t) = task_core t"
proof -
  have "task_core (fold (\<lambda>e s. ClearPackage env (di_path (tk_heap s ! snd e)) s) es t) = task_core t" for es t
    by (induction es arbitrary: t) simp_all
  then show ?thesis by (simp add: DeleteDownloadedFiles_def)
qed

section \<open>The rows keep their counters in range\<close>

lemma parsed_retry: "di_retryTimes (download_ParseDbValue r) = get_int r ''retryTimes'' 0"
  by (simp add: download_ParseDbValue_def Let_def new_download_info_def)

lemma db_ok_same: "db_ok db \<Longrightarrow> tb_rows db' = tb_rows db \<Longrightarrow> db_ok db'"
  by (simp add: db_ok_def)

lemma db_ok_Insert [inv_intros]: "db_ok db \<Longrightarrow> in_retry_range d \<Longrightarrow> db_ok (download_Insert d db)"
  by (auto simp: db_ok_def in_retry_range_def parsed_retry download_Insert_def table_Insert_def
      download_BuildDbValue_def get_put i32_id)

lemma db_ok_Delete [inv_intros]: "db_ok db \<Longrightarrow> db_ok (DeleteByTaskId k db)"
  by (auto simp: db_ok_def DeleteByTaskId_def table_Delete_def)

text \<open>An update that leaves the counter alone, and one that writes a counter in range.\<close>

lemma db_ok_Update:
  assumes "db_ok db" "map_of (rev vals) ''retryTimes'' = None"
  shows "db_ok (snd (table_Update vals preds db))"
  using assms by (auto simp: db_ok_def table_Update_def in_retry_range_def parsed_retry get_int_def map_of_row_set)

lemma db_ok_Progress [inv_intros]: "db_ok db \<Longrightarrow> db_ok (snd (UpdateProgressById d db))"
  unfolding UpdateProgressById_def by (erule db_ok_Update) (simp add: put_int_def put_long_def)

lemma db_ok_NetType [inv_intros]: "db_ok db \<Longrightarrow> db_ok (snd (UpdateNetTypeById d db))"
  unfolding UpdateNetTypeById_def by (erule db_ok_Update) (simp add: put_int_def)

lemma db_ok_RetryTimes [inv_intros]: "db_ok db \<Longrightarrow> in_retry_range d \<Longrightarrow> db_ok (snd (UpdateRetryTimesById d db))"
  by (auto simp: db_ok_def UpdateRetryTimesById_def table_Update_def in_retry_range_def parsed_retry get_int_def
      map_of_row_set put_int_def i32_id)

section \<open>Operations that keep the invariant\<close>

lemma wf_db: "task_wf t \<Longrightarrow> db_ok db \<Longrightarrow> task_wf (t\<lparr>tk_db := db\<rparr>)"
  by (simp add: task_wf_def packages_ok_def)

lemma task_wf_db: "task_wf t \<Longrightarrow> db_ok (tk_db t)"
  by (simp add: task_wf_def packages_ok_def)

lemma task_wf_retry: "task_wf t \<Longrightarrow> i < length (tk_heap t) \<Longrightarrow> in_retry_range (tk_heap t ! i)"
  by (auto simp: task_wf_def packages_ok_def in_retry_range_def)

lemma wf_same_core: "task_wf t \<Longrightarrow> task_core t' = task_core t \<Longrightarrow> task_wf t'"
  using task_wf_core by blast

lemma task_wf_entry:
  "task_wf t \<Longrightarrow> (downloadId, i) \<in> set (tk_map t) \<Longrightarrow>
     i < length (tk_heap t) \<and> di_downloadId (tk_heap t ! i) = downloadId"
  by (auto simp: task_wf_def packages_ok_def)

lemma task_wf_srv_subset: "task_wf t \<Longrightarrow> e \<in> set (tk_srv t) \<Longrightarrow> e \<in> set (tk_map t)"
  by (auto simp: task_wf_def packages_ok_def)

lemma task_wf_srv_lookup:
  "task_wf t \<Longrightarrow> map_of (tk_srv t) downloadId = Some i \<Longrightarrow> (downloadId, i) \<in> set (tk_map t)"
  using map_of_SomeD [of "tk_srv t"] task_wf_srv_subset by blast

text \<open>Distinct packages have distinct objects: two entries with the same position have the same id.\<close>

lemma task_wf_same_index:
  "task_wf t \<Longrightarrow> (a, i) \<in> set (tk_map t) \<Longrightarrow> (b, i) \<in> set (tk_map t) \<Longrightarrow> a = b"
  using task_wf_entry by blast

text \<open>
  A package object may change as long as it keeps its id and its retry count in range, and is not
  completed while a thread works on it.
\<close>

lemma wf_heap_adj:
  assumes wf: "task_wf t" and mem: "(downloadId, i) \<in> set (tk_map t)"
    and keeps_id: "di_downloadId (f (tk_heap t ! i)) = di_downloadId (tk_heap t ! i)"
    and retry: "0 \<le> di_retryTimes (f (tk_heap t ! i))" "di_retryTimes (f (tk_heap t ! i)) \<le> MAX_RETRY_TIMES"
    and open_if: "cm_has downloadId (tk_threads t) \<Longrightarrow> \<not> IsCompleted (f (tk_heap t ! i))"
  shows "task_wf (heap_adj i f t)"
proof -
  have i: "i < length (tk_heap t)" using task_wf_entry [OF wf mem] by simp
  have entries: "\<forall>(d, j) \<in> set (tk_map t).
      j < length (tk_heap t) \<and> di_downloadId ((tk_heap t)[i := f (tk_heap t ! i)] ! j) = d
      \<and> (cm_has d (tk_threads t) \<longrightarrow> \<not> IsCompleted ((tk_heap t)[i := f (tk_heap t ! i)] ! j))"
  proof safe
    fix d j assume m: "(d, j) \<in> set (tk_map t)"
    show "j < length (tk_heap t)" using task_wf_entry [OF wf m] by simp
    show "di_downloadId ((tk_heap t)[i := f (tk_heap t ! i)] ! j) = d"
      using task_wf_entry [OF wf m] i keeps_id by (cases "j = i") auto
    assume th: "cm_has d (tk_threads t)" and c: "IsCompleted ((tk_heap t)[i := f (tk_heap t ! i)] ! j)"
    show False
    proof (cases "j = i")
      case True
      with m mem task_wf_same_index [OF wf] have "d = downloadId" by blast
      with th c True i open_if show False by simp
    next
      case False
      with c wf m th show False by (auto simp: task_wf_def packages_ok_def)
    qed
  qed
  have "\<forall>d \<in> set ((tk_heap t)[i := f (tk_heap t ! i)]). 0 \<le> di_retryTimes d \<and> di_retryTimes d \<le> MAX_RETRY_TIMES"
    using wf retry set_update_subset_insert [of "tk_heap t" i "f (tk_heap t ! i)"]
    by (auto simp: task_wf_def packages_ok_def)
  with entries wf show ?thesis by (simp add: task_wf_def packages_ok_def heap_adj_def)
qed

lemma heap_adj_sel [simp]:
  "tk_map (heap_adj i f t) = tk_map t" "tk_srv (heap_adj i f t) = tk_srv t"
  "tk_threads (heap_adj i f t) = tk_threads t" "tk_srvStop (heap_adj i f t) = tk_srvStop t"
  "length (tk_heap (heap_adj i f t)) = length (tk_heap t)"
  "i < length (tk_heap t) \<Longrightarrow> tk_heap (heap_adj i f t) ! i = f (tk_heap t ! i)"
  by (simp_all add: heap_adj_def)

lemma wf_RemoveThread [inv_intros]: "task_wf t \<Longrightarrow> task_wf (RemoveThread d t)"
  by (auto simp: task_wf_def packages_ok_def RemoveThread_def threads_ok_def cm_ok_del) (auto simp: cm_del_def)

lemma threads_ok_put:
  "threads_ok m \<Longrightarrow> di_downloadId (th_info th) = d \<Longrightarrow> th_hasCallback th \<Longrightarrow> threads_ok (cm_put d th m)"
  by (auto simp: threads_ok_def cm_ok_put dest!: cm_put_mem)

lemma wf_StartDownloadThread:
  assumes wf: "task_wf t" and mem: "(downloadId, i) \<in> set (tk_map t)" and "\<not> IsCompleted (tk_heap t ! i)"
  shows "task_wf (StartDownloadThread env (tk_heap t ! i) t)"
proof -
  have "\<not> IsCompleted (tk_heap t ! j)" if m: "(d, j) \<in> set (tk_map t)" and "d = downloadId" for d j
  proof -
    have "j = i" using wf m mem that by (auto simp: task_wf_def packages_ok_def cm_ok_def dest: eq_key_imp_eq_value)
    then show ?thesis using assms(3) by simp
  qed
  then show ?thesis
    using wf mem task_wf_entry [OF wf mem] by (auto simp: task_wf_def packages_ok_def StartDownloadThread_def threads_ok_put)
qed

lemma wf_service_UpdateDownloadInfo:
  assumes wf: "task_wf t" and open_if: "cm_has (ci_downloadId info) (tk_threads t) \<Longrightarrow> \<not> is_completed (ci_status info)"
  shows "task_wf (service_UpdateDownloadInfo info t)"
proof (cases "map_of (tk_srv t) (ci_downloadId info)")
  case None
  with wf show ?thesis by (simp add: service_UpdateDownloadInfo_def)
next
  case (Some i)
  have mem: "(ci_downloadId info, i) \<in> set (tk_map t)" by (rule task_wf_srv_lookup [OF wf Some])
  have i: "i < length (tk_heap t)" using task_wf_entry [OF wf mem] by simp
  have "task_wf (heap_adj i (UpdateDownloadInfo info) t)"
  proof (rule wf_heap_adj [OF wf mem])
    have "tk_heap t ! i \<in> set (tk_heap t)" using i by simp
    then show "0 \<le> di_retryTimes (UpdateDownloadInfo info (tk_heap t ! i))"
      "di_retryTimes (UpdateDownloadInfo info (tk_heap t ! i)) \<le> MAX_RETRY_TIMES"
      using wf by (auto simp: task_wf_def packages_ok_def)
  qed (use open_if in \<open>auto simp: IsCompleted_def\<close>)
  with Some wf show ?thesis
    by (auto simp: service_UpdateDownloadInfo_def Let_def intro!: wf_db db_ok_Progress task_wf_db)
qed

lemma wf_CallbackDownloadProgress [inv_intros]: "task_wf t \<Longrightarrow> task_wf (CallbackDownloadProgress env t)"
  by (rule wf_same_core [OF _ CallbackDownloadProgress_core])

lemma wf_HandleRetry:
  assumes wf: "task_wf t" and srv: "map_of (tk_srv t) downloadId = Some i"
    and idle: "\<not> cm_has downloadId (tk_threads t)" and unfinished: "\<not> IsCompleted (tk_heap t ! i)"
    and retry: "IsRetryAble (tk_heap t ! i)"
  shows "task_wf (snd (HandleRetry env downloadId reason t)) \<and> fst (HandleRetry env downloadId reason t) = RES_SUCCESS"
proof -
  let ?inc = "\<lambda>d. d\<lparr>di_retryTimes := di_retryTimes d + 1\<rparr>"
  let ?t1 = "heap_adj i ?inc t"
  let ?t2 = "?t1\<lparr>tk_db := snd (UpdateRetryTimesById (tk_heap ?t1 ! i) (tk_db ?t1))\<rparr>"
  let ?t3 = "heap_adj i (switch_url reason) ?t2"
  have mem: "(downloadId, i) \<in> set (tk_map t)" by (rule task_wf_srv_lookup [OF wf srv])
  have i: "i < length (tk_heap t)" using task_wf_entry [OF wf mem] by simp
  have r0: "0 \<le> di_retryTimes (tk_heap t ! i)" using wf i by (auto simp: task_wf_def packages_ok_def)
  have w1: "task_wf ?t1"
    using idle r0 retry by (intro wf_heap_adj [OF wf mem]) (auto simp: IsRetryAble_def)
  have w2: "task_wf ?t2" using i by (intro wf_db w1 db_ok_RetryTimes task_wf_db task_wf_retry) simp
  have h2: "tk_heap ?t2 ! i = ?inc (tk_heap t ! i)" using i by simp
  have w3: "task_wf ?t3"
    using idle r0 retry
    by (intro wf_heap_adj [OF w2, of downloadId i]) (simp_all add: mem i switch_url_def IsRetryAble_def)
  have h3: "tk_heap ?t3 ! i = switch_url reason (?inc (tk_heap t ! i))"
    using i h2 by (simp add: heap_adj_def)
  have "task_wf (StartDownloadThread env (tk_heap ?t3 ! i) ?t3)"
    using unfinished by (intro wf_StartDownloadThread [OF w3, of downloadId])
      (simp_all add: mem h3 switch_url_def IsCompleted_def)
  then show ?thesis using srv by (simp add: HandleRetry_def Let_def)
qed

lemma wf_UpdateDownloadProgress [inv_intros]:
  assumes wf: "task_wf t" and live: "ci_status info = DS_FAIL \<Longrightarrow> cm_has (ci_downloadId info) (tk_threads t)"
  shows "task_wf (UpdateDownloadProgress env info t)"
proof -
  let ?id = "ci_downloadId info"
  let ?ended = "ci_status info \<noteq> DS_DOWNLOADING \<and> ci_status info \<noteq> DS_VERIFYING"
  define t1 where "t1 = (if ?ended then RemoveThread ?id t else t)"
  have w1: "task_wf t1" using wf by (simp add: t1_def wf_RemoveThread)
  have gone: "?ended \<Longrightarrow> \<not> cm_has ?id (tk_threads t1)" by (simp add: t1_def RemoveThread_def)
  have upd: "task_wf (service_UpdateDownloadInfo info s)"
    if "task_wf s" "tk_threads s = tk_threads t1" for s
    using gone that by (intro wf_service_UpdateDownloadInfo) (auto simp: is_completed_def)
  show ?thesis
  proof (cases "ci_status info = DS_FAIL")
    case False
    then have "UpdateDownloadProgress env info t
        = CallbackDownloadProgress env (service_UpdateDownloadInfo info t1)"
      by (simp add: UpdateDownloadProgress_def flip: t1_def)
    then show ?thesis using upd [OF w1 refl] by (simp add: wf_CallbackDownloadProgress)
  next
    case fail: True
    then have idle: "\<not> cm_has ?id (tk_threads t1)" using gone by simp
    show ?thesis
    proof (cases "map_of (tk_srv t1) ?id")
      case None
      then show ?thesis
        using fail w1 by (simp add: UpdateDownloadProgress_def GetDownloadInfo_def t1_def)
    next
      case (Some i)
      let ?d = "tk_heap t1 ! i"
      have srv: "tk_srv t1 = tk_srv t" "tk_map t1 = tk_map t" "tk_heap t1 = tk_heap t"
        by (simp_all add: t1_def RemoveThread_def)
      have mem: "(?id, i) \<in> set (tk_map t)" using task_wf_srv_lookup [OF w1 Some] srv by simp
      have open_d: "\<not> IsCompleted ?d" using wf mem live [OF fail] srv by (auto simp: task_wf_def packages_ok_def)
      have cl: "task_wf (ClearPackage env (di_path ?d) t1)" by (rule wf_same_core [OF w1]) simp
      have clt: "tk_threads (ClearPackage env (di_path ?d) t1) = tk_threads t1"
        by (simp add: ClearPackage_def split: option.split fnode.split)
      have eq: "UpdateDownloadProgress env info t =
         (if ci_endReason info = R_IO_EXCEPTION \<or> ci_endReason info = R_VERIFY_FAIL
          then CallbackDownloadProgress env (service_UpdateDownloadInfo info (ClearPackage env (di_path ?d) t1))
          else if \<not> IsRetryAble ?d then CallbackDownloadProgress env (service_UpdateDownloadInfo info t1)
          else case HandleRetry env ?id (ci_endReason info) t1 of
             (RES_SUCCESS, t2) \<Rightarrow> t2
           | (RES_FAIL, t2) \<Rightarrow> CallbackDownloadProgress env (service_UpdateDownloadInfo info t2))"
        using fail Some by (simp add: UpdateDownloadProgress_def GetDownloadInfo_def t1_def Let_def)
      show ?thesis
      proof (cases "IsRetryAble ?d")
        case True
        then have "task_wf (snd (HandleRetry env ?id (ci_endReason info) t1))"
          "fst (HandleRetry env ?id (ci_endReason info) t1) = RES_SUCCESS"
          using wf_HandleRetry [OF w1 Some idle open_d True] by simp_all
        then show ?thesis
          using eq upd [OF cl clt] True
          by (auto simp: wf_CallbackDownloadProgress split: prod.split DownloadResult.split)
      next
        case False
        then show ?thesis
          using eq upd [OF cl clt] upd [OF w1 refl] by (simp add: wf_CallbackDownloadProgress)
      qed
    qed
  qed
qed

text \<open>A loop over the service's packages keeps the invariant if one step does.\<close>

lemma wf_fold:
  assumes "task_wf t" "\<forall>e \<in> set es. e \<in> set (tk_map t)"
    and step: "\<And>s e. task_wf s \<Longrightarrow> e \<in> set (tk_map s) \<Longrightarrow> task_wf (f e s) \<and> tk_map (f e s) = tk_map s"
  shows "task_wf (fold f es t) \<and> tk_map (fold f es t) = tk_map t"
  using assms(1,2)
proof (induction es arbitrary: t)
  case Nil
  then show ?case by simp
next
  case (Cons e es)
  have "task_wf (f e t) \<and> tk_map (f e t) = tk_map t" using Cons.prems by (intro step) auto
  then show ?case using Cons.IH [of "f e t"] Cons.prems by simp
qed

lemma core_map: "task_core t' = task_core t \<Longrightarrow> tk_map t' = tk_map t"
  by (simp add: task_core_def)

lemma CallbackDownloadProgress_map [simp]: "tk_map (CallbackDownloadProgress env t) = tk_map t"
  by (rule core_map) simp

lemma service_UpdateDownloadInfo_map [simp]:
  "tk_map (service_UpdateDownloadInfo info t) = tk_map t" "tk_srv (service_UpdateDownloadInfo info t) = tk_srv t"
  by (simp_all add: service_UpdateDownloadInfo_def Let_def split: option.split)

lemma StartDownloadThread_map [simp]:
  "tk_map (StartDownloadThread env d t) = tk_map t" "tk_srv (StartDownloadThread env d t) = tk_srv t"
  "tk_heap (StartDownloadThread env d t) = tk_heap t"
  by (simp_all add: StartDownloadThread_def)

lemma RemoveThread_map [simp]:
  "tk_map (RemoveThread d t) = tk_map t" "tk_srv (RemoveThread d t) = tk_srv t"
  "tk_heap (RemoveThread d t) = tk_heap t"
  by (simp_all add: RemoveThread_def)

lemma ClearPackage_map [simp]: "tk_map (ClearPackage env p t) = tk_map t"
  by (rule core_map) simp

lemma HandleRetry_map [simp]: "tk_map (snd (HandleRetry env d r t)) = tk_map t"
  by (simp add: HandleRetry_def Let_def split: option.split)

lemma UpdateDownloadProgress_map [simp]: "tk_map (UpdateDownloadProgress env info t) = tk_map t"
proof -
  have retry: "tk_map (case HandleRetry env d r s of (RES_SUCCESS, t2) \<Rightarrow> t2
      | (RES_FAIL, t2) \<Rightarrow> CallbackDownloadProgress env (service_UpdateDownloadInfo info t2)) = tk_map s" for d r s
  proof -
    obtain c t2 where h: "HandleRetry env d r s = (c, t2)" by (cases "HandleRetry env d r s")
    have "tk_map t2 = tk_map s" using HandleRetry_map [of env d r s] unfolding h by simp
    then show ?thesis by (cases c) (simp_all add: h)
  qed
  show ?thesis
    by (simp add: UpdateDownloadProgress_def Let_def retry split: option.split)
qed

lemma wf_start_package: "task_wf t \<Longrightarrow> e \<in> set (tk_map t) \<Longrightarrow>
    task_wf (start_package env e t) \<and> tk_map (start_package env e t) = tk_map t"
proof -
  assume wf: "task_wf t" and e: "e \<in> set (tk_map t)"
  let ?t = "t\<lparr>tk_db := download_Insert (tk_heap t ! snd e) (tk_db t)\<rparr>"
  have "(fst e, snd e) \<in> set (tk_map t)" using e by simp
  from task_wf_entry [OF wf this] have i: "snd e < length (tk_heap t)" by simp
  have w: "task_wf ?t" by (intro wf_db wf db_ok_Insert task_wf_db task_wf_retry i)
  have "task_wf (StartDownloadThread env (tk_heap ?t ! snd e) ?t)" if "\<not> IsCompleted (tk_heap t ! snd e)"
    using e that by (intro wf_StartDownloadThread [OF w, of "fst e"]) auto
  then show ?thesis using wf by (simp add: start_package_def Let_def)
qed

lemma wf_resume_package: "task_wf t \<Longrightarrow> e \<in> set (tk_map t) \<Longrightarrow>
    task_wf (resume_package env e t) \<and> tk_map (resume_package env e t) = tk_map t"
proof -
  assume wf: "task_wf t" and e: "e \<in> set (tk_map t)"
  obtain d i where ei: "e = (d, i)" by (cases e)
  have i: "i < length (tk_heap t)" using task_wf_entry [OF wf] e ei by simp
  have w: "task_wf (heap_adj i resume_info t)"
    if "\<not> cm_has d (tk_threads t)"
    using e ei that by (intro wf_heap_adj [OF wf, of d]) (auto simp: resume_info_def)
  have "\<not> IsCompleted (resume_info (tk_heap t ! i))" if "\<not> IsCompleted (tk_heap t ! i)"
    using that by (simp add: resume_info_def IsCompleted_def is_completed_def)
  then have "task_wf (StartDownloadThread env (tk_heap (heap_adj i resume_info t) ! i) (heap_adj i resume_info t))"
    if "\<not> cm_has d (tk_threads t)" "\<not> IsCompleted (tk_heap t ! i)"
    using e ei i that by (intro wf_StartDownloadThread [OF w, of d]) auto
  then show ?thesis using wf by (simp add: resume_package_def Let_def ei)
qed

lemma wf_net_start_package: "task_wf t \<Longrightarrow> e \<in> set (tk_map t) \<Longrightarrow>
    task_wf (net_start_package env e t) \<and> tk_map (net_start_package env e t) = tk_map t"
  using wf_StartDownloadThread [of t "fst e" "snd e"]
  by (auto simp: net_start_package_def Let_def IsCompleted_def is_completed_def)

lemma wf_set_net_type: "task_wf t \<Longrightarrow> e \<in> set (tk_map t) \<Longrightarrow>
    task_wf (set_net_type n e t) \<and> tk_map (set_net_type n e t) = tk_map t"
proof -
  assume wf: "task_wf t" and e: "e \<in> set (tk_map t)"
  let ?f = "\<lambda>d. d\<lparr>di_netType := n\<rparr>"
  have m: "(fst e, snd e) \<in> set (tk_map t)" using e by simp
  have i: "snd e < length (tk_heap t)" using task_wf_entry [OF wf m] by simp
  have r: "tk_heap t ! snd e \<in> set (tk_heap t)" using i by simp
  have "task_wf (heap_adj (snd e) ?f t)"
  proof (rule wf_heap_adj [OF wf m])
    show "0 \<le> di_retryTimes (?f (tk_heap t ! snd e))" "di_retryTimes (?f (tk_heap t ! snd e)) \<le> 3"
      using wf r by (auto simp: task_wf_def packages_ok_def)
    show "\<not> IsCompleted (?f (tk_heap t ! snd e))" if "cm_has (fst e) (tk_threads t)"
      using wf m that by (auto simp: task_wf_def packages_ok_def IsCompleted_def)
  qed simp
  then have "task_wf ((heap_adj (snd e) ?f t)\<lparr>tk_db := snd (UpdateNetTypeById d (tk_db (heap_adj (snd e) ?f t)))\<rparr>)" for d
    by (intro wf_db db_ok_NetType task_wf_db)
  then show ?thesis using wf by (simp add: set_net_type_def Let_def)
qed

lemma wf_reset_failed: "task_wf t \<Longrightarrow> e \<in> set (tk_map t) \<Longrightarrow>
    task_wf (heap_adj (snd e) reset_failed t) \<and> tk_map (heap_adj (snd e) reset_failed t) = tk_map t"
proof -
  assume wf: "task_wf t" and e: "e \<in> set (tk_map t)"
  have m: "(fst e, snd e) \<in> set (tk_map t)" using e by simp
  have r: "tk_heap t ! snd e \<in> set (tk_heap t)" using task_wf_entry [OF wf m] by simp
  have "task_wf (heap_adj (snd e) reset_failed t)"
  proof (rule wf_heap_adj [OF wf m])
    show "0 \<le> di_retryTimes (reset_failed (tk_heap t ! snd e))" "di_retryTimes (reset_failed (tk_heap t ! snd e)) \<le> 3"
      using wf r by (auto simp: task_wf_def packages_ok_def reset_failed_def)
    show "\<not> IsCompleted (reset_failed (tk_heap t ! snd e))" if "cm_has (fst e) (tk_threads t)"
      using wf m that by (auto simp: task_wf_def packages_ok_def IsCompleted_def is_completed_def reset_failed_def)
  qed (simp add: reset_failed_def)
  then show ?thesis by simp
qed

section \<open>Everything that can happen to a task\<close>

text \<open>
  A thread has run on its own and makes a report. What it may have changed of itself is whatever its
  contract \<open>thread_ext\<close> leaves open: all private members but its package and its callback; its status
  follows its reports.
\<close>

definition thread_moves :: "DownloadCallbackInfo \<Rightarrow> dthread \<Rightarrow> dthread \<Rightarrow> bool" where
  "thread_moves info th th' =
     (th_info th' = th_info th \<and> th_hasCallback th' = th_hasCallback th
      \<and> th_status th' = (if ci_status info = DS_DOWNLOADING \<or> ci_status info = DS_VERIFYING
                         then ci_status info else th_status th))"

definition thread_report :: "task_env \<Rightarrow> DownloadCallbackInfo \<Rightarrow> dthread \<Rightarrow> dtask \<Rightarrow> dtask" where
  "thread_report env info th' t =
     CallbackUpdateDownloadProgress env info
       (t\<lparr>tk_threads := cm_adj (ci_downloadId info) (\<lambda>_. th') (tk_threads t)\<rparr>)"

definition thread_status :: "DownloadStatus \<Rightarrow> bool" where
  "thread_status s = (s \<in> {DS_DOWNLOADING, DS_VERIFYING, DS_SUCCESS, DS_FAIL, DS_AUTO_PAUSE})"

inductive task_step :: "dtask \<Rightarrow> dtask \<Rightarrow> bool" where
  report: "map_of (tk_threads t) (ci_downloadId info) = Some th \<Longrightarrow> thread_moves info th th' \<Longrightarrow>
     thread_status (ci_status info) \<Longrightarrow> task_step t (thread_report env info th' t)"
| queue: "task_step t (run_queue env t)"
| timer: "h \<in> set (tk_timers t) \<Longrightarrow> task_step t (run_timer env h t)"
| files: "task_step t (t\<lparr>tk_fs := fs\<rparr>)"
| start: "task_step t (snd (task_Start env err t))"
| pause: "task_step t (snd (task_Pause env t))"
| resume: "task_step t (snd (task_Resume env netType cb t))"
| cancel: "task_step t (snd (task_Cancel env isDeleteFiles t))"
| recover: "task_step t (task_Recover env t)"
| destroy: "task_step t (DestroyTask t)"
| net_change: "task_OnNetChange env t = Some t' \<Longrightarrow> task_step t t'"

inductive task_reach :: "dtask \<Rightarrow> dtask \<Rightarrow> bool" for t where
  here: "task_reach t t"
| step: "task_reach t t1 \<Longrightarrow> task_step t1 t2 \<Longrightarrow> task_reach t t2"

inductive_cases task_stepE: "task_step t t'"

lemma wf_threads_same_keys:
  "task_wf t \<Longrightarrow> (\<And>d. cm_has d m \<Longrightarrow> cm_has d (tk_threads t)) \<Longrightarrow> threads_ok m \<Longrightarrow> task_wf (t\<lparr>tk_threads := m\<rparr>)"
  by (auto simp: task_wf_def packages_ok_def)

text \<open>Replacing a thread by one of the same package that reports to the service.\<close>

lemma threads_ok_entry:
  "threads_ok m \<Longrightarrow> map_of m d = Some th \<Longrightarrow> di_downloadId (th_info th) = d \<and> th_hasCallback th"
  by (auto simp: threads_ok_def dest: map_of_SomeD)

lemma threads_ok_adj:
  "threads_ok m \<Longrightarrow> di_downloadId (th_info th') = d \<Longrightarrow> th_hasCallback th' \<Longrightarrow> threads_ok (cm_adj d (\<lambda>_. th') m)"
  by (auto simp: threads_ok_def cm_ok_adj) (auto simp: cm_adj_def split: if_splits)

lemma wf_adj_thread:
  assumes "task_wf t" "map_of (tk_threads t) d = Some th" "th_info th' = th_info th" "th_hasCallback th' = th_hasCallback th"
  shows "task_wf (t\<lparr>tk_threads := cm_adj d (\<lambda>_. th') (tk_threads t)\<rparr>)"
proof -
  have ok: "threads_ok (tk_threads t)" using assms(1) by (simp add: task_wf_def packages_ok_def)
  show ?thesis
    using threads_ok_entry [OF ok assms(2)] assms(3,4)
    by (intro wf_threads_same_keys [OF assms(1)] threads_ok_adj [OF ok]) auto
qed

lemma wf_CallbackUpdate:
  "task_wf t \<Longrightarrow> (ci_status info = DS_FAIL \<Longrightarrow> cm_has (ci_downloadId info) (tk_threads t)) \<Longrightarrow>
     task_wf (CallbackUpdateDownloadProgress env info t)"
  by (simp add: CallbackUpdateDownloadProgress_def wf_UpdateDownloadProgress)

lemma wf_thread_report:
  assumes "task_wf t" "map_of (tk_threads t) (ci_downloadId info) = Some th" "thread_moves info th th'"
  shows "task_wf (thread_report env info th' t)"
  unfolding thread_report_def using assms
  by (intro wf_CallbackUpdate wf_adj_thread) (auto simp: thread_moves_def cm_has_iff)

lemma wf_flags:
  assumes "task_wf t"
  shows "task_wf (t\<lparr>tk_srvHasCallback := a\<rparr>)" "task_wf (t\<lparr>tk_srvStop := a\<rparr>)" "task_wf (t\<lparr>tk_hasCallback := a\<rparr>)"
    "task_wf (t\<lparr>tk_stopCallback := a\<rparr>)" "task_wf (t\<lparr>tk_queue := q\<rparr>)" "task_wf (t\<lparr>tk_fs := fs\<rparr>)"
    "task_wf (t\<lparr>tk_taskId := i\<rparr>)" "task_wf (CancelTimedTask t)" "task_wf (SubmitTimedTask t)"
    "task_wf (DeleteDownloadedFiles env t)" "task_wf (run_queue env t)" "task_wf (run_timer env h t)"
    "task_wf (snd (IsMemoryEnough env n t))" "task_wf (fst (task_GetTaskProgress t))"
    "task_wf (t\<lparr>tk_progressInfo := p, tk_status := st\<rparr>)"
  by (rule wf_same_core [OF assms], simp)+

lemma wf_service_Start: "task_wf t \<Longrightarrow> task_wf (snd (service_Start env err t))"
proof -
  assume wf: "task_wf t"
  let ?t = "t\<lparr>tk_srvHasCallback := True, tk_srvStop := False\<rparr>"
  have w: "task_wf ?t" using wf_flags(2) [OF wf_flags(1) [OF wf]] by simp
  have "task_wf (fold (start_package env) (tk_srv t) ?t)"
    using wf_fold [OF w, of "tk_srv t" "start_package env"] wf_start_package task_wf_srv_subset [OF wf] by simp
  with wf show ?thesis by (simp add: service_Start_def)
qed

lemma wf_StopAll: "task_wf t \<Longrightarrow> task_wf (StopAllDownloadThread t)"
  by (auto simp: StopAllDownloadThread_def task_wf_def packages_ok_def threads_ok_def cm_has_def Let_def)

lemma wf_notify:
  assumes wf: "task_wf t" and st: "\<And>d. ci_status (info d) \<noteq> DS_FAIL"
  shows "task_wf (fold (\<lambda>e s. UpdateDownloadProgress env (info (tk_heap s ! snd e)) s) (tk_srv t) t)"
proof -
  have "task_wf (UpdateDownloadProgress env (info (tk_heap s ! snd e)) s) \<and>
      tk_map (UpdateDownloadProgress env (info (tk_heap s ! snd e)) s) = tk_map s"
    if "task_wf s" for s e
    using that st by (auto intro: wf_UpdateDownloadProgress)
  then show ?thesis
    using wf_fold [OF wf, of "tk_srv t" "\<lambda>e s. UpdateDownloadProgress env (info (tk_heap s ! snd e)) s"]
      task_wf_srv_subset [OF wf] by blast
qed

lemma wf_service_Pause: "task_wf t \<Longrightarrow> task_wf (snd (service_Pause env t))"
  using wf_notify [of "StopAllDownloadThread t" pause_info env] wf_StopAll
  by (simp add: service_Pause_def NotifyPauseCompleted_def pause_info_def)

lemma wf_service_Cancel: "task_wf t \<Longrightarrow> task_wf (service_Cancel env b t)"
proof -
  assume wf: "task_wf t"
  have n: "task_wf (NotifyCancelCompleted env s)" if "task_wf s" for s
    using wf_notify [of s "cancel_info env" env] that
    by (simp add: NotifyCancelCompleted_def cancel_info_def Let_def wf_db db_ok_Delete task_wf_db)
  show ?thesis
    using n wf_StopAll [OF wf] wf_flags(10) [OF wf_StopAll [OF wf]]
    by (simp add: service_Cancel_def Let_def)
qed

lemma wf_UpdateDownloadNetType: "task_wf t \<Longrightarrow> task_wf (UpdateDownloadNetType n t) \<and> tk_map (UpdateDownloadNetType n t) = tk_map t"
  unfolding UpdateDownloadNetType_def
  using wf_fold [of t "tk_srv t" "set_net_type n"] wf_set_net_type task_wf_srv_subset by blast

lemma wf_service_Resume: "task_wf t \<Longrightarrow> task_wf (snd (service_Resume env n t))"
proof -
  assume wf: "task_wf t"
  let ?t1 = "UpdateDownloadNetType n (t\<lparr>tk_srvStop := False\<rparr>)"
  have w1: "task_wf ?t1" using wf_UpdateDownloadNetType wf_flags(2) [OF wf] by blast
  have "task_wf (fold (resume_package env) (tk_srv ?t1) ?t1)"
    using wf_fold [OF w1, of "tk_srv ?t1" "resume_package env"] wf_resume_package task_wf_srv_subset [OF w1] by blast
  with wf w1 show ?thesis by (simp add: service_Resume_def Let_def)
qed

lemma cm_has_map_values: "cm_has d (map (\<lambda>(k, s). (k, f s)) m) = cm_has d m"
  by (induction m) (auto simp: cm_has_def)

lemma threads_ok_map:
  assumes "threads_ok m" "\<And>th. th_info (f th) = th_info th" "\<And>th. th_hasCallback (f th) = th_hasCallback th"
  shows "threads_ok (map (\<lambda>(k, th). (k, f th)) m)"
proof -
  have "map fst (map (\<lambda>(k, th). (k, f th)) m) = map fst m" by (induction m) auto
  then have "cm_ok (map (\<lambda>(k, th). (k, f th)) m) = cm_ok m" by (simp only: cm_ok_def)
  then show ?thesis using assms by (auto simp: threads_ok_def)
qed

lemma SetDisable_keeps [simp]:
  "th_info (SetDisableCallbackFlag b th) = th_info th" "th_status (SetDisableCallbackFlag b th) = th_status th"
  "th_hasCallback (SetDisableCallbackFlag b th) = th_hasCallback th"
  by (simp_all add: SetDisableCallbackFlag_def)

lemma wf_SetDisable: "task_wf t \<Longrightarrow> task_wf (service_SetDisableCallbackFlag b t)"
  unfolding service_SetDisableCallbackFlag_def
  by (rule wf_threads_same_keys) (auto simp: cm_has_map_values task_wf_def packages_ok_def intro!: threads_ok_map)

lemma wf_DisableCallback: "task_wf t \<Longrightarrow> task_wf (DisableCallback t)"
  by (simp add: DisableCallback_def wf_flags wf_SetDisable)

lemma wf_EnableCallback: "task_wf t \<Longrightarrow> task_wf (EnableCallback t)"
  by (simp add: EnableCallback_def wf_flags wf_SetDisable)

lemma wf_task_Start: "task_wf t \<Longrightarrow> task_wf (snd (task_Start env err t))"
proof -
  assume wf: "task_wf t"
  let ?n = "i64 (pi_packageSize (tk_progressInfo t) - pi_downloadedSize (tk_progressInfo t))"
  let ?t = "t\<lparr>tk_hasCallback := True\<rparr>"
  obtain enough t1 where m: "IsMemoryEnough env ?n ?t = (enough, t1)" by fastforce
  have w1: "task_wf t1" using wf_flags(13) [OF wf_flags(3) [OF wf], of env ?n True] by (simp add: m)
  obtain err1 t2 where s: "service_Start env err t1 = (err1, t2)" by fastforce
  have "task_wf t2" using wf_service_Start [OF w1, of env err] by (simp add: s)
  with wf w1 show ?thesis by (simp add: task_Start_def m s wf_EnableCallback)
qed

lemma wf_task_Resume: "task_wf t \<Longrightarrow> task_wf (snd (task_Resume env n cb t))"
proof -
  assume wf: "task_wf t"
  define t1 where "t1 = fold (\<lambda>e. heap_adj (snd e) reset_failed) (tk_map t) t"
  have w1: "task_wf t1"
    unfolding t1_def
    using wf_fold [OF wf, of "tk_map t" "\<lambda>e. heap_adj (snd e) reset_failed"] wf_reset_failed by blast
  define t2 where "t2 = EnableCallback (t1\<lparr>tk_hasCallback := cb\<rparr>)"
  have w2: "task_wf t2" unfolding t2_def by (intro wf_EnableCallback wf_flags w1)
  obtain err t3 where r: "service_Resume env n t2 = (err, t3)" by fastforce
  have w3: "task_wf t3" using wf_service_Resume [OF w2, of env n] by (simp add: r)
  obtain t4 p where g: "task_GetTaskProgress t3 = (t4, p)" by fastforce
  have "task_wf t4" using wf_flags(14) [OF w3] by (simp add: g)
  then have "task_wf (t4\<lparr>tk_progressInfo := p, tk_status := pi_taskStatus p\<rparr>)" by (rule wf_flags)
  then show ?thesis by (simp add: task_Resume_def r g flip: t1_def t2_def)
qed

lemma wf_task_Recover: "task_wf t \<Longrightarrow> task_wf (task_Recover env t)"
proof -
  assume wf: "task_wf t"
  let ?t = "t\<lparr>tk_taskId := task_GetTaskId t, tk_srvHasCallback := True\<rparr>"
  have w: "task_wf ?t" using wf_flags(1) [OF wf_flags(7) [OF wf]] by simp
  have step: "task_wf (recover_package env e s) \<and> tk_map (recover_package env e s) = tk_map s"
    if "task_wf s" for s e
    using that by (auto simp: recover_package_def Let_def recover_info_def intro: wf_UpdateDownloadProgress)
  have "task_wf (fold (recover_package env) (tk_srv t) ?t)"
    using wf_fold [OF w, of "tk_srv t" "recover_package env"] step task_wf_srv_subset [OF wf] by simp
  with wf wf_flags(7) [OF wf, of "task_GetTaskId t"] show ?thesis
    by (simp add: task_Recover_def service_Recover_def)
qed

text \<open>What a thread reports when it is asked to pause: the pause, and only if it has not begun.\<close>

definition pause_report :: "thread_env \<Rightarrow> dthread \<Rightarrow> DownloadCallbackInfo" where
  "pause_report env th = last (th_out (CallbackDownload env DS_AUTO_PAUSE R_NET_CHANGE default_error th))"

lemma pause_report_sel [simp]:
  "th_hasCallback th \<Longrightarrow> ci_downloadId (pause_report env th) = di_downloadId (th_info th)"
  "th_hasCallback th \<Longrightarrow> ci_status (pause_report env th) = DS_AUTO_PAUSE"
  by (simp_all add: pause_report_def CallbackDownload_def Let_def fill_callback_def)

lemma thread_NetChangeToPause_out:
  "drop (length (th_out th)) (th_out (snd (thread_NetChangeToPause env th)))
     = (if th_status th = DS_INIT \<and> th_hasCallback th then [pause_report env th] else [])"
  by (simp add: thread_NetChangeToPause_def pause_report_def CallbackDownload_def Let_def)

lemma thread_NetChangeToPause_keeps [simp]:
  "th_info (snd (thread_NetChangeToPause env th)) = th_info th"
  "th_hasCallback (snd (thread_NetChangeToPause env th)) = th_hasCallback th"
  by (simp_all add: thread_NetChangeToPause_def CallbackDownload_def Let_def)

lemma wf_pause_thread:
  assumes "task_wf t" "map_of (tk_threads t) d = Some th"
  shows "task_wf (pause_thread env d th t)"
proof -
  let ?th = "snd (thread_NetChangeToPause (thread_world env t) th)"
  have "task_wf (t\<lparr>tk_threads := cm_adj d (\<lambda>_. ?th) (tk_threads t)\<rparr>)" by (rule wf_adj_thread [OF assms]) simp_all
  then show ?thesis
    by (auto simp: pause_thread_def Let_def thread_NetChangeToPause_out intro!: wf_CallbackUpdate)
qed

lemma wf_net_pause_loop: "task_wf t \<Longrightarrow> net_pause_loop env ids t = Some t' \<Longrightarrow> task_wf t'"
proof (induction env ids t rule: net_pause_loop.induct)
  case (1 env t)
  then show ?case by simp
next
  case (2 env d rest t)
  then show ?case by (auto simp: Let_def wf_pause_thread split: option.splits if_splits)
qed

lemma wf_task_OnNetChange: "task_wf t \<Longrightarrow> task_OnNetChange env t = Some t' \<Longrightarrow> task_wf t'"
proof -
  assume wf: "task_wf t" and r: "task_OnNetChange env t = Some t'"
  have "task_wf (service_NetChangeToStart env (EnableCallback t))"
    unfolding service_NetChangeToStart_def
    using wf_fold [OF wf_EnableCallback [OF wf], of "tk_srv (EnableCallback t)" "net_start_package env"]
      wf_net_start_package task_wf_srv_subset [OF wf_EnableCallback [OF wf]] by blast
  moreover have "task_wf s" if "service_NetChangeToPause env (DisableCallback t) = Some s" for s
    using wf_net_pause_loop [OF wf_DisableCallback [OF wf]] that by (simp add: service_NetChangeToPause_def)
  ultimately show ?thesis using r by (auto simp: task_OnNetChange_def split: if_splits)
qed

lemma wf_DestroyTask: "task_wf t \<Longrightarrow> task_wf (DestroyTask t)"
  by (auto simp: DestroyTask_def RemoveDownloadTask_def task_wf_def packages_ok_def)

theorem task_step_wf: "task_step t t' \<Longrightarrow> task_wf t \<Longrightarrow> task_wf t'"
proof (induction rule: task_step.induct)
  case (pause t env)
  then have "task_wf (DisableCallback (t\<lparr>tk_stopCallback := True\<rparr>))" by (intro wf_DisableCallback wf_flags)
  then show ?case by (simp add: task_Pause_def wf_service_Pause)
next
  case (cancel t env b)
  then have "task_wf (DisableCallback (t\<lparr>tk_stopCallback := True\<rparr>))" by (intro wf_DisableCallback wf_flags)
  then show ?case by (simp add: task_Cancel_def wf_service_Cancel wf_flags)
qed (simp_all add: wf_thread_report wf_flags wf_task_Start wf_task_Resume wf_task_Recover wf_DestroyTask
    wf_task_OnNetChange)

theorem task_reach_wf: "task_reach t t' \<Longrightarrow> task_wf t \<Longrightarrow> task_wf t'"
  by (induction rule: task_reach.induct) (auto intro: task_step_wf)

end
