(* ===== verification/Download_Task_Props.thy ===== *)
theory Download_Task_Props
  imports Download_Task_Inv
begin

text \<open>
  What the operations of a download task achieve: the state of a new task, the effect of pausing
  and cancelling on every package, when a change of the network is not survived, and which
  progress a task reports.
\<close>

section \<open>A new task\<close>

lemma index_infos_entries:
  "\<forall>(d, i) \<in> set m. i < n \<and> di_downloadId ((pre @ ds) ! i) = d \<Longrightarrow> length pre = n \<Longrightarrow> cm_ok m \<Longrightarrow>
     cm_ok (index_infos n ds m) \<and>
     (\<forall>(d, i) \<in> set (index_infos n ds m). i < n + length ds \<and> di_downloadId ((pre @ ds) ! i) = d)"
proof (induction n ds m arbitrary: pre rule: index_infos.induct)
  case (1 n m)
  then show ?case by auto
next
  case (2 n d ds m)
  let ?m = "cm_put (di_downloadId d) n m"
  have e: "\<forall>(x, i) \<in> set ?m. i < Suc n \<and> di_downloadId (((pre @ [d]) @ ds) ! i) = x"
  proof safe
    fix x i assume "(x, i) \<in> set ?m"
    then have c: "(x, i) = (di_downloadId d, n) \<or> (x, i) \<in> set m" by (rule cm_put_mem)
    then show "i < Suc n" using "2.prems"(1) by auto
    show "di_downloadId (((pre @ [d]) @ ds) ! i) = x"
      using c "2.prems"(1,2) by (auto simp: nth_append)
  qed
  show ?case
    using "2.IH" [OF e] "2.prems" by (simp add: cm_ok_put)
qed

lemma index_infos_new: "cm_ok (index_infos 0 ds []) \<and>
    (\<forall>(d, i) \<in> set (index_infos 0 ds []). i < length ds \<and> di_downloadId (ds ! i) = d)"
  using index_infos_entries [of "[]" 0 "[]" ds] by simp

lemma new_task_packages:
  assumes "\<forall>d \<in> set ds. 0 \<le> di_retryTimes d \<and> di_retryTimes d \<le> MAX_RETRY_TIMES"
  shows "packages_ok (new_task fs db taskId ds)"
proof -
  let ?heap = "map (init_info fs taskId) ds"
  have "\<forall>d \<in> set ?heap. 0 \<le> di_retryTimes d \<and> di_retryTimes d \<le> MAX_RETRY_TIMES"
    using assms by (auto simp: init_info_def)
  then show ?thesis
    using index_infos_new [of ?heap]
    by (auto simp: packages_ok_def new_task_def Let_def processor_GetTaskProgress_def cm_has_def)
qed

lemma new_task_wf:
  assumes "\<forall>d \<in> set ds. 0 \<le> di_retryTimes d \<and> di_retryTimes d \<le> MAX_RETRY_TIMES" "db_ok db"
  shows "task_wf (new_task fs db taskId ds)"
  using new_task_packages [OF assms(1), of fs db taskId] assms(2)
  by (simp add: task_wf_def new_task_def Let_def split_beta threads_ok_def)

section \<open>Pausing and cancelling\<close>

text \<open>A report that is not a failure replaces the state of its package, and only that.\<close>

definition apply_report :: "DownloadCallbackInfo \<Rightarrow> (string, nat) cmap \<Rightarrow> DownloadInfo list \<Rightarrow> DownloadInfo list" where
  "apply_report info m heap =
     (case map_of m (ci_downloadId info) of
        None \<Rightarrow> heap | Some i \<Rightarrow> heap[i := UpdateDownloadInfo info (heap ! i)])"

lemma core_sel:
  "task_core t' = task_core t \<Longrightarrow> tk_heap t' = tk_heap t"
  "task_core t' = task_core t \<Longrightarrow> tk_srv t' = tk_srv t"
  "task_core t' = task_core t \<Longrightarrow> tk_threads t' = tk_threads t"
  "task_core t' = task_core t \<Longrightarrow> tk_stopped t' = tk_stopped t"
  by (simp_all add: task_core_def)

lemma CallbackDownloadProgress_sel [simp]:
  "tk_heap (CallbackDownloadProgress env t) = tk_heap t" "tk_srv (CallbackDownloadProgress env t) = tk_srv t"
  "tk_threads (CallbackDownloadProgress env t) = tk_threads t"
  "tk_stopped (CallbackDownloadProgress env t) = tk_stopped t"
  by (rule core_sel, simp)+

lemma UpdateDownloadProgress_final:
  assumes "ci_status info \<in> {DS_PAUSE, DS_CANCEL, DS_AUTO_PAUSE, DS_SUCCESS}"
  shows "tk_heap (UpdateDownloadProgress env info t) = apply_report info (tk_srv t) (tk_heap t)"
    "tk_srv (UpdateDownloadProgress env info t) = tk_srv t"
    "tk_threads (UpdateDownloadProgress env info t) = cm_del (ci_downloadId info) (tk_threads t)"
    "tk_stopped (UpdateDownloadProgress env info t) = tk_stopped t"
proof -
  have u: "UpdateDownloadProgress env info t
      = CallbackDownloadProgress env (service_UpdateDownloadInfo info (RemoveThread (ci_downloadId info) t))"
    using assms by (auto simp: UpdateDownloadProgress_def)
  show "tk_heap (UpdateDownloadProgress env info t) = apply_report info (tk_srv t) (tk_heap t)"
    unfolding u using assms
    by (auto simp: service_UpdateDownloadInfo_def apply_report_def heap_adj_def Let_def RemoveThread_def
        split: option.split)
  show "tk_srv (UpdateDownloadProgress env info t) = tk_srv t" unfolding u by simp
  show "tk_threads (UpdateDownloadProgress env info t) = cm_del (ci_downloadId info) (tk_threads t)"
    unfolding u
    by (simp add: service_UpdateDownloadInfo_def Let_def RemoveThread_def split: option.split)
  show "tk_stopped (UpdateDownloadProgress env info t) = tk_stopped t"
    unfolding u
    by (simp add: service_UpdateDownloadInfo_def Let_def RemoveThread_def heap_adj_def split: option.split)
qed

text \<open>Every package in \<open>is\<close> satisfies \<open>P\<close>, the others are as before or satisfy it too; no thread is started
  or stopped.\<close>

definition notified :: "(DownloadInfo \<Rightarrow> bool) \<Rightarrow> nat set \<Rightarrow> dtask \<Rightarrow> dtask \<Rightarrow> bool" where
  "notified P is t t' =
     (tk_srv t' = tk_srv t \<and> length (tk_heap t') = length (tk_heap t)
      \<and> (tk_threads t = [] \<longrightarrow> tk_threads t' = []) \<and> tk_stopped t' = tk_stopped t
      \<and> (\<forall>i < length (tk_heap t). di_downloadId (tk_heap t' ! i) = di_downloadId (tk_heap t ! i)
           \<and> (P (tk_heap t' ! i) \<or> tk_heap t' ! i = tk_heap t ! i)
           \<and> (i \<in> is \<longrightarrow> P (tk_heap t' ! i))))"

lemma notified_refl: "notified P {} t t"
  by (simp add: notified_def)

lemma notified_trans:
  assumes a: "notified P A t t1" and b: "notified P B t1 t2"
  shows "notified P (A \<union> B) t t2"
proof -
  have "di_downloadId (tk_heap t2 ! i) = di_downloadId (tk_heap t ! i)
      \<and> (P (tk_heap t2 ! i) \<or> tk_heap t2 ! i = tk_heap t ! i)
      \<and> (i \<in> A \<union> B \<longrightarrow> P (tk_heap t2 ! i))" if "i < length (tk_heap t)" for i
  proof -
    from a that have 1: "di_downloadId (tk_heap t1 ! i) = di_downloadId (tk_heap t ! i)"
      "P (tk_heap t1 ! i) \<or> tk_heap t1 ! i = tk_heap t ! i"
      "i \<in> A \<longrightarrow> P (tk_heap t1 ! i)" and l: "i < length (tk_heap t1)"
      by (auto simp: notified_def)
    from b l have 2: "di_downloadId (tk_heap t2 ! i) = di_downloadId (tk_heap t1 ! i)"
      "P (tk_heap t2 ! i) \<or> tk_heap t2 ! i = tk_heap t1 ! i"
      "i \<in> B \<longrightarrow> P (tk_heap t2 ! i)"
      by (auto simp: notified_def)
    from 1 2 show ?thesis by auto
  qed
  then show ?thesis using a b by (simp add: notified_def)
qed

lemma notify_fold:
  assumes st: "\<And>d. ci_status (info d) \<in> {DS_PAUSE, DS_CANCEL}"
    and ids: "\<And>d. ci_downloadId (info d) = di_downloadId d"
    and P: "\<And>d x. P (UpdateDownloadInfo (info d) x)"
    and ok: "\<forall>(d, i) \<in> set es. i < length (tk_heap t) \<and> di_downloadId (tk_heap t ! i) = d \<and> map_of (tk_srv t) d = Some i"
  shows "notified P (snd ` set es) t
    (fold (\<lambda>e u. UpdateDownloadProgress env (info (tk_heap u ! snd e)) u) es t)"
  using ok
proof (induction es arbitrary: t)
  case Nil
  then show ?case by (simp add: notified_refl)
next
  case (Cons e es)
  obtain d i where e: "e = (d, i)" by (cases e)
  let ?in = "info (tk_heap t ! i)"
  let ?t = "UpdateDownloadProgress env ?in t"
  have i: "i < length (tk_heap t)" "di_downloadId (tk_heap t ! i) = d" "map_of (tk_srv t) d = Some i"
    using Cons.prems e by auto
  have fin: "ci_status ?in \<in> {DS_PAUSE, DS_CANCEL, DS_AUTO_PAUSE, DS_SUCCESS}" using st [of "tk_heap t ! i"] by auto
  have heap: "tk_heap ?t = (tk_heap t)[i := UpdateDownloadInfo ?in (tk_heap t ! i)]"
    using UpdateDownloadProgress_final(1) [OF fin] i ids by (simp add: apply_report_def)
  have srv: "tk_srv ?t = tk_srv t" by (rule UpdateDownloadProgress_final(2) [OF fin])
  have thr: "tk_threads t = [] \<Longrightarrow> tk_threads ?t = []"
    using UpdateDownloadProgress_final(3) [OF fin] by (simp add: cm_del_def)
  have one: "notified P {i} t ?t"
    using i thr P ids UpdateDownloadProgress_final(4) [OF fin, of env t]
    by (auto simp: notified_def srv heap nth_list_update)
  have "\<forall>(d, j) \<in> set es. j < length (tk_heap ?t) \<and> di_downloadId (tk_heap ?t ! j) = d \<and> map_of (tk_srv ?t) d = Some j"
    using Cons.prems one by (auto simp: notified_def)
  from notified_trans [OF one Cons.IH [OF this]] show ?case by (simp add: e)
qed

lemma packages_srv_entries:
  "packages_ok t \<Longrightarrow> \<forall>(d, i) \<in> set (tk_srv t).
     i < length (tk_heap t) \<and> di_downloadId (tk_heap t ! i) = d \<and> map_of (tk_srv t) d = Some i"
  by (auto simp: packages_ok_def cm_ok_def)

lemma task_wf_srv_entries:
  "task_wf t \<Longrightarrow> \<forall>(d, i) \<in> set (tk_srv t).
     i < length (tk_heap t) \<and> di_downloadId (tk_heap t ! i) = d \<and> map_of (tk_srv t) d = Some i"
  by (rule packages_srv_entries) (simp add: task_wf_def)

lemma core_srv: "task_core t' = task_core t \<Longrightarrow> notified P {} t t'"
  by (simp add: task_core_def notified_def)

text \<open>What pausing and cancelling leave of a package: its times are those of a fresh report.\<close>

definition paused :: "DownloadInfo \<Rightarrow> bool" where
  "paused d = (di_status d = DS_PAUSE \<and> di_endReason d = R_PAUSE \<and> di_startTime d = 0 \<and> di_effectiveTime d = 0)"

definition cancelled :: "DownloadInfo \<Rightarrow> bool" where
  "cancelled d = (di_status d = DS_CANCEL \<and> di_endReason d = R_CANCEL)"

text \<open>Stopping the threads leaves the packages alone; every thread of the map has been told to stop.\<close>

lemma StopAll_sel [simp]:
  "tk_srv (StopAllDownloadThread t) = tk_srv t" "tk_heap (StopAllDownloadThread t) = tk_heap t"
  "tk_threads (StopAllDownloadThread t) = []"
  "tk_stopped (StopAllDownloadThread t) = tk_stopped t @ map (\<lambda>(d, th). (d, thread_Stop th)) (tk_threads t)"
  by (simp_all add: StopAllDownloadThread_def Let_def)

lemma service_Pause_all:
  assumes wf: "task_wf t"
  shows "notified paused (snd ` set (tk_srv t)) (StopAllDownloadThread t) (snd (service_Pause env t))"
proof -
  let ?s = "StopAllDownloadThread t"
  have "notified paused (snd ` set (tk_srv ?s)) ?s (NotifyPauseCompleted env ?s)"
    unfolding NotifyPauseCompleted_def
    by (rule notify_fold [OF _ _ _ task_wf_srv_entries [OF wf_StopAll [OF wf]]])
      (simp_all add: pause_info_def paused_def UpdateDownloadInfo_def new_callback_info_def)
  then show ?thesis by (simp add: service_Pause_def)
qed

lemma service_Cancel_all:
  assumes wf: "task_wf t"
  shows "notified cancelled (snd ` set (tk_srv t)) (StopAllDownloadThread t) (service_Cancel env b t)"
proof -
  let ?s = "StopAllDownloadThread t"
  let ?u = "if b then DeleteDownloadedFiles env ?s else ?s"
  let ?n = "fold (\<lambda>e s. UpdateDownloadProgress env (cancel_info env (tk_heap s ! snd e)) s) (tk_srv ?u) ?u"
  have core: "task_core ?u = task_core ?s" by simp
  have wu: "task_wf ?u" by (rule wf_same_core [OF wf_StopAll [OF wf] core])
  have u: "notified cancelled {} ?s ?u" by (rule core_srv [OF core])
  have "notified cancelled (snd ` set (tk_srv ?u)) ?u ?n"
    by (rule notify_fold [OF _ _ _ task_wf_srv_entries [OF wu]]) (simp_all add: cancel_info_def cancelled_def)
  note n = notified_trans [OF u this]
  have srv: "tk_srv ?u = tk_srv t" using u by (simp add: notified_def)
  have eq: "service_Cancel env b t = ?n\<lparr>tk_db := DeleteByTaskId (tk_taskId ?n) (tk_db ?n)\<rparr>"
    by (simp add: service_Cancel_def NotifyCancelCompleted_def Let_def)
  show ?thesis using n srv unfolding eq by (simp add: notified_def)
qed

section \<open>A change of the network\<close>

text \<open>A thread that has been created but has not begun to run.\<close>

definition unstarted :: "(string, dthread) cmap \<Rightarrow> bool" where
  "unstarted m = (\<exists>(d, th) \<in> set m. th_status th = DS_INIT)"

text \<open>
  The call of one thread: a thread that has not begun reports the pause, and unless the service is
  stopped this takes the thread out of the map; the other threads stay, with their status.
\<close>

lemma pause_thread_map:
  assumes "threads_ok (tk_threads t)" "map_of (tk_threads t) d = Some th"
  shows "map_of (tk_threads (pause_thread env d th t)) x
      = (if x = d \<and> th_status th = DS_INIT \<and> \<not> tk_srvStop t then None
         else if x = d then Some (snd (thread_NetChangeToPause (thread_world env t) th))
         else map_of (tk_threads t) x)"
proof -
  let ?p = "pause_report (thread_world env t) th"
  have th: "di_downloadId (th_info th) = d" "th_hasCallback th" using threads_ok_entry [OF assms] by simp_all
  then have "ci_status ?p \<in> {DS_PAUSE, DS_CANCEL, DS_AUTO_PAUSE, DS_SUCCESS}" "ci_downloadId ?p = d" by simp_all
  then show ?thesis
    using th assms(2)
    by (auto simp: pause_thread_def Let_def thread_NetChangeToPause_out CallbackUpdateDownloadProgress_def
        UpdateDownloadProgress_final)
qed

lemma UpdateTaskProgress_srvStop [simp]: "tk_srvStop (UpdateTaskProgress env t) = tk_srvStop t"
  by (simp add: UpdateTaskProgress_def task_GetTaskProgress_def processor_GetTaskProgress_def IsProgressChanged_def
      CancelTimedTask_def CallbackProgressLocked_def Let_def split: option.split)

lemma pause_thread_srvStop [simp]:
  assumes "threads_ok (tk_threads t)" "map_of (tk_threads t) d = Some th"
  shows "tk_srvStop (pause_thread env d th t) = tk_srvStop t"
  using threads_ok_entry [OF assms]
  by (simp add: pause_thread_def Let_def thread_NetChangeToPause_out CallbackUpdateDownloadProgress_def
      UpdateDownloadProgress_def CallbackDownloadProgress_def service_UpdateDownloadInfo_def RemoveThread_def
      split: option.split)

lemma NetChangeToPause_status:
  "th_status th \<noteq> DS_INIT \<Longrightarrow> th_status (snd (thread_NetChangeToPause env th)) = th_status th"
  by (simp add: thread_NetChangeToPause_def)

lemma net_pause_loop_None:
  assumes "distinct ids" "set ids \<subseteq> set (map fst (tk_threads t))" "task_wf t"
  shows "net_pause_loop env ids t = None \<longleftrightarrow>
     \<not> tk_srvStop t \<and> (\<exists>d \<in> set ids. \<exists>th. map_of (tk_threads t) d = Some th \<and> th_status th = DS_INIT)"
  using assms
proof (induction ids arbitrary: t)
  case Nil
  then show ?case by simp
next
  case (Cons d rest)
  have ok: "threads_ok (tk_threads t)" using Cons.prems(3) by (simp add: task_wf_def packages_ok_def)
  obtain th where th: "map_of (tk_threads t) d = Some th"
    using Cons.prems(2) by (metis list.set_intros(1) map_of_eq_None_iff not_None_eq set_map subset_iff)
  let ?t = "pause_thread env d th t"
  note m = pause_thread_map [OF ok th, of env]
  show ?case
  proof (cases "th_status th = DS_INIT \<and> \<not> tk_srvStop t")
    case True
    then have "\<not> cm_has d (tk_threads ?t)" using m [of d] by (simp add: cm_has_iff)
    then have "net_pause_loop env (d # rest) t = None" by (simp add: th Let_def)
    then show ?thesis using True th by auto
  next
    case False
    then have "cm_has d (tk_threads ?t)" using m [of d] by (auto simp: cm_has_iff)
    then have loop: "net_pause_loop env (d # rest) t = net_pause_loop env rest ?t" by (simp add: th Let_def)
    have others: "map_of (tk_threads ?t) x = map_of (tk_threads t) x" if "x \<in> set rest" for x
      using m [of x] Cons.prems(1) that by auto
    have "x \<in> set (map fst (tk_threads ?t))" if "x \<in> set rest" for x
      using others [OF that] Cons.prems(2) that
      by (metis insert_subset list.simps(15) list.set_map map_of_eq_None_iff subsetD)
    then have "set rest \<subseteq> set (map fst (tk_threads ?t))" by blast
    then have "net_pause_loop env rest ?t = None \<longleftrightarrow>
        \<not> tk_srvStop t \<and> (\<exists>x \<in> set rest. \<exists>th. map_of (tk_threads t) x = Some th \<and> th_status th = DS_INIT)"
      using Cons.IH [of ?t] Cons.prems(1) wf_pause_thread [OF Cons.prems(3) th, of env] others ok th by auto
    then show ?thesis using loop False th by auto
  qed
qed

lemma CancelTimedTask_sel [simp]:
  "tk_threads (CancelTimedTask t) = tk_threads t" "tk_srvStop (CancelTimedTask t) = tk_srvStop t"
  by (simp_all add: CancelTimedTask_def split: option.split)

lemma map_of_map_values: "map_of (map (\<lambda>(k, s). (k, f s)) m) d = map_option f (map_of m d)"
  by (induction m) auto

lemma fst_map_values: "map fst (map (\<lambda>(k, s). (k, f s)) m) = map fst m"
  by (induction m) auto

lemma unstarted_lookup:
  assumes "cm_ok m"
  shows "unstarted m \<longleftrightarrow> (\<exists>d \<in> set (map fst m). \<exists>th. map_of m d = Some th \<and> th_status th = DS_INIT)"
  using assms by (force simp: unstarted_def cm_ok_def dest: map_of_SomeD)

lemma DisableCallback_threads:
  "tk_threads (DisableCallback t) = map (\<lambda>(k, th). (k, SetDisableCallbackFlag True th)) (tk_threads t)"
  "tk_srvStop (DisableCallback t) = tk_srvStop t"
  by (simp_all add: DisableCallback_def service_SetDisableCallbackFlag_def)

lemma task_OnNetChange_None:
  assumes wf: "task_wf t"
  shows "task_OnNetChange env t = None \<longleftrightarrow>
     \<not> net_available (en_net env) (GetRequiredNetType t) \<and> \<not> tk_srvStop t \<and> unstarted (tk_threads t)"
proof -
  let ?t = "DisableCallback t"
  have w: "task_wf ?t" by (rule wf_DisableCallback [OF wf])
  then have ok: "cm_ok (tk_threads ?t)" by (simp add: task_wf_def packages_ok_def threads_ok_def)
  then have "service_NetChangeToPause env ?t = None \<longleftrightarrow> \<not> tk_srvStop ?t \<and> unstarted (tk_threads ?t)"
    using net_pause_loop_None [of "map fst (tk_threads ?t)" ?t env] w
    by (simp add: service_NetChangeToPause_def unstarted_lookup cm_ok_def)
  moreover have "unstarted (tk_threads ?t) = unstarted (tk_threads t)"
    by (force simp: unstarted_def DisableCallback_threads)
  ultimately show ?thesis by (simp add: task_OnNetChange_def DisableCallback_threads)
qed

section \<open>What a task records and reports\<close>

lemma IsProgressChanged_monotone:
  assumes "IsProgressChanged p t = (b, t')" "tk_status t' = tk_status t"
  shows "pi_downloadedSize (tk_progressInfo t) \<le> pi_downloadedSize (tk_progressInfo t')
     \<and> pi_verifiedSize (tk_progressInfo t) \<le> pi_verifiedSize (tk_progressInfo t')"
  using assms by (auto simp: IsProgressChanged_def Let_def split: if_splits)

lemma IsProgressChanged_recorded:
  assumes "IsProgressChanged p t = (True, t')"
  shows "tk_progressInfo t' = p \<and> tk_status t' = pi_taskStatus p
     \<and> (IsTaskCompleted p \<longrightarrow> tk_status t \<noteq> pi_taskStatus p)"
  using assms by (auto simp: IsProgressChanged_def Let_def split: if_splits)

lemma CalcNextReportInterval_range:
  "0 \<le> CalcNextReportInterval env t \<and> CalcNextReportInterval env t \<le> 10000000"
  by (simp add: CalcNextReportInterval_def Let_def)

section \<open>Failures\<close>

lemma UpdateDownloadProgress_retry:
  assumes "ci_status info = DS_FAIL" "ci_endReason info \<noteq> R_IO_EXCEPTION" "ci_endReason info \<noteq> R_VERIFY_FAIL"
    and "map_of (tk_srv t) (ci_downloadId info) = Some i" "i < length (tk_heap t)" "IsRetryAble (tk_heap t ! i)"
  shows "di_retryTimes (tk_heap (UpdateDownloadProgress env info t) ! i) = di_retryTimes (tk_heap t ! i) + 1"
    "di_status (tk_heap (UpdateDownloadProgress env info t) ! i) = di_status (tk_heap t ! i)"
    "tk_reports (UpdateDownloadProgress env info t) = tk_reports t"
    "length (tk_started (UpdateDownloadProgress env info t)) = Suc (length (tk_started t))"
  using assms
  by (simp_all add: UpdateDownloadProgress_def GetDownloadInfo_def HandleRetry_def RemoveThread_def
      heap_adj_def StartDownloadThread_def switch_url_def Let_def)

end
