(* ===== verification/Download_Manager.thy ===== *)
theory Download_Manager
  imports Download_Task_Props "HOL-Library.Multiset"
begin

text \<open>
  The manager of the download tasks, \<open>services/core/ability/download/manager/src/download_task_manager.cpp\<close>.
  The database and the file system are shared by all tasks: they live in the manager's state and are
  lent to a task for the time of an operation. What a task reports during the operation goes through
  \<open>DealCallBack\<close> in order. The digest that makes the task id is the argument \<open>sha\<close>.
\<close>

record manager =
  mg_tasks :: "(string, dtask) cmap"
  mg_db :: db_table
  mg_fs :: file_system
  mg_delivered :: "(string \<times> ProgressInfo) list"

section \<open>Callbacks\<close>

definition is_final :: "DownloadStatus \<Rightarrow> bool" where
  "is_final s = (s = DS_FAIL \<or> s = DS_SUCCESS \<or> s = DS_CANCEL)"

definition DealCallBack :: "string \<Rightarrow> bool \<Rightarrow> ProgressInfo \<Rightarrow> manager \<Rightarrow> manager" where
  "DealCallBack taskId hasClient p m =
     (if \<not> cm_has taskId (mg_tasks m) then m
      else let m1 = (if is_final (pi_taskStatus p) then m\<lparr>mg_tasks := cm_del taskId (mg_tasks m)\<rparr> else m)
        in if hasClient then m1\<lparr>mg_delivered := mg_delivered m1 @ [(taskId, p)]\<rparr> else m1)"

text \<open>An operation on a task: lend the shared state, run it, take the state back, deliver its reports.\<close>

definition lend :: "manager \<Rightarrow> dtask \<Rightarrow> dtask" where
  "lend m t = t\<lparr>tk_db := mg_db m, tk_fs := mg_fs m\<rparr>"

definition take_back :: "string \<Rightarrow> dtask \<Rightarrow> dtask \<Rightarrow> manager \<Rightarrow> manager" where
  "take_back taskId old t m =
     fold (DealCallBack taskId True) (drop (length (tk_reports old)) (tk_reports t))
       (m\<lparr>mg_tasks := cm_adj taskId (\<lambda>_. t) (mg_tasks m), mg_db := tk_db t, mg_fs := tk_fs t\<rparr>)"

section \<open>Starting\<close>

fun remove_duplicates :: "DownloadInfo list \<Rightarrow> string set \<Rightarrow> DownloadInfo list" where
  "remove_duplicates [] seen = []"
| "remove_duplicates (d # ds) seen =
     (if di_versionId d \<in> seen then remove_duplicates ds seen
      else d # remove_duplicates ds (insert (di_versionId d) seen))"

definition RemoveDuplicateVersionId :: "DownloadInfo list \<Rightarrow> DownloadInfo list" where
  "RemoveDuplicateVersionId ds = remove_duplicates ds {}"

definition GetTaskId :: "(string \<Rightarrow> string) \<Rightarrow> DownloadInfo list \<Rightarrow> string" where
  "GetTaskId sha ds = sha (concat (sort (map di_versionId ds)))"

definition manager_Start ::
  "(string \<Rightarrow> string) \<Rightarrow> task_env \<Rightarrow> DownloadInfo list \<Rightarrow> DownloadError \<Rightarrow> manager \<Rightarrow> string \<times> DownloadError \<times> manager" where
  "manager_Start sha env downloadInfos err m =
     (if downloadInfos = [] then ([], build_error R_DOWNLOAD_INFO_EMPTY CALL_FAIL, m)
      else
        let infos = RemoveDuplicateVersionId downloadInfos;
            taskId = GetTaskId sha infos;
            (err1, m1) = (case map_of (mg_tasks m) taskId of
               None \<Rightarrow> (err, m)
             | Some dirty \<Rightarrow>
                 let m0 = m\<lparr>mg_tasks := cm_del taskId (mg_tasks m)\<rparr>;
                     (e, dirty1) = task_Cancel env True (lend m0 dirty)
                 in (e, take_back taskId dirty (DestroyTask dirty1) m0));
            (err2, t) = task_Start env err1 (new_task (mg_fs m1) (mg_db m1) taskId infos);
            m2 = m1\<lparr>mg_db := tk_db t, mg_fs := tk_fs t\<rparr>
        in if de_errorNum err2 \<noteq> CALL_SUCCESS then (taskId, err2, m2)
           else (taskId, err2, m2\<lparr>mg_tasks := cm_put taskId t (mg_tasks m2)\<rparr>))"

section \<open>Operations on a task\<close>

definition manager_Pause :: "task_env \<Rightarrow> string \<Rightarrow> manager \<Rightarrow> DownloadError \<times> manager" where
  "manager_Pause env taskId m =
     (case map_of (mg_tasks m) taskId of
        None \<Rightarrow> (build_error R_DOWNLOAD_INFO_EMPTY CALL_FAIL, m)
      | Some t \<Rightarrow> let (e, t1) = task_Pause env (lend m t) in (e, take_back taskId t t1 m))"

definition manager_Resume :: "task_env \<Rightarrow> string \<Rightarrow> NetType \<Rightarrow> manager \<Rightarrow> DownloadError \<times> manager" where
  "manager_Resume env taskId netType m =
     (case map_of (mg_tasks m) taskId of
        None \<Rightarrow> (build_error R_DOWNLOAD_INFO_EMPTY CALL_FAIL, m)
      | Some t \<Rightarrow> let (e, t1) = task_Resume env netType True (lend m t) in (e, take_back taskId t t1 m))"

definition manager_Cancel :: "task_env \<Rightarrow> string \<Rightarrow> bool \<Rightarrow> manager \<Rightarrow> DownloadError \<times> manager" where
  "manager_Cancel env taskId isDeleteFiles m =
     (case map_of (mg_tasks m) taskId of
        None \<Rightarrow> (build_error R_DOWNLOAD_INFO_EMPTY CALL_FAIL, m)
      | Some t \<Rightarrow> let (e, t1) = task_Cancel env isDeleteFiles (lend m t) in (e, take_back taskId t t1 m))"

definition manager_GetTaskProgress :: "string \<Rightarrow> manager \<Rightarrow> DownloadError option \<times> manager \<times> ProgressInfo" where
  "manager_GetTaskProgress taskId m =
     (case map_of (mg_tasks m) taskId of
        None \<Rightarrow> (Some (build_error R_DOWNLOAD_INFO_EMPTY CALL_FAIL), m, new_progress_info)
      | Some t \<Rightarrow>
          let (t1, p) = task_GetTaskProgress t
          in (None, m\<lparr>mg_tasks := cm_adj taskId (\<lambda>_. t1) (mg_tasks m)\<rparr>, p))"

definition removable :: "DownloadStatus \<Rightarrow> bool" where
  "removable s = (s = DS_CANCEL \<or> s = DS_FAIL \<or> s = DS_PAUSE \<or> s = DS_AUTO_PAUSE \<or> s = DS_SUCCESS)"

text \<open>\<open>RemoveTask\<close>: the rows go first, then the task is looked up and its status checked.\<close>

definition manager_RemoveTask :: "string \<Rightarrow> DownloadError \<Rightarrow> manager \<Rightarrow> DownloadError \<times> manager" where
  "manager_RemoveTask taskId err m =
     (let m0 = m\<lparr>mg_db := DeleteByTaskId taskId (mg_db m)\<rparr>
      in case map_of (mg_tasks m0) taskId of
           None \<Rightarrow> (build_error R_DOWNLOAD_INFO_EMPTY CALL_FAIL, m0)
         | Some t \<Rightarrow>
             let (_, m1, p) = manager_GetTaskProgress taskId m0
             in if \<not> removable (pi_taskStatus p) then (build_error R_SYSTEM_BUSY CALL_FAIL, m1)
                else (err, m1\<lparr>mg_tasks := cm_del taskId (mg_tasks m1)\<rparr>))"

text \<open>\<open>OnNetChange\<close> for every unfinished task; \<open>None\<close> as in \<open>task_OnNetChange\<close>.\<close>

definition IsDownloadComplete :: "dtask \<Rightarrow> dtask \<times> bool" where
  "IsDownloadComplete t = (let (t1, p) = task_GetTaskProgress t in (t1, is_final (pi_taskStatus p)))"

fun net_change_tasks :: "task_env \<Rightarrow> string list \<Rightarrow> manager \<Rightarrow> manager option" where
  "net_change_tasks env [] m = Some m"
| "net_change_tasks env (taskId # rest) m =
     (case map_of (mg_tasks m) taskId of
        None \<Rightarrow> net_change_tasks env rest m
      | Some t \<Rightarrow>
          let (t1, complete) = IsDownloadComplete (lend m t)
          in if complete then net_change_tasks env rest (take_back taskId t t1 m)
             else case task_OnNetChange env t1 of
                 None \<Rightarrow> None
               | Some t2 \<Rightarrow> net_change_tasks env rest (take_back taskId t t2 m))"

definition manager_OnNetChange :: "task_env \<Rightarrow> manager \<Rightarrow> manager option" where
  "manager_OnNetChange env m = net_change_tasks env (map fst (mg_tasks m)) m"

section \<open>Restoring tasks after a restart\<close>

fun filter_infos :: "DownloadInfo list \<Rightarrow> (string, DownloadInfo) cmap \<Rightarrow> (string, DownloadInfo) cmap" where
  "filter_infos [] m = m"
| "filter_infos (d # ds) m =
     (let key = di_taskId d @ ''_'' @ di_downloadId d
      in filter_infos ds (if cm_has key m then m else cm_put key d m))"

fun group_infos :: "DownloadInfo list \<Rightarrow> (string, DownloadInfo list) cmap \<Rightarrow> (string, DownloadInfo list) cmap" where
  "group_infos [] m = m"
| "group_infos (d # ds) m =
     group_infos ds (cm_put (di_taskId d)
       ((case map_of m (di_taskId d) of Some l \<Rightarrow> l | None \<Rightarrow> []) @ [d]) m)"

definition restore_one :: "task_env \<Rightarrow> string \<times> DownloadInfo list \<Rightarrow> manager \<Rightarrow> manager" where
  "restore_one env e m =
     (let (t, complete) = IsDownloadComplete (new_task (mg_fs m) (mg_db m) (fst e) (snd e));
          m1 = m\<lparr>mg_tasks := cm_put (fst e) t (mg_tasks m)\<rparr>
      in if complete then m1
         else let t1 = task_Recover env t
           in m1\<lparr>mg_tasks := cm_put (fst e) t1 (mg_tasks m1), mg_db := tk_db t1, mg_fs := tk_fs t1\<rparr>)"

definition RestoreDownloadTask :: "task_env \<Rightarrow> manager \<Rightarrow> manager" where
  "RestoreDownloadTask env m =
     (let infos = download_QueryAll (mg_db m)
      in if infos = [] then m
         else fold (restore_one env) (group_infos (map snd (filter_infos infos [])) []) (m\<lparr>mg_tasks := []\<rparr>))"

section \<open>Facts\<close>

lemma remove_duplicates_spec:
  "distinct (map di_versionId (remove_duplicates ds seen)) \<and>
   set (map di_versionId (remove_duplicates ds seen)) = set (map di_versionId ds) - seen"
  by (induction ds seen rule: remove_duplicates.induct) auto

lemma RemoveDuplicateVersionId_spec:
  "distinct (map di_versionId (RemoveDuplicateVersionId ds))"
  "set (map di_versionId (RemoveDuplicateVersionId ds)) = set (map di_versionId ds)"
  using remove_duplicates_spec [of ds "{}"] by (simp_all add: RemoveDuplicateVersionId_def)

lemma GetTaskId_permutation:
  assumes "mset (map di_versionId ds) = mset (map di_versionId ds')"
  shows "GetTaskId sha ds = GetTaskId sha ds'"
proof -
  have "sort (map di_versionId ds) = sort (map di_versionId ds')"
    using assms by (intro properties_for_sort) simp_all
  then show ?thesis by (simp add: GetTaskId_def)
qed

lemma DealCallBack_gone: "\<not> cm_has taskId (mg_tasks m) \<Longrightarrow> DealCallBack taskId c p m = m"
  by (simp add: DealCallBack_def)

section \<open>The invariant of the manager\<close>

definition manager_wf :: "manager \<Rightarrow> bool" where
  "manager_wf m = (cm_ok (mg_tasks m) \<and> (\<forall>(k, t) \<in> set (mg_tasks m). task_wf t) \<and> db_ok (mg_db m))"

lemma manager_wf_task: "manager_wf m \<Longrightarrow> map_of (mg_tasks m) k = Some t \<Longrightarrow> task_wf t"
  by (auto simp: manager_wf_def dest: map_of_SomeD)

lemma wf_lend: "task_wf t \<Longrightarrow> db_ok (mg_db m) \<Longrightarrow> task_wf (lend m t)"
  by (simp add: lend_def task_wf_def packages_ok_def)

lemma manager_wf_db: "manager_wf m \<Longrightarrow> db_ok (mg_db m)"
  by (simp add: manager_wf_def)

lemma manager_wf_set_db: "manager_wf m \<Longrightarrow> db_ok db \<Longrightarrow> mg_tasks m' = mg_tasks m \<Longrightarrow> mg_db m' = db \<Longrightarrow> manager_wf m'"
  by (simp add: manager_wf_def)

lemma wf_DealCallBack: "manager_wf m \<Longrightarrow> manager_wf (DealCallBack k c p m)"
  by (auto simp: manager_wf_def DealCallBack_def Let_def cm_ok_del) (auto simp: cm_del_def)

lemma wf_deliver: "manager_wf m \<Longrightarrow> manager_wf (fold (DealCallBack k c) ps m)"
  by (induction ps arbitrary: m) (auto intro: wf_DealCallBack)

lemma wf_cm_adj_task:
  "manager_wf m \<Longrightarrow> task_wf t \<Longrightarrow> mg_tasks m' = cm_adj k (\<lambda>_. t) (mg_tasks m) \<Longrightarrow> db_ok (mg_db m') \<Longrightarrow> manager_wf m'"
  by (auto simp: manager_wf_def cm_ok_adj) (auto simp: cm_adj_def split: if_splits)

lemma wf_take_back: "manager_wf m \<Longrightarrow> task_wf t \<Longrightarrow> manager_wf (take_back k old t m)"
  unfolding take_back_def by (rule wf_deliver) (erule (1) wf_cm_adj_task, simp, simp add: task_wf_db)

lemma wf_cm_put_task:
  "manager_wf m \<Longrightarrow> task_wf t \<Longrightarrow> mg_tasks m' = cm_put k t (mg_tasks m) \<Longrightarrow> db_ok (mg_db m') \<Longrightarrow> manager_wf m'"
  by (auto simp: manager_wf_def cm_ok_put dest: cm_put_mem)

lemma wf_cm_del_task: "manager_wf m \<Longrightarrow> mg_tasks m' = cm_del k (mg_tasks m) \<Longrightarrow> mg_db m' = mg_db m \<Longrightarrow> manager_wf m'"
  by (auto simp: manager_wf_def cm_ok_del) (auto simp: cm_del_def)

text \<open>An operation that keeps the task's invariant keeps the manager's.\<close>

lemma wf_run:
  assumes "manager_wf m" "map_of (mg_tasks m) k = Some t" "\<And>s. task_step s (f s)"
  shows "manager_wf (take_back k t (f (lend m t)) m)"
  using assms by (intro wf_take_back task_step_wf [OF assms(3)] wf_lend manager_wf_task manager_wf_db)

lemma wf_manager_Pause: "manager_wf m \<Longrightarrow> manager_wf (snd (manager_Pause env k m))"
  using wf_run [where f = "\<lambda>s. snd (task_Pause env s)", OF _ _ task_step.pause, of m k]
  by (cases "map_of (mg_tasks m) k") (simp_all add: manager_Pause_def split_beta Let_def)

lemma wf_manager_Resume: "manager_wf m \<Longrightarrow> manager_wf (snd (manager_Resume env k n m))"
  using wf_run [where f = "\<lambda>s. snd (task_Resume env n True s)", OF _ _ task_step.resume, of m k]
  by (cases "map_of (mg_tasks m) k") (simp_all add: manager_Resume_def split_beta Let_def)

lemma wf_manager_Cancel: "manager_wf m \<Longrightarrow> manager_wf (snd (manager_Cancel env k b m))"
  using wf_run [where f = "\<lambda>s. snd (task_Cancel env b s)", OF _ _ task_step.cancel, of m k]
  by (cases "map_of (mg_tasks m) k") (simp_all add: manager_Cancel_def split_beta Let_def)

lemma wf_GetTaskProgress: "task_wf t \<Longrightarrow> task_GetTaskProgress t = (t1, p) \<Longrightarrow> task_wf t1"
  using wf_flags(14) [of t] by simp

lemma wf_IsDownloadComplete: "task_wf t \<Longrightarrow> IsDownloadComplete t = (t1, b) \<Longrightarrow> task_wf t1"
  by (auto simp: IsDownloadComplete_def split: prod.splits dest: wf_GetTaskProgress)

lemma wf_net_change_tasks:
  "manager_wf m \<Longrightarrow> net_change_tasks env ks m = Some m' \<Longrightarrow> manager_wf m'"
proof (induction env ks m rule: net_change_tasks.induct)
  case (1 env m)
  then show ?case by simp
next
  case (2 env k rest m)
  show ?case
  proof (cases "map_of (mg_tasks m) k")
    case None
    with 2 show ?thesis by simp
  next
    case (Some t)
    obtain t1 b where c: "IsDownloadComplete (lend m t) = (t1, b)" by fastforce
    have w1: "task_wf t1"
      using wf_IsDownloadComplete [OF wf_lend c] manager_wf_task [OF "2.prems"(1) Some]
        manager_wf_db [OF "2.prems"(1)] by blast
    show ?thesis
    proof (cases b)
      case True
      then have "net_change_tasks env rest (take_back k t t1 m) = Some m'"
        using "2.prems"(2) Some c by simp
      then show ?thesis
        using "2.IH"(2) [OF Some c [symmetric] refl True] wf_take_back [OF "2.prems"(1) w1] by blast
    next
      case False
      with "2.prems" Some c obtain t2 where n: "task_OnNetChange env t1 = Some t2"
        by (auto split: option.splits)
      have "task_wf t2" by (rule wf_task_OnNetChange [OF w1 n])
      moreover have "net_change_tasks env rest (take_back k t t2 m) = Some m'"
        using "2.prems"(2) Some c False n by simp
      ultimately show ?thesis
        using "2.IH"(3) [OF Some c [symmetric] refl False n] wf_take_back [OF "2.prems"(1)] by blast
    qed
  qed
qed

lemma wf_manager_OnNetChange: "manager_wf m \<Longrightarrow> manager_OnNetChange env m = Some m' \<Longrightarrow> manager_wf m'"
  unfolding manager_OnNetChange_def by (rule wf_net_change_tasks)

lemma wf_manager_GetTaskProgress:
  "manager_wf m \<Longrightarrow> manager_GetTaskProgress k m = (e, m1, p) \<Longrightarrow> manager_wf m1"
proof -
  assume wf: "manager_wf m" and g: "manager_GetTaskProgress k m = (e, m1, p)"
  show "manager_wf m1"
  proof (cases "map_of (mg_tasks m) k")
    case None
    with wf g show ?thesis by (simp add: manager_GetTaskProgress_def)
  next
    case (Some t)
    obtain t1 q where q: "task_GetTaskProgress t = (t1, q)" by fastforce
    have "task_wf t1" by (rule wf_GetTaskProgress [OF manager_wf_task [OF wf Some] q])
    then have "manager_wf (m\<lparr>mg_tasks := cm_adj k (\<lambda>_. t1) (mg_tasks m)\<rparr>)"
      using manager_wf_db [OF wf] by (intro wf_cm_adj_task [OF wf]) simp_all
    with g Some q show ?thesis by (simp add: manager_GetTaskProgress_def)
  qed
qed

lemma wf_manager_RemoveTask: "manager_wf m \<Longrightarrow> manager_wf (snd (manager_RemoveTask k err m))"
proof -
  assume wf: "manager_wf m"
  let ?m0 = "m\<lparr>mg_db := DeleteByTaskId k (mg_db m)\<rparr>"
  have w0: "manager_wf ?m0"
    by (rule manager_wf_set_db [OF wf db_ok_Delete [OF manager_wf_db [OF wf]]]) simp_all
  obtain e m1 p where g: "manager_GetTaskProgress k ?m0 = (e, m1, p)" by (cases "manager_GetTaskProgress k ?m0") auto
  have w1: "manager_wf m1" by (rule wf_manager_GetTaskProgress [OF w0 g])
  have "manager_wf (m1\<lparr>mg_tasks := cm_del k (mg_tasks m1)\<rparr>)" by (rule wf_cm_del_task [OF w1]) simp_all
  with w0 w1 show ?thesis by (simp add: manager_RemoveTask_def Let_def g split: option.split)
qed

definition valid_infos :: "DownloadInfo list \<Rightarrow> bool" where
  "valid_infos ds = (\<forall>d \<in> set ds. 0 \<le> di_retryTimes d \<and> di_retryTimes d \<le> MAX_RETRY_TIMES)"

lemma remove_duplicates_subset: "set (remove_duplicates ds seen) \<subseteq> set ds"
  by (induction ds seen rule: remove_duplicates.induct) auto

lemma wf_manager_Start:
  assumes wf: "manager_wf m" and ds: "valid_infos ds"
  shows "manager_wf (snd (snd (manager_Start sha env ds err m)))"
proof -
  let ?ds = "RemoveDuplicateVersionId ds"
  let ?k = "GetTaskId sha ?ds"
  let ?m0 = "m\<lparr>mg_tasks := cm_del ?k (mg_tasks m)\<rparr>"
  define r where "r = (case map_of (mg_tasks m) ?k of None \<Rightarrow> (err, m)
     | Some dirty \<Rightarrow> let (e, dirty1) = task_Cancel env True (lend ?m0 dirty)
         in (e, take_back ?k dirty (DestroyTask dirty1) ?m0))"
  obtain err1 m1 where r1: "r = (err1, m1)" by (cases r)
  have w0: "manager_wf ?m0" using wf by (rule wf_cm_del_task) simp_all
  have w1: "manager_wf m1"
  proof (cases "map_of (mg_tasks m) ?k")
    case None
    with wf r1 show ?thesis by (simp add: r_def)
  next
    case (Some dirty)
    obtain e d1 where c: "task_Cancel env True (lend ?m0 dirty) = (e, d1)" by fastforce
    have "task_wf d1"
      using task_step_wf [OF task_step.cancel wf_lend [OF manager_wf_task [OF wf Some] manager_wf_db [OF w0]], of env True]
      by (simp add: c)
    with w0 Some c r1 show ?thesis by (auto simp: r_def intro!: wf_take_back wf_DestroyTask)
  qed
  have "valid_infos ?ds"
    using ds remove_duplicates_subset [of ds "{}"] by (auto simp: valid_infos_def RemoveDuplicateVersionId_def)
  then have wn: "task_wf (new_task (mg_fs m1) (mg_db m1) ?k ?ds)"
    using manager_wf_db [OF w1] by (intro new_task_wf) (simp_all add: valid_infos_def)
  obtain err2 t where s: "task_Start env err1 (new_task (mg_fs m1) (mg_db m1) ?k ?ds) = (err2, t)" by fastforce
  have wt: "task_wf t" using wf_task_Start [OF wn, of env err1] by (simp add: s)
  let ?m2 = "m1\<lparr>mg_db := tk_db t, mg_fs := tk_fs t\<rparr>"
  have w2: "manager_wf ?m2" by (rule manager_wf_set_db [OF w1 task_wf_db [OF wt]]) simp_all
  have "manager_wf (?m2\<lparr>mg_tasks := cm_put ?k t (mg_tasks ?m2)\<rparr>)" using manager_wf_db [OF w2] by (intro wf_cm_put_task [OF w2 wt]) simp_all
  with wf w2 show ?thesis
    using r1 s unfolding r_def manager_Start_def Let_def by simp
qed

section \<open>After a restart\<close>

text \<open>No package that belongs to the service still claims to be on the way.\<close>

definition settled :: "DownloadStatus \<Rightarrow> bool" where
  "settled s = (s \<in> {DS_SUCCESS, DS_FAIL, DS_PAUSE, DS_AUTO_PAUSE})"

lemma recover_package_notified:
  assumes "i < length (tk_heap t)" "di_downloadId (tk_heap t ! i) = d" "map_of (tk_srv t) d = Some i"
  shows "notified (\<lambda>d. di_status d = DS_AUTO_PAUSE) {} t (recover_package env (d, i) t)
     \<and> settled (di_status (tk_heap (recover_package env (d, i) t) ! i))"
proof -
  let ?in = "recover_info (tk_heap t ! i)"
  have fin: "ci_status ?in \<in> {DS_PAUSE, DS_CANCEL, DS_AUTO_PAUSE, DS_SUCCESS}"
    and st: "ci_status ?in = DS_AUTO_PAUSE" and id: "ci_downloadId ?in = d"
    using assms(2) by (simp_all add: recover_info_def)
  have heap: "tk_heap (UpdateDownloadProgress env ?in t) = (tk_heap t)[i := UpdateDownloadInfo ?in (tk_heap t ! i)]"
    using UpdateDownloadProgress_final(1) [OF fin, of env t] assms(3) id by (simp add: apply_report_def)
  have "notified (\<lambda>d. di_status d = DS_AUTO_PAUSE) {} t (UpdateDownloadProgress env ?in t)"
    using UpdateDownloadProgress_final(2,3,4) [OF fin, of env t] assms(1) st
    by (auto simp: notified_def heap nth_list_update cm_del_def)
  then show ?thesis
    using assms(1) st
    by (auto simp: recover_package_def Let_def heap settled_def notified_refl IsCompleted_def is_completed_def
        IsManualPaused_def)
qed

lemma recover_fold:
  assumes "\<forall>(d, i) \<in> set es. i < length (tk_heap t) \<and> di_downloadId (tk_heap t ! i) = d \<and> map_of (tk_srv t) d = Some i"
  shows "notified (\<lambda>d. di_status d = DS_AUTO_PAUSE) {} t (fold (recover_package env) es t)
     \<and> (\<forall>e \<in> set es. settled (di_status (tk_heap (fold (recover_package env) es t) ! snd e)))"
  using assms
proof (induction es arbitrary: t)
  case Nil
  then show ?case by (simp add: notified_refl)
next
  case (Cons e es)
  obtain d i where e: "e = (d, i)" by (cases e)
  let ?t = "recover_package env (d, i) t"
  have here: "i < length (tk_heap t)" "di_downloadId (tk_heap t ! i) = d" "map_of (tk_srv t) d = Some i"
    using Cons.prems e by auto
  note one = recover_package_notified [OF here, of env]
  have "\<forall>(d, j) \<in> set es. j < length (tk_heap ?t) \<and> di_downloadId (tk_heap ?t ! j) = d \<and> map_of (tk_srv ?t) d = Some j"
    using Cons.prems one by (auto simp: notified_def)
  note ih = Cons.IH [OF this]
  have "settled (di_status (tk_heap (fold (recover_package env) es ?t) ! i))"
    using ih one here(1) by (auto simp: notified_def settled_def)
  then show ?case
    using ih one notified_trans [of "\<lambda>d. di_status d = DS_AUTO_PAUSE" "{}" t ?t "{}"] by (auto simp: e)
qed

lemma task_Recover_settled:
  assumes wf: "packages_ok t" and srv: "tk_srv t = tk_map t"
  shows "\<forall>(d, i) \<in> set (tk_map t). settled (di_status (tk_heap (task_Recover env t) ! i))"
proof (cases "tk_map t = []")
  case True
  then show ?thesis by simp
next
  case False
  let ?t = "t\<lparr>tk_taskId := task_GetTaskId t, tk_srvHasCallback := True\<rparr>"
  have "\<forall>(d, i) \<in> set (tk_srv t). i < length (tk_heap ?t) \<and> di_downloadId (tk_heap ?t ! i) = d
      \<and> map_of (tk_srv ?t) d = Some i"
    using packages_srv_entries [OF wf] by simp
  from recover_fold [OF this, of env] show ?thesis
    using False srv by (auto simp: task_Recover_def service_Recover_def)
qed

text \<open>Restoring: the packages of the restored tasks are those of the table, so the manager is well formed.\<close>

lemma filter_infos_mem:
  "e \<in> set (filter_infos ds m) \<Longrightarrow> snd e \<in> set ds \<or> e \<in> set m"
  by (induction ds m rule: filter_infos.induct) (auto simp: Let_def dest!: cm_put_mem split: if_splits)

lemma group_infos_mem:
  assumes "(k, l) \<in> set (group_infos ds m)" "\<forall>(k, l) \<in> set m. \<forall>d \<in> set l. P d" "\<forall>d \<in> set ds. P d"
  shows "\<forall>d \<in> set l. P d"
  using assms
proof (induction ds m rule: group_infos.induct)
  case (1 m)
  then have "(k, l) \<in> set m" by simp
  with 1 show ?case by blast
next
  case (2 d ds m)
  define old where "old = (case map_of m (di_taskId d) of Some l \<Rightarrow> l | None \<Rightarrow> [])"
  have "\<forall>x \<in> set old. P x"
  proof (cases "map_of m (di_taskId d)")
    case None
    then show ?thesis by (simp add: old_def)
  next
    case (Some l')
    then show ?thesis using "2.prems"(2) map_of_SomeD [OF Some] by (auto simp: old_def)
  qed
  then have l: "\<forall>x \<in> set (old @ [d]). P x" using "2.prems"(3) by simp
  have "\<forall>e \<in> set (cm_put (di_taskId d) (old @ [d]) m). \<forall>d \<in> set (snd e). P d"
  proof
    fix e assume "e \<in> set (cm_put (di_taskId d) (old @ [d]) m)"
    from cm_put_mem [OF this] show "\<forall>d \<in> set (snd e). P d" using l "2.prems"(2) by auto
  qed
  moreover have "(k, l) \<in> set (group_infos ds (cm_put (di_taskId d) (old @ [d]) m))"
    using "2.prems"(1) by (simp add: old_def)
  ultimately show ?case using "2.IH" "2.prems"(3) by (simp add: case_prod_unfold old_def)
qed

lemma QueryAll_in_range: "db_ok db \<Longrightarrow> d \<in> set (download_QueryAll db) \<Longrightarrow> in_retry_range d"
  by (auto simp: download_QueryAll_def table_QueryAll_def table_Query_def db_ok_def split: if_splits)

lemma wf_restore_one:
  assumes wf: "manager_wf m" and ds: "valid_infos (snd e)"
  shows "manager_wf (restore_one env e m)"
proof -
  let ?n = "new_task (mg_fs m) (mg_db m) (fst e) (snd e)"
  have wn: "task_wf ?n" using ds manager_wf_db [OF wf] by (intro new_task_wf) (simp_all add: valid_infos_def)
  obtain t c where t: "IsDownloadComplete ?n = (t, c)" by fastforce
  have wt: "task_wf t" by (rule wf_IsDownloadComplete [OF wn t])
  have w1: "manager_wf (m\<lparr>mg_tasks := cm_put (fst e) t (mg_tasks m)\<rparr>)"
    using manager_wf_db [OF wf] by (intro wf_cm_put_task [OF wf wt]) simp_all
  note wr = wf_task_Recover [OF wt, of env]
  have "manager_wf (m\<lparr>mg_tasks := cm_put (fst e) (task_Recover env t) (cm_put (fst e) t (mg_tasks m)),
      mg_db := tk_db (task_Recover env t), mg_fs := tk_fs (task_Recover env t)\<rparr>)"
    using task_wf_db [OF wr] by (intro wf_cm_put_task [OF w1 wr]) simp_all
  with w1 show ?thesis by (simp add: restore_one_def t Let_def)
qed

lemma wf_restore_fold:
  "manager_wf m \<Longrightarrow> \<forall>e \<in> set es. valid_infos (snd e) \<Longrightarrow> manager_wf (fold (restore_one env) es m)"
  by (induction es arbitrary: m) (auto intro: wf_restore_one)

lemma wf_RestoreDownloadTask:
  assumes wf: "manager_wf m"
  shows "manager_wf (RestoreDownloadTask env m)"
proof -
  let ?infos = "download_QueryAll (mg_db m)"
  let ?ds = "map snd (filter_infos ?infos [])"
  have "\<forall>d \<in> set ?ds. in_retry_range d"
    using QueryAll_in_range [OF manager_wf_db [OF wf]] filter_infos_mem [of _ ?infos "[]"] by auto
  then have "valid_infos l" if "(k, l) \<in> set (group_infos ?ds [])" for k l
    using group_infos_mem [OF that, of in_retry_range] by (simp add: valid_infos_def in_retry_range_def)
  then have "\<forall>e \<in> set (group_infos ?ds []). valid_infos (snd e)" by auto
  moreover have "manager_wf (m\<lparr>mg_tasks := []\<rparr>)" using manager_wf_db [OF wf] by (simp add: manager_wf_def)
  ultimately show ?thesis using wf by (simp add: RestoreDownloadTask_def Let_def wf_restore_fold)
qed

section \<open>Everything that can happen to the manager\<close>

text \<open>What the threads, queues and timers of a registered task do, as a step of that task.\<close>

inductive task_event :: "dtask \<Rightarrow> dtask \<Rightarrow> bool" where
  report: "map_of (tk_threads t) (ci_downloadId info) = Some th \<Longrightarrow> thread_moves info th th' \<Longrightarrow>
     thread_status (ci_status info) \<Longrightarrow> task_event t (thread_report env info th' t)"
| queue: "task_event t (run_queue env t)"
| timer: "h \<in> set (tk_timers t) \<Longrightarrow> task_event t (run_timer env h t)"
| files: "task_event t (t\<lparr>tk_fs := fs\<rparr>)"

text \<open>
  The process ends and starts again: the tasks with their threads, queues and timers are gone, the
  table is what it was (the store may or may not open), the file system may have changed, and the
  constructor of the new manager (\<open>Init\<close>) restores the tasks of the table.
\<close>

definition manager_restart :: "task_env \<Rightarrow> bool \<Rightarrow> file_system \<Rightarrow> manager \<Rightarrow> manager" where
  "manager_restart env up fs m =
     RestoreDownloadTask env (m\<lparr>mg_tasks := [], mg_db := (mg_db m)\<lparr>tb_up := up\<rparr>, mg_fs := fs\<rparr>)"

inductive manager_step :: "manager \<Rightarrow> manager \<Rightarrow> bool" where
  event: "map_of (mg_tasks m) k = Some t \<Longrightarrow> task_event (lend m t) t' \<Longrightarrow> manager_step m (take_back k t t' m)"
| start: "valid_infos ds \<Longrightarrow> manager_step m (snd (snd (manager_Start sha env ds err m)))"
| pause: "manager_step m (snd (manager_Pause env k m))"
| resume: "manager_step m (snd (manager_Resume env k n m))"
| cancel: "manager_step m (snd (manager_Cancel env k b m))"
| remove: "manager_step m (snd (manager_RemoveTask k err m))"
| net_change: "manager_OnNetChange env m = Some m' \<Longrightarrow> manager_step m m'"
| restart: "manager_step m (manager_restart env up fs m)"

inductive manager_reach :: "manager \<Rightarrow> manager \<Rightarrow> bool" for m where
  here: "manager_reach m m"
| step: "manager_reach m m1 \<Longrightarrow> manager_step m1 m2 \<Longrightarrow> manager_reach m m2"

lemma task_event_step: "task_event t t' \<Longrightarrow> task_step t t'"
  by (induction rule: task_event.induct) (blast intro: task_step.intros)+

lemma manager_step_wf: "manager_step m m' \<Longrightarrow> manager_wf m \<Longrightarrow> manager_wf m'"
proof (induction rule: manager_step.induct)
  case (event m k t t')
  have "task_wf (lend m t)" by (rule wf_lend [OF manager_wf_task [OF event(3,1)] manager_wf_db [OF event(3)]])
  then have "task_wf t'" by (rule task_step_wf [OF task_event_step [OF event(2)]])
  with event(3) show ?case by (rule wf_take_back)
next
  case (restart m env up fs)
  then have "manager_wf (m\<lparr>mg_tasks := [], mg_db := (mg_db m)\<lparr>tb_up := up\<rparr>, mg_fs := fs\<rparr>)"
    by (simp add: manager_wf_def db_ok_def)
  then show ?case unfolding manager_restart_def by (rule wf_RestoreDownloadTask)
qed (simp_all add: wf_manager_Start wf_manager_Pause wf_manager_Resume wf_manager_Cancel wf_manager_RemoveTask
    wf_manager_OnNetChange)

lemma manager_reach_wf: "manager_reach m m' \<Longrightarrow> manager_wf m \<Longrightarrow> manager_wf m'"
proof (induction rule: manager_reach.induct)
  case here
  then show ?case .
next
  case (step m1 m2)
  then show ?case by (intro manager_step_wf [OF step.hyps(2)]) simp
qed

lemma manager_wf_empty: "mg_tasks m = [] \<Longrightarrow> tb_rows (mg_db m) = [] \<Longrightarrow> manager_wf m"
  by (simp add: manager_wf_def db_ok_def)

end
