(* ===== verification/Download_Claims.thy ===== *)
theory Download_Claims
  imports Download_Manager
begin

text \<open>
  The properties of the download engine, from one thread up to the manager, each with an instance
  at a concrete input where it has hypotheses.
\<close>

section \<open>Instances\<close>

text \<open>A package of three bytes whose digest is its own text, and the world around its thread.\<close>

definition ex_info :: DownloadInfo where
  "ex_info = new_download_info\<lparr>di_downloadId := ''v'', di_versionId := ''v'', di_url := ''http://h/p'',
     di_path := ''/d/p'', di_verifyInfo := ''abc'', di_packageSize := 3, di_netType := CELLULAR_AND_WIFI,
     di_isNeedAutoResume := True\<rparr>"

definition ex_fs :: file_system where
  "ex_fs = (\<lambda>p. if p = ''/d/p'' then Some (Regular ''abc'') else if p = ''/d'' \<or> p = ''/'' then Some (Directory 488) else None)"

definition ex_thread_env :: thread_env where
  "ex_thread_env =
     \<lparr>te_clock = (\<lambda>n. 1000 + int n), te_fs = ex_fs, te_verifyFs = (\<lambda>_. ex_fs), te_sha = (\<lambda>s. s), te_readable = True, te_mkdir = True,
      te_open = True, te_fseek = 0, te_errno = (0, []), te_net = True, te_maxWrite = 16384,
      te_curl = Some (\<lambda>_. (0, 200)), te_events = [CE_Xfer 3 1, CE_Xfer 3 3], te_verifyOps = (\<lambda>_. [])\<rparr>"

definition ex_env :: task_env where
  "ex_env =
     \<lparr>en_now = 100, en_nowMs = 100000, en_net = NOT_METERED_WIFI, en_packageRoot = ''/data'',
      en_encryptedRoot = ''/enc'', en_baseDirs = [], en_statfs = (\<lambda>_. Some (4096, 1000)), en_osOk = (\<lambda>_. True),
      en_thread = ex_thread_env\<rparr>"

definition ex_db :: db_table where
  "ex_db = \<lparr>tb_up = True, tb_rows = [], tb_nextId = 1\<rparr>"

definition ex_task :: dtask where
  "ex_task = snd (task_Start ex_env no_error (new_task (\<lambda>p. if p = ''/data'' then Some (Directory 488) else None)
     ex_db ''t'' [ex_info]))"

section \<open>One thread\<close>

lemma verify_result_size [simp]: "verify_result env (d\<lparr>di_downloadedSize := n\<rparr>) = verify_result env d"
  by (simp add: verify_result_def)

lemma thread_reports_ok:
  "cb \<in> set (th_out (thread_Start env busy (new_thread env info c))) \<Longrightarrow> report_ok env (new_thread env info c) cb"
  using thread_Start_ext [of env "new_thread env info c" busy] by (auto simp: thread_ext_def)

text \<open>C1: A download thread, from its creation to its end, reports a package as downloaded only if at the
  moment of the verification the file exists and its digest matches the expected one (or the package
  had been completed before), whatever curl and other threads do meanwhile and whatever the file system
  held when the thread was created or holds when the sizes are read.\<close>

theorem thread_success_verified:
  assumes "cb \<in> set (th_out (thread_Start env busy (new_thread env info c)))" "ci_status cb = DS_SUCCESS"
  shows "di_status info = DS_SUCCESS \<or>
    (IsFileExist (te_verifyFs env 1) (di_path info) \<and>
     strcaseeq (GetFileSha256Str (te_sha env) (te_readable env) (te_verifyFs env 1) (di_path info))
       (di_verifyInfo info))"
  using thread_reports_ok [OF assms(1)] assms(2) GetFileSha256VerifyResult_success
  by (auto simp: report_ok_def verify_result_def)

text \<open>A fresh download: no file when the thread is created, the package when it is verified.\<close>

definition ex_fresh_env :: thread_env where
  "ex_fresh_env = ex_thread_env\<lparr>te_fs := ex_fs(''/d/p'' := None)\<rparr>"

theorem thread_success_verified_witness:
  "\<not> IsFileExist (te_fs ex_fresh_env) ''/d/p'' \<and> di_status ex_info \<noteq> DS_SUCCESS
   \<and> ci_status (last (th_out (thread_Start ex_fresh_env False (new_thread ex_fresh_env ex_info True)))) = DS_SUCCESS
   \<and> IsFileExist ex_fs ''/d/p'' \<and> strcaseeq (GetFileSha256Str (\<lambda>s. s) True ex_fs ''/d/p'') ''abc''"
proof -
  let ?th = "thread_Start ex_fresh_env False (new_thread ex_fresh_env ex_info True)"
  have ne: "th_out ?th \<noteq> []" and st: "ci_status (last (th_out ?th)) = DS_SUCCESS" by code_simp+
  have env: "te_verifyFs ex_fresh_env 1 = ex_fs" "te_sha ex_fresh_env = (\<lambda>s. s)" "te_readable ex_fresh_env"
    "\<not> IsFileExist (te_fs ex_fresh_env) ''/d/p''"
    "di_path ex_info = ''/d/p''" "di_verifyInfo ex_info = ''abc''" "di_status ex_info \<noteq> DS_SUCCESS"
    by (simp_all add: ex_fresh_env_def ex_thread_env_def ex_info_def new_download_info_def IsFileExist_def)
  show ?thesis
    using thread_success_verified [OF last_in_set [OF ne] st] st env by simp
qed

text \<open>C9: The size a thread reports never falls below the size the file had when the thread was created,
  so the progress of a resumed package does not go back although the transfer itself is rolled back;
  only a failure accounts differently: it reports the package as verified in full.\<close>

theorem thread_no_regress:
  assumes "cb \<in> set (th_out (thread_Start env busy (new_thread env info c)))"
  shows "(ci_status cb \<noteq> DS_FAIL \<longrightarrow> GetFileSize (te_fs env) (di_path info) \<le> ci_downloadedSize cb)
    \<and> (ci_status cb = DS_FAIL \<longrightarrow> ci_verifiedSize cb = di_packageSize info)"
  using thread_reports_ok [OF assms] by (auto simp: report_ok_def)

theorem thread_no_regress_witness:
  "GetFileSize ex_fs ''/d/p'' \<le>
     ci_downloadedSize (hd (th_out (thread_Start ex_thread_env False (new_thread ex_thread_env ex_info True))))"
proof -
  let ?th = "thread_Start ex_thread_env False (new_thread ex_thread_env ex_info True)"
  have ne: "th_out ?th \<noteq> []" and st: "ci_status (hd (th_out ?th)) \<noteq> DS_FAIL" by code_simp+
  show ?thesis
    using thread_no_regress [OF hd_in_set [OF ne]] st by (simp add: ex_thread_env_def ex_info_def)
qed

text \<open>C28: Once \<open>Stop\<close> has reached a thread that is downloading, nothing is reported any more, whatever
  curl still calls and however the transfer ends.\<close>

theorem stopped_thread_is_silent:
  assumes "te_events env = es @ CE_Op OP_Stop # es'"
    and "IsUrlValid (th_request (start_transfer env th))" "te_curl env \<noteq> None"
    and "th_status (fold (curl_step env) es (start_transfer env th)) \<noteq> DS_INIT"
  shows "th_out (DoDownload env th) = th_out (fold (curl_step env) es (start_transfer env th))"
  by (rule DoDownload_stopped [OF assms])

definition ex_stop_env :: thread_env where
  "ex_stop_env = ex_thread_env\<lparr>te_events := [CE_Xfer 3 1, CE_Op OP_Stop, CE_Xfer 3 3]\<rparr>"

definition ex_thread :: dthread where
  "ex_thread = (new_thread ex_stop_env ex_info True)\<lparr>th_status := DS_DOWNLOADING\<rparr>"

theorem stopped_thread_is_silent_witness:
  "th_out (DoDownload ex_stop_env ex_thread)
     = th_out (fold (curl_step ex_stop_env) [CE_Xfer 3 1] (start_transfer ex_stop_env ex_thread))"
proof (rule stopped_thread_is_silent)
  show "te_events ex_stop_env = [CE_Xfer 3 1] @ CE_Op OP_Stop # [CE_Xfer 3 3]" by (simp add: ex_stop_env_def)
  show "IsUrlValid (th_request (start_transfer ex_stop_env ex_thread))" by code_simp
  show "te_curl ex_stop_env \<noteq> None" by (simp add: ex_stop_env_def ex_thread_env_def)
  show "th_status (fold (curl_step ex_stop_env) [CE_Xfer 3 1] (start_transfer ex_stop_env ex_thread)) \<noteq> DS_INIT"
    by code_simp
qed

text \<open>A transfer that is interrupted at any point restarts at a position that had been flushed to the
  disk: the bytes written since the last \<open>fsync\<close> are always fewer than the roll-back size, so the
  rolled-back position is at most the number of flushed bytes.\<close>

theorem resume_position_is_flushed:
  assumes "0 \<le> flushed" "0 \<le> mw" "0 < FSYNC_THRESHOLD mw" "rq_fsyncSize r = 0"
    and "\<forall>w \<in> set ws. 0 \<le> wc_size w \<and> 0 \<le> wc_nmemb w"
    and "GetFileSize (te_fs env) (di_path info) \<le> flushed + rq_fsyncSize (write_calls mw ws r)"
  shows "th_downloadedSize (new_thread env info c) \<le> flushed"
proof -
  have "rq_fsyncSize (write_calls mw ws r) < FSYNC_THRESHOLD mw + mw"
    using write_calls_pending [of r mw ws] assms(2-5) by simp
  then have "rq_fsyncSize (write_calls mw ws r) \<le> MIN_FILE_DOWNLOAD_SIZE"
    using assms(2) by (simp add: FSYNC_THRESHOLD_def)
  with assms(1,6) show ?thesis
    by (auto simp: CalculatedRollBackSize_def max_def)
qed

theorem resume_position_is_flushed_witness:
  "th_downloadedSize (new_thread ex_thread_env ex_info True) \<le> 0"
proof (rule resume_position_is_flushed)
  let ?w = "\<lparr>wc_size = 1, wc_nmemb = 3, wc_fwrite = 3, wc_fflush = 0, wc_fsync = 0\<rparr>"
  show "0 \<le> (0 :: int)" "0 \<le> (16384 :: int)" by simp_all
  show "0 < FSYNC_THRESHOLD 16384" by (simp add: FSYNC_THRESHOLD_def MIN_FILE_DOWNLOAD_SIZE_def)
  show "rq_fsyncSize (new_request\<lparr>rq_hasFile := True\<rparr>) = 0" by (simp add: new_request_def)
  show "\<forall>w \<in> set [?w]. 0 \<le> wc_size w \<and> 0 \<le> wc_nmemb w" by simp
  show "GetFileSize (te_fs ex_thread_env) (di_path ex_info)
      \<le> 0 + rq_fsyncSize (write_calls 16384 [?w] (new_request\<lparr>rq_hasFile := True\<rparr>))"
    by code_simp
qed

text \<open>The size a server announces in an ordinary \<open>Content-Length\<close> header is not read: the value is cut
  out with a helper that mistakes a length for an end position, so for every value of fewer than
  fifteen characters the announced size is taken to be zero.\<close>

theorem content_length_not_read:
  assumes "rq_headersBuffer (th_request th) = [''Content-Length:'' @ v]" "length v < 15"
  shows "GetResponseSize th = 0"
  by (rule content_length_lost [OF assms])

theorem content_length_not_read_witness:
  "GetResponseSize (ex_thread\<lparr>th_request := new_request\<lparr>rq_headersBuffer := [''Content-Length: 123456789'']\<rparr>\<rparr>) = 0"
  by (rule content_length_not_read [where v = "'' 123456789''"]) (simp_all add: new_request_def)

text \<open>A thread that is restarted after an automatic pause and has not begun yet does not notice that the
  network was lost again: the request to pause fails and leaves the thread as it was.\<close>

theorem restarted_thread_ignores_net_change:
  assumes "di_status info = DS_AUTO_PAUSE"
  shows "thread_NetChangeToPause env (new_thread env info c) = (RES_FAIL, new_thread env info c)"
  using assms by (simp add: thread_NetChangeToPause_def new_thread_def Let_def)

theorem restarted_thread_ignores_net_change_witness:
  "thread_NetChangeToPause ex_thread_env (new_thread ex_thread_env (ex_info\<lparr>di_status := DS_AUTO_PAUSE\<rparr>) True)
     = (RES_FAIL, new_thread ex_thread_env (ex_info\<lparr>di_status := DS_AUTO_PAUSE\<rparr>) True)"
  by (rule restarted_thread_ignores_net_change) simp

text \<open>A file that exists but cannot be read is hashed as if its digest were all zeros, because the answer
  of the reading function is dropped: it passes the check against a digest of zeros, and the error
  code for a digest that could not be obtained is never returned.\<close>

theorem unreadable_file_zero_digest:
  assumes "IsFileExist fs name"
  shows "fst (GetFileSha256VerifyResult sha False fs name zero_digest) = SHA_SUCCESS
    \<and> (\<forall>readable expected. fst (GetFileSha256VerifyResult sha readable fs name expected) \<noteq> SHA_OBTAIN_FAIL)"
  using assms GetFileSha256VerifyResult_never_obtain_fail
  by (simp add: GetFileSha256VerifyResult_success GetFileSha256Str_def strcaseeq_def split: option.split fnode.split)

theorem unreadable_file_zero_digest_witness:
  "fst (GetFileSha256VerifyResult (\<lambda>s. s) False ex_fs ''/d/p'' zero_digest) = SHA_SUCCESS"
  using unreadable_file_zero_digest [of ex_fs "''/d/p''" "\<lambda>s. s"] by (simp add: IsFileExist_def ex_fs_def)

section \<open>A task\<close>

lemma GetTaskProgress_status:
  assumes "packages_ok t" "\<exists>d \<in> set (tk_heap t). di_status d \<noteq> DS_INIT"
  shows "pi_taskStatus (snd (task_GetTaskProgress t)) = task_status_spec (map GetTaskStatus (tk_heap t))"
  using assms processor_update_status [of "tk_proc t" "tk_heap t"]
  by (auto simp: task_GetTaskProgress_def processor_GetTaskProgress_def Let_def packages_ok_def)

text \<open>C8: The status of a task, computed by counting the statuses of its packages, is the one a direct
  description of the packages gives: successful if all packages are (a tolerated failure counts as
  success), else downloading, paused, automatically paused, cancelled or failed in this order of
  precedence. A task that has never left the initial state keeps its status.\<close>

theorem task_status_equivalence:
  assumes "packages_ok t" "\<exists>d \<in> set (tk_heap t). di_status d \<noteq> DS_INIT"
  shows "pi_taskStatus (snd (task_GetTaskProgress t)) = task_status_spec (map GetTaskStatus (tk_heap t))"
  by (rule GetTaskProgress_status [OF assms])

definition ex_task2 :: dtask where
  "ex_task2 = new_task ex_fs ex_db ''t''
     [ex_info\<lparr>di_status := DS_SUCCESS\<rparr>, ex_info\<lparr>di_versionId := ''w'', di_status := DS_FAIL, di_isIgnoredFail := True\<rparr>]"

lemma ex_task2_wf: "task_wf ex_task2"
  unfolding ex_task2_def
  by (rule new_task_wf) (simp_all add: ex_info_def new_download_info_def db_ok_def ex_db_def)

lemma ex_task2_packages: "packages_ok ex_task2"
  using ex_task2_wf by (simp add: task_wf_def)

theorem task_status_equivalence_witness:
  "pi_taskStatus (snd (task_GetTaskProgress ex_task2)) = task_status_spec (map GetTaskStatus (tk_heap ex_task2))"
  by (rule task_status_equivalence [OF ex_task2_packages]) code_simp

text \<open>A task counts as successfully downloaded exactly when every package is downloaded or its failure is
  to be ignored.\<close>

theorem task_success_iff:
  assumes "packages_ok t" "\<exists>d \<in> set (tk_heap t). di_status d \<noteq> DS_INIT"
  shows "pi_taskStatus (snd (task_GetTaskProgress t)) = DS_SUCCESS \<longleftrightarrow>
    (\<forall>d \<in> set (tk_heap t). di_status d = DS_SUCCESS \<or> (di_status d = DS_FAIL \<and> di_isIgnoredFail d))"
  unfolding GetTaskProgress_status [OF assms] task_status_spec_SUCCESS by (auto simp: GetTaskStatus_def)

theorem task_success_iff_witness: "pi_taskStatus (snd (task_GetTaskProgress ex_task2)) = DS_SUCCESS"
proof -
  have "\<forall>d \<in> set (tk_heap ex_task2). di_status d = DS_SUCCESS \<or> (di_status d = DS_FAIL \<and> di_isIgnoredFail d)"
    by code_simp
  moreover have "\<exists>d \<in> set (tk_heap ex_task2). di_status d \<noteq> DS_INIT" by code_simp
  ultimately show ?thesis using task_success_iff [OF ex_task2_packages] by blast
qed

text \<open>The percentage of a task lies between 0 and 100 as long as the multiplication by one hundred does
  not overflow, even when more bytes are reported than the packages have.\<close>

theorem task_percent_range:
  assumes "pp_packageSize (tk_proc t) * 100 \<le> INT64_MAX"
    and "0 \<le> tl_downloadSize (tally (tk_heap t) new_tally)"
  shows "0 \<le> pi_taskProgress (snd (task_GetTaskProgress t)) \<and> pi_taskProgress (snd (task_GetTaskProgress t)) \<le> 100"
proof -
  let ?p = "processor_update (tk_heap t) (tk_proc t)"
  have "pp_downloadedSize ?p = tl_downloadSize (tally (tk_heap t) new_tally)"
    by (simp add: processor_update_def Let_def)
  with assms have "0 \<le> CalcDownloadProgress ?p \<and> CalcDownloadProgress ?p \<le> 100"
    by (intro CalcDownloadProgress_range) simp_all
  then show ?thesis by (simp add: task_GetTaskProgress_def processor_GetTaskProgress_def Let_def)
qed

theorem task_percent_range_witness: "pi_taskProgress (snd (task_GetTaskProgress ex_task2)) \<le> 100"
proof -
  have "pp_packageSize (tk_proc ex_task2) * 100 \<le> INT64_MAX"
    "0 \<le> tl_downloadSize (tally (tk_heap ex_task2) new_tally)" by code_simp+
  then show ?thesis using task_percent_range by blast
qed

text \<open>Pausing a task stops every thread and marks every package as paused. This includes packages that
  were already downloaded, and it clears the accumulated download time of each package.\<close>

theorem pause_marks_every_package:
  assumes "task_wf t" "(d, i) \<in> set (tk_srv t)"
  shows "tk_threads (snd (task_Pause env t)) = []
    \<and> di_status (tk_heap (snd (task_Pause env t)) ! i) = DS_PAUSE
    \<and> di_effectiveTime (tk_heap (snd (task_Pause env t)) ! i) = 0"
proof -
  let ?t = "DisableCallback (t\<lparr>tk_stopCallback := True\<rparr>)"
  have wf: "task_wf ?t" by (intro wf_DisableCallback wf_flags assms(1))
  have srv: "tk_srv ?t = tk_srv t" "tk_heap ?t = tk_heap t"
    by (simp_all add: DisableCallback_def service_SetDisableCallbackFlag_def CancelTimedTask_def split: option.split)
  have i: "i < length (tk_heap t)"
    using task_wf_entry [OF assms(1)] task_wf_srv_subset [OF assms(1)] assms(2) by blast
  from service_Pause_all [OF wf, of env] i assms(2) srv show ?thesis
    by (force simp: task_Pause_def notified_def paused_def)
qed

theorem pause_marks_every_package_witness:
  "di_status (tk_heap ex_task2 ! 0) = DS_SUCCESS \<and> di_status (tk_heap (snd (task_Pause ex_env ex_task2)) ! 0) = DS_PAUSE"
proof -
  have m: "(''v'', 0) \<in> set (tk_srv ex_task2)" by code_simp
  have "di_status (tk_heap ex_task2 ! 0) = DS_SUCCESS" by code_simp
  then show ?thesis using pause_marks_every_package [OF ex_task2_wf m, of ex_env] by simp
qed

lemma DeleteByTaskId_rows:
  "tb_up (DeleteByTaskId k db) \<Longrightarrow> r \<in> set (tb_rows (DeleteByTaskId k db)) \<Longrightarrow> \<not> row_matches [(''taskId'', DbStr k)] r"
  by (cases "tb_up db") (auto simp: DeleteByTaskId_def table_Delete_def)

lemma service_Cancel_db: "\<exists>db. tk_db (service_Cancel env b t) = DeleteByTaskId (tk_taskId (service_Cancel env b t)) db"
  by (simp add: service_Cancel_def NotifyCancelCompleted_def Let_def) blast

text \<open>C30: Cancelling a task tells every thread the service has to stop, with its callback switched off
  before, and takes it out of the map; it marks every package as cancelled, removes the task's rows
  from the database and takes the client's callback away. (What a downloading thread still reports
  after \<open>Stop\<close> is the subject of \<open>stopped_thread_is_silent\<close>.)\<close>

theorem cancel_clears_task:
  assumes "task_wf t"
  shows "tk_stopped (snd (task_Cancel env b t))
       = tk_stopped t @ map (\<lambda>(d, th). (d, thread_Stop (SetDisableCallbackFlag True th))) (tk_threads t)
    \<and> tk_threads (snd (task_Cancel env b t)) = []
    \<and> (\<forall>(d, i) \<in> set (tk_srv t). di_status (tk_heap (snd (task_Cancel env b t)) ! i) = DS_CANCEL)
    \<and> (tb_up (tk_db (snd (task_Cancel env b t))) \<longrightarrow>
         (\<forall>r \<in> set (tb_rows (tk_db (snd (task_Cancel env b t)))).
            \<not> row_matches [(''taskId'', DbStr (tk_taskId (snd (task_Cancel env b t))))] r))
    \<and> \<not> tk_hasCallback (snd (task_Cancel env b t))"
proof -
  let ?t = "DisableCallback (t\<lparr>tk_stopCallback := True\<rparr>)"
  have wf: "task_wf ?t" by (intro wf_DisableCallback wf_flags assms)
  have srv: "tk_srv ?t = tk_srv t" "tk_heap ?t = tk_heap t" "tk_stopped ?t = tk_stopped t"
    by (simp_all add: DisableCallback_def service_SetDisableCallbackFlag_def CancelTimedTask_def split: option.split)
  have thr: "tk_threads ?t = map (\<lambda>(d, th). (d, SetDisableCallbackFlag True th)) (tk_threads t)"
    by (simp add: DisableCallback_threads)
  note all = service_Cancel_all [OF wf, of env b]
  have stopped: "tk_stopped (service_Cancel env b ?t)
      = tk_stopped t @ map (\<lambda>(d, th). (d, thread_Stop (SetDisableCallbackFlag True th))) (tk_threads t)"
    using all by (simp add: notified_def srv thr o_def case_prod_unfold)
  have packages: "\<forall>(d, i) \<in> set (tk_srv t). di_status (tk_heap (service_Cancel env b ?t) ! i) = DS_CANCEL"
  proof safe
    fix d i assume m: "(d, i) \<in> set (tk_srv t)"
    have "i < length (tk_heap t)"
      using task_wf_entry [OF assms] task_wf_srv_subset [OF assms] m by blast
    with all m srv show "di_status (tk_heap (service_Cancel env b ?t) ! i) = DS_CANCEL"
      by (force simp: notified_def cancelled_def)
  qed
  have rows: "\<forall>r \<in> set (tb_rows (tk_db (service_Cancel env b ?t))).
      \<not> row_matches [(''taskId'', DbStr (tk_taskId (service_Cancel env b ?t)))] r"
    if "tb_up (tk_db (service_Cancel env b ?t))"
    using that service_Cancel_db [of env b ?t] DeleteByTaskId_rows by metis
  show ?thesis
    using all packages rows stopped by (simp add: task_Cancel_def notified_def)
qed

text \<open>The task with one thread, which is stopped by the cancellation.\<close>

lemma ex_task_wf: "task_wf ex_task"
  unfolding ex_task_def
  by (intro wf_task_Start new_task_wf) (simp_all add: ex_info_def new_download_info_def db_ok_def ex_db_def)

theorem cancel_clears_task_witness:
  "di_status (tk_heap (snd (task_Cancel ex_env True ex_task)) ! 0) = DS_CANCEL
   \<and> (\<exists>th. tk_stopped (snd (task_Cancel ex_env True ex_task)) = [(''v'', th)]
         \<and> th_isNeedCancel th \<and> rq_isNeedStop (th_request th))"
proof -
  have m: "(''v'', 0) \<in> set (tk_srv ex_task)" and s: "tk_stopped ex_task = []" by code_simp+
  have k: "map fst (tk_threads ex_task) = [''v'']" by code_simp
  then obtain th where th: "tk_threads ex_task = [(''v'', th)]" by (cases "tk_threads ex_task") auto
  show ?thesis
    using cancel_clears_task [OF ex_task_wf, of ex_env True] m by (force simp: s th thread_Stop_def)
qed

text \<open>C32: Losing the network is not survived by a task with a thread that has been created but has not begun:
  such a thread reports the pause at once, and the service answers by erasing it from the map it is
  walking over. This is the only way in which the handler fails; a service that has been stopped
  ignores the report and survives.\<close>

theorem net_loss_with_unstarted_thread:
  assumes "task_wf t"
  shows "task_OnNetChange env t = None \<longleftrightarrow>
     \<not> net_available (en_net env) (GetRequiredNetType t) \<and> \<not> tk_srvStop t
     \<and> (\<exists>(d, th) \<in> set (tk_threads t). th_status th = DS_INIT)"
  using task_OnNetChange_None [OF assms] by (simp add: unstarted_def)

theorem net_loss_with_unstarted_thread_witness:
  "task_OnNetChange (ex_env\<lparr>en_net := NO_NET\<rparr>) ex_task = None"
proof -
  have "\<not> net_available NO_NET (GetRequiredNetType ex_task)" "\<not> tk_srvStop ex_task"
    "\<exists>(d, th) \<in> set (tk_threads ex_task). th_status th = DS_INIT" by code_simp+
  then show ?thesis using net_loss_with_unstarted_thread [OF ex_task_wf, of "ex_env\<lparr>en_net := NO_NET\<rparr>"] by simp
qed

text \<open>A failed package that may still be retried is started again with one more retry counted and without
  any report to the client; write errors and digest mismatches are excluded.\<close>

theorem failure_is_retried_silently:
  assumes "ci_status info = DS_FAIL" "ci_endReason info \<notin> {R_IO_EXCEPTION, R_VERIFY_FAIL}"
    and "map_of (tk_srv t) (ci_downloadId info) = Some i" "i < length (tk_heap t)"
    and "di_retryTimes (tk_heap t ! i) < 3"
  shows "di_retryTimes (tk_heap (UpdateDownloadProgress env info t) ! i) = di_retryTimes (tk_heap t ! i) + 1
    \<and> di_status (tk_heap (UpdateDownloadProgress env info t) ! i) = di_status (tk_heap t ! i)
    \<and> tk_reports (UpdateDownloadProgress env info t) = tk_reports t
    \<and> length (tk_started (UpdateDownloadProgress env info t)) = length (tk_started t) + 1"
  using UpdateDownloadProgress_retry [of info t i] assms by (simp add: IsRetryAble_def)

text \<open>While the status of a task does not change, the sizes it records never decrease, and a final status
  is never announced twice in a row.\<close>

theorem recorded_progress_monotone:
  assumes "IsProgressChanged p t = (b, t')"
  shows "(tk_status t' = tk_status t \<longrightarrow>
      pi_downloadedSize (tk_progressInfo t) \<le> pi_downloadedSize (tk_progressInfo t')
      \<and> pi_verifiedSize (tk_progressInfo t) \<le> pi_verifiedSize (tk_progressInfo t'))
    \<and> (b \<and> IsTaskCompleted p \<longrightarrow> tk_status t \<noteq> pi_taskStatus p)"
  using IsProgressChanged_monotone [OF assms] IsProgressChanged_recorded [of p t t'] assms by auto

theorem recorded_progress_monotone_witness:
  "\<not> fst (IsProgressChanged (tk_progressInfo ex_task2) ex_task2)"
proof -
  obtain b t' where r: "IsProgressChanged (tk_progressInfo ex_task2) ex_task2 = (b, t')" by fastforce
  have "IsTaskCompleted (tk_progressInfo ex_task2)" "tk_status ex_task2 = pi_taskStatus (tk_progressInfo ex_task2)"
    by code_simp+
  then show ?thesis using recorded_progress_monotone [OF r] r by auto
qed

text \<open>C29: After a restart no package of a recovered task still claims to be on the way: each is downloaded,
  failed, paused by the user or automatically paused.\<close>

theorem recovered_task_is_settled:
  assumes "valid_infos ds"
  shows "\<forall>(d, i) \<in> set (tk_map (new_task fs db k ds)).
     di_status (tk_heap (task_Recover env (new_task fs db k ds)) ! i)
       \<in> {DS_SUCCESS, DS_FAIL, DS_PAUSE, DS_AUTO_PAUSE}"
proof -
  have "packages_ok (new_task fs db k ds)" using assms by (intro new_task_packages) (simp add: valid_infos_def)
  moreover have "tk_srv (new_task fs db k ds) = tk_map (new_task fs db k ds)"
    by (simp add: new_task_def Let_def split_beta)
  ultimately show ?thesis using task_Recover_settled by (simp add: settled_def)
qed

theorem recovered_task_is_settled_witness:
  "di_status (tk_heap (task_Recover ex_env (new_task ex_fs ex_db ''t'' [ex_info\<lparr>di_status := DS_DOWNLOADING\<rparr>])) ! 0)
     \<in> {DS_SUCCESS, DS_FAIL, DS_PAUSE, DS_AUTO_PAUSE}"
proof -
  have v: "valid_infos [ex_info\<lparr>di_status := DS_DOWNLOADING\<rparr>]" by code_simp
  have "(''v'', 0) \<in> set (tk_map (new_task ex_fs ex_db ''t'' [ex_info\<lparr>di_status := DS_DOWNLOADING\<rparr>]))" by code_simp
  then show ?thesis using recovered_task_is_settled [OF v, of ex_fs ex_db "''t''" ex_env] by fastforce
qed

section \<open>The manager\<close>

text \<open>C2: However the manager is used, whatever its threads, queues, timers and the network do, and however
  often the process ends and its tasks are restored from the table: the retry counter of a package
  stays between zero and three, and no thread works on a package that has ended. The counter is the
  number of retries since the package was started or last resumed by its client, who sets it back;
  after a restart it goes on from the number in the table. The beginning is a manager without tasks
  and a table whose counters, if it has rows, are in range; so are those of the packages a client
  gives (a new package has zero).\<close>

theorem manager_invariant:
  assumes "mg_tasks m0 = []" "db_ok (mg_db m0)" "manager_reach m0 m"
    and "map_of (mg_tasks m) k = Some t" "(d, i) \<in> set (tk_map t)"
  shows "0 \<le> di_retryTimes (tk_heap t ! i) \<and> di_retryTimes (tk_heap t ! i) \<le> 3
    \<and> (cm_has d (tk_threads t) \<longrightarrow> \<not> IsCompleted (tk_heap t ! i))"
proof -
  have "manager_wf m0" using assms(1,2) by (simp add: manager_wf_def)
  then have wf: "task_wf t" by (rule manager_wf_task [OF manager_reach_wf [OF assms(3)] assms(4)])
  then have "tk_heap t ! i \<in> set (tk_heap t)" using task_wf_entry assms(5) by (metis nth_mem)
  then show ?thesis using wf assms(5) by (auto simp: task_wf_def packages_ok_def)
qed

definition ex_manager0 :: manager where
  "ex_manager0 = \<lparr>mg_tasks = [], mg_db = ex_db,
     mg_fs = (\<lambda>p. if p = ''/data'' then Some (Directory 488) else None), mg_delivered = []\<rparr>"

text \<open>A task is started, then the process ends and starts again.\<close>

definition ex_manager :: manager where
  "ex_manager = snd (snd (manager_Start (\<lambda>s. s) ex_env [ex_info, ex_info] no_error ex_manager0))"

definition ex_restored :: manager where
  "ex_restored = manager_restart ex_env True (mg_fs ex_manager) ex_manager"

theorem manager_invariant_witness:
  "map_of (mg_tasks ex_restored) ''v'' \<noteq> None
   \<and> di_retryTimes (tk_heap (the (map_of (mg_tasks ex_restored) ''v'')) ! 0) \<le> 3"
proof -
  have "manager_reach ex_manager0 ex_manager"
    unfolding ex_manager_def
    by (rule manager_reach.step [OF manager_reach.here manager_step.start])
      (simp add: valid_infos_def ex_info_def new_download_info_def)
  then have r: "manager_reach ex_manager0 ex_restored"
    unfolding ex_restored_def by (rule manager_reach.step [OF _ manager_step.restart])
  have i: "mg_tasks ex_manager0 = []" "db_ok (mg_db ex_manager0)"
    by (simp_all add: ex_manager0_def ex_db_def db_ok_def)
  have t: "map_of (mg_tasks ex_restored) ''v'' \<noteq> None"
    "(''v'', 0) \<in> set (tk_map (the (map_of (mg_tasks ex_restored) ''v'')))" by code_simp+
  then show ?thesis using manager_invariant [OF i r] by (metis option.exhaust_sel)
qed

text \<open>Asking to remove a task that is still downloading is refused, yet its rows have been deleted by
  then: the task keeps running but would not be found again after a restart.\<close>

theorem refused_removal_deletes_rows:
  assumes "map_of (mg_tasks m) k = Some t"
    and "pi_taskStatus (snd (task_GetTaskProgress t)) = DS_DOWNLOADING" "tb_up (mg_db m)"
  shows "de_errorNum (fst (manager_RemoveTask k err m)) = CALL_FAIL
    \<and> cm_has k (mg_tasks (snd (manager_RemoveTask k err m)))
    \<and> (\<forall>r \<in> set (tb_rows (mg_db (snd (manager_RemoveTask k err m)))). \<not> row_matches [(''taskId'', DbStr k)] r)"
proof -
  have "cm_has k (mg_tasks m)" using assms(1) by (simp add: cm_has_iff)
  moreover have "tb_up (DeleteByTaskId k (mg_db m))" using assms(3) by (simp add: DeleteByTaskId_def)
  ultimately show ?thesis
    using assms(1,2) DeleteByTaskId_rows [of k "mg_db m"]
    by (simp add: manager_RemoveTask_def manager_GetTaskProgress_def removable_def Let_def split_beta)
qed

end
