(* ===== verification/Firmware_Data.thy ===== *)
theory Firmware_Data
  imports Download_Table
begin

text \<open>
  The data of the firmware upgrade: the enumerations of \<open>services/firmware/common/include/firmware_common.h\<close>
  and of the public model, the upgrade task and its components (\<open>services/firmware/data/db/include\<close>), their
  tables and operators (\<open>services/firmware/data/db/src\<close>). There is at most one task; its row and the rows
  of its components are what survives a restart. \<open>isNeedRestart\<close> is not initialised by the code and not read
  by it except to store it; a fresh component has it false here.
\<close>

section \<open>Enumerations\<close>

datatype UpgradeStatus =
    US_ERROR | US_INIT | US_CHECKING_VERSION | US_CHECK_VERSION_FAIL | US_CHECK_VERSION_SUCCESS
  | US_DOWNLOADING | US_DOWNLOAD_PAUSE | US_DOWNLOAD_CANCEL | US_DOWNLOAD_FAIL | US_DOWNLOAD_SUCCESS
  | US_VERIFYING | US_VERIFY_FAIL | US_VERIFY_SUCCESS | US_AUTHING | US_AUTH_FAIL | US_AUTH_SUCCESS
  | US_WAIT_TRANSFER | US_TRANSFER_START | US_PACKAGE_TRANSING | US_PACKAGE_TRANS_FAIL | US_PACKAGE_TRANS_SUCCESS
  | US_INSTALLING | US_INSTALL_FAIL | US_INSTALL_SUCCESS | US_INSTALL_PAUSE
  | US_UPDATING | US_UPDATE_FAIL | US_UPDATE_SUCCESS | US_UPGRADE_REBOOT | US_UPGRADE_COUNT_DOWN | US_UPGRADE_CANCEL

fun ustatus_code :: "UpgradeStatus \<Rightarrow> int" where
  "ustatus_code US_ERROR = -1" | "ustatus_code US_INIT = 0" | "ustatus_code US_CHECKING_VERSION = 10"
| "ustatus_code US_CHECK_VERSION_FAIL = 11" | "ustatus_code US_CHECK_VERSION_SUCCESS = 12"
| "ustatus_code US_DOWNLOADING = 20" | "ustatus_code US_DOWNLOAD_PAUSE = 21" | "ustatus_code US_DOWNLOAD_CANCEL = 22"
| "ustatus_code US_DOWNLOAD_FAIL = 23" | "ustatus_code US_DOWNLOAD_SUCCESS = 24" | "ustatus_code US_VERIFYING = 30"
| "ustatus_code US_VERIFY_FAIL = 31" | "ustatus_code US_VERIFY_SUCCESS = 32" | "ustatus_code US_AUTHING = 60"
| "ustatus_code US_AUTH_FAIL = 61" | "ustatus_code US_AUTH_SUCCESS = 62" | "ustatus_code US_WAIT_TRANSFER = 68"
| "ustatus_code US_TRANSFER_START = 69" | "ustatus_code US_PACKAGE_TRANSING = 70"
| "ustatus_code US_PACKAGE_TRANS_FAIL = 71" | "ustatus_code US_PACKAGE_TRANS_SUCCESS = 72"
| "ustatus_code US_INSTALLING = 80" | "ustatus_code US_INSTALL_FAIL = 81" | "ustatus_code US_INSTALL_SUCCESS = 82"
| "ustatus_code US_INSTALL_PAUSE = 83" | "ustatus_code US_UPDATING = 90" | "ustatus_code US_UPDATE_FAIL = 91"
| "ustatus_code US_UPDATE_SUCCESS = 92" | "ustatus_code US_UPGRADE_REBOOT = 93"
| "ustatus_code US_UPGRADE_COUNT_DOWN = 100" | "ustatus_code US_UPGRADE_CANCEL = 101"

definition ustatus_all :: "UpgradeStatus list" where
  "ustatus_all =
     [US_ERROR, US_INIT, US_CHECKING_VERSION, US_CHECK_VERSION_FAIL, US_CHECK_VERSION_SUCCESS,
      US_DOWNLOADING, US_DOWNLOAD_PAUSE, US_DOWNLOAD_CANCEL, US_DOWNLOAD_FAIL, US_DOWNLOAD_SUCCESS,
      US_VERIFYING, US_VERIFY_FAIL, US_VERIFY_SUCCESS, US_AUTHING, US_AUTH_FAIL, US_AUTH_SUCCESS,
      US_WAIT_TRANSFER, US_TRANSFER_START, US_PACKAGE_TRANSING, US_PACKAGE_TRANS_FAIL, US_PACKAGE_TRANS_SUCCESS,
      US_INSTALLING, US_INSTALL_FAIL, US_INSTALL_SUCCESS, US_INSTALL_PAUSE,
      US_UPDATING, US_UPDATE_FAIL, US_UPDATE_SUCCESS, US_UPGRADE_REBOOT, US_UPGRADE_COUNT_DOWN, US_UPGRADE_CANCEL]"

definition ustatus_of_code :: "int \<Rightarrow> UpgradeStatus" where
  "ustatus_of_code n = (case find (\<lambda>s. ustatus_code s = n) ustatus_all of Some s \<Rightarrow> s | None \<Rightarrow> US_INIT)"

datatype Order = O_DOWNLOAD | O_INSTALL | O_DOWNLOAD_AND_INSTALL | O_APPLY | O_INSTALL_AND_APPLY
  | O_TRANSFER | O_TRANSFER_AND_APPLY

fun order_code :: "Order \<Rightarrow> int" where
  "order_code O_DOWNLOAD = 1" | "order_code O_INSTALL = 2" | "order_code O_DOWNLOAD_AND_INSTALL = 3"
| "order_code O_APPLY = 4" | "order_code O_INSTALL_AND_APPLY = 6" | "order_code O_TRANSFER = 8"
| "order_code O_TRANSFER_AND_APPLY = 12"

definition order_of_code :: "int \<Rightarrow> Order" where
  "order_of_code n =
     (case find (\<lambda>s. order_code s = n)
        [O_DOWNLOAD, O_INSTALL, O_DOWNLOAD_AND_INSTALL, O_APPLY, O_INSTALL_AND_APPLY, O_TRANSFER, O_TRANSFER_AND_APPLY] of
        Some s \<Rightarrow> s | None \<Rightarrow> O_DOWNLOAD)"

datatype OtaMode = REGULAR_OTA | STREAM_OTA | AB_REGULAR_OTA | AB_STREAM_OTA

fun ota_code :: "OtaMode \<Rightarrow> int" where
  "ota_code REGULAR_OTA = 0" | "ota_code STREAM_OTA = 1" | "ota_code AB_REGULAR_OTA = 2" | "ota_code AB_STREAM_OTA = 3"

definition ota_of_code :: "int \<Rightarrow> OtaMode" where
  "ota_of_code n = (case find (\<lambda>s. ota_code s = n) [REGULAR_OTA, STREAM_OTA, AB_REGULAR_OTA, AB_STREAM_OTA] of
     Some s \<Rightarrow> s | None \<Rightarrow> REGULAR_OTA)"

datatype PackageType = PT_DYNAMIC | PT_NORMAL | PT_BASE | PT_CUST | PT_PRELOAD | PT_COTA | PT_VERSION | PT_PATCH | PT_SA

fun package_code :: "PackageType \<Rightarrow> int" where
  "package_code PT_DYNAMIC = 0" | "package_code PT_NORMAL = 1" | "package_code PT_BASE = 2" | "package_code PT_CUST = 3"
| "package_code PT_PRELOAD = 4" | "package_code PT_COTA = 5" | "package_code PT_VERSION = 6" | "package_code PT_PATCH = 8"
| "package_code PT_SA = 9"

definition package_of_code :: "int \<Rightarrow> PackageType" where
  "package_of_code n =
     (case find (\<lambda>s. package_code s = n)
        [PT_DYNAMIC, PT_NORMAL, PT_BASE, PT_CUST, PT_PRELOAD, PT_COTA, PT_VERSION, PT_PATCH, PT_SA] of
        Some s \<Rightarrow> s | None \<Rightarrow> PT_DYNAMIC)"

datatype CombinationType = INVALLID_TYPE | HOTA
datatype DownloadMode = DM_MANUAL | DM_AUTO
datatype UpgradeMode = UM_MANUAL | UM_NIGHT

fun combination_code :: "CombinationType \<Rightarrow> int" where
  "combination_code INVALLID_TYPE = 0" | "combination_code HOTA = 1"

definition combination_of_code :: "int \<Rightarrow> CombinationType" where
  "combination_of_code n = (if n = 1 then HOTA else INVALLID_TYPE)"

fun dmode_code :: "DownloadMode \<Rightarrow> int" where
  "dmode_code DM_MANUAL = 0" | "dmode_code DM_AUTO = 1"

definition dmode_of_code :: "int \<Rightarrow> DownloadMode" where
  "dmode_of_code n = (if n = 1 then DM_AUTO else DM_MANUAL)"

fun umode_code :: "UpgradeMode \<Rightarrow> int" where
  "umode_code UM_MANUAL = 0" | "umode_code UM_NIGHT = 1"

definition umode_of_code :: "int \<Rightarrow> UpgradeMode" where
  "umode_of_code n = (if n = 1 then UM_NIGHT else UM_MANUAL)"

lemma enum_of_code [simp]:
  "ustatus_of_code (ustatus_code s) = s" "order_of_code (order_code o') = o'" "ota_of_code (ota_code a) = a"
  "package_of_code (package_code p) = p" "combination_of_code (combination_code c) = c"
  "dmode_of_code (dmode_code m) = m" "umode_of_code (umode_code u) = u"
  by ((cases s; simp add: ustatus_of_code_def ustatus_all_def), (cases o'; simp add: order_of_code_def),
    (cases a; simp add: ota_of_code_def), (cases p; simp add: package_of_code_def),
    (cases c; simp add: combination_of_code_def), (cases m; simp add: dmode_of_code_def),
    (cases u; simp add: umode_of_code_def))

lemma i32_enum_code [simp]:
  "i32 (ustatus_code s) = ustatus_code s" "i32 (order_code o') = order_code o'" "i32 (ota_code a) = ota_code a"
  "i32 (package_code p) = package_code p" "i32 (combination_code c) = combination_code c"
  "i32 (dmode_code m) = dmode_code m" "i32 (umode_code u) = umode_code u"
  by ((cases s; simp add: i32_def), (cases o'; simp add: i32_def), (cases a; simp add: i32_def),
    (cases p; simp add: i32_def), (cases c; simp add: i32_def), (cases m; simp add: i32_def), (cases u; simp add: i32_def))

section \<open>The upgrade task\<close>

record FirmwareTask =
  ft_taskId :: string
  ft_status :: UpgradeStatus
  ft_progress :: int
  ft_errorCode :: int
  ft_errorMsg :: string
  ft_isExistTask :: bool
  ft_downloadTaskId :: string
  ft_combinationType :: CombinationType
  ft_downloadOrder :: Order
  ft_downloadAllowNetwork :: NetType
  ft_downloadMode :: DownloadMode
  ft_upgradeOrder :: Order
  ft_upgradeMode :: UpgradeMode
  ft_authResult :: string
  ft_updateToken :: string
  ft_deviceToken :: string
  ft_tokenHMac :: string
  ft_currentVersionList :: string
  ft_authTime :: int
  ft_isStreamUpgrade :: bool

definition new_firmware_task :: FirmwareTask where
  "new_firmware_task =
     \<lparr>ft_taskId = [], ft_status = US_INIT, ft_progress = 0, ft_errorCode = 0, ft_errorMsg = [],
      ft_isExistTask = False, ft_downloadTaskId = [], ft_combinationType = INVALLID_TYPE,
      ft_downloadOrder = O_DOWNLOAD, ft_downloadAllowNetwork = NOT_METERED_WIFI, ft_downloadMode = DM_MANUAL,
      ft_upgradeOrder = O_INSTALL, ft_upgradeMode = UM_MANUAL, ft_authResult = [], ft_updateToken = [],
      ft_deviceToken = [], ft_tokenHMac = [], ft_currentVersionList = [], ft_authTime = 0,
      ft_isStreamUpgrade = False\<rparr>"

definition task_ParseDbValue :: "db_row \<Rightarrow> FirmwareTask" where
  "task_ParseDbValue row = (let v = new_firmware_task in
     v\<lparr>ft_taskId := get_str row ''taskId'' (ft_taskId v),
       ft_status := ustatus_of_code (get_int row ''status'' (ustatus_code US_INIT)),
       ft_progress := get_int row ''progress'' (ft_progress v),
       ft_downloadTaskId := get_str row ''downloadTaskId'' (ft_downloadTaskId v),
       ft_errorCode := get_int row ''errorCode'' (ft_errorCode v),
       ft_errorMsg := get_str row ''errorMsg'' (ft_errorMsg v),
       ft_combinationType := combination_of_code (get_int row ''combinationType'' (combination_code INVALLID_TYPE)),
       ft_downloadMode := dmode_of_code (get_int row ''downloadMode'' (dmode_code DM_MANUAL)),
       ft_downloadAllowNetwork := nettype_of_code (get_int row ''downloadAllowNetwork'' (uint (net_code WIFI))),
       ft_downloadOrder := order_of_code (get_int row ''downloadOrder'' (uint (net_code WIFI))),
       ft_upgradeMode := umode_of_code (get_int row ''upgradeMode'' (umode_code UM_MANUAL)),
       ft_upgradeOrder := order_of_code (get_int row ''upgradeOrder'' (order_code O_INSTALL_AND_APPLY)),
       ft_authResult := get_str row ''authResult'' (ft_authResult v),
       ft_updateToken := get_str row ''updateToken'' (ft_updateToken v),
       ft_deviceToken := get_str row ''deviceToken'' (ft_deviceToken v),
       ft_tokenHMac := get_str row ''tokenHMac'' (ft_tokenHMac v),
       ft_currentVersionList := get_str row ''currentVersionList'' (ft_currentVersionList v),
       ft_authTime := get_long row ''authTime'' (ft_authTime v),
       ft_isStreamUpgrade := get_bool row ''isStreamUpgrade'' (ft_isStreamUpgrade v)\<rparr>)"

definition task_BuildDbValue :: "FirmwareTask \<Rightarrow> db_row" where
  "task_BuildDbValue v =
     [put_str ''taskId'' (ft_taskId v), put_int ''status'' (ustatus_code (ft_status v)),
      put_int ''progress'' (ft_progress v), put_str ''downloadTaskId'' (ft_downloadTaskId v),
      put_int ''errorCode'' (ft_errorCode v), put_str ''errorMsg'' (ft_errorMsg v),
      put_int ''combinationType'' (combination_code (ft_combinationType v)),
      put_int ''downloadMode'' (dmode_code (ft_downloadMode v)),
      put_int ''downloadAllowNetwork'' (uint (net_code (ft_downloadAllowNetwork v))),
      put_int ''downloadOrder'' (order_code (ft_downloadOrder v)),
      put_int ''upgradeMode'' (umode_code (ft_upgradeMode v)), put_int ''upgradeOrder'' (order_code (ft_upgradeOrder v)),
      put_str ''authResult'' (ft_authResult v), put_str ''updateToken'' (ft_updateToken v),
      put_str ''deviceToken'' (ft_deviceToken v), put_str ''tokenHMac'' (ft_tokenHMac v),
      put_str ''currentVersionList'' (ft_currentVersionList v), put_long ''authTime'' (ft_authTime v),
      put_bool ''isStreamUpgrade'' (ft_isStreamUpgrade v)]"

text \<open>\<open>isExistTask\<close> has no column: \<open>QueryTask\<close> sets it.\<close>

definition task_keep :: "FirmwareTask \<Rightarrow> FirmwareTask" where
  "task_keep v = v\<lparr>ft_isExistTask := False\<rparr>"

definition task_valid :: "FirmwareTask \<Rightarrow> bool" where
  "task_valid v = (is_i32 (ft_progress v) \<and> is_i32 (ft_errorCode v) \<and> is_i64 (ft_authTime v))"

interpretation task_codec: table_codec task_BuildDbValue task_ParseDbValue task_keep task_valid
  by unfold_locales
    (simp add: task_keep_def task_ParseDbValue_def task_BuildDbValue_def get_put Let_def task_valid_def
      new_firmware_task_def)

interpretation task_key: keyed_table task_ParseDbValue "''taskId''" ft_taskId
  by unfold_locales (simp add: task_ParseDbValue_def get_put Let_def)

section \<open>\<open>FirmwareTaskOperator\<close>\<close>

text \<open>\<open>QueryTask\<close> fills its argument with the first row; without a row it only clears \<open>isExistTask\<close>.\<close>

definition QueryTask :: "db_table \<Rightarrow> FirmwareTask \<Rightarrow> FirmwareTask" where
  "QueryTask db task =
     (case snd (table_QueryAll task_ParseDbValue db) of
        [] \<Rightarrow> task\<lparr>ft_isExistTask := False\<rparr>
      | t # ts \<Rightarrow> t\<lparr>ft_isExistTask := True\<rparr>)"

definition UpdateByTaskId :: "string \<Rightarrow> db_predicate \<Rightarrow> db_table \<Rightarrow> bool \<times> db_table" where
  "UpdateByTaskId taskId values db = table_Update values [(''taskId'', DbStr taskId)] db"

definition UpdateProgressByTaskId :: "string \<Rightarrow> UpgradeStatus \<Rightarrow> int \<Rightarrow> db_table \<Rightarrow> bool \<times> db_table" where
  "UpdateProgressByTaskId taskId status progress db =
     UpdateByTaskId taskId [put_int ''status'' (ustatus_code status), put_int ''progress'' progress] db"

definition UpdateStatusByTaskId :: "string \<Rightarrow> UpgradeStatus \<Rightarrow> db_table \<Rightarrow> bool \<times> db_table" where
  "UpdateStatusByTaskId taskId status db = UpdateByTaskId taskId [put_int ''status'' (ustatus_code status)] db"

definition UpdateErrMsgByTaskId :: "string \<Rightarrow> int \<Rightarrow> string \<Rightarrow> db_table \<Rightarrow> bool \<times> db_table" where
  "UpdateErrMsgByTaskId taskId errorCode errorMsg db =
     UpdateByTaskId taskId [put_int ''errorCode'' errorCode, put_str ''errorMsg'' errorMsg] db"

definition UpdateDownloadTaskIdByTaskId :: "string \<Rightarrow> string \<Rightarrow> db_table \<Rightarrow> bool \<times> db_table" where
  "UpdateDownloadTaskIdByTaskId taskId downloadTaskId db =
     UpdateByTaskId taskId [put_str ''downloadTaskId'' downloadTaskId] db"

definition UpdateCombinationTypeByTaskId :: "string \<Rightarrow> CombinationType \<Rightarrow> db_table \<Rightarrow> bool \<times> db_table" where
  "UpdateCombinationTypeByTaskId taskId combinationType db =
     UpdateByTaskId taskId [put_int ''combinationType'' (combination_code combinationType)] db"

definition UpdateDownloadModeByTaskId :: "string \<Rightarrow> DownloadMode \<Rightarrow> db_table \<Rightarrow> bool \<times> db_table" where
  "UpdateDownloadModeByTaskId taskId downloadMode db =
     UpdateByTaskId taskId [put_int ''downloadMode'' (dmode_code downloadMode)] db"

definition UpdateDownloadAllowNetworkByTaskId :: "string \<Rightarrow> NetType \<Rightarrow> db_table \<Rightarrow> bool \<times> db_table" where
  "UpdateDownloadAllowNetworkByTaskId taskId downloadAllowNetwork db =
     UpdateByTaskId taskId [put_int ''downloadAllowNetwork'' (uint (net_code downloadAllowNetwork))] db"

definition UpdateDownloadOrderByTaskId :: "string \<Rightarrow> Order \<Rightarrow> db_table \<Rightarrow> bool \<times> db_table" where
  "UpdateDownloadOrderByTaskId taskId downloadOrder db =
     UpdateByTaskId taskId [put_int ''downloadOrder'' (order_code downloadOrder)] db"

definition UpdateDownloadOptionByTaskId ::
  "string \<Rightarrow> DownloadMode \<Rightarrow> NetType \<Rightarrow> Order \<Rightarrow> db_table \<Rightarrow> bool \<times> db_table" where
  "UpdateDownloadOptionByTaskId taskId downloadMode downloadAllowNetwork downloadOrder db =
     UpdateByTaskId taskId [put_int ''downloadMode'' (dmode_code downloadMode),
       put_int ''downloadAllowNetwork'' (uint (net_code downloadAllowNetwork)),
       put_int ''downloadOrder'' (order_code downloadOrder)] db"

definition UpdateUpgradeModeByTaskId :: "string \<Rightarrow> UpgradeMode \<Rightarrow> db_table \<Rightarrow> bool \<times> db_table" where
  "UpdateUpgradeModeByTaskId taskId upgradeMode db =
     UpdateByTaskId taskId [put_int ''upgradeMode'' (umode_code upgradeMode)] db"

definition UpdateUpgradeOrderByTaskId :: "string \<Rightarrow> Order \<Rightarrow> db_table \<Rightarrow> bool \<times> db_table" where
  "UpdateUpgradeOrderByTaskId taskId upgradeOrder db =
     UpdateByTaskId taskId [put_int ''upgradeOrder'' (order_code upgradeOrder)] db"

section \<open>The components of an upgrade\<close>

record FirmwareComponent =
  fc_id :: int
  fc_versionId :: string
  fc_packageIndex :: int
  fc_versionPackageType :: PackageType
  fc_otaType :: OtaMode
  fc_targetBlVersionNumber :: string
  fc_targetBlDisplayVersionNumber :: string
  fc_versionNumber :: string
  fc_blVersionInfo :: string
  fc_componentId :: string
  fc_descriptPackageId :: string
  fc_changelogUrl :: string
  fc_blVersionType :: int
  fc_isNeedRestart :: bool
  fc_patchType :: int
  fc_url :: string
  fc_reserveUrl :: string
  fc_storageType :: int
  fc_fileName :: string
  fc_size :: int
  fc_verifyInfo :: string
  fc_spath :: string
  fc_status :: UpgradeStatus
  fc_progress :: int
  fc_recordPoint :: int

definition new_component :: FirmwareComponent where
  "new_component =
     \<lparr>fc_id = 0, fc_versionId = [], fc_packageIndex = 0, fc_versionPackageType = PT_DYNAMIC, fc_otaType = REGULAR_OTA,
      fc_targetBlVersionNumber = [], fc_targetBlDisplayVersionNumber = [], fc_versionNumber = [], fc_blVersionInfo = [],
      fc_componentId = [], fc_descriptPackageId = [], fc_changelogUrl = [], fc_blVersionType = 0,
      fc_isNeedRestart = False, fc_patchType = 0, fc_url = [], fc_reserveUrl = [], fc_storageType = 0,
      fc_fileName = [], fc_size = 0, fc_verifyInfo = [], fc_spath = [], fc_status = US_INIT, fc_progress = 0,
      fc_recordPoint = 0\<rparr>"

definition component_ParseDbValue :: "db_row \<Rightarrow> FirmwareComponent" where
  "component_ParseDbValue row = (let v = new_component in
     v\<lparr>fc_id := get_int row COLUMN_ID (fc_id v),
       fc_versionId := get_str row ''versionId'' (fc_versionId v),
       fc_versionPackageType := package_of_code (get_int row ''versionPackageType'' (package_code PT_DYNAMIC)),
       fc_otaType := ota_of_code (get_int row ''otaType'' (ota_code REGULAR_OTA)),
       fc_packageIndex := get_int row ''packageIndex'' (fc_packageIndex v),
       fc_targetBlDisplayVersionNumber := get_str row ''targetBlDisplayVersionNumber'' (fc_targetBlDisplayVersionNumber v),
       fc_targetBlVersionNumber := get_str row ''targetBlVersionNumber'' (fc_targetBlVersionNumber v),
       fc_versionNumber := get_str row ''versionNumber'' (fc_versionNumber v),
       fc_blVersionInfo := get_str row ''blVersionInfo'' (fc_blVersionInfo v),
       fc_descriptPackageId := get_str row ''descriptPackageId'' (fc_descriptPackageId v),
       fc_componentId := get_str row ''componentId'' (fc_componentId v),
       fc_changelogUrl := get_str row ''changelogUrl'' (fc_changelogUrl v),
       fc_blVersionType := get_int row ''blVersionType'' (fc_blVersionType v),
       fc_isNeedRestart := get_bool row ''isNeedRestart'' (fc_isNeedRestart v),
       fc_patchType := get_int row ''patchType'' (fc_patchType v),
       fc_url := get_str row ''url'' (fc_url v),
       fc_reserveUrl := get_str row ''reserveUrl'' (fc_reserveUrl v),
       fc_storageType := get_int row ''storageType'' (fc_storageType v),
       fc_verifyInfo := get_str row ''verifyInfo'' (fc_verifyInfo v),
       fc_size := get_long row ''size'' (fc_size v),
       fc_fileName := get_str row ''fileName'' (fc_fileName v),
       fc_spath := get_str row ''spath'' (fc_spath v),
       fc_status := ustatus_of_code (get_int row ''status'' (ustatus_code US_INIT)),
       fc_progress := get_int row ''progress'' (fc_progress v),
       fc_recordPoint := get_long row ''recordPoint'' (fc_recordPoint v)\<rparr>)"

definition component_BuildDbValue :: "FirmwareComponent \<Rightarrow> db_row" where
  "component_BuildDbValue v =
     [put_str ''versionId'' (fc_versionId v), put_int ''versionPackageType'' (package_code (fc_versionPackageType v)),
      put_int ''otaType'' (ota_code (fc_otaType v)), put_int ''packageIndex'' (fc_packageIndex v),
      put_str ''targetBlDisplayVersionNumber'' (fc_targetBlDisplayVersionNumber v),
      put_str ''targetBlVersionNumber'' (fc_targetBlVersionNumber v),
      put_str ''versionNumber'' (fc_versionNumber v), put_str ''blVersionInfo'' (fc_blVersionInfo v),
      put_str ''descriptPackageId'' (fc_descriptPackageId v), put_str ''componentId'' (fc_componentId v),
      put_str ''changelogUrl'' (fc_changelogUrl v), put_int ''blVersionType'' (fc_blVersionType v),
      put_bool ''isNeedRestart'' (fc_isNeedRestart v), put_int ''patchType'' (fc_patchType v),
      put_str ''url'' (fc_url v), put_str ''reserveUrl'' (fc_reserveUrl v),
      put_int ''storageType'' (fc_storageType v), put_str ''verifyInfo'' (fc_verifyInfo v),
      put_long ''size'' (fc_size v), put_str ''fileName'' (fc_fileName v), put_str ''spath'' (fc_spath v),
      put_int ''status'' (ustatus_code (fc_status v)), put_int ''progress'' (fc_progress v),
      put_long ''recordPoint'' (fc_recordPoint v)]"

text \<open>The row id is assigned by the store.\<close>

definition component_keep :: "FirmwareComponent \<Rightarrow> FirmwareComponent" where
  "component_keep v = v\<lparr>fc_id := 0\<rparr>"

definition component_valid :: "FirmwareComponent \<Rightarrow> bool" where
  "component_valid v =
     (is_i32 (fc_packageIndex v) \<and> is_i32 (fc_blVersionType v) \<and> is_i32 (fc_patchType v) \<and> is_i32 (fc_storageType v)
      \<and> is_i64 (fc_size v) \<and> is_i32 (fc_progress v) \<and> is_i64 (fc_recordPoint v))"

interpretation component_codec: table_codec component_BuildDbValue component_ParseDbValue component_keep component_valid
  by unfold_locales
    (simp add: component_keep_def component_ParseDbValue_def component_BuildDbValue_def get_put Let_def
      component_valid_def new_component_def)

interpretation component_url: keyed_table component_ParseDbValue "''url''" fc_url
  by unfold_locales (simp add: component_ParseDbValue_def get_put Let_def)

interpretation component_version: keyed_table component_ParseDbValue "''versionId''" fc_versionId
  by unfold_locales (simp add: component_ParseDbValue_def get_put Let_def)

section \<open>\<open>FirmwareComponentOperator\<close>\<close>

definition UpdateProgressByUrl :: "string \<Rightarrow> UpgradeStatus \<Rightarrow> int \<Rightarrow> db_table \<Rightarrow> bool \<times> db_table" where
  "UpdateProgressByUrl url status progress db =
     table_Update [put_int ''status'' (ustatus_code status), put_int ''progress'' progress] [(''url'', DbStr url)] db"

definition UpdateStatusByUrl :: "string \<Rightarrow> UpgradeStatus \<Rightarrow> db_table \<Rightarrow> bool \<times> db_table" where
  "UpdateStatusByUrl url status db = table_Update [put_int ''status'' (ustatus_code status)] [(''url'', DbStr url)] db"

definition UpdateUrlByVersionId :: "string \<Rightarrow> string \<Rightarrow> db_table \<Rightarrow> bool \<times> db_table" where
  "UpdateUrlByVersionId versionId url db = table_Update [put_str ''url'' url] [(''versionId'', DbStr versionId)] db"

definition UpdateProgressByVersionId :: "string \<Rightarrow> UpgradeStatus \<Rightarrow> int \<Rightarrow> db_table \<Rightarrow> bool \<times> db_table" where
  "UpdateProgressByVersionId versionId status progress db =
     table_Update [put_int ''status'' (ustatus_code status), put_int ''progress'' progress]
       [(''versionId'', DbStr versionId)] db"

text \<open>The record point is an \<open>int64_t\<close> but written with \<open>PutInt\<close>.\<close>

definition UpdateRecordPointByUrl :: "string \<Rightarrow> int \<Rightarrow> db_table \<Rightarrow> bool \<times> db_table" where
  "UpdateRecordPointByUrl url recordPoint db =
     table_Update [put_int ''recordPoint'' recordPoint] [(''url'', DbStr url)] db"

definition component_QueryAll :: "db_table \<Rightarrow> FirmwareComponent list" where
  "component_QueryAll db = snd (table_QueryAll component_ParseDbValue db)"

definition QueryByVersionId :: "string \<Rightarrow> db_table \<Rightarrow> FirmwareComponent option" where
  "QueryByVersionId versionId db =
     (case table_Query component_ParseDbValue [(''versionId'', DbStr versionId)] db of
        (True, c # cs) \<Rightarrow> Some c
      | _ \<Rightarrow> None)"

definition QueryByUrl :: "string \<Rightarrow> db_table \<Rightarrow> FirmwareComponent option" where
  "QueryByUrl url db =
     (case table_Query component_ParseDbValue [(''url'', DbStr url)] db of
        (True, c # cs) \<Rightarrow> Some c
      | _ \<Rightarrow> None)"

section \<open>What the operators do to the stored task and components\<close>

definition task_view :: "db_table \<Rightarrow> FirmwareTask list" where
  "task_view db = snd (table_QueryAll task_ParseDbValue db)"

definition tasks_ok :: "db_table \<Rightarrow> bool" where
  "tasks_ok db = (tb_up db \<and> column_text ''taskId'' db)"

definition components_ok :: "db_table \<Rightarrow> bool" where
  "components_ok db = (tb_up db \<and> column_text ''url'' db \<and> column_text ''versionId'' db)"

lemma row_set_parse_task:
  "task_ParseDbValue (row_set [put_int ''status'' s, put_int ''progress'' p] row)
     = (task_ParseDbValue row)\<lparr>ft_status := ustatus_of_code (i32 s), ft_progress := i32 p\<rparr>"
  "task_ParseDbValue (row_set [put_int ''status'' s] row) = (task_ParseDbValue row)\<lparr>ft_status := ustatus_of_code (i32 s)\<rparr>"
  "task_ParseDbValue (row_set [put_str ''downloadTaskId'' d] row) = (task_ParseDbValue row)\<lparr>ft_downloadTaskId := d\<rparr>"
  "task_ParseDbValue (row_set [put_int ''upgradeMode'' m] row)
     = (task_ParseDbValue row)\<lparr>ft_upgradeMode := umode_of_code (i32 m)\<rparr>"
  "task_ParseDbValue (row_set [put_int ''downloadMode'' m, put_int ''downloadAllowNetwork'' n, put_int ''downloadOrder'' o'] row)
     = (task_ParseDbValue row)\<lparr>ft_downloadMode := dmode_of_code (i32 m), ft_downloadAllowNetwork := nettype_of_code (i32 n),
         ft_downloadOrder := order_of_code (i32 o')\<rparr>"
  by (simp_all add: task_ParseDbValue_def get_put Let_def map_of_row_set)

lemma row_set_parse_component:
  "component_ParseDbValue (row_set [put_int ''status'' s, put_int ''progress'' p] row)
     = (component_ParseDbValue row)\<lparr>fc_status := ustatus_of_code (i32 s), fc_progress := i32 p\<rparr>"
  "component_ParseDbValue (row_set [put_int ''status'' s] row)
     = (component_ParseDbValue row)\<lparr>fc_status := ustatus_of_code (i32 s)\<rparr>"
  "component_ParseDbValue (row_set [put_str ''url'' u] row) = (component_ParseDbValue row)\<lparr>fc_url := u\<rparr>"
  "component_ParseDbValue (row_set [put_int ''recordPoint'' r] row)
     = (component_ParseDbValue row)\<lparr>fc_recordPoint := i64 (i32 r)\<rparr>"
  by (simp_all add: component_ParseDbValue_def get_put Let_def map_of_row_set)

lemma view_UpdateTask:
  assumes "tasks_ok db"
  shows "task_view (snd (UpdateProgressByTaskId k s p db))
      = map (\<lambda>t. if ft_taskId t = k then t\<lparr>ft_status := s, ft_progress := i32 p\<rparr> else t) (task_view db)"
    "task_view (snd (UpdateStatusByTaskId k s db))
      = map (\<lambda>t. if ft_taskId t = k then t\<lparr>ft_status := s\<rparr> else t) (task_view db)"
    "task_view (snd (UpdateDownloadTaskIdByTaskId k d db))
      = map (\<lambda>t. if ft_taskId t = k then t\<lparr>ft_downloadTaskId := d\<rparr> else t) (task_view db)"
    "task_view (snd (UpdateUpgradeModeByTaskId k m db))
      = map (\<lambda>t. if ft_taskId t = k then t\<lparr>ft_upgradeMode := m\<rparr> else t) (task_view db)"
    "task_view (snd (UpdateDownloadOptionByTaskId k dm n o' db))
      = map (\<lambda>t. if ft_taskId t = k then t\<lparr>ft_downloadMode := dm, ft_downloadAllowNetwork := n, ft_downloadOrder := o'\<rparr> else t)
          (task_view db)"
  using assms task_key.update_by_key [of db, OF _ _ row_set_parse_task(1)]
    task_key.update_by_key [of db, OF _ _ row_set_parse_task(2)]
    task_key.update_by_key [of db, OF _ _ row_set_parse_task(3)]
    task_key.update_by_key [of db, OF _ _ row_set_parse_task(4)]
    task_key.update_by_key [of db, OF _ _ row_set_parse_task(5)]
  by (simp_all add: tasks_ok_def task_view_def UpdateProgressByTaskId_def UpdateStatusByTaskId_def
      UpdateDownloadTaskIdByTaskId_def UpdateUpgradeModeByTaskId_def UpdateDownloadOptionByTaskId_def UpdateByTaskId_def
      del: table_rows_sel)

lemma view_UpdateComponent:
  assumes "components_ok db"
  shows "component_QueryAll (snd (UpdateProgressByUrl u s p db))
      = map (\<lambda>c. if fc_url c = u then c\<lparr>fc_status := s, fc_progress := i32 p\<rparr> else c) (component_QueryAll db)"
    "component_QueryAll (snd (UpdateStatusByUrl u s db))
      = map (\<lambda>c. if fc_url c = u then c\<lparr>fc_status := s\<rparr> else c) (component_QueryAll db)"
    "component_QueryAll (snd (UpdateUrlByVersionId v u db))
      = map (\<lambda>c. if fc_versionId c = v then c\<lparr>fc_url := u\<rparr> else c) (component_QueryAll db)"
    "component_QueryAll (snd (UpdateProgressByVersionId v s p db))
      = map (\<lambda>c. if fc_versionId c = v then c\<lparr>fc_status := s, fc_progress := i32 p\<rparr> else c) (component_QueryAll db)"
    "component_QueryAll (snd (UpdateRecordPointByUrl u r db))
      = map (\<lambda>c. if fc_url c = u then c\<lparr>fc_recordPoint := i64 (i32 r)\<rparr> else c) (component_QueryAll db)"
  using assms component_url.update_by_key [of db, OF _ _ row_set_parse_component(1)]
    component_url.update_by_key [of db, OF _ _ row_set_parse_component(2)]
    component_version.update_by_key [of db, OF _ _ row_set_parse_component(3)]
    component_version.update_by_key [of db, OF _ _ row_set_parse_component(1)]
    component_url.update_by_key [of db, OF _ _ row_set_parse_component(4)]
  by (simp_all add: components_ok_def component_QueryAll_def UpdateProgressByUrl_def UpdateStatusByUrl_def
      UpdateUrlByVersionId_def UpdateProgressByVersionId_def UpdateRecordPointByUrl_def del: table_rows_sel)

lemma tasks_ok_Update:
  "tasks_ok db \<Longrightarrow> assigns_text ''taskId'' vals \<Longrightarrow> tasks_ok (snd (UpdateByTaskId k vals db))"
  by (simp add: tasks_ok_def UpdateByTaskId_def column_text_simps)

lemma tasks_ok_ops [simp]:
  assumes "tasks_ok db"
  shows "tasks_ok (snd (UpdateProgressByTaskId k s p db))" "tasks_ok (snd (UpdateStatusByTaskId k s db))"
    "tasks_ok (snd (UpdateDownloadTaskIdByTaskId k d db))" "tasks_ok (snd (UpdateUpgradeModeByTaskId k m db))"
    "tasks_ok (snd (UpdateDownloadOptionByTaskId k dm n o' db))"
    "tasks_ok (snd (table_DeleteAll db))" "tasks_ok (snd (table_Insert task_BuildDbValue ts db))"
  using assms
  by (simp_all add: UpdateProgressByTaskId_def UpdateStatusByTaskId_def UpdateDownloadTaskIdByTaskId_def
      UpdateUpgradeModeByTaskId_def UpdateDownloadOptionByTaskId_def tasks_ok_Update assigns_text_def put_int_def put_str_def)
    (simp_all add: tasks_ok_def column_text_simps COLUMN_ID_def has_text_def task_BuildDbValue_def put_str_def)

lemma components_ok_ops [simp]:
  assumes "components_ok db"
  shows "components_ok (snd (UpdateProgressByUrl u s p db))" "components_ok (snd (UpdateStatusByUrl u s db))"
    "components_ok (snd (UpdateUrlByVersionId v u db))" "components_ok (snd (UpdateProgressByVersionId v s p db))"
    "components_ok (snd (UpdateRecordPointByUrl u r db))" "components_ok (snd (table_DeleteAll db))"
    "components_ok (snd (table_Insert component_BuildDbValue cs db))"
  using assms
  by (simp_all add: components_ok_def UpdateProgressByUrl_def UpdateStatusByUrl_def UpdateUrlByVersionId_def
      UpdateProgressByVersionId_def UpdateRecordPointByUrl_def column_text_simps assigns_text_def put_int_def
      put_str_def put_bool_def put_long_def COLUMN_ID_def has_text_def component_BuildDbValue_def)

lemma view_DeleteAll [simp]:
  "tasks_ok db \<Longrightarrow> task_view (snd (table_DeleteAll db)) = []"
  "components_ok db \<Longrightarrow> component_QueryAll (snd (table_DeleteAll db)) = []"
  by (simp_all add: tasks_ok_def components_ok_def task_view_def component_QueryAll_def table_DeleteAll_empty)

text \<open>There is a task exactly when there is a row, and it is the first one.\<close>

lemma QueryTask_view:
  "QueryTask db t0 = (case task_view db of [] \<Rightarrow> t0\<lparr>ft_isExistTask := False\<rparr> | t # ts \<Rightarrow> t\<lparr>ft_isExistTask := True\<rparr>)"
  by (simp add: QueryTask_def task_view_def)

lemma QueryTask_exists: "ft_isExistTask (QueryTask db t0) \<longleftrightarrow> task_view db \<noteq> []"
  by (simp add: QueryTask_view split: list.split)

end
