(* ===== verification/Night_Alarm.thy ===== *)
theory Night_Alarm
  imports Update_Prelude
begin

text \<open>
  Clock, alarm and night upgrade: \<open>TimeUtils::GetRandTime\<close> (\<open>services/core/ability/utils/include/time_utils.h\<close>),
  \<open>AlarmTimerUtils::RegisterAlarm\<close> (\<open>services/core/ability/alarm/src/alarm_timer_utils.cpp\<close>) and the night
  upgrade alarm manager (\<open>services/firmware/alarm/src/night_upgrade_alarm_manager.cpp\<close>), which keeps the
  registered night tasks in an ordered map and one timer for all of them. The clock, the local time of day, the random
  draw and the time service are arguments: \<open>localtime\<close> followed by \<open>mktime\<close> on a changed hour and minute moves the
  time by the difference of the two times of day, because \<open>tm_isdst\<close> is left as it was.
\<close>

section \<open>Clock and alarm\<close>

abbreviation ONE_HOUR_MINUTES :: int where "ONE_HOUR_MINUTES \<equiv> 60"
abbreviation ONE_MINUTE_SECONDS :: int where "ONE_MINUTE_SECONDS \<equiv> 60"
abbreviation FIVE_MINUTES_SECONDS :: int where "FIVE_MINUTES_SECONDS \<equiv> 300"
abbreviation ONE_HOUR_SECONDS :: int where "ONE_HOUR_SECONDS \<equiv> 3600"
abbreviation ONE_DAY_SECOND :: int where "ONE_DAY_SECOND \<equiv> 86400"
abbreviation DEFAULT_UPGRADE_TIME :: int where "DEFAULT_UPGRADE_TIME \<equiv> - 1"

text \<open>The draw of \<open>random_device\<close> is reduced to the range of the distribution, which starts at zero.\<close>

definition GetRandTime :: "int \<Rightarrow> int \<Rightarrow> int \<Rightarrow> int" where
  "GetRandTime draw minTime maxTime = (if maxTime < minTime then minTime else draw mod (maxTime - minTime))"

text \<open>What \<open>CreateTimer\<close> and \<open>StartTimer\<close> of the time service give: an id, and whether it could be started.\<close>

record timer_service =
  ts_created :: int
  ts_started :: bool

definition RegisterTimer :: "timer_service \<Rightarrow> int" where
  "RegisterTimer ts = (let timerId = ts_created ts in
     if timerId = 0 then 0 else if \<not> ts_started ts then 0 else timerId)"

definition RegisterAlarm :: "timer_service \<Rightarrow> int \<Rightarrow> int \<Rightarrow> int" where
  "RegisterAlarm ts currentTime time = (if currentTime \<ge> time then 0 else RegisterTimer ts)"

section \<open>Night upgrade tasks\<close>

datatype NightUpgradePriority = FIRMWARE | PARAM | LARGE_MODEL | MERGE | DEFAULT

fun priority_code :: "NightUpgradePriority \<Rightarrow> int" where
  "priority_code FIRMWARE = 0" | "priority_code PARAM = 1" | "priority_code LARGE_MODEL = 2"
| "priority_code MERGE = 3" | "priority_code DEFAULT = 4"

datatype NightUpgradeInfo = NightUpgradeInfo (ni_priority: NightUpgradePriority) (ni_isNeedReboot: bool)

text \<open>The order of the map: what needs no reboot first, then by priority.\<close>

definition CompareClass :: "NightUpgradeInfo \<Rightarrow> NightUpgradeInfo \<Rightarrow> bool" where
  "CompareClass t1 t2 =
     (if ni_isNeedReboot t1 = ni_isNeedReboot t2 then priority_code (ni_priority t1) < priority_code (ni_priority t2)
      else \<not> ni_isNeedReboot t1)"

lemma priority_code_inj: "priority_code p = priority_code q \<longleftrightarrow> p = q"
  by (cases p; cases q) simp_all

instantiation NightUpgradeInfo :: linorder
begin

definition less_NightUpgradeInfo :: "NightUpgradeInfo \<Rightarrow> NightUpgradeInfo \<Rightarrow> bool" where
  "less_NightUpgradeInfo = CompareClass"

definition less_eq_NightUpgradeInfo :: "NightUpgradeInfo \<Rightarrow> NightUpgradeInfo \<Rightarrow> bool" where
  "less_eq_NightUpgradeInfo t1 t2 = (t1 = t2 \<or> CompareClass t1 t2)"

instance
  by standard
    (auto simp: less_NightUpgradeInfo_def less_eq_NightUpgradeInfo_def CompareClass_def NightUpgradeInfo.expand
      priority_code_inj [symmetric] split: if_splits)

end

text \<open>The callbacks are the clients'; the manager only stores and calls them.\<close>

record 'c night_alarm =
  na_tasks :: "(NightUpgradeInfo, 'c) cmap"
  na_timerId :: int
  na_time :: int

definition new_night_alarm :: "'c night_alarm" where
  "new_night_alarm = \<lparr>na_tasks = [], na_timerId = 0, na_time = DEFAULT_UPGRADE_TIME\<rparr>"

text \<open>What the manager asks of the device.\<close>

record night_env =
  ne_now :: int
  ne_secondsOfDay :: "int option"
  ne_draw :: int
  ne_timer :: timer_service

definition CalculateUpgradeTime :: "night_env \<Rightarrow> int" where
  "CalculateUpgradeTime ne =
     (case ne_secondsOfDay ne of
        None \<Rightarrow> 0
      | Some s \<Rightarrow>
          (let hour = s div 3600; sec = s mod 60;
               mktime = (\<lambda>h m. ne_now ne - s + h * 3600 + m * 60 + sec);
               randomTime = GetRandTime (ne_draw ne) 0 ONE_HOUR_MINUTES
           in if hour < 2 then mktime 2 randomTime
              else if hour < 3 then mktime 3 randomTime
              else mktime 0 0 + ONE_DAY_SECOND + 2 * ONE_HOUR_MINUTES * ONE_MINUTE_SECONDS
                + randomTime * ONE_MINUTE_SECONDS))"

definition IsIllegalNightUpgradeTime :: "int \<Rightarrow> 'c night_alarm \<Rightarrow> bool" where
  "IsIllegalNightUpgradeTime currentTime a =
     (na_time a = DEFAULT_UPGRADE_TIME \<or> na_time a < currentTime \<or> na_time a - currentTime > ONE_DAY_SECOND)"

definition InnerUnregisterNightUpgradeEvent :: "'c night_alarm \<Rightarrow> 'c night_alarm" where
  "InnerUnregisterNightUpgradeEvent a = a\<lparr>na_timerId := 0, na_time := DEFAULT_UPGRADE_TIME\<rparr>"

definition InnerRegisterNightUpgradeEvent :: "night_env \<Rightarrow> 'c night_alarm \<Rightarrow> 'c night_alarm" where
  "InnerRegisterNightUpgradeEvent ne a =
     (if \<not> IsIllegalNightUpgradeTime (ne_now ne) a then a
      else let a1 = InnerUnregisterNightUpgradeEvent a; time = CalculateUpgradeTime ne
           in a1\<lparr>na_time := time, na_timerId := RegisterAlarm (ne_timer ne) (ne_now ne) time\<rparr>)"

definition IsRegistered_info :: "NightUpgradeInfo \<Rightarrow> 'c night_alarm \<Rightarrow> bool" where
  "IsRegistered_info info a = (cm_has info (na_tasks a) \<and> na_timerId a > 0)"

definition IsRegisteredNightUpgradeTask :: "NightUpgradePriority \<Rightarrow> 'c night_alarm \<Rightarrow> bool" where
  "IsRegisteredNightUpgradeTask p a =
     ((case find (\<lambda>e. ni_priority (fst e) = p) (na_tasks a) of None \<Rightarrow> False | Some _ \<Rightarrow> True) \<and> na_timerId a > 0)"

definition RegisterNightUpgradeTask :: "night_env \<Rightarrow> NightUpgradeInfo \<Rightarrow> 'c \<Rightarrow> 'c night_alarm \<Rightarrow> 'c night_alarm" where
  "RegisterNightUpgradeTask ne info callback a =
     InnerRegisterNightUpgradeEvent ne
       (if \<not> IsRegistered_info info a then a\<lparr>na_tasks := cm_put info callback (na_tasks a)\<rparr> else a)"

definition UnregisterNightUpgradeTask :: "NightUpgradePriority \<Rightarrow> 'c night_alarm \<Rightarrow> 'c night_alarm" where
  "UnregisterNightUpgradeTask p a =
     (let a1 = (case find (\<lambda>e. ni_priority (fst e) = p) (na_tasks a) of
                  None \<Rightarrow> a
                | Some e \<Rightarrow> a\<lparr>na_tasks := cm_del (fst e) (na_tasks a)\<rparr>)
      in if na_tasks a1 = [] then InnerUnregisterNightUpgradeEvent a1 else a1)"

text \<open>When the timer fires the callbacks run in map order, up to the first one that reboots.\<close>

fun HandleNightUpgrade :: "(NightUpgradeInfo, 'c) cmap \<Rightarrow> 'c list" where
  "HandleNightUpgrade [] = []"
| "HandleNightUpgrade ((key, callback) # m) = callback # (if ni_isNeedReboot key then [] else HandleNightUpgrade m)"

definition HandleNightUpgradeAlarm :: "'c night_alarm \<Rightarrow> 'c list \<times> 'c night_alarm" where
  "HandleNightUpgradeAlarm a =
     (let a1 = a\<lparr>na_time := DEFAULT_UPGRADE_TIME, na_timerId := 0\<rparr>
      in if na_tasks a1 = [] then ([], a1) else (HandleNightUpgrade (na_tasks a1), a1))"

section \<open>What the manager keeps\<close>

definition secs_of_day :: "night_env \<Rightarrow> bool" where
  "secs_of_day ne = (case ne_secondsOfDay ne of None \<Rightarrow> False | Some s \<Rightarrow> 0 \<le> s \<and> s < ONE_DAY_SECOND)"

lemma rand_minutes: "0 \<le> GetRandTime d 0 ONE_HOUR_MINUTES \<and> GetRandTime d 0 ONE_HOUR_MINUTES \<le> 59"
  by (simp add: GetRandTime_def)

text \<open>The computed time is in the future, within a day, and at two or three o'clock at night.\<close>

lemma CalculateUpgradeTime_bounds:
  assumes "ne_secondsOfDay ne = Some s" "0 \<le> s" "s < ONE_DAY_SECOND"
  shows "ne_now ne < CalculateUpgradeTime ne" "CalculateUpgradeTime ne - ne_now ne < ONE_DAY_SECOND"
    "(s + (CalculateUpgradeTime ne - ne_now ne)) mod ONE_DAY_SECOND div ONE_HOUR_SECONDS = (if s div 3600 = 2 then 3 else 2)"
proof -
  define x where "x = s mod 60 + GetRandTime (ne_draw ne) 0 ONE_HOUR_MINUTES * 60"
  have x: "0 \<le> x" "x < 3600"
    using rand_minutes [of "ne_draw ne"] pos_mod_bound [of 60 s] by (auto simp: x_def)
  have time: "CalculateUpgradeTime ne - ne_now ne
      = (if s div 3600 < 2 then 7200 + x else if s div 3600 < 3 then 10800 + x else 93600 + x) - s"
    using assms by (simp add: CalculateUpgradeTime_def Let_def x_def)
  consider "s div 3600 < 2" "s < 7200" | "s div 3600 = 2" "7200 \<le> s" "s < 10800" | "3 \<le> s div 3600" "10800 \<le> s"
    by linarith
  then have "0 < CalculateUpgradeTime ne - ne_now ne \<and> CalculateUpgradeTime ne - ne_now ne < ONE_DAY_SECOND
    \<and> (s + (CalculateUpgradeTime ne - ne_now ne)) mod ONE_DAY_SECOND div ONE_HOUR_SECONDS = (if s div 3600 = 2 then 3 else 2)"
  proof cases
    case 1
    have "(7200 + x) mod ONE_DAY_SECOND = 7200 + x" "(7200 + x) div ONE_HOUR_SECONDS = 2" using x by auto
    with 1 x assms show ?thesis unfolding time by simp
  next
    case 2
    have "(10800 + x) mod ONE_DAY_SECOND = 10800 + x" "(10800 + x) div ONE_HOUR_SECONDS = 3" using x by auto
    with 2 x assms show ?thesis unfolding time by simp
  next
    case 3
    have "(93600 + x) mod ONE_DAY_SECOND = ((7200 + x) + ONE_DAY_SECOND) mod ONE_DAY_SECOND" by simp
    also have "\<dots> = 7200 + x" using x unfolding mod_add_self2 by simp
    finally have "(93600 + x) mod ONE_DAY_SECOND = 7200 + x" .
    moreover have "(7200 + x) div ONE_HOUR_SECONDS = 2" using x by auto
    moreover have "93600 + x - s < ONE_DAY_SECOND" using 3 x by linarith
    ultimately show ?thesis unfolding time using 3 x assms by simp
  qed
  then show "ne_now ne < CalculateUpgradeTime ne" "CalculateUpgradeTime ne - ne_now ne < ONE_DAY_SECOND"
    "(s + (CalculateUpgradeTime ne - ne_now ne)) mod ONE_DAY_SECOND div ONE_HOUR_SECONDS = (if s div 3600 = 2 then 3 else 2)"
    by simp_all
qed

definition night_inv :: "'c night_alarm \<Rightarrow> bool" where
  "night_inv a = (cm_ok (na_tasks a) \<and> 0 \<le> na_timerId a \<and> (na_timerId a > 0 \<longrightarrow> na_time a \<noteq> DEFAULT_UPGRADE_TIME \<and> na_tasks a \<noteq> []))"

lemma night_inv_new: "night_inv new_night_alarm"
  by (simp add: night_inv_def new_night_alarm_def)

lemma cm_put_not_nil [simp]: "cm_put k v m \<noteq> []"
  by (induction k v m rule: cm_put.induct) simp_all

lemma cm_has_not_nil: "cm_has k m \<Longrightarrow> m \<noteq> []"
  by (auto simp: cm_has_def)

lemma night_inv_Register:
  assumes "night_inv a" "secs_of_day ne" "0 \<le> ne_now ne" "0 \<le> ts_created (ne_timer ne)"
  shows "night_inv (RegisterNightUpgradeTask ne info cb a)"
proof -
  obtain s where s: "ne_secondsOfDay ne = Some s" "0 \<le> s" "s < ONE_DAY_SECOND"
    using assms(2) by (auto simp: secs_of_day_def split: option.splits)
  define a1 where "a1 = (if \<not> IsRegistered_info info a then a\<lparr>na_tasks := cm_put info cb (na_tasks a)\<rparr> else a)"
  have a1: "night_inv a1" "na_tasks a1 \<noteq> []"
    using assms(1) by (auto simp: a1_def night_inv_def IsRegistered_info_def cm_has_not_nil intro: inv_intros)
  show ?thesis
    using a1 CalculateUpgradeTime_bounds(1) [OF s] assms(3,4)
    by (auto simp: RegisterNightUpgradeTask_def a1_def [symmetric] InnerRegisterNightUpgradeEvent_def Let_def
        InnerUnregisterNightUpgradeEvent_def night_inv_def RegisterAlarm_def RegisterTimer_def)
qed

lemma night_inv_Unregister: "night_inv a \<Longrightarrow> night_inv (UnregisterNightUpgradeTask p a)"
  by (auto simp: UnregisterNightUpgradeTask_def Let_def night_inv_def InnerUnregisterNightUpgradeEvent_def
      split: option.split intro: inv_intros)

lemma night_inv_Handle: "night_inv a \<Longrightarrow> night_inv (snd (HandleNightUpgradeAlarm a))"
  by (simp add: HandleNightUpgradeAlarm_def night_inv_def Let_def)

text \<open>After a registration the task is in the map and the alarm time is legal; the timer runs when the service starts it.\<close>

lemma Register_legal:
  assumes "secs_of_day ne" "0 \<le> ne_now ne"
  shows "\<not> IsIllegalNightUpgradeTime (ne_now ne) (RegisterNightUpgradeTask ne info cb a)"
    "cm_has info (na_tasks (RegisterNightUpgradeTask ne info cb a))"
proof -
  obtain s where s: "ne_secondsOfDay ne = Some s" "0 \<le> s" "s < ONE_DAY_SECOND"
    using assms(1) by (auto simp: secs_of_day_def split: option.splits)
  show "\<not> IsIllegalNightUpgradeTime (ne_now ne) (RegisterNightUpgradeTask ne info cb a)"
    using CalculateUpgradeTime_bounds(1,2) [OF s] assms(2)
    by (auto simp: RegisterNightUpgradeTask_def InnerRegisterNightUpgradeEvent_def IsIllegalNightUpgradeTime_def Let_def)
  show "cm_has info (na_tasks (RegisterNightUpgradeTask ne info cb a))"
    by (auto simp: RegisterNightUpgradeTask_def InnerRegisterNightUpgradeEvent_def Let_def
        InnerUnregisterNightUpgradeEvent_def IsRegistered_info_def)
qed

text \<open>
  In an ordered map everything that needs no reboot runs, then the most urgent of the rest: at most one callback reboots,
  and it is the last.
\<close>

lemma HandleNightUpgrade_spec:
  assumes "cm_ok m"
  shows "HandleNightUpgrade m =
    map snd (filter (\<lambda>e. \<not> ni_isNeedReboot (fst e)) m) @ map snd (take 1 (filter (\<lambda>e. ni_isNeedReboot (fst e)) m))"
  using assms
proof (induction m)
  case Nil
  then show ?case by simp
next
  case (Cons e m)
  obtain k c where e: "e = (k, c)" by force
  have ok: "cm_ok m" and ge: "\<And>x. x \<in> set (map fst m) \<Longrightarrow> k \<le> x"
    using Cons.prems by (auto simp: cm_ok_def e)
  have "filter (\<lambda>e. \<not> ni_isNeedReboot (fst e)) m = []" if "ni_isNeedReboot k"
    using ge that by (force simp: filter_empty_conv less_eq_NightUpgradeInfo_def CompareClass_def split: if_splits)
  then show ?case using Cons.IH [OF ok] by (cases "ni_isNeedReboot k") (simp_all add: e)
qed

end
