(* ===== verification/Firmware_World.thy ===== *)
theory Firmware_World
  imports Firmware_Data Download_Manager Night_Alarm
begin

text \<open>
  What the firmware upgrade works with beside its tables: the preferences
  (\<open>services/core/ability/preference/src/preference_utils.cpp\<close>,
  \<open>services/firmware/data/manager/src/firmware_preferences_utils.cpp\<close>), the status cache
  (\<open>services/core/ability/status_cache/src\<close>), the events sent to the application
  (\<open>services/core/ability/callback/src/base_callback_utils.cpp\<close>) and the helpers of
  \<open>services/firmware/common/src/firmware_update_helper.cpp\<close>. All of it is one state, \<open>fw\<close>, with the download
  manager inside; what the device answers is the environment \<open>fw_env\<close>.
\<close>

section \<open>Preferences\<close>

text \<open>The store of the platform is not part of the repository: it maps keys to values, or cannot be opened.\<close>

datatype pref_value = PrefBool bool | PrefInt int | PrefLong int | PrefString string

record prefs =
  pr_up :: bool
  pr_values :: "(string, pref_value) cmap"

definition prefs_Save :: "string \<Rightarrow> pref_value \<Rightarrow> prefs \<Rightarrow> bool \<times> prefs" where
  "prefs_Save key v p = (if pr_up p then (True, p\<lparr>pr_values := cm_put key v (pr_values p)\<rparr>) else (False, p))"

definition ObtainBool :: "string \<Rightarrow> bool \<Rightarrow> prefs \<Rightarrow> bool" where
  "ObtainBool key defValue p =
     (if pr_up p then (case map_of (pr_values p) key of Some (PrefBool b) \<Rightarrow> b | _ \<Rightarrow> defValue) else defValue)"

definition ObtainInt :: "string \<Rightarrow> int \<Rightarrow> prefs \<Rightarrow> int" where
  "ObtainInt key defValue p =
     (if pr_up p then (case map_of (pr_values p) key of Some (PrefInt i) \<Rightarrow> i | _ \<Rightarrow> defValue) else defValue)"

definition prefs_IsExist :: "string \<Rightarrow> prefs \<Rightarrow> bool" where
  "prefs_IsExist key p = (if pr_up p then cm_has key (pr_values p) else False)"

definition ObtainLong :: "string \<Rightarrow> int \<Rightarrow> prefs \<Rightarrow> int" where
  "ObtainLong key defValue p =
     (if pr_up p then (case map_of (pr_values p) key of Some (PrefLong i) \<Rightarrow> i | _ \<Rightarrow> defValue) else defValue)"

definition ObtainString :: "string \<Rightarrow> string \<Rightarrow> prefs \<Rightarrow> string" where
  "ObtainString key defValue p =
     (if pr_up p then (case map_of (pr_values p) key of Some (PrefString s) \<Rightarrow> s | _ \<Rightarrow> defValue) else defValue)"

definition prefs_Remove :: "string \<Rightarrow> prefs \<Rightarrow> bool \<times> prefs" where
  "prefs_Remove key p = (if pr_up p then (True, p\<lparr>pr_values := cm_del key (pr_values p)\<rparr>) else (False, p))"

definition prefs_RemoveAll :: "prefs \<Rightarrow> bool \<times> prefs" where
  "prefs_RemoveAll p = (if pr_up p then (True, p\<lparr>pr_values := []\<rparr>) else (False, p))"

definition GetAutoUpgradeTime :: "prefs \<Rightarrow> int" where
  "GetAutoUpgradeTime p = ObtainLong ''auto_upgrade_time'' (-1) p"

definition SaveAutoUpgradeTime :: "int \<Rightarrow> prefs \<Rightarrow> prefs" where
  "SaveAutoUpgradeTime time p = snd (prefs_Save ''auto_upgrade_time'' (PrefLong time) p)"

definition GetAutoDownloadSwitch :: "prefs \<Rightarrow> bool" where
  "GetAutoDownloadSwitch p = ObtainBool ''auto_download_switch'' False p"

definition SaveAutoDownloadSwitch :: "bool \<Rightarrow> prefs \<Rightarrow> prefs" where
  "SaveAutoDownloadSwitch v p = snd (prefs_Save ''auto_download_switch'' (PrefBool v) p)"

definition GetNightUpgradeSwitch :: "prefs \<Rightarrow> bool" where
  "GetNightUpgradeSwitch p = ObtainBool ''night_upgrade_switch'' False p"

definition SaveNightUpgradeSwitch :: "bool \<Rightarrow> prefs \<Rightarrow> prefs" where
  "SaveNightUpgradeSwitch v p = snd (prefs_Save ''night_upgrade_switch'' (PrefBool v) p)"

definition IsNeedRetryCheck :: "prefs \<Rightarrow> bool" where
  "IsNeedRetryCheck p = ObtainBool ''need_retry_check'' False p"

definition SaveNeedRetryCheckFlag :: "bool \<Rightarrow> prefs \<Rightarrow> bool \<times> prefs" where
  "SaveNeedRetryCheckFlag v p = prefs_Save ''need_retry_check'' (PrefBool v) p"

definition prefs_GetBellStatus :: "prefs \<Rightarrow> bool" where
  "prefs_GetBellStatus p = ObtainBool ''restore_boot_animation_sound'' False p"

definition SaveBellStatus :: "bool \<Rightarrow> prefs \<Rightarrow> bool \<times> prefs" where
  "SaveBellStatus v p = prefs_Save ''restore_boot_animation_sound'' (PrefBool v) p"

definition RemoveBellStatus :: "prefs \<Rightarrow> bool \<times> prefs" where
  "RemoveBellStatus p = prefs_Remove ''restore_boot_animation_sound'' p"

section \<open>The status cache\<close>

record status_cache =
  sc_isChecking :: bool
  sc_lastCheckTime :: int
  sc_lastDownloadTime :: int
  sc_lastUpgradeTime :: int

definition new_status_cache :: status_cache where
  "new_status_cache = \<lparr>sc_isChecking = False, sc_lastCheckTime = -1, sc_lastDownloadTime = -1, sc_lastUpgradeTime = -1\<rparr>"

text \<open>A check that began more than five minutes ago no longer blocks another one.\<close>

definition IsChecking :: "int \<Rightarrow> status_cache \<Rightarrow> bool" where
  "IsChecking now c =
     (if sc_lastCheckTime c \<noteq> -1 \<and> \<bar>now - sc_lastCheckTime c\<bar> > 300 then False else sc_isChecking c)"

definition SetIsChecking :: "int \<Rightarrow> bool \<Rightarrow> status_cache \<Rightarrow> status_cache" where
  "SetIsChecking now checking c =
     (let c1 = c\<lparr>sc_isChecking := checking\<rparr> in if checking then c1\<lparr>sc_lastCheckTime := now\<rparr> else c1)"

text \<open>Whether a download (an upgrade) was triggered less than a second ago; otherwise the time is recorded.\<close>

definition IsDownloadTriggered :: "int \<Rightarrow> status_cache \<Rightarrow> bool \<times> status_cache" where
  "IsDownloadTriggered nowMs c =
     (if sc_lastDownloadTime c = -1 then (False, c\<lparr>sc_lastDownloadTime := nowMs\<rparr>)
      else if \<bar>nowMs - sc_lastDownloadTime c\<bar> < 1000 then (True, c)
      else (False, c\<lparr>sc_lastDownloadTime := nowMs\<rparr>))"

definition IsUpgradeTriggered :: "int \<Rightarrow> status_cache \<Rightarrow> bool \<times> status_cache" where
  "IsUpgradeTriggered nowMs c =
     (if sc_lastUpgradeTime c = -1 then (False, c\<lparr>sc_lastUpgradeTime := nowMs\<rparr>)
      else if \<bar>nowMs - sc_lastUpgradeTime c\<bar> < 1000 then (True, c)
      else (False, c\<lparr>sc_lastUpgradeTime := nowMs\<rparr>))"

section \<open>Progress, errors and events\<close>

record Progress =
  pg_percent :: int
  pg_status :: UpgradeStatus
  pg_endReason :: string

definition new_progress :: Progress where
  "new_progress = \<lparr>pg_percent = 0, pg_status = US_INIT, pg_endReason = []\<rparr>"

record ErrorMessage =
  em_errorCode :: int
  em_errorMessage :: string

definition new_error_message :: ErrorMessage where
  "new_error_message = \<lparr>em_errorCode = 0, em_errorMessage = []\<rparr>"

datatype CallResult = CR_APP_NOT_GRANTED | CR_NOT_SYSTEM_APP | CR_MDM_DISABLE_RESET | CR_PARAM_ERR | CR_UN_SUPPORT
  | CR_SUCCESS | CR_FAIL | CR_DEV_UPG_INFO_ERR | CR_FORBIDDEN | CR_IPC_ERR | CR_TIME_OUT | CR_DB_ERROR | CR_IO_ERROR
  | CR_NET_ERROR | CR_CANCEL_ERROR

record BusinessError =
  be_message :: string
  be_errorNum :: CallResult
  be_data :: "ErrorMessage list"

definition new_business_error :: BusinessError where
  "new_business_error = \<lparr>be_message = [], be_errorNum = CR_SUCCESS, be_data = []\<rparr>"

definition be_Build :: "CallResult \<Rightarrow> string \<Rightarrow> BusinessError \<Rightarrow> BusinessError" where
  "be_Build r msg e = e\<lparr>be_errorNum := r, be_message := msg\<rparr>"

definition AddErrorMessage :: "int \<Rightarrow> string \<Rightarrow> BusinessError \<Rightarrow> BusinessError" where
  "AddErrorMessage code msg e = e\<lparr>be_data := be_data e @ [\<lparr>em_errorCode = code, em_errorMessage = msg\<rparr>]\<rparr>"

datatype EventId =
    EVENT_TASK_BASE | EVENT_TASK_RECEIVE | EVENT_TASK_CANCEL | EVENT_DOWNLOAD_WAIT | EVENT_DOWNLOAD_START
  | EVENT_DOWNLOAD_UPDATE | EVENT_DOWNLOAD_PAUSE | EVENT_DOWNLOAD_RESUME | EVENT_DOWNLOAD_SUCCESS | EVENT_DOWNLOAD_FAIL
  | EVENT_UPGRADE_WAIT | EVENT_UPGRADE_START | EVENT_UPGRADE_UPDATE | EVENT_APPLY_WAIT | EVENT_APPLY_START
  | EVENT_UPGRADE_SUCCESS | EVENT_UPGRADE_FAIL | EVENT_UPGRADE_PAUSE | EVENT_AUTH_START | EVENT_AUTH_SUCCESS
  | EVENT_DOWNLOAD_CANCEL | EVENT_TASK_CHANGE | EVENT_VERSION_INFO_CHANGE | EVENT_TRANSFER_WAIT | EVENT_TRANSFER_START
  | EVENT_TRANSFERING | EVENT_TRANSFER_SUCCESS | EVENT_TRANSFER_FAIL | EVENT_INITIALIZE

datatype InstallType = QUICK_FIX | SYS_INSTALLER | STREAM_INSTALLLER | UPDATER

text \<open>The members of \<open>VersionComponent\<close>; sizes and modes are \<open>size_t\<close>, the two members of its \<open>descriptionInfo\<close> are
  members here, the type as its code.\<close>

record VersionComponent =
  vc_componentId :: string
  vc_componentType :: int
  vc_upgradeAction :: string
  vc_displayVersion :: string
  vc_innerVersion :: string
  vc_size :: int
  vc_effectiveMode :: int
  vc_otaMode :: int
  vc_descriptionType :: int
  vc_content :: string
  vc_componentExtra :: string

definition new_version_component :: VersionComponent where
  "new_version_component =
     \<lparr>vc_componentId = [], vc_componentType = 0, vc_upgradeAction = [], vc_displayVersion = [], vc_innerVersion = [],
      vc_size = 0, vc_effectiveMode = 1, vc_otaMode = 0, vc_descriptionType = 0, vc_content = [],
      vc_componentExtra = []\<rparr>"

text \<open>An event as it reaches the application: through the service notification or through its callback.\<close>

datatype channel = NOTIFY | CALLBACK

record fw_event =
  ev_channel :: channel
  ev_id :: EventId
  ev_digest :: string
  ev_status :: UpgradeStatus
  ev_progress :: int
  ev_errors :: "ErrorMessage list"
  ev_components :: "VersionComponent list"

section \<open>The state and the device\<close>

text \<open>The only client of the night alarm is the firmware upgrade.\<close>

datatype night_callback = OnNightUpgradeTimeUp

record fw =
  fw_tasks :: db_table
  fw_components :: db_table
  fw_dl :: manager
  fw_prefs :: prefs
  fw_cache :: status_cache
  fw_events :: "fw_event list"
  fw_bellOn :: bool
  fw_night :: "night_callback night_alarm"
  fw_autoTimer :: int

record fw_env =
  fe_env :: task_env
  fe_sha :: "string \<Rightarrow> string"
  fe_hasUpgradeCallback :: bool
  fe_bootSlot :: string
  fe_hasBattery :: bool
  fe_capacity :: int
  fe_screenOn :: bool
  fe_hasCall :: bool
  fe_musicActive :: bool
  fe_bellSupported :: bool
  fe_displayVersion :: string
  fe_updaterResult :: "string option"
  fe_draw :: int
  fe_secondsOfDay :: "int option"
  fe_timer :: timer_service
  fe_deleteDb :: int
  fe_startByTimer :: int

abbreviation fe_now :: "fw_env \<Rightarrow> int" where "fe_now env \<equiv> en_now (fe_env env)"
abbreviation fe_nowMs :: "fw_env \<Rightarrow> int" where "fe_nowMs env \<equiv> en_nowMs (fe_env env)"
abbreviation fe_net :: "fw_env \<Rightarrow> NetType" where "fe_net env \<equiv> en_net (fe_env env)"
abbreviation fw_fs :: "fw \<Rightarrow> file_system" where "fw_fs w \<equiv> mg_fs (fw_dl w)"

section \<open>Notifying the application\<close>

definition emit :: "fw_event \<Rightarrow> fw \<Rightarrow> fw" where
  "emit e w = w\<lparr>fw_events := fw_events w @ [e]\<rparr>"

definition NotifyEvent ::
  "string \<Rightarrow> EventId \<Rightarrow> UpgradeStatus \<Rightarrow> ErrorMessage \<Rightarrow> VersionComponent list \<Rightarrow> int \<Rightarrow> fw \<Rightarrow> fw" where
  "NotifyEvent digest eventId status errorMessage comps progress w =
     emit \<lparr>ev_channel = NOTIFY, ev_id = eventId, ev_digest = digest, ev_status = status, ev_progress = progress,
           ev_errors = [errorMessage], ev_components = comps\<rparr> w"

text \<open>\<open>atoi\<close>: blanks, a sign, digits.\<close>

definition cxx_atoi :: "string \<Rightarrow> int" where
  "cxx_atoi s =
     (let t = dropWhile cxx_isspace s;
          (neg, body) = (case t of c # r \<Rightarrow> if c = CHR ''-'' then (True, r) else if c = CHR ''+'' then (False, r)
                                            else (False, t) | [] \<Rightarrow> (False, t));
          n = dec_value (takeWhile cxx_isdigit body) 0
      in i32 (if neg then - n else n))"

definition BuildTaskBody_errors :: "Progress \<Rightarrow> ErrorMessage list" where
  "BuildTaskBody_errors p =
     (if cxx_atoi (pg_endReason p) \<noteq> 0
      then [\<lparr>em_errorCode = cxx_atoi (pg_endReason p), em_errorMessage = pg_endReason p\<rparr>] else [])"

fun progress_event :: "UpgradeStatus \<Rightarrow> EventId" where
  "progress_event US_DOWNLOADING = EVENT_DOWNLOAD_UPDATE"
| "progress_event US_DOWNLOAD_PAUSE = EVENT_DOWNLOAD_PAUSE"
| "progress_event US_DOWNLOAD_CANCEL = EVENT_DOWNLOAD_CANCEL"
| "progress_event US_DOWNLOAD_FAIL = EVENT_DOWNLOAD_FAIL"
| "progress_event US_VERIFY_FAIL = EVENT_DOWNLOAD_FAIL"
| "progress_event US_DOWNLOAD_SUCCESS = EVENT_DOWNLOAD_SUCCESS"
| "progress_event US_INSTALLING = EVENT_UPGRADE_UPDATE"
| "progress_event US_INSTALL_FAIL = EVENT_UPGRADE_FAIL"
| "progress_event US_INSTALL_SUCCESS = EVENT_APPLY_WAIT"
| "progress_event US_INSTALL_PAUSE = EVENT_UPGRADE_PAUSE"
| "progress_event US_UPDATING = EVENT_UPGRADE_UPDATE"
| "progress_event US_UPDATE_FAIL = EVENT_UPGRADE_FAIL"
| "progress_event US_UPDATE_SUCCESS = EVENT_UPGRADE_SUCCESS"
| "progress_event _ = EVENT_TASK_BASE"

definition ProgressCallback :: "fw_env \<Rightarrow> string \<Rightarrow> Progress \<Rightarrow> fw \<Rightarrow> fw" where
  "ProgressCallback env digest p w =
     emit \<lparr>ev_channel = (if fe_hasUpgradeCallback env then CALLBACK else NOTIFY), ev_id = progress_event (pg_status p),
           ev_digest = digest, ev_status = pg_status p, ev_progress = i32 (pg_percent p),
           ev_errors = BuildTaskBody_errors p, ev_components = []\<rparr> w"

section \<open>The helpers\<close>

definition PACKAGE_PATH :: string where
  "PACKAGE_PATH = ''/data/update/ota_package/firmware/versions''"

definition DUPDATE_ENGINE_PACKAGE_ROOT_PATH :: string where
  "DUPDATE_ENGINE_PACKAGE_ROOT_PATH = ''/data/update/ota_package''"

definition firmware_IsSpaceEnough :: "fw_env \<Rightarrow> int \<Rightarrow> bool" where
  "firmware_IsSpaceEnough env requiredSpace =
     IsSpaceEnough (en_statfs (fe_env env) DUPDATE_ENGINE_PACKAGE_ROOT_PATH) requiredSpace"

definition DeleteDownloadFiles :: "fw \<Rightarrow> fw" where
  "DeleteDownloadFiles w = w\<lparr>fw_dl := (fw_dl w)\<lparr>mg_fs := DeleteFile PACKAGE_PATH False (fw_fs w)\<rparr>\<rparr>"

definition BuildTaskId :: "(string \<Rightarrow> string) \<Rightarrow> FirmwareComponent list \<Rightarrow> string" where
  "BuildTaskId sha cs =
     (if cs = [] then []
      else sha (fold (\<lambda>c taskId. (if taskId \<noteq> [] then taskId @ ''_'' else taskId) @ fc_versionId c) cs []))"

definition dl_RemoveTask :: "string \<Rightarrow> fw \<Rightarrow> fw" where
  "dl_RemoveTask k w = w\<lparr>fw_dl := snd (manager_RemoveTask k no_error (fw_dl w))\<rparr>"

definition ClearFirmwareInfo :: "fw \<Rightarrow> fw" where
  "ClearFirmwareInfo w =
     (let task = QueryTask (fw_tasks w) new_firmware_task;
          w1 = dl_RemoveTask (ft_downloadTaskId task) w;
          w2 = w1\<lparr>fw_tasks := snd (table_DeleteAll (fw_tasks w1))\<rparr>;
          w3 = w2\<lparr>fw_components := snd (table_DeleteAll (fw_components w2))\<rparr>
      in DeleteDownloadFiles w3)"

definition IsStreamUpgrade :: "FirmwareComponent list \<Rightarrow> bool" where
  "IsStreamUpgrade cs = (case cs of [] \<Rightarrow> False | c # _ \<Rightarrow> fc_otaType c = AB_STREAM_OTA)"

definition GetInstallType :: "fw_env \<Rightarrow> fw \<Rightarrow> InstallType" where
  "GetInstallType env w =
     (if fe_bootSlot env = ''2'' then
        (if IsStreamUpgrade (component_QueryAll (fw_components w)) then STREAM_INSTALLLER else SYS_INSTALLER)
      else UPDATER)"

definition IsUpgradeFailed :: "UpgradeStatus \<Rightarrow> bool" where
  "IsUpgradeFailed s =
     (s = US_DOWNLOAD_FAIL \<or> s = US_PACKAGE_TRANS_FAIL \<or> s = US_INSTALL_FAIL \<or> s = US_UPDATE_FAIL \<or> s = US_VERIFY_FAIL)"

text \<open>\<open>hotaComponents[0]\<close> is only read for a non-empty list (\<open>BuildNewVersionInfo\<close>).\<close>

definition BuildHotaVersionComponent :: "InstallType \<Rightarrow> FirmwareComponent \<Rightarrow> FirmwareComponent list \<Rightarrow> VersionComponent" where
  "BuildHotaVersionComponent ty first rest = new_version_component\<lparr>
     vc_componentId := fc_componentId first, vc_upgradeAction := ''upgrade'', vc_componentType := 1,
     vc_effectiveMode := (if ty = SYS_INSTALLER \<or> ty = STREAM_INSTALLLER then 3 else 1),
     vc_otaMode := ota_code (if ty = SYS_INSTALLER then AB_REGULAR_OTA
                             else if ty = STREAM_INSTALLLER then AB_STREAM_OTA else REGULAR_OTA),
     vc_innerVersion := fc_targetBlVersionNumber first, vc_displayVersion := fc_targetBlDisplayVersionNumber first,
     vc_size := fold (\<lambda>c s. (s + fc_size c mod 2 ^ 64) mod 2 ^ 64) (first # rest) 0\<rparr>"

definition BuildNewVersionInfo :: "InstallType \<Rightarrow> FirmwareComponent list \<Rightarrow> VersionComponent list" where
  "BuildNewVersionInfo ty cs =
     (case filter (\<lambda>c. fc_blVersionType c = 1 \<or> fc_blVersionType c = 100) cs of
        [] \<Rightarrow> []
      | c # rest \<Rightarrow> [BuildHotaVersionComponent ty c rest])"

definition RetrieveFileSize :: "file_system \<Rightarrow> string \<Rightarrow> int" where
  "RetrieveFileSize fs name = (case fs name of Some (Regular content) \<Rightarrow> int (length content) | _ \<Rightarrow> 0)"

definition IsUpgradePackagesReady :: "file_system \<Rightarrow> FirmwareComponent list \<Rightarrow> bool" where
  "IsUpgradePackagesReady fs cs =
     (if cs = [] then False
      else list_all (\<lambda>c. IsFileExist fs (fc_spath c) \<and> RetrieveFileSize fs (fc_spath c) = fc_size c) cs)"

definition IsDeviceIdle :: "fw_env \<Rightarrow> bool" where
  "IsDeviceIdle env =
     (if fe_screenOn env then False else if fe_hasCall env then False else if fe_musicActive env then False else True)"

definition IsBatteryEnough :: "fw_env \<Rightarrow> int \<Rightarrow> bool" where
  "IsBatteryEnough env batteryLimit = (batteryLimit \<le> fe_capacity env)"

section \<open>Facts\<close>

lemma emit_sel [simp]:
  "fw_tasks (emit e w) = fw_tasks w" "fw_components (emit e w) = fw_components w" "fw_dl (emit e w) = fw_dl w"
  "fw_prefs (emit e w) = fw_prefs w" "fw_cache (emit e w) = fw_cache w" "fw_bellOn (emit e w) = fw_bellOn w"
  "fw_night (emit e w) = fw_night w" "fw_autoTimer (emit e w) = fw_autoTimer w" "fw_events (emit e w) = fw_events w @ [e]"
  by (simp_all add: emit_def)

definition fw_ok :: "fw \<Rightarrow> bool" where
  "fw_ok w = (tasks_ok (fw_tasks w) \<and> components_ok (fw_components w))"

lemma ClearFirmwareInfo_sel:
  "fw_ok w \<Longrightarrow> task_view (fw_tasks (ClearFirmwareInfo w)) = []"
  "fw_ok w \<Longrightarrow> component_QueryAll (fw_components (ClearFirmwareInfo w)) = []"
  "fw_ok w \<Longrightarrow> fw_ok (ClearFirmwareInfo w)"
  "fw_prefs (ClearFirmwareInfo w) = fw_prefs w" "fw_events (ClearFirmwareInfo w) = fw_events w"
  "fw_cache (ClearFirmwareInfo w) = fw_cache w" "fw_bellOn (ClearFirmwareInfo w) = fw_bellOn w"
  by (simp_all add: ClearFirmwareInfo_def Let_def DeleteDownloadFiles_def dl_RemoveTask_def fw_ok_def)

lemma prefs_save_obtain [simp]:
  "pr_up p \<Longrightarrow> ObtainBool k d (snd (prefs_Save k (PrefBool b) p)) = b"
  "pr_up p \<Longrightarrow> ObtainLong k e (snd (prefs_Save k (PrefLong i) p)) = i"
  by (simp_all add: ObtainBool_def ObtainLong_def prefs_Save_def map_of_cm_put)

end
