(* ===== verification/Firmware_Alarm.thy ===== *)
theory Firmware_Alarm
  imports Firmware_World
begin

text \<open>
  The alarms of the firmware upgrade: \<open>services/firmware/alarm/src/firmware_night_upgrade_alarm_manager.cpp\<close>
  puts the firmware task into the night alarm, \<open>services/firmware/alarm/src/firmware_auto_upgrade_alarm_manager.cpp\<close>
  keeps the time of the next automatic check in the preferences and a timer for it. What runs when an alarm fires is in
  the event manager.
\<close>

section \<open>The night alarm of the firmware\<close>

definition fw_night_env :: "fw_env \<Rightarrow> night_env" where
  "fw_night_env env = \<lparr>ne_now = fe_now env, ne_secondsOfDay = fe_secondsOfDay env, ne_draw = fe_draw env, ne_timer = fe_timer env\<rparr>"

definition SetNightUpgradeAlarm :: "fw_env \<Rightarrow> fw \<Rightarrow> fw" where
  "SetNightUpgradeAlarm env w =
     w\<lparr>fw_night := RegisterNightUpgradeTask (fw_night_env env) (NightUpgradeInfo FIRMWARE True) OnNightUpgradeTimeUp (fw_night w)\<rparr>"

definition CancelNightUpgradeAlarm :: "fw \<Rightarrow> fw" where
  "CancelNightUpgradeAlarm w = w\<lparr>fw_night := UnregisterNightUpgradeTask FIRMWARE (fw_night w)\<rparr>"

definition OnTimeChanged :: "fw_env \<Rightarrow> fw \<Rightarrow> fw" where
  "OnTimeChanged env w = (if IsRegisteredNightUpgradeTask FIRMWARE (fw_night w) then SetNightUpgradeAlarm env w else w)"

section \<open>The automatic check\<close>

datatype CommonEventType = AUTO_UPGRADE | NET_CHANGED | TIME_CHANGED | TIME_ZONE_CHANGED | BOOT_COMPLETE
  | PROCESS_INIT | NIGHT_UPGRADE | SCREEN_OFF | UPGRADE_REMIND

datatype AutoUpgradeTimeRefreshType = VERIFY | DURATION | EVENT | RAND | DELAY_TIME

abbreviation GetEffectiveAutoUpgradeDuration :: int where "GetEffectiveAutoUpgradeDuration \<equiv> 86400"
abbreviation TIMER_AVAILABLE_INTERVAL :: int where "TIMER_AVAILABLE_INTERVAL \<equiv> 10"

definition HandleNetChange :: "fw_env \<Rightarrow> int \<Rightarrow> int \<Rightarrow> prefs \<Rightarrow> int \<times> prefs" where
  "HandleNetChange env autoUpgradeTime duration p =
     (let currentTime = fe_now env;
          lastRegisterTime = (if autoUpgradeTime \<noteq> DEFAULT_UPGRADE_TIME then autoUpgradeTime - duration else 0);
          isNeedRetry = IsNeedRetryCheck p
      in if currentTime \<ge> autoUpgradeTime \<or> currentTime < lastRegisterTime
         then (currentTime + TIMER_AVAILABLE_INTERVAL, snd (SaveNeedRetryCheckFlag False p))
         else if isNeedRetry
         then (currentTime + GetRandTime (fe_draw env) FIVE_MINUTES_SECONDS ONE_HOUR_SECONDS,
               snd (SaveNeedRetryCheckFlag False p))
         else (autoUpgradeTime, p))"

definition CalculateAutoUpgradeTime ::
  "fw_env \<Rightarrow> AutoUpgradeTimeRefreshType \<Rightarrow> int \<Rightarrow> int \<Rightarrow> prefs \<Rightarrow> int \<times> prefs" where
  "CalculateAutoUpgradeTime env refreshType autoUpgradeTime duration p =
     (let randomOffPeakTime = 1800; currentTime = fe_now env in
      case refreshType of
        DURATION \<Rightarrow> (currentTime + duration - randomOffPeakTime + GetRandTime (fe_draw env) 0 ONE_HOUR_SECONDS, p)
      | EVENT \<Rightarrow> HandleNetChange env autoUpgradeTime duration p
      | RAND \<Rightarrow> (currentTime + GetRandTime (fe_draw env) FIVE_MINUTES_SECONDS ONE_HOUR_SECONDS, p)
      | _ \<Rightarrow> (autoUpgradeTime, p))"

definition RegisterAutoUpgradeTime :: "fw_env \<Rightarrow> AutoUpgradeTimeRefreshType \<Rightarrow> fw \<Rightarrow> fw" where
  "RegisterAutoUpgradeTime env refreshType w =
     (let duration = GetEffectiveAutoUpgradeDuration;
          autoUpgradeTime = GetAutoUpgradeTime (fw_prefs w);
          (result, p) = CalculateAutoUpgradeTime env refreshType autoUpgradeTime duration (fw_prefs w)
      in if autoUpgradeTime = result \<and> fw_autoTimer w > 0 then w\<lparr>fw_prefs := p\<rparr>
         else w\<lparr>fw_prefs := SaveAutoUpgradeTime result p,
                fw_autoTimer := RegisterAlarm (fe_timer env) (fe_now env) result\<rparr>)"

definition RefreshAutoUpgradeAlarm :: "fw_env \<Rightarrow> fw \<Rightarrow> fw" where
  "RefreshAutoUpgradeAlarm env w = RegisterAutoUpgradeTime env DURATION w"

definition RefreshAutoUpgradeAlarm_event :: "fw_env \<Rightarrow> CommonEventType \<Rightarrow> fw \<Rightarrow> fw" where
  "RefreshAutoUpgradeAlarm_event env event w =
     (if event = NET_CHANGED \<or> event = BOOT_COMPLETE \<or> event = PROCESS_INIT then RegisterAutoUpgradeTime env EVENT w else w)"

definition CancelAutoUpgradeAlarm :: "fw \<Rightarrow> fw" where
  "CancelAutoUpgradeAlarm w = w\<lparr>fw_autoTimer := 0\<rparr>"

definition IsNeedIgnoreDuration :: "int \<Rightarrow> int \<Rightarrow> int \<Rightarrow> int \<Rightarrow> bool" where
  "IsNeedIgnoreDuration setDuration currentDuration minDuration maxDuration =
     (if setDuration < minDuration then True
      else if min setDuration maxDuration = currentDuration then True else False)"

section \<open>Facts\<close>

lemma RegisterAutoUpgradeTime_sel [simp]:
  "fw_tasks (RegisterAutoUpgradeTime env ty w) = fw_tasks w" "fw_components (RegisterAutoUpgradeTime env ty w) = fw_components w"
  "fw_dl (RegisterAutoUpgradeTime env ty w) = fw_dl w" "fw_events (RegisterAutoUpgradeTime env ty w) = fw_events w"
  "fw_night (RegisterAutoUpgradeTime env ty w) = fw_night w" "fw_cache (RegisterAutoUpgradeTime env ty w) = fw_cache w"
  by (simp_all add: RegisterAutoUpgradeTime_def Let_def split: prod.split)

text \<open>
  A refresh by duration: the next check is between 23.5 and 24.5 hours away, stored in the preferences, and its
  timer is what the time service gives.
\<close>

lemma refresh_duration:
  assumes "pr_up (fw_prefs w)" "GetAutoUpgradeTime (fw_prefs w) \<le> fe_now env"
  shows "let t = GetAutoUpgradeTime (fw_prefs (RefreshAutoUpgradeAlarm env w))
    in fe_now env + 84600 \<le> t \<and> t < fe_now env + 88200
      \<and> fw_autoTimer (RefreshAutoUpgradeAlarm env w) = RegisterTimer (fe_timer env)"
proof -
  define t where "t = fe_now env + 84600 + fe_draw env mod 3600"
  have t: "fe_now env + 84600 \<le> t" "t < fe_now env + 88200" by (simp_all add: t_def)
  have "RefreshAutoUpgradeAlarm env w = w\<lparr>fw_prefs := SaveAutoUpgradeTime t (fw_prefs w), fw_autoTimer := RegisterTimer (fe_timer env)\<rparr>"
    using assms(2) t
    by (auto simp: RefreshAutoUpgradeAlarm_def RegisterAutoUpgradeTime_def CalculateAutoUpgradeTime_def Let_def
        GetRandTime_def t_def RegisterAlarm_def algebra_simps)
  then show ?thesis
    using t assms(1) by (simp add: Let_def SaveAutoUpgradeTime_def GetAutoUpgradeTime_def)
qed

text \<open>
  A retry after an event clears the retry flag before it registers the timer. The random delay starts at zero, so
  with a draw of zero the registration is refused as outdated and no timer is left.
\<close>

lemma retry_draw_zero:
  assumes "pr_up (fw_prefs w)" "IsNeedRetryCheck (fw_prefs w)" "fe_draw env = 0"
    and pending: "0 \<le> fe_now env" "fe_now env < GetAutoUpgradeTime (fw_prefs w)" "GetAutoUpgradeTime (fw_prefs w) \<le> fe_now env + 86400"
  shows "fw_autoTimer (RefreshAutoUpgradeAlarm_event env NET_CHANGED w) = 0"
    "\<not> IsNeedRetryCheck (fw_prefs (RefreshAutoUpgradeAlarm_event env NET_CHANGED w))"
proof -
  have "HandleNetChange env (GetAutoUpgradeTime (fw_prefs w)) 86400 (fw_prefs w)
      = (fe_now env, snd (SaveNeedRetryCheckFlag False (fw_prefs w)))"
    using assms by (auto simp: HandleNetChange_def Let_def GetRandTime_def)
  then have "RefreshAutoUpgradeAlarm_event env NET_CHANGED w =
      w\<lparr>fw_prefs := SaveAutoUpgradeTime (fe_now env) (snd (SaveNeedRetryCheckFlag False (fw_prefs w))), fw_autoTimer := 0\<rparr>"
    using pending
    by (simp add: RefreshAutoUpgradeAlarm_event_def RegisterAutoUpgradeTime_def CalculateAutoUpgradeTime_def
        RegisterAlarm_def Let_def)
  with assms(1) show "fw_autoTimer (RefreshAutoUpgradeAlarm_event env NET_CHANGED w) = 0"
    "\<not> IsNeedRetryCheck (fw_prefs (RefreshAutoUpgradeAlarm_event env NET_CHANGED w))"
    by (simp_all add: SaveAutoUpgradeTime_def SaveNeedRetryCheckFlag_def IsNeedRetryCheck_def prefs_Save_def ObtainBool_def)
qed

end
