(* ===== verification/Cxx_Float.thy ===== *)
theory Cxx_Float
  imports Update_Prelude
begin

text \<open>
  The floating-point arithmetic of two places of the code: the single-precision space check before an install
  (\<open>services/firmware/upgrade/data_processor/src/firmware_install_data_processor.cpp\<close>) and the double-precision percentage
  of a streaming install (\<open>services/firmware/upgrade/install/src/firmware_stream_installer_install.cpp\<close>). A value is a
  pair of an integer significand and a binary exponent, rounded to \<open>bits\<close> significant bits, to nearest and ties to even.
  The values come from 64-bit integers, so exponent overflow and subnormal numbers do not occur.
\<close>

type_synonym cxx_float = "int \<times> int"

fun bit_len :: "nat \<Rightarrow> nat" where
  "bit_len n = (if n = 0 then 0 else Suc (bit_len (n div 2)))"

declare bit_len.simps [simp del]

definition round_even :: "int \<Rightarrow> nat \<Rightarrow> int" where
  "round_even m k =
     (let q = m div 2 ^ k; r = m mod 2 ^ k
      in if k = 0 then m else if 2 * r > 2 ^ k \<or> (2 * r = 2 ^ k \<and> odd q) then q + 1 else q)"

definition fp_round :: "nat \<Rightarrow> int \<Rightarrow> int \<Rightarrow> cxx_float" where
  "fp_round bits m e = (let k = bit_len (nat \<bar>m\<bar>) - bits in (sgn m * round_even \<bar>m\<bar> k, e + int k))"

definition fp_of_int :: "nat \<Rightarrow> int \<Rightarrow> cxx_float" where
  "fp_of_int bits i = fp_round bits i 0"

definition fp_mul :: "nat \<Rightarrow> cxx_float \<Rightarrow> cxx_float \<Rightarrow> cxx_float" where
  "fp_mul bits a b = fp_round bits (fst a * fst b) (snd a + snd b)"

definition fp_add :: "nat \<Rightarrow> cxx_float \<Rightarrow> cxx_float \<Rightarrow> cxx_float" where
  "fp_add bits a b =
     (let e = min (snd a) (snd b)
      in fp_round bits (fst a * 2 ^ nat (snd a - e) + fst b * 2 ^ nat (snd b - e)) e)"

text \<open>The quotient is computed with two spare bits and a sticky bit, which is enough to round it correctly.\<close>

definition fp_div :: "nat \<Rightarrow> cxx_float \<Rightarrow> cxx_float \<Rightarrow> cxx_float" where
  "fp_div bits a b =
     (let k = bits + 2 + bit_len (nat \<bar>fst b\<bar>);
          n = \<bar>fst a\<bar> * 2 ^ k;
          q = 2 * (n div \<bar>fst b\<bar>) + (if n mod \<bar>fst b\<bar> = 0 then 0 else 1)
      in fp_round bits (sgn (fst a) * sgn (fst b) * q) (snd a - snd b - int k - 1))"

text \<open>The conversion back to \<open>int64_t\<close> truncates.\<close>

definition fp_to_int :: "cxx_float \<Rightarrow> int" where
  "fp_to_int a = (if snd a \<ge> 0 then fst a * 2 ^ nat (snd a) else cdiv (fst a) (2 ^ nat (- snd a)))"

section \<open>Facts\<close>

lemma bit_len_bounds: "n < 2 ^ bit_len n" "0 < n \<Longrightarrow> 2 ^ (bit_len n - 1) \<le> n"
proof (induction n rule: bit_len.induct)
  case (1 n)
  { case 1
    show ?case
    proof (cases "n = 0")
      case False
      then have "n div 2 < 2 ^ bit_len (n div 2)" using "1.IH"(1) by blast
      with False show ?thesis by (subst bit_len.simps) simp
    qed (simp add: bit_len.simps)
  next
    case 2
    then have n: "bit_len n = Suc (bit_len (n div 2))" by (subst bit_len.simps) simp
    show ?case
    proof (cases "n div 2 = 0")
      case True
      with 2 n show ?thesis by (simp add: bit_len.simps [of 0])
    next
      case False
      then have "2 ^ (bit_len (n div 2) - 1) \<le> n div 2" "0 < bit_len (n div 2)"
        using "1.IH"(2) 2 by (simp_all add: bit_len.simps [of "n div 2"])
      then show ?thesis unfolding n by (cases "bit_len (n div 2)") auto
    qed }
qed

lemma round_even_error:
  assumes "0 \<le> m"
  shows "2 * \<bar>round_even m k * 2 ^ k - m\<bar> \<le> 2 ^ k"
proof (cases "k = 0")
  case False
  define P where "P = (2 :: int) ^ k"
  define r where "r = m mod P"
  define s where "s = m div P * P"
  have m: "s + r = m" unfolding s_def r_def by (rule div_mult_mod_eq)
  have r: "0 \<le> r" "r < P" by (simp_all add: r_def P_def)
  have "round_even m k * P = (if 2 * r > P \<or> (2 * r = P \<and> odd (m div P)) then s + P else s)"
    using False by (simp add: round_even_def Let_def P_def r_def s_def distrib_right)
  then have "\<bar>round_even m k * P - m\<bar> \<le> (if P \<le> 2 * r then P - r else r) \<and> (2 * r \<le> P \<or> \<bar>round_even m k * P - m\<bar> = P - r)
     \<and> (P \<le> 2 * r \<or> \<bar>round_even m k * P - m\<bar> = r)"
    using m r by (auto split: if_splits)
  then have "2 * \<bar>round_even m k * P - m\<bar> \<le> P" using r by (auto split: if_splits)
  then show ?thesis by (simp add: P_def)
qed (simp add: round_even_def)

text \<open>A non-negative value is rounded with a relative error of at most one part in \<open>2 ^ bits\<close>.\<close>

lemma fp_round_error:
  assumes "0 \<le> m" "0 < bits"
  shows "\<exists>k. fp_round bits m e = (round_even m k, e + int k) \<and> 2 ^ bits * \<bar>round_even m k * 2 ^ k - m\<bar> \<le> m"
proof (intro exI conjI)
  define k where "k = bit_len (nat m) - bits"
  have zero: "bit_len 0 = 0" by (simp add: bit_len.simps [of 0])
  show "fp_round bits m e = (round_even m k, e + int k)"
    using assms zero by (cases "m = 0") (simp_all add: fp_round_def Let_def round_even_def k_def)
  show "2 ^ bits * \<bar>round_even m k * 2 ^ k - m\<bar> \<le> m"
  proof (cases "k = 0")
    case True
    then show ?thesis using assms by (simp add: round_even_def)
  next
    case False
    obtain b where b: "bits = Suc b" using assms(2) by (cases bits) auto
    have len: "bit_len (nat m) - 1 = b + k" using False unfolding k_def b by linarith
    have pos: "0 < nat m" using False zero assms unfolding k_def by (cases "m = 0") auto
    have "2 ^ (b + k) \<le> nat m" using bit_len_bounds(2) [OF pos] len by metis
    then have "int (2 ^ (b + k)) \<le> m" using pos by linarith
    then have ge: "2 ^ b * 2 ^ k \<le> m" by (simp only: of_nat_power power_add of_nat_numeral of_nat_mult)
    have "2 ^ bits * \<bar>round_even m k * 2 ^ k - m\<bar> = 2 ^ b * (2 * \<bar>round_even m k * 2 ^ k - m\<bar>)" by (simp add: b)
    also have "\<dots> \<le> 2 ^ b * 2 ^ k"
      using round_even_error [OF assms(1), of k] by (intro mult_left_mono) simp_all
    also note ge
    finally show ?thesis .
  qed
qed

end
