(* ===== verification/Firmware_Processors.thy ===== *)
theory Firmware_Processors
  imports Firmware_Alarm Cxx_Float
begin

text \<open>
  The data processors between the upgrade flow and the stored task:
  \<open>services/firmware/upgrade/data_processor/src/firmware_check_data_processor.cpp\<close> (a check result enters the
  tables), \<open>firmware_download_data_processor.cpp\<close> (download progress), \<open>firmware_install_data_processor.cpp\<close> (install
  results), what follows a download (\<open>services/firmware/upgrade/mode/src/firmware_download_process.cpp\<close>) and the boot
  sound around a night upgrade (\<open>services/firmware/upgrade/flow/src/firmware_upgrade_processor.cpp\<close>).
\<close>

section \<open>Writing to the tables\<close>

definition on_tasks :: "(db_table \<Rightarrow> bool \<times> db_table) \<Rightarrow> fw \<Rightarrow> fw" where
  "on_tasks f w = w\<lparr>fw_tasks := snd (f (fw_tasks w))\<rparr>"

definition on_components :: "(db_table \<Rightarrow> bool \<times> db_table) \<Rightarrow> fw \<Rightarrow> fw" where
  "on_components f w = w\<lparr>fw_components := snd (f (fw_components w))\<rparr>"

lemma on_tasks_sel [simp]:
  "fw_tasks (on_tasks f w) = snd (f (fw_tasks w))" "fw_components (on_tasks f w) = fw_components w"
  "fw_dl (on_tasks f w) = fw_dl w" "fw_prefs (on_tasks f w) = fw_prefs w" "fw_cache (on_tasks f w) = fw_cache w"
  "fw_events (on_tasks f w) = fw_events w" "fw_bellOn (on_tasks f w) = fw_bellOn w" "fw_night (on_tasks f w) = fw_night w"
  "fw_autoTimer (on_tasks f w) = fw_autoTimer w"
  by (simp_all add: on_tasks_def)

lemma on_components_sel [simp]:
  "fw_components (on_components f w) = snd (f (fw_components w))" "fw_tasks (on_components f w) = fw_tasks w"
  "fw_dl (on_components f w) = fw_dl w" "fw_prefs (on_components f w) = fw_prefs w"
  "fw_cache (on_components f w) = fw_cache w" "fw_events (on_components f w) = fw_events w"
  "fw_bellOn (on_components f w) = fw_bellOn w" "fw_night (on_components f w) = fw_night w"
  "fw_autoTimer (on_components f w) = fw_autoTimer w"
  by (simp_all add: on_components_def)

abbreviation stored_task :: "fw \<Rightarrow> FirmwareTask" where "stored_task w \<equiv> QueryTask (fw_tasks w) new_firmware_task"
abbreviation stored_components :: "fw \<Rightarrow> FirmwareComponent list" where
  "stored_components w \<equiv> component_QueryAll (fw_components w)"

section \<open>\<open>FirmwareCheckDataProcessor\<close>\<close>

datatype CheckStatus = CHECK_SUCCESS | CHECK_FAIL | FILE_LIST_REQUEST_SUCCESS | FILE_LIST_REQUEST_FAIL
  | CHANGELOG_REQUEST_SUCCESS | CHANGELOG_REQUEST_FAIL

record check_proc =
  cp_componentList :: "FirmwareComponent list"
  cp_duration :: int
  cp_isSameWithDb :: bool
  cp_status :: CheckStatus

definition new_check_proc :: check_proc where
  "new_check_proc = \<lparr>cp_componentList = [], cp_duration = -1, cp_isSameWithDb = True, cp_status = CHECK_FAIL\<rparr>"

definition IsCheckFailed :: "check_proc \<Rightarrow> bool" where
  "IsCheckFailed c =
     (cp_status c = CHECK_FAIL \<or> cp_status c = FILE_LIST_REQUEST_FAIL \<or> cp_status c = CHANGELOG_REQUEST_FAIL)"

definition HasNewVersion :: "check_proc \<Rightarrow> bool" where
  "HasNewVersion c = (cp_componentList c \<noteq> [])"

definition HasUndoneTask :: "fw \<Rightarrow> bool" where
  "HasUndoneTask w =
     (let task = stored_task w in
      if \<not> ft_isExistTask task then False
      else ft_status task = US_DOWNLOADING \<or> ft_status task = US_DOWNLOAD_PAUSE \<or> ft_status task = US_VERIFYING
        \<or> ft_status task = US_INSTALLING \<or> ft_status task = US_UPDATING)"

definition IsUpdateOnStatus :: "fw \<Rightarrow> bool" where
  "IsUpdateOnStatus w =
     (let task = stored_task w in if \<not> ft_isExistTask task then False else ft_status task = US_UPDATING)"

definition IsVersionSameWithDb :: "FirmwareComponent list \<Rightarrow> fw \<Rightarrow> bool" where
  "IsVersionSameWithDb componentList w =
     (if length (stored_components w) \<noteq> length componentList then False
      else list_all (\<lambda>server.
        case QueryByVersionId (fc_versionId server) (fw_components w) of
          None \<Rightarrow> False
        | Some d \<Rightarrow> fc_size d = fc_size server \<and> fc_verifyInfo d = fc_verifyInfo server
                     \<and> fc_url d = fc_url server \<and> fc_otaType d = fc_otaType server) componentList)"

definition UpdateFirmwareComponent :: "FirmwareComponent list \<Rightarrow> fw \<Rightarrow> fw" where
  "UpdateFirmwareComponent componentList w =
     (let task = stored_task w in
      if \<not> ft_isExistTask task then w
      else if ft_status task \<noteq> US_CHECK_VERSION_SUCCESS then w
      else fold (\<lambda>c. on_components (UpdateUrlByVersionId (fc_versionId c) (fc_url c))) componentList w)"

definition BuildComponentSPath :: "FirmwareComponent list \<Rightarrow> FirmwareComponent list" where
  "BuildComponentSPath = map (\<lambda>c. c\<lparr>fc_spath := PACKAGE_PATH @ ''/'' @ fc_fileName c\<rparr>)"

definition GetCombinationType :: "FirmwareComponent list \<Rightarrow> CombinationType" where
  "GetCombinationType cs =
     combination_of_code (fold (\<lambda>c n. if fc_blVersionType c = 1 then or n (combination_code HOTA) else n) cs
       (combination_code INVALLID_TYPE))"

definition HandleNewVersion :: "fw_env \<Rightarrow> check_proc \<Rightarrow> fw \<Rightarrow> check_proc \<times> fw" where
  "HandleNewVersion env c w =
     (let c1 = c\<lparr>cp_isSameWithDb := IsVersionSameWithDb (cp_componentList c) w\<rparr> in
      if cp_isSameWithDb c1 then (c1, UpdateFirmwareComponent (cp_componentList c1) w)
      else
        let w1 = ClearFirmwareInfo w;
            cs = BuildComponentSPath (cp_componentList c1);
            w2 = on_components (table_Insert component_BuildDbValue cs) w1;
            task = new_firmware_task\<lparr>ft_taskId := BuildTaskId (fe_sha env) cs, ft_status := US_CHECK_VERSION_SUCCESS,
                     ft_isStreamUpgrade := IsStreamUpgrade cs, ft_combinationType := GetCombinationType cs\<rparr>
        in (c1\<lparr>cp_componentList := cs\<rparr>, on_tasks (table_Insert task_BuildDbValue [task]) w2))"

definition HandleNoNewVersion :: "fw \<Rightarrow> fw" where
  "HandleNoNewVersion w =
     (let task = stored_task w;
          w1 = (if ft_isExistTask task
                then NotifyEvent (ft_taskId task) EVENT_TASK_CANCEL US_INIT new_error_message [] 0 w else w)
      in ClearFirmwareInfo w1)"

definition HandleCheckResult :: "fw_env \<Rightarrow> check_proc \<Rightarrow> fw \<Rightarrow> check_proc \<times> fw" where
  "HandleCheckResult env c w =
     (if IsCheckFailed c then (c, w)
      else if HasUndoneTask w then (c, w)
      else if HasNewVersion c then HandleNewVersion env c w
      else (c, HandleNoNewVersion w))"

definition check_SetCheckResult ::
  "fw_env \<Rightarrow> CheckStatus \<Rightarrow> int \<Rightarrow> FirmwareComponent list \<Rightarrow> check_proc \<Rightarrow> fw \<Rightarrow> check_proc \<times> fw" where
  "check_SetCheckResult env status duration componentList c w =
     HandleCheckResult env (c\<lparr>cp_status := status, cp_duration := duration, cp_componentList := componentList\<rparr>) w"

record CheckResult =
  cr_isExistNewVersion :: bool
  cr_versionDigest :: string
  cr_versionComponents :: "VersionComponent list"

definition new_check_result :: CheckResult where
  "new_check_result = \<lparr>cr_isExistNewVersion = False, cr_versionDigest = [], cr_versionComponents = []\<rparr>"

definition BuildCheckResult :: "fw_env \<Rightarrow> check_proc \<Rightarrow> fw \<Rightarrow> CheckResult" where
  "BuildCheckResult env c w =
     (if IsCheckFailed c then new_check_result
      else let db = stored_components w in
        if db \<noteq> []
        then new_check_result\<lparr>cr_isExistNewVersion := True, cr_versionDigest := BuildTaskId (fe_sha env) db,
               cr_versionComponents := BuildNewVersionInfo (GetInstallType env w) db\<rparr>
        else new_check_result)"

section \<open>\<open>FirmwareDownloadDataProcessor\<close>\<close>

record download_proc =
  dd_tasks :: FirmwareTask
  dd_progress :: Progress

definition new_download_proc :: "fw \<Rightarrow> download_proc" where
  "new_download_proc w =
     (let task = stored_task w in
      \<lparr>dd_tasks = task, dd_progress = new_progress\<lparr>pg_percent := u32 (ft_progress task), pg_status := ft_status task\<rparr>\<rparr>)"

definition required_download_size :: "FirmwareComponent list \<Rightarrow> int" where
  "required_download_size cs =
     fold (\<lambda>c acc. i64 (acc + cdiv (i64 (i32 (100 - fc_progress c) * fc_size c)) 100)) cs 0"

definition download_IsSpaceEnough :: "fw_env \<Rightarrow> fw \<Rightarrow> bool \<times> int" where
  "download_IsSpaceEnough env w =
     (let requireTotalSize = required_download_size (stored_components w)
      in (firmware_IsSpaceEnough env requireTotalSize, requireTotalSize))"

record FirmwareDownloadProgress =
  fp_versionId :: string
  fp_startTime :: int
  fp_endTime :: int
  fp_effectiveTime :: int
  fp_progress :: Progress
  fp_downloadErrorInfo :: DownloadErrorInfo
  fp_downloadUrl :: string
  fp_packageSize :: int
  fp_downloadedSize :: int
  fp_verifiedSize :: int
  fp_isCombineVerifyProgress :: bool

record FirmwareDownloadCallbackInfo =
  fd_downloadTaskId :: string
  fd_taskProgress :: Progress
  fd_progressList :: "FirmwareDownloadProgress list"

definition SetDownloadCallbackInfo ::
  "fw_env \<Rightarrow> FirmwareDownloadCallbackInfo \<Rightarrow> download_proc \<Rightarrow> fw \<Rightarrow> download_proc \<times> fw" where
  "SetDownloadCallbackInfo env info d w =
     (let task = QueryTask (fw_tasks w) (dd_tasks d);
          p = fd_taskProgress info;
          p1 = p\<lparr>pg_percent := max (pg_percent p) (pg_percent (dd_progress d))\<rparr>;
          w1 = fold (\<lambda>cp. on_components (UpdateProgressByVersionId (fp_versionId cp) (pg_status (fp_progress cp))
                       (i32 (pg_percent (fp_progress cp))))) (fd_progressList info) w;
          w2 = on_tasks (UpdateProgressByTaskId (ft_taskId task) (pg_status p1) (i32 (pg_percent p1))) w1
      in (d\<lparr>dd_tasks := task, dd_progress := p1\<rparr>, ProgressCallback env (ft_taskId task) p1 w2))"

definition SetDownloadEvent :: "string \<Rightarrow> EventId \<Rightarrow> download_proc \<Rightarrow> fw \<Rightarrow> download_proc \<times> fw" where
  "SetDownloadEvent downloadTaskId eventId d w =
     (let task = QueryTask (fw_tasks w) (dd_tasks d); taskId = ft_taskId task in
      (d\<lparr>dd_tasks := task\<rparr>,
       if eventId = EVENT_DOWNLOAD_START
       then NotifyEvent taskId EVENT_DOWNLOAD_START US_DOWNLOADING new_error_message [] 0
              (on_tasks (UpdateStatusByTaskId taskId US_DOWNLOADING)
                (on_tasks (UpdateDownloadTaskIdByTaskId taskId downloadTaskId) w))
       else if eventId = EVENT_DOWNLOAD_RESUME
       then NotifyEvent taskId EVENT_DOWNLOAD_RESUME US_DOWNLOADING new_error_message [] (ft_progress task)
              (on_tasks (UpdateStatusByTaskId taskId US_DOWNLOADING) w)
       else w))"

section \<open>\<open>FirmwareInstallDataProcessor\<close>\<close>

text \<open>\<open>COMPRESSION_RATIO\<close> is the single-precision number nearest to 0.2.\<close>

definition COMPRESSION_RATIO :: cxx_float where
  "COMPRESSION_RATIO = (13421773, -26)"

definition install_space :: "int \<Rightarrow> int" where
  "install_space n = fp_to_int (fp_add 24 (fp_mul 24 (fp_of_int 24 n) COMPRESSION_RATIO) (fp_of_int 24 (100 * 1024 * 1024)))"

definition install_IsSpaceEnough :: "fw_env \<Rightarrow> fw \<Rightarrow> bool \<times> int" where
  "install_IsSpaceEnough env w =
     (let requireTotalSize = fold (\<lambda>c acc. i64 (acc + fc_size c)) (stored_components w) 0
      in (firmware_IsSpaceEnough env (install_space requireTotalSize), requireTotalSize))"

text \<open>The processor is its cached task; \<open>Has...\<close> refreshes it, \<open>GetTask\<close> only fills it once.\<close>

definition install_has_status :: "UpgradeStatus \<Rightarrow> FirmwareTask \<Rightarrow> fw \<Rightarrow> bool \<times> FirmwareTask" where
  "install_has_status s cached w =
     (let task = QueryTask (fw_tasks w) cached
      in (if \<not> ft_isExistTask task then False else ft_status task = s, task))"

definition HasInstallSuccess :: "FirmwareTask \<Rightarrow> fw \<Rightarrow> bool \<times> FirmwareTask" where
  "HasInstallSuccess = install_has_status US_INSTALL_SUCCESS"

definition HasInstallFail :: "FirmwareTask \<Rightarrow> fw \<Rightarrow> bool \<times> FirmwareTask" where
  "HasInstallFail = install_has_status US_INSTALL_FAIL"

definition HasUpdateSuccess :: "FirmwareTask \<Rightarrow> fw \<Rightarrow> bool \<times> FirmwareTask" where
  "HasUpdateSuccess = install_has_status US_UPDATE_SUCCESS"

definition get_task_once :: "FirmwareTask \<Rightarrow> fw \<Rightarrow> FirmwareTask" where
  "get_task_once cached w = (if \<not> ft_isExistTask cached then QueryTask (fw_tasks w) cached else cached)"

record InstallCallbackInfo =
  ic_progress :: Progress
  ic_errorMessage :: ErrorMessage

definition install_SetInstallResult :: "fw_env \<Rightarrow> InstallCallbackInfo \<Rightarrow> FirmwareTask \<Rightarrow> fw \<Rightarrow> FirmwareTask \<times> fw" where
  "install_SetInstallResult env info cached w =
     (let p = ic_progress info; task = get_task_once cached w; taskId = ft_taskId task in
      if pg_status p = US_UPDATE_FAIL \<or> pg_status p = US_INSTALL_FAIL
      then (task, NotifyEvent taskId EVENT_UPGRADE_FAIL (pg_status p) (ic_errorMessage info) [] 0 w)
      else
        let w1 = (if pg_status p = US_INSTALL_PAUSE
                  then NotifyEvent taskId EVENT_UPGRADE_PAUSE US_INSTALL_PAUSE (ic_errorMessage info) [] 0 w else w)
        in (task, ProgressCallback env taskId p w1))"

definition IsUpgradeFileCheckSuccess :: "fw \<Rightarrow> bool" where
  "IsUpgradeFileCheckSuccess w = IsUpgradePackagesReady (fw_fs w) (stored_components w)"

section \<open>After a download\<close>

definition DownloadPauseProcess :: "FirmwareTask \<Rightarrow> ErrorMessage \<Rightarrow> fw \<Rightarrow> fw" where
  "DownloadPauseProcess task err w = NotifyEvent (ft_taskId task) EVENT_DOWNLOAD_PAUSE US_DOWNLOAD_PAUSE err [] 0 w"

definition DownloadFailProcess :: "FirmwareTask \<Rightarrow> ErrorMessage \<Rightarrow> fw \<Rightarrow> fw" where
  "DownloadFailProcess task err w =
     ClearFirmwareInfo (NotifyEvent (ft_taskId task) EVENT_DOWNLOAD_FAIL US_DOWNLOAD_FAIL err [] 0 w)"

definition DownloadCancelProcess :: "FirmwareTask \<Rightarrow> ErrorMessage \<Rightarrow> fw \<Rightarrow> fw" where
  "DownloadCancelProcess task err w =
     (let w1 = NotifyEvent (ft_taskId task) EVENT_DOWNLOAD_CANCEL US_DOWNLOAD_CANCEL err [] 0 w;
          w2 = on_tasks (UpdateProgressByTaskId (ft_taskId task) US_CHECK_VERSION_SUCCESS 0) w1;
          w3 = fold (\<lambda>c. on_components (UpdateProgressByUrl (fc_url c) US_CHECK_VERSION_SUCCESS 0)) (stored_components w2) w2;
          w4 = dl_RemoveTask (ft_downloadTaskId task) w3;
          w5 = on_tasks (UpdateDownloadTaskIdByTaskId (ft_taskId task) []) w4
      in DeleteDownloadFiles w5)"

definition DownloadSuccessProcess :: "fw_env \<Rightarrow> FirmwareTask \<Rightarrow> ErrorMessage \<Rightarrow> fw \<Rightarrow> fw" where
  "DownloadSuccessProcess env task err w =
     (let w1 = NotifyEvent (ft_taskId task) EVENT_UPGRADE_WAIT US_DOWNLOAD_SUCCESS new_error_message [] 0 w;
          w2 = (if GetNightUpgradeSwitch (fw_prefs w1) then SetNightUpgradeAlarm env w1 else w1)
      in dl_RemoveTask (ft_downloadTaskId task) w2)"

section \<open>The boot sound around a night upgrade\<close>

definition ProcessBeforeUpgrade :: "fw_env \<Rightarrow> FirmwareTask \<Rightarrow> fw \<Rightarrow> fw" where
  "ProcessBeforeUpgrade env task w =
     (if ft_upgradeMode task \<noteq> UM_NIGHT then w
      else if \<not> fe_bellSupported env then w
      else
        let isBellOn = fw_bellOn w; (ok, p) = SaveBellStatus isBellOn (fw_prefs w); w1 = w\<lparr>fw_prefs := p\<rparr>
        in if \<not> ok then w1 else if isBellOn then w1\<lparr>fw_bellOn := False\<rparr> else w1)"

definition ProcessAfterUpgrade :: "fw_env \<Rightarrow> FirmwareTask \<Rightarrow> fw \<Rightarrow> fw" where
  "ProcessAfterUpgrade env task w =
     (if ft_upgradeMode task \<noteq> UM_NIGHT then w
      else if \<not> prefs_GetBellStatus (fw_prefs w) then w
      else if \<not> fe_bellSupported env then w
      else w\<lparr>fw_bellOn := True, fw_prefs := snd (RemoveBellStatus (fw_prefs w))\<rparr>)"

end
