(* ===== verification/Firmware_Processor_Facts.thy ===== *)
theory Firmware_Processor_Facts
  imports Firmware_Processors
begin

text \<open>
  What the data processors do to the stored upgrade, stated over what the tables hold (the task, if there is
  one, and the list of components) and not over rows.
\<close>

section \<open>The stored upgrade\<close>

record upgrade =
  up_task :: "FirmwareTask option"
  up_components :: "FirmwareComponent list"

text \<open>The abstraction: the task as \<open>QueryTask\<close> sees it and all components.\<close>

definition upgrade_of :: "fw \<Rightarrow> upgrade" where
  "upgrade_of w =
     \<lparr>up_task = (let t = stored_task w in if ft_isExistTask t then Some t else None), up_components = stored_components w\<rparr>"

text \<open>The invariant of the tables: they are open, their key columns are texts, and there is at most one task.\<close>

definition fw_inv :: "fw \<Rightarrow> bool" where
  "fw_inv w = (fw_ok w \<and> length (task_view (fw_tasks w)) \<le> 1)"

lemma fw_inv_ok [dest]: "fw_inv w \<Longrightarrow> fw_ok w"
  by (simp add: fw_inv_def)

lemma fw_okD: "fw_ok w \<Longrightarrow> tasks_ok (fw_tasks w)" "fw_ok w \<Longrightarrow> components_ok (fw_components w)"
  by (simp_all add: fw_ok_def)

lemma up_components_of [simp]: "up_components (upgrade_of w) = stored_components w"
  by (simp add: upgrade_of_def)

lemma up_task_of: "up_task (upgrade_of w) =
    (case task_view (fw_tasks w) of [] \<Rightarrow> None | t # ts \<Rightarrow> Some (t\<lparr>ft_isExistTask := True\<rparr>))"
  by (simp add: upgrade_of_def QueryTask_view Let_def split: list.split)

lemma stored_task_exists: "ft_isExistTask (stored_task w) \<longleftrightarrow> up_task (upgrade_of w) \<noteq> None"
  by (simp add: upgrade_of_def Let_def)

lemma stored_task_eq: "up_task (upgrade_of w) = Some t \<Longrightarrow> QueryTask (fw_tasks w) t0 = t"
  by (auto simp: up_task_of QueryTask_view split: list.splits)

lemma no_stored_task: "up_task (upgrade_of w) = None \<Longrightarrow> QueryTask (fw_tasks w) t0 = t0\<lparr>ft_isExistTask := False\<rparr>"
  by (auto simp: up_task_of QueryTask_view split: list.splits)

lemma stored_task_flag: "up_task (upgrade_of w) = Some t \<Longrightarrow> ft_isExistTask t"
  by (auto simp: up_task_of split: list.splits)

lemma upgrade_cong:
  "fw_tasks w' = fw_tasks w \<Longrightarrow> fw_components w' = fw_components w \<Longrightarrow> upgrade_of w' = upgrade_of w"
  "fw_tasks w' = fw_tasks w \<Longrightarrow> fw_components w' = fw_components w \<Longrightarrow> fw_inv w' = fw_inv w"
  by (simp_all add: upgrade_of_def fw_inv_def fw_ok_def)

lemma NotifyEvent_sel [simp]:
  "fw_tasks (NotifyEvent d e s m cs p w) = fw_tasks w" "fw_components (NotifyEvent d e s m cs p w) = fw_components w"
  "fw_dl (NotifyEvent d e s m cs p w) = fw_dl w" "fw_prefs (NotifyEvent d e s m cs p w) = fw_prefs w"
  "fw_cache (NotifyEvent d e s m cs p w) = fw_cache w" "fw_bellOn (NotifyEvent d e s m cs p w) = fw_bellOn w"
  "fw_night (NotifyEvent d e s m cs p w) = fw_night w" "fw_autoTimer (NotifyEvent d e s m cs p w) = fw_autoTimer w"
  by (simp_all add: NotifyEvent_def)

lemma ProgressCallback_sel [simp]:
  "fw_tasks (ProgressCallback env d p w) = fw_tasks w" "fw_components (ProgressCallback env d p w) = fw_components w"
  "fw_dl (ProgressCallback env d p w) = fw_dl w" "fw_prefs (ProgressCallback env d p w) = fw_prefs w"
  "fw_cache (ProgressCallback env d p w) = fw_cache w" "fw_night (ProgressCallback env d p w) = fw_night w"
  "fw_bellOn (ProgressCallback env d p w) = fw_bellOn w" "fw_autoTimer (ProgressCallback env d p w) = fw_autoTimer w"
  by (simp_all add: ProgressCallback_def)

lemma alarm_sel [simp]:
  "fw_tasks (SetNightUpgradeAlarm env w) = fw_tasks w" "fw_components (SetNightUpgradeAlarm env w) = fw_components w"
  "fw_dl (SetNightUpgradeAlarm env w) = fw_dl w" "fw_prefs (SetNightUpgradeAlarm env w) = fw_prefs w"
  "fw_events (SetNightUpgradeAlarm env w) = fw_events w"
  "fw_tasks (CancelNightUpgradeAlarm w) = fw_tasks w" "fw_components (CancelNightUpgradeAlarm w) = fw_components w"
  by (simp_all add: SetNightUpgradeAlarm_def CancelNightUpgradeAlarm_def)

lemma dl_sel [simp]:
  "fw_tasks (dl_RemoveTask k w) = fw_tasks w" "fw_components (dl_RemoveTask k w) = fw_components w"
  "fw_tasks (DeleteDownloadFiles w) = fw_tasks w" "fw_components (DeleteDownloadFiles w) = fw_components w"
  "fw_events (dl_RemoveTask k w) = fw_events w" "fw_events (DeleteDownloadFiles w) = fw_events w"
  "fw_prefs (dl_RemoveTask k w) = fw_prefs w" "fw_prefs (DeleteDownloadFiles w) = fw_prefs w"
  by (simp_all add: dl_RemoveTask_def DeleteDownloadFiles_def)

section \<open>Abstract operations\<close>

definition up_clear :: upgrade where
  "up_clear = \<lparr>up_task = None, up_components = []\<rparr>"

definition up_adj_task :: "string \<Rightarrow> (FirmwareTask \<Rightarrow> FirmwareTask) \<Rightarrow> upgrade \<Rightarrow> upgrade" where
  "up_adj_task taskId f u = u\<lparr>up_task := map_option (\<lambda>t. if ft_taskId t = taskId then f t else t) (up_task u)\<rparr>"

definition up_adj_components :: "(FirmwareComponent \<Rightarrow> bool) \<Rightarrow> (FirmwareComponent \<Rightarrow> FirmwareComponent) \<Rightarrow> upgrade \<Rightarrow> upgrade" where
  "up_adj_components P f u = u\<lparr>up_components := map (\<lambda>c. if P c then f c else c) (up_components u)\<rparr>"

text \<open>A table operation that the tables implement: it keeps the invariant and acts on the stored upgrade as \<open>g\<close>.\<close>

definition implements :: "(fw \<Rightarrow> fw) \<Rightarrow> (upgrade \<Rightarrow> upgrade) \<Rightarrow> bool" where
  "implements f g = (\<forall>w. fw_inv w \<longrightarrow> fw_inv (f w) \<and> upgrade_of (f w) = g (upgrade_of w))"

lemma implementsD: "implements f g \<Longrightarrow> fw_inv w \<Longrightarrow> fw_inv (f w) \<and> upgrade_of (f w) = g (upgrade_of w)"
  by (simp add: implements_def)

lemma implements_comp: "implements f g \<Longrightarrow> implements f' g' \<Longrightarrow> implements (f' \<circ> f) (g' \<circ> g)"
  by (simp add: implements_def)

lemma implements_fold: "(\<And>x. implements (f x) (g x)) \<Longrightarrow> implements (fold f xs) (fold g xs)"
  by (induction xs) (simp_all add: implements_def)

lemma implements_tasks:
  assumes "\<And>db. tasks_ok db \<Longrightarrow> tasks_ok (snd (op db)) \<and>
      task_view (snd (op db)) = map (\<lambda>t. if ft_taskId t = k then f t else t) (task_view db)"
    and "\<And>t. (f t)\<lparr>ft_isExistTask := True\<rparr> = f (t\<lparr>ft_isExistTask := True\<rparr>)"
  shows "implements (on_tasks op) (up_adj_task k f)"
  unfolding implements_def
proof (intro allI impI conjI)
  fix w assume "fw_inv w"
  then have ok: "tasks_ok (fw_tasks w)" and len: "length (task_view (fw_tasks w)) \<le> 1" and "fw_ok w"
    by (auto simp: fw_inv_def fw_ok_def)
  note op = assms(1) [OF ok]
  show "fw_inv (on_tasks op w)" using op len \<open>fw_ok w\<close> by (simp add: fw_inv_def fw_ok_def)
  have "up_task (upgrade_of (on_tasks op w)) = up_task (up_adj_task k f (upgrade_of w))"
    using op assms(2) by (auto simp: up_task_of up_adj_task_def split: list.split)
  then show "upgrade_of (on_tasks op w) = up_adj_task k f (upgrade_of w)"
    by (intro upgrade.equality) (simp_all add: up_adj_task_def)
qed

lemma implements_components:
  assumes "\<And>db. components_ok db \<Longrightarrow> components_ok (snd (op db)) \<and>
      component_QueryAll (snd (op db)) = map (\<lambda>c. if P c then f c else c) (component_QueryAll db)"
  shows "implements (on_components op) (up_adj_components P f)"
  unfolding implements_def
proof (intro allI impI conjI)
  fix w assume inv: "fw_inv w"
  then have ok: "components_ok (fw_components w)" by (simp add: fw_inv_def fw_ok_def)
  show "fw_inv (on_components op w)" using assms [OF ok] inv by (simp add: fw_inv_def fw_ok_def)
  show "upgrade_of (on_components op w) = up_adj_components P f (upgrade_of w)"
    using assms [OF ok] by (simp add: upgrade_of_def up_adj_components_def)
qed

lemma task_operators:
  "implements (on_tasks (UpdateProgressByTaskId k s p)) (up_adj_task k (\<lambda>t. t\<lparr>ft_status := s, ft_progress := i32 p\<rparr>))"
  "implements (on_tasks (UpdateStatusByTaskId k s)) (up_adj_task k (\<lambda>t. t\<lparr>ft_status := s\<rparr>))"
  "implements (on_tasks (UpdateDownloadTaskIdByTaskId k d)) (up_adj_task k (\<lambda>t. t\<lparr>ft_downloadTaskId := d\<rparr>))"
  "implements (on_tasks (UpdateUpgradeModeByTaskId k m)) (up_adj_task k (\<lambda>t. t\<lparr>ft_upgradeMode := m\<rparr>))"
  "implements (on_tasks (UpdateDownloadOptionByTaskId k dm n o'))
     (up_adj_task k (\<lambda>t. t\<lparr>ft_downloadMode := dm, ft_downloadAllowNetwork := n, ft_downloadOrder := o'\<rparr>))"
  by (rule implements_tasks; simp add: view_UpdateTask)+

lemma component_operators:
  "implements (on_components (UpdateProgressByUrl u s p))
     (up_adj_components (\<lambda>c. fc_url c = u) (\<lambda>c. c\<lparr>fc_status := s, fc_progress := i32 p\<rparr>))"
  "implements (on_components (UpdateStatusByUrl u s)) (up_adj_components (\<lambda>c. fc_url c = u) (\<lambda>c. c\<lparr>fc_status := s\<rparr>))"
  "implements (on_components (UpdateUrlByVersionId v u)) (up_adj_components (\<lambda>c. fc_versionId c = v) (\<lambda>c. c\<lparr>fc_url := u\<rparr>))"
  "implements (on_components (UpdateProgressByVersionId v s p))
     (up_adj_components (\<lambda>c. fc_versionId c = v) (\<lambda>c. c\<lparr>fc_status := s, fc_progress := i32 p\<rparr>))"
  "implements (on_components (UpdateRecordPointByUrl u r))
     (up_adj_components (\<lambda>c. fc_url c = u) (\<lambda>c. c\<lparr>fc_recordPoint := i64 (i32 r)\<rparr>))"
  by (rule implements_components; simp add: view_UpdateComponent)+

lemma ClearFirmwareInfo_implements: "implements ClearFirmwareInfo (\<lambda>u. up_clear)"
  by (auto simp: implements_def fw_inv_def ClearFirmwareInfo_sel upgrade_of_def up_clear_def QueryTask_view Let_def)

text \<open>Whatever leaves the two tables alone implements the identity.\<close>

lemma implements_id:
  assumes "\<And>w. fw_tasks (f w) = fw_tasks w" "\<And>w. fw_components (f w) = fw_components w"
  shows "implements f (\<lambda>u. u)"
  unfolding implements_def using upgrade_cong [OF assms] by blast

section \<open>A check result\<close>

lemma stored_after_insert:
  assumes "fw_inv w" "task_view (fw_tasks w) = []" "stored_components w = []" "\<forall>c \<in> set cs. component_valid c" "task_valid t"
  shows "let w' = on_tasks (table_Insert task_BuildDbValue [t]) (on_components (table_Insert component_BuildDbValue cs) w)
    in fw_inv w' \<and> map component_keep (stored_components w') = map component_keep cs
      \<and> map_option task_keep (up_task (upgrade_of w')) = Some (task_keep t)"
proof -
  have up: "tb_up (fw_tasks w)" "tb_up (fw_components w)" and ok: "tasks_ok (fw_tasks w)" "components_ok (fw_components w)"
    using assms(1) by (auto simp: fw_inv_def fw_ok_def tasks_ok_def components_ok_def)
  have rows: "tb_rows (fw_tasks w) = []" "tb_rows (fw_components w) = []"
    using assms(2,3) up by (simp_all add: task_view_def component_QueryAll_def)
  let ?T = "snd (table_Insert task_BuildDbValue [t] (fw_tasks w))"
  have "map task_keep (task_view ?T) = [task_keep t]"
    using task_codec.query_after_insert [OF up(1) rows(1), of "[t]"] assms(5) by (simp add: task_view_def)
  then obtain t' where t': "task_view ?T = [t']" "task_keep t' = task_keep t" by auto
  moreover have "map component_keep (component_QueryAll (snd (table_Insert component_BuildDbValue cs (fw_components w))))
      = map component_keep cs"
    using component_codec.query_after_insert [OF up(2) rows(2), of cs] assms(4) by (simp add: component_QueryAll_def)
  moreover have "task_keep (t'\<lparr>ft_isExistTask := True\<rparr>) = task_keep t'" by (simp add: task_keep_def)
  ultimately show ?thesis
    using ok by (simp add: Let_def fw_inv_def fw_ok_def up_task_of)
qed

lemma find_filter: "find P xs = (case filter P xs of [] \<Rightarrow> None | x # ys \<Rightarrow> Some x)"
  by (induction xs) auto

lemma i32_i32 [simp]: "i32 (i32 x) = i32 x"
  by (simp add: i32_def)

lemma QueryByVersionId_view:
  assumes "components_ok db"
  shows "QueryByVersionId v db = find (\<lambda>c. fc_versionId c = v) (component_QueryAll db)"
proof -
  have "table_Query component_ParseDbValue [(''versionId'', DbStr v)] db
      = (True, filter (\<lambda>c. fc_versionId c = v) (component_QueryAll db))"
    using component_version.query_by_key [of db v] assms
    by (auto simp: components_ok_def component_QueryAll_def table_Query_def prod_eq_iff)
  then show ?thesis
    by (simp add: QueryByVersionId_def find_filter split: list.split)
qed

lemma find_unique:
  assumes "distinct (map f xs)" "find (\<lambda>x. f x = k) xs = Some d" "x \<in> set xs" "f x = k"
  shows "x = d"
  using assms by (induction xs) (auto split: if_splits simp: rev_image_eqI)

lemma BuildComponentSPath_valid: "\<forall>c \<in> set cs. component_valid c \<Longrightarrow> \<forall>c \<in> set (BuildComponentSPath cs). component_valid c"
  by (auto simp: BuildComponentSPath_def component_valid_def)

definition checked_task :: "fw_env \<Rightarrow> FirmwareComponent list \<Rightarrow> FirmwareTask" where
  "checked_task env cs = new_firmware_task\<lparr>ft_taskId := BuildTaskId (fe_sha env) cs, ft_status := US_CHECK_VERSION_SUCCESS,
     ft_isStreamUpgrade := IsStreamUpgrade cs, ft_combinationType := GetCombinationType cs\<rparr>"

text \<open>A new version replaces whatever was stored: exactly the server's components and one task for them remain.\<close>

lemma HandleNewVersion_stores:
  assumes inv: "fw_inv w" and new: "\<not> IsVersionSameWithDb (cp_componentList c) w"
    and valid: "\<forall>x \<in> set (cp_componentList c). component_valid x"
  shows "let (c', w') = HandleNewVersion env c w; cs = BuildComponentSPath (cp_componentList c) in
    fw_inv w' \<and> map component_keep (stored_components w') = map component_keep cs
    \<and> map_option task_keep (up_task (upgrade_of w')) = Some (task_keep (checked_task env cs))
    \<and> cp_componentList c' = cs \<and> \<not> cp_isSameWithDb c' \<and> cp_status c' = cp_status c \<and> fw_events w' = fw_events w"
proof -
  let ?cs = "BuildComponentSPath (cp_componentList c)"
  have cleared: "fw_inv (ClearFirmwareInfo w)" "task_view (fw_tasks (ClearFirmwareInfo w)) = []"
    "stored_components (ClearFirmwareInfo w) = []"
    using inv ClearFirmwareInfo_sel(1-3) [of w] by (auto simp: fw_inv_def)
  have "task_valid (checked_task env ?cs)" by (simp add: task_valid_def checked_task_def new_firmware_task_def is_i32_def is_i64_def)
  from stored_after_insert [OF cleared BuildComponentSPath_valid [OF valid] this] new show ?thesis
    by (simp add: HandleNewVersion_def Let_def checked_task_def ClearFirmwareInfo_sel)
qed

text \<open>
  The addresses are refreshed by version, and a version that counts as unchanged has the address of the first stored
  component of that version. So the refresh gives every stored component whose version is offered the address of the first
  one with the same version: its own, when the versions are distinct, somebody else's when they are not.
\<close>

definition first_version :: "upgrade \<Rightarrow> string \<Rightarrow> FirmwareComponent option" where
  "first_version u v = find (\<lambda>c. fc_versionId c = v) (up_components u)"

definition share_url :: "upgrade \<Rightarrow> FirmwareComponent \<Rightarrow> FirmwareComponent" where
  "share_url u c = (case first_version u (fc_versionId c) of None \<Rightarrow> c | Some d \<Rightarrow> c\<lparr>fc_url := fc_url d\<rparr>)"

definition up_refresh :: "FirmwareComponent list \<Rightarrow> upgrade \<Rightarrow> upgrade" where
  "up_refresh cs u =
     u\<lparr>up_components := map (\<lambda>c. if list_ex (\<lambda>s. fc_versionId s = fc_versionId c) cs then share_url u c else c)
        (up_components u)\<rparr>"

lemma up_refresh_Nil: "up_refresh [] u = u"
  by (simp add: up_refresh_def)

lemma share_url_version [simp]: "fc_versionId (share_url u c) = fc_versionId c"
  by (simp add: share_url_def split: option.split)

lemma up_refresh_snoc:
  assumes "first_version u (fc_versionId s) = Some d" "fc_url d = fc_url s"
  shows "up_adj_components (\<lambda>x. fc_versionId x = fc_versionId s) (\<lambda>x. x\<lparr>fc_url := fc_url s\<rparr>) (up_refresh cs u) = up_refresh (cs @ [s]) u"
  using assms by (auto simp: up_refresh_def up_adj_components_def share_url_def split: option.split)

text \<open>With distinct versions nothing changes.\<close>

lemma up_refresh_distinct:
  assumes "distinct (map fc_versionId (up_components u))"
  shows "up_refresh cs u = u"
proof -
  have "share_url u c = c" if "c \<in> set (up_components u)" for c
    using find_unique [OF assms _ that refl] by (auto simp: share_url_def first_version_def split: option.split)
  then have "map (\<lambda>c. if list_ex (\<lambda>s. fc_versionId s = fc_versionId c) cs then share_url u c else c) (up_components u)
      = up_components u"
    by (intro map_idI) simp
  then show ?thesis by (simp add: up_refresh_def)
qed

lemma UpdateFirmwareComponent_same:
  assumes inv: "fw_inv w" and same: "IsVersionSameWithDb cs w"
  shows "upgrade_of (UpdateFirmwareComponent cs w) =
     (case up_task (upgrade_of w) of
        Some t \<Rightarrow> if ft_status t = US_CHECK_VERSION_SUCCESS then up_refresh cs (upgrade_of w) else upgrade_of w
      | None \<Rightarrow> upgrade_of w)"
proof -
  have ok: "components_ok (fw_components w)" using inv by (simp add: fw_inv_def fw_ok_def)
  have first: "\<exists>d. first_version (upgrade_of w) (fc_versionId c) = Some d \<and> fc_url d = fc_url c" if c: "c \<in> set cs" for c
    using same c by (auto simp: IsVersionSameWithDb_def list_all_iff QueryByVersionId_view [OF ok] first_version_def
        split: if_splits option.splits)
  have "fw_inv (fold (\<lambda>c. on_components (UpdateUrlByVersionId (fc_versionId c) (fc_url c))) cs' v)
     \<and> upgrade_of (fold (\<lambda>c. on_components (UpdateUrlByVersionId (fc_versionId c) (fc_url c))) cs' v)
        = up_refresh (ds @ cs') (upgrade_of w)"
    if "set cs' \<subseteq> set cs" "fw_inv v" "upgrade_of v = up_refresh ds (upgrade_of w)" for cs' v ds
    using that
  proof (induction cs' arbitrary: v ds)
    case (Cons c cs')
    obtain d where "first_version (upgrade_of w) (fc_versionId c) = Some d" "fc_url d = fc_url c"
      using first [of c] Cons.prems(1) by auto
    from up_refresh_snoc [OF this, of ds] show ?case
      using implementsD [OF component_operators(3) Cons.prems(2)] Cons.IH [of _ "ds @ [c]"] Cons.prems by simp
  qed simp
  from this [of cs w "[]"] inv show ?thesis
    by (auto simp: UpdateFirmwareComponent_def Let_def up_refresh_Nil stored_task_exists stored_task_eq split: option.split)
qed

lemma HandleNoNewVersion_clears:
  assumes "fw_inv w"
  shows "fw_inv (HandleNoNewVersion w)" "upgrade_of (HandleNoNewVersion w) = up_clear"
    "fw_events (HandleNoNewVersion w) = fw_events w @
       (case up_task (upgrade_of w) of None \<Rightarrow> []
        | Some t \<Rightarrow> [\<lparr>ev_channel = NOTIFY, ev_id = EVENT_TASK_CANCEL, ev_digest = ft_taskId t, ev_status = US_INIT,
                      ev_progress = 0, ev_errors = [new_error_message], ev_components = []\<rparr>])"
proof -
  have notify: "fw_inv (NotifyEvent d e s m cs p w)" for d e s m cs p
    using assms upgrade_cong(2) [of "NotifyEvent d e s m cs p w" w] by simp
  show "fw_inv (HandleNoNewVersion w)" "upgrade_of (HandleNoNewVersion w) = up_clear"
    using implementsD [OF ClearFirmwareInfo_implements] notify assms by (auto simp: HandleNoNewVersion_def Let_def)
  show "fw_events (HandleNoNewVersion w) = fw_events w @
       (case up_task (upgrade_of w) of None \<Rightarrow> []
        | Some t \<Rightarrow> [\<lparr>ev_channel = NOTIFY, ev_id = EVENT_TASK_CANCEL, ev_digest = ft_taskId t, ev_status = US_INIT,
                      ev_progress = 0, ev_errors = [new_error_message], ev_components = []\<rparr>])"
    by (auto simp: HandleNoNewVersion_def Let_def ClearFirmwareInfo_sel stored_task_exists NotifyEvent_def stored_task_eq
        split: option.split)
qed

section \<open>Download progress\<close>

text \<open>The recorded percentage never goes back, whatever the download reports, and the task row follows it.\<close>

lemma SetDownloadCallbackInfo_spec:
  assumes inv: "fw_inv w" and task: "up_task (upgrade_of w) = Some t"
  shows "let (d', w') = SetDownloadCallbackInfo env info d w; p = max (pg_percent (fd_taskProgress info)) (pg_percent (dd_progress d)) in
    fw_inv w' \<and> pg_percent (dd_progress d') = p \<and> pg_status (dd_progress d') = pg_status (fd_taskProgress info)
    \<and> pg_endReason (dd_progress d') = pg_endReason (fd_taskProgress info)
    \<and> up_task (upgrade_of w') = Some (t\<lparr>ft_status := pg_status (fd_taskProgress info), ft_progress := i32 p\<rparr>)
    \<and> fw_prefs w' = fw_prefs w \<and> fw_dl w' = fw_dl w"
proof -
  let ?p = "max (pg_percent (fd_taskProgress info)) (pg_percent (dd_progress d))"
  let ?comp = "\<lambda>cp. on_components (UpdateProgressByVersionId (fp_versionId cp) (pg_status (fp_progress cp)) (i32 (pg_percent (fp_progress cp))))"
  have same: "up_task (upgrade_of (fold ?comp cps v)) = up_task (upgrade_of v) \<and> fw_inv (fold ?comp cps v)
      \<and> fw_prefs (fold ?comp cps v) = fw_prefs v \<and> fw_dl (fold ?comp cps v) = fw_dl v"
    if "fw_inv v" for cps v
    using that
  proof (induction cps arbitrary: v)
    case (Cons c cps)
    have "fw_inv (?comp c v)" "up_task (upgrade_of (?comp c v)) = up_task (upgrade_of v)"
      using implementsD [OF component_operators(4) Cons.prems] by (simp_all add: up_adj_components_def)
    with Cons.IH [of "?comp c v"] show ?case by simp
  qed simp
  let ?k = "ft_taskId t" and ?s = "pg_status (fd_taskProgress info)"
  define w1 where "w1 = fold ?comp (fd_progressList info) w"
  define w2 where "w2 = on_tasks (UpdateProgressByTaskId ?k ?s (i32 ?p)) w1"
  define w3 where "w3 = ProgressCallback env ?k ((fd_taskProgress info)\<lparr>pg_percent := ?p\<rparr>) w2"
  have w1: "fw_inv w1" "up_task (upgrade_of w1) = Some t" "fw_prefs w1 = fw_prefs w" "fw_dl w1 = fw_dl w"
    using same [OF inv, of "fd_progressList info"] task by (simp_all add: w1_def)
  have w2: "fw_inv w2" "up_task (upgrade_of w2) = Some (t\<lparr>ft_status := ?s, ft_progress := i32 ?p\<rparr>)"
    using implementsD [OF task_operators(1) w1(1)] w1(2) by (simp_all add: up_adj_task_def w2_def)
  have w3: "fw_inv w3" "upgrade_of w3 = upgrade_of w2" "fw_prefs w3 = fw_prefs w" "fw_dl w3 = fw_dl w"
    using w2(1) upgrade_cong [of w3 w2] w1 by (simp_all add: w3_def w2_def)
  have "SetDownloadCallbackInfo env info d w =
      (d\<lparr>dd_tasks := t, dd_progress := (fd_taskProgress info)\<lparr>pg_percent := ?p\<rparr>\<rparr>, w3)"
    by (simp add: SetDownloadCallbackInfo_def Let_def stored_task_eq [OF task] w1_def w2_def w3_def)
  then show ?thesis using w2(2) w3 by (simp add: Let_def)
qed

section \<open>After a download\<close>

text \<open>Writing the same values to all components by their key reaches every one of them.\<close>

lemma fold_adj_components:
  assumes "\<And>x. key (f x) = key x" "\<And>x. f (f x) = f x"
  shows "fold (\<lambda>c. up_adj_components (\<lambda>x. key x = key c) f) cs u
    = u\<lparr>up_components := map (\<lambda>x. if key x \<in> key ` set cs then f x else x) (up_components u)\<rparr>"
proof (induction cs arbitrary: u)
  case Nil
  then show ?case by simp
next
  case (Cons c cs)
  then show ?case using assms by (auto simp: up_adj_components_def)
qed

lemma adj_all_components:
  assumes "\<And>x. key (f x) = key x" "\<And>x. f (f x) = f x"
  shows "fold (\<lambda>c. up_adj_components (\<lambda>x. key x = key c) f) (up_components u) u = u\<lparr>up_components := map f (up_components u)\<rparr>"
  unfolding fold_adj_components [of key f, OF assms] by simp

definition reset_component :: "FirmwareComponent \<Rightarrow> FirmwareComponent" where
  "reset_component c = c\<lparr>fc_status := US_CHECK_VERSION_SUCCESS, fc_progress := 0\<rparr>"

lemma reset_by_url:
  assumes "fw_inv w"
  shows "let w' = fold (\<lambda>c. on_components (UpdateProgressByUrl (fc_url c) US_CHECK_VERSION_SUCCESS 0)) (stored_components w) w
    in fw_inv w' \<and> upgrade_of w' = (upgrade_of w)\<lparr>up_components := map reset_component (stored_components w)\<rparr>"
proof -
  have zero: "i32 0 = 0" by (simp add: i32_def)
  have "implements (fold (\<lambda>c. on_components (UpdateProgressByUrl (fc_url c) US_CHECK_VERSION_SUCCESS 0)) (stored_components w))
      (fold (\<lambda>c. up_adj_components (\<lambda>x. fc_url x = fc_url c) reset_component) (up_components (upgrade_of w)))"
    using component_operators(1) [of _ US_CHECK_VERSION_SUCCESS 0]
    by (simp, intro implements_fold) (simp add: reset_component_def [abs_def] zero)
  from implementsD [OF this assms] show ?thesis
    using adj_all_components [of fc_url reset_component "upgrade_of w"] by (simp add: Let_def reset_component_def)
qed

text \<open>A cancelled download leaves the upgrade as the check found it, with no download task and no downloaded file.\<close>

lemma DownloadCancelProcess_spec:
  assumes inv: "fw_inv w" and task: "up_task (upgrade_of w) = Some t"
  shows "fw_inv (DownloadCancelProcess t e w)"
    "upgrade_of (DownloadCancelProcess t e w) =
       \<lparr>up_task = Some (t\<lparr>ft_status := US_CHECK_VERSION_SUCCESS, ft_progress := 0, ft_downloadTaskId := []\<rparr>),
        up_components = map reset_component (stored_components w)\<rparr>"
proof -
  define w1 where "w1 = NotifyEvent (ft_taskId t) EVENT_DOWNLOAD_CANCEL US_DOWNLOAD_CANCEL e [] 0 w"
  define w2 where "w2 = on_tasks (UpdateProgressByTaskId (ft_taskId t) US_CHECK_VERSION_SUCCESS 0) w1"
  define w3 where "w3 = fold (\<lambda>c. on_components (UpdateProgressByUrl (fc_url c) US_CHECK_VERSION_SUCCESS 0)) (stored_components w2) w2"
  define w4 where "w4 = dl_RemoveTask (ft_downloadTaskId t) w3"
  define w5 where "w5 = on_tasks (UpdateDownloadTaskIdByTaskId (ft_taskId t) []) w4"
  define w6 where "w6 = DeleteDownloadFiles w5"
  have "DownloadCancelProcess t e w = w6"
    by (simp add: DownloadCancelProcess_def Let_def w1_def w2_def w3_def w4_def w5_def w6_def)
  moreover have s1: "fw_inv w1" "upgrade_of w1 = upgrade_of w" using inv upgrade_cong [of w1 w] by (simp_all add: w1_def)
  moreover have s2: "fw_inv w2" "upgrade_of w2 = (upgrade_of w)\<lparr>up_task := Some (t\<lparr>ft_status := US_CHECK_VERSION_SUCCESS, ft_progress := 0\<rparr>)\<rparr>"
    using implementsD [OF task_operators(1) s1(1)] s1(2) task by (simp_all add: up_adj_task_def w2_def i32_def)
  moreover have s3: "fw_inv w3" "upgrade_of w3 = (upgrade_of w2)\<lparr>up_components := map reset_component (stored_components w2)\<rparr>"
    using reset_by_url [OF s2(1)] by (simp_all add: Let_def w3_def)
  moreover have s4: "fw_inv w4" "upgrade_of w4 = upgrade_of w3" using s3(1) upgrade_cong [of w4 w3] by (simp_all add: w4_def)
  moreover have s5: "fw_inv w5" "upgrade_of w5 = up_adj_task (ft_taskId t) (\<lambda>t. t\<lparr>ft_downloadTaskId := []\<rparr>) (upgrade_of w4)"
    using implementsD [OF task_operators(3) s4(1)] by (simp_all add: w5_def)
  moreover have s6: "fw_inv w6" "upgrade_of w6 = upgrade_of w5" using s5(1) upgrade_cong [of w6 w5] by (simp_all add: w6_def)
  moreover have "stored_components w2 = stored_components w" using arg_cong [OF s2(2), of up_components] by simp
  ultimately show "fw_inv (DownloadCancelProcess t e w)"
    "upgrade_of (DownloadCancelProcess t e w) =
       \<lparr>up_task = Some (t\<lparr>ft_status := US_CHECK_VERSION_SUCCESS, ft_progress := 0, ft_downloadTaskId := []\<rparr>),
        up_components = map reset_component (stored_components w)\<rparr>"
    by (simp_all add: up_adj_task_def)
qed

lemma DownloadFailProcess_implements: "implements (DownloadFailProcess t e) (\<lambda>u. up_clear)"
proof -
  have "implements (ClearFirmwareInfo \<circ> NotifyEvent (ft_taskId t) EVENT_DOWNLOAD_FAIL US_DOWNLOAD_FAIL e [] 0) ((\<lambda>u. up_clear) \<circ> (\<lambda>u. u))"
    by (rule implements_comp [OF implements_id ClearFirmwareInfo_implements]) simp_all
  then show ?thesis by (simp add: DownloadFailProcess_def [abs_def] comp_def)
qed

lemma download_process_id:
  "implements (DownloadPauseProcess t e) (\<lambda>u. u)" "implements (DownloadSuccessProcess env t e) (\<lambda>u. u)"
  by (rule implements_id; simp add: DownloadPauseProcess_def DownloadSuccessProcess_def Let_def)+

section \<open>The boot sound\<close>

text \<open>What is switched off before a night upgrade is switched on again after it, also across a restart.\<close>

lemma bell_restored:
  assumes "pr_up (fw_prefs w)" "fe_bellSupported env" "fe_bellSupported env'"
  shows "fw_bellOn (ProcessAfterUpgrade env' t (ProcessBeforeUpgrade env t w)) = fw_bellOn w"
    "ft_upgradeMode t = UM_NIGHT \<Longrightarrow> \<not> fw_bellOn (ProcessBeforeUpgrade env t w)"
    "ft_upgradeMode t = UM_NIGHT \<Longrightarrow> \<not> prefs_GetBellStatus (fw_prefs (ProcessAfterUpgrade env' t w))"
  using assms
  by (auto simp: ProcessAfterUpgrade_def ProcessBeforeUpgrade_def Let_def SaveBellStatus_def prefs_Save_def
      prefs_GetBellStatus_def ObtainBool_def RemoveBellStatus_def prefs_Remove_def)

end
