(* ===== verification/Firmware_Modes.thy ===== *)
theory Firmware_Modes
  imports Firmware_Processor_Facts
begin

text \<open>
  The five upgrade modes, \<open>services/firmware/upgrade/mode/src\<close>: a mode is the part of a flow that decides, after each
  step, what the next step is. Each is a record of the members of its class; \<open>GetNextStep\<close> gives the next step, the mode
  and the world afterwards. Their contract is the locale \<open>execute_mode\<close>.
\<close>

section \<open>Steps and options\<close>

datatype FirmwareStep = ST_INIT | CHECK_STEP | DOWNLOAD_STEP | AUTH_STEP | INSTALL_STEP | APPLY_STEP | COMPLETE

fun step_code :: "FirmwareStep \<Rightarrow> nat" where
  "step_code ST_INIT = 0" | "step_code CHECK_STEP = 1" | "step_code DOWNLOAD_STEP = 2" | "step_code AUTH_STEP = 3"
| "step_code INSTALL_STEP = 4" | "step_code APPLY_STEP = 5" | "step_code COMPLETE = 10"

record DownloadOptions =
  do_allowNetwork :: NetType
  do_order :: Order

definition new_download_options :: DownloadOptions where
  "new_download_options = \<lparr>do_allowNetwork = WIFI, do_order = O_DOWNLOAD\<rparr>"

record UpgradeOptions =
  uo_order :: Order

definition new_upgrade_options :: UpgradeOptions where
  "new_upgrade_options = \<lparr>uo_order = O_INSTALL\<rparr>"

abbreviation DUPDATE_ERR_LOW_BATTERY_LEVEL :: int where "DUPDATE_ERR_LOW_BATTERY_LEVEL \<equiv> - 830"
abbreviation DUPDATE_ERR_UPDATE_COMMON_ERROR :: int where "DUPDATE_ERR_UPDATE_COMMON_ERROR \<equiv> - 400"
abbreviation DUPDATE_ERR_SYSTEM_BUSY_ON_INSTALL :: int where "DUPDATE_ERR_SYSTEM_BUSY_ON_INSTALL \<equiv> - 407"
abbreviation DUPDATE_ERR_UPDATE_PRECHECK_FAIL :: int where "DUPDATE_ERR_UPDATE_PRECHECK_FAIL \<equiv> - 420"
abbreviation DUPDATE_ERR_DOWNLOAD_COMMON_ERROR :: int where "DUPDATE_ERR_DOWNLOAD_COMMON_ERROR \<equiv> - 300"
abbreviation DUPDATE_ERR_DLOAD_REQUEST_FAIL :: int where "DUPDATE_ERR_DLOAD_REQUEST_FAIL \<equiv> - 301"
abbreviation DUPDATE_ERR_NO_ENOUGH_MEMORY :: int where "DUPDATE_ERR_NO_ENOUGH_MEMORY \<equiv> - 304"
abbreviation DUPDATE_ERR_SYSTEM_BUSY_ON_DOWNLOAD :: int where "DUPDATE_ERR_SYSTEM_BUSY_ON_DOWNLOAD \<equiv> - 307"
abbreviation DUPDATE_ERR_SYSTEM_BUSY_ON_CHECK :: int where "DUPDATE_ERR_SYSTEM_BUSY_ON_CHECK \<equiv> - 207"
abbreviation DUPDATE_ERR_INPUT_PARA_ERROR :: int where "DUPDATE_ERR_INPUT_PARA_ERROR \<equiv> - 106"
abbreviation NET_ERROR :: int where "NET_ERROR \<equiv> - 2"
abbreviation MANUAL_UPGRADE_BATTERY_LEVEL :: int where "MANUAL_UPGRADE_BATTERY_LEVEL \<equiv> 30"

definition fail_with :: "string \<Rightarrow> int \<Rightarrow> string \<Rightarrow> BusinessError \<Rightarrow> BusinessError" where
  "fail_with msg code text e = AddErrorMessage code text (be_Build CR_FAIL msg e)"

definition net_ok :: "fw_env \<Rightarrow> NetType \<Rightarrow> bool" where
  "net_ok env t = net_available (fe_net env) t"

section \<open>\<open>FirmwareManualCheckMode\<close>\<close>

record manual_mode =
  mc_proc :: check_proc
  mc_error :: BusinessError

definition new_manual_mode :: manual_mode where
  "new_manual_mode = \<lparr>mc_proc = new_check_proc, mc_error = new_business_error\<rparr>"

definition manual_GetStepAfterInit :: "fw_env \<Rightarrow> manual_mode \<Rightarrow> fw \<Rightarrow> FirmwareStep \<times> manual_mode" where
  "manual_GetStepAfterInit env m w =
     (if IsChecking (fe_now env) (fw_cache w)
      then (COMPLETE, m\<lparr>mc_error := fail_with ''system busy!'' DUPDATE_ERR_SYSTEM_BUSY_ON_CHECK
                          ''checkNewVersion is checking!'' (mc_error m)\<rparr>)
      else if IsUpdateOnStatus w
      then (COMPLETE, m\<lparr>mc_error := fail_with ''system busy!'' DUPDATE_ERR_SYSTEM_BUSY_ON_INSTALL
                          ''system is updating!'' (mc_error m)\<rparr>)
      else if \<not> net_ok env CELLULAR_AND_WIFI
      then (COMPLETE, m\<lparr>mc_error := fail_with ''CheckNewVersionService no network!'' NET_ERROR
                          ''CheckNewVersionService no network !'' (mc_error m)\<rparr>)
      else (CHECK_STEP, m))"

definition manual_GetStepAfterCheck :: "manual_mode \<Rightarrow> fw \<Rightarrow> FirmwareStep \<times> fw" where
  "manual_GetStepAfterCheck m w =
     (if IsCheckFailed (mc_proc m) \<or> cp_isSameWithDb (mc_proc m) \<or> \<not> HasNewVersion (mc_proc m) then (COMPLETE, w)
      else
        let task = stored_task w;
            w1 = (if ft_status task = US_CHECK_VERSION_SUCCESS then
                    let w0 = NotifyEvent (ft_taskId task) EVENT_TASK_RECEIVE US_CHECK_VERSION_SUCCESS new_error_message [] 0 w
                    in if \<not> ObtainBool ''auto_download_switch'' False (fw_prefs w0)
                       then NotifyEvent (ft_taskId task) EVENT_DOWNLOAD_WAIT US_CHECK_VERSION_SUCCESS new_error_message [] 0 w0
                       else w0
                  else w)
        in (COMPLETE, w1))"

definition manual_GetNextStep :: "fw_env \<Rightarrow> FirmwareStep \<Rightarrow> manual_mode \<Rightarrow> fw \<Rightarrow> FirmwareStep \<times> manual_mode \<times> fw" where
  "manual_GetNextStep env step m w =
     (case step of
        ST_INIT \<Rightarrow> (let (s, m1) = manual_GetStepAfterInit env m w in (s, m1, w))
      | CHECK_STEP \<Rightarrow> (let (s, w1) = manual_GetStepAfterCheck m w in (s, m, w1))
      | _ \<Rightarrow> (COMPLETE, m, w))"

definition manual_SetCheckResult ::
  "fw_env \<Rightarrow> CheckStatus \<Rightarrow> int \<Rightarrow> FirmwareComponent list \<Rightarrow> manual_mode \<Rightarrow> fw \<Rightarrow> manual_mode \<times> fw" where
  "manual_SetCheckResult env status duration cs m w =
     (let (c, w1) = check_SetCheckResult env status duration cs (mc_proc m) w in (m\<lparr>mc_proc := c\<rparr>, w1))"

text \<open>What the caller of the check receives.\<close>

definition manual_HandleComplete :: "fw_env \<Rightarrow> manual_mode \<Rightarrow> fw \<Rightarrow> BusinessError \<times> CheckResult" where
  "manual_HandleComplete env m w = (mc_error m, BuildCheckResult env (mc_proc m) w)"

section \<open>\<open>FirmwareAutoUpgradeMode\<close>\<close>

record auto_mode =
  au_check :: check_proc
  au_install :: FirmwareTask
  au_download :: "download_proc option"
  au_task :: FirmwareTask

definition new_auto_mode :: auto_mode where
  "new_auto_mode = \<lparr>au_check = new_check_proc, au_install = new_firmware_task, au_download = None, au_task = new_firmware_task\<rparr>"

definition auto_GetDownloadDataProcessor :: "auto_mode \<Rightarrow> fw \<Rightarrow> download_proc \<times> auto_mode" where
  "auto_GetDownloadDataProcessor m w =
     (case au_download m of
        Some d \<Rightarrow> (d, m)
      | None \<Rightarrow> (let d = new_download_proc w in (d, m\<lparr>au_download := Some d\<rparr>)))"

definition auto_GetStepAfterInit :: "fw_env \<Rightarrow> auto_mode \<Rightarrow> fw \<Rightarrow> FirmwareStep \<times> auto_mode \<times> fw" where
  "auto_GetStepAfterInit env m w =
     (let w1 = RefreshAutoUpgradeAlarm env w in
      if \<not> net_ok env CELLULAR_AND_WIFI
      then (COMPLETE, m, w1\<lparr>fw_prefs := snd (SaveNeedRetryCheckFlag True (fw_prefs w1))\<rparr>)
      else if IsChecking (fe_now env) (fw_cache w1) then (COMPLETE, m, w1)
      else
        let m1 = m\<lparr>au_task := QueryTask (fw_tasks w1) (au_task m)\<rparr> in
        if ft_status (au_task m1) = US_DOWNLOADING \<or> ft_status (au_task m1) = US_UPDATING then (COMPLETE, m1, w1)
        else (CHECK_STEP, m1, w1))"

definition auto_HandlePreDownloadStep :: "fw_env \<Rightarrow> auto_mode \<Rightarrow> fw \<Rightarrow> FirmwareStep \<times> auto_mode \<times> fw" where
  "auto_HandlePreDownloadStep env m w =
     (let m1 = m\<lparr>au_task := QueryTask (fw_tasks w) (au_task m)\<rparr>; task = au_task m1; s = ft_status task in
      if \<not> ft_isExistTask task then (COMPLETE, m1, w)
      else if s = US_DOWNLOAD_SUCCESS then (COMPLETE, m1, DownloadSuccessProcess env task new_error_message w)
      else if s \<noteq> US_CHECK_VERSION_SUCCESS \<and> s \<noteq> US_DOWNLOAD_FAIL \<and> s \<noteq> US_DOWNLOAD_PAUSE then (COMPLETE, m1, w)
      else if s = US_DOWNLOADING then (COMPLETE, m1, w)
      else
        let (_, m2) = auto_GetDownloadDataProcessor m1 w in
        if \<not> fst (download_IsSpaceEnough env w) then (COMPLETE, m2, w) else (DOWNLOAD_STEP, m2, w))"

definition auto_GetStepAfterCheck :: "fw_env \<Rightarrow> auto_mode \<Rightarrow> fw \<Rightarrow> FirmwareStep \<times> auto_mode \<times> fw" where
  "auto_GetStepAfterCheck env m w =
     (if IsCheckFailed (au_check m)
      then (COMPLETE, m, w\<lparr>fw_prefs := snd (SaveNeedRetryCheckFlag True (fw_prefs w))\<rparr>)
      else if \<not> GetAutoDownloadSwitch (fw_prefs w) then
        let m1 = m\<lparr>au_task := QueryTask (fw_tasks w) (au_task m)\<rparr>; task = au_task m1;
            w1 = (if HasNewVersion (au_check m) \<and> ft_isExistTask task \<and> ft_status task = US_CHECK_VERSION_SUCCESS
                  then NotifyEvent (ft_taskId task) EVENT_DOWNLOAD_WAIT US_CHECK_VERSION_SUCCESS new_error_message [] 0 w
                  else w)
        in (COMPLETE, m1, w1)
      else auto_HandlePreDownloadStep env m w)"

text \<open>The error code of what ended the download, and what follows by the status of the stored task.\<close>

definition download_error :: "Progress \<Rightarrow> ErrorMessage" where
  "download_error p = new_error_message\<lparr>em_errorCode :=
     snd (DecStringToNumber (- 2147483648) 2147483647 (pg_endReason p) (em_errorCode new_error_message))\<rparr>"

definition after_download :: "fw_env \<Rightarrow> FirmwareTask \<Rightarrow> ErrorMessage \<Rightarrow> fw \<Rightarrow> fw" where
  "after_download env task err w =
     (case ft_status task of
        US_DOWNLOAD_PAUSE \<Rightarrow> DownloadPauseProcess task err w
      | US_DOWNLOAD_FAIL \<Rightarrow> DownloadFailProcess task err w
      | US_DOWNLOAD_CANCEL \<Rightarrow> DownloadCancelProcess task err w
      | US_DOWNLOAD_SUCCESS \<Rightarrow> DownloadSuccessProcess env task err w
      | _ \<Rightarrow> w)"

definition auto_GetStepAfterDownload :: "fw_env \<Rightarrow> auto_mode \<Rightarrow> fw \<Rightarrow> FirmwareStep \<times> auto_mode \<times> fw" where
  "auto_GetStepAfterDownload env m w =
     (let task = stored_task w in
      if \<not> ft_isExistTask task then (COMPLETE, m, w)
      else let (d, m1) = auto_GetDownloadDataProcessor m w
        in (COMPLETE, m1, after_download env task (download_error (dd_progress d)) w))"

definition auto_GetNextStep :: "fw_env \<Rightarrow> FirmwareStep \<Rightarrow> auto_mode \<Rightarrow> fw \<Rightarrow> FirmwareStep \<times> auto_mode \<times> fw" where
  "auto_GetNextStep env step m w =
     (case step of
        ST_INIT \<Rightarrow> auto_GetStepAfterInit env m w
      | CHECK_STEP \<Rightarrow> auto_GetStepAfterCheck env m w
      | DOWNLOAD_STEP \<Rightarrow> auto_GetStepAfterDownload env m w
      | _ \<Rightarrow> (COMPLETE, m, w))"

definition auto_SetCheckResult ::
  "fw_env \<Rightarrow> CheckStatus \<Rightarrow> int \<Rightarrow> FirmwareComponent list \<Rightarrow> auto_mode \<Rightarrow> fw \<Rightarrow> auto_mode \<times> fw" where
  "auto_SetCheckResult env status duration cs m w =
     (let (c, w1) = check_SetCheckResult env status duration cs (au_check m) w in (m\<lparr>au_check := c\<rparr>, w1))"

definition auto_SetDownloadCallbackInfo :: "fw_env \<Rightarrow> FirmwareDownloadCallbackInfo \<Rightarrow> auto_mode \<Rightarrow> fw \<Rightarrow> auto_mode \<times> fw" where
  "auto_SetDownloadCallbackInfo env info m w =
     (let (d, m1) = auto_GetDownloadDataProcessor m w; (d1, w1) = SetDownloadCallbackInfo env info d w
      in (m1\<lparr>au_download := Some d1\<rparr>, w1))"

definition auto_SetDownloadEvent :: "string \<Rightarrow> EventId \<Rightarrow> auto_mode \<Rightarrow> fw \<Rightarrow> auto_mode \<times> fw" where
  "auto_SetDownloadEvent downloadTaskId eventId m w =
     (let (d, m1) = auto_GetDownloadDataProcessor m w; (d1, w1) = SetDownloadEvent downloadTaskId eventId d w
      in (m1\<lparr>au_download := Some d1\<rparr>, w1))"

definition auto_SetInstallResult :: "fw_env \<Rightarrow> InstallCallbackInfo \<Rightarrow> auto_mode \<Rightarrow> fw \<Rightarrow> auto_mode \<times> fw" where
  "auto_SetInstallResult env info m w =
     (let (t, w1) = install_SetInstallResult env info (au_install m) w in (m\<lparr>au_install := t\<rparr>, w1))"

section \<open>\<open>FirmwareDownloadMode\<close>\<close>

record download_mode =
  dm_options :: DownloadOptions
  dm_error :: BusinessError
  dm_proc :: download_proc
  dm_tasks :: FirmwareTask

definition new_download_mode :: "DownloadOptions \<Rightarrow> BusinessError \<Rightarrow> fw \<Rightarrow> download_mode" where
  "new_download_mode options err w =
     \<lparr>dm_options = options, dm_error = err, dm_proc = new_download_proc w, dm_tasks = new_firmware_task\<rparr>"

definition download_GetStepAfterInit :: "fw_env \<Rightarrow> download_mode \<Rightarrow> fw \<Rightarrow> FirmwareStep \<times> download_mode" where
  "download_GetStepAfterInit env m w =
     (let m1 = m\<lparr>dm_tasks := get_task_once (dm_tasks m) w\<rparr>; task = dm_tasks m1; s = ft_status task;
          (enough, size) = download_IsSpaceEnough env w
      in if \<not> ft_isExistTask task then (COMPLETE, m1\<lparr>dm_error := be_Build CR_FAIL ''no task!'' (dm_error m1)\<rparr>)
         else if s = US_DOWNLOADING
         then (COMPLETE, m1\<lparr>dm_error := fail_with ''system busy!'' DUPDATE_ERR_SYSTEM_BUSY_ON_DOWNLOAD
                              ''busy on Downloading!'' (dm_error m1)\<rparr>)
         else if s \<noteq> US_CHECK_VERSION_SUCCESS \<and> s \<noteq> US_DOWNLOAD_FAIL \<and> s \<noteq> US_DOWNLOAD_PAUSE
         then (COMPLETE, m1\<lparr>dm_error := be_Build CR_FAIL ''status error!'' (dm_error m1)\<rparr>)
         else if \<not> net_ok env (ft_downloadAllowNetwork task)
         then (COMPLETE, m1\<lparr>dm_error := fail_with ''download no network!'' DUPDATE_ERR_DLOAD_REQUEST_FAIL
                              ''download no network!'' (dm_error m1)\<rparr>)
         else if \<not> enough
         then (COMPLETE, m1\<lparr>dm_error := fail_with ''download condition fail!'' DUPDATE_ERR_NO_ENOUGH_MEMORY
                              (to_string size) (dm_error m1)\<rparr>)
         else (DOWNLOAD_STEP, m1))"

definition download_GetStepAfterDownload :: "fw_env \<Rightarrow> download_mode \<Rightarrow> fw \<Rightarrow> FirmwareStep \<times> fw" where
  "download_GetStepAfterDownload env m w =
     (let task = stored_task w in
      if \<not> ft_isExistTask task then (COMPLETE, w)
      else (COMPLETE, after_download env task
              (if pg_endReason (dd_progress (dm_proc m)) \<noteq> [] then download_error (dd_progress (dm_proc m))
               else new_error_message) w))"

definition download_GetNextStep ::
  "fw_env \<Rightarrow> FirmwareStep \<Rightarrow> download_mode \<Rightarrow> fw \<Rightarrow> FirmwareStep \<times> download_mode \<times> fw" where
  "download_GetNextStep env step m w =
     (case step of
        ST_INIT \<Rightarrow> (let (s, m1) = download_GetStepAfterInit env m w in (s, m1, w))
      | DOWNLOAD_STEP \<Rightarrow> (let (s, w1) = download_GetStepAfterDownload env m w in (s, m, w1))
      | _ \<Rightarrow> (COMPLETE, m, w))"

definition download_SetDownloadCallbackInfo ::
  "fw_env \<Rightarrow> FirmwareDownloadCallbackInfo \<Rightarrow> download_mode \<Rightarrow> fw \<Rightarrow> download_mode \<times> fw" where
  "download_SetDownloadCallbackInfo env info m w =
     (let (d, w1) = SetDownloadCallbackInfo env info (dm_proc m) w in (m\<lparr>dm_proc := d\<rparr>, w1))"

definition download_SetDownloadEvent :: "string \<Rightarrow> EventId \<Rightarrow> download_mode \<Rightarrow> fw \<Rightarrow> download_mode \<times> fw" where
  "download_SetDownloadEvent downloadTaskId eventId m w =
     (let (d, w1) = SetDownloadEvent downloadTaskId eventId (dm_proc m) w in (m\<lparr>dm_proc := d\<rparr>, w1))"

section \<open>\<open>FirmwareInstallApplyMode\<close> and \<open>FirmwareStreamInstallApplyMode\<close>\<close>

record install_mode =
  im_options :: UpgradeOptions
  im_error :: BusinessError
  im_installType :: InstallType
  im_tasks :: FirmwareTask
  im_proc :: FirmwareTask

definition new_install_mode :: "UpgradeOptions \<Rightarrow> BusinessError \<Rightarrow> InstallType \<Rightarrow> install_mode" where
  "new_install_mode options err ty =
     \<lparr>im_options = options, im_error = err, im_installType = ty, im_tasks = new_firmware_task, im_proc = new_firmware_task\<rparr>"

definition install_IsAllowInstall :: "fw_env \<Rightarrow> install_mode \<Rightarrow> fw \<Rightarrow> bool \<times> install_mode" where
  "install_IsAllowInstall env m w =
     (let (enough, size) = install_IsSpaceEnough env w in
      if \<not> enough
      then (False, m\<lparr>im_error := fail_with ''install condition fail!'' DUPDATE_ERR_NO_ENOUGH_MEMORY (to_string size) (im_error m)\<rparr>)
      else if fe_hasBattery env \<and> \<not> IsBatteryEnough env MANUAL_UPGRADE_BATTERY_LEVEL
      then (False, m\<lparr>im_error := fail_with ''install condition fail!'' DUPDATE_ERR_LOW_BATTERY_LEVEL ''battery is low'' (im_error m)\<rparr>)
      else if ft_upgradeMode (im_tasks m) = UM_NIGHT then (IsDeviceIdle env, m)
      else (True, m))"

definition install_IsUpgradeFilesReady :: "install_mode \<Rightarrow> fw \<Rightarrow> bool \<times> install_mode \<times> fw" where
  "install_IsUpgradeFilesReady m w =
     (if IsUpgradeFileCheckSuccess w then (True, m, w)
      else (False, m\<lparr>im_error := fail_with ''check component failed'' DUPDATE_ERR_UPDATE_PRECHECK_FAIL
                            ''check component failed'' (im_error m)\<rparr>, ClearFirmwareInfo w))"

definition install_GetStepForInstallAndApplyOrder :: "fw_env \<Rightarrow> install_mode \<Rightarrow> fw \<Rightarrow> FirmwareStep \<times> install_mode \<times> fw" where
  "install_GetStepForInstallAndApplyOrder env m w =
     (if ft_status (im_tasks m) \<noteq> US_DOWNLOAD_SUCCESS
      then (COMPLETE, m\<lparr>im_error := be_Build CR_FAIL ''status error!'' (im_error m)\<rparr>, w)
      else
        let (allowed, m1) = install_IsAllowInstall env m w in
        if \<not> allowed then (COMPLETE, m1, w)
        else
          let (ready, m2, w2) = install_IsUpgradeFilesReady m1 w in
          if \<not> ready then (COMPLETE, m2, w2) else (INSTALL_STEP, m2, w2))"

definition install_GetStepAfterInit :: "fw_env \<Rightarrow> install_mode \<Rightarrow> fw \<Rightarrow> FirmwareStep \<times> install_mode \<times> fw" where
  "install_GetStepAfterInit env m w =
     (let m1 = m\<lparr>im_tasks := get_task_once (im_tasks m) w\<rparr> in
      if \<not> ft_isExistTask (im_tasks m1)
      then (COMPLETE, m1\<lparr>im_error := be_Build CR_FAIL ''no task!'' (im_error m1)\<rparr>, w)
      else if uo_order (im_options m1) = O_INSTALL \<or> uo_order (im_options m1) = O_INSTALL_AND_APPLY then
        let (step, m2, w2) = install_GetStepForInstallAndApplyOrder env m1 w
        in (step, m2, if step = INSTALL_STEP then ProcessBeforeUpgrade env (im_tasks m2) w2 else w2)
      else if uo_order (im_options m1) = O_APPLY then (APPLY_STEP, m1, w)
      else (COMPLETE, m1\<lparr>im_error := be_Build CR_FAIL ''upgradeOptions error'' (im_error m1)\<rparr>, w))"

definition install_GetStepAfterInstall :: "fw_env \<Rightarrow> install_mode \<Rightarrow> fw \<Rightarrow> FirmwareStep \<times> install_mode \<times> fw" where
  "install_GetStepAfterInstall env m w =
     (let (ok, t1) = HasInstallSuccess (im_proc m) w;
          w1 = (if \<not> ok then ClearFirmwareInfo (ProcessAfterUpgrade env (im_tasks m) w) else w);
          (ok2, t2) = HasInstallSuccess t1 w1
      in (if ok2 \<and> uo_order (im_options m) = O_INSTALL_AND_APPLY then APPLY_STEP else COMPLETE, m\<lparr>im_proc := t2\<rparr>, w1))"

definition install_GetNextStep :: "fw_env \<Rightarrow> FirmwareStep \<Rightarrow> install_mode \<Rightarrow> fw \<Rightarrow> FirmwareStep \<times> install_mode \<times> fw" where
  "install_GetNextStep env step m w =
     (case step of
        ST_INIT \<Rightarrow> install_GetStepAfterInit env m w
      | INSTALL_STEP \<Rightarrow> install_GetStepAfterInstall env m w
      | APPLY_STEP \<Rightarrow> (COMPLETE, m, w)
      | _ \<Rightarrow> (COMPLETE, m, w))"

definition mode_SetInstallResult :: "fw_env \<Rightarrow> InstallCallbackInfo \<Rightarrow> install_mode \<Rightarrow> fw \<Rightarrow> install_mode \<times> fw" where
  "mode_SetInstallResult env info m w =
     (let (t, w1) = install_SetInstallResult env info (im_proc m) w in (m\<lparr>im_proc := t\<rparr>, w1))"

text \<open>The streaming variant downloads while it installs: it asks for the network instead of space and files.\<close>

definition stream_IsAllowInstall :: "fw_env \<Rightarrow> install_mode \<Rightarrow> bool \<times> install_mode" where
  "stream_IsAllowInstall env m =
     (if im_installType m \<noteq> STREAM_INSTALLLER
      then (False, m\<lparr>im_error := fail_with ''install condition fail!'' DUPDATE_ERR_INPUT_PARA_ERROR ''install type error'' (im_error m)\<rparr>)
      else if \<not> net_ok env CELLULAR_AND_WIFI
      then (False, m\<lparr>im_error := fail_with ''download no network!'' DUPDATE_ERR_DLOAD_REQUEST_FAIL ''download no network!'' (im_error m)\<rparr>)
      else if fe_hasBattery env \<and> \<not> IsBatteryEnough env MANUAL_UPGRADE_BATTERY_LEVEL
      then (False, m\<lparr>im_error := fail_with ''install condition fail!'' DUPDATE_ERR_LOW_BATTERY_LEVEL ''battery is low'' (im_error m)\<rparr>)
      else if ft_upgradeMode (im_tasks m) = UM_NIGHT then (IsDeviceIdle env, m)
      else (True, m))"

definition stream_GetStepForInstallAndApplyOrder :: "fw_env \<Rightarrow> install_mode \<Rightarrow> FirmwareStep \<times> install_mode" where
  "stream_GetStepForInstallAndApplyOrder env m =
     (let (allowed, m1) = stream_IsAllowInstall env m in if \<not> allowed then (COMPLETE, m1) else (INSTALL_STEP, m1))"

definition stream_GetStepAfterInit :: "fw_env \<Rightarrow> install_mode \<Rightarrow> fw \<Rightarrow> FirmwareStep \<times> install_mode" where
  "stream_GetStepAfterInit env m w =
     (let m1 = m\<lparr>im_tasks := get_task_once (im_tasks m) w\<rparr> in
      if \<not> ft_isExistTask (im_tasks m1) then (COMPLETE, m1\<lparr>im_error := be_Build CR_FAIL ''no task!'' (im_error m1)\<rparr>)
      else if uo_order (im_options m1) = O_INSTALL \<or> uo_order (im_options m1) = O_INSTALL_AND_APPLY
      then stream_GetStepForInstallAndApplyOrder env m1
      else if uo_order (im_options m1) = O_APPLY then (APPLY_STEP, m1)
      else (COMPLETE, m1\<lparr>im_error := be_Build CR_FAIL ''upgradeOptions error'' (im_error m1)\<rparr>))"

definition stream_GetStepAfterInstall :: "install_mode \<Rightarrow> fw \<Rightarrow> FirmwareStep \<times> install_mode \<times> fw" where
  "stream_GetStepAfterInstall m w =
     (let (failed, t1) = HasInstallFail (im_proc m) w;
          w1 = (if failed then ClearFirmwareInfo w else w);
          (ok, t2) = HasInstallSuccess t1 w1
      in (if ok \<and> uo_order (im_options m) = O_INSTALL_AND_APPLY then APPLY_STEP else COMPLETE, m\<lparr>im_proc := t2\<rparr>, w1))"

definition stream_GetNextStep :: "fw_env \<Rightarrow> FirmwareStep \<Rightarrow> install_mode \<Rightarrow> fw \<Rightarrow> FirmwareStep \<times> install_mode \<times> fw" where
  "stream_GetNextStep env step m w =
     (case step of
        ST_INIT \<Rightarrow> (let (s, m1) = stream_GetStepAfterInit env m w in (s, m1, w))
      | INSTALL_STEP \<Rightarrow> stream_GetStepAfterInstall m w
      | APPLY_STEP \<Rightarrow> (COMPLETE, m, w)
      | _ \<Rightarrow> (COMPLETE, m, w))"

section \<open>The contract of a mode\<close>

text \<open>
  A mode moves forward: the next step is one an executor exists for, and it is later than the last one unless the flow is
  complete. It keeps the tables sound.
\<close>

locale execute_mode =
  fixes GetNextStep :: "fw_env \<Rightarrow> FirmwareStep \<Rightarrow> 'm \<Rightarrow> fw \<Rightarrow> FirmwareStep \<times> 'm \<times> fw"
  assumes next_step: "GetNextStep env s m w = (s', m', w') \<Longrightarrow>
      s' = COMPLETE \<or> (s' \<in> {CHECK_STEP, DOWNLOAD_STEP, INSTALL_STEP, APPLY_STEP} \<and> step_code s < step_code s')"
    and keeps_tables: "GetNextStep env s m w = (s', m', w') \<Longrightarrow> fw_inv w \<Longrightarrow> fw_inv w'"
begin

text \<open>A flow of the mode: after each decision the executor's work \<open>h\<close> happens, then the mode decides again.\<close>

fun iterate :: "(fw_env \<times> ('m \<Rightarrow> fw \<Rightarrow> 'm \<times> fw)) list \<Rightarrow> FirmwareStep \<Rightarrow> 'm \<Rightarrow> fw \<Rightarrow> FirmwareStep \<times> 'm \<times> fw" where
  "iterate [] s m w = (s, m, w)"
| "iterate ((env, h) # rest) s m w =
     (let (s1, m1, w1) = GetNextStep env s m w
      in if s1 = COMPLETE then (s1, m1, w1) else let (m2, w2) = h m1 w1 in iterate rest s1 m2 w2)"

lemma completes:
  assumes "5 < step_code s + length hs"
  shows "fst (iterate hs s m w) = COMPLETE"
  using assms
proof (induction hs arbitrary: s m w)
  case Nil
  then show ?case by (cases s) simp_all
next
  case (Cons e rest)
  obtain env h where e: "e = (env, h)" by fastforce
  obtain s1 m1 w1 where g: "GetNextStep env s m w = (s1, m1, w1)" by (cases "GetNextStep env s m w") auto
  obtain m2 w2 where h: "h m1 w1 = (m2, w2)" by fastforce
  show ?case
  proof (cases "s1 = COMPLETE")
    case True
    then show ?thesis by (simp add: e g)
  next
    case False
    then have "5 < step_code s1 + length rest" using next_step [OF g] Cons.prems by auto
    from Cons.IH [OF this] False show ?thesis by (simp add: e g h)
  qed
qed

lemma iterate_keeps:
  assumes "\<And>env h m w. (env, h) \<in> set hs \<Longrightarrow> fw_inv w \<Longrightarrow> fw_inv (snd (h m w))" "fw_inv w"
  shows "fw_inv (snd (snd (iterate hs s m w)))"
  using assms
proof (induction hs arbitrary: s m w)
  case Nil
  then show ?case by simp
next
  case (Cons e rest)
  obtain env h where e: "e = (env, h)" by fastforce
  obtain s1 m1 w1 where g: "GetNextStep env s m w = (s1, m1, w1)" by (cases "GetNextStep env s m w") auto
  obtain m2 w2 where h: "h m1 w1 = (m2, w2)" by fastforce
  have w1: "fw_inv w1" by (rule keeps_tables [OF g Cons.prems(2)])
  have w2: "fw_inv w2" using Cons.prems(1) [of env h w1 m1] w1 by (simp add: e h)
  show ?case
  proof (cases "s1 = COMPLETE")
    case True
    then show ?thesis by (simp add: e g w1)
  next
    case False
    have "fw_inv (snd (snd (iterate rest s1 m2 w2)))" by (rule Cons.IH [OF _ w2]) (auto intro: Cons.prems(1))
    with False show ?thesis by (simp add: e g h)
  qed
qed

end

section \<open>The modes meet the contract\<close>

lemma inv_same: "fw_inv w \<Longrightarrow> fw_tasks w' = fw_tasks w \<Longrightarrow> fw_components w' = fw_components w \<Longrightarrow> fw_inv w'"
  by (simp add: fw_inv_def fw_ok_def)

lemma inv_Cancel: "fw_inv w \<Longrightarrow> fw_inv (DownloadCancelProcess t e w)"
proof -
  assume inv: "fw_inv w"
  let ?w1 = "on_tasks (UpdateProgressByTaskId (ft_taskId t) US_CHECK_VERSION_SUCCESS 0)
    (NotifyEvent (ft_taskId t) EVENT_DOWNLOAD_CANCEL US_DOWNLOAD_CANCEL e [] 0 w)"
  let ?w2 = "fold (\<lambda>c. on_components (UpdateProgressByUrl (fc_url c) US_CHECK_VERSION_SUCCESS 0)) (stored_components ?w1) ?w1"
  have "fw_inv ?w1" using implementsD [OF task_operators(1) inv_same [OF inv]] by simp
  then have "fw_inv ?w2" using reset_by_url [of ?w1] by (simp add: Let_def)
  then have "fw_inv (dl_RemoveTask (ft_downloadTaskId t) ?w2)" by (rule inv_same) simp_all
  then have "fw_inv (on_tasks (UpdateDownloadTaskIdByTaskId (ft_taskId t) []) (dl_RemoveTask (ft_downloadTaskId t) ?w2))"
    using implementsD [OF task_operators(3)] by blast
  then show ?thesis by (rule inv_same) (simp_all add: DownloadCancelProcess_def Let_def)
qed

lemma inv_ops [simp]:
  "fw_inv w \<Longrightarrow> fw_inv (ClearFirmwareInfo w)" "fw_inv w \<Longrightarrow> fw_inv (NotifyEvent d e s m cs p w)"
  "fw_inv w \<Longrightarrow> fw_inv (DownloadSuccessProcess env t err w)" "fw_inv w \<Longrightarrow> fw_inv (after_download env t err w)"
  "fw_inv w \<Longrightarrow> fw_inv (ProcessBeforeUpgrade env t w)" "fw_inv w \<Longrightarrow> fw_inv (ProcessAfterUpgrade env t w)"
  "fw_inv w \<Longrightarrow> fw_inv (RefreshAutoUpgradeAlarm env w)" "fw_inv (w\<lparr>fw_prefs := pr\<rparr>) = fw_inv w"
proof -
  assume inv: "fw_inv w"
  show "fw_inv (ClearFirmwareInfo w)" using implementsD [OF ClearFirmwareInfo_implements inv] by simp
  show "fw_inv (DownloadSuccessProcess env t err w)" using implementsD [OF download_process_id(2) inv] by simp
  then show "fw_inv (after_download env t err w)"
    using implementsD [OF download_process_id(1) inv] implementsD [OF DownloadFailProcess_implements inv] inv inv_Cancel
    by (simp add: after_download_def split: UpgradeStatus.split)
  show "fw_inv (NotifyEvent d e s m cs p w)" by (rule inv_same [OF inv]) simp_all
  show "fw_inv (ProcessBeforeUpgrade env t w)"
    by (rule inv_same [OF inv]) (simp_all add: ProcessBeforeUpgrade_def Let_def split: prod.split)
  show "fw_inv (ProcessAfterUpgrade env t w)" by (rule inv_same [OF inv]) (simp_all add: ProcessAfterUpgrade_def)
  show "fw_inv (RefreshAutoUpgradeAlarm env w)" by (rule inv_same [OF inv]) (simp_all add: RefreshAutoUpgradeAlarm_def)
qed (simp add: fw_inv_def fw_ok_def)

lemmas mode_defs =
  manual_GetNextStep_def manual_GetStepAfterInit_def manual_GetStepAfterCheck_def
  auto_GetNextStep_def auto_GetStepAfterInit_def auto_GetStepAfterCheck_def auto_HandlePreDownloadStep_def
  auto_GetStepAfterDownload_def auto_GetDownloadDataProcessor_def
  download_GetNextStep_def download_GetStepAfterInit_def download_GetStepAfterDownload_def
  install_GetNextStep_def install_GetStepAfterInit_def install_GetStepAfterInstall_def
  install_GetStepForInstallAndApplyOrder_def install_IsAllowInstall_def install_IsUpgradeFilesReady_def
  stream_GetNextStep_def stream_GetStepAfterInit_def stream_GetStepAfterInstall_def
  stream_GetStepForInstallAndApplyOrder_def stream_IsAllowInstall_def

interpretation manual: execute_mode manual_GetNextStep
  by unfold_locales
    (auto simp: mode_defs Let_def split: FirmwareStep.splits if_splits)

interpretation auto: execute_mode auto_GetNextStep
  by unfold_locales
    (auto simp: mode_defs Let_def split: FirmwareStep.splits if_splits option.splits prod.splits)

interpretation download: execute_mode download_GetNextStep
  by unfold_locales
    (auto simp: mode_defs Let_def split: FirmwareStep.splits if_splits prod.splits)

interpretation install: execute_mode install_GetNextStep
  by unfold_locales
    (auto simp: mode_defs Let_def split: FirmwareStep.splits if_splits prod.splits)

interpretation stream: execute_mode stream_GetNextStep
  by unfold_locales
    (auto simp: mode_defs Let_def split: FirmwareStep.splits if_splits prod.splits)

end
