(* ===== verification/Firmware_Install.thy ===== *)
theory Firmware_Install
  imports Firmware_Modes "HOL-Library.Product_Lexorder"
begin

text \<open>
  The installers, \<open>services/firmware/upgrade/install/src\<close>: what \<open>StartInstall\<close> does around \<open>PerformInstall\<close>, and the
  three ways to perform an install (the system installer for A/B devices, the streaming installer, the updater after a
  reboot). The system installer service, the streaming download thread and the reboot are not part of the repository or
  only drive it: what they answer is the record \<open>install_kit\<close>, by version id and attempt. The client's callbacks are
  arguments that act on the client's state, so that every call an installer makes is visible.
\<close>

section \<open>What the services answer\<close>

datatype sys_status = UPDATE_STATE_INIT | UPDATE_STATE_ONGOING | UPDATE_STATE_SUCCESSFUL | UPDATE_STATE_OTHER

datatype kit_report = Upgrade_progress sys_status int string | Upgrade_dealLen sys_status int string | Stream_progress Progress

record install_kit =
  ik_code :: "sys_status \<Rightarrow> int"
  ik_init :: "string \<Rightarrow> nat \<Rightarrow> int"
  ik_updateStatus :: "string \<Rightarrow> nat \<Rightarrow> int"
  ik_setCallback :: "string \<Rightarrow> nat \<Rightarrow> int"
  ik_start :: "string \<Rightarrow> nat \<Rightarrow> int"
  ik_startDownload :: "string \<Rightarrow> nat \<Rightarrow> int"
  ik_reports :: "string \<Rightarrow> nat \<Rightarrow> kit_report list"
  ik_reboot :: "string list \<Rightarrow> int"
  ik_uninitialised :: UpgradeStatus

text \<open>The client: what a progress, a final event and a status do to its state.\<close>

record 's install_client =
  cl_progress :: "FirmwareComponent \<Rightarrow> 's \<Rightarrow> 's"
  cl_event :: "bool \<Rightarrow> ErrorMessage \<Rightarrow> UpgradeStatus \<Rightarrow> 's \<Rightarrow> 's"
  cl_status :: "UpgradeStatus \<Rightarrow> 's \<Rightarrow> 's"

record InstallProgress =
  ip_progress :: Progress
  ip_dealLen :: int
  ip_errMsg :: ErrorMessage

definition new_install_progress :: InstallProgress where
  "new_install_progress = \<lparr>ip_progress = new_progress, ip_dealLen = 0, ip_errMsg = new_error_message\<rparr>"

text \<open>The members of an installer; \<open>GetInstance\<close> makes a new one for every install.\<close>

record installer =
  in_isInstalling :: bool
  in_errMsg :: ErrorMessage
  in_sysInstallProgress :: Progress
  in_resultReady :: bool
  in_downloadProgress :: Progress

definition new_installer :: installer where
  "new_installer = \<lparr>in_isInstalling = False, in_errMsg = new_error_message, in_sysInstallProgress = new_progress,
     in_resultReady = False, in_downloadProgress = new_progress\<rparr>"

section \<open>\<open>SysInstallerCallback\<close>\<close>

fun upgrade_status_of :: "sys_status \<Rightarrow> UpgradeStatus" where
  "upgrade_status_of UPDATE_STATE_INIT = US_INSTALLING"
| "upgrade_status_of UPDATE_STATE_ONGOING = US_INSTALLING"
| "upgrade_status_of UPDATE_STATE_SUCCESSFUL = US_INSTALL_SUCCESS"
| "upgrade_status_of UPDATE_STATE_OTHER = US_INSTALL_FAIL"

definition OnUpgradeProgress :: "install_kit \<Rightarrow> sys_status \<Rightarrow> int \<Rightarrow> string \<Rightarrow> InstallProgress" where
  "OnUpgradeProgress kit s percent resultMsg = new_install_progress\<lparr>
     ip_progress := new_progress\<lparr>pg_status := upgrade_status_of s, pg_percent := u32 percent\<rparr>,
     ip_errMsg := \<lparr>em_errorCode = ik_code kit s,
       em_errorMessage = (if upgrade_status_of s = US_INSTALL_FAIL then resultMsg else [])\<rparr>\<rparr>"

definition OnUpgradeDealLen :: "install_kit \<Rightarrow> sys_status \<Rightarrow> int \<Rightarrow> string \<Rightarrow> InstallProgress" where
  "OnUpgradeDealLen kit s dealLen resultMsg = new_install_progress\<lparr>
     ip_progress := new_progress\<lparr>pg_status := upgrade_status_of s,
       pg_percent := (if upgrade_status_of s = US_INSTALL_SUCCESS then 100 else 0)\<rparr>,
     ip_errMsg := \<lparr>em_errorCode = ik_code kit s,
       em_errorMessage = (if upgrade_status_of s = US_INSTALL_FAIL then resultMsg else [])\<rparr>,
     ip_dealLen := u32 dealLen\<rparr>"

section \<open>\<open>SysInstallerInstall\<close>\<close>

definition set_err :: "string \<Rightarrow> int \<Rightarrow> installer \<Rightarrow> installer" where
  "set_err msg code i = i\<lparr>in_errMsg := \<lparr>em_errorCode = code, em_errorMessage = msg\<rparr>\<rparr>"

definition sys_InitInstallProgress :: "installer \<Rightarrow> installer" where
  "sys_InitInstallProgress i = i\<lparr>in_sysInstallProgress := \<lparr>pg_percent = 0, pg_status = US_INSTALLING, pg_endReason = []\<rparr>,
     in_errMsg := new_error_message, in_resultReady := False\<rparr>"

definition sys_InitSysInstaller :: "install_kit \<Rightarrow> FirmwareComponent \<Rightarrow> installer \<Rightarrow> bool \<times> installer" where
  "sys_InitSysInstaller kit c i =
     (if ik_init kit (fc_versionId c) 0 \<noteq> 0 then (False, set_err ''sys installer init failed'' (- 410) i) else (True, i))"

definition sys_SetupInstallCallback :: "install_kit \<Rightarrow> FirmwareComponent \<Rightarrow> installer \<Rightarrow> bool \<times> installer" where
  "sys_SetupInstallCallback kit c i =
     (if ik_setCallback kit (fc_versionId c) 0 \<noteq> 0
      then (False, set_err ''set sys installer callback failed'' (ik_setCallback kit (fc_versionId c) 0) i) else (True, i))"

definition sys_StartUpdatePackageZip :: "install_kit \<Rightarrow> FirmwareComponent \<Rightarrow> installer \<Rightarrow> bool \<times> installer" where
  "sys_StartUpdatePackageZip kit c i =
     (if ik_start kit (fc_versionId c) 0 \<noteq> 0
      then (False, set_err ''sys installer StartUpdatePackageZip failed'' (ik_start kit (fc_versionId c) 0) i) else (True, i))"

text \<open>The registered callback: the progress is kept for the waiting thread and passed on with the component's copy.\<close>

definition sys_on_report ::
  "install_kit \<Rightarrow> 's install_client \<Rightarrow> kit_report \<Rightarrow> FirmwareComponent \<times> installer \<times> 's \<Rightarrow> FirmwareComponent \<times> installer \<times> 's" where
  "sys_on_report kit cl r st =
     (let (c, i, s) = st;
          p = (case r of Upgrade_progress us percent msg \<Rightarrow> OnUpgradeProgress kit us percent msg
               | Upgrade_dealLen us len msg \<Rightarrow> OnUpgradeDealLen kit us len msg
               | Stream_progress _ \<Rightarrow> new_install_progress);
          i1 = i\<lparr>in_sysInstallProgress := ip_progress p, in_errMsg := ip_errMsg p, in_resultReady := True\<rparr>;
          c1 = c\<lparr>fc_status := pg_status (ip_progress p), fc_progress := i32 (pg_percent (ip_progress p))\<rparr>
      in (c1, i1, cl_progress cl c1 s))"

definition sys_success :: "installer \<Rightarrow> bool" where
  "sys_success i = (pg_status (in_sysInstallProgress i) = US_INSTALL_SUCCESS \<and> pg_percent (in_sysInstallProgress i) = 100)"

text \<open>The wait ends with the reports that came, or by the timeout; it succeeds on a complete success only.\<close>

definition sys_WaitInstallResult :: "installer \<Rightarrow> bool" where
  "sys_WaitInstallResult i =
     (if \<not> (in_resultReady i \<and> (sys_success i \<or> pg_status (in_sysInstallProgress i) = US_INSTALL_FAIL)) then False
      else sys_success i)"

definition is_sys_report :: "kit_report \<Rightarrow> bool" where
  "is_sys_report r = (case r of Stream_progress _ \<Rightarrow> False | _ \<Rightarrow> True)"

definition sys_DoSysInstall ::
  "install_kit \<Rightarrow> 's install_client \<Rightarrow> FirmwareComponent \<Rightarrow> installer \<Rightarrow> 's \<Rightarrow> bool \<times> installer \<times> 's" where
  "sys_DoSysInstall kit cl c i s =
     (let i0 = sys_InitInstallProgress i; (ok1, i1) = sys_InitSysInstaller kit c i0 in
      if \<not> ok1 then (False, i1, s)
      else if ik_updateStatus kit (fc_versionId c) 0 \<noteq> ik_code kit UPDATE_STATE_INIT
      then (False, set_err ''sys installer is busy'' (- 407) i1, s)
      else
        let (ok2, i2) = sys_SetupInstallCallback kit c i1 in
        if \<not> ok2 then (False, i2, s)
        else
          let (ok3, i3) = sys_StartUpdatePackageZip kit c i2 in
          if \<not> ok3 then (False, i3, s)
          else
            let (c4, i4, s4) = fold (sys_on_report kit cl) (filter is_sys_report (ik_reports kit (fc_versionId c) 0)) (c, i3, s)
            in (sys_WaitInstallResult i4, i4, s4))"

definition sys_one ::
  "install_kit \<Rightarrow> 's install_client \<Rightarrow> FirmwareComponent \<Rightarrow> nat \<times> installer \<times> 's \<Rightarrow> nat \<times> installer \<times> 's" where
  "sys_one kit cl c st =
     (let (n, i, s) = st; (ok, i1, s1) = sys_DoSysInstall kit cl c i (cl_status cl US_INSTALLING s)
      in (if ok then n + 1 else n, i1, s1))"

definition sys_PerformInstall ::
  "install_kit \<Rightarrow> 's install_client \<Rightarrow> FirmwareComponent list \<Rightarrow> installer \<Rightarrow> 's \<Rightarrow> bool \<times> UpgradeStatus \<times> installer \<times> 's" where
  "sys_PerformInstall kit cl cs i s =
     (if cs = [] then (False, ik_uninitialised kit, i, s)
      else let (n, i1, s1) = fold (sys_one kit cl) cs (0, i, s) in (n = length cs, ik_uninitialised kit, i1, s1))"

section \<open>\<open>StreamInstallerInstall\<close>\<close>

abbreviation STREAM_RETRY_COUNT :: nat where "STREAM_RETRY_COUNT \<equiv> 3"

definition stream_InitSysInstaller :: "install_kit \<Rightarrow> nat \<Rightarrow> FirmwareComponent \<Rightarrow> installer \<Rightarrow> bool \<times> installer" where
  "stream_InitSysInstaller kit attempt c i =
     (let ret = ik_init kit (fc_versionId c) attempt in
      if ret \<noteq> 0 then (False, set_err ''sys installer init failed'' (- 410) i)
      else if ik_updateStatus kit (fc_versionId c) attempt \<noteq> ik_code kit UPDATE_STATE_INIT
      then (False, set_err ''sys installer is busy'' ret i) else (True, i))"

definition stream_SetInstallerCallback :: "install_kit \<Rightarrow> nat \<Rightarrow> FirmwareComponent \<Rightarrow> installer \<Rightarrow> bool \<times> installer" where
  "stream_SetInstallerCallback kit attempt c i =
     (let ret = ik_setCallback kit (fc_versionId c) attempt in
      if ret \<noteq> 0 then (False, set_err ''set sys installer callback failed'' ret i) else (True, i))"

definition StartInstallProcess :: "install_kit \<Rightarrow> nat \<Rightarrow> FirmwareComponent \<Rightarrow> installer \<Rightarrow> bool \<times> installer" where
  "StartInstallProcess kit attempt c i =
     (let ret = ik_start kit (fc_versionId c) attempt; ret2 = ik_startDownload kit (fc_versionId c) attempt in
      if ret \<noteq> 0 then (False, set_err ''sys installer StartStreamUpdate failed'' ret i)
      else if ret2 \<noteq> 0 then (False, set_err ''StartDownload failed'' ret2 i) else (True, i))"

text \<open>The percentage in double precision, truncated to an integer.\<close>

definition stream_percent :: "int \<Rightarrow> int \<Rightarrow> int" where
  "stream_percent recordPoint n =
     i32 (fp_to_int (fp_mul 53 (fp_div 53 (fp_of_int 53 recordPoint) (fp_of_int 53 n)) (fp_of_int 53 100)))"

definition stream_on_deal ::
  "'s install_client \<Rightarrow> InstallProgress \<Rightarrow> FirmwareComponent \<times> installer \<times> 's \<Rightarrow> FirmwareComponent \<times> installer \<times> 's" where
  "stream_on_deal cl p st =
     (let (c, i, s) = st;
          c1 = c\<lparr>fc_status := pg_status (ip_progress p), fc_recordPoint := i64 (fc_recordPoint c + ip_dealLen p)\<rparr>;
          c2 = (if fc_size c1 > 0 then c1\<lparr>fc_progress := stream_percent (fc_recordPoint c1) (fc_size c1)\<rparr> else c1);
          s1 = cl_progress cl c2 s;
          i1 = i\<lparr>in_sysInstallProgress := ip_progress p\<rparr>;
          i2 = (if fc_progress c2 = 100
                then i1\<lparr>in_sysInstallProgress := (in_sysInstallProgress i1)\<lparr>pg_status := US_INSTALL_SUCCESS\<rparr>\<rparr> else i1)
      in (c2, i2\<lparr>in_errMsg := ip_errMsg p\<rparr>, s1))"

definition stream_on_report ::
  "install_kit \<Rightarrow> 's install_client \<Rightarrow> kit_report \<Rightarrow> FirmwareComponent \<times> installer \<times> 's \<Rightarrow> FirmwareComponent \<times> installer \<times> 's" where
  "stream_on_report kit cl r st =
     (case r of
        Upgrade_progress us percent msg \<Rightarrow> stream_on_deal cl (OnUpgradeProgress kit us percent msg) st
      | Upgrade_dealLen us len msg \<Rightarrow> stream_on_deal cl (OnUpgradeDealLen kit us len msg) st
      | Stream_progress p \<Rightarrow>
          (let (c, i, s) = st; i1 = i\<lparr>in_downloadProgress := p\<rparr>
           in (c, if pg_status p = US_DOWNLOAD_FAIL then set_err ''download fail'' (- 1) i1 else i1, s)))"

definition stream_WaitInstallResult :: "installer \<Rightarrow> bool" where
  "stream_WaitInstallResult i =
     (let sy = pg_status (in_sysInstallProgress i); d = pg_status (in_downloadProgress i) in
      if \<not> (sy = US_INSTALL_SUCCESS \<or> sy = US_INSTALL_FAIL \<or> d = US_DOWNLOAD_FAIL \<or> d = US_DOWNLOAD_CANCEL) then False
      else sy = US_INSTALL_SUCCESS)"

definition stream_DoSysInstall ::
  "install_kit \<Rightarrow> 's install_client \<Rightarrow> nat \<Rightarrow> FirmwareComponent \<Rightarrow> installer \<Rightarrow> 's \<Rightarrow> bool \<times> installer \<times> 's" where
  "stream_DoSysInstall kit cl attempt c i s =
     (let i0 = i\<lparr>in_downloadProgress := (in_downloadProgress i)\<lparr>pg_status := US_INIT\<rparr>,
                 in_sysInstallProgress := (in_sysInstallProgress i)\<lparr>pg_status := US_INIT\<rparr>\<rparr>;
          (ok1, i1) = stream_InitSysInstaller kit attempt c i0 in
      if \<not> ok1 then (False, i1, s)
      else
        let (ok2, i2) = stream_SetInstallerCallback kit attempt c i1 in
        if \<not> ok2 then (False, i2, s)
        else
          let (ok3, i3) = StartInstallProcess kit attempt c i2 in
          if \<not> ok3 then (False, i3, s)
          else
            let (c4, i4, s4) = fold (stream_on_report kit cl) (ik_reports kit (fc_versionId c) attempt) (c, i3, s)
            in (stream_WaitInstallResult i4, i4, s4))"

text \<open>
  Each attempt reads the component again, for the record point: the query is an argument that may depend on what the
  client did so far. Without an entry the attempt works on an empty component.
\<close>

fun InstallComponentWithRetry ::
  "install_kit \<Rightarrow> 's install_client \<Rightarrow> (string \<Rightarrow> 's \<Rightarrow> FirmwareComponent option) \<Rightarrow> nat \<Rightarrow> nat \<Rightarrow> FirmwareComponent
     \<Rightarrow> installer \<Rightarrow> 's \<Rightarrow> bool \<times> installer \<times> 's" where
  "InstallComponentWithRetry kit cl query retry 0 c i s = (False, i, s)"
| "InstallComponentWithRetry kit cl query retry (Suc left) c i s =
     (let refreshed = (case query (fc_url c) s of Some d \<Rightarrow> d | None \<Rightarrow> new_component);
          (ok, i1, s1) = stream_DoSysInstall kit cl retry refreshed i s
      in if ok then (True, i1, s1)
         else if pg_status (in_downloadProgress i1) = US_DOWNLOAD_CANCEL then (False, i1, s1)
         else InstallComponentWithRetry kit cl query (Suc retry) left c i1 s1)"

definition stream_one ::
  "install_kit \<Rightarrow> 's install_client \<Rightarrow> (string \<Rightarrow> 's \<Rightarrow> FirmwareComponent option) \<Rightarrow> FirmwareComponent
     \<Rightarrow> nat \<times> installer \<times> 's \<Rightarrow> nat \<times> installer \<times> 's" where
  "stream_one kit cl query c st =
     (let (n, i, s) = st;
          (ok, i1, s1) = InstallComponentWithRetry kit cl query 0 STREAM_RETRY_COUNT c i (cl_status cl US_INSTALLING s)
      in (if ok then n + 1 else n, i1, s1))"

definition stream_PerformInstall ::
  "install_kit \<Rightarrow> 's install_client \<Rightarrow> (string \<Rightarrow> 's \<Rightarrow> FirmwareComponent option) \<Rightarrow> FirmwareComponent list
     \<Rightarrow> installer \<Rightarrow> 's \<Rightarrow> bool \<times> UpgradeStatus \<times> installer \<times> 's" where
  "stream_PerformInstall kit cl query cs i s =
     (if cs = [] then (False, ik_uninitialised kit, i, s)
      else
        let (n, i1, s1) = fold (stream_one kit cl query) cs (0, i, s)
        in (n = length cs,
            if pg_status (in_sysInstallProgress i1) \<noteq> US_INSTALL_FAIL then pg_status (in_downloadProgress i1)
            else ik_uninitialised kit, i1, s1))"

section \<open>\<open>UpdaterInstall\<close>\<close>

definition DoUpdaterInstall :: "install_kit \<Rightarrow> FirmwareComponent list \<Rightarrow> installer \<Rightarrow> bool \<times> installer" where
  "DoUpdaterInstall kit cs i =
     (let installFiles = map snd (sort (map (\<lambda>c. (fc_blVersionType c, fc_spath c)) cs)); ret = ik_reboot kit installFiles in
      if ret \<noteq> 0 then (False, set_err (''updater install is failed, ret = '' @ to_string ret) (- 421) i) else (True, i))"

definition updater_PerformInstall ::
  "install_kit \<Rightarrow> 's install_client \<Rightarrow> FirmwareComponent list \<Rightarrow> installer \<Rightarrow> 's \<Rightarrow> bool \<times> UpgradeStatus \<times> installer \<times> 's" where
  "updater_PerformInstall kit cl cs i s =
     (let s1 = cl_status cl US_UPDATING s; (ok, i1) = DoUpdaterInstall kit cs i in (ok, ik_uninitialised kit, i1, s1))"

section \<open>\<open>FirmwareInstall::StartInstall\<close>\<close>

text \<open>\<open>IsComponentLegal\<close> of the installer and its \<open>PerformInstall\<close> are the arguments \<open>legal\<close> and \<open>perform\<close>.\<close>

definition StartInstall ::
  "bool \<Rightarrow> (installer \<Rightarrow> 's \<Rightarrow> bool \<times> UpgradeStatus \<times> installer \<times> 's) \<Rightarrow> 's install_client \<Rightarrow> installer \<Rightarrow> 's \<Rightarrow> installer \<times> 's" where
  "StartInstall legal perform cl i s =
     (if in_isInstalling i
      then (i, cl_event cl False \<lparr>em_errorCode = - 407, em_errorMessage = ''install is busying''\<rparr> US_INSTALL_FAIL s)
      else if \<not> legal
      then (i, cl_event cl False \<lparr>em_errorCode = - 420, em_errorMessage = ''check component failed!''\<rparr> US_INSTALL_FAIL s)
      else
        let (result, status, i1, s1) = perform (i\<lparr>in_isInstalling := True\<rparr>) s; i2 = i1\<lparr>in_isInstalling := False\<rparr>
        in (i2, cl_event cl result (in_errMsg i2) status s1))"

text \<open>\<open>InstallFactory::GetInstance\<close> and the virtual calls.\<close>

definition run_install ::
  "install_kit \<Rightarrow> file_system \<Rightarrow> InstallType \<Rightarrow> (string \<Rightarrow> 's \<Rightarrow> FirmwareComponent option) \<Rightarrow> 's install_client
     \<Rightarrow> FirmwareComponent list \<Rightarrow> 's \<Rightarrow> 's" where
  "run_install kit fs ty query cl cs s =
     snd (case ty of
        SYS_INSTALLER \<Rightarrow> StartInstall (IsUpgradePackagesReady fs cs) (sys_PerformInstall kit cl cs) cl new_installer s
      | STREAM_INSTALLLER \<Rightarrow> StartInstall True (stream_PerformInstall kit cl query cs) cl new_installer s
      | _ \<Rightarrow> StartInstall (IsUpgradePackagesReady fs cs) (updater_PerformInstall kit cl cs) cl new_installer s)"

section \<open>The contract of an installer\<close>

text \<open>
  While an install is performed only the progress and status callbacks are called: whatever they keep is kept. \<open>StartInstall\<close>
  then calls the event callback exactly once, at the end, on every path.
\<close>

locale install_method =
  fixes perform :: "'s install_client \<Rightarrow> installer \<Rightarrow> 's \<Rightarrow> bool \<times> UpgradeStatus \<times> installer \<times> 's"
  assumes perform_keeps: "perform cl i s = (r, st, i', s') \<Longrightarrow> (\<And>c s. I s \<Longrightarrow> I (cl_progress cl c s)) \<Longrightarrow>
      (\<And>u s. I s \<Longrightarrow> I (cl_status cl u s)) \<Longrightarrow> I s \<Longrightarrow> I s'"
begin

lemma one_event:
  assumes "\<And>c s. I s \<Longrightarrow> I (cl_progress cl c s)" "\<And>u s. I s \<Longrightarrow> I (cl_status cl u s)" "I s"
  shows "\<exists>s1 result err status. I s1 \<and> snd (StartInstall legal (perform cl) cl i s) = cl_event cl result err status s1"
proof (cases "in_isInstalling i \<or> \<not> legal")
  case True
  with assms(3) show ?thesis by (auto simp: StartInstall_def)
next
  case False
  obtain r st i' s' where p: "perform cl (i\<lparr>in_isInstalling := True\<rparr>) s = (r, st, i', s')"
    by (cases "perform cl (i\<lparr>in_isInstalling := True\<rparr>) s") auto
  have "I s'" by (rule perform_keeps [OF p assms])
  with False show ?thesis by (auto simp: StartInstall_def p)
qed

end

lemma fold_keeps: "(\<And>x st. P st \<Longrightarrow> P (f x st)) \<Longrightarrow> P st \<Longrightarrow> P (fold f xs st)"
  by (induction xs arbitrary: st) auto

lemma sys_DoSysInstall_keeps:
  assumes "\<And>c s. I s \<Longrightarrow> I (cl_progress cl c s)" "I s"
  shows "I (snd (snd (sys_DoSysInstall kit cl c i s)))"
proof -
  have "I (snd (snd (fold (sys_on_report kit cl) rs (c, i, s))))" for rs c i
    by (rule fold_keeps [where P = "\<lambda>st. I (snd (snd st))"])
      (simp_all add: assms sys_on_report_def Let_def split_beta split: kit_report.split)
  with assms(2) show ?thesis by (simp add: sys_DoSysInstall_def Let_def split_beta)
qed

lemma stream_DoSysInstall_keeps:
  assumes "\<And>c s. I s \<Longrightarrow> I (cl_progress cl c s)" "I s"
  shows "I (snd (snd (stream_DoSysInstall kit cl a c i s)))"
proof -
  have "I (snd (snd (fold (stream_on_report kit cl) rs (c, i, s))))" for rs c i
    by (rule fold_keeps [where P = "\<lambda>st. I (snd (snd st))"])
      (simp_all add: assms stream_on_report_def stream_on_deal_def Let_def split_beta split: kit_report.split)
  with assms(2) show ?thesis by (simp add: stream_DoSysInstall_def Let_def split_beta)
qed

lemma retry_keeps:
  assumes "\<And>c s. I s \<Longrightarrow> I (cl_progress cl c s)" "I s"
  shows "I (snd (snd (InstallComponentWithRetry kit cl query r n c i s)))"
  using assms(2)
proof (induction n arbitrary: r i s)
  case (Suc n)
  have "I (snd (snd (stream_DoSysInstall kit cl r d i s)))" for d
    by (rule stream_DoSysInstall_keeps [OF assms(1) Suc.prems])
  then show ?case using Suc.IH by (simp add: Let_def split_beta)
qed simp

interpretation sys_method: install_method "\<lambda>cl. sys_PerformInstall kit cl cs"
proof unfold_locales
  fix cl :: "'a install_client" and i s r st i' s' and I :: "'a \<Rightarrow> bool"
  assume p: "sys_PerformInstall kit cl cs i s = (r, st, i', s')" and I: "\<And>c s. I s \<Longrightarrow> I (cl_progress cl c s)"
    "\<And>u s. I s \<Longrightarrow> I (cl_status cl u s)" "I s"
  have "I (snd (snd (fold (sys_one kit cl) cs (0, i, s))))"
    by (rule fold_keeps [where P = "\<lambda>st. I (snd (snd st))"])
      (simp_all add: sys_one_def Let_def split_beta sys_DoSysInstall_keeps I)
  with p I(3) show "I s'" by (auto simp: sys_PerformInstall_def Let_def split_beta split: if_splits)
qed

interpretation stream_method: install_method "\<lambda>cl. stream_PerformInstall kit cl query cs"
proof unfold_locales
  fix cl :: "'a install_client" and i s r st i' s' and I :: "'a \<Rightarrow> bool"
  assume p: "stream_PerformInstall kit cl query cs i s = (r, st, i', s')" and I: "\<And>c s. I s \<Longrightarrow> I (cl_progress cl c s)"
    "\<And>u s. I s \<Longrightarrow> I (cl_status cl u s)" "I s"
  have "I (snd (snd (fold (stream_one kit cl query) cs (0, i, s))))"
    by (rule fold_keeps [where P = "\<lambda>st. I (snd (snd st))"])
      (simp_all add: stream_one_def Let_def split_beta retry_keeps I del: InstallComponentWithRetry.simps)
  with p I(3) show "I s'" by (auto simp: stream_PerformInstall_def Let_def split_beta split: if_splits)
qed

interpretation updater_method: install_method "\<lambda>cl. updater_PerformInstall kit cl cs"
  by unfold_locales (auto simp: updater_PerformInstall_def Let_def split_beta)

lemma run_install_one_event:
  assumes "\<And>c s. I s \<Longrightarrow> I (cl_progress cl c s)" "\<And>u s. I s \<Longrightarrow> I (cl_status cl u s)" "I s"
  shows "\<exists>s1 result err status. I s1 \<and> run_install kit fs ty query cl cs s = cl_event cl result err status s1"
  using sys_method.one_event [of I cl s, OF assms] stream_method.one_event [of I cl s, OF assms]
    updater_method.one_event [of I cl s, OF assms]
  by (cases ty) (simp_all add: run_install_def)

end
