(* ===== verification/Firmware_Flow.thy ===== *)
theory Firmware_Flow
  imports Firmware_Install
begin

text \<open>
  An upgrade flow: \<open>services/firmware/upgrade/flow/src/firmware_flow_manager.cpp\<close> asks its mode for the next step and
  starts the executor of that step (\<open>services/firmware/upgrade/executor/src\<close>); the executor reports back and the flow
  decides again, until the mode says it is complete and the flow is deleted. An executor's work runs on its own thread: it
  is a separate operation here, on the flow as it finds it. A flow that is finished ignores what still arrives (the
  executors hold weak pointers).
\<close>

section \<open>The virtual calls of a mode\<close>

datatype flow_mode = ManualMode manual_mode | AutoMode auto_mode | DownloadMode download_mode
  | InstallMode install_mode | StreamMode install_mode

fun mode_GetNextStep :: "fw_env \<Rightarrow> FirmwareStep \<Rightarrow> flow_mode \<Rightarrow> fw \<Rightarrow> FirmwareStep \<times> flow_mode \<times> fw" where
  "mode_GetNextStep env s (ManualMode m) w = (let (s1, m1, w1) = manual_GetNextStep env s m w in (s1, ManualMode m1, w1))"
| "mode_GetNextStep env s (AutoMode m) w = (let (s1, m1, w1) = auto_GetNextStep env s m w in (s1, AutoMode m1, w1))"
| "mode_GetNextStep env s (DownloadMode m) w = (let (s1, m1, w1) = download_GetNextStep env s m w in (s1, DownloadMode m1, w1))"
| "mode_GetNextStep env s (InstallMode m) w = (let (s1, m1, w1) = install_GetNextStep env s m w in (s1, InstallMode m1, w1))"
| "mode_GetNextStep env s (StreamMode m) w = (let (s1, m1, w1) = stream_GetNextStep env s m w in (s1, StreamMode m1, w1))"

fun mode_SetCheckResult ::
  "fw_env \<Rightarrow> CheckStatus \<Rightarrow> int \<Rightarrow> FirmwareComponent list \<Rightarrow> flow_mode \<Rightarrow> fw \<Rightarrow> flow_mode \<times> fw" where
  "mode_SetCheckResult env st d cs (ManualMode m) w = (let (m1, w1) = manual_SetCheckResult env st d cs m w in (ManualMode m1, w1))"
| "mode_SetCheckResult env st d cs (AutoMode m) w = (let (m1, w1) = auto_SetCheckResult env st d cs m w in (AutoMode m1, w1))"
| "mode_SetCheckResult env st d cs m w = (m, w)"

fun mode_SetDownloadCallbackInfo :: "fw_env \<Rightarrow> FirmwareDownloadCallbackInfo \<Rightarrow> flow_mode \<Rightarrow> fw \<Rightarrow> flow_mode \<times> fw" where
  "mode_SetDownloadCallbackInfo env info (AutoMode m) w = (let (m1, w1) = auto_SetDownloadCallbackInfo env info m w in (AutoMode m1, w1))"
| "mode_SetDownloadCallbackInfo env info (DownloadMode m) w =
     (let (m1, w1) = download_SetDownloadCallbackInfo env info m w in (DownloadMode m1, w1))"
| "mode_SetDownloadCallbackInfo env info m w = (m, w)"

fun mode_SetDownloadEvent :: "string \<Rightarrow> EventId \<Rightarrow> flow_mode \<Rightarrow> fw \<Rightarrow> flow_mode \<times> fw" where
  "mode_SetDownloadEvent k e (AutoMode m) w = (let (m1, w1) = auto_SetDownloadEvent k e m w in (AutoMode m1, w1))"
| "mode_SetDownloadEvent k e (DownloadMode m) w = (let (m1, w1) = download_SetDownloadEvent k e m w in (DownloadMode m1, w1))"
| "mode_SetDownloadEvent k e m w = (m, w)"

fun flow_SetInstallResult :: "fw_env \<Rightarrow> InstallCallbackInfo \<Rightarrow> flow_mode \<Rightarrow> fw \<Rightarrow> flow_mode \<times> fw" where
  "flow_SetInstallResult env info (AutoMode m) w = (let (m1, w1) = auto_SetInstallResult env info m w in (AutoMode m1, w1))"
| "flow_SetInstallResult env info (InstallMode m) w = (let (m1, w1) = mode_SetInstallResult env info m w in (InstallMode m1, w1))"
| "flow_SetInstallResult env info (StreamMode m) w = (let (m1, w1) = mode_SetInstallResult env info m w in (StreamMode m1, w1))"
| "flow_SetInstallResult env info m w = (m, w)"

fun mode_GetDownloadOptions :: "flow_mode \<Rightarrow> DownloadOptions" where
  "mode_GetDownloadOptions (DownloadMode m) = dm_options m"
| "mode_GetDownloadOptions m = new_download_options"

fun mode_GetInstallType :: "flow_mode \<Rightarrow> InstallType" where
  "mode_GetInstallType (InstallMode m) = im_installType m"
| "mode_GetInstallType (StreamMode m) = im_installType m"
| "mode_GetInstallType m = UPDATER"

section \<open>\<open>FirmwareFlowManager\<close>\<close>

datatype executor = CheckExecutor | DownloadExecutor DownloadOptions | InstallExecutor InstallType | ApplyExecutor

record flow =
  fl_mode :: "flow_mode option"
  fl_executor :: "executor option"
  fl_nextStep :: FirmwareStep

definition new_flow :: flow where
  "new_flow = \<lparr>fl_mode = None, fl_executor = None, fl_nextStep = ST_INIT\<rparr>"

text \<open>A finished flow is gone; its mode had this state, and a manual check gave the caller a result.\<close>

datatype flow_state = Running flow | Finished flow_mode "CheckResult option"

fun mode_HandleComplete :: "fw_env \<Rightarrow> flow_mode \<Rightarrow> fw \<Rightarrow> flow_state" where
  "mode_HandleComplete env (ManualMode m) w = Finished (ManualMode m) (Some (snd (manual_HandleComplete env m w)))"
| "mode_HandleComplete env m w = Finished m None"

definition CreateInstance :: "FirmwareStep \<Rightarrow> flow_mode \<Rightarrow> executor option" where
  "CreateInstance step m =
     (case step of
        CHECK_STEP \<Rightarrow> Some CheckExecutor
      | DOWNLOAD_STEP \<Rightarrow> Some (DownloadExecutor (mode_GetDownloadOptions m))
      | INSTALL_STEP \<Rightarrow> Some (InstallExecutor (mode_GetInstallType m))
      | APPLY_STEP \<Rightarrow> Some ApplyExecutor
      | _ \<Rightarrow> None)"

text \<open>\<open>Execute\<close> of an executor hands its work to a thread; only the check marks the status cache at once.\<close>

definition executor_Execute :: "fw_env \<Rightarrow> executor \<Rightarrow> fw \<Rightarrow> fw" where
  "executor_Execute env ex w =
     (if ex = CheckExecutor then w\<lparr>fw_cache := SetIsChecking (fe_now env) True (fw_cache w)\<rparr> else w)"

definition flow_Execute :: "fw_env \<Rightarrow> flow \<Rightarrow> fw \<Rightarrow> flow_state \<times> fw" where
  "flow_Execute env fl w =
     (case fl_mode fl of
        None \<Rightarrow> (Running fl, w)
      | Some m \<Rightarrow>
          (let (s, m1, w1) = mode_GetNextStep env (fl_nextStep fl) m w;
               fl1 = fl\<lparr>fl_mode := Some m1, fl_nextStep := s\<rparr>
           in if s = COMPLETE then (mode_HandleComplete env m1 w1, w1)
              else (case CreateInstance s m1 of
                      Some ex \<Rightarrow> (Running (fl1\<lparr>fl_executor := Some ex\<rparr>), executor_Execute env ex w1)
                    | None \<Rightarrow> (Running (fl1\<lparr>fl_executor := None\<rparr>), w1))))"

text \<open>\<open>SetExecuteMode\<close> and \<open>Start\<close> on a new flow manager.\<close>

definition flow_Start :: "fw_env \<Rightarrow> flow_mode \<Rightarrow> fw \<Rightarrow> flow_state \<times> fw" where
  "flow_Start env m w = flow_Execute env (new_flow\<lparr>fl_mode := Some m\<rparr>) w"

definition OnCheckCallback ::
  "fw_env \<Rightarrow> CheckStatus \<Rightarrow> int \<Rightarrow> FirmwareComponent list \<Rightarrow> flow_state \<times> fw \<Rightarrow> flow_state \<times> fw" where
  "OnCheckCallback env status duration cs st =
     (case st of (Running fl, w) \<Rightarrow>
        (case fl_mode fl of
           None \<Rightarrow> st
         | Some m \<Rightarrow> (let (m1, w1) = mode_SetCheckResult env status duration cs m w
                       in flow_Execute env (fl\<lparr>fl_mode := Some m1\<rparr>) w1))
      | _ \<Rightarrow> st)"

definition OnDownloadCallback :: "fw_env \<Rightarrow> FirmwareDownloadCallbackInfo \<Rightarrow> flow_state \<times> fw \<Rightarrow> flow_state \<times> fw" where
  "OnDownloadCallback env info st =
     (case st of (Running fl, w) \<Rightarrow>
        (case fl_mode fl of
           None \<Rightarrow> st
         | Some m \<Rightarrow> (let (m1, w1) = mode_SetDownloadCallbackInfo env info m w; fl1 = fl\<lparr>fl_mode := Some m1\<rparr>
                       in if pg_status (fd_taskProgress info) \<noteq> US_DOWNLOADING then flow_Execute env fl1 w1
                          else (Running fl1, w1)))
      | _ \<Rightarrow> st)"

definition OnInstallCallback :: "fw_env \<Rightarrow> InstallCallbackInfo \<Rightarrow> flow_state \<times> fw \<Rightarrow> flow_state \<times> fw" where
  "OnInstallCallback env info st =
     (case st of (Running fl, w) \<Rightarrow>
        (case fl_mode fl of
           None \<Rightarrow> st
         | Some m \<Rightarrow> (let (m1, w1) = flow_SetInstallResult env info m w; fl1 = fl\<lparr>fl_mode := Some m1\<rparr>
                       in if pg_status (ic_progress info) \<noteq> US_INSTALLING then flow_Execute env fl1 w1
                          else (Running fl1, w1)))
      | _ \<Rightarrow> st)"

text \<open>\<open>SetApplyResult\<close> only logs.\<close>

definition OnApplyCallback :: "fw_env \<Rightarrow> bool \<Rightarrow> flow_state \<times> fw \<Rightarrow> flow_state \<times> fw" where
  "OnApplyCallback env isSuccess st =
     (case st of (Running fl, w) \<Rightarrow> (case fl_mode fl of None \<Rightarrow> st | Some m \<Rightarrow> flow_Execute env fl w) | _ \<Rightarrow> st)"

definition OnDownloadEventCallback :: "string \<Rightarrow> EventId \<Rightarrow> flow_state \<times> fw \<Rightarrow> flow_state \<times> fw" where
  "OnDownloadEventCallback downloadTaskId eventId st =
     (case st of (Running fl, w) \<Rightarrow>
        (case fl_mode fl of
           None \<Rightarrow> st
         | Some m \<Rightarrow> (let (m1, w1) = mode_SetDownloadEvent downloadTaskId eventId m w in (Running (fl\<lparr>fl_mode := Some m1\<rparr>), w1)))
      | _ \<Rightarrow> st)"

section \<open>\<open>FirmwareCheckExecutor\<close>\<close>

text \<open>The answer of the search: a status, the polling duration and the components found.\<close>

definition SetComponentCheckStatus :: "FirmwareComponent list \<Rightarrow> FirmwareComponent list" where
  "SetComponentCheckStatus = map (\<lambda>c. c\<lparr>fc_status := US_CHECK_VERSION_SUCCESS\<rparr>)"

definition check_Complete ::
  "fw_env \<Rightarrow> CheckStatus \<Rightarrow> int \<Rightarrow> FirmwareComponent list \<Rightarrow> flow_state \<times> fw \<Rightarrow> flow_state \<times> fw" where
  "check_Complete env status duration cs st =
     OnCheckCallback env status duration cs
       (fst st, (snd st)\<lparr>fw_cache := SetIsChecking (fe_now env) False (fw_cache (snd st))\<rparr>)"

definition DoCheck :: "fw_env \<Rightarrow> CheckStatus \<times> int \<times> FirmwareComponent list \<Rightarrow> flow_state \<times> fw \<Rightarrow> flow_state \<times> fw" where
  "DoCheck env answer st =
     (let (status, duration, cs) = answer in
      if status = CHECK_FAIL \<or> cs = [] then check_Complete env status duration cs st
      else check_Complete env status duration (SetComponentCheckStatus cs) st)"

section \<open>\<open>FirmwareDownloadExecutor\<close>\<close>

fun download_status_map :: "DownloadStatus \<Rightarrow> UpgradeStatus option" where
  "download_status_map DS_DOWNLOADING = Some US_DOWNLOADING"
| "download_status_map DS_PAUSE = Some US_DOWNLOAD_PAUSE"
| "download_status_map DS_CANCEL = Some US_DOWNLOAD_CANCEL"
| "download_status_map DS_FAIL = Some US_DOWNLOAD_FAIL"
| "download_status_map DS_SUCCESS = Some US_DOWNLOAD_SUCCESS"
| "download_status_map DS_VERIFYING = Some US_VERIFYING"
| "download_status_map DS_AUTO_PAUSE = Some US_DOWNLOAD_PAUSE"
| "download_status_map DS_INIT = Some US_DOWNLOADING"

definition GetEndReason :: "UpgradeStatus \<Rightarrow> DownloadEndReason \<Rightarrow> string" where
  "GetEndReason status reason =
     (if status = US_DOWNLOAD_PAUSE \<and> reason = R_NET_CHANGE then to_string 3148800
      else if status = US_DOWNLOAD_PAUSE \<and> reason = R_NET_NOT_AVAILIABLE then to_string (- 301)
      else if status = US_DOWNLOAD_FAIL \<and> reason = R_VERIFY_FAIL then to_string (- 305)
      else if status = US_DOWNLOAD_FAIL \<and> reason = R_NO_ENOUGH_MEMORY then to_string (- 304)
      else if status = US_DOWNLOAD_FAIL \<and> reason = R_IO_EXCEPTION then to_string (- 312)
      else [])"

definition BuildFirmwareDownloadProgress :: "Progress \<Rightarrow> DownloadProgress \<Rightarrow> FirmwareDownloadProgress" where
  "BuildFirmwareDownloadProgress p d =
     \<lparr>fp_versionId = dp_id d, fp_startTime = dp_startTime d, fp_endTime = dp_endTime d, fp_effectiveTime = dp_effectiveTime d,
      fp_progress = p, fp_downloadErrorInfo = dp_errorInfo d, fp_downloadUrl = dp_downloadUrl d,
      fp_packageSize = dp_packageSize d, fp_downloadedSize = dp_downloadedSize d, fp_verifiedSize = dp_verifiedSize d,
      fp_isCombineVerifyProgress = dp_isCombineVerifyProgress d\<rparr>"

fun build_progress_list :: "DownloadProgress list \<Rightarrow> FirmwareDownloadProgress list" where
  "build_progress_list [] = []"
| "build_progress_list (d # ds) =
     (case download_status_map (dp_status d) of
        None \<Rightarrow> build_progress_list ds
      | Some s \<Rightarrow> BuildFirmwareDownloadProgress
          \<lparr>pg_percent = dp_percent d, pg_status = s, pg_endReason = to_string (reason_code (dp_reason d))\<rparr> d
          # build_progress_list ds)"

definition CallbackProgress :: "fw_env \<Rightarrow> string \<Rightarrow> ProgressInfo \<Rightarrow> flow_state \<times> fw \<Rightarrow> flow_state \<times> fw" where
  "CallbackProgress env taskId p st =
     (case download_status_map (pi_taskStatus p) of
        None \<Rightarrow> st
      | Some s \<Rightarrow> OnDownloadCallback env
          \<lparr>fd_downloadTaskId = taskId,
           fd_taskProgress = \<lparr>pg_percent = u32 (pi_taskProgress p), pg_status = s, pg_endReason = GetEndReason s (pi_reason p)\<rparr>,
           fd_progressList = build_progress_list (pi_progresses p)\<rparr> st)"

fun call_code :: "DownloadCallResult \<Rightarrow> int" where
  "call_code CALL_SUCCESS = 0" | "call_code CALL_FAIL = 1"

definition CallbackDownloadFailProgress :: "fw_env \<Rightarrow> DownloadError \<Rightarrow> flow_state \<times> fw \<Rightarrow> flow_state \<times> fw" where
  "CallbackDownloadFailProgress env err st =
     OnDownloadCallback env
       \<lparr>fd_downloadTaskId = [],
        fd_taskProgress = new_progress\<lparr>pg_status := US_DOWNLOAD_FAIL, pg_endReason := to_string (call_code (de_errorNum err))\<rparr>,
        fd_progressList = []\<rparr> st"

definition BuildDownloadInfos :: "DownloadOptions \<Rightarrow> FirmwareComponent list \<Rightarrow> DownloadInfo list" where
  "BuildDownloadInfos opts = map (\<lambda>c. new_download_info\<lparr>di_versionId := fc_versionId c, di_url := fc_url c,
     di_path := fc_spath c, di_packageSize := fc_size c, di_verifyInfo := fc_verifyInfo c, di_isNeedAutoResume := False,
     di_method := GET, di_netType := do_allowNetwork opts\<rparr>)"

definition PerformDownload ::
  "fw_env \<Rightarrow> DownloadOptions \<Rightarrow> FirmwareComponent list \<Rightarrow> flow_state \<times> fw \<Rightarrow> flow_state \<times> fw" where
  "PerformDownload env opts cs st =
     (let infos = BuildDownloadInfos opts cs in
      if infos = [] then st
      else
        let (fs, w) = OnDownloadEventCallback (GetTaskId (fe_sha env) infos) EVENT_DOWNLOAD_START st;
            (_, err, dl) = manager_Start (fe_sha env) (fe_env env) infos no_error (fw_dl w);
            st1 = (fs, w\<lparr>fw_dl := dl\<rparr>)
        in if de_errorNum err \<noteq> CALL_SUCCESS then CallbackDownloadFailProgress env err st1 else st1)"

definition IsNeedResumeDownload ::
  "fw_env \<Rightarrow> string \<Rightarrow> ProgressInfo \<Rightarrow> DownloadError \<Rightarrow> flow_state \<times> fw \<Rightarrow> bool \<times> (flow_state \<times> fw)" where
  "IsNeedResumeDownload env k p err st =
     (if IsDownloadFinished p then (False, CallbackProgress env k p st)
      else if pi_taskStatus p \<noteq> DS_PAUSE \<and> pi_taskStatus p \<noteq> DS_AUTO_PAUSE
      then (False, CallbackDownloadFailProgress env (err\<lparr>de_errorNum := CALL_FAIL\<rparr>) st)
      else (True, st))"

definition PerformResumeDownload ::
  "fw_env \<Rightarrow> DownloadOptions \<Rightarrow> FirmwareComponent list \<Rightarrow> string \<Rightarrow> flow_state \<times> fw \<Rightarrow> flow_state \<times> fw" where
  "PerformResumeDownload env opts cs k st =
     (let (e, dl, p) = manager_GetTaskProgress k (fw_dl (snd st));
          err = (case e of None \<Rightarrow> no_error | Some x \<Rightarrow> x);
          st1 = (fst st, (snd st)\<lparr>fw_dl := dl\<rparr>)
      in if de_errorNum err \<noteq> CALL_SUCCESS then
           (if de_endReason err = R_DOWNLOAD_INFO_EMPTY then PerformDownload env opts cs st1
            else CallbackDownloadFailProgress env err st1)
         else
           let (resume, st2) = IsNeedResumeDownload env k p err st1 in
           if \<not> resume then st2
           else
             let (fs, w) = OnDownloadEventCallback k EVENT_DOWNLOAD_RESUME st2;
                 (err1, dl1) = manager_Resume (fe_env env) k (do_allowNetwork opts) (fw_dl w);
                 st3 = (fs, w\<lparr>fw_dl := dl1\<rparr>)
             in if de_errorNum err1 = CALL_SUCCESS then st3
                else if de_endReason err1 = R_NET_NOT_AVAILIABLE
                then CallbackProgress env k (p\<lparr>pi_reason := R_NET_NOT_AVAILIABLE\<rparr>) st3
                else CallbackDownloadFailProgress env err1 st3)"

text \<open>
  The executor's thread. Without components it calls \<open>firmwareProgressCallback_\<close>, which nothing ever sets: the call of an
  empty \<open>std::function\<close> throws, which is \<open>None\<close> here.
\<close>

definition DoDownload :: "fw_env \<Rightarrow> DownloadOptions \<Rightarrow> flow_state \<times> fw \<Rightarrow> (flow_state \<times> fw) option" where
  "DoDownload env opts st =
     (let cs = stored_components (snd st); task = stored_task (snd st) in
      if cs = [] then None
      else if ft_downloadTaskId task = [] then Some (PerformDownload env opts cs st)
      else Some (PerformResumeDownload env opts cs (ft_downloadTaskId task) st))"

section \<open>\<open>FirmwareInstallExecutor\<close>\<close>

record install_exec =
  ix_installType :: InstallType
  ix_info :: InstallCallbackInfo
  ix_tasks :: FirmwareTask
  ix_taskProgress :: Progress

definition new_install_info :: InstallCallbackInfo where
  "new_install_info = \<lparr>ic_progress = new_progress, ic_errorMessage = new_error_message\<rparr>"

definition new_install_exec :: "InstallType \<Rightarrow> install_exec" where
  "new_install_exec ty =
     \<lparr>ix_installType = ty, ix_info = new_install_info, ix_tasks = new_firmware_task, ix_taskProgress = new_progress\<rparr>"

type_synonym install_state = "install_exec \<times> flow_state \<times> fw"

definition HandleInstallProgress :: "fw_env \<Rightarrow> FirmwareComponent \<Rightarrow> install_state \<Rightarrow> install_state" where
  "HandleInstallProgress env c st =
     (let (x, fs, w) = st;
          w1 = on_components (UpdateProgressByUrl (fc_url c) (fc_status c) (fc_progress c)) w;
          p = (ix_taskProgress x)\<lparr>pg_status := US_INSTALLING, pg_percent := u32 (fc_progress c)\<rparr>;
          x1 = x\<lparr>ix_taskProgress := p, ix_info := (ix_info x)\<lparr>ic_progress := p\<rparr>\<rparr>;
          w2 = (if ix_installType x = STREAM_INSTALLLER then on_components (UpdateRecordPointByUrl (fc_url c) (fc_recordPoint c)) w1
                else on_tasks (UpdateProgressByTaskId (ft_taskId (ix_tasks x)) (pg_status p) (i32 (pg_percent p))) w1)
      in (x1, OnInstallCallback env (ix_info x1) (fs, w2)))"

definition install_result_status :: "InstallType \<Rightarrow> bool \<Rightarrow> UpgradeStatus \<Rightarrow> UpgradeStatus" where
  "install_result_status ty result status =
     (if result then US_INSTALL_SUCCESS
      else if ty = SYS_INSTALLER then US_INSTALL_FAIL
      else if ty = STREAM_INSTALLLER then (if status = US_DOWNLOAD_CANCEL then US_INSTALL_PAUSE else US_INSTALL_FAIL)
      else US_UPDATE_FAIL)"

definition HandleInstallResult ::
  "fw_env \<Rightarrow> bool \<Rightarrow> ErrorMessage \<Rightarrow> UpgradeStatus \<Rightarrow> install_state \<Rightarrow> install_state" where
  "HandleInstallResult env result err status st =
     (let (x, fs, w) = st;
          p0 = (ix_taskProgress x)\<lparr>pg_status := install_result_status (ix_installType x) result status\<rparr>;
          p = (if result then p0\<lparr>pg_percent := 100\<rparr> else p0);
          w1 = on_tasks (UpdateProgressByTaskId (ft_taskId (ix_tasks x)) (pg_status p) (i32 (pg_percent p))) w;
          x1 = x\<lparr>ix_taskProgress := p, ix_info := \<lparr>ic_progress = p, ic_errorMessage = err\<rparr>\<rparr>
      in (x1, OnInstallCallback env (ix_info x1) (fs, w1)))"

definition install_client_of :: "fw_env \<Rightarrow> install_state install_client" where
  "install_client_of env =
     \<lparr>cl_progress = HandleInstallProgress env,
      cl_event = HandleInstallResult env,
      cl_status = (\<lambda>status (x, fs, w).
        (x, fs, NotifyEvent (ft_taskId (ix_tasks x)) EVENT_UPGRADE_START status new_error_message [] 0 w))\<rparr>"

text \<open>The executor's thread; an illegal install type leaves the status of a new \<open>Progress\<close>.\<close>

definition install_DoInstall :: "fw_env \<Rightarrow> install_kit \<Rightarrow> InstallType \<Rightarrow> flow_state \<times> fw \<Rightarrow> install_state" where
  "install_DoInstall env kit ty st =
     (let x = new_install_exec ty; (fs, w) = st; cs = stored_components w in
      if cs = [] then
        let p = new_progress\<lparr>pg_status := (if ty = SYS_INSTALLER \<or> ty = STREAM_INSTALLLER then US_INSTALL_FAIL else US_UPDATE_FAIL),
                             pg_endReason := ''no task''\<rparr>;
            x1 = x\<lparr>ix_info := (ix_info x)\<lparr>ic_progress := p\<rparr>\<rparr>
        in (x1, OnInstallCallback env (ix_info x1) (fs, w))
      else
        let x1 = x\<lparr>ix_tasks := get_task_once (ix_tasks x) w\<rparr>;
            s = (if ty = SYS_INSTALLER \<or> ty = STREAM_INSTALLLER then US_INSTALLING
                 else if ty = UPDATER then US_UPDATING else US_INIT);
            w1 = on_tasks (UpdateProgressByTaskId (ft_taskId (ix_tasks x1)) s 0) w;
            w2 = fold (\<lambda>c. on_components (UpdateProgressByUrl (fc_url c) s 0)) cs w1
        in run_install kit (fw_fs w2) ty (\<lambda>url (_, _, w'). QueryByUrl url (fw_components w')) (install_client_of env) cs
             (x1, fs, w2))"

section \<open>\<open>FirmwareApplyExecutor\<close>\<close>

text \<open>The device is rebooted, unless there is nothing to apply.\<close>

definition apply_DoInstall :: "fw_env \<Rightarrow> flow_state \<times> fw \<Rightarrow> bool \<times> (flow_state \<times> fw)" where
  "apply_DoInstall env st =
     (if stored_components (snd st) = [] then (False, OnApplyCallback env False st) else (True, st))"

end
