(* ===== verification/Firmware_Flow_Facts.thy ===== *)
theory Firmware_Flow_Facts
  imports Firmware_Flow
begin

text \<open>
  Facts about flows: the virtual calls meet the contract of a mode, every operation of a flow and its executors keeps the
  tables sound, a flow only moves forward and comes to an end, and an install ends its step.
\<close>

section \<open>Any mode\<close>

interpretation any_mode: execute_mode mode_GetNextStep
proof
  fix env s m w s' m' w'
  assume g: "mode_GetNextStep env s m w = (s', m', w')"
  show "s' = COMPLETE \<or> (s' \<in> {CHECK_STEP, DOWNLOAD_STEP, INSTALL_STEP, APPLY_STEP} \<and> step_code s < step_code s')"
    using g manual.next_step auto.next_step download.next_step install.next_step stream.next_step
    by (cases m) (auto split: prod.splits)
  show "fw_inv w'" if "fw_inv w"
    using g that manual.keeps_tables auto.keeps_tables download.keeps_tables install.keeps_tables stream.keeps_tables
    by (cases m) (auto split: prod.splits)
qed

section \<open>The tables stay sound\<close>

lemma inv_cache [simp]: "fw_inv (w\<lparr>fw_cache := c\<rparr>) = fw_inv w"
  by (simp add: fw_inv_def fw_ok_def)

lemma inv_dl [simp]: "fw_inv (w\<lparr>fw_dl := d\<rparr>) = fw_inv w"
  by (simp add: fw_inv_def fw_ok_def)

lemma inv_ProgressCallback [simp]: "fw_inv w \<Longrightarrow> fw_inv (ProgressCallback env k p w)"
  by (rule inv_same) simp_all

lemma inv_operators [simp]:
  assumes "fw_inv w"
  shows "fw_inv (on_tasks (UpdateProgressByTaskId k s p) w)" "fw_inv (on_tasks (UpdateStatusByTaskId k s) w)"
    "fw_inv (on_tasks (UpdateDownloadTaskIdByTaskId k d) w)" "fw_inv (on_tasks (UpdateUpgradeModeByTaskId k um) w)"
    "fw_inv (on_components (UpdateProgressByUrl u s p) w)" "fw_inv (on_components (UpdateStatusByUrl u s) w)"
    "fw_inv (on_components (UpdateUrlByVersionId v u) w)" "fw_inv (on_components (UpdateProgressByVersionId v s p) w)"
    "fw_inv (on_components (UpdateRecordPointByUrl u r) w)"
  using implementsD [OF task_operators(1) assms] implementsD [OF task_operators(2) assms]
    implementsD [OF task_operators(3) assms] implementsD [OF task_operators(4) assms]
    implementsD [OF component_operators(1) assms] implementsD [OF component_operators(2) assms]
    implementsD [OF component_operators(3) assms] implementsD [OF component_operators(4) assms]
    implementsD [OF component_operators(5) assms]
  by simp_all

lemma inv_fold_progress [simp]:
  "fw_inv w \<Longrightarrow> fw_inv (fold (\<lambda>c. on_components (UpdateProgressByUrl (fc_url c) s p)) cs w)"
  "fw_inv w \<Longrightarrow> fw_inv (fold (\<lambda>c. on_components (UpdateProgressByVersionId (fp_versionId c) (f c) (g c))) fs w)"
  "fw_inv w \<Longrightarrow> fw_inv (fold (\<lambda>c. on_components (UpdateUrlByVersionId (fc_versionId c) (fc_url c))) cs w)"
  by (rule fold_keeps; simp)+

lemma inv_insert [simp]: "fw_inv w \<Longrightarrow> fw_inv (on_components (table_Insert component_BuildDbValue cs) w)"
  by (simp add: fw_inv_def fw_ok_def)

lemma inv_insert_task:
  assumes "fw_inv w" "task_view (fw_tasks w) = []"
  shows "fw_inv (on_tasks (table_Insert task_BuildDbValue [t]) w)"
proof -
  have "tb_up (fw_tasks w)" "tasks_ok (fw_tasks w)" using assms(1) by (auto simp: fw_inv_def fw_ok_def tasks_ok_def)
  moreover from this have "tb_rows (fw_tasks w) = []" using assms(2) by (simp add: task_view_def)
  ultimately show ?thesis
    using assms(1) task_codec.length_query_after_insert [of "fw_tasks w" "[t]"] by (simp add: fw_inv_def fw_ok_def task_view_def)
qed

lemma inv_SetCheckResult: "fw_inv w \<Longrightarrow> fw_inv (snd (check_SetCheckResult env st d cs c w))"
proof -
  assume inv: "fw_inv w"
  have "fw_inv (snd (HandleNewVersion env c' w))" for c'
    using inv ClearFirmwareInfo_sel(1) [of w]
    by (auto simp: HandleNewVersion_def Let_def UpdateFirmwareComponent_def intro!: inv_insert_task)
  then show ?thesis
    using inv HandleNoNewVersion_clears(1) [OF inv] by (simp add: check_SetCheckResult_def HandleCheckResult_def)
qed

lemma inv_mode_callbacks:
  "fw_inv w \<Longrightarrow> fw_inv (snd (mode_SetCheckResult env st d cs m w))"
  "fw_inv w \<Longrightarrow> fw_inv (snd (mode_SetDownloadCallbackInfo env info m w))"
  "fw_inv w \<Longrightarrow> fw_inv (snd (mode_SetDownloadEvent k e m w))"
  "fw_inv w \<Longrightarrow> fw_inv (snd (flow_SetInstallResult env ii m w))"
proof -
  assume inv: "fw_inv w"
  show "fw_inv (snd (mode_SetCheckResult env st d cs m w))"
    using inv_SetCheckResult [OF inv] inv
    by (cases m) (simp_all add: manual_SetCheckResult_def auto_SetCheckResult_def split_beta Let_def)
  show "fw_inv (snd (mode_SetDownloadCallbackInfo env info m w))"
    using inv by (cases m)
      (simp_all add: auto_SetDownloadCallbackInfo_def download_SetDownloadCallbackInfo_def SetDownloadCallbackInfo_def split_beta Let_def)
  show "fw_inv (snd (mode_SetDownloadEvent k e m w))"
    using inv by (cases m)
      (simp_all add: auto_SetDownloadEvent_def download_SetDownloadEvent_def SetDownloadEvent_def split_beta Let_def)
  show "fw_inv (snd (flow_SetInstallResult env ii m w))"
    using inv by (cases m)
      (simp_all add: auto_SetInstallResult_def mode_SetInstallResult_def install_SetInstallResult_def split_beta Let_def)
qed

lemma inv_flow_Execute: "fw_inv w \<Longrightarrow> fw_inv (snd (flow_Execute env fl w))"
proof -
  assume inv: "fw_inv w"
  show ?thesis
  proof (cases "fl_mode fl")
    case None
    with inv show ?thesis by (simp add: flow_Execute_def)
  next
    case (Some m)
    obtain s m1 w1 where g: "mode_GetNextStep env (fl_nextStep fl) m w = (s, m1, w1)"
      by (cases "mode_GetNextStep env (fl_nextStep fl) m w") auto
    have "fw_inv w1" by (rule any_mode.keeps_tables [OF g inv])
    then show ?thesis using Some g by (auto simp: flow_Execute_def executor_Execute_def Let_def split: option.split)
  qed
qed

lemma inv_flow_callbacks:
  "fw_inv (snd st) \<Longrightarrow> fw_inv (snd (OnCheckCallback env cst d cs st))"
  "fw_inv (snd st) \<Longrightarrow> fw_inv (snd (OnDownloadCallback env info st))"
  "fw_inv (snd st) \<Longrightarrow> fw_inv (snd (OnInstallCallback env ii st))"
  "fw_inv (snd st) \<Longrightarrow> fw_inv (snd (OnApplyCallback env b st))"
  "fw_inv (snd st) \<Longrightarrow> fw_inv (snd (OnDownloadEventCallback k e st))"
  using inv_mode_callbacks inv_flow_Execute
  by (cases st; auto simp: OnCheckCallback_def OnDownloadCallback_def OnInstallCallback_def OnApplyCallback_def
      OnDownloadEventCallback_def split_beta Let_def split: flow_state.split option.split)+

lemma inv_executors:
  "fw_inv (snd st) \<Longrightarrow> fw_inv (snd (DoCheck env answer st))"
  "fw_inv (snd st) \<Longrightarrow> fw_inv (snd (CallbackProgress env k p st))"
  "fw_inv (snd st) \<Longrightarrow> fw_inv (snd (CallbackDownloadFailProgress env err st))"
  "fw_inv (snd st) \<Longrightarrow> fw_inv (snd (snd (apply_DoInstall env st)))"
  by (simp_all add: DoCheck_def check_Complete_def CallbackProgress_def CallbackDownloadFailProgress_def apply_DoInstall_def
      inv_flow_callbacks split_beta Let_def split: option.split)

lemma inv_PerformDownload: "fw_inv (snd st) \<Longrightarrow> fw_inv (snd (PerformDownload env opts cs st))"
  using inv_flow_callbacks(5) [of st]
  by (auto simp: PerformDownload_def Let_def split_beta intro!: inv_executors(3))

lemma inv_PerformResumeDownload: "fw_inv (snd st) \<Longrightarrow> fw_inv (snd (PerformResumeDownload env opts cs k st))"
proof -
  assume inv: "fw_inv (snd st)"
  have resume: "fw_inv (snd (snd (IsNeedResumeDownload env k p err (fst st, (snd st)\<lparr>fw_dl := dl\<rparr>))))" for p err dl
    using inv by (simp add: IsNeedResumeDownload_def inv_executors)
  show ?thesis
    unfolding PerformResumeDownload_def Let_def split_beta
    using inv inv_flow_callbacks(5) [OF resume]
    by (auto intro!: inv_PerformDownload inv_executors resume)
qed

lemma inv_DoDownload: "fw_inv (snd st) \<Longrightarrow> DoDownload env opts st = Some st' \<Longrightarrow> fw_inv (snd st')"
  by (auto simp: DoDownload_def Let_def inv_PerformDownload inv_PerformResumeDownload split: if_splits)

section \<open>A flow moves forward and ends\<close>

definition executor_step :: "executor \<Rightarrow> FirmwareStep" where
  "executor_step ex = (case ex of CheckExecutor \<Rightarrow> CHECK_STEP | DownloadExecutor _ \<Rightarrow> DOWNLOAD_STEP
     | InstallExecutor _ \<Rightarrow> INSTALL_STEP | ApplyExecutor \<Rightarrow> APPLY_STEP)"

text \<open>A running flow has a mode and the executor of its step.\<close>

definition flow_wf :: "flow_state \<Rightarrow> bool" where
  "flow_wf fs =
     (case fs of
        Running fl \<Rightarrow> fl_mode fl \<noteq> None \<and> (\<exists>ex. fl_executor fl = Some ex \<and> fl_nextStep fl = executor_step ex)
      | Finished m r \<Rightarrow> True)"

text \<open>How far a flow is: a finished one is beyond every step.\<close>

definition flow_at :: "flow_state \<Rightarrow> nat" where
  "flow_at fs = (case fs of Running fl \<Rightarrow> step_code (fl_nextStep fl) | Finished m r \<Rightarrow> 6)"

lemma executor_step_code: "step_code (executor_step ex) \<le> 5 \<and> 1 \<le> step_code (executor_step ex)"
  by (cases ex) (simp_all add: executor_step_def)

lemma flow_at_running: "flow_wf (Running fl) \<Longrightarrow> flow_at (Running fl) \<le> 5 \<and> 1 \<le> flow_at (Running fl)"
  using executor_step_code by (auto simp: flow_wf_def flow_at_def)

lemma flow_ended: "flow_wf fs \<Longrightarrow> 5 < flow_at fs \<Longrightarrow> \<exists>m r. fs = Finished m r"
  using flow_at_running by (cases fs) fastforce+

lemma flow_at_finished [simp]: "flow_at (mode_HandleComplete env m w) = 6" "flow_wf (mode_HandleComplete env m w)"
  by (cases m; simp add: flow_at_def flow_wf_def)+

lemma flow_Execute_forward:
  assumes "fl_mode fl = Some m" "step_code (fl_nextStep fl) \<le> 5"
  shows "flow_wf (fst (flow_Execute env fl w)) \<and> step_code (fl_nextStep fl) < flow_at (fst (flow_Execute env fl w))"
proof -
  obtain s m1 w1 where g: "mode_GetNextStep env (fl_nextStep fl) m w = (s, m1, w1)"
    by (cases "mode_GetNextStep env (fl_nextStep fl) m w") auto
  consider "s = COMPLETE" | "s \<in> {CHECK_STEP, DOWNLOAD_STEP, INSTALL_STEP, APPLY_STEP}" "step_code (fl_nextStep fl) < step_code s"
    using any_mode.next_step [OF g] by blast
  then show ?thesis
  proof cases
    case 1
    with assms g show ?thesis by (simp add: flow_Execute_def)
  next
    case 2
    then obtain ex where "CreateInstance s m1 = Some ex" "s = executor_step ex" "s \<noteq> COMPLETE"
      by (auto simp: CreateInstance_def executor_step_def)
    with 2 assms(1) g show ?thesis by (auto simp: flow_Execute_def Let_def flow_wf_def flow_at_def)
  qed
qed

lemma flow_Start_wf: "flow_wf (fst (flow_Start env m w)) \<and> 1 \<le> flow_at (fst (flow_Start env m w))"
  using flow_Execute_forward [of "new_flow\<lparr>fl_mode := Some m\<rparr>" m env w] by (simp add: flow_Start_def new_flow_def)

text \<open>What an executor can tell a flow, and which reports end the executor's step.\<close>

datatype flow_input =
    CheckAnswer CheckStatus int "FirmwareComponent list"
  | DownloadReport FirmwareDownloadCallbackInfo
  | InstallReport InstallCallbackInfo
  | ApplyAnswer bool

fun feed :: "fw_env \<times> flow_input \<Rightarrow> flow_state \<times> fw \<Rightarrow> flow_state \<times> fw" where
  "feed (env, CheckAnswer s d cs) st = OnCheckCallback env s d cs st"
| "feed (env, DownloadReport info) st = OnDownloadCallback env info st"
| "feed (env, InstallReport info) st = OnInstallCallback env info st"
| "feed (env, ApplyAnswer b) st = OnApplyCallback env b st"

fun ends_step :: "flow_input \<Rightarrow> bool" where
  "ends_step (DownloadReport info) = (pg_status (fd_taskProgress info) \<noteq> US_DOWNLOADING)"
| "ends_step (InstallReport info) = (pg_status (ic_progress info) \<noteq> US_INSTALLING)"
| "ends_step _ = True"

lemma feed_forward:
  assumes "flow_wf (fst st)"
  shows "flow_wf (fst (feed e st)) \<and> flow_at (fst st) \<le> flow_at (fst (feed e st))
    \<and> (ends_step (snd e) \<longrightarrow> (\<exists>m r. fst st = Finished m r) \<or> flow_at (fst st) < flow_at (fst (feed e st)))
    \<and> (\<not> ends_step (snd e) \<longrightarrow> flow_at (fst (feed e st)) = flow_at (fst st))"
proof (cases "fst st")
  case (Finished m r)
  obtain env inp where e: "e = (env, inp)" by fastforce
  have "feed e st = st"
    using Finished unfolding e
    by (cases inp; cases st)
      (simp_all add: OnCheckCallback_def OnDownloadCallback_def OnInstallCallback_def OnApplyCallback_def)
  with Finished show ?thesis by (simp add: flow_wf_def)
next
  case (Running fl)
  obtain m where m: "fl_mode fl = Some m" using assms Running by (auto simp: flow_wf_def)
  have le: "step_code (fl_nextStep fl) \<le> 5" using flow_at_running [of fl] assms Running by (simp add: flow_at_def)
  have fwd: "flow_wf (fst (flow_Execute env (fl\<lparr>fl_mode := Some m'\<rparr>) w)) \<and>
      step_code (fl_nextStep fl) < flow_at (fst (flow_Execute env (fl\<lparr>fl_mode := Some m'\<rparr>) w))" for env m' w
    using flow_Execute_forward [of "fl\<lparr>fl_mode := Some m'\<rparr>"] le by simp
  have same: "flow_wf (Running (fl\<lparr>fl_mode := Some m'\<rparr>)) \<and> flow_at (Running (fl\<lparr>fl_mode := Some m'\<rparr>)) = step_code (fl_nextStep fl)" for m'
    using assms Running by (auto simp: flow_wf_def flow_at_def)
  have refl: "fl\<lparr>fl_mode := Some m\<rparr> = fl" using m by simp
  obtain env inp where e: "e = (env, inp)" by fastforce
  obtain w where st: "st = (Running fl, w)" using Running by (cases st) simp
  show ?thesis
  proof (cases inp)
    case (CheckAnswer s d cs)
    then show ?thesis using fwd [of env] by (auto simp: e st OnCheckCallback_def m split_beta Let_def flow_at_def dest: less_imp_le)
  next
    case (DownloadReport info)
    then show ?thesis
      using fwd [of env] same by (auto simp: e st OnDownloadCallback_def m split_beta Let_def flow_at_def dest: less_imp_le)
  next
    case (InstallReport info)
    then show ?thesis
      using fwd [of env] same by (auto simp: e st OnInstallCallback_def m split_beta Let_def flow_at_def dest: less_imp_le)
  next
    case (ApplyAnswer b)
    then show ?thesis
      using fwd [of env m w] by (auto simp: e st OnApplyCallback_def m refl flow_at_def dest: less_imp_le)
  qed
qed

lemma feeds_end:
  assumes "list_all (\<lambda>e. ends_step (snd e)) es" "flow_wf (fst st)" "5 < flow_at (fst st) + length es"
  shows "\<exists>m r. fst (fold feed es st) = Finished m r"
  using assms
proof (induction es arbitrary: st)
  case Nil
  then show ?case using flow_ended by simp
next
  case (Cons e es)
  note f = feed_forward [OF Cons.prems(2), of e]
  have "5 < flow_at (fst (feed e st)) + length es"
    using f Cons.prems by (auto simp: flow_at_def)
  then show ?case using Cons.IH [of "feed e st"] f Cons.prems(1) by simp
qed

section \<open>An install ends its step\<close>

lemma inv_install_client:
  "fw_inv (snd (snd st)) \<Longrightarrow> fw_inv (snd (snd (HandleInstallProgress env c st)))"
  "fw_inv (snd (snd st)) \<Longrightarrow> fw_inv (snd (snd (HandleInstallResult env r err s st)))"
  "fw_inv (snd (snd st)) \<Longrightarrow> fw_inv (snd (snd (cl_status (install_client_of env) s st)))"
  by (cases st; simp add: HandleInstallProgress_def HandleInstallResult_def install_client_of_def Let_def split_beta
      inv_flow_callbacks)+

text \<open>A progress report of an installer keeps the flow at its install step; the final event ends the step.\<close>

definition installing :: "install_state \<Rightarrow> bool" where
  "installing st = (fw_inv (snd (snd st)) \<and> flow_wf (fst (snd st)) \<and> flow_at (fst (snd st)) = 4)"

lemma installing_progress: "installing st \<Longrightarrow> installing (HandleInstallProgress env c st)"
proof -
  assume i: "installing st"
  obtain x fs w where st: "st = (x, fs, w)" by (cases st) auto
  let ?r = "HandleInstallProgress env c st"
  obtain info w' where r: "snd ?r = feed (env, InstallReport info) (fs, w')" "pg_status (ic_progress info) = US_INSTALLING"
    by (auto simp: HandleInstallProgress_def st Let_def)
  have "flow_wf fs" "flow_at fs = 4" using i by (simp_all add: installing_def st)
  with feed_forward [of "(fs, w')" "(env, InstallReport info)"] r(2) have "flow_wf (fst (snd ?r))" "flow_at (fst (snd ?r)) = 4"
    by (simp_all add: r(1))
  then show ?thesis using i inv_install_client(1) by (simp add: installing_def)
qed

lemma installing_status: "installing st \<Longrightarrow> installing (cl_status (install_client_of env) s st)"
  by (cases st) (auto simp: installing_def install_client_of_def)

lemma install_event_ends:
  assumes "installing st"
  shows "flow_wf (fst (snd (HandleInstallResult env r err s st))) \<and> 4 < flow_at (fst (snd (HandleInstallResult env r err s st)))
    \<and> fw_inv (snd (snd (HandleInstallResult env r err s st)))"
proof -
  obtain x fs w where st: "st = (x, fs, w)" by (cases st) auto
  let ?r = "HandleInstallResult env r err s st"
  obtain info w' where f: "snd ?r = feed (env, InstallReport info) (fs, w')" "pg_status (ic_progress info) \<noteq> US_INSTALLING"
    by (auto simp: HandleInstallResult_def st Let_def install_result_status_def)
  have "flow_wf fs" "flow_at fs = 4" using assms by (simp_all add: installing_def st)
  with feed_forward [of "(fs, w')" "(env, InstallReport info)"] f(2) have "flow_wf (fst (snd ?r))" "4 < flow_at (fst (snd ?r))"
    by (auto simp: f(1) flow_at_def)
  then show ?thesis using assms inv_install_client(2) by (simp add: installing_def)
qed

lemma install_DoInstall_ends:
  assumes "fw_inv (snd st)" "flow_wf (fst st)" "flow_at (fst st) = 4"
  shows "let (x, fs, w) = install_DoInstall env kit ty st in fw_inv w \<and> flow_wf fs \<and> 4 < flow_at fs"
proof (cases "stored_components (snd st) = []")
  case True
  obtain x info where d: "install_DoInstall env kit ty st = (x, feed (env, InstallReport info) st)"
    "pg_status (ic_progress info) \<noteq> US_INSTALLING"
    using True by (cases st) (auto simp: install_DoInstall_def Let_def)
  from feed_forward [OF assms(2), of "(env, InstallReport info)"] assms d
  show ?thesis using inv_flow_callbacks(3) [OF assms(1), of env info] by (auto simp: split_beta flow_at_def)
next
  case False
  let ?cl = "install_client_of env"
  obtain x w fs' query where d: "install_DoInstall env kit ty st = run_install kit fs' ty query ?cl (stored_components (snd st)) (x, fst st, w)"
    and w: "fw_inv w"
    using False assms(1) by (cases st) (auto simp: install_DoInstall_def Let_def)
  have "installing (x, fst st, w)" using assms w by (simp add: installing_def)
  then obtain s1 r err s where "installing s1" "install_DoInstall env kit ty st = HandleInstallResult env r err s s1"
    using run_install_one_event [of installing ?cl "(x, fst st, w)" kit fs' ty query "stored_components (snd st)"]
      installing_progress installing_status
    by (auto simp: d install_client_of_def)
  with install_event_ends [of s1 env r err s] show ?thesis by (auto simp: split_beta)
qed

end
