(* ===== verification/Firmware_Result.thy ===== *)
theory Firmware_Result
  imports Firmware_Flow_Facts
begin

text \<open>
  The result of an install by the updater, read after the reboot:
  \<open>services/firmware/upgrade/status/src/firmware_result_process.cpp\<close>. The result file has one line per package,
  the path, the result and the reason separated by bars, with the reason also possible after a colon of the result. The
  display version and the content of the file are the device's.
\<close>

section \<open>Lines and fields\<close>

fun split_char :: "char \<Rightarrow> string \<Rightarrow> string list" where
  "split_char d [] = [[]]"
| "split_char d (c # s) =
     (if c = d then [] # split_char d s
      else case split_char d s of t # ts \<Rightarrow> (c # t) # ts | [] \<Rightarrow> [[c]])"

text \<open>\<open>getline\<close> until it fails: no field after a delimiter at the end.\<close>

definition getline_fields :: "char \<Rightarrow> string \<Rightarrow> string list" where
  "getline_fields d s = (let ts = split_char d s in if last ts = [] then butlast ts else ts)"

record UpdateResult =
  ur_spath :: string
  ur_result :: string
  ur_reason :: string

datatype UpdateResultCode = URC_SUCCESS | URC_FAILURE | URC_PART_SUCCESS

definition GetUpdateResultCode :: "UpdateResult \<Rightarrow> int" where
  "GetUpdateResultCode r = (if ur_result r = ''pass'' then 0 else if ur_result r = ''fail'' then 1 else 2)"

type_synonym result_map = "(string, UpdateResult) cmap"

definition cm_emplace :: "'k::linorder \<Rightarrow> 'v \<Rightarrow> ('k, 'v) cmap \<Rightarrow> ('k, 'v) cmap" where
  "cm_emplace k v m = (if cm_has k m then m else cm_put k v m)"

definition ParseResult :: "string list \<Rightarrow> string \<Rightarrow> nat \<Rightarrow> string" where
  "ParseResult results v index = (if index \<ge> length results then v else Trim (results ! index))"

text \<open>The colon is looked up in the trimmed result, but the reason is cut from the untrimmed field.\<close>

definition parse_record :: "string \<Rightarrow> UpdateResult" where
  "parse_record resultLine =
     (let results = getline_fields CHR ''|'' resultLine;
          r = \<lparr>ur_spath = ParseResult results [] 0, ur_result = ParseResult results [] 1, ur_reason = ParseResult results [] 2\<rparr>;
          r1 = (case find_pos (\<lambda>c. c = CHR '':'') (ur_result r) of
                  None \<Rightarrow> r
                | Some i \<Rightarrow> r\<lparr>ur_result := take i (ur_result r), ur_reason := drop (i + 1) (results ! 1)\<rparr>)
      in \<lparr>ur_spath = Trim (ur_spath r1), ur_result = Trim (ur_result r1), ur_reason = Trim (ur_reason r1)\<rparr>)"

definition ParseUpdaterResultRecord :: "string \<Rightarrow> result_map \<Rightarrow> result_map" where
  "ParseUpdaterResultRecord resultLine m =
     (if resultLine = [] then m else let r = parse_record resultLine in cm_emplace (ur_spath r) r m)"

section \<open>The verdict\<close>

definition CompareVersion :: "fw_env \<Rightarrow> FirmwareComponent \<Rightarrow> UpdateResult" where
  "CompareVersion env c =
     (if fc_versionNumber c = fe_displayVersion env
      then \<lparr>ur_spath = fc_spath c, ur_result = ''pass'', ur_reason = ''compare version success''\<rparr>
      else \<lparr>ur_spath = fc_spath c, ur_result = ''fail'', ur_reason = ''compare version fail''\<rparr>)"

definition HandleFileError :: "fw_env \<Rightarrow> FirmwareComponent list \<Rightarrow> result_map" where
  "HandleFileError env cs = fold (\<lambda>c. cm_emplace (fc_spath c) (CompareVersion env c)) cs []"

definition component_verdict :: "fw_env \<Rightarrow> FirmwareComponent \<Rightarrow> int \<times> result_map \<Rightarrow> int \<times> result_map" where
  "component_verdict env c st =
     (let (bits, m) = st;
          (status, m1) = (case map_of m (fc_spath c) of
             None \<Rightarrow> (let r = CompareVersion env c in (ur_result r, cm_emplace (ur_spath r) r m))
           | Some r \<Rightarrow> (ur_result r, m))
      in (or bits (if status = ''pass'' then 1 else 2), m1))"

definition HandleFileResults :: "fw_env \<Rightarrow> fw \<Rightarrow> FirmwareComponent list \<Rightarrow> result_map \<Rightarrow> UpdateResultCode \<times> result_map" where
  "HandleFileResults env w cs m =
     (let task = stored_task w in
      if \<not> ft_isExistTask task then (URC_FAILURE, m)
      else
        let (bits, m1) = fold (component_verdict env) cs (0, m) in
        if ft_combinationType task = HOTA then (if bits = 1 then URC_SUCCESS else URC_FAILURE, m1)
        else if bits \<noteq> 1 then (URC_FAILURE, m1) else (URC_SUCCESS, m1))"

definition GetUpdaterResult :: "fw_env \<Rightarrow> fw \<Rightarrow> FirmwareComponent list \<Rightarrow> result_map \<Rightarrow> UpdateResultCode \<times> result_map" where
  "GetUpdaterResult env w cs m =
     (if cs = [] then (URC_FAILURE, m)
      else HandleFileResults env w cs
        (case fe_updaterResult env of
           None \<Rightarrow> HandleFileError env cs
         | Some content \<Rightarrow> fold ParseUpdaterResultRecord (split_char CHR ''\<newline>'' content) []))"

section \<open>Facts\<close>

lemma map_of_emplace: "map_of (cm_emplace k v m) x = (if x = k \<and> map_of m k = None then Some v else map_of m x)"
  by (simp add: cm_emplace_def cm_has_iff)

text \<open>
  What the updater left in its file, and the outcome of a package: its line in the file decides; without one, the running
  version is compared with the version of the first component of that package.
\<close>

definition updater_lines :: "fw_env \<Rightarrow> result_map" where
  "updater_lines env =
     (case fe_updaterResult env of
        None \<Rightarrow> []
      | Some content \<Rightarrow> fold ParseUpdaterResultRecord (split_char CHR ''\<newline>'' content) [])"

definition path_passed :: "fw_env \<Rightarrow> result_map \<Rightarrow> FirmwareComponent list \<Rightarrow> string \<Rightarrow> bool" where
  "path_passed env m cs path =
     (case map_of m path of
        Some r \<Rightarrow> ur_result r = ''pass''
      | None \<Rightarrow> (case find (\<lambda>d. fc_spath d = path) cs of
            Some d \<Rightarrow> fc_versionNumber d = fe_displayVersion env
          | None \<Rightarrow> False))"

definition packages_passed :: "fw_env \<Rightarrow> FirmwareComponent list \<Rightarrow> bool" where
  "packages_passed env cs = (cs \<noteq> [] \<and> list_all (\<lambda>c. path_passed env (updater_lines env) cs (fc_spath c)) cs)"

lemma bits_cases: "or (0::int) 1 = 1" "or (0::int) 2 = 2" "or (1::int) 1 = 1" "or (1::int) 2 = 3" "or (2::int) 1 = 3"
  "or (2::int) 2 = 2" "or (3::int) 1 = 3" "or (3::int) 2 = 3"
  by simp_all

lemma verdict_step:
  "fst (component_verdict env c (bits, m)) = or bits (if path_passed env m (c # cs) (fc_spath c) then 1 else 2)"
  "path_passed env (snd (component_verdict env c (bits, m))) cs path = path_passed env m (c # cs) path"
  by (auto simp: component_verdict_def path_passed_def CompareVersion_def map_of_emplace Let_def split: option.split)

lemma verdict_fold:
  "fst (fold (component_verdict env) cs (bits, m)) =
     fold (\<lambda>c b. or b (if path_passed env m cs (fc_spath c) then 1 else 2)) cs bits"
proof -
  have "fst (fold (component_verdict env) cs (bits, m)) = fold (\<lambda>c b. or b (if P (fc_spath c) then 1 else 2)) cs bits"
    if "path_passed env m cs = P" for P
    using that
  proof (induction cs arbitrary: bits m)
    case (Cons c cs)
    obtain b1 m1 where first: "component_verdict env c (bits, m) = (b1, m1)" by fastforce
    have "path_passed env m1 cs = P"
      using verdict_step(2) [of env c bits m cs] Cons.prems by (simp add: first fun_eq_iff)
    moreover have "b1 = or bits (if P (fc_spath c) then 1 else 2)"
      using verdict_step(1) [of env c bits m cs] Cons.prems by (simp add: first)
    ultimately show ?case using Cons.IH [of m1 b1] by (simp add: first)
  qed simp
  then show ?thesis by simp
qed

lemma verdict_bits:
  assumes "bits \<in> {0, 1, 2, 3}"
  shows "fold (\<lambda>c b. or b (if P c then 1 else 2)) cs bits = (1::int) \<longleftrightarrow> (bits = 1 \<or> (bits = 0 \<and> cs \<noteq> [])) \<and> list_all P cs"
  using assms
proof (induction cs arbitrary: bits)
  case Nil
  then show ?case by simp
next
  case (Cons c cs)
  have "or bits (if P c then 1 else 2) \<in> {0, 1, 2, 3}" using Cons.prems by auto
  from Cons.IH [OF this] Cons.prems show ?case by auto
qed

text \<open>Without a file the map holds the comparison of the first component of each package: the same outcome.\<close>

lemma map_of_compared:
  "map_of (fold (\<lambda>c. cm_emplace (fc_spath c) (CompareVersion env c)) cs m) path =
     (case map_of m path of
        Some r \<Rightarrow> Some r
      | None \<Rightarrow> map_option (CompareVersion env) (find (\<lambda>d. fc_spath d = path) cs))"
  by (induction cs arbitrary: m) (auto simp: map_of_emplace split: option.split)

lemma path_passed_compared: "path_passed env (HandleFileError env cs) cs path = path_passed env [] cs path"
proof -
  have "map_of (HandleFileError env cs) path = map_option (CompareVersion env) (find (\<lambda>d. fc_spath d = path) cs)"
    by (simp add: HandleFileError_def map_of_compared)
  then show ?thesis by (cases "find (\<lambda>d. fc_spath d = path) cs") (simp_all add: path_passed_def CompareVersion_def)
qed

text \<open>The upgrade counts as a success exactly when there are components and the package of every component passed.\<close>

lemma GetUpdaterResult_success:
  assumes "up_task (upgrade_of w) = Some t"
  shows "fst (GetUpdaterResult env w cs m) = (if packages_passed env cs then URC_SUCCESS else URC_FAILURE)"
proof -
  have "fst (HandleFileResults env w cs m') = (if list_all (\<lambda>c. path_passed env m' cs (fc_spath c)) cs then URC_SUCCESS else URC_FAILURE)"
    if "cs \<noteq> []" for m'
    using that assms stored_task_exists [of w] verdict_bits [of 0 "\<lambda>c. path_passed env m' cs (fc_spath c)" cs]
    by (simp add: HandleFileResults_def Let_def split_beta verdict_fold)
  then show ?thesis
    by (auto simp: GetUpdaterResult_def packages_passed_def updater_lines_def path_passed_compared split: option.split)
qed

end
