(* ===== verification/Startup_Schedule.thy ===== *)
theory Startup_Schedule
  imports Net_Manager Cxx_Strings "HOL-Library.Product_Lexorder"
begin

text \<open>
  Starting and stopping the service on demand: \<open>services/startup/model\<close> (the tasks to be woken up for),
  \<open>services/startup/access/src/access_manager.cpp\<close> (the business parts that may keep the service alive) and
  \<open>services/startup/manage/src\<close> (\<open>schedule_manager.cpp\<close>, \<open>startup_schedule.cpp\<close>, \<open>system_ability_operator.cpp\<close>).
  The pointers of these objects are set in their constructors, to singletons. What the system ability manager answers is
  a parameter.
\<close>

unbundle bit_operations_syntax

section \<open>Schedule tasks\<close>

datatype StartupReason = SR_UNKNOWN | DEVICE_REBOOT | SCHEDULE_TASK | PROCESS_ENV_RESET

fun startup_code :: "StartupReason \<Rightarrow> int" where
  "startup_code SR_UNKNOWN = -1" | "startup_code DEVICE_REBOOT = 0" | "startup_code SCHEDULE_TASK = 1"
| "startup_code PROCESS_ENV_RESET = 2"

datatype TaskPriority = TP_LOW | TP_NORMAL | TP_HIGH

fun task_priority_code :: "TaskPriority \<Rightarrow> int" where
  "task_priority_code TP_LOW = 0" | "task_priority_code TP_NORMAL = 1" | "task_priority_code TP_HIGH = 2"

text \<open>The delays are \<open>uint64_t\<close> seconds; the net type is an \<open>or\<close> of enum values, so it is kept as its code.\<close>

record ScheduleTask =
  st_priority :: TaskPriority
  st_minDelayTime :: int
  st_maxDelayTime :: int
  st_netType :: "32 word"
  st_batteryLevel :: int
  st_deviceIdle :: bool
  st_taskExtra :: string
  st_startupReason :: StartupReason

definition new_schedule_task :: ScheduleTask where
  "new_schedule_task = \<lparr>st_priority = TP_LOW, st_minDelayTime = 0, st_maxDelayTime = 0, st_netType = net_code NO_NET,
     st_batteryLevel = 0, st_deviceIdle = False, st_taskExtra = [], st_startupReason = SR_UNKNOWN\<rparr>"

definition schedule_less :: "ScheduleTask \<Rightarrow> ScheduleTask \<Rightarrow> bool" where
  "schedule_less a b =
     (if st_minDelayTime a \<noteq> st_minDelayTime b then st_minDelayTime a < st_minDelayTime b
      else st_maxDelayTime a < st_maxDelayTime b)"

definition schedule_equal :: "ScheduleTask \<Rightarrow> ScheduleTask \<Rightarrow> bool" where
  "schedule_equal a b =
     (st_priority a = st_priority b \<and> st_minDelayTime a = st_minDelayTime b \<and> st_maxDelayTime a = st_maxDelayTime b
      \<and> st_netType a = st_netType b \<and> st_batteryLevel a = st_batteryLevel b \<and> st_deviceIdle a = st_deviceIdle b
      \<and> st_taskExtra a = st_taskExtra b)"

definition IsValidNetTask :: "ScheduleTask \<Rightarrow> bool" where
  "IsValidNetTask t = (st_netType t \<noteq> net_code NO_NET)"

definition schedule_ToString :: "ScheduleTask \<Rightarrow> string" where
  "schedule_ToString t =
     ''Task:['' @ ''priority:'' @ to_string (task_priority_code (st_priority t)) @ '', ''
     @ ''minDelayTime:'' @ to_string (st_minDelayTime t) @ '', '' @ ''maxDelayTime:'' @ to_string (st_maxDelayTime t) @ '', ''
     @ ''netType:'' @ to_string (sint (st_netType t)) @ '', '' @ ''batteryLevel:'' @ to_string (st_batteryLevel t) @ '', ''
     @ ''deviceIdle:'' @ to_string (if st_deviceIdle t then 1 else 0) @ '', '' @ ''taskExtra:'' @ st_taskExtra t @ '']''"

text \<open>\<open>std::sort\<close> with \<open>operator<\<close>: the order of tasks that compare equal is not fixed, and nothing depends on it.\<close>

definition schedule_key :: "ScheduleTask \<Rightarrow> int \<times> int" where
  "schedule_key t = (st_minDelayTime t, st_maxDelayTime t)"

lemma schedule_less_key: "schedule_less a b \<longleftrightarrow> schedule_key a < schedule_key b"
  by (auto simp: schedule_less_def schedule_key_def)

section \<open>\<open>AccessManager\<close>\<close>

datatype AccessType = AT_DEFAULT | AT_FIRMWARE | AT_PARAM | AT_DOWNLOAD | AT_REPORT

fun access_code :: "AccessType \<Rightarrow> nat" where
  "access_code AT_DEFAULT = 0" | "access_code AT_FIRMWARE = 1" | "access_code AT_PARAM = 2"
| "access_code AT_DOWNLOAD = 3" | "access_code AT_REPORT = 4"

lemma access_code_inject: "access_code a = access_code b \<Longrightarrow> a = b"
  by (cases a; cases b) simp_all

instantiation AccessType :: linorder
begin
definition less_eq_AccessType :: "AccessType \<Rightarrow> AccessType \<Rightarrow> bool" where
  "less_eq_AccessType a b = (access_code a \<le> access_code b)"
definition less_AccessType :: "AccessType \<Rightarrow> AccessType \<Rightarrow> bool" where
  "less_AccessType a b = (access_code a < access_code b)"
instance
  by standard (auto simp: less_eq_AccessType_def less_AccessType_def intro: access_code_inject)
end

text \<open>The interface \<open>IAccess\<close>: what a business part answers in the state \<open>'w\<close>.\<close>

record 'w access =
  ac_IsIdle :: "'w \<Rightarrow> bool"
  ac_GetScheduleTasks :: "'w \<Rightarrow> ScheduleTask list"
  ac_Exit :: "'w \<Rightarrow> bool"

definition default_access :: "'w access" where
  "default_access = \<lparr>ac_IsIdle = (\<lambda>_. True), ac_GetScheduleTasks = (\<lambda>_. []), ac_Exit = (\<lambda>_. True)\<rparr>"

record 'w access_manager =
  am_accessMap :: "(AccessType, 'w access) cmap"
  am_isRemoteIdle :: bool

definition new_access_manager :: "'w access_manager" where
  "new_access_manager = \<lparr>am_accessMap = [], am_isRemoteIdle = True\<rparr>"

definition access_IsIdle :: "'w access_manager \<Rightarrow> 'w \<Rightarrow> bool" where
  "access_IsIdle m w =
     (if \<not> am_isRemoteIdle m then False else list_all (\<lambda>(ty, a). ac_IsIdle a w) (am_accessMap m))"

definition access_GetScheduleTasks :: "'w access_manager \<Rightarrow> 'w \<Rightarrow> ScheduleTask list" where
  "access_GetScheduleTasks m w = concat (map (\<lambda>(ty, a). ac_GetScheduleTasks a w) (am_accessMap m))"

definition access_Exit :: "'w access_manager \<Rightarrow> 'w \<Rightarrow> bool" where
  "access_Exit m w = list_all (\<lambda>(ty, a). ac_Exit a w) (am_accessMap m)"

text \<open>A null access is refused.\<close>

definition access_Register :: "AccessType \<Rightarrow> 'w access option \<Rightarrow> 'w access_manager \<Rightarrow> bool \<times> 'w access_manager" where
  "access_Register ty a m =
     (case a of None \<Rightarrow> (False, m) | Some x \<Rightarrow> (True, m\<lparr>am_accessMap := cm_put ty x (am_accessMap m)\<rparr>))"

definition access_Unregister :: "AccessType \<Rightarrow> 'w access_manager \<Rightarrow> bool \<times> 'w access_manager" where
  "access_Unregister ty m =
     (if \<not> cm_has ty (am_accessMap m) then (False, m) else (True, m\<lparr>am_accessMap := cm_del ty (am_accessMap m)\<rparr>))"

definition SetRemoteIdle :: "bool \<Rightarrow> 'w access_manager \<Rightarrow> 'w access_manager" where
  "SetRemoteIdle isRemoteIdle m = m\<lparr>am_isRemoteIdle := isRemoteIdle\<rparr>"

section \<open>\<open>SystemAbilityOperator\<close> and \<open>StartupSchedule\<close>\<close>

record on_demand_event =
  od_name :: string
  od_value :: string

text \<open>\<open>None\<close> is a null system ability manager; otherwise its answer, \<open>ERR_OK\<close> being zero.\<close>

type_synonym samgr = "(on_demand_event list \<Rightarrow> int) option"

definition CreateTimedEvent :: "int \<Rightarrow> string \<Rightarrow> on_demand_event" where
  "CreateTimedEvent nextStartDuration timedEventName = \<lparr>od_name = timedEventName, od_value = to_string nextStartDuration\<rparr>"

definition UpdateStartupOnDemandPolicy ::
  "samgr \<Rightarrow> on_demand_event list \<Rightarrow> on_demand_event list \<Rightarrow> bool \<times> on_demand_event list" where
  "UpdateStartupOnDemandPolicy sm events policy =
     (case sm of None \<Rightarrow> (False, policy) | Some f \<Rightarrow> if f events \<noteq> 0 then (False, policy) else (True, events))"

fun timed_events :: "string \<Rightarrow> ScheduleTask list \<Rightarrow> on_demand_event list option" where
  "timed_events timeEventName [] = Some []"
| "timed_events timeEventName (t # ts) =
     (if st_minDelayTime t \<ge> 30
      then map_option (Cons (CreateTimedEvent (st_minDelayTime t) timeEventName)) (timed_events timeEventName ts)
      else None)"

definition UpdateStartupPolicy ::
  "samgr \<Rightarrow> ScheduleTask list \<Rightarrow> string \<Rightarrow> on_demand_event list \<Rightarrow> bool \<times> on_demand_event list" where
  "UpdateStartupPolicy sm scheduleTasks timeEventName policy =
     (case timed_events timeEventName scheduleTasks of
        None \<Rightarrow> (False, policy)
      | Some events \<Rightarrow> UpdateStartupOnDemandPolicy sm events policy)"

definition OnDemandSchedule ::
  "samgr \<Rightarrow> ScheduleTask list \<Rightarrow> on_demand_event list \<Rightarrow> bool \<times> on_demand_event list" where
  "OnDemandSchedule sm tasks policy =
     (if tasks = [] then (False, policy)
      else case UpdateStartupPolicy sm tasks ''awakeloopevent'' policy of
        (True, policy1) \<Rightarrow> (True, policy1)
      | (False, policy1) \<Rightarrow> UpdateStartupPolicy sm tasks ''loopevent'' policy1)"

section \<open>\<open>ScheduleManager\<close>\<close>

abbreviation DEFAULT_PULLUP_INTERVAL :: int where "DEFAULT_PULLUP_INTERVAL \<equiv> 86400"
abbreviation KEEP_ALIVE_THRESHOLD :: int where "KEEP_ALIVE_THRESHOLD \<equiv> 3600"

definition timed_delay :: "ScheduleTask list \<Rightarrow> int" where
  "timed_delay tasks =
     (case sort_key schedule_key tasks of [] \<Rightarrow> DEFAULT_PULLUP_INTERVAL | t # _ \<Rightarrow> st_minDelayTime t)"

definition TaskManage :: "ScheduleTask list \<Rightarrow> bool \<times> ScheduleTask list" where
  "TaskManage tasks =
     (let waiting = filter IsValidNetTask tasks;
          netTask = new_schedule_task\<lparr>st_netType := fold (\<lambda>t n. n OR st_netType t) waiting (net_code NO_NET)\<rparr>;
          timedTask = new_schedule_task\<lparr>st_minDelayTime := timed_delay (filter (Not \<circ> IsValidNetTask) tasks)\<rparr>
      in (st_minDelayTime timedTask > KEEP_ALIVE_THRESHOLD,
          (if IsValidNetTask netTask then [netTask] else []) @ [timedTask]))"

text \<open>The state of the schedule manager is its list of tasks; \<open>IdleCheck\<close> drops the answer of \<open>TaskManage\<close>.\<close>

definition schedule_IdleCheck :: "'w access_manager \<Rightarrow> 'w \<Rightarrow> ScheduleTask list \<Rightarrow> bool \<times> ScheduleTask list" where
  "schedule_IdleCheck m w scheduleTask =
     (if \<not> access_IsIdle m w then (False, scheduleTask)
      else (True, snd (TaskManage (access_GetScheduleTasks m w))))"

definition schedule_Exit ::
  "samgr \<Rightarrow> 'w access_manager \<Rightarrow> 'w \<Rightarrow> ScheduleTask list \<Rightarrow> on_demand_event list \<Rightarrow> bool \<times> on_demand_event list" where
  "schedule_Exit sm m w scheduleTask policy =
     (if \<not> access_Exit m w then (False, policy) else OnDemandSchedule sm scheduleTask policy)"

section \<open>Facts\<close>

lemma timed_delay_Nil [simp]: "timed_delay [] = DEFAULT_PULLUP_INTERVAL"
  by (simp add: timed_delay_def)

text \<open>The service is woken up for the earliest of the tasks that wait for a time.\<close>

lemma timed_delay_least:
  assumes "tasks \<noteq> []"
  shows "timed_delay tasks \<in> st_minDelayTime ` set tasks" "t \<in> set tasks \<Longrightarrow> timed_delay tasks \<le> st_minDelayTime t"
proof -
  obtain x xs where sorted: "sort_key schedule_key tasks = x # xs"
    using assms by (metis list.exhaust length_0_conv length_sort)
  have keys: "set (x # xs) = set tasks" using sorted by (metis set_sort)
  have "sorted (map schedule_key (x # xs))" using sorted by (metis sorted_sort_key)
  then have first: "schedule_key x \<le> schedule_key y" if "y \<in> set tasks" for y
    using that keys by auto
  show "timed_delay tasks \<in> st_minDelayTime ` set tasks" using sorted keys by (auto simp: timed_delay_def)
  show "timed_delay tasks \<le> st_minDelayTime t" if "t \<in> set tasks"
    using first [OF that] sorted by (auto simp: timed_delay_def schedule_key_def)
qed

lemma timed_events_iff: "timed_events n ts =
  (if list_all (\<lambda>t. 30 \<le> st_minDelayTime t) ts then Some (map (\<lambda>t. CreateTimedEvent (st_minDelayTime t) n) ts) else None)"
  by (induction ts) auto

lemma OnDemandSchedule_short:
  assumes "\<exists>t \<in> set tasks. st_minDelayTime t < 30"
  shows "OnDemandSchedule sm tasks policy = (False, policy)"
proof -
  have "timed_events n tasks = None" for n
    using assms by (auto simp: timed_events_iff list_all_iff not_le)
  then show ?thesis by (simp add: OnDemandSchedule_def UpdateStartupPolicy_def)
qed

text \<open>What is left of the schedule when nothing waits for a network.\<close>

lemma TaskManage_timed:
  assumes "filter IsValidNetTask tasks = []"
  shows "snd (TaskManage tasks) = [new_schedule_task\<lparr>st_minDelayTime := timed_delay tasks\<rparr>]"
proof -
  have "filter (Not \<circ> IsValidNetTask) tasks = tasks"
    using assms by (simp add: filter_empty_conv filter_id_conv)
  then show ?thesis
    using assms by (simp add: TaskManage_def IsValidNetTask_def new_schedule_task_def)
qed

lemma or_nonzero: "fold (\<lambda>t n. n OR st_netType t) ts n = 0 \<longleftrightarrow> n = 0 \<and> list_all (\<lambda>t. st_netType t = 0) ts"
  for n :: "32 word"
  by (induction ts arbitrary: n) (auto simp: or_eq_0_iff)

text \<open>A task that waits for a network puts an entry without a delay into the schedule.\<close>

lemma TaskManage_net:
  assumes "t \<in> set tasks" "IsValidNetTask t"
  shows "\<exists>n \<in> set (snd (TaskManage tasks)). st_minDelayTime n = 0"
proof -
  let ?n = "fold (\<lambda>t n. n OR st_netType t) (filter IsValidNetTask tasks) (net_code NO_NET)"
  have "?n \<noteq> 0" using assms by (auto simp: or_nonzero list_all_iff IsValidNetTask_def)
  then have "new_schedule_task\<lparr>st_netType := ?n\<rparr> \<in> set (snd (TaskManage tasks))"
    by (simp add: TaskManage_def Let_def IsValidNetTask_def)
  then show ?thesis by (rule bexI [rotated]) (simp add: new_schedule_task_def)
qed

end
