(* ===== verification/Firmware_Manager.thy ===== *)
theory Firmware_Manager
  imports Firmware_Result Startup_Schedule
begin

text \<open>
  The top of the firmware upgrade: \<open>services/firmware/upgrade/flow/src/firmware_manager.cpp\<close> (the requests of the
  application and the start of the service), \<open>firmware_event_manager.cpp\<close> (alarms, network changes, the boot after an
  upgrade), \<open>services/firmware/event/src/firmware_event_listener.cpp\<close> and
  \<open>services/firmware/utils/src/firmware_changelog_utils.cpp\<close>. An operation answers the flows it starts and the new
  state; a flow then goes on by its own steps.
\<close>

type_synonym started = "flow_state list \<times> fw"

definition start_flow :: "fw_env \<Rightarrow> flow_mode \<Rightarrow> fw \<Rightarrow> started" where
  "start_flow env m w = (let (fs, w1) = flow_Start env m w in ([fs], w1))"

abbreviation on_prefs :: "(prefs \<Rightarrow> bool \<times> prefs) \<Rightarrow> fw \<Rightarrow> fw" where
  "on_prefs f w \<equiv> w\<lparr>fw_prefs := snd (f (fw_prefs w))\<rparr>"

section \<open>\<open>FirmwareChangelogUtils\<close>\<close>

definition HOTA_CURRENT_COMPONENT_ID :: string where "HOTA_CURRENT_COMPONENT_ID = ''hota_current_component_id''"

definition GetNewVersionComponentIds :: "fw \<Rightarrow> string list" where
  "GetNewVersionComponentIds w =
     fold (\<lambda>c ids. if fc_componentId c \<in> set ids then ids else ids @ [fc_componentId c]) (stored_components w) []"

definition GetCurrentVersionComponentIds :: "fw \<Rightarrow> string list" where
  "GetCurrentVersionComponentIds w =
     (if prefs_IsExist HOTA_CURRENT_COMPONENT_ID (fw_prefs w) then [ObtainString HOTA_CURRENT_COMPONENT_ID [] (fw_prefs w)] else [])"

definition SaveHotaCurrentVersionComponentId :: "fw \<Rightarrow> fw" where
  "SaveHotaCurrentVersionComponentId w =
     (case find (\<lambda>c. fc_versionPackageType c = PT_NORMAL) (stored_components w) of
        None \<Rightarrow> w
      | Some c \<Rightarrow> on_prefs (prefs_Save HOTA_CURRENT_COMPONENT_ID (PrefString (fc_componentId c))) w)"

definition GetAllComponentIds :: "fw \<Rightarrow> string list \<Rightarrow> string list" where
  "GetAllComponentIds w componentIds = componentIds @ GetCurrentVersionComponentIds w @ GetNewVersionComponentIds w"

section \<open>Checking, downloading, installing\<close>

definition manager_DoCheck :: "fw_env \<Rightarrow> fw \<Rightarrow> started" where
  "manager_DoCheck env w = start_flow env (ManualMode new_manual_mode) w"

definition manager_DoDownload :: "fw_env \<Rightarrow> DownloadOptions \<Rightarrow> BusinessError \<Rightarrow> fw \<Rightarrow> started" where
  "manager_DoDownload env opts err w = start_flow env (DownloadMode (new_download_mode opts err w)) w"

definition CanInstall :: "fw_env \<Rightarrow> fw \<Rightarrow> bool" where
  "CanInstall env w =
     (let s = ft_status (stored_task w) in
      case GetInstallType env w of
        SYS_INSTALLER \<Rightarrow> s = US_DOWNLOAD_SUCCESS \<or> s = US_INSTALL_SUCCESS
      | STREAM_INSTALLLER \<Rightarrow> s \<noteq> US_INSTALLING
      | _ \<Rightarrow> s = US_DOWNLOAD_SUCCESS)"

definition manager_DoInstall :: "fw_env \<Rightarrow> UpgradeOptions \<Rightarrow> BusinessError \<Rightarrow> InstallType \<Rightarrow> fw \<Rightarrow> started" where
  "manager_DoInstall env opts err ty w =
     (if \<not> CanInstall env w then ([], w)
      else if IsStreamUpgrade (stored_components w) then start_flow env (StreamMode (new_install_mode opts err ty)) w
      else start_flow env (InstallMode (new_install_mode opts err ty)) w)"

definition manager_DoCancel :: "fw_env \<Rightarrow> BusinessError \<Rightarrow> fw \<Rightarrow> BusinessError \<times> fw" where
  "manager_DoCancel env err w =
     (let task = stored_task w; s = ft_status task in
      if \<not> ft_isExistTask task
      then (fail_with ''no download task to cancel!'' DUPDATE_ERR_DOWNLOAD_COMMON_ERROR ''no download task to cancel!'' err, w)
      else if s \<noteq> US_DOWNLOADING \<and> s \<noteq> US_DOWNLOAD_SUCCESS \<and> s \<noteq> US_DOWNLOAD_PAUSE
      then (fail_with ''download task status invalid'' DUPDATE_ERR_DOWNLOAD_COMMON_ERROR ''download task status invalid!'' err, w)
      else
        let (err1, w1) =
              (if s = US_DOWNLOADING then
                 let (de, dl) = manager_Cancel (fe_env env) (ft_downloadTaskId task) True (fw_dl w)
                 in (if de_errorNum de \<noteq> CALL_SUCCESS
                     then fail_with ''cancel download error!'' (reason_code (de_endReason de)) ''cancel download error!'' err
                     else err, w\<lparr>fw_dl := dl\<rparr>)
               else (err, w));
            w2 = on_tasks (UpdateProgressByTaskId (ft_taskId task) US_CHECK_VERSION_SUCCESS 0) w1;
            w3 = fold (\<lambda>c. on_components (UpdateProgressByVersionId (fc_versionId c) US_CHECK_VERSION_SUCCESS 0))
                   (stored_components w2) w2
        in (err1, dl_RemoveTask (ft_downloadTaskId task) w3))"

section \<open>Switches and errors\<close>

definition DoAutoDownloadSwitchChanged :: "bool \<Rightarrow> fw \<Rightarrow> fw" where
  "DoAutoDownloadSwitchChanged on w =
     (let w1 = w\<lparr>fw_prefs := SaveAutoDownloadSwitch on (fw_prefs w)\<rparr>; task = stored_task w1 in
      if \<not> ft_isExistTask task then w1
      else if ft_status task \<noteq> US_CHECK_VERSION_SUCCESS then w1
      else if \<not> on
      then NotifyEvent (ft_taskId task) EVENT_DOWNLOAD_WAIT US_CHECK_VERSION_SUCCESS new_error_message [] 0 w1
      else w1)"

definition DoAutoUpgradeSwitchChanged :: "fw_env \<Rightarrow> bool \<Rightarrow> fw \<Rightarrow> fw" where
  "DoAutoUpgradeSwitchChanged env on w =
     (let w1 = w\<lparr>fw_prefs := SaveNightUpgradeSwitch on (fw_prefs w)\<rparr>; task = stored_task w1 in
      if \<not> ft_isExistTask task then w1
      else if \<not> on then CancelNightUpgradeAlarm w1
      else if ft_status task = US_DOWNLOAD_SUCCESS
      then SetNightUpgradeAlarm env (NotifyEvent (ft_taskId task) EVENT_UPGRADE_WAIT (ft_status task) new_error_message [] 0 w1)
      else w1)"

definition DoClearError :: "BusinessError \<Rightarrow> fw \<Rightarrow> BusinessError \<times> fw" where
  "DoClearError err w =
     (let task = stored_task w in
      if \<not> ft_isExistTask task then (err, w)
      else if \<not> IsUpgradeFailed (ft_status task)
      then (fail_with ''please check status before clear error'' DUPDATE_ERR_UPDATE_COMMON_ERROR
              ''please check status before clear error'' err, w)
      else (err, ClearFirmwareInfo w))"

text \<open>\<open>StartupSchedule::Schedule\<close> saves the reason of the next start and asks the init process for it.\<close>

definition PROCESS_RESTART_REASON :: string where "PROCESS_RESTART_REASON = ''process_restart_reason''"

definition startup_Schedule :: "fw_env \<Rightarrow> ScheduleTask \<Rightarrow> fw \<Rightarrow> bool \<times> fw" where
  "startup_Schedule env t w =
     (fe_startByTimer env = 0,
      on_prefs (prefs_Save PROCESS_RESTART_REASON (PrefInt (startup_code (st_startupReason t)))) w)"

text \<open>The first component tells whether the process exits.\<close>

definition DoTerminateUpgrade :: "fw_env \<Rightarrow> BusinessError \<Rightarrow> fw \<Rightarrow> bool \<times> BusinessError \<times> fw" where
  "DoTerminateUpgrade env err w =
     (let t = new_schedule_task\<lparr>st_startupReason := PROCESS_ENV_RESET, st_minDelayTime := 5\<rparr>;
          (ok, w1) = startup_Schedule env t w
      in if \<not> ok then (False, AddErrorMessage (- 100) ''terminate upgrade error!'' err, w1) else (True, err, w1))"

section \<open>When the service may stop\<close>

definition manager_IsIdle :: "fw_env \<Rightarrow> fw \<Rightarrow> bool" where
  "manager_IsIdle env w =
     (if IsChecking (fe_now env) (fw_cache w) then False
      else let task = stored_task w in
        if \<not> ft_isExistTask task then True
        else if ustatus_code (ft_status task) > ustatus_code US_CHECK_VERSION_SUCCESS then False
        else True)"

definition GetAutoUpgradeScheduleTask :: "fw_env \<Rightarrow> fw \<Rightarrow> ScheduleTask" where
  "GetAutoUpgradeScheduleTask env w =
     (let autoUpgradeTime = GetAutoUpgradeTime (fw_prefs w);
          autoUpgradeDuration = GetEffectiveAutoUpgradeDuration
      in if autoUpgradeTime \<le> 0 then new_schedule_task
         else new_schedule_task\<lparr>
           st_minDelayTime := (min (max 0 (i64 (autoUpgradeTime - fe_now env))) autoUpgradeDuration) mod 2 ^ 64,
           st_taskExtra := ''Firmware Auto Upgrade''\<rparr>)"

definition manager_GetScheduleTasks :: "fw_env \<Rightarrow> fw \<Rightarrow> ScheduleTask list" where
  "manager_GetScheduleTasks env w =
     (let t = GetAutoUpgradeScheduleTask env w in if st_taskExtra t \<noteq> [] then [t] else [])"

section \<open>The boot after an upgrade\<close>

definition UPDATE_ACTION :: string where "UPDATE_ACTION = ''update_action''"

text \<open>The same loop in \<open>HandleBootUpdateSuccess\<close> and \<open>HandleBootUpdateFail\<close>.\<close>

definition boot_components :: "FirmwareComponent list \<Rightarrow> VersionComponent list" where
  "boot_components = map (\<lambda>c. new_version_component\<lparr>
     vc_componentType := 1, vc_componentId := fc_componentId c, vc_upgradeAction := ''upgrade'',
     vc_displayVersion := fc_targetBlDisplayVersionNumber c, vc_innerVersion := fc_targetBlVersionNumber c,
     vc_componentExtra := ''{}''\<rparr>)"

definition HandleBootUpdateSuccess :: "FirmwareTask \<Rightarrow> fw \<Rightarrow> fw" where
  "HandleBootUpdateSuccess task w =
     (let w1 = on_prefs (prefs_Save UPDATE_ACTION (PrefString ''upgrade'')) w;
          vcs = boot_components (stored_components w1);
          w2 = SaveHotaCurrentVersionComponentId w1
      in if ft_combinationType task = HOTA
         then ClearFirmwareInfo (NotifyEvent (ft_taskId task) EVENT_UPGRADE_SUCCESS US_UPDATE_SUCCESS new_error_message vcs 0 w2)
         else w2)"

definition boot_error :: "result_map \<Rightarrow> ErrorMessage" where
  "boot_error m =
     (case find (\<lambda>e. ur_result (snd e) = ''fail'') m of
        None \<Rightarrow> new_error_message
      | Some e \<Rightarrow> \<lparr>em_errorCode = GetUpdateResultCode (snd e), em_errorMessage = ur_reason (snd e)\<rparr>)"

definition HandleBootUpdateFail :: "FirmwareTask \<Rightarrow> result_map \<Rightarrow> fw \<Rightarrow> fw" where
  "HandleBootUpdateFail task m w =
     (let w1 = on_prefs (prefs_Save UPDATE_ACTION (PrefString ''recovery'')) w;
          vcs = boot_components (stored_components w1)
      in ClearFirmwareInfo (NotifyEvent (ft_taskId task) EVENT_UPGRADE_FAIL US_UPDATE_FAIL (boot_error m) vcs 0 w1))"

definition HandleBootUpdateOnStatusProcess :: "fw_env \<Rightarrow> FirmwareTask \<Rightarrow> fw \<Rightarrow> fw" where
  "HandleBootUpdateOnStatusProcess env task w =
     (case GetUpdaterResult env w (stored_components w) [] of
        (URC_SUCCESS, m) \<Rightarrow> HandleBootUpdateSuccess task w
      | (URC_FAILURE, m) \<Rightarrow> HandleBootUpdateFail task m w
      | _ \<Rightarrow> w)"

definition HandleBootComplete :: "fw_env \<Rightarrow> fw \<Rightarrow> fw" where
  "HandleBootComplete env w =
     (let task = stored_task w in
      if \<not> ft_isExistTask task then w
      else if ft_status task = US_UPDATING
      then HandleBootUpdateOnStatusProcess env task (ProcessAfterUpgrade env task w)
      else if ft_status task = US_INSTALL_SUCCESS
      then HandleBootUpdateSuccess task (ProcessAfterUpgrade env task w)
      else w)"

section \<open>Events\<close>

definition DoAutoUpgrade :: "fw_env \<Rightarrow> fw \<Rightarrow> started" where
  "DoAutoUpgrade env w =
     (let task = stored_task w in
      if ft_isExistTask task \<and> ft_status task = US_UPDATING then ([], w)
      else start_flow env (AutoMode new_auto_mode) w)"

text \<open>The order \<open>INSTALL_AND_APPLY\<close> is set on an object that is not the one passed on.\<close>

definition DoNightUpgrade :: "fw_env \<Rightarrow> FirmwareTask \<Rightarrow> fw \<Rightarrow> started" where
  "DoNightUpgrade env task w = manager_DoInstall env new_upgrade_options new_business_error (GetInstallType env w) w"

definition event_HandleNightUpgrade :: "fw_env \<Rightarrow> fw \<Rightarrow> started" where
  "event_HandleNightUpgrade env w =
     (let task = stored_task w in
      if \<not> GetNightUpgradeSwitch (fw_prefs w) then ([], w)
      else if \<not> ft_isExistTask task then ([], w)
      else if ft_status task \<noteq> US_DOWNLOAD_SUCCESS then ([], w)
      else DoNightUpgrade env task (on_tasks (UpdateUpgradeModeByTaskId (ft_taskId task) UM_NIGHT) w))"

definition HandleResumeDownload :: "fw_env \<Rightarrow> FirmwareTask \<Rightarrow> fw \<Rightarrow> started" where
  "HandleResumeDownload env task w =
     start_flow env (DownloadMode (new_download_mode
       (new_download_options\<lparr>do_allowNetwork := ft_downloadAllowNetwork task\<rparr>) new_business_error w)) w"

definition DoAutoDownload :: "fw_env \<Rightarrow> FirmwareTask \<Rightarrow> fw \<Rightarrow> started" where
  "DoAutoDownload env task w = HandleResumeDownload env task w"

definition HandleNetChanged :: "fw_env \<Rightarrow> fw \<Rightarrow> started" where
  "HandleNetChanged env w =
     (let task = stored_task w in
      if \<not> ft_isExistTask task then ([], w)
      else if \<not> net_ok env (ft_downloadAllowNetwork task) then ([], w)
      else if ft_status task = US_DOWNLOAD_PAUSE then HandleResumeDownload env task w
      else if ft_status task = US_CHECK_VERSION_SUCCESS
      then (if GetAutoDownloadSwitch (fw_prefs w) then DoAutoDownload env task w else ([], w))
      else ([], w))"

definition DistributeEventBusiness :: "fw_env \<Rightarrow> CommonEventType \<Rightarrow> fw \<Rightarrow> started" where
  "DistributeEventBusiness env event w =
     (case event of
        AUTO_UPGRADE \<Rightarrow> DoAutoUpgrade env w
      | NIGHT_UPGRADE \<Rightarrow> event_HandleNightUpgrade env w
      | NET_CHANGED \<Rightarrow> HandleNetChanged env w
      | BOOT_COMPLETE \<Rightarrow> ([], HandleBootComplete env w)
      | _ \<Rightarrow> ([], w))"

definition HandleEvent :: "fw_env \<Rightarrow> CommonEventType \<Rightarrow> fw \<Rightarrow> started" where
  "HandleEvent env event w = DistributeEventBusiness env event (RefreshAutoUpgradeAlarm_event env event w)"

text \<open>The alarms: the auto upgrade timer, and the night timer with the callbacks registered for it.\<close>

definition CheckAndHandleAutoUpgradeAlarm :: "fw_env \<Rightarrow> fw \<Rightarrow> started" where
  "CheckAndHandleAutoUpgradeAlarm env w = HandleEvent env AUTO_UPGRADE w"

definition night_alarm_fires :: "fw_env \<Rightarrow> fw \<Rightarrow> started" where
  "night_alarm_fires env w =
     (let (callbacks, a) = HandleNightUpgradeAlarm (fw_night w)
      in fold (\<lambda>c (fs, w). let (gs, w1) = HandleEvent env NIGHT_UPGRADE w in (fs @ gs, w1)) callbacks
           ([], w\<lparr>fw_night := a\<rparr>))"

section \<open>The start of the service\<close>

definition HandleBootInstallOnStatusProcess :: "fw_env \<Rightarrow> FirmwareTask \<Rightarrow> fw \<Rightarrow> started" where
  "HandleBootInstallOnStatusProcess env task w =
     (let w1 = (if IsStreamUpgrade (stored_components w)
                then on_tasks (UpdateStatusByTaskId (ft_taskId task) US_INSTALL_PAUSE) w
                else on_tasks (UpdateProgressByTaskId (ft_taskId task) US_DOWNLOAD_SUCCESS 100) w);
          w2 = fold (\<lambda>c w. if fc_status c = US_INSTALLING
                       then (if IsStreamUpgrade (stored_components w)
                             then on_components (UpdateStatusByUrl (fc_url c) US_INSTALL_PAUSE) w
                             else on_components (UpdateProgressByUrl (fc_url c) US_DOWNLOAD_SUCCESS 100) w)
                       else w) (stored_components w1) w1
      in manager_DoInstall env (new_upgrade_options\<lparr>uo_order := O_INSTALL_AND_APPLY\<rparr>) new_business_error
           (GetInstallType env w2) w2)"

definition HandleBootDownloadOnStatusProcess :: "FirmwareTask \<Rightarrow> fw \<Rightarrow> fw" where
  "HandleBootDownloadOnStatusProcess task w = on_tasks (UpdateStatusByTaskId (ft_taskId task) US_DOWNLOAD_PAUSE) w"

definition HandleBootDownloadedStatusProcess :: "fw_env \<Rightarrow> fw \<Rightarrow> fw" where
  "HandleBootDownloadedStatusProcess env w = (if GetNightUpgradeSwitch (fw_prefs w) then SetNightUpgradeAlarm env w else w)"

definition RestoreUpdate :: "fw_env \<Rightarrow> fw \<Rightarrow> started" where
  "RestoreUpdate env w =
     (let task = stored_task w in
      if ft_status task = US_DOWNLOADING then ([], HandleBootDownloadOnStatusProcess task w)
      else if ft_status task = US_DOWNLOAD_SUCCESS then ([], HandleBootDownloadedStatusProcess env w)
      else if ft_status task = US_INSTALLING then HandleBootInstallOnStatusProcess env task w
      else ([], w))"

definition DUE_INIT_FLAG :: string where "DUE_INIT_FLAG = ''due_init_flag''"

definition NotifyInitEvent :: "fw \<Rightarrow> fw" where
  "NotifyInitEvent w =
     (if \<not> ObtainBool DUE_INIT_FLAG False (fw_prefs w)
      then NotifyEvent [] EVENT_INITIALIZE US_INIT new_error_message [] 0 (on_prefs (prefs_Save DUE_INIT_FLAG (PrefBool True)) w)
      else w)"

text \<open>The listener is one more callback of the network observer; \<open>cb\<close> stands for its function.\<close>

definition RegisterNetChangedListener :: "nat \<Rightarrow> net_manager \<Rightarrow> net_manager" where
  "RegisterNetChangedListener cb n =
     fst (RegisterCallback HOTA_DOWNLOAD [CELLULAR, METERED_WIFI, NOT_METERED_WIFI, NO_NET] (Some cb) n)"

definition UnregisterNetChangedListener :: "net_manager \<Rightarrow> net_manager" where
  "UnregisterNetChangedListener n = UnregisterCallback HOTA_DOWNLOAD n"

definition DelayInit :: "fw_env \<Rightarrow> nat \<Rightarrow> StartupReason \<Rightarrow> net_manager \<times> fw \<Rightarrow> flow_state list \<times> net_manager \<times> fw" where
  "DelayInit env cb startupReason st =
     (let (n, w) = st;
          (fs, w1) = RestoreUpdate env w;
          n1 = RegisterNetChangedListener cb n;
          eventType = (if startupReason = DEVICE_REBOOT then BOOT_COMPLETE else PROCESS_INIT);
          (gs, w2) = HandleEvent env eventType (NotifyInitEvent w1)
      in (fs @ gs, n1, w2))"

definition FIRMWARE_DIR_INFOS :: "DirInfo list" where
  "FIRMWARE_DIR_INFOS =
     [\<lparr>dr_dirName = ''/data/service/el1/public/update/dupdate_engine/files/firmware'', dr_dirPermissions = 448,
       dr_isAllowDestroyContents = True\<rparr>,
      \<lparr>dr_dirName = ''/data/service/el1/public/update/dupdate_engine/files/firmware/changelogs'', dr_dirPermissions = 448,
       dr_isAllowDestroyContents = True\<rparr>,
      \<lparr>dr_dirName = ''/data/update/ota_package/firmware'', dr_dirPermissions = 504, dr_isAllowDestroyContents = True\<rparr>,
      \<lparr>dr_dirName = ''/data/update/ota_package/firmware/versions'', dr_dirPermissions = 504, dr_isAllowDestroyContents = True\<rparr>]"

text \<open>Deleting the store drops its tables; they are created empty when it is opened again.\<close>

definition DeleteDbStore :: "fw_env \<Rightarrow> fw \<Rightarrow> bool \<times> fw" where
  "DeleteDbStore env w =
     (if fe_deleteDb env = 0
      then (True, w\<lparr>fw_tasks := (fw_tasks w)\<lparr>tb_rows := [], tb_nextId := 1\<rparr>,
                    fw_components := (fw_components w)\<lparr>tb_rows := [], tb_nextId := 1\<rparr>\<rparr>)
      else (False, w))"

definition on_fs :: "(file_system \<Rightarrow> file_system) \<Rightarrow> fw \<Rightarrow> fw" where
  "on_fs f w = w\<lparr>fw_dl := (fw_dl w)\<lparr>mg_fs := f (fw_fs w)\<rparr>\<rparr>"

text \<open>The part of \<open>Init\<close> before its thread, which runs \<open>DelayInit\<close>. The configuration it loads first is not used here.\<close>

definition manager_Init :: "fw_env \<Rightarrow> StartupReason \<Rightarrow> fw \<Rightarrow> fw" where
  "manager_Init env startupReason w =
     (let w1 = (if startupReason = PROCESS_ENV_RESET
                then snd (DeleteDbStore env (on_prefs prefs_RemoveAll (on_fs (DestroyBaseDirectory FIRMWARE_DIR_INFOS) w)))
                else w)
      in on_fs (\<lambda>fs. snd (InitAndCreateBaseDirs (en_osOk (fe_env env)) FIRMWARE_DIR_INFOS (en_baseDirs (fe_env env), fs))) w1)"

end
