(* ===== verification/Firmware_Service.thy ===== *)
theory Firmware_Service
  imports Firmware_Manager
begin

text \<open>
  What an application can ask of the firmware upgrade: \<open>services/engine/src/update_service_impl_firmware.cpp\<close>. A request
  returns the error object its caller gets with the flows it started and the state it left. The error is shared by
  reference with the mode of a started flow, so it is read back from there. The canonical path of a file, which the
  operating system knows, is the argument \<open>realpath\<close>.
\<close>

section \<open>Errors that come back through a flow\<close>

fun mode_error :: "flow_mode \<Rightarrow> BusinessError" where
  "mode_error (ManualMode m) = mc_error m"
| "mode_error (AutoMode m) = new_business_error"
| "mode_error (DownloadMode m) = dm_error m"
| "mode_error (InstallMode m) = im_error m"
| "mode_error (StreamMode m) = im_error m"

definition started_error :: "BusinessError \<Rightarrow> started \<Rightarrow> BusinessError" where
  "started_error err r =
     (case fst r of
        [] \<Rightarrow> err
      | Running fl # _ \<Rightarrow> (case fl_mode fl of None \<Rightarrow> err | Some m \<Rightarrow> mode_error m)
      | Finished m _ # _ \<Rightarrow> mode_error m)"

section \<open>Downloads and upgrades\<close>

definition svc_Download :: "fw_env \<Rightarrow> DownloadOptions \<Rightarrow> BusinessError \<Rightarrow> fw \<Rightarrow> BusinessError \<times> started" where
  "svc_Download env opts err w =
     (let (triggered, cache) = IsDownloadTriggered (en_nowMs (fe_env env)) (fw_cache w);
          w1 = w\<lparr>fw_cache := cache\<rparr>
      in if triggered then (be_Build CR_FAIL ''repeat download error'' err, [], w1)
         else
           let task = stored_task w1 in
           if ft_status task \<noteq> US_CHECK_VERSION_SUCCESS then (be_Build CR_FAIL ''download error'' err, [], w1)
           else
             let w2 = on_tasks (UpdateDownloadOptionByTaskId (ft_taskId task) DM_MANUAL (do_allowNetwork opts) (do_order opts)) w1;
                 r = manager_DoDownload env opts err w2
             in (started_error err r, r))"

definition svc_PauseDownload :: "BusinessError \<Rightarrow> BusinessError" where
  "svc_PauseDownload err = be_Build CR_UN_SUPPORT ''pause download not support'' err"

definition svc_ResumeDownload :: "fw_env \<Rightarrow> NetType \<Rightarrow> BusinessError \<Rightarrow> fw \<Rightarrow> BusinessError \<times> started" where
  "svc_ResumeDownload env allowNetwork err w =
     (let task = stored_task w in
      if ft_status task \<noteq> US_CHECK_VERSION_SUCCESS \<and> ft_status task \<noteq> US_DOWNLOAD_PAUSE
      then (be_Build CR_FAIL ''download error'' err, [], w)
      else
        let opts = new_download_options\<lparr>do_order := ft_downloadOrder task, do_allowNetwork := allowNetwork\<rparr>;
            w1 = on_tasks (UpdateDownloadOptionByTaskId (ft_taskId task) DM_MANUAL allowNetwork (ft_upgradeOrder task)) w;
            r = manager_DoDownload env opts err w1
        in (started_error err r, r))"

definition svc_Upgrade :: "fw_env \<Rightarrow> UpgradeOptions \<Rightarrow> BusinessError \<Rightarrow> fw \<Rightarrow> BusinessError \<times> started" where
  "svc_Upgrade env opts err w =
     (let (triggered, cache) = IsUpgradeTriggered (en_nowMs (fe_env env)) (fw_cache w);
          w1 = w\<lparr>fw_cache := cache\<rparr>
      in if triggered then (be_Build CR_FAIL ''repeat upgrade error'' err, [], w1)
         else
           let task = stored_task w1;
               w2 = on_tasks (UpdateUpgradeModeByTaskId (ft_taskId task) UM_MANUAL) w1;
               r = manager_DoInstall env opts err (GetInstallType env w2) w2
           in (started_error err r, r))"

definition DUPDATE_ERR_CANCEL_TASK_ERROR :: int where "DUPDATE_ERR_CANCEL_TASK_ERROR = - 413"

definition svc_Cancel :: "fw_env \<Rightarrow> BusinessError \<Rightarrow> fw \<Rightarrow> BusinessError \<times> fw" where
  "svc_Cancel env err w =
     (let err1 = err\<lparr>be_errorNum := CR_SUCCESS\<rparr>; s = ft_status (stored_task w) in
      if IsStreamUpgrade (stored_components w) then
        if s \<noteq> US_INSTALLING
        then (AddErrorMessage DUPDATE_ERR_CANCEL_TASK_ERROR ''no install task to cancel!'' (be_Build CR_FAIL ''Cancel install error'' err1), w)
        else manager_DoCancel env err1 w
      else
        if s \<noteq> US_DOWNLOADING \<and> s \<noteq> US_DOWNLOAD_PAUSE
        then (AddErrorMessage DUPDATE_ERR_CANCEL_TASK_ERROR ''no download task to cancel!'' (be_Build CR_FAIL ''Cancel download error'' err1), w)
        else manager_DoCancel env err1 w)"

definition svc_ClearError :: "BusinessError \<Rightarrow> fw \<Rightarrow> BusinessError \<times> fw" where
  "svc_ClearError err w = DoClearError err w"

definition svc_TerminateUpgrade :: "fw_env \<Rightarrow> BusinessError \<Rightarrow> fw \<Rightarrow> bool \<times> BusinessError \<times> fw" where
  "svc_TerminateUpgrade env err w = DoTerminateUpgrade env err w"

section \<open>A search that is waited for\<close>

text \<open>\<open>CheckNewVersion\<close> starts a search and waits 40 seconds for the flag its callback sets. \<open>arrived\<close> is what the callback
  brings before the wait is over; the flag may still be set by an earlier search, and then the wait is over at once. The
  result is the error, the check result and the flag afterwards.\<close>

definition wait_CheckNewVersion ::
  "bool \<Rightarrow> (BusinessError \<times> CheckResult) option \<Rightarrow> BusinessError \<times> CheckResult \<Rightarrow> (BusinessError \<times> CheckResult) \<times> bool" where
  "wait_CheckNewVersion checkComplete arrived out =
     (let (out1, complete) = (case arrived of Some answer \<Rightarrow> (answer, True) | None \<Rightarrow> (out, checkComplete));
          out2 = (if complete then out1
                  else (fst out1\<lparr>be_errorNum := CR_TIME_OUT, be_message := ''CheckNewVersion TimeOut''\<rparr>, snd out1))
      in (out2, False))"

text \<open>The callback of a search that is over too late only leaves the flag set.\<close>

definition late_answer :: "bool \<Rightarrow> bool" where
  "late_answer checkComplete = True"

section \<open>Descriptions\<close>

definition CHANGELOG_PATH :: string where
  "CHANGELOG_PATH = ''/data/service/el1/public/update/dupdate_engine/files/firmware/changelogs''"

definition LANGUAGE_CHINESE :: string where
  "LANGUAGE_CHINESE = ''<language name='' @ [CHR 0x22] @ ''zh-cn'' @ [CHR 0x22] @ '' code='' @ [CHR 0x22] @ ''2052'' @ [CHR 0x22] @ ''>''"

definition LANGUAGE_ENGLISH :: string where
  "LANGUAGE_ENGLISH = ''<language name='' @ [CHR 0x22] @ ''en-us'' @ [CHR 0x22] @ '' code='' @ [CHR 0x22] @ ''1033'' @ [CHR 0x22] @ ''>''"

definition LANGUAGE_END :: string where "LANGUAGE_END = ''</language>''"

definition GetChangelogContent :: "string \<Rightarrow> string \<Rightarrow> string" where
  "GetChangelogContent dataXml language =
     StringRemove dataXml (if language \<noteq> ''zh-cn'' then LANGUAGE_CHINESE else LANGUAGE_ENGLISH) LANGUAGE_END"

definition IsValidComponentId :: "string \<Rightarrow> bool" where
  "IsValidComponentId componentId =
     (if componentId = [] then False
      else list_all (\<lambda>c. let n = (of_char c :: nat) in
        65 \<le> n \<and> n \<le> 90 \<or> 97 \<le> n \<and> n \<le> 122 \<or> cxx_isdigit c \<or> c = CHR ''_'' \<or> c = CHR ''-'') componentId)"

definition IsCoverBasePath :: "(string \<Rightarrow> string option) \<Rightarrow> string \<Rightarrow> bool" where
  "IsCoverBasePath realpath fullPath =
     (if fullPath = [] then False
      else case realpath fullPath of None \<Rightarrow> False | Some resolved \<Rightarrow> find_sub CHANGELOG_PATH resolved = Some 0)"

definition CheckFilePathValid ::
  "(string \<Rightarrow> string option) \<Rightarrow> file_system \<Rightarrow> string \<Rightarrow> BusinessError \<Rightarrow> bool \<times> BusinessError" where
  "CheckFilePathValid realpath fs changelogFilePath err =
     (if \<not> IsFileExist fs changelogFilePath \<or> \<not> IsCoverBasePath realpath changelogFilePath
      then (False, be_Build CR_FAIL ''GetDescription failed'' err) else (True, err))"

definition ReadDataFromFile :: "(string \<Rightarrow> string option) \<Rightarrow> file_system \<Rightarrow> string \<Rightarrow> string" where
  "ReadDataFromFile realpath fs filePath =
     (case realpath filePath of
        None \<Rightarrow> []
      | Some dealPath \<Rightarrow> (case fs dealPath of Some (Regular content) \<Rightarrow> content | _ \<Rightarrow> []))"

text \<open>The type of a description is kept as its code.\<close>

record ComponentDescription =
  cd_componentId :: string
  cd_descriptionType :: int
  cd_content :: string

text \<open>The part that the descriptions of the new and of the current version share: the description of one component, or the
  error with which the request ends. \<open>failure\<close> is the text of that error.\<close>

definition read_description ::
  "(string \<Rightarrow> string option) \<Rightarrow> file_system \<Rightarrow> string \<Rightarrow> string \<Rightarrow> string \<Rightarrow> BusinessError \<Rightarrow> BusinessError + ComponentDescription" where
  "read_description realpath fs failure language componentId err =
     (if \<not> IsValidComponentId componentId then Inl (be_Build CR_FAIL failure err)
      else
        let changelogFilePath = CHANGELOG_PATH @ ''/'' @ componentId @ ''.xml'';
            (valid, err1) = CheckFilePathValid realpath fs changelogFilePath err
        in if \<not> valid then Inl err1
           else
             let dataXml = ReadDataFromFile realpath fs changelogFilePath in
             case find_pos (\<lambda>c. c = CHR ''|'') dataXml of
               None \<Rightarrow> Inl (be_Build CR_FAIL failure err)
             | Some startIndex \<Rightarrow>
                 if length dataXml \<le> startIndex + 1 then Inl (be_Build CR_FAIL failure err)
                 else Inr \<lparr>cd_componentId = componentId,
                   cd_descriptionType = snd (DecStringToNumber (- (2 ^ 31)) (2 ^ 31 - 1) (take startIndex dataXml) 0),
                   cd_content = GetChangelogContent (drop (startIndex + 1) dataXml) language\<rparr>)"

fun describe_components ::
  "(string \<Rightarrow> BusinessError \<Rightarrow> BusinessError + ComponentDescription) \<Rightarrow> FirmwareComponent list \<Rightarrow> ComponentDescription list
    \<Rightarrow> BusinessError \<Rightarrow> BusinessError \<times> ComponentDescription list" where
  "describe_components describe [] descriptions err = (err, descriptions)"
| "describe_components describe (c # cs) descriptions err =
     (case describe (fc_componentId c) err of
        Inl err1 \<Rightarrow> (err1, descriptions)
      | Inr d \<Rightarrow> describe_components describe cs (descriptions @ [d]) err)"

definition GetNewVersionDescription ::
  "(string \<Rightarrow> string option) \<Rightarrow> string \<Rightarrow> BusinessError \<Rightarrow> fw \<Rightarrow> BusinessError \<times> ComponentDescription list" where
  "GetNewVersionDescription realpath language err w =
     (let err1 = be_Build CR_SUCCESS ''start GetNewVersionDescription'' err;
          components = stored_components w;
          failure = ''GetNewVersionDescription failed''
      in if components = [] then (be_Build CR_FAIL failure err1, [])
         else describe_components (read_description realpath (fw_fs w) failure language) components [] err1)"

definition GetCurrentVersionDescription ::
  "(string \<Rightarrow> string option) \<Rightarrow> string \<Rightarrow> BusinessError \<Rightarrow> fw \<Rightarrow> BusinessError \<times> ComponentDescription list" where
  "GetCurrentVersionDescription realpath language err w =
     (let componentId = ObtainString HOTA_CURRENT_COMPONENT_ID [] (fw_prefs w);
          failure = ''GetCurrentVersionDescription failed''
      in if componentId = [] then (be_Build CR_FAIL failure err, [])
         else case read_description realpath (fw_fs w) failure language componentId err of
           Inl err1 \<Rightarrow> (err1, [])
         | Inr d \<Rightarrow> (be_Build CR_SUCCESS ''GetCurrentVersionDescription ok'' err, [d]))"

section \<open>Questions\<close>

definition GetNewVersionInfo :: "fw_env \<Rightarrow> fw \<Rightarrow> string \<times> VersionComponent list" where
  "GetNewVersionInfo env w =
     (ft_taskId (stored_task w), BuildNewVersionInfo (GetInstallType env w) (stored_components w))"

record TaskInfo =
  ti_existTask :: bool
  ti_digest :: string
  ti_status :: UpgradeStatus
  ti_progress :: int

definition new_task_info :: TaskInfo where
  "new_task_info = \<lparr>ti_existTask = False, ti_digest = [], ti_status = US_INIT, ti_progress = 0\<rparr>"

definition GetTaskInfo :: "TaskInfo \<Rightarrow> BusinessError \<Rightarrow> fw \<Rightarrow> BusinessError \<times> TaskInfo" where
  "GetTaskInfo taskInfo err w =
     (let task = stored_task w in
      (err\<lparr>be_errorNum := CR_SUCCESS\<rparr>,
       if ft_isExistTask task
       then taskInfo\<lparr>ti_existTask := True, ti_status := ft_status task, ti_progress := ft_progress task, ti_digest := ft_taskId task\<rparr>
       else taskInfo))"

record UpgradePolicy =
  po_downloadStrategy :: bool
  po_autoUpgradeStrategy :: bool
  po_periods :: "(int \<times> int) list"

definition SetUpgradePolicy :: "fw_env \<Rightarrow> UpgradePolicy \<Rightarrow> BusinessError \<Rightarrow> fw \<Rightarrow> BusinessError \<times> fw" where
  "SetUpgradePolicy env policy err w =
     (let download = GetAutoDownloadSwitch (fw_prefs w);
          night = GetNightUpgradeSwitch (fw_prefs w);
          w1 = (if night \<noteq> po_autoUpgradeStrategy policy then DoAutoUpgradeSwitchChanged env (po_autoUpgradeStrategy policy) w else w);
          w2 = (if download \<noteq> po_downloadStrategy policy then DoAutoDownloadSwitchChanged (po_downloadStrategy policy) w1 else w1)
      in (err\<lparr>be_errorNum := CR_SUCCESS\<rparr>, w2))"

definition GetUpgradePolicy :: "UpgradePolicy \<Rightarrow> fw \<Rightarrow> UpgradePolicy" where
  "GetUpgradePolicy policy w =
     policy\<lparr>po_downloadStrategy := GetAutoDownloadSwitch (fw_prefs w), po_autoUpgradeStrategy := GetNightUpgradeSwitch (fw_prefs w),
       po_periods := (po_periods policy)[0 := (60 * 2, 60 * 4)]\<rparr>"

end
