(* ===== verification/Firmware_System.thy ===== *)
theory Firmware_System
  imports Firmware_Service
begin

text \<open>
  The firmware upgrade as a whole: the stored state and the flows that were started, with one step for each request of
  the application, each event, each alarm, each restart of the service and each piece of work of an executor. Steps of
  different flows interleave in any order.
\<close>

section \<open>Every operation keeps the tables sound and starts well-formed flows\<close>

definition good :: "flow_state \<times> fw \<Rightarrow> bool" where
  "good st = (flow_wf (fst st) \<and> fw_inv (snd st))"

definition good_started :: "started \<Rightarrow> bool" where
  "good_started r = (list_all flow_wf (fst r) \<and> fw_inv (snd r))"

lemma goodD: "good st \<Longrightarrow> flow_wf (fst st)" "good st \<Longrightarrow> fw_inv (snd st)"
  by (simp_all add: good_def)

lemma good_callbacks:
  assumes "good st"
  shows "good (OnCheckCallback env cst d cs st)" "good (OnDownloadCallback env info st)"
    "good (OnInstallCallback env ii st)" "good (OnApplyCallback env b st)" "good (OnDownloadEventCallback k e st)"
proof -
  note wf = feed_forward [OF goodD(1) [OF assms], THEN conjunct1] and inv = inv_flow_callbacks [OF goodD(2) [OF assms]]
  show "good (OnCheckCallback env cst d cs st)" using wf [of "(env, CheckAnswer cst d cs)"] inv(1) by (simp add: good_def)
  show "good (OnDownloadCallback env info st)" using wf [of "(env, DownloadReport info)"] inv(2) by (simp add: good_def)
  show "good (OnInstallCallback env ii st)" using wf [of "(env, InstallReport ii)"] inv(3) by (simp add: good_def)
  show "good (OnApplyCallback env b st)" using wf [of "(env, ApplyAnswer b)"] inv(4) by (simp add: good_def)
  show "good (OnDownloadEventCallback k e st)"
    using goodD(1) [OF assms] inv(5)
    by (cases st) (auto simp: good_def OnDownloadEventCallback_def flow_wf_def split_beta Let_def split: flow_state.split option.split)
qed

lemma good_world: "good (fs, w) \<Longrightarrow> fw_tasks w' = fw_tasks w \<Longrightarrow> fw_components w' = fw_components w \<Longrightarrow> good (fs, w')"
  by (auto simp: good_def intro: inv_same)

lemma good_dl [simp]: "good (fs, w\<lparr>fw_dl := d\<rparr>) = good (fs, w)" "good (fs, w\<lparr>fw_cache := c\<rparr>) = good (fs, w)"
  by (simp_all add: good_def)

lemma good_executors:
  assumes "good st"
  shows "good (DoCheck env answer st)" "good (CallbackProgress env k p st)" "good (CallbackDownloadFailProgress env err st)"
    "good (snd (apply_DoInstall env st))"
  using assms
  by (simp_all add: DoCheck_def check_Complete_def CallbackProgress_def CallbackDownloadFailProgress_def apply_DoInstall_def
      good_callbacks split_beta Let_def split: option.split)

lemma good_PerformDownload: "good st \<Longrightarrow> good (PerformDownload env opts cs st)"
  using good_callbacks(5) [of st]
  by (auto simp: PerformDownload_def Let_def split_beta intro!: good_executors(3))

lemma good_PerformResumeDownload:
  assumes st: "good st"
  shows "good (PerformResumeDownload env opts cs k st)"
proof -
  have resume: "good (snd (IsNeedResumeDownload env k p err (fst st, (snd st)\<lparr>fw_dl := dl\<rparr>)))" for p err dl
    using st by (simp add: IsNeedResumeDownload_def good_executors)
  show ?thesis
    unfolding PerformResumeDownload_def Let_def split_beta
    using st good_callbacks(5) [OF resume]
    by (auto intro!: good_PerformDownload good_executors resume)
qed

lemma good_DoDownload: "good st \<Longrightarrow> DoDownload env opts st = Some st' \<Longrightarrow> good st'"
  by (auto simp: DoDownload_def Let_def good_PerformDownload good_PerformResumeDownload split: if_splits)

lemma good_start_flow: "fw_inv w \<Longrightarrow> good_started (start_flow env m w)"
  using flow_Start_wf [of env m w] inv_flow_Execute [of w env "new_flow\<lparr>fl_mode := Some m\<rparr>"]
  by (simp add: good_started_def start_flow_def flow_Start_def split_beta)

lemma good_idle [simp]: "good_started ([], w) \<longleftrightarrow> fw_inv w"
  by (simp add: good_started_def)

lemma good_requests:
  assumes "fw_inv w"
  shows "good_started (manager_DoCheck env w)" "good_started (manager_DoDownload env opts err w)"
    "good_started (manager_DoInstall env uopts err ty w)" "good_started (HandleResumeDownload env task w)"
    "good_started (DoAutoUpgrade env w)" "good_started (HandleNetChanged env w)"
  using assms
  by (simp_all add: manager_DoCheck_def manager_DoDownload_def manager_DoInstall_def HandleResumeDownload_def
      DoAutoUpgrade_def HandleNetChanged_def DoAutoDownload_def good_start_flow Let_def)

lemma inv_fold_reset [simp]:
  "fw_inv w \<Longrightarrow> fw_inv (fold (\<lambda>c. on_components (UpdateProgressByVersionId (fc_versionId c) s p)) cs w)"
  by (rule fold_keeps) simp

lemma inv_world [simp]:
  "fw_inv (dl_RemoveTask k w) = fw_inv w" "fw_inv (w\<lparr>fw_night := a\<rparr>) = fw_inv w"
  by (simp_all add: fw_inv_def fw_ok_def)

lemma inv_manager:
  assumes "fw_inv w"
  shows "fw_inv (snd (manager_DoCancel env err w))" "fw_inv (DoAutoDownloadSwitchChanged on w)"
    "fw_inv (DoAutoUpgradeSwitchChanged env on w)" "fw_inv (snd (DoClearError err w))"
    "fw_inv (snd (snd (DoTerminateUpgrade env err w)))" "fw_inv (HandleBootComplete env w)"
proof -
  show "fw_inv (snd (manager_DoCancel env err w))"
    using assms by (simp add: manager_DoCancel_def Let_def split_beta)
  show "fw_inv (DoAutoDownloadSwitchChanged on w)" using assms by (simp add: DoAutoDownloadSwitchChanged_def Let_def)
  show "fw_inv (DoAutoUpgradeSwitchChanged env on w)"
    by (rule inv_same [OF assms]) (simp_all add: DoAutoUpgradeSwitchChanged_def Let_def)
  show "fw_inv (snd (DoClearError err w))" using assms by (simp add: DoClearError_def Let_def)
  show "fw_inv (snd (snd (DoTerminateUpgrade env err w)))"
    using assms by (simp add: DoTerminateUpgrade_def startup_Schedule_def Let_def)
  have success: "fw_inv (HandleBootUpdateSuccess t v)" if "fw_inv v" for t v
    using that by (simp add: HandleBootUpdateSuccess_def SaveHotaCurrentVersionComponentId_def Let_def split: option.split)
  have fail: "fw_inv (HandleBootUpdateFail t m v)" if "fw_inv v" for t m v
    using that by (simp add: HandleBootUpdateFail_def Let_def)
  show "fw_inv (HandleBootComplete env w)"
    using assms by (auto simp: HandleBootComplete_def HandleBootUpdateOnStatusProcess_def Let_def success fail split: prod.split UpdateResultCode.split)
qed

text \<open>The requests of an application.\<close>

lemma inv_UpdateDownloadOption [simp]: "fw_inv w \<Longrightarrow> fw_inv (on_tasks (UpdateDownloadOptionByTaskId k dm n o') w)"
  using implementsD [OF task_operators(5)] by simp

lemma good_application:
  assumes "fw_inv w"
  shows "good_started (snd (svc_Download env opts err w))" "good_started (snd (svc_ResumeDownload env n err w))"
    "good_started (snd (svc_Upgrade env uopts err w))" "fw_inv (snd (svc_Cancel env err w))" "fw_inv (snd (SetUpgradePolicy env pol err w))"
  using assms
  by (simp_all add: svc_Download_def svc_ResumeDownload_def svc_Upgrade_def svc_Cancel_def SetUpgradePolicy_def
      good_requests inv_manager Let_def split_beta)

lemma good_HandleEvent: "fw_inv w \<Longrightarrow> good_started (HandleEvent env event w)"
proof -
  assume w: "fw_inv w"
  let ?w = "RefreshAutoUpgradeAlarm_event env event w"
  have inv: "fw_inv ?w" by (rule inv_same [OF w]) (simp_all add: RefreshAutoUpgradeAlarm_event_def)
  have "good_started (event_HandleNightUpgrade env ?w)"
    using inv by (simp add: event_HandleNightUpgrade_def DoNightUpgrade_def good_requests Let_def)
  then show ?thesis
    using inv by (cases event) (simp_all add: HandleEvent_def DistributeEventBusiness_def good_requests inv_manager)
qed

lemma good_night_alarm:
  assumes "fw_inv w"
  shows "good_started (night_alarm_fires env w)"
proof -
  have step: "good_started (case r of (fs, w) \<Rightarrow> let (gs, w1) = HandleEvent env NIGHT_UPGRADE w in (fs @ gs, w1))"
    if "good_started r" for r
    using that good_HandleEvent [of "snd r" env NIGHT_UPGRADE] by (auto simp: good_started_def split_beta Let_def)
  have "good_started (fold (\<lambda>c (fs, w). let (gs, w1) = HandleEvent env NIGHT_UPGRADE w in (fs @ gs, w1)) cbs r)"
    if "good_started r" for cbs :: "night_callback list" and r
    using that by (rule fold_keeps [rotated]) (rule step)
  then show ?thesis using assms by (simp add: night_alarm_fires_def split_beta)
qed

lemma good_RestoreUpdate:
  assumes "fw_inv w"
  shows "good_started (RestoreUpdate env w)"
proof -
  have f: "fw_inv (fold (\<lambda>c w. if fc_status c = US_INSTALLING
                       then (if IsStreamUpgrade (stored_components w)
                             then on_components (UpdateStatusByUrl (fc_url c) US_INSTALL_PAUSE) w
                             else on_components (UpdateProgressByUrl (fc_url c) US_DOWNLOAD_SUCCESS 100) w)
                       else w) cs v)" if "fw_inv v" for cs v
    using that by (rule fold_keeps [rotated]) simp
  have "good_started (HandleBootInstallOnStatusProcess env task w)" for task
    unfolding HandleBootInstallOnStatusProcess_def Let_def using assms by (intro good_requests f) simp
  moreover have "fw_inv (HandleBootDownloadedStatusProcess env w)"
    by (rule inv_same [OF assms]) (simp_all add: HandleBootDownloadedStatusProcess_def)
  ultimately show ?thesis
    using assms by (simp add: RestoreUpdate_def HandleBootDownloadOnStatusProcess_def Let_def)
qed

lemma inv_Init: "fw_inv w \<Longrightarrow> fw_inv (manager_Init env reason w)"
  by (auto simp: manager_Init_def DeleteDbStore_def on_fs_def Let_def fw_inv_def fw_ok_def tasks_ok_def components_ok_def
      column_text_def task_view_def table_QueryAll_def table_Query_def)

lemma good_DelayInit:
  assumes "fw_inv w"
  shows "let (fs, n', w') = DelayInit env cb reason (n, w) in good_started (fs, w')"
proof -
  obtain fs w1 where r: "RestoreUpdate env w = (fs, w1)" by fastforce
  then have fs: "list_all flow_wf fs" "fw_inv w1" using good_RestoreUpdate [OF assms, of env] by (simp_all add: good_started_def)
  then have "fw_inv (NotifyInitEvent w1)" by (simp add: NotifyInitEvent_def)
  from good_HandleEvent [OF this] fs show ?thesis by (auto simp: DelayInit_def r good_started_def split_beta Let_def)
qed

section \<open>The steps of the system\<close>

record firmware_system =
  sy_flows :: "flow_state list"
  sy_net :: net_manager
  sy_fw :: fw

definition with_started :: "started \<Rightarrow> firmware_system \<Rightarrow> firmware_system" where
  "with_started r s = s\<lparr>sy_flows := sy_flows s @ fst r, sy_fw := snd r\<rparr>"

definition with_fw :: "fw \<Rightarrow> firmware_system \<Rightarrow> firmware_system" where
  "with_fw w s = s\<lparr>sy_fw := w\<rparr>"

definition with_flow :: "nat \<Rightarrow> flow_state \<times> fw \<Rightarrow> firmware_system \<Rightarrow> firmware_system" where
  "with_flow i st s = s\<lparr>sy_flows := (sy_flows s)[i := fst st], sy_fw := snd st\<rparr>"

text \<open>The executor that flow \<open>i\<close> has created for its step.\<close>

definition executor_of :: "firmware_system \<Rightarrow> nat \<Rightarrow> executor option" where
  "executor_of s i =
     (if i < length (sy_flows s) then (case sy_flows s ! i of Running fl \<Rightarrow> fl_executor fl | Finished _ _ \<Rightarrow> None) else None)"

abbreviation flow_view :: "firmware_system \<Rightarrow> nat \<Rightarrow> flow_state \<times> fw" where
  "flow_view s i \<equiv> (sy_flows s ! i, sy_fw s)"

inductive fw_step :: "firmware_system \<Rightarrow> firmware_system \<Rightarrow> bool" where
  check: "fw_step s (with_started (manager_DoCheck env (sy_fw s)) s)"
| download: "fw_step s (with_started (manager_DoDownload env opts err (sy_fw s)) s)"
| install: "fw_step s (with_started (manager_DoInstall env uopts err ty (sy_fw s)) s)"
| cancel: "fw_step s (with_fw (snd (manager_DoCancel env err (sy_fw s))) s)"
| download_switch: "fw_step s (with_fw (DoAutoDownloadSwitchChanged on (sy_fw s)) s)"
| upgrade_switch: "fw_step s (with_fw (DoAutoUpgradeSwitchChanged env on (sy_fw s)) s)"
| clear_error: "fw_step s (with_fw (snd (DoClearError err (sy_fw s))) s)"
| terminate: "fw_step s (with_fw (snd (snd (DoTerminateUpgrade env err (sy_fw s)))) s)"
| event: "fw_step s (with_started (HandleEvent env ev (sy_fw s)) s)"
| auto_alarm: "fw_step s (with_started (CheckAndHandleAutoUpgradeAlarm env (sy_fw s)) s)"
| night_alarm: "fw_step s (with_started (night_alarm_fires env (sy_fw s)) s)"
| restart: "DelayInit env' cb reason (n, manager_Init env reason (sy_fw s)) = (fs, n', w') \<Longrightarrow>
    fw_step s \<lparr>sy_flows = fs, sy_net = n', sy_fw = w'\<rparr>"
| app_download: "fw_step s (with_started (snd (svc_Download env opts err (sy_fw s))) s)"
| app_resume: "fw_step s (with_started (snd (svc_ResumeDownload env n err (sy_fw s))) s)"
| app_upgrade: "fw_step s (with_started (snd (svc_Upgrade env uopts err (sy_fw s))) s)"
| app_cancel: "fw_step s (with_fw (snd (svc_Cancel env err (sy_fw s))) s)"
| app_policy: "fw_step s (with_fw (snd (SetUpgradePolicy env pol err (sy_fw s))) s)"
| downloads: "fw_step s (with_fw ((sy_fw s)\<lparr>fw_dl := d\<rparr>) s)"
| check_work: "executor_of s i = Some CheckExecutor \<Longrightarrow> fw_step s (with_flow i (DoCheck env answer (flow_view s i)) s)"
| download_work: "executor_of s i = Some (DownloadExecutor opts) \<Longrightarrow> DoDownload env opts (flow_view s i) = Some st \<Longrightarrow>
    fw_step s (with_flow i st s)"
| download_report: "executor_of s i = Some (DownloadExecutor opts) \<Longrightarrow>
    fw_step s (with_flow i (CallbackProgress env k p (flow_view s i)) s)"
| install_work: "executor_of s i = Some (InstallExecutor ty) \<Longrightarrow> install_DoInstall env kit ty (flow_view s i) = (x, st) \<Longrightarrow>
    fw_step s (with_flow i st s)"
| apply_work: "executor_of s i = Some ApplyExecutor \<Longrightarrow> fw_step s (with_flow i (snd (apply_DoInstall env (flow_view s i))) s)"

definition system_inv :: "firmware_system \<Rightarrow> bool" where
  "system_inv s = (list_all flow_wf (sy_flows s) \<and> fw_inv (sy_fw s))"

lemma system_invD: "system_inv s \<Longrightarrow> fw_inv (sy_fw s)"
  by (simp add: system_inv_def)

lemma inv_with_started: "system_inv s \<Longrightarrow> good_started r \<Longrightarrow> system_inv (with_started r s)"
  by (simp add: system_inv_def with_started_def good_started_def)

lemma inv_with_fw: "system_inv s \<Longrightarrow> fw_inv w \<Longrightarrow> system_inv (with_fw w s)"
  by (simp add: system_inv_def with_fw_def)

lemma inv_with_flow: "system_inv s \<Longrightarrow> good st \<Longrightarrow> system_inv (with_flow i st s)"
  by (auto simp: system_inv_def with_flow_def good_def list_all_iff dest: set_update_subset_insert [THEN subsetD])

lemma executor_good:
  assumes "system_inv s" "executor_of s i = Some ex"
  shows "good (flow_view s i) \<and> flow_at (sy_flows s ! i) = step_code (executor_step ex)"
proof -
  have i: "i < length (sy_flows s)" using assms(2) by (simp add: executor_of_def split: if_splits)
  then have "flow_wf (sy_flows s ! i)" using assms(1) by (simp add: system_inv_def list_all_length)
  then show ?thesis
    using assms i by (auto simp: good_def system_inv_def executor_of_def flow_wf_def flow_at_def split: flow_state.splits)
qed

lemma step_inv: "fw_step s s' \<Longrightarrow> system_inv s \<Longrightarrow> system_inv s'"
proof (induction rule: fw_step.induct)
  case (restart env' cb reason n env s fs n' w')
  have "fw_inv (manager_Init env reason (sy_fw s))" using restart.prems by (simp add: system_inv_def inv_Init)
  from good_DelayInit [OF this, of env' cb reason n] restart.hyps show ?case
    by (simp add: system_inv_def good_started_def)
next
  case (install_work s i ty env kit x st)
  note g = executor_good [OF install_work.prems install_work.hyps(1)]
  have "good st"
    using install_DoInstall_ends [of "flow_view s i" env kit ty] g install_work.hyps(2)
    by (cases st) (simp add: good_def executor_step_def)
  then show ?case by (rule inv_with_flow [OF install_work.prems])
next
  case (download_work s i opts env st)
  with executor_good good_DoDownload inv_with_flow show ?case by blast
qed (auto intro!: inv_with_started inv_with_fw inv_with_flow good_requests good_application good_executors good_HandleEvent good_night_alarm
      inv_manager dest: executor_good system_invD simp: CheckAndHandleAutoUpgradeAlarm_def)

text \<open>A state of the running service: reached from a sound one, whatever is asked of it and in whatever order.\<close>

lemma reachable_inv: "fw_step\<^sup>*\<^sup>* s s' \<Longrightarrow> system_inv s \<Longrightarrow> system_inv s'"
  by (induction rule: rtranclp_induct) (auto intro: step_inv)

end
