(* ===== verification/Startup_Manager.thy ===== *)
theory Startup_Manager
  imports Firmware_System
begin

text \<open>
  The life of the service process: \<open>services/startup/manage/src/startup_manager.cpp\<close> (why the process was started, the
  base directories, the idle loop) and \<open>schedule_config.cpp\<close>, with the firmware upgrade as the only registered business
  part (\<open>services/startup/access/src/firmware_access.cpp\<close>). A failed idle check or exit leaves the process running.
\<close>

section \<open>\<open>FirmwareAccess\<close> and \<open>ScheduleConfig\<close>\<close>

definition firmware_access :: "(fw_env \<times> fw) access" where
  "firmware_access = \<lparr>ac_IsIdle = (\<lambda>(env, w). manager_IsIdle env w),
     ac_GetScheduleTasks = (\<lambda>(env, w). manager_GetScheduleTasks env w), ac_Exit = (\<lambda>_. True)\<rparr>"

text \<open>\<open>AccessFactory::GetInstance\<close>.\<close>

definition access_GetInstance :: "AccessType \<Rightarrow> (fw_env \<times> fw) access" where
  "access_GetInstance ty = (if ty = AT_FIRMWARE then firmware_access else default_access)"

text \<open>The configuration file is a JSON document; \<open>cfg\<close> gives the number stored under a key, \<open>None\<close> when it cannot be read.\<close>

definition ParseConfig :: "(string \<Rightarrow> int option) \<Rightarrow> string \<Rightarrow> int \<Rightarrow> int" where
  "ParseConfig cfg key defaultValue = (case cfg key of Some v \<Rightarrow> if v > 0 then v else defaultValue | None \<Rightarrow> defaultValue)"

definition InitConfig :: "(string \<Rightarrow> int option) option \<Rightarrow> int \<times> int \<Rightarrow> int \<times> int" where
  "InitConfig cfg old =
     (case cfg of
        None \<Rightarrow> old
      | Some c \<Rightarrow> (ParseConfig c ''pullupInterval'' 14400, ParseConfig c ''idleCheckInterval'' 300))"

section \<open>\<open>StartupManager\<close>\<close>

record startup =
  su_lastIdleCheckTime :: int
  su_intervals :: "int \<times> int"
  su_scheduleTask :: "ScheduleTask list"
  su_access :: "(fw_env \<times> fw) access_manager"
  su_policy :: "on_demand_event list"
  su_looperTimerId :: int

definition new_startup :: "fw_env \<Rightarrow> on_demand_event list \<Rightarrow> startup" where
  "new_startup env policy = \<lparr>su_lastIdleCheckTime = fe_now env, su_intervals = (14400, 300), su_scheduleTask = [],
     su_access = new_access_manager, su_policy = policy, su_looperTimerId = 0\<rparr>"

definition startup_of_code :: "int \<Rightarrow> StartupReason" where
  "startup_of_code i = (if i = 0 then DEVICE_REBOOT else if i = 1 then SCHEDULE_TASK else if i = 2 then PROCESS_ENV_RESET
     else SR_UNKNOWN)"

text \<open>\<open>uptime\<close> is \<open>GetSystemBootDuration\<close>; a device that booted within the last minute restarted the process.\<close>

definition GetStartupReason :: "int \<Rightarrow> prefs \<Rightarrow> StartupReason \<times> prefs" where
  "GetStartupReason uptime p =
     (if uptime \<le> 60 then (DEVICE_REBOOT, p)
      else
        let reason = startup_of_code (ObtainInt PROCESS_RESTART_REASON (startup_code SR_UNKNOWN) p) in
        if reason = SR_UNKNOWN then (SCHEDULE_TASK, p)
        else (reason, snd (prefs_Remove PROCESS_RESTART_REASON p)))"

definition BASE_DIR_INFOS :: "DirInfo list" where
  "BASE_DIR_INFOS =
     [\<lparr>dr_dirName = ''/data/service/el1/public/update'', dr_dirPermissions = 489, dr_isAllowDestroyContents = False\<rparr>,
      \<lparr>dr_dirName = ''/data/service/el1/public/update/dupdate_engine'', dr_dirPermissions = 448, dr_isAllowDestroyContents = False\<rparr>,
      \<lparr>dr_dirName = ''/data/service/el1/public/update/update_service/databases'', dr_dirPermissions = 448, dr_isAllowDestroyContents = False\<rparr>,
      \<lparr>dr_dirName = ''/data/service/el1/public/update/dupdate_engine/preferences'', dr_dirPermissions = 448, dr_isAllowDestroyContents = False\<rparr>,
      \<lparr>dr_dirName = ''/data/service/el1/public/update/dupdate_engine/files'', dr_dirPermissions = 448, dr_isAllowDestroyContents = True\<rparr>,
      \<lparr>dr_dirName = ''/data/update'', dr_dirPermissions = 504, dr_isAllowDestroyContents = False\<rparr>,
      \<lparr>dr_dirName = ''/data/update/ota_package'', dr_dirPermissions = 504, dr_isAllowDestroyContents = True\<rparr>]"

definition FirmwareAccess_Init :: "fw_env \<Rightarrow> StartupReason \<Rightarrow> startup \<times> fw \<Rightarrow> startup \<times> fw" where
  "FirmwareAccess_Init env reason st =
     ((fst st)\<lparr>su_access := snd (access_Register AT_FIRMWARE (Some firmware_access) (su_access (fst st)))\<rparr>,
      manager_Init env reason (snd st))"

definition startup_Init ::
  "fw_env \<Rightarrow> int \<Rightarrow> (string \<Rightarrow> int option) option \<Rightarrow> startup \<times> fw \<Rightarrow> StartupReason \<times> startup \<times> fw" where
  "startup_Init env uptime cfg st =
     (let (s, w) = st;
          s1 = s\<lparr>su_intervals := InitConfig cfg (su_intervals s)\<rparr>;
          (reason, p) = GetStartupReason uptime (fw_prefs w);
          w1 = w\<lparr>fw_prefs := p\<rparr>;
          w2 = (if reason = PROCESS_ENV_RESET then on_fs (DestroyBaseDirectory BASE_DIR_INFOS) w1 else w1);
          w3 = on_fs (\<lambda>fs. snd (InitAndCreateBaseDirs (en_osOk (fe_env env)) BASE_DIR_INFOS (en_baseDirs (fe_env env), fs))) w2
      in (reason, FirmwareAccess_Init env reason (s1, w3)))"

definition RegisterLooper :: "fw_env \<Rightarrow> startup \<Rightarrow> startup" where
  "RegisterLooper env s = s\<lparr>su_looperTimerId := RegisterTimer (fe_timer env)\<rparr>"

definition UnregisterLooper :: "startup \<Rightarrow> startup" where
  "UnregisterLooper s = s\<lparr>su_looperTimerId := 0\<rparr>"

definition startup_IdleCheck :: "fw_env \<Rightarrow> fw \<Rightarrow> startup \<Rightarrow> bool \<times> startup" where
  "startup_IdleCheck env w s =
     (if \<bar>fe_now env - su_lastIdleCheckTime s\<bar> < i64 (snd (su_intervals s)) then (False, s)
      else
        let s1 = s\<lparr>su_lastIdleCheckTime := fe_now env\<rparr>;
            (idle, tasks) = schedule_IdleCheck (su_access s1) (env, w) (su_scheduleTask s1)
        in (idle, s1\<lparr>su_scheduleTask := tasks\<rparr>))"

definition PreExit :: "samgr \<Rightarrow> fw_env \<Rightarrow> fw \<Rightarrow> startup \<Rightarrow> bool \<times> startup" where
  "PreExit sm env w s =
     (let (ok, policy) = schedule_Exit sm (su_access s) (env, w) (su_scheduleTask s) (su_policy s)
      in (ok, s\<lparr>su_policy := policy\<rparr>))"

text \<open>
  One round of the loop; true: the service asks to be unloaded. The round runs in the thread of the looper and holds no
  lock from its check to its exit: \<open>between\<close> is what requests and notices do in the meantime. \<open>IdleLoop\<close> is the round
  in which nothing comes between.
\<close>

definition idle_round :: "(startup \<Rightarrow> startup) \<Rightarrow> samgr \<Rightarrow> fw_env \<Rightarrow> fw \<Rightarrow> startup \<Rightarrow> bool \<times> startup" where
  "idle_round between sm env w s =
     (case startup_IdleCheck env w s of
        (False, s1) \<Rightarrow> (False, s1)
      | (True, s1) \<Rightarrow> PreExit sm env w (between s1))"

definition IdleLoop :: "samgr \<Rightarrow> fw_env \<Rightarrow> fw \<Rightarrow> startup \<Rightarrow> bool \<times> startup" where
  "IdleLoop = idle_round (\<lambda>s. s)"

section \<open>Facts\<close>

lemma startup_code_inverse: "startup_of_code (startup_code r) = r"
  by (cases r) (simp_all add: startup_of_code_def)

abbreviation firmware_only :: "startup \<Rightarrow> bool" where
  "firmware_only s \<equiv> am_accessMap (su_access s) = [(AT_FIRMWARE, firmware_access)]"

lemma startup_Init_access:
  "firmware_only (fst (snd (startup_Init env uptime cfg (new_startup env' policy, w))))"
  by (simp add: startup_Init_def FirmwareAccess_Init_def new_startup_def new_access_manager_def access_Register_def split_beta Let_def)

text \<open>How long the service sleeps when it leaves, in seconds.\<close>

definition next_wakeup :: "fw_env \<Rightarrow> fw \<Rightarrow> int" where
  "next_wakeup env w = (let t = GetAutoUpgradeTime (fw_prefs w) in if t \<le> 0 then 86400 else min (max 0 (t - fe_now env)) 86400)"

lemma schedule_tasks_delay:
  assumes "0 \<le> fe_now env" "fe_now env \<le> INT64_MAX" "GetAutoUpgradeTime (fw_prefs w) \<le> INT64_MAX"
  shows "timed_delay (manager_GetScheduleTasks env w) = next_wakeup env w"
    "filter IsValidNetTask (manager_GetScheduleTasks env w) = []"
proof -
  let ?t = "GetAutoUpgradeTime (fw_prefs w)"
  show "filter IsValidNetTask (manager_GetScheduleTasks env w) = []"
    by (simp add: manager_GetScheduleTasks_def GetAutoUpgradeScheduleTask_def Let_def IsValidNetTask_def new_schedule_task_def)
  show "timed_delay (manager_GetScheduleTasks env w) = next_wakeup env w"
  proof (cases "?t \<le> 0")
    case True
    then show ?thesis
      by (simp add: manager_GetScheduleTasks_def GetAutoUpgradeScheduleTask_def Let_def new_schedule_task_def next_wakeup_def)
  next
    case False
    have "i64 (?t - fe_now env) = ?t - fe_now env" using assms False by (intro i64_id) auto
    then show ?thesis
      using False
      by (simp add: manager_GetScheduleTasks_def GetAutoUpgradeScheduleTask_def Let_def new_schedule_task_def next_wakeup_def timed_delay_def)
  qed
qed

text \<open>The policy that wakes the service up again.\<close>

definition wakeup_policy :: "string \<Rightarrow> int \<Rightarrow> on_demand_event list" where
  "wakeup_policy name delay = [\<lparr>od_name = name, od_value = to_string delay\<rparr>]"

lemma OnDemandSchedule_single:
  "OnDemandSchedule sm [new_schedule_task\<lparr>st_minDelayTime := d\<rparr>] policy =
     (if d < 30 then (False, policy)
      else case sm of
        None \<Rightarrow> (False, policy)
      | Some f \<Rightarrow> if f (wakeup_policy ''awakeloopevent'' d) = 0 then (True, wakeup_policy ''awakeloopevent'' d)
                   else if f (wakeup_policy ''loopevent'' d) = 0 then (True, wakeup_policy ''loopevent'' d) else (False, policy))"
  by (simp add: OnDemandSchedule_def UpdateStartupPolicy_def UpdateStartupOnDemandPolicy_def new_schedule_task_def
      CreateTimedEvent_def wakeup_policy_def split: option.split)

lemma IdleLoop_exit:
  assumes access: "firmware_only s" and time: "0 \<le> fe_now env" "fe_now env \<le> INT64_MAX" "GetAutoUpgradeTime (fw_prefs w) \<le> INT64_MAX"
  shows "IdleLoop sm env w s =
    (let due = \<bar>fe_now env - su_lastIdleCheckTime s\<bar> \<ge> i64 (snd (su_intervals s));
         idle = am_isRemoteIdle (su_access s) \<and> manager_IsIdle env w;
         s1 = s\<lparr>su_lastIdleCheckTime := fe_now env\<rparr>;
         tasks = [new_schedule_task\<lparr>st_minDelayTime := next_wakeup env w\<rparr>]
     in if \<not> due then (False, s)
        else if \<not> idle then (False, s1)
        else let (ok, policy) = OnDemandSchedule sm tasks (su_policy s)
             in (ok, s1\<lparr>su_scheduleTask := tasks, su_policy := policy\<rparr>))"
proof -
  have idle: "access_IsIdle (su_access s) (env, w) = (am_isRemoteIdle (su_access s) \<and> manager_IsIdle env w)"
    using access by (simp add: access_IsIdle_def firmware_access_def)
  have tasks: "access_GetScheduleTasks (su_access s) (env, w) = manager_GetScheduleTasks env w"
    using access by (simp add: access_GetScheduleTasks_def firmware_access_def)
  have "access_Exit (su_access s) (env, w)" using access by (simp add: access_Exit_def firmware_access_def)
  with TaskManage_timed [OF schedule_tasks_delay(2) [OF time]] schedule_tasks_delay(1) [OF time]
  show ?thesis
    by (auto simp: IdleLoop_def idle_round_def startup_IdleCheck_def schedule_IdleCheck_def PreExit_def schedule_Exit_def idle tasks Let_def
        split: prod.splits)
qed

text \<open>A terminated upgrade: the next process resets its environment, once.\<close>

lemma terminate_roundtrip:
  assumes "pr_up (fw_prefs w)" "fe_startByTimer env = 0" "60 < uptime" "60 < uptime'"
    and ops: "DoTerminateUpgrade env err w = (exits, err', w')" "GetStartupReason uptime (fw_prefs w') = (reason, p)"
  shows "exits \<and> err' = err \<and> reason = PROCESS_ENV_RESET \<and> GetStartupReason uptime' p = (SCHEDULE_TASK, p)"
proof -
  have w': "exits" "err' = err" "fw_prefs w' = (fw_prefs w)\<lparr>pr_values := cm_put PROCESS_RESTART_REASON (PrefInt 2) (pr_values (fw_prefs w))\<rparr>"
    using ops(1) assms(1,2) by (auto simp: DoTerminateUpgrade_def startup_Schedule_def Let_def new_schedule_task_def prefs_Save_def)
  have "ObtainInt PROCESS_RESTART_REASON (- 1) (fw_prefs w') = 2"
    using assms(1) by (simp add: w' ObtainInt_def map_of_cm_put)
  then have r: "reason = PROCESS_ENV_RESET" "p = (fw_prefs w')\<lparr>pr_values := cm_del PROCESS_RESTART_REASON (pr_values (fw_prefs w'))\<rparr>"
    using ops(2) assms(1,3) by (auto simp: GetStartupReason_def startup_of_code_def prefs_Remove_def w')
  have "map_of (cm_del PROCESS_RESTART_REASON m) PROCESS_RESTART_REASON = None" for m :: "(string, pref_value) cmap"
    by (auto simp: cm_del_def map_of_eq_None_iff)
  then have "ObtainInt PROCESS_RESTART_REASON (- 1) p = - 1" by (simp add: r ObtainInt_def)
  then show ?thesis using w' r assms(4) by (simp add: GetStartupReason_def startup_of_code_def)
qed

text \<open>Resetting the environment forgets the upgrade and the preferences, not the downloads.\<close>

lemma Init_resets:
  assumes "fe_deleteDb env = 0" "pr_up (fw_prefs w)" "fw_inv w"
  shows "upgrade_of (manager_Init env PROCESS_ENV_RESET w) = up_clear"
    "pr_values (fw_prefs (manager_Init env PROCESS_ENV_RESET w)) = []"
    "mg_db (fw_dl (manager_Init env PROCESS_ENV_RESET w)) = mg_db (fw_dl w)"
  using assms
  by (simp_all add: manager_Init_def DeleteDbStore_def on_fs_def Let_def prefs_RemoveAll_def upgrade_of_def up_clear_def
      component_QueryAll_def table_QueryAll_def table_Query_def QueryTask_view task_view_def new_firmware_task_def)

end
