(* ===== verification/Firmware_Spec.thy ===== *)
theory Firmware_Spec
  imports Startup_Manager
begin

text \<open>
  What the parts of the firmware upgrade promise together: a search result acts on the stored upgrade as an abstract
  operation, the boot after an upgrade reports one verdict, an upgrade started at night never reaches its apply step, and
  the download a task records is the one that was started.
\<close>

section \<open>A search result\<close>

text \<open>The stored upgrade without what the store assigns.\<close>

definition up_keep :: "upgrade \<Rightarrow> upgrade" where
  "up_keep u = \<lparr>up_task = map_option task_keep (up_task u), up_components = map component_keep (up_components u)\<rparr>"

definition up_busy :: "upgrade \<Rightarrow> bool" where
  "up_busy u =
     (case up_task u of
        None \<Rightarrow> False
      | Some t \<Rightarrow> ft_status t \<in> {US_DOWNLOADING, US_DOWNLOAD_PAUSE, US_VERIFYING, US_INSTALLING, US_UPDATING})"

definition up_offers :: "FirmwareComponent list \<Rightarrow> upgrade \<Rightarrow> bool" where
  "up_offers cs u =
     (length (up_components u) = length cs
      \<and> list_all (\<lambda>s. case find (\<lambda>c. fc_versionId c = fc_versionId s) (up_components u) of
          None \<Rightarrow> False
        | Some d \<Rightarrow> fc_size d = fc_size s \<and> fc_verifyInfo d = fc_verifyInfo s \<and> fc_url d = fc_url s \<and> fc_otaType d = fc_otaType s) cs)"

text \<open>
  The promise: a failed search and a search during an upgrade change nothing, an empty answer forgets the stored upgrade, a
  version that is already stored is kept, any other one replaces it. An upgrade that is kept and has just been found takes
  over the addresses of the answer, by version (\<open>up_refresh\<close>, the identity when the stored versions are distinct).
\<close>

definition up_check :: "fw_env \<Rightarrow> CheckStatus \<Rightarrow> FirmwareComponent list \<Rightarrow> upgrade \<Rightarrow> upgrade" where
  "up_check env status cs u =
     (if status \<in> {CHECK_FAIL, FILE_LIST_REQUEST_FAIL, CHANGELOG_REQUEST_FAIL} \<or> up_busy u then u
      else if cs = [] then up_clear
      else if up_offers cs u
        then (case up_task u of
            Some t \<Rightarrow> if ft_status t = US_CHECK_VERSION_SUCCESS then up_refresh cs u else u
          | None \<Rightarrow> u)
      else let ds = BuildComponentSPath cs in \<lparr>up_task = Some (checked_task env ds), up_components = ds\<rparr>)"

lemma busy_iff: "HasUndoneTask w \<longleftrightarrow> up_busy (upgrade_of w)"
  by (auto simp: HasUndoneTask_def up_busy_def Let_def upgrade_of_def)

lemma offers_iff: "fw_inv w \<Longrightarrow> IsVersionSameWithDb cs w \<longleftrightarrow> up_offers cs (upgrade_of w)"
  by (auto simp: IsVersionSameWithDb_def up_offers_def QueryByVersionId_view fw_inv_def fw_ok_def)

lemma check_refines:
  assumes inv: "fw_inv w" and valid: "list_all component_valid cs"
  shows "up_keep (upgrade_of (snd (check_SetCheckResult env status d cs c w))) = up_keep (up_check env status cs (upgrade_of w))"
proof -
  define c1 where "c1 = c\<lparr>cp_status := status, cp_duration := d, cp_componentList := cs\<rparr>"
  have set: "check_SetCheckResult env status d cs c w = HandleCheckResult env c1 w" by (simp add: check_SetCheckResult_def c1_def)
  have failed: "IsCheckFailed c1 \<longleftrightarrow> status \<in> {CHECK_FAIL, FILE_LIST_REQUEST_FAIL, CHANGELOG_REQUEST_FAIL}"
    by (simp add: IsCheckFailed_def c1_def)
  have list: "cp_componentList c1 = cs" by (simp add: c1_def)
  consider (idle) "IsCheckFailed c1 \<or> up_busy (upgrade_of w)" | (none) "\<not> (IsCheckFailed c1 \<or> up_busy (upgrade_of w))" "cs = []"
    | (same) "\<not> (IsCheckFailed c1 \<or> up_busy (upgrade_of w))" "cs \<noteq> []" "up_offers cs (upgrade_of w)"
    | (new) "\<not> (IsCheckFailed c1 \<or> up_busy (upgrade_of w))" "cs \<noteq> []" "\<not> up_offers cs (upgrade_of w)"
    by blast
  then show ?thesis
  proof cases
    case idle
    then show ?thesis by (auto simp: set HandleCheckResult_def busy_iff up_check_def failed)
  next
    case none
    then show ?thesis
      unfolding set using HandleNoNewVersion_clears(2) [OF inv]
      by (simp add: HandleCheckResult_def busy_iff up_check_def failed HasNewVersion_def list)
  next
    case same
    have "IsVersionSameWithDb cs w" using same(3) offers_iff [OF inv] by simp
    with UpdateFirmwareComponent_same [OF inv this] same show ?thesis
      by (simp add: set HandleCheckResult_def busy_iff up_check_def failed HasNewVersion_def list HandleNewVersion_def)
  next
    case new
    have "\<not> IsVersionSameWithDb (cp_componentList c1) w" using new(3) offers_iff [OF inv] by (simp add: list)
    moreover have "\<forall>x \<in> set (cp_componentList c1). component_valid x" using valid by (simp add: list list_all_iff)
    ultimately have "up_keep (upgrade_of (snd (HandleNewVersion env c1 w))) =
        up_keep (let ds = BuildComponentSPath cs in \<lparr>up_task = Some (checked_task env ds), up_components = ds\<rparr>)"
      using HandleNewVersion_stores [OF inv, of c1 env] by (simp add: up_keep_def Let_def split_beta list)
    with new show ?thesis
      by (simp add: set HandleCheckResult_def busy_iff up_check_def failed HasNewVersion_def list)
  qed
qed

section \<open>The boot after an upgrade\<close>

lemma upgrade_prefs [simp]: "upgrade_of (w\<lparr>fw_prefs := p\<rparr>) = upgrade_of w"
  by (simp add: upgrade_of_def)

lemma after_upgrade_sel [simp]:
  "upgrade_of (ProcessAfterUpgrade env t w) = upgrade_of w" "fw_events (ProcessAfterUpgrade env t w) = fw_events w"
  "fw_components (ProcessAfterUpgrade env t w) = fw_components w"
  by (simp_all add: ProcessAfterUpgrade_def upgrade_of_def)

lemma SaveHota_sel [simp]:
  "upgrade_of (SaveHotaCurrentVersionComponentId w) = upgrade_of w"
  "fw_events (SaveHotaCurrentVersionComponentId w) = fw_events w"
  "fw_inv (SaveHotaCurrentVersionComponentId w) = fw_inv w"
  by (simp_all add: SaveHotaCurrentVersionComponentId_def split: option.split)

lemma inv_emit [simp]: "fw_inv (emit e w) = fw_inv w"
  by (simp add: fw_inv_def fw_ok_def)

lemma cleared: "fw_inv w \<Longrightarrow> upgrade_of (ClearFirmwareInfo w) = up_clear"
  using implementsD [OF ClearFirmwareInfo_implements] by simp

lemma boot_success:
  assumes "fw_inv w" "ft_combinationType t = HOTA"
  shows "upgrade_of (HandleBootUpdateSuccess t w) = up_clear"
    "map ev_id (fw_events (HandleBootUpdateSuccess t w)) = map ev_id (fw_events w) @ [EVENT_UPGRADE_SUCCESS]"
  using assms by (simp_all add: HandleBootUpdateSuccess_def Let_def cleared ClearFirmwareInfo_sel NotifyEvent_def)

lemma boot_fail:
  assumes "fw_inv w"
  shows "upgrade_of (HandleBootUpdateFail t m w) = up_clear"
    "map ev_id (fw_events (HandleBootUpdateFail t m w)) = map ev_id (fw_events w) @ [EVENT_UPGRADE_FAIL]"
  using assms by (simp_all add: HandleBootUpdateFail_def Let_def cleared ClearFirmwareInfo_sel NotifyEvent_def)

text \<open>
  The verdict of the boot, if it gives one. An upgrade by the updater (\<open>UPDATING\<close>) is judged by its packages; an upgrade
  that was installed into the other slot before (\<open>INSTALL_SUCCESS\<close>) counts as a success whatever runs now. A success
  is told only for the combination type \<open>HOTA\<close>, a failure always.
\<close>

definition boot_outcome :: "fw_env \<Rightarrow> upgrade \<Rightarrow> EventId option" where
  "boot_outcome env u =
     (case up_task u of
        None \<Rightarrow> None
      | Some t \<Rightarrow>
          if ft_status t = US_UPDATING \<and> \<not> packages_passed env (up_components u) then Some EVENT_UPGRADE_FAIL
          else if ft_status t \<in> {US_UPDATING, US_INSTALL_SUCCESS} \<and> ft_combinationType t = HOTA
          then Some EVENT_UPGRADE_SUCCESS
          else None)"

lemma boot_success_other:
  assumes "ft_combinationType t \<noteq> HOTA"
  shows "upgrade_of (HandleBootUpdateSuccess t w) = upgrade_of w" "fw_events (HandleBootUpdateSuccess t w) = fw_events w"
  using assms by (simp_all add: HandleBootUpdateSuccess_def Let_def)

lemma boot_verdict:
  assumes inv: "fw_inv w"
  shows "upgrade_of (HandleBootComplete env w) =
      (case boot_outcome env (upgrade_of w) of None \<Rightarrow> upgrade_of w | Some e \<Rightarrow> up_clear)
    \<and> map ev_id (fw_events (HandleBootComplete env w)) = map ev_id (fw_events w) @
      (case boot_outcome env (upgrade_of w) of None \<Rightarrow> [] | Some e \<Rightarrow> [e])"
proof (cases "up_task (upgrade_of w)")
  case None
  then show ?thesis using stored_task_exists [of w] by (simp add: HandleBootComplete_def Let_def boot_outcome_def)
next
  case (Some t)
  let ?w = "ProcessAfterUpgrade env t w" and ?cs = "stored_components w"
  have w: "fw_inv ?w" "up_task (upgrade_of ?w) = Some t" using inv Some by simp_all
  obtain code m where h: "GetUpdaterResult env ?w ?cs [] = (code, m)" by fastforce
  have code: "code = (if packages_passed env ?cs then URC_SUCCESS else URC_FAILURE)"
    using GetUpdaterResult_success [OF w(2), of env ?cs "[]"] by (simp add: h)
  have judged: "HandleBootUpdateOnStatusProcess env t ?w =
      (if packages_passed env ?cs then HandleBootUpdateSuccess t ?w else HandleBootUpdateFail t m ?w)"
    by (simp add: HandleBootUpdateOnStatusProcess_def h code)
  have boot: "HandleBootComplete env w =
      (if ft_status t = US_UPDATING then HandleBootUpdateOnStatusProcess env t ?w
       else if ft_status t = US_INSTALL_SUCCESS then HandleBootUpdateSuccess t ?w else w)"
    using stored_task_eq [OF Some] stored_task_flag [OF Some] by (simp add: HandleBootComplete_def Let_def)
  have comps: "up_components (upgrade_of w) = ?cs" by simp
  show ?thesis
    unfolding boot judged boot_outcome_def Some comps
    by (cases "ft_combinationType t = HOTA")
      (simp_all add: boot_success [OF w(1)] boot_success_other boot_fail [OF w(1)])
qed

section \<open>An upgrade at night\<close>

text \<open>A flow that installs without applying.\<close>

fun only_installs :: "flow_state \<Rightarrow> bool" where
  "only_installs (Running fl) =
     ((case fl_mode fl of
         Some (InstallMode m) \<Rightarrow> uo_order (im_options m) = O_INSTALL
       | Some (StreamMode m) \<Rightarrow> uo_order (im_options m) = O_INSTALL
       | _ \<Rightarrow> False) \<and> fl_executor fl \<noteq> Some ApplyExecutor)"
| "only_installs (Finished m r) = True"

lemma install_options:
  "im_options (snd (install_IsAllowInstall env m w)) = im_options m"
  "im_options (fst (snd (install_IsUpgradeFilesReady m w))) = im_options m"
  "im_options (snd (stream_IsAllowInstall env m)) = im_options m"
  by (simp_all add: install_IsAllowInstall_def install_IsUpgradeFilesReady_def stream_IsAllowInstall_def split_beta)

lemma install_order_Init:
  assumes "uo_order (im_options m) = O_INSTALL"
  shows "let (s, m', w') = install_GetStepAfterInit env m w in s \<noteq> APPLY_STEP \<and> im_options m' = im_options m"
    "let (s, m') = stream_GetStepAfterInit env m w in s \<noteq> APPLY_STEP \<and> im_options m' = im_options m"
  using assms
  by (simp_all add: install_GetStepAfterInit_def install_GetStepForInstallAndApplyOrder_def stream_GetStepAfterInit_def
      stream_GetStepForInstallAndApplyOrder_def split_beta Let_def install_options)

lemma install_order_Install:
  assumes "uo_order (im_options m) = O_INSTALL"
  shows "let (s, m', w') = install_GetStepAfterInstall env m w in s \<noteq> APPLY_STEP \<and> im_options m' = im_options m"
    "let (s, m', w') = stream_GetStepAfterInstall m w in s \<noteq> APPLY_STEP \<and> im_options m' = im_options m"
  using assms by (simp_all add: install_GetStepAfterInstall_def stream_GetStepAfterInstall_def split_beta Let_def)

lemma install_order:
  assumes "uo_order (im_options m) = O_INSTALL"
  shows "install_GetNextStep env s m w = (s', m', w') \<Longrightarrow> s' \<noteq> APPLY_STEP \<and> uo_order (im_options m') = O_INSTALL"
    "stream_GetNextStep env s m w = (s', m', w') \<Longrightarrow> s' \<noteq> APPLY_STEP \<and> uo_order (im_options m') = O_INSTALL"
  using assms install_order_Init [OF assms, of env w] install_order_Install(1) [OF assms, of env w] install_order_Install(2) [OF assms, of w]
  by (cases s; auto simp: install_GetNextStep_def stream_GetNextStep_def split_beta Let_def)+

lemma only_installs_Execute:
  assumes "fl_mode fl = Some (InstallMode m) \<or> fl_mode fl = Some (StreamMode m)" "uo_order (im_options m) = O_INSTALL"
  shows "only_installs (fst (flow_Execute env fl w))"
  using assms(1)
proof
  assume mode: "fl_mode fl = Some (InstallMode m)"
  obtain s m' w' where g: "install_GetNextStep env (fl_nextStep fl) m w = (s, m', w')" using prod_cases3 by blast
  with install_order(1) [OF assms(2) g] mode show ?thesis
    by (auto simp: flow_Execute_def CreateInstance_def Let_def split: FirmwareStep.split)
next
  assume mode: "fl_mode fl = Some (StreamMode m)"
  obtain s m' w' where g: "stream_GetNextStep env (fl_nextStep fl) m w = (s, m', w')" using prod_cases3 by blast
  with install_order(2) [OF assms(2) g] mode show ?thesis
    by (auto simp: flow_Execute_def CreateInstance_def Let_def split: FirmwareStep.split)
qed

lemma set_result_options: "im_options (fst (mode_SetInstallResult env info m w)) = im_options m"
  by (simp add: mode_SetInstallResult_def split: prod.split)

lemma only_installs_feed: "only_installs (fst st) \<Longrightarrow> only_installs (fst (feed e st))"
proof -
  assume o: "only_installs (fst st)"
  obtain env inp where e: "e = (env, inp)" by fastforce
  show ?thesis
  proof (cases "fst st")
    case (Finished m r)
    then show ?thesis
      by (cases inp; cases st)
        (simp_all add: e OnCheckCallback_def OnDownloadCallback_def OnInstallCallback_def OnApplyCallback_def)
  next
    case (Running fl)
    obtain w where st: "st = (Running fl, w)" using Running by (cases st) simp
    obtain m where m: "fl_mode fl = Some (InstallMode m) \<or> fl_mode fl = Some (StreamMode m)"
      "uo_order (im_options m) = O_INSTALL" "fl_executor fl \<noteq> Some ApplyExecutor"
      using o Running by (auto split: option.splits flow_mode.splits)
    have exec: "only_installs (fst (flow_Execute env (fl\<lparr>fl_mode := Some (k m')\<rparr>) v))"
      if "k = InstallMode \<or> k = StreamMode" "im_options m' = im_options m" for m' v k
      using only_installs_Execute [of "fl\<lparr>fl_mode := Some (k m')\<rparr>" m'] that m(2) by auto
    have self: "only_installs (fst (flow_Execute env fl v))" for v
      using only_installs_Execute [OF m(1,2)] .
    show ?thesis
      using m exec [of InstallMode] exec [of StreamMode] self set_result_options [of env _ m]
      by (cases inp) (auto simp: e st OnCheckCallback_def OnDownloadCallback_def OnInstallCallback_def OnApplyCallback_def
          split_beta Let_def)
  qed
qed

lemma only_installs_feeds: "only_installs (fst st) \<Longrightarrow> only_installs (fst (fold feed es st))"
  by (rule fold_keeps [where P = "\<lambda>st. only_installs (fst st)"]) (rule only_installs_feed)

lemma only_installs_start:
  "uo_order (im_options m) = O_INSTALL \<Longrightarrow> k = InstallMode \<or> k = StreamMode \<Longrightarrow> only_installs (fst (flow_Start env (k m) w))"
  by (auto simp: flow_Start_def new_flow_def intro!: only_installs_Execute)

lemma night_only_installs: "f \<in> set (fst (event_HandleNightUpgrade env w)) \<Longrightarrow> only_installs f"
  using only_installs_start [of "new_install_mode new_upgrade_options err ty" InstallMode for err ty]
    only_installs_start [of "new_install_mode new_upgrade_options err ty" StreamMode for err ty]
  by (auto simp: event_HandleNightUpgrade_def DoNightUpgrade_def manager_DoInstall_def start_flow_def Let_def split_beta
      new_install_mode_def new_upgrade_options_def split: if_splits)

section \<open>The download a task records\<close>

lemma remove_duplicates_distinct:
  "distinct (map di_versionId ds) \<Longrightarrow> seen \<inter> di_versionId ` set ds = {} \<Longrightarrow> remove_duplicates ds seen = ds"
  by (induction ds arbitrary: seen) auto

lemma started_id:
  assumes "ds \<noteq> []" "distinct (map di_versionId ds)"
  shows "fst (manager_Start sha env ds err m) = GetTaskId sha ds"
  using assms remove_duplicates_distinct [of ds "{}"]
  by (auto simp: manager_Start_def RemoveDuplicateVersionId_def Let_def split_beta split: option.split)

text \<open>The start of a download by the executor: the task row holds the id of the list it was given.\<close>

lemma event_records:
  assumes inv: "fw_inv w" and task: "up_task (upgrade_of w) = Some t"
    and fl: "fl_mode fl = Some (DownloadMode m) \<or> fl_mode fl = Some (AutoMode a)"
  shows "map_option ft_downloadTaskId (up_task (upgrade_of (snd (OnDownloadEventCallback k EVENT_DOWNLOAD_START (Running fl, w))))) = Some k"
proof -
  have "map_option ft_downloadTaskId (up_task (upgrade_of (snd (SetDownloadEvent k EVENT_DOWNLOAD_START d w)))) = Some k" for d
  proof -
    define w1 where "w1 = on_tasks (UpdateDownloadTaskIdByTaskId (ft_taskId t) k) w"
    define w2 where "w2 = on_tasks (UpdateStatusByTaskId (ft_taskId t) US_DOWNLOADING) w1"
    have w1: "fw_inv w1" "up_task (upgrade_of w1) = Some (t\<lparr>ft_downloadTaskId := k\<rparr>)"
      using implementsD [OF task_operators(3) inv] task by (simp_all add: w1_def up_adj_task_def)
    have w2: "up_task (upgrade_of w2) = Some (t\<lparr>ft_downloadTaskId := k, ft_status := US_DOWNLOADING\<rparr>)"
      using implementsD [OF task_operators(2) w1(1)] w1(2) by (simp add: w2_def up_adj_task_def)
    have "snd (SetDownloadEvent k EVENT_DOWNLOAD_START d w) =
        NotifyEvent (ft_taskId t) EVENT_DOWNLOAD_START US_DOWNLOADING new_error_message [] 0 w2"
      by (simp add: SetDownloadEvent_def Let_def stored_task_eq [OF task] w1_def w2_def)
    then show ?thesis using w2 upgrade_cong(1) [of "snd (SetDownloadEvent k EVENT_DOWNLOAD_START d w)" w2] by simp
  qed
  then show ?thesis
    using fl by (auto simp: OnDownloadEventCallback_def download_SetDownloadEvent_def auto_SetDownloadEvent_def split_beta Let_def)
qed

lemma text_length: "length (concat (sort xs)) = sum_list (map length xs)" for xs :: "string list"
proof -
  have "mset (map length (sort xs)) = mset (map length xs)" by simp
  then have "sum_list (map length (sort xs)) = sum_list (map length xs)" by (metis sum_mset_sum_list)
  then show ?thesis by (simp add: length_concat)
qed

lemma remove_duplicates_text:
  assumes "list_all (\<lambda>d. di_versionId d \<noteq> []) ds"
  shows "sum_list (map (length \<circ> di_versionId) (remove_duplicates ds seen)) \<le> sum_list (map (length \<circ> di_versionId) ds)"
    "\<not> distinct (map di_versionId ds) \<or> seen \<inter> di_versionId ` set ds \<noteq> {} \<Longrightarrow>
       sum_list (map (length \<circ> di_versionId) (remove_duplicates ds seen)) < sum_list (map (length \<circ> di_versionId) ds)"
  using assms
proof (induction ds arbitrary: seen)
  case (Cons d ds)
  {
    case 1
    then show ?case using Cons.IH(1) [of seen] Cons.IH(1) [of "insert (di_versionId d) seen"] by (auto simp: trans_le_add2)
  next
    case 2
    show ?case
    proof (cases "di_versionId d \<in> seen")
      case True
      then show ?thesis using Cons.IH(1) [of seen] 2 by (auto simp: less_Suc_eq_le intro: le_less_trans)
    next
      case False
      with 2 have "\<not> distinct (map di_versionId ds) \<or> insert (di_versionId d) seen \<inter> di_versionId ` set ds \<noteq> {}" by auto
      then show ?thesis using Cons.IH(2) [of "insert (di_versionId d) seen"] 2 False by simp
    qed
  }
qed simp_all

lemma started_id_differs:
  assumes "inj sha" "list_all (\<lambda>d. di_versionId d \<noteq> []) ds" "ds \<noteq> []"
  shows "fst (manager_Start sha env ds err m) = GetTaskId sha ds \<longleftrightarrow> distinct (map di_versionId ds)"
proof
  assume "fst (manager_Start sha env ds err m) = GetTaskId sha ds"
  then have "concat (sort (map di_versionId (remove_duplicates ds {}))) = concat (sort (map di_versionId ds))"
    using assms(1,3)
    by (auto simp: manager_Start_def RemoveDuplicateVersionId_def GetTaskId_def inj_eq Let_def split_beta split: option.splits if_splits)
  from arg_cong [OF this, of length] show "distinct (map di_versionId ds)"
    using remove_duplicates_text(2) [OF assms(2), of "{}"] by (auto simp: text_length o_def)
qed (rule started_id [OF assms(3)])

end
