(* ===== verification/Firmware_Claims.thy ===== *)
theory Firmware_Claims
  imports Firmware_Spec
begin

text \<open>
  The properties of the firmware upgrade and of the service's life, each with its own numbered text. A property with
  hypotheses has a \<open>_witness\<close> that meets them on a concrete device with a concrete stored upgrade.
\<close>

section \<open>A device\<close>

text \<open>The threads of its downloads: curl ends at once with success and nothing is read or written.\<close>

definition ex_thread_world :: thread_env where
  "ex_thread_world =
     \<lparr>te_clock = (\<lambda>n. 1000 + int n), te_fs = Map.empty, te_verifyFs = (\<lambda>_. Map.empty), te_sha = (\<lambda>s. s), te_readable = True,
      te_mkdir = True, te_open = True, te_fseek = 0, te_errno = (0, []), te_net = True, te_maxWrite = 16384,
      te_curl = Some (\<lambda>_. (0, 200)), te_events = [], te_verifyOps = (\<lambda>_. [])\<rparr>"

definition ex_env0 :: task_env where
  "ex_env0 =
     \<lparr>en_now = 100000, en_nowMs = 100000000, en_net = NOT_METERED_WIFI, en_packageRoot = ''/data'',
      en_encryptedRoot = ''/enc'', en_baseDirs = [], en_statfs = (\<lambda>_. Some (4096, 1000000)), en_osOk = (\<lambda>_. True),
      en_thread = ex_thread_world\<rparr>"

definition ex_device :: fw_env where
  "ex_device =
     \<lparr>fe_env = ex_env0, fe_sha = (\<lambda>s. s), fe_hasUpgradeCallback = True, fe_bootSlot = ''2'', fe_hasBattery = True,
      fe_capacity = 80, fe_screenOn = False, fe_hasCall = False, fe_musicActive = False, fe_bellSupported = True,
      fe_displayVersion = ''2.0'', fe_updaterResult = Some ''/p|pass|'', fe_draw = 0, fe_secondsOfDay = Some 36000,
      fe_timer = \<lparr>ts_created = 7, ts_started = True\<rparr>, fe_deleteDb = 0, fe_startByTimer = 0\<rparr>"

definition ex_component :: FirmwareComponent where
  "ex_component = new_component\<lparr>fc_versionId := ''v1'', fc_url := ''http://h/p'', fc_fileName := ''p'', fc_spath := ''/p'',
     fc_versionNumber := ''2.0'', fc_size := 3, fc_blVersionType := 1, fc_otaType := AB_STREAM_OTA\<rparr>"

definition ex_firmware :: fw where
  "ex_firmware =
     \<lparr>fw_tasks = \<lparr>tb_up = True, tb_rows = [], tb_nextId = 1\<rparr>, fw_components = \<lparr>tb_up = True, tb_rows = [], tb_nextId = 1\<rparr>,
      fw_dl = \<lparr>mg_tasks = [], mg_db = \<lparr>tb_up = True, tb_rows = [], tb_nextId = 1\<rparr>, mg_fs = [''/p'' \<mapsto> Regular ''abc''], mg_delivered = []\<rparr>,
      fw_prefs = \<lparr>pr_up = True, pr_values = []\<rparr>, fw_cache = new_status_cache, fw_events = [], fw_bellOn = True,
      fw_night = new_night_alarm, fw_autoTimer = 0\<rparr>"

text \<open>The same firmware with a stored upgrade in a given status.\<close>

definition ex_stored :: "UpgradeStatus \<Rightarrow> fw" where
  "ex_stored s = on_tasks (table_Insert task_BuildDbValue [new_firmware_task\<lparr>ft_taskId := ''t'', ft_status := s,
       ft_combinationType := HOTA, ft_downloadTaskId := ''d''\<rparr>])
     (on_components (table_Insert component_BuildDbValue [ex_component]) ex_firmware)"

lemma ex_firmware_inv: "fw_inv ex_firmware"
  by (simp add: ex_firmware_def fw_inv_def fw_ok_def tasks_ok_def components_ok_def column_text_def task_view_def
      table_QueryAll_def table_Query_def)

lemma ex_stored_inv: "fw_inv (ex_stored s)"
  unfolding ex_stored_def by (rule inv_insert_task) (simp_all add: ex_firmware_inv, simp add: ex_firmware_def task_view_def table_QueryAll_def table_Query_def)

section \<open>The stored upgrade\<close>

text \<open>C3: A search result acts on the stored upgrade as the abstract operation \<open>up_check\<close>: nothing happens after a failed
  search or while an upgrade is under way; an empty answer forgets the stored upgrade; the version that is already
  stored is kept; any other answer replaces the stored upgrade by its components and one new task for them. A kept upgrade
  that has just been found takes over the addresses by version: nothing changes when the stored versions are distinct, but
  components that share a version all end with the address of the first of them. The tables are open and hold at most one
  task (see \<open>at_most_one_task\<close>), and the numbers of the components in the answer fit their columns.\<close>

theorem check_result_refines:
  assumes "fw_inv w" "list_all component_valid cs"
  shows "up_keep (upgrade_of (snd (check_SetCheckResult env status d cs c w))) = up_keep (up_check env status cs (upgrade_of w))
    \<and> (distinct (map fc_versionId (stored_components w)) \<longrightarrow> up_refresh cs (upgrade_of w) = upgrade_of w)"
  using check_refines [OF assms] up_refresh_distinct [of "upgrade_of w"] by simp

text \<open>An upgrade of two packages that share their version is found a second time, with the answer of the first search.\<close>

definition ex_pair :: "FirmwareComponent list" where
  "ex_pair = [ex_component\<lparr>fc_versionId := []\<rparr>, ex_component\<lparr>fc_versionId := [], fc_fileName := ''q''\<rparr>]"

definition ex_found :: fw where
  "ex_found = snd (check_SetCheckResult ex_device CHECK_SUCCESS 0 ex_pair new_check_proc ex_firmware)"

lemma ex_found_inv: "fw_inv ex_found"
  by code_simp

theorem check_result_refines_witness:
  "\<not> distinct (map fc_versionId (stored_components ex_found))
   \<and> up_keep (upgrade_of (snd (check_SetCheckResult ex_device CHECK_SUCCESS 0 ex_pair new_check_proc ex_found)))
     = up_keep (up_refresh ex_pair (upgrade_of ex_found))"
proof -
  have valid: "list_all component_valid ex_pair" by code_simp
  have "\<not> distinct (map fc_versionId (stored_components ex_found))" "ex_pair \<noteq> []"
    "\<not> up_busy (upgrade_of ex_found)" "up_offers ex_pair (upgrade_of ex_found)" by code_simp+
  moreover have "map_option ft_status (up_task (upgrade_of ex_found)) = Some US_CHECK_VERSION_SUCCESS" by code_simp
  ultimately show ?thesis
    using check_result_refines [OF ex_found_inv valid, of ex_device CHECK_SUCCESS 0 new_check_proc]
    by (auto simp: up_check_def)
qed

text \<open>C11: While a download reports its progress, the percentage kept for the task never goes back, the row of the task follows
  it with the reported status, and the preferences and the downloads are not touched.\<close>

theorem download_report_recorded:
  assumes "fw_inv w" "up_task (upgrade_of w) = Some t" "SetDownloadCallbackInfo env info d w = (d', w')"
  shows "pg_percent (dd_progress d) \<le> pg_percent (dd_progress d')
    \<and> up_task (upgrade_of w') = Some (t\<lparr>ft_status := pg_status (fd_taskProgress info), ft_progress := i32 (pg_percent (dd_progress d'))\<rparr>)
    \<and> fw_inv w' \<and> fw_prefs w' = fw_prefs w \<and> fw_dl w' = fw_dl w"
  using SetDownloadCallbackInfo_spec [OF assms(1,2), of env info d] assms(3) by (simp add: Let_def)

definition ex_report :: FirmwareDownloadCallbackInfo where
  "ex_report = \<lparr>fd_downloadTaskId = ''d'', fd_taskProgress = \<lparr>pg_percent = 40, pg_status = US_DOWNLOADING, pg_endReason = []\<rparr>,
     fd_progressList = []\<rparr>"

theorem download_report_recorded_witness:
  "pg_percent (dd_progress (new_download_proc (ex_stored US_DOWNLOADING)))
     \<le> pg_percent (dd_progress (fst (SetDownloadCallbackInfo ex_device ex_report (new_download_proc (ex_stored US_DOWNLOADING)) (ex_stored US_DOWNLOADING))))"
proof -
  have "ft_isExistTask (stored_task (ex_stored US_DOWNLOADING))" by code_simp
  then obtain t where "up_task (upgrade_of (ex_stored US_DOWNLOADING)) = Some t" by (auto simp: stored_task_exists)
  from download_report_recorded [OF ex_stored_inv this prod.collapse [symmetric]] show ?thesis by blast
qed

text \<open>C10: After a cancelled download the upgrade is as the search had found it: the task and every component are back at
  \<open>CHECK_VERSION_SUCCESS\<close> with no progress, and no download task is recorded.\<close>

theorem cancelled_download_is_reset:
  assumes "fw_inv w" "up_task (upgrade_of w) = Some t"
  shows "fw_inv (DownloadCancelProcess t e w)
    \<and> upgrade_of (DownloadCancelProcess t e w) =
       \<lparr>up_task = Some (t\<lparr>ft_status := US_CHECK_VERSION_SUCCESS, ft_progress := 0, ft_downloadTaskId := []\<rparr>),
        up_components = map (\<lambda>c. c\<lparr>fc_status := US_CHECK_VERSION_SUCCESS, fc_progress := 0\<rparr>) (stored_components w)\<rparr>"
  using DownloadCancelProcess_spec [OF assms, of e] by (simp add: reset_component_def)

theorem cancelled_download_is_reset_witness:
  "length (stored_components (DownloadCancelProcess (stored_task (ex_stored US_DOWNLOADING)) new_error_message (ex_stored US_DOWNLOADING))) = 1"
proof -
  have flag: "ft_isExistTask (stored_task (ex_stored US_DOWNLOADING))" by code_simp
  then obtain t where t: "up_task (upgrade_of (ex_stored US_DOWNLOADING)) = Some t" by (auto simp: stored_task_exists)
  have "length (stored_components (ex_stored US_DOWNLOADING)) = 1" by code_simp
  moreover note cancelled_download_is_reset [OF ex_stored_inv t, of new_error_message]
  ultimately show ?thesis
    using arg_cong [of _ _ "\<lambda>u. length (up_components u)"] stored_task_eq [OF t] by (simp add: upgrade_of_def)
qed

section \<open>The whole system\<close>

text \<open>C4: In every state the service can reach, whatever is asked of it and however the flows interleave, the tables are usable
  and hold at most one upgrade task.\<close>

theorem at_most_one_task:
  assumes "fw_step\<^sup>*\<^sup>* s s'" "system_inv s"
  shows "fw_ok (sy_fw s') \<and> length (task_view (fw_tasks (sy_fw s'))) \<le> 1"
  using reachable_inv [OF assms] by (simp add: system_inv_def fw_inv_def)

definition ex_system :: firmware_system where
  "ex_system = \<lparr>sy_flows = [], sy_net = \<lparr>nm_type = NO_NET, nm_callbacks = [], nm_queue = [], nm_calls = []\<rparr>, sy_fw = ex_stored US_DOWNLOAD_SUCCESS\<rparr>"

lemma ex_system_inv: "system_inv ex_system"
  by (simp add: ex_system_def system_inv_def ex_stored_inv)

definition ex_checking :: firmware_system where
  "ex_checking = with_started (manager_DoCheck ex_device (sy_fw ex_system)) ex_system"

lemma ex_checking_reached: "fw_step\<^sup>*\<^sup>* ex_system ex_checking"
  unfolding ex_checking_def by (rule r_into_rtranclp) (rule fw_step.check)

theorem at_most_one_task_witness: "length (task_view (fw_tasks (sy_fw ex_checking))) \<le> 1"
  using at_most_one_task [OF ex_checking_reached ex_system_inv] by simp

text \<open>C27: In every reachable state each running flow has a mode and exactly the executor its step asks for.\<close>

theorem reachable_flows_well_formed:
  assumes "fw_step\<^sup>*\<^sup>* s s'" "system_inv s" "i < length (sy_flows s')" "sy_flows s' ! i = Running fl"
  shows "fl_mode fl \<noteq> None \<and> (\<exists>ex. fl_executor fl = Some ex \<and> fl_nextStep fl = executor_step ex)"
  using reachable_inv [OF assms(1,2)] assms(3,4) by (auto simp: system_inv_def list_all_length flow_wf_def)

theorem reachable_flows_well_formed_witness:
  "\<exists>fl. sy_flows ex_checking = [Running fl] \<and> fl_mode fl \<noteq> None"
proof -
  have "(case sy_flows ex_checking of [Running fl] \<Rightarrow> True | _ \<Rightarrow> False)" by code_simp
  then obtain fl where fl: "sy_flows ex_checking = [Running fl]" by (auto split: list.splits flow_state.splits)
  then show ?thesis
    using reachable_flows_well_formed [OF ex_checking_reached ex_system_inv, of 0 fl] by simp
qed

text \<open>C5: A flow comes to its end: whatever mode it was started with, and whatever the device answers meanwhile, after five
  reports that end a step the flow is finished.\<close>

theorem flow_ends:
  assumes "list_all (\<lambda>e. ends_step (snd e)) reports" "5 \<le> length reports"
  shows "\<exists>m' r. fst (fold feed reports (flow_Start env m w)) = Finished m' r"
  using flow_Start_wf [of env m w] assms by (intro feeds_end) auto

theorem flow_ends_witness:
  "\<exists>m' r. fst (fold feed (replicate 5 (ex_device, CheckAnswer CHECK_SUCCESS 0 [ex_component]))
     (flow_Start ex_device (AutoMode new_auto_mode) ex_firmware)) = Finished m' r"
  by (rule flow_ends) (simp_all add: eval_nat_numeral)

text \<open>C6: The work of an install executor ends its step: afterwards the flow is finished or has moved on to apply, and the tables
  are sound, whatever the install service reports.\<close>

theorem install_work_ends_step:
  assumes "system_inv s" "executor_of s i = Some (InstallExecutor ty)" "install_DoInstall env kit ty (flow_view s i) = (x, fs, w)"
  shows "fw_inv w \<and> (case fs of Running fl \<Rightarrow> fl_executor fl = Some ApplyExecutor | Finished m r \<Rightarrow> True)"
proof -
  note g = executor_good [OF assms(1,2)]
  have "fw_inv w" "flow_wf fs" "4 < flow_at fs"
    using install_DoInstall_ends [of "flow_view s i" env kit ty] g assms(3) by (simp_all add: good_def executor_step_def)
  moreover have "fl_executor fl = Some ApplyExecutor" if fl: "fs = Running fl" for fl
  proof -
    obtain ex where "fl_executor fl = Some ex" "fl_nextStep fl = executor_step ex" "4 < step_code (fl_nextStep fl)"
      using \<open>flow_wf fs\<close> \<open>4 < flow_at fs\<close> by (auto simp: fl flow_wf_def flow_at_def)
    then show ?thesis by (cases ex) (simp_all add: executor_step_def)
  qed
  ultimately show ?thesis by (simp split: flow_state.split)
qed

definition ex_kit :: install_kit where
  "ex_kit = \<lparr>ik_code = (\<lambda>_. 0), ik_init = (\<lambda>_ _. 0), ik_updateStatus = (\<lambda>_ _. 0), ik_setCallback = (\<lambda>_ _. 0), ik_start = (\<lambda>_ _. - 1),
     ik_startDownload = (\<lambda>_ _. 0), ik_reports = (\<lambda>_ _. []), ik_reboot = (\<lambda>_. 0), ik_uninitialised = US_INIT\<rparr>"

definition ex_installing :: firmware_system where
  "ex_installing = with_started (manager_DoInstall ex_device new_upgrade_options new_business_error STREAM_INSTALLLER (sy_fw ex_system)) ex_system"

theorem install_work_ends_step_witness:
  "fw_inv (snd (snd (install_DoInstall ex_device ex_kit STREAM_INSTALLLER (flow_view ex_installing 0))))"
proof -
  have "executor_of ex_installing 0 = Some (InstallExecutor STREAM_INSTALLLER)" by code_simp
  moreover have "system_inv ex_installing"
    unfolding ex_installing_def by (rule step_inv [OF fw_step.install ex_system_inv])
  ultimately show ?thesis
    using install_work_ends_step [of ex_installing 0 STREAM_INSTALLLER ex_device ex_kit] by (metis prod.collapse)
qed

section \<open>After the reboot\<close>

text \<open>C7: A boot gives at most one verdict on the stored upgrade. An upgrade by the updater failed unless there are
  components and the package of each of them passed, by its line in the result file or, without one, by the running version
  compared with the version of the first component of the package; a failure is always told. Otherwise it succeeded, and so
  did an upgrade that had been installed before the boot (\<open>INSTALL_SUCCESS\<close>), whose components are not looked at; a success
  is told for the combination type \<open>HOTA\<close> and passes silently for any other. An upgrade that was told of is forgotten, any
  other stays as it was; a task in another state, or none, gives no verdict. (\<open>boot_outcome\<close> states these cases.)\<close>

theorem boot_reports_one_verdict:
  assumes "fw_inv w"
  shows "upgrade_of (HandleBootComplete env w) =
      (case boot_outcome env (upgrade_of w) of None \<Rightarrow> upgrade_of w | Some e \<Rightarrow> up_clear)
    \<and> map ev_id (fw_events (HandleBootComplete env w)) = map ev_id (fw_events w) @
      (case boot_outcome env (upgrade_of w) of None \<Rightarrow> [] | Some e \<Rightarrow> [e])"
  by (rule boot_verdict [OF assms])

text \<open>Two components of the package \<open>p\<close>, of different versions, without a result file: the first one decides.\<close>

definition ex_no_file :: fw_env where
  "ex_no_file = ex_device\<lparr>fe_updaterResult := None\<rparr>"

definition ex_two_of_one :: fw where
  "ex_two_of_one = on_components (table_Insert component_BuildDbValue [ex_component\<lparr>fc_versionNumber := ''1.0''\<rparr>]) (ex_stored US_UPDATING)"

theorem boot_reports_one_verdict_witness:
  "map ev_id (fw_events (HandleBootComplete ex_device (ex_stored US_UPDATING))) = [EVENT_UPGRADE_SUCCESS]
   \<and> map ev_id (fw_events (HandleBootComplete ex_no_file ex_two_of_one)) = [EVENT_UPGRADE_SUCCESS]"
proof -
  have e: "fw_events (ex_stored US_UPDATING) = []" "fw_events ex_two_of_one = []"
    "boot_outcome ex_device (upgrade_of (ex_stored US_UPDATING)) = Some EVENT_UPGRADE_SUCCESS"
    "boot_outcome ex_no_file (upgrade_of ex_two_of_one) = Some EVENT_UPGRADE_SUCCESS" by code_simp+
  have "fw_inv ex_two_of_one" by code_simp
  with e show ?thesis
    using boot_reports_one_verdict [OF ex_stored_inv, of ex_device US_UPDATING]
      boot_reports_one_verdict [of ex_two_of_one ex_no_file] by simp
qed

section \<open>Alarms\<close>

text \<open>C13: When the night alarm has to be set anew, its time is in the future, less than a day away, between two and four
  o'clock at night, and the firmware is among the tasks that run then.\<close>

theorem night_upgrade_time:
  assumes "fe_secondsOfDay env = Some s" "0 \<le> s" "s < 86400" "IsIllegalNightUpgradeTime (fe_now env) (fw_night w)"
  shows "let a = fw_night (SetNightUpgradeAlarm env w); delay = na_time a - fe_now env in
    0 < delay \<and> delay < 86400 \<and> (s + delay) mod 86400 div 3600 \<in> {2, 3} \<and> cm_has (NightUpgradeInfo FIRMWARE True) (na_tasks a)"
proof -
  let ?ne = "fw_night_env env" and ?i = "NightUpgradeInfo FIRMWARE True"
  have ne: "ne_secondsOfDay ?ne = Some s" "ne_now ?ne = fe_now env" using assms(1) by (simp_all add: fw_night_env_def)
  have time: "na_time (fw_night (SetNightUpgradeAlarm env w)) = CalculateUpgradeTime ?ne"
    using assms(4) ne(2)
    by (auto simp: SetNightUpgradeAlarm_def RegisterNightUpgradeTask_def InnerRegisterNightUpgradeEvent_def Let_def
        IsIllegalNightUpgradeTime_def)
  have "cm_has ?i (na_tasks (fw_night (SetNightUpgradeAlarm env w)))"
    by (auto simp: SetNightUpgradeAlarm_def RegisterNightUpgradeTask_def InnerRegisterNightUpgradeEvent_def Let_def
        InnerUnregisterNightUpgradeEvent_def IsRegistered_info_def)
  with CalculateUpgradeTime_bounds [OF ne(1) assms(2,3)] show ?thesis by (simp add: Let_def time ne(2))
qed

theorem night_upgrade_time_witness:
  "0 < na_time (fw_night (SetNightUpgradeAlarm ex_device ex_firmware)) - fe_now ex_device"
proof -
  have "IsIllegalNightUpgradeTime (fe_now ex_device) (fw_night ex_firmware)" "fe_secondsOfDay ex_device = Some 36000" by code_simp+
  from night_upgrade_time [OF this(2) _ _ this(1)] show ?thesis by (simp add: Let_def)
qed

text \<open>C33: An upgrade started by the night alarm is never applied: the order \<open>INSTALL_AND_APPLY\<close> does not reach the
  flow, so that no report makes it run the apply executor.\<close>

theorem night_upgrade_is_not_applied:
  assumes "f \<in> set (fst (event_HandleNightUpgrade env w))"
  shows "case fst (fold feed reports (f, v)) of Running fl \<Rightarrow> fl_executor fl \<noteq> Some ApplyExecutor | Finished m r \<Rightarrow> True"
  using only_installs_feeds [of "(f, v)" reports] night_only_installs [OF assms]
  by (cases "fst (fold feed reports (f, v))") simp_all

definition ex_night :: fw where
  "ex_night = (ex_stored US_DOWNLOAD_SUCCESS)\<lparr>fw_prefs := \<lparr>pr_up = True, pr_values = [(''night_upgrade_switch'', PrefBool True)]\<rparr>\<rparr>"

theorem night_upgrade_is_not_applied_witness:
  "\<exists>f. fst (event_HandleNightUpgrade ex_device ex_night) = [f]
    \<and> (case f of Running fl \<Rightarrow> fl_executor fl \<noteq> Some ApplyExecutor | Finished m r \<Rightarrow> False)"
proof -
  have "(case fst (event_HandleNightUpgrade ex_device ex_night) of [Running fl] \<Rightarrow> True | _ \<Rightarrow> False)" by code_simp
  then obtain fl where f: "fst (event_HandleNightUpgrade ex_device ex_night) = [Running fl]"
    by (auto split: list.splits flow_state.splits)
  with night_upgrade_is_not_applied [of "Running fl" ex_device ex_night "[]" ex_night] show ?thesis by simp
qed

text \<open>After a search the next one is due between 23.5 and 24.5 hours later, and its timer is the one the time service gave.\<close>

theorem next_check_is_a_day_away:
  assumes "pr_up (fw_prefs w)" "GetAutoUpgradeTime (fw_prefs w) \<le> fe_now env"
  shows "let t = GetAutoUpgradeTime (fw_prefs (RefreshAutoUpgradeAlarm env w)) in
    fe_now env + 84600 \<le> t \<and> t < fe_now env + 88200
    \<and> fw_autoTimer (RefreshAutoUpgradeAlarm env w) = RegisterTimer (fe_timer env)"
  by (rule refresh_duration [OF assms])

theorem next_check_is_a_day_away_witness:
  "fe_now ex_device + 84600 \<le> GetAutoUpgradeTime (fw_prefs (RefreshAutoUpgradeAlarm ex_device ex_firmware))"
proof -
  have "pr_up (fw_prefs ex_firmware)" "GetAutoUpgradeTime (fw_prefs ex_firmware) \<le> fe_now ex_device" by code_simp+
  from next_check_is_a_day_away [OF this] show ?thesis by (simp add: Let_def)
qed

text \<open>A retried search can be lost: when the random delay is zero, a change of the network clears the retry flag and leaves
  no timer.\<close>

theorem retry_can_be_lost:
  assumes "pr_up (fw_prefs w)" "IsNeedRetryCheck (fw_prefs w)" "fe_draw env = 0" "0 \<le> fe_now env"
    "fe_now env < GetAutoUpgradeTime (fw_prefs w)" "GetAutoUpgradeTime (fw_prefs w) \<le> fe_now env + 86400"
  shows "fw_autoTimer (RefreshAutoUpgradeAlarm_event env NET_CHANGED w) = 0
    \<and> \<not> IsNeedRetryCheck (fw_prefs (RefreshAutoUpgradeAlarm_event env NET_CHANGED w))"
  using retry_draw_zero [OF assms] by simp

definition ex_retry :: fw where
  "ex_retry = ex_firmware\<lparr>fw_autoTimer := 7, fw_prefs := \<lparr>pr_up = True,
     pr_values = [(''auto_upgrade_time'', PrefLong 150000), (''need_retry_check'', PrefBool True)]\<rparr>\<rparr>"

theorem retry_can_be_lost_witness:
  "fw_autoTimer ex_retry = 7 \<and> fw_autoTimer (RefreshAutoUpgradeAlarm_event ex_device NET_CHANGED ex_retry) = 0"
proof -
  have "pr_up (fw_prefs ex_retry)" "IsNeedRetryCheck (fw_prefs ex_retry)" "fe_draw ex_device = 0" "0 \<le> fe_now ex_device"
    "fe_now ex_device < GetAutoUpgradeTime (fw_prefs ex_retry)" "GetAutoUpgradeTime (fw_prefs ex_retry) \<le> fe_now ex_device + 86400"
    by code_simp+
  from retry_can_be_lost [OF this] show ?thesis by (simp add: ex_retry_def)
qed

section \<open>The life of the service\<close>

text \<open>C12: With the firmware as the only business, the service leaves exactly when the idle interval is over, no client and no
  upgrade needs it, the next search is at least 30 seconds away and the system accepts a wake-up; the wake-up is then set to
  the time of the next search, a day at most. The bound is the 30 seconds below which a timed event is refused
  (\<open>UpdateStartupPolicy\<close>). The comment of \<open>TaskManage\<close> in \<^verbatim>\<open>schedule_manager.cpp\<close> promises something else, that the process
  stays while the next task is nearer than the keep-alive threshold of an hour: the code computes that answer and
  \<open>IdleCheck\<close> drops it, so the threshold has no effect, as the equivalence shows. Times fit their 64 bits.\<close>

theorem service_leaves_with_wakeup:
  assumes "firmware_only s" "0 \<le> fe_now env" "fe_now env \<le> INT64_MAX" "GetAutoUpgradeTime (fw_prefs w) \<le> INT64_MAX"
    "IdleLoop (Some accepts) env w s = (leaves, s')"
  shows "(leaves \<longleftrightarrow> i64 (snd (su_intervals s)) \<le> \<bar>fe_now env - su_lastIdleCheckTime s\<bar> \<and> am_isRemoteIdle (su_access s)
      \<and> manager_IsIdle env w \<and> 30 \<le> next_wakeup env w
      \<and> (accepts (wakeup_policy ''awakeloopevent'' (next_wakeup env w)) = 0 \<or> accepts (wakeup_policy ''loopevent'' (next_wakeup env w)) = 0))
    \<and> (leaves \<longrightarrow> (\<exists>name. su_policy s' = wakeup_policy name (next_wakeup env w)))"
  using assms(5) IdleLoop_exit [OF assms(1-4), of "Some accepts"]
  by (auto simp: OnDemandSchedule_single Let_def split_beta split: if_splits)

definition ex_startup :: startup where
  "ex_startup = (fst (FirmwareAccess_Init ex_device SCHEDULE_TASK (new_startup ex_device [], ex_firmware)))\<lparr>su_lastIdleCheckTime := 0\<rparr>"

theorem service_leaves_with_wakeup_witness:
  "fst (IdleLoop (Some (\<lambda>_. 0)) ex_device (ex_firmware\<lparr>fw_prefs := \<lparr>pr_up = True, pr_values = [(''auto_upgrade_time'', PrefLong 100100)]\<rparr>\<rparr>) ex_startup)"
proof -
  let ?w = "ex_firmware\<lparr>fw_prefs := \<lparr>pr_up = True, pr_values = [(''auto_upgrade_time'', PrefLong 100100)]\<rparr>\<rparr>"
  have startup: "ex_startup = (new_startup ex_device [])\<lparr>su_lastIdleCheckTime := 0,
      su_access := \<lparr>am_accessMap = [(AT_FIRMWARE, firmware_access)], am_isRemoteIdle = True\<rparr>\<rparr>"
    by (simp add: ex_startup_def FirmwareAccess_Init_def new_startup_def access_Register_def new_access_manager_def)
  have access: "firmware_only ex_startup" by (simp add: startup)
  have bounds: "0 \<le> fe_now ex_device" "fe_now ex_device \<le> INT64_MAX" "GetAutoUpgradeTime (fw_prefs ?w) \<le> INT64_MAX" by code_simp+
  have "i64 (snd (su_intervals ex_startup)) \<le> \<bar>fe_now ex_device - su_lastIdleCheckTime ex_startup\<bar>"
    "am_isRemoteIdle (su_access ex_startup)"
    by (simp_all add: startup new_startup_def ex_device_def ex_env0_def i64_def)
  moreover have "manager_IsIdle ex_device ?w" "30 \<le> next_wakeup ex_device ?w" by code_simp+
  moreover note service_leaves_with_wakeup [OF access bounds prod.collapse [symmetric], of "\<lambda>_. 0"]
  ultimately show ?thesis by blast
qed

text \<open>A terminated upgrade resets the environment of the next process and of no later one: the reason is saved before the
  process exits, read at the next start and removed there.\<close>

theorem terminate_resets_once:
  assumes "pr_up (fw_prefs w)" "fe_startByTimer env = 0" "60 < uptime" "60 < uptime'"
    "DoTerminateUpgrade env err w = (exits, err', w')" "GetStartupReason uptime (fw_prefs w') = (reason, p)"
  shows "exits \<and> err' = err \<and> reason = PROCESS_ENV_RESET \<and> GetStartupReason uptime' p = (SCHEDULE_TASK, p)"
  by (rule terminate_roundtrip [OF assms])

section \<open>The recorded download\<close>

text \<open>The download a started task records in its row is the download the manager started exactly when the versions of its
  components differ: the recorded id is computed from the whole list, the started one from the list without repetitions.\<close>

theorem recorded_download_is_started:
  assumes "fw_inv w" "up_task (upgrade_of w) = Some t" "fl_mode fl = Some (DownloadMode m)" "inj (fe_sha env)"
    "cs \<noteq> []" "list_all (\<lambda>c. fc_versionId c \<noteq> []) cs"
  shows "let infos = BuildDownloadInfos opts cs;
             w' = snd (OnDownloadEventCallback (GetTaskId (fe_sha env) infos) EVENT_DOWNLOAD_START (Running fl, w));
             started = fst (manager_Start (fe_sha env) (fe_env env) infos no_error (fw_dl w'))
    in map_option ft_downloadTaskId (up_task (upgrade_of w')) = Some started \<longleftrightarrow> distinct (map fc_versionId cs)"
proof -
  let ?ds = "BuildDownloadInfos opts cs"
  have ids: "map di_versionId ?ds = map fc_versionId cs" by (simp add: BuildDownloadInfos_def)
  have "list_all (\<lambda>d. di_versionId d \<noteq> []) ?ds" "?ds \<noteq> []" using assms(5,6) by (auto simp: BuildDownloadInfos_def list_all_iff)
  note started = started_id_differs [OF assms(4) this]
  have recorded: "map_option ft_downloadTaskId (up_task (upgrade_of (snd (OnDownloadEventCallback k EVENT_DOWNLOAD_START (Running fl, w))))) = Some k" for k
    by (rule event_records [OF assms(1,2)]) (simp add: assms(3))
  let ?w = "snd (OnDownloadEventCallback (GetTaskId (fe_sha env) ?ds) EVENT_DOWNLOAD_START (Running fl, w))"
  show ?thesis unfolding Let_def recorded using started [of "fe_env env" no_error "fw_dl ?w"] by (auto simp: ids)
qed

theorem recorded_download_is_started_witness:
  "let infos = BuildDownloadInfos new_download_options [ex_component, ex_component];
       w' = snd (OnDownloadEventCallback (GetTaskId (fe_sha ex_device) infos) EVENT_DOWNLOAD_START
              (Running (new_flow\<lparr>fl_mode := Some (DownloadMode (new_download_mode new_download_options new_business_error (ex_stored US_INIT)))\<rparr>),
               ex_stored US_INIT))
   in map_option ft_downloadTaskId (up_task (upgrade_of w')) \<noteq>
      Some (fst (manager_Start (fe_sha ex_device) (fe_env ex_device) infos no_error (fw_dl w')))"
proof -
  have "ft_isExistTask (stored_task (ex_stored US_INIT))" by code_simp
  then obtain t where t: "up_task (upgrade_of (ex_stored US_INIT)) = Some t" by (auto simp: stored_task_exists)
  let ?cs = "[ex_component, ex_component]"
  have "inj (fe_sha ex_device)" by (simp add: ex_device_def inj_on_def)
  moreover have "list_all (\<lambda>c. fc_versionId c \<noteq> []) ?cs" "\<not> distinct (map fc_versionId ?cs)" by code_simp+
  ultimately show ?thesis
    using recorded_download_is_started [OF ex_stored_inv t, of "new_flow\<lparr>fl_mode := Some (DownloadMode (new_download_mode new_download_options new_business_error (ex_stored US_INIT)))\<rparr>"
        "new_download_mode new_download_options new_business_error (ex_stored US_INIT)" ex_device ?cs new_download_options]
    by (simp add: Let_def new_flow_def)
qed

end
