(* ===== verification/Firmware_Check.thy ===== *)
theory Firmware_Check
  imports Firmware_Spec Complex_Main
begin

text \<open>
  The search for a new version: \<open>foundations/ability/utils/include/updateservice_json_utils.h\<close> (typed access to a JSON
  document), \<open>services/firmware/utils/src/firmware_check_analyze_utils.cpp\<close> (the answer of the server becomes components
  and a change log) and \<open>services/firmware/check/include/firmware_icheck.h\<close> (the request itself). The JSON library, the
  sockets and the TLS library are arguments: a record of what their functions return. Enumerations that the answer gives
  as numbers are read by the \<open>_of_code\<close> functions, where a number outside of the enumeration is the default.
\<close>

section \<open>The libraries\<close>

text \<open>A \<open>double\<close> as the JSON library hands it out.\<close>

datatype cxx_double = Finite rat | PosInf | NegInf | NaN

record 'j cjson =
  cj_Parse :: "string \<Rightarrow> 'j option"
  cj_GetObjectItemCaseSensitive :: "'j \<Rightarrow> string \<Rightarrow> 'j option"
  cj_GetObjectItem :: "'j \<Rightarrow> string \<Rightarrow> 'j option"
  cj_GetArraySize :: "'j \<Rightarrow> int"
  cj_GetArrayItem :: "'j \<Rightarrow> nat \<Rightarrow> 'j option"
  cj_IsNumber :: "'j \<Rightarrow> bool"
  cj_valuedouble :: "'j \<Rightarrow> cxx_double"
  cj_valueint :: "'j \<Rightarrow> int"
  cj_IsString :: "'j \<Rightarrow> bool"
  cj_valuestring :: "'j \<Rightarrow> string"
  cj_IsBool :: "'j \<Rightarrow> bool"
  cj_IsTrue :: "'j \<Rightarrow> bool"

text \<open>What the rest of the device contributes to a search. \<open>ck_cast\<close> is the result of converting a \<open>double\<close> to an integer
  type that cannot hold it and \<open>ck_uninitialised\<close> the content of a variable that was never set; C++ leaves both open.
  \<open>ck_opens\<close> says which file a path names when it can be opened for writing.\<close>

record 'j check_env =
  ck_json :: "'j cjson"
  ck_cast :: "rat \<Rightarrow> int"
  ck_uninitialised :: int
  ck_opens :: "file_system \<Rightarrow> string \<Rightarrow> string option"
  ck_hasCallback :: bool
  ck_serverIp :: string
  ck_socket :: int
  ck_inet_pton :: "string \<Rightarrow> int"
  ck_connect :: int
  ck_sslCtx :: bool
  ck_sslNew :: bool
  ck_sslConnect :: int
  ck_sslWrite :: "string \<Rightarrow> int"
  ck_sslRead :: "int \<times> string"

section \<open>\<open>UpdateServiceJsonUtils\<close>\<close>

datatype JsonParseError = ERR_OK | COMMOM_ERROR | MISSING_PROP | TYPE_ERROR

fun json_error_code :: "JsonParseError \<Rightarrow> int" where
  "json_error_code ERR_OK = 0" | "json_error_code COMMOM_ERROR = 1" | "json_error_code MISSING_PROP = 2"
| "json_error_code TYPE_ERROR = 3"

fun IsInteger :: "cxx_double \<Rightarrow> bool" where
  "IsInteger (Finite q) = (of_int \<lfloor>q\<rfloor> = q)"
| "IsInteger NaN = False"
| "IsInteger d = True"

datatype cxx_integer = T_INT32 | T_INT64 | T_UINT32 | T_UINT64

text \<open>The limits of a type as they are compared with the number: the largest 64-bit values become the next power of two.\<close>

fun double_limits :: "cxx_integer \<Rightarrow> rat \<times> rat" where
  "double_limits T_INT32 = (- (2 ^ 31), 2 ^ 31 - 1)"
| "double_limits T_INT64 = (- (2 ^ 63), 2 ^ 63)"
| "double_limits T_UINT32 = (0, 2 ^ 32 - 1)"
| "double_limits T_UINT64 = (0, 2 ^ 64)"

fun type_limits :: "cxx_integer \<Rightarrow> int \<times> int" where
  "type_limits T_INT32 = (- (2 ^ 31), 2 ^ 31 - 1)"
| "type_limits T_INT64 = (- (2 ^ 63), 2 ^ 63 - 1)"
| "type_limits T_UINT32 = (0, 2 ^ 32 - 1)"
| "type_limits T_UINT64 = (0, 2 ^ 64 - 1)"

fun wrap_to :: "cxx_integer \<Rightarrow> int \<Rightarrow> int" where
  "wrap_to T_INT32 x = i32 x" | "wrap_to T_INT64 x = i64 x" | "wrap_to T_UINT32 x = u32 x" | "wrap_to T_UINT64 x = x mod 2 ^ 64"

definition double_to_integer :: "(rat \<Rightarrow> int) \<Rightarrow> cxx_integer \<Rightarrow> rat \<Rightarrow> int" where
  "double_to_integer cast T q =
     (if fst (type_limits T) \<le> \<lfloor>q\<rfloor> \<and> \<lfloor>q\<rfloor> \<le> snd (type_limits T) then \<lfloor>q\<rfloor> else wrap_to T (cast q))"

definition CheckInteger :: "'j check_env \<Rightarrow> cxx_integer \<Rightarrow> 'j \<Rightarrow> int option" where
  "CheckInteger ce T item =
     (if \<not> cj_IsNumber (ck_json ce) item then None
      else if \<not> IsInteger (cj_valuedouble (ck_json ce) item) then None
      else case cj_valuedouble (ck_json ce) item of
        Finite q \<Rightarrow> if q < fst (double_limits T) \<or> snd (double_limits T) < q then None
                    else Some (double_to_integer (ck_cast ce) T q)
      | _ \<Rightarrow> None)"

definition assign_string :: "'j check_env \<Rightarrow> 'j \<Rightarrow> string option" where
  "assign_string ce item =
     (if cj_IsString (ck_json ce) item then Some (cj_valuestring (ck_json ce) item) else None)"

definition assign_bool :: "'j check_env \<Rightarrow> 'j \<Rightarrow> bool option" where
  "assign_bool ce item = (if \<not> cj_IsBool (ck_json ce) item then None else Some (cj_IsTrue (ck_json ce) item))"

definition assign_double :: "'j check_env \<Rightarrow> 'j \<Rightarrow> rat option" where
  "assign_double ce item =
     (if \<not> cj_IsNumber (ck_json ce) item then None
      else case cj_valuedouble (ck_json ce) item of Finite q \<Rightarrow> Some q | _ \<Rightarrow> None)"

text \<open>\<open>GetValueAndSetTo\<close> for the type whose \<open>CheckTypeAndAsign\<close> is the first argument: the error code and the value of the
  variable afterwards.\<close>

definition GetValueAndSetTo ::
  "('j check_env \<Rightarrow> 'j \<Rightarrow> 'v option) \<Rightarrow> 'j check_env \<Rightarrow> 'j option \<Rightarrow> string \<Rightarrow> 'v \<Rightarrow> int \<times> 'v" where
  "GetValueAndSetTo CheckTypeAndAsign ce jsonObject key value =
     (case jsonObject of
        None \<Rightarrow> (json_error_code MISSING_PROP, value)
      | Some obj \<Rightarrow>
          if key = [] then (json_error_code MISSING_PROP, value)
          else case cj_GetObjectItemCaseSensitive (ck_json ce) obj key of
            None \<Rightarrow> (json_error_code MISSING_PROP, value)
          | Some item \<Rightarrow>
              (case CheckTypeAndAsign ce item of
                 None \<Rightarrow> (json_error_code TYPE_ERROR, value)
               | Some v \<Rightarrow> (json_error_code ERR_OK, v)))"

definition ParseJson :: "'j check_env \<Rightarrow> string \<Rightarrow> 'j option" where
  "ParseJson ce jsonStr = cj_Parse (ck_json ce) (takeWhile (\<lambda>c. c \<noteq> CHR 0x00) jsonStr)"

abbreviation get_string :: "'j check_env \<Rightarrow> 'j \<Rightarrow> string \<Rightarrow> string \<Rightarrow> int \<times> string" where
  "get_string ce item \<equiv> GetValueAndSetTo assign_string ce (Some item)"

abbreviation get_int32 :: "'j check_env \<Rightarrow> 'j \<Rightarrow> string \<Rightarrow> int \<Rightarrow> int \<times> int" where
  "get_int32 ce item \<equiv> GetValueAndSetTo (\<lambda>ce. CheckInteger ce T_INT32) ce (Some item)"

abbreviation get_int64 :: "'j check_env \<Rightarrow> 'j \<Rightarrow> string \<Rightarrow> int \<Rightarrow> int \<times> int" where
  "get_int64 ce item \<equiv> GetValueAndSetTo (\<lambda>ce. CheckInteger ce T_INT64) ce (Some item)"

section \<open>The data of an answer\<close>

datatype CheckResultStatus = STATUS_SYSTEM_ERROR | STATUS_NEW_VERSION_AVAILABLE | STATUS_NEW_VERSION_NOT_AVAILABLE
  | STATUS_SERVER_IS_BUSY

fun check_status_code :: "CheckResultStatus \<Rightarrow> int" where
  "check_status_code STATUS_SYSTEM_ERROR = - 1" | "check_status_code STATUS_NEW_VERSION_AVAILABLE = 0"
| "check_status_code STATUS_NEW_VERSION_NOT_AVAILABLE = 1" | "check_status_code STATUS_SERVER_IS_BUSY = 2"

record UpdatePackage =
  up_versionId :: string
  up_packageIndex :: int
  up_versionPackageType :: PackageType

record TargetBlComponent =
  tb_versionNumber :: string
  tb_displayVersionNumber :: string
  tb_versionPackageType :: PackageType

record BlVersionCheckResult =
  bc_status :: string
  bc_pollingPeriod :: string
  bc_blVersionInfo :: string
  bc_blVersionType :: int
  bc_descriptPackageId :: string
  bc_updatePackages :: "UpdatePackage list"
  bc_targetBlComponents :: "TargetBlComponent list"

record Version =
  vs_url :: string
  vs_reserveUrl :: string
  vs_storageType :: int
  vs_versionId :: string
  vs_versionNumber :: string

record BlCheckResponse =
  br_status :: string
  br_blVersionCheckResults :: "BlVersionCheckResult list"
  br_versionList :: "Version list"

definition new_bl_response :: BlCheckResponse where
  "new_bl_response = \<lparr>br_status = [], br_blVersionCheckResults = [], br_versionList = []\<rparr>"

section \<open>\<open>FirmwareCheckAnalyzeUtils\<close>\<close>

definition IsLegalStatus :: "int \<Rightarrow> bool" where
  "IsLegalStatus status =
     (status = check_status_code STATUS_NEW_VERSION_AVAILABLE
      \<or> status = check_status_code STATUS_NEW_VERSION_NOT_AVAILABLE)"

definition MAX_FILE_NAME_LENGTH :: nat where "MAX_FILE_NAME_LENGTH = 255"

definition IsValidFileName :: "string \<Rightarrow> bool" where
  "IsValidFileName fileName =
     (if fileName = [] then False
      else if length fileName > MAX_FILE_NAME_LENGTH then False
      else list_all (\<lambda>pattern. find_sub pattern fileName = None) [''..'', ''/'', [CHR 0x5C]])"

text \<open>The items of a JSON array, those for which the library returns one.\<close>

definition array_items :: "'j check_env \<Rightarrow> 'j \<Rightarrow> 'j list" where
  "array_items ce j =
     List.map_filter (cj_GetArrayItem (ck_json ce) j) [0..<nat (cj_GetArraySize (ck_json ce) j)]"

text \<open>One item of \<open>checkResults\<close> in \<open>AnalyzeBlVersionCheckResults\<close>.\<close>

definition bl_item ::
  "'j check_env \<Rightarrow> int \<Rightarrow> 'j \<Rightarrow> int \<times> BlCheckResponse \<Rightarrow> int \<times> BlCheckResponse" where
  "bl_item ce status item st =
     (let (ret, response) = st;
          (r1, packageId) = get_string ce item ''descriptPackageId'' [];
          (r2, typeCode) = get_int32 ce item ''packageType'' (package_code PT_DYNAMIC);
          packageType = package_of_code typeCode;
          (r3, displayName) = get_string ce item ''versionName'' [];
          (r4, name) = get_string ce item ''versionName'' [];
          checkResult = \<lparr>bc_status = to_string status, bc_pollingPeriod = [], bc_blVersionInfo = [], bc_blVersionType = 1,
             bc_descriptPackageId = packageId,
             bc_updatePackages = [\<lparr>up_versionId = ''1'', up_packageIndex = 0, up_versionPackageType = packageType\<rparr>],
             bc_targetBlComponents = [\<lparr>tb_versionNumber = name, tb_displayVersionNumber = displayName,
                tb_versionPackageType = packageType\<rparr>]\<rparr>;
          (r5, number) = get_string ce item ''versionCode'' [];
          (r6, url) = get_string ce item ''url'' [];
          version = \<lparr>vs_url = url, vs_reserveUrl = [], vs_storageType = 0, vs_versionId = ''1'', vs_versionNumber = number\<rparr>
      in (ret + r1 + r2 + r3 + r4 + r5 + r6,
          response\<lparr>br_blVersionCheckResults := br_blVersionCheckResults response @ [checkResult],
                   br_versionList := br_versionList response @ [version]\<rparr>))"

definition AnalyzeBlVersionCheckResults ::
  "'j check_env \<Rightarrow> 'j \<Rightarrow> BlCheckResponse \<Rightarrow> int \<times> BlCheckResponse" where
  "AnalyzeBlVersionCheckResults ce doc response =
     (case cj_GetObjectItemCaseSensitive (ck_json ce) doc ''checkResults'' of
        None \<Rightarrow> (json_error_code MISSING_PROP, response)
      | Some items \<Rightarrow>
          let (_, status) = get_int32 ce doc ''searchStatus'' (check_status_code STATUS_SYSTEM_ERROR) in
          if status = check_status_code STATUS_NEW_VERSION_AVAILABLE
          then fold (bl_item ce status) (array_items ce items) (json_error_code ERR_OK, response)
          else (json_error_code ERR_OK, response))"

text \<open>One item of \<open>checkResults\<close> in \<open>ProcessCheckResults\<close>: an item with an illegal size or file name is left out, but the
  errors found before stay counted.\<close>

definition result_item ::
  "'j check_env \<Rightarrow> 'j \<Rightarrow> int \<times> FirmwareComponent list \<Rightarrow> int \<times> FirmwareComponent list" where
  "result_item ce item st =
     (let (ret, components) = st;
          (r1, packageId) = get_string ce item ''descriptPackageId'' [];
          (r2, url) = get_string ce item ''url'' [];
          (r3, sz) = get_int64 ce item ''size'' 0;
          ret1 = ret + r1 + r2 + r3;
          fileName = GetLastSplitString url ''/''
      in if sz \<le> 0 then (ret1, components)
         else if \<not> IsValidFileName fileName then (ret1, components)
         else
           let (r4, verifyInfo) = get_string ce item ''verifyInfo'' [];
               (r5, number) = get_string ce item ''versionCode'' [];
               (r6, name) = get_string ce item ''versionName'' [];
               (r7, packageType) = get_int32 ce item ''packageType'' (package_code PT_DYNAMIC);
               (r8, otaType) = get_int32 ce item ''otaType'' (ota_code REGULAR_OTA);
               component = new_component\<lparr>fc_descriptPackageId := packageId, fc_url := url, fc_size := sz,
                 fc_fileName := fileName, fc_verifyInfo := verifyInfo, fc_versionNumber := number,
                 fc_targetBlVersionNumber := name, fc_versionPackageType := package_of_code packageType,
                 fc_otaType := ota_of_code otaType, fc_targetBlDisplayVersionNumber := name, fc_blVersionType := 1,
                 fc_componentId := packageId\<rparr>
           in (ret1 + r4 + r5 + r6 + r7 + r8, components @ [component]))"

definition ProcessCheckResults ::
  "'j check_env \<Rightarrow> 'j \<Rightarrow> FirmwareComponent list \<Rightarrow> int \<times> FirmwareComponent list" where
  "ProcessCheckResults ce checkResults components =
     fold (result_item ce) (array_items ce checkResults) (json_error_code ERR_OK, components)"

definition SaveDataToFile ::
  "'j check_env \<Rightarrow> string \<Rightarrow> string \<Rightarrow> file_system \<Rightarrow> bool \<times> file_system" where
  "SaveDataToFile ce filePath dat fs =
     (case ck_opens ce fs filePath of None \<Rightarrow> (False, fs) | Some file \<Rightarrow> (True, fs(file \<mapsto> Regular dat)))"

text \<open>One item of \<open>descriptInfo\<close>; \<open>None\<close> stands for a replacement that does not return.\<close>

definition descript_item ::
  "'j check_env \<Rightarrow> string \<Rightarrow> 'j \<Rightarrow> (int \<times> file_system) option \<Rightarrow> (int \<times> file_system) option" where
  "descript_item ce componentId item st =
     (case st of
        None \<Rightarrow> None
      | Some (ret, fs) \<Rightarrow>
          let (r1, descriptInfoType) = get_int32 ce item ''descriptionType'' (ck_uninitialised ce);
              (r2, content) = get_string ce item ''content'' []
          in (case ReplaceStringAll content ''quota'' [CHR 0x22] of
                None \<Rightarrow> None
              | Some descContent \<Rightarrow>
                  Some (ret + r1 + r2,
                    snd (SaveDataToFile ce (CHANGELOG_PATH @ ''/'' @ componentId @ ''.xml'')
                          (to_string descriptInfoType @ ''|'' @ descContent) fs))))"

definition ProcessDescriptInfo ::
  "'j check_env \<Rightarrow> 'j \<Rightarrow> FirmwareComponent list \<Rightarrow> file_system \<Rightarrow> (int \<times> file_system) option" where
  "ProcessDescriptInfo ce descriptInfo components fs =
     (let componentId = (if components = [] then [] else fc_descriptPackageId (last components))
      in fold (descript_item ce componentId) (array_items ce descriptInfo) (Some (json_error_code ERR_OK, fs)))"

text \<open>The sum of the sizes, \<open>None\<close> when it does not fit \<open>int64_t\<close>.\<close>

fun sum_sizes :: "int \<Rightarrow> FirmwareComponent list \<Rightarrow> int option" where
  "sum_sizes totalSize [] = Some totalSize"
| "sum_sizes totalSize (c # cs) =
     (if totalSize > INT64_MAX - fc_size c then None else sum_sizes (totalSize + fc_size c) cs)"

definition AnalyzeComponents ::
  "'j check_env \<Rightarrow> 'j \<Rightarrow> FirmwareComponent list \<Rightarrow> file_system
    \<Rightarrow> (int \<times> FirmwareComponent list \<times> file_system) option" where
  "AnalyzeComponents ce doc components fs =
     (case cj_GetObjectItemCaseSensitive (ck_json ce) doc ''checkResults'' of
        None \<Rightarrow> Some (json_error_code MISSING_PROP, components, fs)
      | Some checkResults \<Rightarrow>
          let (r1, components1) = ProcessCheckResults ce checkResults components;
              ret = json_error_code ERR_OK + r1
          in if sum_sizes 0 components1 = None then Some (json_error_code MISSING_PROP, components1, fs)
             else case cj_GetObjectItemCaseSensitive (ck_json ce) doc ''descriptInfo'' of
               None \<Rightarrow> Some (json_error_code MISSING_PROP, components1, fs)
             | Some descriptInfo \<Rightarrow>
                 map_option (\<lambda>(r2, fs1). (ret + r2, components1, fs1)) (ProcessDescriptInfo ce descriptInfo components1 fs))"

text \<open>\<open>DoAnalyze\<close> on a fresh object: the components and the response status its caller has afterwards.\<close>

definition DoAnalyze ::
  "'j check_env \<Rightarrow> string \<Rightarrow> FirmwareComponent list \<times> string \<Rightarrow> file_system
    \<Rightarrow> (FirmwareComponent list \<times> string \<times> file_system) option" where
  "DoAnalyze ce rawJson out fs =
     (let (components, responseStatus) = out in
      case ParseJson ce rawJson of
        None \<Rightarrow> Some (components, responseStatus, fs)
      | Some doc \<Rightarrow>
          let (_, status) = get_int32 ce doc ''searchStatus'' (check_status_code STATUS_SYSTEM_ERROR);
              responseStatus1 = to_string status
          in if \<not> IsLegalStatus status then Some (components, responseStatus1, fs)
             else if status = check_status_code STATUS_NEW_VERSION_AVAILABLE
             then let (r1, response) = AnalyzeBlVersionCheckResults ce doc new_bl_response in
                  map_option (\<lambda>(r2, found, fs1).
                      (if r1 + r2 = json_error_code ERR_OK then found else components, responseStatus1, fs1))
                    (AnalyzeComponents ce doc [] fs)
             else Some ([], responseStatus1, fs))"

section \<open>\<open>FirmwareICheck\<close>\<close>

definition PORT_NUMBER :: int where "PORT_NUMBER = 5022"
definition JSON_MAX_SIZE :: nat where "JSON_MAX_SIZE = 4096"
definition HTTP_SUCCESS :: int where "HTTP_SUCCESS = 200"

text \<open>The characters up to the terminating zero; a buffer without one is read beyond its end, which is \<open>None\<close>.\<close>

definition c_string :: "string \<Rightarrow> string option" where
  "c_string buffer = (if CHR 0x00 \<in> set buffer then Some (takeWhile (\<lambda>c. c \<noteq> CHR 0x00) buffer) else None)"

text \<open>\<open>ParseJsonFile\<close>: its result with the content and the status it leaves in the response.\<close>

definition ParseJsonFile :: "'j check_env \<Rightarrow> string \<Rightarrow> (int \<times> string \<times> int) option" where
  "ParseJsonFile ce buffer =
     (case c_string buffer of
        None \<Rightarrow> None
      | Some text \<Rightarrow> Some
          (case cj_Parse (ck_json ce) text of
             None \<Rightarrow> - 1
           | Some doc \<Rightarrow>
               (case cj_GetObjectItem (ck_json ce) doc ''searchStatus'' of
                  None \<Rightarrow> - 1
                | Some item \<Rightarrow>
                    if \<not> cj_IsNumber (ck_json ce) item then - 1 else cj_valueint (ck_json ce) item),
           buffer, HTTP_SUCCESS))"

definition request_text :: "string \<Rightarrow> string" where
  "request_text serverIp = ''GET /config.json HTTP/1.1'' @ [CHR 0x0D, CHR 0x0A] @ ''Host: '' @ serverIp @ '':''
     @ to_string PORT_NUMBER @ [CHR 0x0D, CHR 0x0A] @ ''Connection: close'' @ [CHR 0x0D, CHR 0x0A, CHR 0x0D, CHR 0x0A]"

definition ReadDataFromSSL :: "'j check_env \<Rightarrow> string \<times> int \<Rightarrow> (int \<times> string \<times> int) option" where
  "ReadDataFromSSL ce response =
     (if \<not> ck_sslCtx ce then Some (- 1, response)
      else if \<not> ck_sslNew ce then Some (- 1, response)
      else if ck_sslConnect ce = 1 then
        if ck_sslWrite ce (request_text (ck_serverIp ce)) > 0 then
          let (len, bytes) = ck_sslRead ce;
              buffer = take JSON_MAX_SIZE (bytes @ replicate JSON_MAX_SIZE (CHR 0x00))
          in if len > 0
             then map_option (\<lambda>(ret, response1). (if ret = 0 then 0 else - 1, response1)) (ParseJsonFile ce buffer)
             else Some (- 1, response)
        else Some (- 1, response)
      else Some (- 1, response))"

text \<open>\<open>DoAction\<close>: what the callback is called with, if it is called, and the files afterwards.\<close>

definition DoAction ::
  "'j check_env \<Rightarrow> file_system \<Rightarrow> ((CheckStatus \<times> int \<times> FirmwareComponent list) option \<times> file_system) option" where
  "DoAction ce fs =
     (let failed = Some (Some (CHECK_FAIL, - 1, []), fs) in
      if \<not> ck_hasCallback ce then Some (None, fs)
      else if \<not> 0 \<le> ck_socket ce then failed
      else if \<not> 0 < ck_inet_pton ce (ck_serverIp ce) then failed
      else if ck_connect ce \<noteq> 0 then failed
      else case ReadDataFromSSL ce ([], - 1) of
        None \<Rightarrow> None
      | Some (ret, content, status) \<Rightarrow>
          if ret \<noteq> 0 then failed
          else if status \<noteq> HTTP_SUCCESS \<or> content = [] then failed
          else if ParseJson ce content = None then Some (None, fs)
          else map_option (\<lambda>(components, _, fs1). (Some (CHECK_SUCCESS, - 1, components), fs1))
                 (DoAnalyze ce content ([], []) fs))"

section \<open>Facts\<close>

lemma CheckInteger_int64:
  assumes "CheckInteger ce T_INT64 item = Some v"
  shows "is_i64 v"
  using assms by (auto simp: CheckInteger_def double_to_integer_def is_i64_def i64_range split: if_splits cxx_double.splits)

lemma GetValueAndSetTo_code: "0 \<le> fst (GetValueAndSetTo A ce obj key v)"
  by (auto simp: GetValueAndSetTo_def split: option.splits)

lemma get_int64_range: "is_i64 v \<Longrightarrow> is_i64 (snd (get_int64 ce item key v))"
  by (auto simp: GetValueAndSetTo_def split: option.splits dest: CheckInteger_int64)

text \<open>What the analysis guarantees of every component it hands out.\<close>

definition component_offered :: "FirmwareComponent \<Rightarrow> bool" where
  "component_offered c =
     (fc_versionId c = [] \<and> component_valid c \<and> 0 < fc_size c \<and> IsValidFileName (fc_fileName c)
      \<and> fc_fileName c = GetLastSplitString (fc_url c) ''/'')"

lemma result_item_offered:
  assumes "list_all component_offered (snd st)"
  shows "list_all component_offered (snd (result_item ce item st))"
proof -
  have "is_i64 (snd (get_int64 ce item ''size'' 0))" by (rule get_int64_range) (simp add: is_i64_def)
  with assms show ?thesis
    by (auto simp: result_item_def Let_def split_beta component_offered_def component_valid_def new_component_def is_i32_def is_i64_def)
qed

lemma ProcessCheckResults_offered:
  "list_all component_offered components \<Longrightarrow> list_all component_offered (snd (ProcessCheckResults ce j components))"
  unfolding ProcessCheckResults_def
  by (rule fold_invariant [where Q = "\<lambda>_. True" and P = "\<lambda>st. list_all component_offered (snd st)"])
    (auto intro: result_item_offered)

lemma sum_sizes_Some:
  "sum_sizes n cs = Some s \<Longrightarrow> s = n + sum_list (map fc_size cs) \<and> (cs \<noteq> [] \<longrightarrow> s \<le> INT64_MAX)"
proof (induction cs arbitrary: n)
  case (Cons c cs)
  then have step: "n \<le> INT64_MAX - fc_size c" "sum_sizes (n + fc_size c) cs = Some s" by (simp_all split: if_splits)
  with Cons.IH [OF step(2)] show ?case by (cases "cs = []") auto
qed simp

lemma bl_items_code:
  "0 \<le> fst st \<Longrightarrow> 0 \<le> fst (fold (bl_item ce status) items st)"
proof (rule fold_invariant [where Q = "\<lambda>_. True" and P = "\<lambda>st. 0 \<le> fst st"])
  fix item and st :: "int \<times> BlCheckResponse"
  assume "0 \<le> fst st"
  then show "0 \<le> fst (bl_item ce status item st)"
    by (auto simp: bl_item_def Let_def split_beta intro!: add_nonneg_nonneg GetValueAndSetTo_code)
qed auto

lemma AnalyzeBl_code: "0 \<le> fst (AnalyzeBlVersionCheckResults ce doc response)"
  by (auto simp: AnalyzeBlVersionCheckResults_def split_beta bl_items_code split: option.split)

lemma descript_item_returns: "st \<noteq> None \<Longrightarrow> descript_item ce i item st \<noteq> None"
  by (auto simp: descript_item_def ReplaceStringAll_eq split_beta Let_def)

lemma ProcessDescriptInfo_returns: "ProcessDescriptInfo ce j components fs \<noteq> None"
  unfolding ProcessDescriptInfo_def Let_def
  by (rule fold_invariant [where Q = "\<lambda>_. True" and P = "\<lambda>st. st \<noteq> None"]) (simp_all add: descript_item_returns del: not_None_eq)

lemma AnalyzeComponents_returns: "AnalyzeComponents ce doc components fs \<noteq> None"
  by (simp add: AnalyzeComponents_def split_beta Let_def ProcessDescriptInfo_returns del: not_None_eq split: option.split)

lemma DoAnalyze_returns: "DoAnalyze ce raw out fs \<noteq> None"
  by (simp add: DoAnalyze_def split_beta Let_def AnalyzeComponents_returns del: not_None_eq split: option.split)

lemma AnalyzeComponents_offered:
  assumes "AnalyzeComponents ce doc [] fs = Some (r, found, fs')" "r = 0"
  shows "list_all component_offered found \<and> sum_list (map fc_size found) \<le> INT64_MAX"
proof -
  obtain items where items: "cj_GetObjectItemCaseSensitive (ck_json ce) doc ''checkResults'' = Some items"
    using assms by (auto simp: AnalyzeComponents_def split: option.splits)
  have found: "found = snd (ProcessCheckResults ce items [])" and "sum_sizes 0 found \<noteq> None"
    using assms items by (auto simp: AnalyzeComponents_def split_beta Let_def split: option.splits if_splits)
  then obtain s where "sum_sizes 0 found = Some s" by auto
  from sum_sizes_Some [OF this] have "sum_list (map fc_size found) \<le> INT64_MAX" by (cases "found = []") simp_all
  with ProcessCheckResults_offered [of "[]" ce items] found show ?thesis by simp
qed

lemma DoAnalyze_offered:
  assumes "DoAnalyze ce raw ([], st) fs = Some (cs, st', fs')"
  shows "list_all component_offered cs \<and> sum_list (map fc_size cs) \<le> INT64_MAX"
proof (cases "cs = []")
  case False
  with assms obtain doc r r2 where r: "AnalyzeComponents ce doc [] fs = Some (r2, cs, fs')"
    "fst (AnalyzeBlVersionCheckResults ce doc new_bl_response) + r2 = 0"
    by (auto simp: DoAnalyze_def Let_def split_beta split: option.splits if_splits)
  have "0 \<le> r2"
  proof -
    have "0 \<le> fst (ProcessCheckResults ce j [])" for j
      unfolding ProcessCheckResults_def
      by (rule fold_invariant [where Q = "\<lambda>_. True" and P = "\<lambda>st. 0 \<le> fst st"])
        (auto simp: result_item_def Let_def split_beta intro!: add_nonneg_nonneg GetValueAndSetTo_code)
    moreover have "0 \<le> n" if "ProcessDescriptInfo ce j components fs = Some (n, fs1)" for j components n fs1
    proof -
      have "case ProcessDescriptInfo ce j components fs of Some (n, _) \<Rightarrow> 0 \<le> n | None \<Rightarrow> True"
        unfolding ProcessDescriptInfo_def Let_def
        by (rule fold_invariant [where Q = "\<lambda>_. True" and P = "\<lambda>st. case st of Some (n, _) \<Rightarrow> 0 \<le> n | None \<Rightarrow> True"])
          (auto simp: descript_item_def Let_def split_beta intro!: add_nonneg_nonneg GetValueAndSetTo_code split: option.splits)
      with that show ?thesis by simp
    qed
    ultimately show ?thesis using r(1)
      by (auto simp: AnalyzeComponents_def Let_def split_beta split: option.splits if_splits intro!: add_nonneg_nonneg)
  qed
  with r(2) AnalyzeBl_code [of ce doc new_bl_response] have "r2 = 0" by linarith
  with AnalyzeComponents_offered [OF r(1)] show ?thesis by simp
qed simp

lemma DoAction_offered:
  assumes "DoAction ce fs = Some (Some (status, d, cs), fs')"
  shows "list_all component_offered cs \<and> sum_list (map fc_size cs) \<le> INT64_MAX"
  using assms
  by (auto simp: DoAction_def Let_def split: if_splits option.splits dest!: DoAnalyze_offered)

lemma offered_file_name:
  assumes "component_offered c"
  shows "fc_fileName c \<noteq> []" "length (fc_fileName c) \<le> 255" "find_sub ''..'' (fc_fileName c) = None" "CHR ''/'' \<notin> set (fc_fileName c)"
  using assms GetLastSplitString_no_separator [of "CHR ''/''" "''/''" "fc_url c"]
  by (auto simp: component_offered_def IsValidFileName_def MAX_FILE_NAME_LENGTH_def split: if_splits)

lemma GetParentDir_child:
  assumes "CHR ''/'' \<notin> set f" "d \<noteq> []" "last d \<noteq> CHR ''/''"
  shows "GetParentDir (d @ ''/'' @ f) = d"
proof -
  have "find_pos is_slash (rev f @ CHR ''/'' # rev d) = Some (length (rev f))"
    by (rule find_pos_append) (use assms(1) in \<open>auto simp: is_slash_def\<close>)
  then have "find_last_pos is_slash (d @ ''/'' @ f) = Some (length d)" by (simp add: find_last_pos_def)
  moreover have "dropWhile is_slash (rev d) = rev d"
    using assms(2,3) by (cases d rule: rev_cases) (simp_all add: is_slash_def)
  ultimately show ?thesis using assms(2) by (simp add: GetParentDir_def)
qed

lemma offered_in_package_dir:
  assumes "component_offered c"
  shows "GetParentDir (PACKAGE_PATH @ ''/'' @ fc_fileName c) = PACKAGE_PATH"
  by (rule GetParentDir_child) (use offered_file_name(4) [OF assms] in \<open>simp_all add: PACKAGE_PATH_def\<close>)

section \<open>A text of the server\<close>

text \<open>The connection works and the server sends this text.\<close>

definition server_sends :: "'j check_env \<Rightarrow> string \<Rightarrow> bool" where
  "server_sends ce text =
     (ck_hasCallback ce \<and> 0 \<le> ck_socket ce \<and> 0 < ck_inet_pton ce (ck_serverIp ce) \<and> ck_connect ce = 0 \<and> ck_sslCtx ce
      \<and> ck_sslNew ce \<and> ck_sslConnect ce = 1 \<and> 0 < ck_sslWrite ce (request_text (ck_serverIp ce))
      \<and> ck_sslRead ce = (int (length text), text) \<and> 0 < length text \<and> length text < JSON_MAX_SIZE \<and> CHR 0x00 \<notin> set text)"

text \<open>The status that \<open>ParseJsonFile\<close> finds in a document.\<close>

definition searched_status :: "'j check_env \<Rightarrow> 'j \<Rightarrow> int" where
  "searched_status ce doc =
     (case cj_GetObjectItem (ck_json ce) doc ''searchStatus'' of
        None \<Rightarrow> - 1
      | Some item \<Rightarrow> if \<not> cj_IsNumber (ck_json ce) item then - 1 else cj_valueint (ck_json ce) item)"

lemma sent_text: "server_sends ce text \<Longrightarrow> takeWhile (\<lambda>c. c \<noteq> CHR 0x00) text = text"
  by (auto simp: server_sends_def takeWhile_eq_all_conv)

text \<open>A short answer is read within the buffer, and what is accepted as an answer is a JSON document.\<close>

lemma ReadDataFromSSL_reads:
  assumes "length (snd (ck_sslRead ce)) < JSON_MAX_SIZE"
  shows "\<exists>ret content status. ReadDataFromSSL ce response = Some (ret, content, status) \<and> (ret = 0 \<longrightarrow> ParseJson ce content \<noteq> None)"
proof -
  obtain len bytes where read: "ck_sslRead ce = (len, bytes)" by fastforce
  define buffer where "buffer = take JSON_MAX_SIZE (bytes @ replicate JSON_MAX_SIZE (CHR 0x00))"
  have "c_string buffer = Some (takeWhile (\<lambda>c. c \<noteq> CHR 0x00) buffer)"
    using assms by (auto simp: c_string_def buffer_def read set_replicate_conv_if)
  then have parsed: "ParseJsonFile ce buffer = Some (case ParseJson ce buffer of None \<Rightarrow> - 1 | Some doc \<Rightarrow> searched_status ce doc,
      buffer, HTTP_SUCCESS)"
    unfolding ParseJsonFile_def searched_status_def ParseJson_def by simp
  show ?thesis
    unfolding ReadDataFromSSL_def read Let_def case_prod_conv buffer_def [symmetric] parsed option.map
    by (cases response) (simp split: option.split)
qed

lemma DoAction_sends:
  assumes "server_sends ce text"
  shows "DoAction ce fs = (case cj_Parse (ck_json ce) text of
      None \<Rightarrow> Some (Some (CHECK_FAIL, - 1, []), fs)
    | Some doc \<Rightarrow> if searched_status ce doc \<noteq> 0 then Some (Some (CHECK_FAIL, - 1, []), fs)
        else map_option (\<lambda>(cs, _, fs1). (Some (CHECK_SUCCESS, - 1, cs), fs1)) (DoAnalyze ce text ([], []) fs))"
proof -
  define buffer where "buffer = take JSON_MAX_SIZE (text @ replicate JSON_MAX_SIZE (CHR 0x00))"
  have len: "length text < JSON_MAX_SIZE" and zero: "CHR 0x00 \<notin> set text" using assms by (simp_all add: server_sends_def)
  have buffer: "buffer = text @ CHR 0x00 # replicate (JSON_MAX_SIZE - length text - 1) (CHR 0x00)"
    using len by (simp add: buffer_def) (metis Suc_diff_Suc replicate_Suc)
  have "takeWhile (\<lambda>c. c \<noteq> CHR 0x00) text = text" using zero by (auto simp: takeWhile_eq_all_conv)
  moreover have "takeWhile (\<lambda>c. c \<noteq> CHR 0x00) buffer = text"
    unfolding buffer by (subst takeWhile_append2) (use zero in auto)
  ultimately have cut: "takeWhile (\<lambda>c. c \<noteq> CHR 0x00) buffer = text" "takeWhile (\<lambda>c. c \<noteq> CHR 0x00) text = text" by blast+
  have "ParseJson ce buffer = ParseJson ce text" "ParseJson ce text = cj_Parse (ck_json ce) text" unfolding ParseJson_def cut by (rule refl)+
  note parse = this
  then have analyze: "DoAnalyze ce buffer out fs = DoAnalyze ce text out fs" for out by (simp add: DoAnalyze_def)
  have "c_string buffer = Some text" unfolding c_string_def cut by (simp add: buffer)
  then have "ParseJsonFile ce buffer = Some (case cj_Parse (ck_json ce) text of None \<Rightarrow> - 1 | Some doc \<Rightarrow> searched_status ce doc,
      buffer, HTTP_SUCCESS)"
    unfolding ParseJsonFile_def searched_status_def by simp
  then have "ReadDataFromSSL ce ([], - 1) =
      Some (if (case cj_Parse (ck_json ce) text of None \<Rightarrow> - 1 | Some doc \<Rightarrow> searched_status ce doc) = 0 then 0 else - 1, buffer, HTTP_SUCCESS)"
    using assms unfolding ReadDataFromSSL_def server_sends_def by (simp add: buffer_def [symmetric] del: take_append)
  moreover have "buffer \<noteq> []" by (simp add: buffer)
  ultimately show ?thesis using assms
    unfolding DoAction_def by (simp add: server_sends_def Let_def parse analyze split: option.split)
qed

section \<open>Components without a version identifier\<close>

lemma empty_versions:
  assumes "list_all (\<lambda>c. fc_versionId c = []) cs" "cs \<noteq> []"
  shows "BuildTaskId sha cs = sha [] \<and> GetTaskId sha (BuildDownloadInfos opts cs) = sha []
    \<and> RemoveDuplicateVersionId (BuildDownloadInfos opts cs) = [hd (BuildDownloadInfos opts cs)]"
proof -
  have "fold (\<lambda>c taskId. (if taskId \<noteq> [] then taskId @ ''_'' else taskId) @ fc_versionId c) cs [] = []"
    using assms(1) by (induction cs) simp_all
  moreover have infos: "list_all (\<lambda>d. di_versionId d = []) (BuildDownloadInfos opts cs)"
    using assms(1) by (induction cs) (simp_all add: BuildDownloadInfos_def)
  then have "GetTaskId sha (BuildDownloadInfos opts cs) = sha []"
    unfolding GetTaskId_def by (auto simp: concat_eq_Nil_conv list_all_iff intro: arg_cong [of _ _ sha])
  moreover have "remove_duplicates ds {[]} = []" if "list_all (\<lambda>d. di_versionId d = []) ds" for ds
    using that by (induction ds) simp_all
  ultimately show ?thesis using infos assms(2)
    by (cases "BuildDownloadInfos opts cs") (simp_all add: BuildTaskId_def RemoveDuplicateVersionId_def BuildDownloadInfos_def)
qed

end
