(* ===== verification/Check_Claims.thy ===== *)
theory Check_Claims
  imports Firmware_Check Firmware_Claims
begin

text \<open>
  The properties of the search for a new version, on the answers of a server that may send anything and whatever the JSON
  library makes of them. The witnesses use a small JSON library of their own.
\<close>

section \<open>A server\<close>

datatype ex_json = JNum int | JStr string | JArr "ex_json list" | JObj "(string \<times> ex_json) list"

definition ex_cjson :: "ex_json \<Rightarrow> ex_json cjson" where
  "ex_cjson doc =
     \<lparr>cj_Parse = (\<lambda>text. if text = ''answer'' then Some doc else None),
      cj_GetObjectItemCaseSensitive = (\<lambda>j key. case j of JObj kvs \<Rightarrow> map_of kvs key | _ \<Rightarrow> None),
      cj_GetObjectItem = (\<lambda>j key. case j of JObj kvs \<Rightarrow> map_of kvs key | _ \<Rightarrow> None),
      cj_GetArraySize = (\<lambda>j. case j of JArr js \<Rightarrow> int (length js) | _ \<Rightarrow> 0),
      cj_GetArrayItem = (\<lambda>j i. case j of JArr js \<Rightarrow> if i < length js then Some (js ! i) else None | _ \<Rightarrow> None),
      cj_IsNumber = (\<lambda>j. case j of JNum n \<Rightarrow> True | _ \<Rightarrow> False),
      cj_valuedouble = (\<lambda>j. case j of JNum n \<Rightarrow> Finite (of_int n) | _ \<Rightarrow> NaN),
      cj_valueint = (\<lambda>j. case j of JNum n \<Rightarrow> n | _ \<Rightarrow> 0),
      cj_IsString = (\<lambda>j. case j of JStr s \<Rightarrow> True | _ \<Rightarrow> False),
      cj_valuestring = (\<lambda>j. case j of JStr s \<Rightarrow> s | _ \<Rightarrow> []),
      cj_IsBool = (\<lambda>j. False), cj_IsTrue = (\<lambda>j. False)\<rparr>"

definition ex_server :: "ex_json \<Rightarrow> ex_json check_env" where
  "ex_server doc =
     \<lparr>ck_json = ex_cjson doc, ck_cast = (\<lambda>q. 0), ck_uninitialised = 0, ck_opens = (\<lambda>fs path. Some path),
      ck_hasCallback = True, ck_serverIp = ''127.0.0.1'', ck_socket = 3, ck_inet_pton = (\<lambda>s. 1), ck_connect = 0,
      ck_sslCtx = True, ck_sslNew = True, ck_sslConnect = 1, ck_sslWrite = (\<lambda>r. int (length r)), ck_sslRead = (6, ''answer'')\<rparr>"

lemma ex_server_sends: "server_sends (ex_server doc) ''answer''"
  by (simp add: server_sends_def ex_server_def request_text_def JSON_MAX_SIZE_def)

definition ex_item :: ex_json where
  "ex_item = JObj [(''descriptPackageId'', JStr ''d1''), (''url'', JStr ''http://h/p.zip''), (''size'', JNum 3),
     (''verifyInfo'', JStr ''00''), (''versionCode'', JStr ''2''), (''versionName'', JStr ''2.0''), (''packageType'', JNum 1),
     (''otaType'', JNum 0)]"

definition ex_answer :: ex_json where
  "ex_answer = JObj [(''searchStatus'', JNum 0), (''checkResults'', JArr [ex_item, ex_item]),
     (''descriptInfo'', JArr [JObj [(''descriptionType'', JNum 1), (''content'', JStr ''a quota b'')]])]"

section \<open>The search answers\<close>

text \<open>C15: A search answers its caller exactly once, with a success or a failure, as long as the answer of the server is shorter
  than the buffer; no answer makes the analysis run forever.\<close>

theorem search_answers:
  assumes "ck_hasCallback ce" "length (snd (ck_sslRead ce)) < JSON_MAX_SIZE"
  shows "\<exists>status cs fs'. DoAction ce fs = Some (Some (status, - 1, cs), fs') \<and> (status = CHECK_SUCCESS \<or> status = CHECK_FAIL)"
proof -
  obtain ret content status where got: "ReadDataFromSSL ce ([], - 1) = Some (ret, content, status)"
    "ret = 0 \<longrightarrow> ParseJson ce content \<noteq> None"
    using ReadDataFromSSL_reads [OF assms(2)] by blast
  obtain cs s fs' where "DoAnalyze ce content ([], []) fs = Some (cs, s, fs')"
    using DoAnalyze_returns [of ce content "([], [])" fs] by auto
  with got assms(1) show ?thesis by (auto simp: DoAction_def Let_def)
qed

theorem search_answers_witness:
  "\<exists>status cs fs'. DoAction (ex_server ex_answer) Map.empty = Some (Some (status, - 1, cs), fs')
     \<and> (status = CHECK_SUCCESS \<or> status = CHECK_FAIL)"
  by (rule search_answers) (simp_all add: ex_server_def JSON_MAX_SIZE_def)

text \<open>C14: Whatever the server sends, every package a search offers has a positive size, the sum of the sizes fits 64 bits, and the
  file it will be stored in lies directly in the package directory: its name is not empty, has at most 255 characters and
  neither a slash nor two dots in a row.\<close>

theorem offered_packages_are_safe:
  assumes "DoAction ce fs = Some (Some (status, d, cs), fs')"
  shows "list_all (\<lambda>c. 0 < fc_size c \<and> fc_fileName c \<noteq> [] \<and> length (fc_fileName c) \<le> 255 \<and> CHR ''/'' \<notin> set (fc_fileName c)
      \<and> find_sub ''..'' (fc_fileName c) = None \<and> GetParentDir (fc_spath c) = PACKAGE_PATH) (BuildComponentSPath cs)
    \<and> sum_list (map fc_size cs) \<le> INT64_MAX"
proof -
  have "list_all component_offered cs" "sum_list (map fc_size cs) \<le> INT64_MAX" using DoAction_offered [OF assms] by simp_all
  moreover have "0 < fc_size c" if "component_offered c" for c using that by (simp add: component_offered_def)
  ultimately show ?thesis
    by (simp add: list_all_iff BuildComponentSPath_def offered_file_name offered_in_package_dir [simplified])
qed

lemma ex_answer_found:
  "\<exists>fs'. DoAction (ex_server ex_answer) Map.empty = Some (Some (CHECK_SUCCESS, - 1,
     snd (ProcessCheckResults (ex_server ex_answer) (JArr [ex_item, ex_item]) [])), fs')"
  unfolding DoAction_sends [OF ex_server_sends]
  by (simp add: ex_server_def ex_cjson_def searched_status_def ex_answer_def ex_item_def DoAnalyze_def ParseJson_def
      GetValueAndSetTo_def CheckInteger_def double_to_integer_def IsLegalStatus_def AnalyzeBlVersionCheckResults_def
      array_items_def bl_item_def assign_string_def AnalyzeComponents_def ProcessCheckResults_def result_item_def
      Let_def map_filter_simps upt_rec IsValidFileName_def MAX_FILE_NAME_LENGTH_def GetLastSplitString_def
      find_last_pos_def ProcessDescriptInfo_def descript_item_def ReplaceStringAll_eq)

theorem offered_packages_are_safe_witness:
  "\<exists>cs fs'. DoAction (ex_server ex_answer) Map.empty = Some (Some (CHECK_SUCCESS, - 1, cs), fs')
     \<and> sum_list (map fc_size cs) \<le> INT64_MAX"
  using ex_answer_found offered_packages_are_safe by blast

section \<open>What an answer means\<close>

text \<open>An answer that says that there is no new version is taken for a failed search: the stored upgrade is kept.\<close>

theorem no_version_is_a_failure:
  assumes "server_sends ce text" "cj_Parse (ck_json ce) text = Some doc" "searched_status ce doc = check_status_code STATUS_NEW_VERSION_NOT_AVAILABLE"
  shows "\<exists>status cs. DoAction ce fs = Some (Some (status, - 1, cs), fs) \<and> status = CHECK_FAIL
    \<and> upgrade_of (snd (check_SetCheckResult env status (- 1) cs c w)) = upgrade_of w"
  using assms by (simp add: DoAction_sends check_SetCheckResult_def HandleCheckResult_def IsCheckFailed_def)

theorem no_version_is_a_failure_witness:
  "\<exists>status cs. DoAction (ex_server (JObj [(''searchStatus'', JNum 1)])) Map.empty = Some (Some (status, - 1, cs), Map.empty) \<and> status = CHECK_FAIL"
proof -
  let ?doc = "JObj [(''searchStatus'', JNum 1)]"
  have "cj_Parse (ck_json (ex_server ?doc)) ''answer'' = Some ?doc" "searched_status (ex_server ?doc) ?doc = check_status_code STATUS_NEW_VERSION_NOT_AVAILABLE"
    by (simp_all add: ex_server_def ex_cjson_def searched_status_def)
  from no_version_is_a_failure [OF ex_server_sends this] show ?thesis by blast
qed

text \<open>An answer that offers a new version but misses a required field is taken for a successful search without a new
  version: unless an upgrade is under way, the stored upgrade is forgotten.\<close>

theorem malformed_answer_forgets_upgrade:
  assumes "server_sends ce text" "cj_Parse (ck_json ce) text = Some doc" "searched_status ce doc = 0"
    "AnalyzeComponents ce doc [] fs = Some (r, found, fs')" "0 < r" "fw_inv w" "\<not> HasUndoneTask w"
  shows "\<exists>fs1. DoAction ce fs = Some (Some (CHECK_SUCCESS, - 1, []), fs1)
    \<and> upgrade_of (snd (check_SetCheckResult env CHECK_SUCCESS (- 1) [] c w)) = up_clear"
proof -
  have "ParseJson ce text = Some doc"
    unfolding ParseJson_def sent_text [OF assms(1)] by (rule assms(2))
  moreover obtain r1 response where bl: "AnalyzeBlVersionCheckResults ce doc new_bl_response = (r1, response)" by fastforce
  then have "r1 + r \<noteq> 0" using assms(5) AnalyzeBl_code [of ce doc new_bl_response] by simp
  ultimately have "\<exists>s fs1. DoAnalyze ce text ([], []) fs = Some ([], s, fs1)"
    unfolding DoAnalyze_def by (simp add: Let_def bl assms(4) split_beta cong: if_cong)
  then obtain s fs1 where "DoAnalyze ce text ([], []) fs = Some ([], s, fs1)" by blast
  then have "DoAction ce fs = Some (Some (CHECK_SUCCESS, - 1, []), fs1)"
    using assms(2,3) by (simp add: DoAction_sends [OF assms(1)])
  moreover have "upgrade_of (snd (check_SetCheckResult env CHECK_SUCCESS (- 1) [] c w)) = up_clear"
    using assms(6,7) by (simp add: check_SetCheckResult_def HandleCheckResult_def IsCheckFailed_def HasNewVersion_def HandleNoNewVersion_clears)
  ultimately show ?thesis by blast
qed

theorem malformed_answer_forgets_upgrade_witness:
  "upgrade_of (snd (check_SetCheckResult ex_device CHECK_SUCCESS (- 1) [] new_check_proc (ex_stored US_DOWNLOAD_SUCCESS))) = up_clear"
proof -
  let ?doc = "JObj [(''searchStatus'', JNum 0), (''checkResults'', JArr [])]"
  let ?ce = "ex_server ?doc"
  have "cj_Parse (ck_json ?ce) ''answer'' = Some ?doc" "searched_status ?ce ?doc = 0"
    "AnalyzeComponents ?ce ?doc [] Map.empty = Some (2, [], Map.empty)"
    by (simp_all add: ex_server_def ex_cjson_def searched_status_def AnalyzeComponents_def ProcessCheckResults_def array_items_def
        map_filter_simps)
  moreover have "\<not> HasUndoneTask (ex_stored US_DOWNLOAD_SUCCESS)" by code_simp
  moreover note ex_stored_inv [of US_DOWNLOAD_SUCCESS]
  ultimately show ?thesis using malformed_answer_forgets_upgrade [OF ex_server_sends] by force
qed

section \<open>The identity of a version\<close>

text \<open>C26: The analysis gives no package a version identifier. All upgrades therefore have the same task identifier, and of an
  answer with several packages only the first is downloaded.\<close>

theorem versions_are_not_told_apart:
  assumes "DoAction ce fs = Some (Some (status, d, cs), fs')" "cs \<noteq> []"
  shows "BuildTaskId sha cs = sha [] \<and> GetTaskId sha (BuildDownloadInfos opts cs) = sha []
    \<and> RemoveDuplicateVersionId (BuildDownloadInfos opts cs) = [hd (BuildDownloadInfos opts cs)]"
proof -
  have ids: "list_all (\<lambda>c. fc_versionId c = []) cs" using DoAction_offered [OF assms(1)] by (auto simp: list_all_iff component_offered_def)
  note empty_versions [OF ids assms(2)]
  then show ?thesis by blast
qed

theorem versions_are_not_told_apart_witness:
  "\<exists>cs fs'. DoAction (ex_server ex_answer) Map.empty = Some (Some (CHECK_SUCCESS, - 1, cs), fs') \<and> length cs = 2
     \<and> length (RemoveDuplicateVersionId (BuildDownloadInfos new_download_options cs)) = 1"
proof -
  let ?cs = "snd (ProcessCheckResults (ex_server ex_answer) (JArr [ex_item, ex_item]) [])"
  have two: "length ?cs = 2"
    by (simp add: ex_server_def ex_cjson_def ex_item_def GetValueAndSetTo_def CheckInteger_def double_to_integer_def
      array_items_def assign_string_def ProcessCheckResults_def result_item_def
      Let_def map_filter_simps upt_rec IsValidFileName_def MAX_FILE_NAME_LENGTH_def GetLastSplitString_def find_last_pos_def)
  then have "?cs \<noteq> []" by auto
  obtain fs' where found: "DoAction (ex_server ex_answer) Map.empty = Some (Some (CHECK_SUCCESS, - 1, ?cs), fs')" using ex_answer_found by blast
  from versions_are_not_told_apart [OF this \<open>?cs \<noteq> []\<close>] have "length (RemoveDuplicateVersionId (BuildDownloadInfos new_download_options ?cs)) = 1" by simp
  with found two show ?thesis by blast
qed

end
