(* ===== verification/Service_Facts.thy ===== *)
theory Service_Facts
  imports Firmware_Check
begin

text \<open>
  Facts about the requests of an application (\<open>Firmware_Service\<close>): what a started download leaves of the tables, the two
  switches of the upgrade policy, and the change log that a search writes and a later request reads.
\<close>

section \<open>Starting a download\<close>

lemma manager_DoDownload_tables:
  "fw_tasks (snd (manager_DoDownload env opts err w)) = fw_tasks w"
  "fw_components (snd (manager_DoDownload env opts err w)) = fw_components w"
  by (simp_all add: manager_DoDownload_def start_flow_def flow_Start_def flow_Execute_def download_GetNextStep_def
      new_flow_def executor_Execute_def split_beta Let_def split: option.split)

lemma manager_DoDownload_starts: "fst (manager_DoDownload env opts err w) \<noteq> []"
  by (simp add: manager_DoDownload_def start_flow_def split_beta)

section \<open>Switches\<close>

lemma switches_saved [simp]:
  "GetNightUpgradeSwitch (SaveNightUpgradeSwitch b p) = (if pr_up p then b else GetNightUpgradeSwitch p)"
  "GetAutoDownloadSwitch (SaveAutoDownloadSwitch b p) = (if pr_up p then b else GetAutoDownloadSwitch p)"
  "GetNightUpgradeSwitch (SaveAutoDownloadSwitch b p) = GetNightUpgradeSwitch p"
  "GetAutoDownloadSwitch (SaveNightUpgradeSwitch b p) = GetAutoDownloadSwitch p"
  "pr_up (SaveNightUpgradeSwitch b p) = pr_up p" "pr_up (SaveAutoDownloadSwitch b p) = pr_up p"
  by (simp_all add: GetNightUpgradeSwitch_def SaveNightUpgradeSwitch_def GetAutoDownloadSwitch_def SaveAutoDownloadSwitch_def
      ObtainBool_def prefs_Save_def map_of_cm_put)

lemma switch_changed_prefs [simp]:
  "fw_prefs (DoAutoUpgradeSwitchChanged env on w) = SaveNightUpgradeSwitch on (fw_prefs w)"
  "fw_prefs (DoAutoDownloadSwitchChanged on w) = SaveAutoDownloadSwitch on (fw_prefs w)"
  by (simp_all add: DoAutoUpgradeSwitchChanged_def DoAutoDownloadSwitchChanged_def CancelNightUpgradeAlarm_def
      Let_def split_beta)

section \<open>The change log\<close>

lemma to_string_no_bar: "CHR ''|'' \<notin> set (to_string i)"
  using nat_digits_digit [of "CHR ''|''"] by (auto simp: to_string_def cxx_isdigit_def split: if_splits)

lemma replace_all_empty: "new \<noteq> [] \<Longrightarrow> replace_all sub new s = [] \<longleftrightarrow> s = []"
  by (subst replace_all.simps) (cases s; simp split: option.split)

lemma find_sub_self: "find_sub p (p @ s) = Some 0"
  by (cases "p @ s") (auto simp: append_eq_Cons_conv)

text \<open>Reading a change log of the form that \<open>ProcessDescriptInfo\<close> writes.\<close>

lemma read_description_of:
  assumes "IsValidComponentId i" "path = CHANGELOG_PATH @ ''/'' @ i @ ''.xml''" "realpath path = Some path"
    "fs path = Some (Regular (to_string ty @ ''|'' @ content))" "content \<noteq> []" "is_i32 ty"
  shows "read_description realpath fs failure language i err =
    Inr \<lparr>cd_componentId = i, cd_descriptionType = ty, cd_content = GetChangelogContent content language\<rparr>"
proof -
  have bar: "find_pos (\<lambda>c. c = CHR ''|'') (to_string ty @ CHR ''|'' # content) = Some (length (to_string ty))"
    by (rule find_pos_append) (use to_string_no_bar in auto)
  have number: "DecStringToNumber (- (2 ^ 31)) (2 ^ 31 - 1) (to_string ty) 0 = (SCR_SUCCESS, ty)"
    using assms(6) by (intro DecStringToNumber_to_string) (simp_all add: is_i32_def)
  have "CheckFilePathValid realpath fs path err = (True, err)"
    using assms(3,4) find_sub_self [of CHANGELOG_PATH "''/'' @ i @ ''.xml''"]
    by (simp add: CheckFilePathValid_def IsFileExist_def IsCoverBasePath_def assms(2))
  moreover have "ReadDataFromFile realpath fs path = to_string ty @ CHR ''|'' # content"
    using assms(3,4) by (simp add: ReadDataFromFile_def)
  ultimately show ?thesis
    unfolding read_description_def Let_def assms(2) [symmetric] using assms(1,5) bar number by simp
qed

text \<open>A mark that begins with a character it contains only once is found where it begins first, whatever stands before.\<close>

lemma find_sub_skip: "c \<notin> set p \<Longrightarrow> find_sub (c # m) (p @ s) = map_option (\<lambda>i. i + length p) (find_sub (c # m) s)"
  by (induction p) (auto simp: option.map_comp comp_def option.map_ident)

lemma take_before_mark:
  assumes "c \<notin> set m" "take (length m) (p @ c # s) = m"
  shows "take (length m) p = m"
proof (rule ccontr)
  assume *: "take (length m) p \<noteq> m"
  then have "length p < length m" using assms(2) by (metis leI take_append take_eq_Nil append.right_neutral diff_is_0_eq')
  with assms(2) have "m ! length p = c" by (metis nth_append_length nth_take)
  with assms(1) \<open>length p < length m\<close> show False by (metis nth_mem)
qed

lemma find_sub_before_mark:
  assumes "c \<notin> set m" "find_sub (c # m) p = None" "s = [] \<or> hd s = c"
  shows "find_sub (c # m) (p @ s) = map_option (\<lambda>i. i + length p) (find_sub (c # m) s)"
  using assms(2)
proof (induction p)
  case Nil
  then show ?case by (simp add: option.map_ident)
next
  case (Cons a p)
  then have rec: "find_sub (c # m) (p @ s) = map_option (\<lambda>i. i + length p) (find_sub (c # m) s)"
    and no: "\<not> (a = c \<and> take (length m) p = m)"
    by (auto split: if_splits)
  have "\<not> (a = c \<and> take (length m) (p @ s) = m)"
    using no assms(1,3) take_before_mark [of c m p "tl s"] by (cases s) auto
  with rec show ?case by (auto simp: option.map_comp comp_def simp del: take_append)
qed

text \<open>The text of a change log in both languages. No mark occurs in the four pieces that it holds apart.\<close>

definition change_log :: "string \<Rightarrow> string \<Rightarrow> string \<Rightarrow> string \<Rightarrow> string \<Rightarrow> string" where
  "change_log before chinese between english after =
     before @ LANGUAGE_CHINESE @ chinese @ LANGUAGE_END @ between @ LANGUAGE_ENGLISH @ english @ LANGUAGE_END @ after"

definition unmarked :: "string \<Rightarrow> bool" where
  "unmarked t = list_all (\<lambda>m. find_sub m t = None) [LANGUAGE_CHINESE, LANGUAGE_ENGLISH, LANGUAGE_END]"

lemmas marks = LANGUAGE_CHINESE_def LANGUAGE_ENGLISH_def LANGUAGE_END_def

lemma mark_shape:
  assumes "m \<in> {LANGUAGE_CHINESE, LANGUAGE_ENGLISH, LANGUAGE_END}"
  obtains m' where "m = CHR ''<'' # m'" "CHR ''<'' \<notin> set m'"
  using assms by (auto simp: marks)

lemma find_mark:
  assumes "m \<in> {LANGUAGE_CHINESE, LANGUAGE_ENGLISH, LANGUAGE_END}" "unmarked p" "s = [] \<or> hd s = CHR ''<''"
  shows "find_sub m (p @ s) = map_option (\<lambda>i. i + length p) (find_sub m s)"
proof -
  obtain m' where m: "m = CHR ''<'' # m'" "CHR ''<'' \<notin> set m'" using assms(1) by (rule mark_shape)
  have "find_sub m p = None" using assms(1,2) by (auto simp: unmarked_def)
  then show ?thesis unfolding m(1) by (rule find_sub_before_mark [OF m(2) _ assms(3)])
qed

lemma find_other_mark:
  assumes "k \<in> {LANGUAGE_CHINESE, LANGUAGE_ENGLISH, LANGUAGE_END}" "m \<in> {LANGUAGE_CHINESE, LANGUAGE_ENGLISH, LANGUAGE_END}"
  shows "find_sub m (k @ s) = (if m = k then Some 0 else map_option (\<lambda>i. i + length k) (find_sub m s))"
proof -
  obtain m' where m: "m = CHR ''<'' # m'" using assms(2) by (rule mark_shape)
  obtain k' where k: "k = CHR ''<'' # k'" "CHR ''<'' \<notin> set k'" using assms(1) by (rule mark_shape)
  have "take (length m) (k @ s) \<noteq> m" if "m \<noteq> k" using assms that by (auto simp: marks)
  then show ?thesis
    using find_sub_self [of m s] by (auto simp: m k option.map_comp comp_def find_sub_skip [OF k(2)] simp del: take_append)
qed

text \<open>A reader gets the text less the part in the other language: the English part goes for \<open>zh-cn\<close>, the Chinese part else.\<close>

lemma GetChangelogContent_change_log:
  assumes "unmarked before" "unmarked chinese" "unmarked between" "unmarked english"
  shows "GetChangelogContent (change_log before chinese between english after) language =
    (if language = ''zh-cn'' then before @ LANGUAGE_CHINESE @ chinese @ LANGUAGE_END @ between @ after
     else before @ between @ LANGUAGE_ENGLISH @ english @ LANGUAGE_END @ after)"
proof -
  have hd: "hd (m @ s) = CHR ''<''" if "m \<in> {LANGUAGE_CHINESE, LANGUAGE_ENGLISH, LANGUAGE_END}" for m s
    by (rule mark_shape [OF that]) simp
  have other: "LANGUAGE_ENGLISH \<noteq> LANGUAGE_CHINESE" "LANGUAGE_END \<noteq> LANGUAGE_CHINESE" "LANGUAGE_END \<noteq> LANGUAGE_ENGLISH"
    "LANGUAGE_ENGLISH \<noteq> LANGUAGE_END"
    by (simp_all add: marks)
  let ?chinese = "LANGUAGE_CHINESE @ chinese @ LANGUAGE_END @ between @ LANGUAGE_ENGLISH @ english @ LANGUAGE_END @ after"
  let ?english = "LANGUAGE_ENGLISH @ english @ LANGUAGE_END @ after"
  let ?head = "before @ LANGUAGE_CHINESE @ chinese @ LANGUAGE_END @ between"
  note find = find_mark [OF _ assms(1)] find_mark [OF _ assms(2)] find_mark [OF _ assms(3)] find_mark [OF _ assms(4)]
    find_other_mark hd other
  have "find_sub LANGUAGE_CHINESE (before @ ?chinese) = Some (length before)"
    "find_sub_from LANGUAGE_END (before @ ?chinese) (length before) = Some (length (before @ LANGUAGE_CHINESE @ chinese))"
    "find_sub LANGUAGE_ENGLISH (?head @ ?english) = Some (length ?head)"
    "find_sub_from LANGUAGE_END (?head @ ?english) (length ?head) = Some (length (?head @ LANGUAGE_ENGLISH @ english))"
    unfolding find_sub_from_append by (simp_all add: find)
  moreover have "LANGUAGE_CHINESE \<noteq> []" by (simp add: marks)
  ultimately show ?thesis by (simp add: GetChangelogContent_def StringRemove_def change_log_def)
qed

end
