(* ===== verification/Service_Claims.thy ===== *)
theory Service_Claims
  imports Service_Facts Check_Claims
begin

text \<open>
  The properties of the requests an application makes, on the device and the stored upgrade of \<open>Firmware_Claims\<close>.
\<close>

section \<open>Requests\<close>

text \<open>Resuming a download overwrites the order of the download with the order of the upgrade: afterwards the row of the task
  says that the application asked for the upgrade's order.\<close>

theorem resume_overwrites_order:
  assumes "fw_inv w" "up_task (upgrade_of w) = Some t" "ft_status t = US_CHECK_VERSION_SUCCESS \<or> ft_status t = US_DOWNLOAD_PAUSE"
  shows "up_task (upgrade_of (snd (snd (svc_ResumeDownload env n err w)))) =
    Some (t\<lparr>ft_downloadMode := DM_MANUAL, ft_downloadAllowNetwork := n, ft_downloadOrder := ft_upgradeOrder t\<rparr>)"
proof -
  let ?w1 = "on_tasks (UpdateDownloadOptionByTaskId (ft_taskId t) DM_MANUAL n (ft_upgradeOrder t)) w"
  let ?opts = "new_download_options\<lparr>do_order := ft_downloadOrder t, do_allowNetwork := n\<rparr>"
  have "svc_ResumeDownload env n err w = (started_error err (manager_DoDownload env ?opts err ?w1), manager_DoDownload env ?opts err ?w1)"
    using assms(3) by (auto simp: svc_ResumeDownload_def stored_task_eq [OF assms(2)] Let_def)
  moreover have "upgrade_of (snd (manager_DoDownload env ?opts err ?w1)) = upgrade_of ?w1"
    by (rule upgrade_cong) (simp_all add: manager_DoDownload_tables)
  ultimately show ?thesis
    using implementsD [OF task_operators(5) assms(1)] assms(2) by (simp add: up_adj_task_def)
qed

text \<open>An install that streams its packages cannot be cancelled: whatever its state, the request fails and changes nothing,
  since the cancellation accepts only the states of a download.\<close>

theorem stream_install_is_not_cancelled:
  assumes "IsStreamUpgrade (stored_components w)"
  shows "be_errorNum (fst (svc_Cancel env err w)) = CR_FAIL \<and> snd (svc_Cancel env err w) = w"
  using assms by (simp add: svc_Cancel_def manager_DoCancel_def Let_def AddErrorMessage_def be_Build_def fail_with_def)

text \<open>The upgrade policy is read back as it was set, with the period from two to four at night.\<close>

theorem policy_roundtrip:
  assumes "pr_up (fw_prefs w)" "po_periods old = p # ps"
  shows "GetUpgradePolicy old (snd (SetUpgradePolicy env policy err w)) =
    old\<lparr>po_downloadStrategy := po_downloadStrategy policy, po_autoUpgradeStrategy := po_autoUpgradeStrategy policy,
      po_periods := (120, 240) # ps\<rparr>"
  using assms by (simp add: GetUpgradePolicy_def SetUpgradePolicy_def Let_def)

theorem policy_roundtrip_witness:
  "po_downloadStrategy (GetUpgradePolicy \<lparr>po_downloadStrategy = False, po_autoUpgradeStrategy = False, po_periods = [(0, 0), (0, 0)]\<rparr>
     (snd (SetUpgradePolicy ex_device \<lparr>po_downloadStrategy = True, po_autoUpgradeStrategy = False, po_periods = []\<rparr> new_business_error ex_firmware)))"
proof -
  have "pr_up (fw_prefs ex_firmware)" by (simp add: ex_firmware_def)
  from policy_roundtrip [OF this, of "\<lparr>po_downloadStrategy = False, po_autoUpgradeStrategy = False, po_periods = [(0, 0), (0, 0)]\<rparr>"]
  show ?thesis by simp
qed

section \<open>The change log\<close>

text \<open>The file of a component's change log.\<close>

definition change_log_file :: "string \<Rightarrow> string" where
  "change_log_file componentId = CHANGELOG_PATH @ ''/'' @ componentId @ ''.xml''"

lemma ProcessDescriptInfo_single:
  assumes "array_items ce info = [item]" "get_int32 ce item ''descriptionType'' (ck_uninitialised ce) = (r1, ty)"
    "get_string ce item ''content'' [] = (r2, content)" "components \<noteq> []"
    "ck_opens ce fs (change_log_file (fc_descriptPackageId (last components))) = Some file"
  shows "ProcessDescriptInfo ce info components fs =
    Some (r1 + r2, fs(file \<mapsto> Regular (to_string ty @ ''|'' @ replace_all ''quota'' [CHR 0x22] content)))"
  using assms
  by (simp add: ProcessDescriptInfo_def descript_item_def ReplaceStringAll_eq SaveDataToFile_def change_log_file_def del: append_Cons)

lemma missing_change_log:
  assumes "\<not> IsFileExist fs (change_log_file i)"
  shows "\<exists>err'. read_description realpath fs failure language i err = Inl err' \<and> be_errorNum err' = CR_FAIL"
  using assms by (simp add: read_description_def CheckFilePathValid_def change_log_file_def be_Build_def Let_def)

text \<open>C34: The change log that a search finds reaches the application that asks for it, if the new version is one package: it gets
  the type and the text as the server sent them, with the quotation marks restored, less the part in the other language: the
  English part for an application that asks in \<open>zh-cn\<close>, the Chinese part for any other. The search writes only the file of the
  last package. If there are several, and the others have no file from an earlier search, the request fails at the first and
  the application gets nothing. (One item of description; a text with both languages, whose marks occur nowhere else in it; a
  legal identifier; the file can be written and has no links in its name.)\<close>

theorem change_log_roundtrip:
  assumes "array_items ce info = [item]" "get_int32 ce item ''descriptionType'' (ck_uninitialised ce) = (r1, ty)" "is_i32 ty"
    "get_string ce item ''content'' [] = (r2, content)"
    "replace_all ''quota'' [CHR 0x22] content = change_log before chinese between english after"
    "unmarked before" "unmarked chinese" "unmarked between" "unmarked english"
    and "components \<noteq> []" "i = fc_descriptPackageId (last components)" "IsValidComponentId i"
    "ck_opens ce fs (change_log_file i) = Some (change_log_file i)" "realpath (change_log_file i) = Some (change_log_file i)"
    "\<And>c. c \<in> set (butlast components) \<Longrightarrow> fc_descriptPackageId c \<noteq> i \<and> \<not> IsFileExist fs (change_log_file (fc_descriptPackageId c))"
    and "map fc_componentId (stored_components w) = map fc_descriptPackageId components"
    "ProcessDescriptInfo ce info components fs = Some (ret, fw_fs w)"
  shows "if length components = 1
    then GetNewVersionDescription realpath language err w =
      (be_Build CR_SUCCESS ''start GetNewVersionDescription'' err,
       [\<lparr>cd_componentId = i, cd_descriptionType = ty,
         cd_content = (if language = ''zh-cn'' then before @ LANGUAGE_CHINESE @ chinese @ LANGUAGE_END @ between @ after
                       else before @ between @ LANGUAGE_ENGLISH @ english @ LANGUAGE_END @ after)\<rparr>])
    else \<exists>err'. GetNewVersionDescription realpath language err w = (err', []) \<and> be_errorNum err' = CR_FAIL"
proof -
  let ?text = "change_log before chinese between english after" and ?failure = "''GetNewVersionDescription failed''"
  let ?err = "be_Build CR_SUCCESS ''start GetNewVersionDescription'' err"
  let ?read = "read_description realpath (fw_fs w) ?failure language"
  have files: "fw_fs w = fs(change_log_file i \<mapsto> Regular (to_string ty @ ''|'' @ ?text))"
    using ProcessDescriptInfo_single [OF assms(1,2,4,10)] assms(5,11,13,17) by simp
  have stored: "stored_components w \<noteq> []" using assms(10,16) by (metis map_is_Nil_conv)
  show ?thesis
  proof (cases "length components = 1")
    case True
    with assms(11,16) obtain c where c: "stored_components w = [c]" "fc_componentId c = i"
      by (auto simp: length_Suc_conv map_eq_Cons_conv)
    have "?read i ?err = Inr \<lparr>cd_componentId = i, cd_descriptionType = ty, cd_content = GetChangelogContent ?text language\<rparr>"
      using assms(3,12,14)
      by (intro read_description_of [where path = "change_log_file i"]) (simp_all add: files change_log_def marks change_log_file_def)
    with True c show ?thesis
      by (simp add: GetNewVersionDescription_def Let_def GetChangelogContent_change_log [OF assms(6-9)])
  next
    case False
    obtain d ds where d: "components = d # ds" "ds \<noteq> []" using False assms(10) by (cases components) auto
    then have "d \<in> set (butlast components)" by simp
    from assms(15) [OF this] have "\<not> IsFileExist (fw_fs w) (change_log_file (fc_descriptPackageId d))"
      by (simp add: files IsFileExist_def change_log_file_def)
    from missing_change_log [OF this] obtain err' where e: "?read (fc_descriptPackageId d) ?err = Inl err'" "be_errorNum err' = CR_FAIL"
      by blast
    obtain c cs where "stored_components w = c # cs" "fc_componentId c = fc_descriptPackageId d"
      using assms(16) d(1) by (auto simp: map_eq_Cons_conv)
    with False e show ?thesis by (simp add: GetNewVersionDescription_def Let_def)
  qed
qed

definition ex_log :: string where
  "ex_log = ''A <language name=quotazh-cnquota code=quota2052quota>B</language> C <language name=quotaen-usquota code=quota1033quota>D</language>''"

lemma ex_log_marks: "replace_all ''quota'' [CHR 0x22] ex_log = change_log ''A '' ''B'' '' C '' ''D'' []"
  by code_simp

definition ex_logged :: "string \<Rightarrow> FirmwareComponent" where
  "ex_logged i = ex_component\<lparr>fc_componentId := i, fc_descriptPackageId := i\<rparr>"

definition ex_described :: "FirmwareComponent list \<Rightarrow> fw" where
  "ex_described cs = on_components (table_Insert component_BuildDbValue cs)
     (on_fs (\<lambda>_. [change_log_file ''d1'' \<mapsto> Regular (to_string 1 @ ''|'' @ change_log ''A '' ''B'' '' C '' ''D'' [])]) ex_firmware)"

lemma ex_described_components:
  "map fc_componentId (stored_components (ex_described [ex_logged ''d1''])) = [''d1'']"
  "map fc_componentId (stored_components (ex_described [ex_logged ''d0'', ex_logged ''d1''])) = [''d0'', ''d1'']"
  by code_simp+

text \<open>One package and a reader of \<open>en-us\<close>; and two packages.\<close>

theorem change_log_roundtrip_witness:
  "cd_content (hd (snd (GetNewVersionDescription Some ''en-us'' new_business_error (ex_described [ex_logged ''d1'']))))
     = ''A  C '' @ LANGUAGE_ENGLISH @ ''D'' @ LANGUAGE_END
   \<and> snd (GetNewVersionDescription Some ''en-us'' new_business_error (ex_described [ex_logged ''d0'', ex_logged ''d1''])) = []"
proof -
  let ?ce = "ex_server ex_answer" and ?item = "JObj [(''descriptionType'', JNum 1), (''content'', JStr ex_log)]"
  have json: "array_items ?ce (JArr [?item]) = [?item]" "get_int32 ?ce ?item ''descriptionType'' (ck_uninitialised ?ce) = (0, 1)"
    "get_string ?ce ?item ''content'' [] = (0, ex_log)"
    by (simp_all add: ex_server_def ex_cjson_def array_items_def map_filter_simps GetValueAndSetTo_def CheckInteger_def
        double_to_integer_def assign_string_def)
  have marks: "unmarked ''A ''" "unmarked ''B''" "unmarked '' C ''" "unmarked ''D''" "IsValidComponentId ''d1''" "is_i32 1"
    by (code_simp, code_simp, code_simp, code_simp, code_simp, simp add: is_i32_def)
  have opens: "ck_opens ?ce Map.empty (change_log_file ''d1'') = Some (change_log_file ''d1'')" by (simp add: ex_server_def)
  have written: "ProcessDescriptInfo ?ce (JArr [?item]) cs Map.empty = Some (0, fw_fs (ex_described cs'))"
    if "cs \<noteq> []" "fc_descriptPackageId (last cs) = ''d1''" for cs cs'
    using ProcessDescriptInfo_single [OF json that(1), of Map.empty "change_log_file ''d1''"]
    by (simp add: that(2) opens ex_log_marks ex_described_def on_components_def on_fs_def Let_def split_beta)
  note rule = change_log_roundtrip [OF json(1,2) marks(6) json(3) ex_log_marks marks(1-4), where i = "''d1''" and realpath = Some
      and fs = Map.empty and language = "''en-us''" and err = new_business_error and ret = 0]
  have "GetNewVersionDescription Some ''en-us'' new_business_error (ex_described [ex_logged ''d1'']) =
    (be_Build CR_SUCCESS ''start GetNewVersionDescription'' new_business_error,
     [\<lparr>cd_componentId = ''d1'', cd_descriptionType = 1, cd_content = ''A  C '' @ LANGUAGE_ENGLISH @ ''D'' @ LANGUAGE_END\<rparr>])"
    using rule [of "[ex_logged ''d1'']" "ex_described [ex_logged ''d1'']"] marks(5) opens written ex_described_components(1)
    by (simp add: ex_logged_def)
  moreover have "\<exists>err'. GetNewVersionDescription Some ''en-us'' new_business_error (ex_described [ex_logged ''d0'', ex_logged ''d1'']) = (err', [])"
    using rule [of "[ex_logged ''d0'', ex_logged ''d1'']" "ex_described [ex_logged ''d0'', ex_logged ''d1'']"]
      marks(5) opens written ex_described_components(2)
    by (auto simp: ex_logged_def IsFileExist_def)
  ultimately show ?thesis by auto
qed

end
