(* ===== verification/Parcel_Codec.thy ===== *)
theory Parcel_Codec
  imports Firmware_World
begin

text \<open>
  How structures cross a process boundary. A \<open>Parcel\<close> belongs to the platform; what the code relies on is that a read of
  the kind of the next value yields this value. A parcel is the list of the values in it, and the record \<open>parcel_env\<close>
  says what else the platform may do: refuse a write, answer a read for which the next value is missing or of another
  kind, and change a text on its way through UTF-16 (\<open>Str8ToStr16\<close>, \<open>Str16ToStr8\<close>).
\<close>

datatype item = Bool bool | I32 int | U32 int | U64 int | Txt string

type_synonym parcel = "item list"

record parcel_env =
  pv_accepts :: "item \<Rightarrow> parcel \<Rightarrow> bool"
  pv_other_bool :: "parcel \<Rightarrow> bool \<times> parcel"
  pv_other_int :: "parcel \<Rightarrow> int \<times> parcel"
  pv_other_text :: "parcel \<Rightarrow> string \<times> parcel"
  pv_convert :: "string \<Rightarrow> string"

definition p_write :: "parcel_env \<Rightarrow> item \<Rightarrow> parcel \<Rightarrow> bool \<times> parcel" where
  "p_write e x p = (if pv_accepts e x p then (True, p @ [x]) else (False, p))"

fun ReadBool :: "parcel_env \<Rightarrow> parcel \<Rightarrow> bool \<times> parcel" where
  "ReadBool e (Bool b # p) = (b, p)"
| "ReadBool e p = pv_other_bool e p"

fun ReadInt32 :: "parcel_env \<Rightarrow> parcel \<Rightarrow> int \<times> parcel" where
  "ReadInt32 e (I32 v # p) = (v, p)"
| "ReadInt32 e p = pv_other_int e p"

fun ReadUint32 :: "parcel_env \<Rightarrow> parcel \<Rightarrow> int \<times> parcel" where
  "ReadUint32 e (U32 v # p) = (v, p)"
| "ReadUint32 e p = pv_other_int e p"

fun ReadUint64 :: "parcel_env \<Rightarrow> parcel \<Rightarrow> int \<times> parcel" where
  "ReadUint64 e (U64 v # p) = (v, p)"
| "ReadUint64 e p = pv_other_int e p"

text \<open>\<open>Str16ToStr8(parcel.ReadString16())\<close>.\<close>

fun ReadText :: "parcel_env \<Rightarrow> parcel \<Rightarrow> string \<times> parcel" where
  "ReadText e (Txt s # p) = (pv_convert e s, p)"
| "ReadText e p = pv_other_text e p"

text \<open>Writes whose failure ends the marshalling, and writes whose result nobody looks at.\<close>

fun write_checked :: "parcel_env \<Rightarrow> item list \<Rightarrow> parcel \<Rightarrow> bool \<times> parcel" where
  "write_checked e [] p = (True, p)"
| "write_checked e (x # xs) p = (case p_write e x p of (True, p1) \<Rightarrow> write_checked e xs p1 | (False, p1) \<Rightarrow> (False, p1))"

fun write_unchecked :: "parcel_env \<Rightarrow> item list \<Rightarrow> parcel \<Rightarrow> parcel" where
  "write_unchecked e [] p = p"
| "write_unchecked e (x # xs) p = write_unchecked e xs (snd (p_write e x p))"

definition accepting :: "parcel_env \<Rightarrow> bool" where
  "accepting e = (\<forall>x p. pv_accepts e x p)"

lemma write_accepting [simp]:
  assumes "accepting e"
  shows "write_checked e xs p = (True, p @ xs)" "write_unchecked e xs p = p @ xs"
proof -
  have "p_write e x q = (True, q @ [x])" for x q using assms by (simp add: p_write_def accepting_def)
  then show "write_checked e xs p = (True, p @ xs)" "write_unchecked e xs p = p @ xs"
    by (induction xs arbitrary: p) simp_all
qed

declare write_checked.simps [simp del] write_unchecked.simps [simp del]

section \<open>Vectors\<close>

definition MAX_VECTOR_SIZE :: int where "MAX_VECTOR_SIZE = 128"
definition MIN_VECTOR_SIZE :: int where "MIN_VECTOR_SIZE = 0"

text \<open>The loop over the elements that every structure with a vector has: an element that cannot be read ends it. \<open>acc\<close> is
  the vector that is appended to.\<close>

fun read_elements :: "(parcel \<Rightarrow> 'a option \<times> parcel) \<Rightarrow> nat \<Rightarrow> 'a list \<Rightarrow> parcel \<Rightarrow> (bool \<times> 'a list) \<times> parcel" where
  "read_elements read1 0 acc p = ((True, acc), p)"
| "read_elements read1 (Suc n) acc p =
     (case read1 p of (Some x, p1) \<Rightarrow> read_elements read1 n (acc @ [x]) p1 | (None, p1) \<Rightarrow> ((False, acc), p1))"

definition read_vector ::
  "parcel_env \<Rightarrow> (parcel \<Rightarrow> 'a option \<times> parcel) \<Rightarrow> 'a list \<Rightarrow> parcel \<Rightarrow> (bool \<times> 'a list) \<times> parcel" where
  "read_vector e read1 acc p =
     (let (size, p1) = ReadInt32 e p in
      if size < MIN_VECTOR_SIZE \<or> MAX_VECTOR_SIZE < size then ((False, acc), p1)
      else read_elements read1 (nat size) acc p1)"

definition write_vector :: "parcel_env \<Rightarrow> ('a \<Rightarrow> parcel \<Rightarrow> parcel) \<Rightarrow> 'a list \<Rightarrow> parcel \<Rightarrow> parcel" where
  "write_vector e write1 xs p = fold write1 xs (snd (p_write e (I32 (i32 (int (length xs)))) p))"

text \<open>The values a vector is sent as, and when it can be read back.\<close>

definition vector_items :: "('a \<Rightarrow> item list) \<Rightarrow> 'a list \<Rightarrow> item list" where
  "vector_items items1 xs = I32 (i32 (int (length xs))) # concat (map items1 xs)"

definition vector_fits :: "('a \<Rightarrow> bool) \<Rightarrow> 'a list \<Rightarrow> bool" where
  "vector_fits fits1 xs = (list_all fits1 xs \<and> int (length xs) \<le> MAX_VECTOR_SIZE)"

lemma length_i32: "int (length xs) \<le> MAX_VECTOR_SIZE \<Longrightarrow> i32 (int (length xs)) = int (length xs)"
  by (simp add: i32_id MAX_VECTOR_SIZE_def)

text \<open>\<open>Unmarshalling\<close> of every structure: a new object, or none if it cannot be read.\<close>

definition unmarshalled :: "(bool \<times> 'a) \<times> parcel \<Rightarrow> 'a option \<times> parcel" where
  "unmarshalled r = (case r of ((ok, x), p) \<Rightarrow> (if ok then Some x else None, p))"

section \<open>Codecs\<close>

text \<open>What a structure promises the code that sends it: \<open>items\<close> are the values of an object, \<open>fits\<close> says when the object can
  be told from them.\<close>

locale codec =
  fixes marshal :: "parcel_env \<Rightarrow> 'a \<Rightarrow> parcel \<Rightarrow> bool \<times> parcel"
    and unmarshal :: "parcel_env \<Rightarrow> parcel \<Rightarrow> 'a option \<times> parcel"
    and items :: "'a \<Rightarrow> item list"
    and fits :: "parcel_env \<Rightarrow> 'a \<Rightarrow> bool"
  assumes marshal_accepting: "accepting e \<Longrightarrow> marshal e x p = (True, p @ items x)"
    and unmarshal_items: "fits e x \<Longrightarrow> unmarshal e (items x @ rest) = (Some x, rest)"
begin

lemma roundtrip: "accepting e \<Longrightarrow> fits e x \<Longrightarrow> unmarshal e (snd (marshal e x []) @ rest) = (Some x, rest)"
  by (simp add: marshal_accepting unmarshal_items)

lemma write_elements: "accepting e \<Longrightarrow> fold (\<lambda>x p. snd (marshal e x p)) xs p = p @ concat (map items xs)"
  by (induction xs arbitrary: p) (simp_all add: marshal_accepting)

lemma read_elements_items:
  "list_all (fits e) xs \<Longrightarrow>
     read_elements (unmarshal e) (length xs) acc (concat (map items xs) @ rest) = ((True, acc @ xs), rest)"
  by (induction xs arbitrary: acc) (simp_all add: unmarshal_items)

lemma write_vector_items:
  "accepting e \<Longrightarrow> write_vector e (\<lambda>x p. snd (marshal e x p)) xs p = p @ vector_items items xs"
  by (simp add: write_vector_def write_elements p_write_def accepting_def vector_items_def)

lemma read_vector_items:
  "vector_fits (fits e) xs \<Longrightarrow> read_vector e (unmarshal e) acc (vector_items items xs @ rest) = ((True, acc @ xs), rest)"
  by (simp add: read_vector_def read_elements_items MIN_VECTOR_SIZE_def vector_items_def vector_fits_def length_i32)

text \<open>A longer vector is written all the same, and its reader refuses it as a whole.\<close>

lemma read_vector_too_long:
  "MAX_VECTOR_SIZE < int (length xs) \<Longrightarrow> int (length xs) < 2 ^ 31 \<Longrightarrow>
     fst (read_vector e (unmarshal e) acc (vector_items items xs @ rest)) = (False, acc)"
  by (simp add: read_vector_def vector_items_def i32_id MAX_VECTOR_SIZE_def)

end

end
