(* ===== verification/Service_Clients.thy ===== *)
theory Service_Clients
  imports Startup_Manager
begin

text \<open>
  The clients of the service: who they are (\<open>upgrade_info.h\<close>, \<open>business_type.h\<close>), the map of their callbacks
  (\<open>services/engine/src/update_service.cpp\<close>, \<open>update_service_common.cpp\<close>), what the service remembers of the last one
  (\<open>update_service_cache.cpp\<close>) and the way of an event to them (\<open>base_callback_utils.cpp\<close>). A callback object is its
  number. Enumerations that arrive from another process are the numbers they are cast from, since nothing checks them.
\<close>

section \<open>\<open>BusinessType\<close> and \<open>UpgradeInfo\<close>\<close>

definition SUB_FIRMWARE :: int where "SUB_FIRMWARE = 1"
definition SUB_PARAM :: int where "SUB_PARAM = 2"

datatype BusinessType = BusinessType (bt_vendor: string) (bt_subType: int)

definition less_BusinessType_code :: "BusinessType \<Rightarrow> BusinessType \<Rightarrow> bool" where
  "less_BusinessType_code a b =
     (if bt_vendor a \<noteq> bt_vendor b then bt_vendor a < bt_vendor b
      else if bt_subType a \<noteq> bt_subType b then bt_subType a < bt_subType b else False)"

instantiation BusinessType :: linorder
begin
definition less_BusinessType :: "BusinessType \<Rightarrow> BusinessType \<Rightarrow> bool" where
  "less_BusinessType = less_BusinessType_code"
definition less_eq_BusinessType :: "BusinessType \<Rightarrow> BusinessType \<Rightarrow> bool" where
  "less_eq_BusinessType a b = (a = b \<or> less_BusinessType_code a b)"
instance
  by standard (auto simp: less_BusinessType_def less_eq_BusinessType_def less_BusinessType_code_def BusinessType.expand
      split: if_splits)
end

datatype UpgradeInfo = UpgradeInfo (ui_upgradeApp: string) (ui_businessType: BusinessType) (ui_upgradeDevId: string)
  (ui_controlDevId: string) (ui_processId: int) (ui_deviceType: int)

definition LOCAL_UPGRADE_INFO :: string where "LOCAL_UPGRADE_INFO = ''LocalUpgradeInfo''"

definition new_upgrade_info :: UpgradeInfo where
  "new_upgrade_info = UpgradeInfo [] (BusinessType [] SUB_FIRMWARE) [] [] 0 0"

definition less_UpgradeInfo_code :: "UpgradeInfo \<Rightarrow> UpgradeInfo \<Rightarrow> bool" where
  "less_UpgradeInfo_code a b =
     (if ui_upgradeApp a \<noteq> ui_upgradeApp b then ui_upgradeApp a < ui_upgradeApp b
      else if ui_businessType a \<noteq> ui_businessType b then ui_businessType a < ui_businessType b
      else if ui_upgradeDevId a \<noteq> ui_upgradeDevId b then ui_upgradeDevId a < ui_upgradeDevId b
      else if ui_controlDevId a \<noteq> ui_controlDevId b then ui_controlDevId a < ui_controlDevId b
      else if ui_processId a \<noteq> ui_processId b then ui_processId a < ui_processId b
      else if ui_deviceType a \<noteq> ui_deviceType b then ui_deviceType a < ui_deviceType b
      else False)"

definition IsLocal :: "UpgradeInfo \<Rightarrow> bool" where
  "IsLocal info = (ui_upgradeApp info = LOCAL_UPGRADE_INFO)"

instantiation UpgradeInfo :: linorder
begin
definition less_UpgradeInfo :: "UpgradeInfo \<Rightarrow> UpgradeInfo \<Rightarrow> bool" where
  "less_UpgradeInfo = less_UpgradeInfo_code"
definition less_eq_UpgradeInfo :: "UpgradeInfo \<Rightarrow> UpgradeInfo \<Rightarrow> bool" where
  "less_eq_UpgradeInfo a b = (a = b \<or> less_UpgradeInfo_code a b)"
instance
proof
  fix a b c :: UpgradeInfo
  show "(a < b) = (a \<le> b \<and> \<not> b \<le> a)"
    by (auto simp: less_UpgradeInfo_def less_eq_UpgradeInfo_def less_UpgradeInfo_code_def UpgradeInfo.expand split: if_splits)
  show "a \<le> a" by (simp add: less_eq_UpgradeInfo_def)
  show "a \<le> b \<Longrightarrow> b \<le> c \<Longrightarrow> a \<le> c"
    by (auto simp: less_eq_UpgradeInfo_def less_UpgradeInfo_code_def split: if_splits)
  show "a \<le> b \<Longrightarrow> b \<le> a \<Longrightarrow> a = b"
    by (auto simp: less_eq_UpgradeInfo_def less_UpgradeInfo_code_def split: if_splits)
  show "a \<le> b \<or> b \<le> a"
    by (auto simp: less_eq_UpgradeInfo_def less_UpgradeInfo_code_def UpgradeInfo.expand split: if_splits)
qed
end

section \<open>\<open>UpdateServiceCache\<close>\<close>

text \<open>The intervals are \<open>uint64_t\<close>.\<close>

record UpgradeInterval =
  iv_timeStart :: int
  iv_timeEnd :: int

record service_cache =
  sc_upgradeInfo :: UpgradeInfo
  sc_checkInterval :: int
  sc_downloadInterval :: int
  sc_upgradeInterval :: UpgradeInterval
  sc_paramUpgradeInfo :: UpgradeInfo
  sc_paramCheckInterval :: int
  sc_paramDownloadInterval :: int
  sc_paramUpgradeInterval :: UpgradeInterval

definition new_service_cache :: service_cache where
  "new_service_cache =
     \<lparr>sc_upgradeInfo = new_upgrade_info, sc_checkInterval = 0, sc_downloadInterval = 0,
      sc_upgradeInterval = \<lparr>iv_timeStart = 0, iv_timeEnd = 0\<rparr>, sc_paramUpgradeInfo = new_upgrade_info,
      sc_paramCheckInterval = 0, sc_paramDownloadInterval = 0, sc_paramUpgradeInterval = \<lparr>iv_timeStart = 0, iv_timeEnd = 0\<rparr>\<rparr>"

definition IsTypelegal :: "int \<Rightarrow> bool" where
  "IsTypelegal businessSubType = (businessSubType = SUB_FIRMWARE \<or> businessSubType = SUB_PARAM)"

definition IsParamType :: "int \<Rightarrow> bool" where
  "IsParamType businessSubType = (businessSubType = SUB_PARAM)"

definition GetUpgradeInfo :: "int \<Rightarrow> service_cache \<Rightarrow> UpgradeInfo" where
  "GetUpgradeInfo sub c =
     (if \<not> IsTypelegal sub then new_upgrade_info
      else if IsParamType sub then sc_paramUpgradeInfo c else sc_upgradeInfo c)"

definition SetUpgradeInfo :: "UpgradeInfo \<Rightarrow> service_cache \<Rightarrow> service_cache" where
  "SetUpgradeInfo info c =
     (let sub = bt_subType (ui_businessType info) in
      if \<not> IsTypelegal sub then c
      else if IsParamType sub then c\<lparr>sc_paramUpgradeInfo := info\<rparr> else c\<lparr>sc_upgradeInfo := info\<rparr>)"

definition GetCheckInterval :: "int \<Rightarrow> service_cache \<Rightarrow> int" where
  "GetCheckInterval sub c =
     (if \<not> IsTypelegal sub then 0 else if IsParamType sub then sc_paramCheckInterval c else sc_checkInterval c)"

definition SetCheckInterval :: "int \<Rightarrow> int \<Rightarrow> service_cache \<Rightarrow> service_cache" where
  "SetCheckInterval sub interval c =
     (if \<not> IsTypelegal sub then c
      else if IsParamType sub then c\<lparr>sc_paramCheckInterval := interval\<rparr> else c\<lparr>sc_checkInterval := interval\<rparr>)"

definition GetDownloadInterval :: "int \<Rightarrow> service_cache \<Rightarrow> int" where
  "GetDownloadInterval sub c =
     (if \<not> IsTypelegal sub then 0 else if IsParamType sub then sc_paramDownloadInterval c else sc_downloadInterval c)"

definition SetDownloadInterval :: "int \<Rightarrow> int \<Rightarrow> service_cache \<Rightarrow> service_cache" where
  "SetDownloadInterval sub interval c =
     (if \<not> IsTypelegal sub then c
      else if IsParamType sub then c\<lparr>sc_paramDownloadInterval := interval\<rparr> else c\<lparr>sc_downloadInterval := interval\<rparr>)"

definition GetUpgradeInterval :: "int \<Rightarrow> service_cache \<Rightarrow> UpgradeInterval" where
  "GetUpgradeInterval sub c =
     (if \<not> IsTypelegal sub then \<lparr>iv_timeStart = 0, iv_timeEnd = 0\<rparr>
      else if IsParamType sub then sc_paramUpgradeInterval c else sc_upgradeInterval c)"

definition SetUpgradeStartTime :: "int \<Rightarrow> int \<Rightarrow> service_cache \<Rightarrow> service_cache" where
  "SetUpgradeStartTime sub time c =
     (if \<not> IsTypelegal sub then c
      else if IsParamType sub then c\<lparr>sc_paramUpgradeInterval := (sc_paramUpgradeInterval c)\<lparr>iv_timeStart := time\<rparr>\<rparr>
      else c\<lparr>sc_upgradeInterval := (sc_upgradeInterval c)\<lparr>iv_timeStart := time\<rparr>\<rparr>)"

definition SetUpgradeEndTime :: "int \<Rightarrow> int \<Rightarrow> service_cache \<Rightarrow> service_cache" where
  "SetUpgradeEndTime sub time c =
     (if \<not> IsTypelegal sub then c
      else if IsParamType sub then c\<lparr>sc_paramUpgradeInterval := (sc_paramUpgradeInterval c)\<lparr>iv_timeEnd := time\<rparr>\<rparr>
      else c\<lparr>sc_upgradeInterval := (sc_upgradeInterval c)\<lparr>iv_timeEnd := time\<rparr>\<rparr>)"

section \<open>The map of clients\<close>

text \<open>A death recipient is an object of its own (\<open>dr_serial\<close>) that knows the client it was made for.\<close>

record ClientDeathRecipient =
  dr_serial :: nat
  dr_upgradeInfo :: UpgradeInfo

record ClientProxy =
  cp_proxy :: "nat option"
  cp_deathRecipient :: ClientDeathRecipient

text \<open>\<open>us_watched\<close> are the recipients the system holds for each callback object; \<open>us_serial\<close> makes recipients distinct.\<close>

record update_service =
  us_clientProxyMap :: "(UpgradeInfo, ClientProxy) cmap"
  us_cache :: service_cache
  us_access :: "(fw_env \<times> fw) access_manager"
  us_watched :: "(nat \<times> ClientDeathRecipient) list"
  us_serial :: nat

definition new_update_service :: "(fw_env \<times> fw) access_manager \<Rightarrow> update_service" where
  "new_update_service m = \<lparr>us_clientProxyMap = [], us_cache = new_service_cache, us_access = m, us_watched = [], us_serial = 0\<rparr>"

definition new_ClientProxy :: "UpgradeInfo \<Rightarrow> nat option \<Rightarrow> update_service \<Rightarrow> ClientProxy \<times> update_service" where
  "new_ClientProxy info callback s =
     (\<lparr>cp_proxy = callback, cp_deathRecipient = \<lparr>dr_serial = us_serial s, dr_upgradeInfo = info\<rparr>\<rparr>,
      s\<lparr>us_serial := us_serial s + 1\<rparr>)"

definition AddDeathRecipient :: "ClientProxy \<Rightarrow> update_service \<Rightarrow> update_service" where
  "AddDeathRecipient c s =
     (case cp_proxy c of None \<Rightarrow> s | Some cb \<Rightarrow> s\<lparr>us_watched := us_watched s @ [(cb, cp_deathRecipient c)]\<rparr>)"

definition RemoveDeathRecipient :: "ClientProxy \<Rightarrow> update_service \<Rightarrow> update_service" where
  "RemoveDeathRecipient c s =
     (case cp_proxy c of None \<Rightarrow> s
      | Some cb \<Rightarrow> s\<lparr>us_watched := filter (\<lambda>e. e \<noteq> (cb, cp_deathRecipient c)) (us_watched s)\<rparr>)"

definition on_access :: "((fw_env \<times> fw) access_manager \<Rightarrow> (fw_env \<times> fw) access_manager) \<Rightarrow> update_service \<Rightarrow> update_service" where
  "on_access f s = s\<lparr>us_access := f (us_access s)\<rparr>"

definition UnregisterUpdateCallback :: "UpgradeInfo \<Rightarrow> update_service \<Rightarrow> update_service" where
  "UnregisterUpdateCallback info s =
     (case map_of (us_clientProxyMap s) info of
        None \<Rightarrow> s
      | Some c \<Rightarrow>
          let s1 = RemoveDeathRecipient c s;
              s2 = s1\<lparr>us_clientProxyMap := cm_del info (us_clientProxyMap s1)\<rparr>
          in on_access (SetRemoteIdle (us_clientProxyMap s2 = [])) s2)"

text \<open>The part of \<open>RegisterUpdateCallback\<close> that runs under the lock; \<open>insert\<close> keeps an entry that is there.\<close>

definition insert_client :: "UpgradeInfo \<Rightarrow> nat option \<Rightarrow> update_service \<Rightarrow> update_service" where
  "insert_client info callback s =
     (let (c, s1) = new_ClientProxy info callback s;
          s2 = AddDeathRecipient c s1;
          s3 = s2\<lparr>us_clientProxyMap := (if cm_has info (us_clientProxyMap s2) then us_clientProxyMap s2
                                        else cm_put info c (us_clientProxyMap s2))\<rparr>
      in on_access (SetRemoteIdle (us_clientProxyMap s3 = [])) s3)"

definition remember_client :: "UpgradeInfo \<Rightarrow> update_service \<Rightarrow> update_service" where
  "remember_client info s = (if \<not> IsLocal info then s\<lparr>us_cache := SetUpgradeInfo info (us_cache s)\<rparr> else s)"

definition RegisterUpdateCallback :: "UpgradeInfo \<Rightarrow> nat option \<Rightarrow> update_service \<Rightarrow> update_service" where
  "RegisterUpdateCallback info callback s =
     remember_client info (insert_client info callback (UnregisterUpdateCallback info s))"

definition GetUpgradeCallback :: "UpgradeInfo \<Rightarrow> update_service \<Rightarrow> nat option" where
  "GetUpgradeCallback info s =
     (case map_of (us_clientProxyMap s) info of None \<Rightarrow> None | Some c \<Rightarrow> cp_proxy c)"

definition OnRemoteDied :: "ClientDeathRecipient \<Rightarrow> update_service \<Rightarrow> update_service" where
  "OnRemoteDied r s = UnregisterUpdateCallback (dr_upgradeInfo r) s"

text \<open>\<open>CallbackToHap\<close>: the object that gets an event of a business, \<open>None\<close> for the notification of the update application.\<close>

definition CallbackToHap :: "int \<Rightarrow> update_service \<Rightarrow> nat option" where
  "CallbackToHap subType s = GetUpgradeCallback (GetUpgradeInfo subType (us_cache s)) s"

section \<open>Interleavings\<close>

text \<open>
  The requests come from several threads, and each critical section is a step: registering takes three of them, and
  \<open>entering\<close> and \<open>remembering\<close> hold the registrations between two. When a callback object dies the system takes the
  recipients that watch it and calls them one by one; \<open>notices\<close> are those still to be called. The start-up manager
  works on the access registry but never on its idle flag.
\<close>

record service_system =
  sy_service :: update_service
  sy_entering :: "(UpgradeInfo \<times> nat option) list"
  sy_remembering :: "UpgradeInfo list"
  sy_notices :: "ClientDeathRecipient list"

inductive client_step :: "service_system \<Rightarrow> service_system \<Rightarrow> bool" where
  begin_register: "client_step y (y\<lparr>sy_service := UnregisterUpdateCallback info (sy_service y),
      sy_entering := (info, cb) # sy_entering y\<rparr>)"
| insert: "(info, cb) \<in> set (sy_entering y) \<Longrightarrow>
    client_step y (y\<lparr>sy_service := insert_client info cb (sy_service y),
      sy_entering := remove1 (info, cb) (sy_entering y), sy_remembering := info # sy_remembering y\<rparr>)"
| end_register: "info \<in> set (sy_remembering y) \<Longrightarrow>
    client_step y (y\<lparr>sy_service := remember_client info (sy_service y), sy_remembering := remove1 info (sy_remembering y)\<rparr>)"
| unregister: "client_step y (y\<lparr>sy_service := UnregisterUpdateCallback info (sy_service y)\<rparr>)"
| dies: "client_step y (y\<lparr>sy_service := (sy_service y)\<lparr>us_watched := filter (\<lambda>e. fst e \<noteq> cb) (us_watched (sy_service y))\<rparr>,
      sy_notices := sy_notices y @ map snd (filter (\<lambda>e. fst e = cb) (us_watched (sy_service y)))\<rparr>)"
| notice: "r \<in> set (sy_notices y) \<Longrightarrow>
    client_step y (y\<lparr>sy_service := OnRemoteDied r (sy_service y), sy_notices := remove1 r (sy_notices y)\<rparr>)"
| access: "am_isRemoteIdle m = am_isRemoteIdle (us_access (sy_service y)) \<Longrightarrow>
    client_step y (y\<lparr>sy_service := (sy_service y)\<lparr>us_access := m\<rparr>\<rparr>)"

definition start_system :: "(fw_env \<times> fw) access_manager \<Rightarrow> service_system" where
  "start_system m = \<lparr>sy_service = new_update_service m, sy_entering = [], sy_remembering = [], sy_notices = []\<rparr>"

inductive service_reach :: "service_system \<Rightarrow> bool" where
  start: "am_isRemoteIdle m \<Longrightarrow> service_reach (start_system m)"
| step: "service_reach y \<Longrightarrow> client_step y y' \<Longrightarrow> service_reach y'"

section \<open>Facts\<close>

lemma watching_clients [simp]:
  "us_clientProxyMap (AddDeathRecipient c s) = us_clientProxyMap s" "us_access (AddDeathRecipient c s) = us_access s"
  "us_cache (AddDeathRecipient c s) = us_cache s"
  "us_clientProxyMap (RemoveDeathRecipient c s) = us_clientProxyMap s" "us_access (RemoveDeathRecipient c s) = us_access s"
  "us_cache (RemoveDeathRecipient c s) = us_cache s"
  by (simp_all add: AddDeathRecipient_def RemoveDeathRecipient_def split: option.splits)

lemma remember_client_clients [simp]:
  "us_clientProxyMap (remember_client info s) = us_clientProxyMap s" "us_access (remember_client info s) = us_access s"
  "us_watched (remember_client info s) = us_watched s"
  by (simp_all add: remember_client_def)

lemma unregister_clients:
  "us_clientProxyMap (UnregisterUpdateCallback info s) = cm_del info (us_clientProxyMap s)"
  "us_cache (UnregisterUpdateCallback info s) = us_cache s"
  by (auto simp: UnregisterUpdateCallback_def on_access_def cm_del_def map_of_eq_None_iff filter_id_conv image_def Let_def
      split: option.splits intro!: sym [OF filter_True])

lemma insert_clients:
  "map_of (us_clientProxyMap (insert_client info cb s)) info \<noteq> None"
  "\<not> cm_has info (us_clientProxyMap s) \<Longrightarrow>
     us_clientProxyMap (insert_client info cb s) = cm_put info (fst (new_ClientProxy info cb s)) (us_clientProxyMap s)"
  "us_cache (insert_client info cb s) = us_cache s"
  by (auto simp: insert_client_def new_ClientProxy_def on_access_def cm_has_iff Let_def)

lemma GetUpgradeCallback_simps [simp]:
  "GetUpgradeCallback i (UnregisterUpdateCallback info s) = (if i = info then None else GetUpgradeCallback i s)"
  "GetUpgradeCallback i (RegisterUpdateCallback info cb s) = (if i = info then cb else GetUpgradeCallback i s)"
  "GetUpgradeCallback i (remember_client info s) = GetUpgradeCallback i s"
  by (simp_all add: GetUpgradeCallback_def RegisterUpdateCallback_def unregister_clients insert_clients(2) new_ClientProxy_def)

lemma cached_client [simp]:
  "us_cache (UnregisterUpdateCallback info s) = us_cache s"
  "us_cache (RegisterUpdateCallback info cb s) = (if IsLocal info then us_cache s else SetUpgradeInfo info (us_cache s))"
  by (simp_all add: RegisterUpdateCallback_def remember_client_def unregister_clients insert_clients)

text \<open>The idle flag of the registry says whether there is a client.\<close>

definition idle_flag_ok :: "update_service \<Rightarrow> bool" where
  "idle_flag_ok s = (am_isRemoteIdle (us_access s) \<longleftrightarrow> us_clientProxyMap s = [])"

lemma idle_flag_operations [inv_intros]:
  "idle_flag_ok s \<Longrightarrow> idle_flag_ok (UnregisterUpdateCallback info s)"
  "idle_flag_ok (insert_client info cb s)"
  "idle_flag_ok (remember_client info s) = idle_flag_ok s"
  by (auto simp: idle_flag_ok_def UnregisterUpdateCallback_def insert_client_def new_ClientProxy_def on_access_def SetRemoteIdle_def
      Let_def split: option.split)

lemma client_step_idle_flag: "client_step y y' \<Longrightarrow> idle_flag_ok (sy_service y) \<Longrightarrow> idle_flag_ok (sy_service y')"
  by (induction rule: client_step.induct) (auto simp: OnRemoteDied_def idle_flag_operations, simp_all add: idle_flag_ok_def)

lemma reachable_idle_flag: "service_reach y \<Longrightarrow> idle_flag_ok (sy_service y)"
proof (induction rule: service_reach.induct)
  case (start m)
  then show ?case by (simp add: idle_flag_ok_def start_system_def new_update_service_def)
next
  case (step y y')
  then show ?case by (auto intro: client_step_idle_flag)
qed

text \<open>A client that is registered keeps the process alive, whatever the firmware layer is doing.\<close>

text \<open>The exit does not look at the flag again, so what comes after the check does not stop it.\<close>

lemma idle_round_late:
  assumes "startup_IdleCheck env w s = (b, s1)"
    "am_accessMap (su_access (between s1)) = am_accessMap (su_access s1)"
    "su_scheduleTask (between s1) = su_scheduleTask s1" "su_policy (between s1) = su_policy s1"
  shows "fst (idle_round between sm env w s) = fst (IdleLoop sm env w s)"
  using assms
  by (auto simp: IdleLoop_def idle_round_def PreExit_def schedule_Exit_def access_Exit_def Let_def split: prod.splits bool.splits)

lemma startup_IdleCheck_access: "startup_IdleCheck env w s = (b, s1) \<Longrightarrow> su_access s1 = su_access s"
  by (auto simp: startup_IdleCheck_def Let_def split: prod.splits if_splits)

lemma register_access:
  "am_accessMap (us_access (RegisterUpdateCallback info cb s)) = am_accessMap (us_access s)"
  "\<not> am_isRemoteIdle (us_access (RegisterUpdateCallback info cb s))"
proof -
  have access: "am_accessMap (us_access (on_access (SetRemoteIdle b) v)) = am_accessMap (us_access v)"
    "am_isRemoteIdle (us_access (on_access (SetRemoteIdle b) v)) = b" for b v
    by (simp_all add: on_access_def SetRemoteIdle_def)
  have u: "am_accessMap (us_access (UnregisterUpdateCallback info s)) = am_accessMap (us_access s)"
    by (simp add: UnregisterUpdateCallback_def access Let_def RemoveDeathRecipient_def split: option.split)
  have i: "am_accessMap (us_access (insert_client info cb v)) = am_accessMap (us_access v)"
    "\<not> am_isRemoteIdle (us_access (insert_client info cb v))" for v
  proof -
    have ne: "cm_has info m \<longrightarrow> m \<noteq> []" "cm_put info c m \<noteq> []" for m :: "(UpgradeInfo, ClientProxy) cmap" and c
      by (auto simp: cm_has_def)
    show "am_accessMap (us_access (insert_client info cb v)) = am_accessMap (us_access v)"
      by (simp add: insert_client_def access Let_def new_ClientProxy_def AddDeathRecipient_def split: option.split)
    show "\<not> am_isRemoteIdle (us_access (insert_client info cb v))"
      using ne by (simp add: insert_client_def access Let_def split_beta)
  qed
  from u i show "am_accessMap (us_access (RegisterUpdateCallback info cb s)) = am_accessMap (us_access s)"
    "\<not> am_isRemoteIdle (us_access (RegisterUpdateCallback info cb s))"
    by (simp_all add: RegisterUpdateCallback_def)
qed

lemma IdleLoop_stays:
  assumes "\<not> am_isRemoteIdle (su_access s)"
  shows "\<not> fst (IdleLoop sm env w s)"
  using assms by (auto simp: IdleLoop_def idle_round_def startup_IdleCheck_def schedule_IdleCheck_def access_IsIdle_def Let_def split: prod.splits if_splits)

end
