(* ===== verification/Parcel_Structs.thy ===== *)
theory Parcel_Structs
  imports Parcel_Codec Service_Clients
begin

text \<open>
  The structures that cross the process boundary: the \<open>ReadFromParcel\<close>, \<open>Marshalling\<close> and \<open>Unmarshalling\<close> of
  \<open>interfaces/inner_api/feature/update/model\<close>. A number that is cast to an enumeration is kept as a number, since the code
  does not check it. Creating an object succeeds. Each structure is shown to be a \<open>codec\<close>.
\<close>

definition is_u32 :: "int \<Rightarrow> bool" where "is_u32 v = (0 \<le> v \<and> v < 2 ^ 32)"
definition is_u64 :: "int \<Rightarrow> bool" where "is_u64 v = (0 \<le> v \<and> v < 2 ^ 64)"

text \<open>A text that comes through the conversion as it was.\<close>

definition plain :: "parcel_env \<Rightarrow> string \<Rightarrow> bool" where "plain e s = (pv_convert e s = s)"

section \<open>\<open>ErrorMessage\<close>\<close>

definition ErrorMessage_items :: "ErrorMessage \<Rightarrow> item list" where
  "ErrorMessage_items m = [I32 (em_errorCode m), Txt (em_errorMessage m)]"

definition ErrorMessage_Marshalling :: "parcel_env \<Rightarrow> ErrorMessage \<Rightarrow> parcel \<Rightarrow> bool \<times> parcel" where
  "ErrorMessage_Marshalling e m p = (True, write_unchecked e (ErrorMessage_items m) p)"

definition ErrorMessage_ReadFromParcel :: "parcel_env \<Rightarrow> ErrorMessage \<Rightarrow> parcel \<Rightarrow> (bool \<times> ErrorMessage) \<times> parcel" where
  "ErrorMessage_ReadFromParcel e m p =
     (let (code, p1) = ReadInt32 e p; (msg, p2) = ReadText e p1
      in ((True, m\<lparr>em_errorCode := code, em_errorMessage := msg\<rparr>), p2))"

definition ErrorMessage_Unmarshalling :: "parcel_env \<Rightarrow> parcel \<Rightarrow> ErrorMessage option \<times> parcel" where
  "ErrorMessage_Unmarshalling e p = unmarshalled (ErrorMessage_ReadFromParcel e new_error_message p)"

definition ErrorMessage_fits :: "parcel_env \<Rightarrow> ErrorMessage \<Rightarrow> bool" where
  "ErrorMessage_fits e m = plain e (em_errorMessage m)"

interpretation error_codec: codec ErrorMessage_Marshalling ErrorMessage_Unmarshalling ErrorMessage_items ErrorMessage_fits
  by unfold_locales
    (simp_all add: ErrorMessage_Marshalling_def ErrorMessage_Unmarshalling_def ErrorMessage_ReadFromParcel_def
      ErrorMessage_items_def ErrorMessage_fits_def plain_def unmarshalled_def)

section \<open>\<open>VersionComponent\<close>\<close>

text \<open>The modes are \<open>size_t\<close> and are sent as \<open>uint32_t\<close>.\<close>

definition VersionComponent_items :: "VersionComponent \<Rightarrow> item list" where
  "VersionComponent_items c =
     [Txt (vc_componentId c), I32 (vc_componentType c), Txt (vc_upgradeAction c), Txt (vc_displayVersion c),
      Txt (vc_innerVersion c), U64 (vc_size c mod 2 ^ 64), U32 (u32 (vc_effectiveMode c)), U32 (u32 (vc_otaMode c)),
      U32 (u32 (vc_descriptionType c)), Txt (vc_content c), Txt (vc_componentExtra c)]"

definition VersionComponent_Marshalling :: "parcel_env \<Rightarrow> VersionComponent \<Rightarrow> parcel \<Rightarrow> bool \<times> parcel" where
  "VersionComponent_Marshalling e c p = (True, write_unchecked e (VersionComponent_items c) p)"

definition VersionComponent_ReadFromParcel ::
  "parcel_env \<Rightarrow> VersionComponent \<Rightarrow> parcel \<Rightarrow> (bool \<times> VersionComponent) \<times> parcel" where
  "VersionComponent_ReadFromParcel e c p =
     (let (cid, p1) = ReadText e p; (ty, p2) = ReadInt32 e p1; (action, p3) = ReadText e p2; (display, p4) = ReadText e p3;
          (inner, p5) = ReadText e p4; (size1, p6) = ReadUint64 e p5; (effective, p7) = ReadUint32 e p6;
          (ota, p8) = ReadUint32 e p7; (dtype, p9) = ReadUint32 e p8; (content, p10) = ReadText e p9; (extra, p11) = ReadText e p10
      in ((True, c\<lparr>vc_componentId := cid, vc_componentType := ty, vc_upgradeAction := action, vc_displayVersion := display,
        vc_innerVersion := inner, vc_size := size1, vc_effectiveMode := effective, vc_otaMode := ota, vc_descriptionType := i32 dtype,
        vc_content := content, vc_componentExtra := extra\<rparr>), p11))"

definition VersionComponent_Unmarshalling :: "parcel_env \<Rightarrow> parcel \<Rightarrow> VersionComponent option \<times> parcel" where
  "VersionComponent_Unmarshalling e p = unmarshalled (VersionComponent_ReadFromParcel e new_version_component p)"

definition VersionComponent_fits :: "parcel_env \<Rightarrow> VersionComponent \<Rightarrow> bool" where
  "VersionComponent_fits e c =
     (list_all (plain e) [vc_componentId c, vc_upgradeAction c, vc_displayVersion c, vc_innerVersion c, vc_content c,
        vc_componentExtra c] \<and> is_u64 (vc_size c) \<and> is_u32 (vc_effectiveMode c) \<and> is_u32 (vc_otaMode c)
      \<and> is_i32 (vc_descriptionType c))"

lemma i32_u32: "is_i32 v \<Longrightarrow> i32 (u32 v) = v"
  by (simp add: is_i32_def i32_def u32_def mod_add_left_eq)

interpretation component_codec: codec VersionComponent_Marshalling VersionComponent_Unmarshalling VersionComponent_items
    VersionComponent_fits
  by unfold_locales
    (simp_all add: VersionComponent_Marshalling_def VersionComponent_Unmarshalling_def VersionComponent_ReadFromParcel_def
      VersionComponent_items_def VersionComponent_fits_def plain_def unmarshalled_def is_u32_def is_u64_def u32_id i32_u32)

section \<open>\<open>TaskBody\<close>, \<open>TaskInfo\<close> and \<open>EventInfo\<close>\<close>

record TaskBody =
  tb_versionDigest :: string
  tb_status :: int
  tb_subStatus :: int
  tb_progress :: int
  tb_installMode :: int
  tb_errorMessages :: "ErrorMessage list"
  tb_versionComponents :: "VersionComponent list"

definition new_task_body :: TaskBody where
  "new_task_body = \<lparr>tb_versionDigest = [], tb_status = 0, tb_subStatus = 0, tb_progress = 0, tb_installMode = 0,
     tb_errorMessages = [], tb_versionComponents = []\<rparr>"

definition TaskBody_Marshalling :: "parcel_env \<Rightarrow> TaskBody \<Rightarrow> parcel \<Rightarrow> bool \<times> parcel" where
  "TaskBody_Marshalling e b p =
     (let p1 = write_unchecked e [Txt (tb_versionDigest b), I32 (tb_status b), I32 (tb_subStatus b), I32 (tb_progress b),
                 I32 (tb_installMode b)] p;
          p2 = write_vector e (\<lambda>m q. snd (ErrorMessage_Marshalling e m q)) (tb_errorMessages b) p1;
          p3 = write_vector e (\<lambda>c q. snd (VersionComponent_Marshalling e c q)) (tb_versionComponents b) p2
      in (True, p3))"

definition TaskBody_ReadFromParcel :: "parcel_env \<Rightarrow> TaskBody \<Rightarrow> parcel \<Rightarrow> (bool \<times> TaskBody) \<times> parcel" where
  "TaskBody_ReadFromParcel e b p =
     (let (digest, p1) = ReadText e p; (status, p2) = ReadInt32 e p1; (sub, p3) = ReadInt32 e p2;
          (progress, p4) = ReadInt32 e p3; (mode, p5) = ReadInt32 e p4;
          b1 = b\<lparr>tb_versionDigest := digest, tb_status := status, tb_subStatus := sub, tb_progress := progress, tb_installMode := mode\<rparr>;
          ((ok, errors), p6) = read_vector e (ErrorMessage_Unmarshalling e) (tb_errorMessages b1) p5;
          b2 = b1\<lparr>tb_errorMessages := errors\<rparr>
      in if \<not> ok then ((False, b2), p6)
         else let ((ok1, components), p7) = read_vector e (VersionComponent_Unmarshalling e) (tb_versionComponents b2) p6
              in ((ok1, b2\<lparr>tb_versionComponents := components\<rparr>), p7))"

definition TaskBody_Unmarshalling :: "parcel_env \<Rightarrow> parcel \<Rightarrow> TaskBody option \<times> parcel" where
  "TaskBody_Unmarshalling e p = unmarshalled (TaskBody_ReadFromParcel e new_task_body p)"

definition TaskBody_items :: "TaskBody \<Rightarrow> item list" where
  "TaskBody_items b = [Txt (tb_versionDigest b), I32 (tb_status b), I32 (tb_subStatus b), I32 (tb_progress b), I32 (tb_installMode b)]
     @ vector_items ErrorMessage_items (tb_errorMessages b) @ vector_items VersionComponent_items (tb_versionComponents b)"

definition TaskBody_fits :: "parcel_env \<Rightarrow> TaskBody \<Rightarrow> bool" where
  "TaskBody_fits e b = (plain e (tb_versionDigest b) \<and> vector_fits (ErrorMessage_fits e) (tb_errorMessages b)
     \<and> vector_fits (VersionComponent_fits e) (tb_versionComponents b))"

interpretation body_codec: codec TaskBody_Marshalling TaskBody_Unmarshalling TaskBody_items TaskBody_fits
  by unfold_locales
    (simp_all add: TaskBody_Marshalling_def TaskBody_Unmarshalling_def TaskBody_ReadFromParcel_def TaskBody_items_def
      TaskBody_fits_def plain_def unmarshalled_def new_task_body_def Let_def error_codec.write_vector_items
      component_codec.write_vector_items error_codec.read_vector_items component_codec.read_vector_items)

text \<open>A task as an application sees it, and an event.\<close>

record TaskInfo_parcel =
  tp_existTask :: bool
  tp_taskBody :: TaskBody

definition TaskInfo_Marshalling :: "parcel_env \<Rightarrow> TaskInfo_parcel \<Rightarrow> parcel \<Rightarrow> bool \<times> parcel" where
  "TaskInfo_Marshalling e t p =
     (case write_checked e [Bool (tp_existTask t)] p of
        (False, p1) \<Rightarrow> (False, p1)
      | (True, p1) \<Rightarrow> (True, snd (TaskBody_Marshalling e (tp_taskBody t) p1)))"

definition TaskInfo_ReadFromParcel :: "parcel_env \<Rightarrow> TaskInfo_parcel \<Rightarrow> parcel \<Rightarrow> (bool \<times> TaskInfo_parcel) \<times> parcel" where
  "TaskInfo_ReadFromParcel e t p =
     (let (exist, p1) = ReadBool e p; t1 = t\<lparr>tp_existTask := exist\<rparr>
      in case TaskBody_Unmarshalling e p1 of
           (Some b, p2) \<Rightarrow> ((True, t1\<lparr>tp_taskBody := b\<rparr>), p2)
         | (None, p2) \<Rightarrow> ((False, t1), p2))"

definition TaskInfo_Unmarshalling :: "parcel_env \<Rightarrow> parcel \<Rightarrow> TaskInfo_parcel option \<times> parcel" where
  "TaskInfo_Unmarshalling e p =
     unmarshalled (TaskInfo_ReadFromParcel e \<lparr>tp_existTask = False, tp_taskBody = new_task_body\<rparr> p)"

interpretation task_codec: codec TaskInfo_Marshalling TaskInfo_Unmarshalling
    "\<lambda>t. Bool (tp_existTask t) # TaskBody_items (tp_taskBody t)" "\<lambda>e t. TaskBody_fits e (tp_taskBody t)"
  by unfold_locales
    (simp_all add: TaskInfo_Marshalling_def TaskInfo_Unmarshalling_def TaskInfo_ReadFromParcel_def unmarshalled_def
      body_codec.marshal_accepting body_codec.unmarshal_items)

record EventInfo =
  ei_eventId :: int
  ei_taskBody :: TaskBody

definition EventInfo_Marshalling :: "parcel_env \<Rightarrow> EventInfo \<Rightarrow> parcel \<Rightarrow> bool \<times> parcel" where
  "EventInfo_Marshalling e i p =
     (case write_checked e [U32 (u32 (ei_eventId i))] p of
        (False, p1) \<Rightarrow> (False, p1)
      | (True, p1) \<Rightarrow> (True, snd (TaskBody_Marshalling e (ei_taskBody i) p1)))"

definition EventInfo_ReadFromParcel :: "parcel_env \<Rightarrow> EventInfo \<Rightarrow> parcel \<Rightarrow> (bool \<times> EventInfo) \<times> parcel" where
  "EventInfo_ReadFromParcel e i p =
     (let (eventId, p1) = ReadUint32 e p; i1 = i\<lparr>ei_eventId := i32 eventId\<rparr>
      in case TaskBody_Unmarshalling e p1 of
           (Some b, p2) \<Rightarrow> ((True, i1\<lparr>ei_taskBody := b\<rparr>), p2)
         | (None, p2) \<Rightarrow> ((False, i1), p2))"

definition EventInfo_Unmarshalling :: "parcel_env \<Rightarrow> parcel \<Rightarrow> EventInfo option \<times> parcel" where
  "EventInfo_Unmarshalling e p = unmarshalled (EventInfo_ReadFromParcel e \<lparr>ei_eventId = 0, ei_taskBody = new_task_body\<rparr> p)"

definition EventInfo_fits :: "parcel_env \<Rightarrow> EventInfo \<Rightarrow> bool" where
  "EventInfo_fits e i = (is_i32 (ei_eventId i) \<and> TaskBody_fits e (ei_taskBody i))"

interpretation event_codec: codec EventInfo_Marshalling EventInfo_Unmarshalling
    "\<lambda>i. U32 (u32 (ei_eventId i)) # TaskBody_items (ei_taskBody i)" EventInfo_fits
  by unfold_locales
    (simp_all add: EventInfo_Marshalling_def EventInfo_Unmarshalling_def EventInfo_ReadFromParcel_def EventInfo_fits_def
      unmarshalled_def body_codec.marshal_accepting body_codec.unmarshal_items i32_u32)

end
