(* ===== verification/Event_Json.thy ===== *)
theory Event_Json
  imports Parcel_Structs
begin

text \<open>
  The text of an event: \<open>foundations/ability/utils/include/json_builder.h\<close>, the \<open>GetJsonBuilder\<close> of the structures in
  \<open>interfaces/inner_api/feature/update/model\<close> and the templates of \<open>task_body_member_mask.h\<close>. A grammar of
  JSON says what such a text means.
\<close>

section \<open>\<open>JsonBuilder\<close>\<close>

record JsonBuilder =
  jb_builder :: string
  jb_isFirstItem :: bool

definition new_builder :: JsonBuilder where "new_builder = \<lparr>jb_builder = [], jb_isFirstItem = True\<rparr>"

definition dquote :: char where "dquote = CHR 0x22"

definition append_raw :: "string \<Rightarrow> JsonBuilder \<Rightarrow> JsonBuilder" where
  "append_raw qualifier b = b\<lparr>jb_builder := jb_builder b @ qualifier\<rparr>"

definition AppendComma :: "JsonBuilder \<Rightarrow> JsonBuilder" where
  "AppendComma b = (if jb_isFirstItem b then b\<lparr>jb_isFirstItem := False\<rparr> else append_raw '','' b)"

definition append_key :: "string \<Rightarrow> string \<Rightarrow> JsonBuilder \<Rightarrow> JsonBuilder" where
  "append_key key value b = append_raw (dquote # key @ dquote # '':'' @ value) (AppendComma b)"

definition append_num :: "string \<Rightarrow> int \<Rightarrow> JsonBuilder \<Rightarrow> JsonBuilder" where
  "append_num key value b = append_key key (to_string value) b"

definition append_bool :: "string \<Rightarrow> bool \<Rightarrow> JsonBuilder \<Rightarrow> JsonBuilder" where
  "append_bool key value b = append_key key (if value then ''true'' else ''false'') b"

definition append_text :: "string \<Rightarrow> string \<Rightarrow> bool \<Rightarrow> JsonBuilder \<Rightarrow> JsonBuilder" where
  "append_text key value isJsonString b = append_key key (if isJsonString then value else dquote # value @ [dquote]) b"

definition append_builder :: "string \<Rightarrow> JsonBuilder \<Rightarrow> JsonBuilder \<Rightarrow> JsonBuilder" where
  "append_builder key jsonBuilder b = append_key key (jb_builder jsonBuilder) b"

text \<open>The elements of an array, with a comma after all but the last.\<close>

fun array_text :: "JsonBuilder list \<Rightarrow> string" where
  "array_text [] = []"
| "array_text [x] = jb_builder x"
| "array_text (x # xs) = jb_builder x @ '','' @ array_text xs"

definition append_list :: "string \<Rightarrow> JsonBuilder list \<Rightarrow> JsonBuilder \<Rightarrow> JsonBuilder" where
  "append_list key valueList b =
     (if valueList = [] then b
      else append_builder key (append_raw '']'' (append_raw (array_text valueList) (append_raw ''['' new_builder))) b)"

text \<open>A chain of calls on a new builder.\<close>

definition chain :: "(JsonBuilder \<Rightarrow> JsonBuilder) list \<Rightarrow> JsonBuilder" where
  "chain fs = fold (\<lambda>f b. f b) fs new_builder"

section \<open>The structures\<close>

definition ErrorMessage_GetJsonBuilder :: "ErrorMessage \<Rightarrow> JsonBuilder" where
  "ErrorMessage_GetJsonBuilder m = chain [append_raw ''{'', append_num ''errorCode'' (em_errorCode m),
     append_text ''errorMessage'' (em_errorMessage m) False, append_raw ''}'']"

definition DescriptionInfo_GetJsonBuilder :: "int \<Rightarrow> string \<Rightarrow> JsonBuilder" where
  "DescriptionInfo_GetJsonBuilder descriptionType content = chain [append_raw ''{'', append_num ''descriptionType'' descriptionType,
     append_text ''content'' content False, append_raw ''}'']"

definition VersionDigestInfo_GetJsonBuilder :: "string \<Rightarrow> JsonBuilder" where
  "VersionDigestInfo_GetJsonBuilder versionDigest =
     chain [append_raw ''{'', append_text ''versionDigest'' versionDigest False, append_raw ''}'']"

definition VersionComponent_GetJsonBuilder :: "VersionComponent \<Rightarrow> JsonBuilder" where
  "VersionComponent_GetJsonBuilder c = chain [append_raw ''{'',
     append_text ''componentId'' (vc_componentId c) False, append_num ''componentType'' (vc_componentType c),
     append_text ''upgradeAction'' (vc_upgradeAction c) False, append_text ''displayVersion'' (vc_displayVersion c) False,
     append_text ''innerVersion'' (vc_innerVersion c) False, append_num ''size'' (i64 (vc_size c)),
     append_num ''effectiveMode'' (i32 (vc_effectiveMode c)), append_num ''otaMode'' (i32 (vc_otaMode c)),
     append_builder ''descriptionInfo'' (DescriptionInfo_GetJsonBuilder (vc_descriptionType c) (vc_content c)),
     append_text ''componentExtra'' (vc_componentExtra c) True, append_raw ''}'']"

definition BusinessType_GetJsonBuilder :: "BusinessType \<Rightarrow> JsonBuilder" where
  "BusinessType_GetJsonBuilder t =
     chain [append_raw ''{'', append_text ''vendor'' (bt_vendor t) False, append_num ''subType'' (bt_subType t), append_raw ''}'']"

record SubscribeInfo =
  si_upgradeApp :: string
  si_businessType :: BusinessType
  si_abilityName :: string
  si_subscriberDevId :: string
  si_upgradeDevId :: string
  si_deviceType :: int
  si_deviceName :: string

definition new_SubscribeInfo :: "int \<Rightarrow> SubscribeInfo" where
  "new_SubscribeInfo subType = \<lparr>si_upgradeApp = ''com.ohos.updateapp'', si_businessType = BusinessType [] subType,
     si_abilityName = [], si_subscriberDevId = [], si_upgradeDevId = [], si_deviceType = 0, si_deviceName = []\<rparr>"

definition SubscribeInfo_GetJsonBuilder :: "SubscribeInfo \<Rightarrow> JsonBuilder" where
  "SubscribeInfo_GetJsonBuilder s = chain [append_raw ''{'', append_text ''upgradeApp'' (si_upgradeApp s) False,
     append_builder ''businessType'' (BusinessType_GetJsonBuilder (si_businessType s)),
     append_text ''abilityName'' (si_abilityName s) False, append_text ''subscriberDevId'' (si_subscriberDevId s) False,
     append_text ''upgradeDevId'' (si_upgradeDevId s) False, append_num ''deviceType'' (si_deviceType s),
     append_text ''deviceName'' (si_deviceName s) False, append_raw ''}'']"

section \<open>Events\<close>

fun event_code :: "EventId \<Rightarrow> int" where
  "event_code EVENT_TASK_BASE = 16777216" | "event_code EVENT_TASK_RECEIVE = 16777217"
| "event_code EVENT_TASK_CANCEL = 16777218" | "event_code EVENT_DOWNLOAD_WAIT = 16777219"
| "event_code EVENT_DOWNLOAD_START = 16777220" | "event_code EVENT_DOWNLOAD_UPDATE = 16777221"
| "event_code EVENT_DOWNLOAD_PAUSE = 16777222" | "event_code EVENT_DOWNLOAD_RESUME = 16777223"
| "event_code EVENT_DOWNLOAD_SUCCESS = 16777224" | "event_code EVENT_DOWNLOAD_FAIL = 16777225"
| "event_code EVENT_UPGRADE_WAIT = 16777226" | "event_code EVENT_UPGRADE_START = 16777227"
| "event_code EVENT_UPGRADE_UPDATE = 16777228" | "event_code EVENT_APPLY_WAIT = 16777229"
| "event_code EVENT_APPLY_START = 16777230" | "event_code EVENT_UPGRADE_SUCCESS = 16777231"
| "event_code EVENT_UPGRADE_FAIL = 16777232" | "event_code EVENT_UPGRADE_PAUSE = 16777233"
| "event_code EVENT_AUTH_START = 16777234" | "event_code EVENT_AUTH_SUCCESS = 16777235"
| "event_code EVENT_DOWNLOAD_CANCEL = 16777236" | "event_code EVENT_TASK_CHANGE = 16777237"
| "event_code EVENT_VERSION_INFO_CHANGE = 16777238" | "event_code EVENT_TRANSFER_WAIT = 16777239"
| "event_code EVENT_TRANSFER_START = 16777240" | "event_code EVENT_TRANSFERING = 16777241"
| "event_code EVENT_TRANSFER_SUCCESS = 16777242" | "event_code EVENT_TRANSFER_FAIL = 16777243"
| "event_code EVENT_INITIALIZE = 67108865"

text \<open>The members that an event shows, as the bits of \<open>TaskBodyMemberMask\<close>.\<close>

datatype TaskBodyMember = VERSION_DIGEST_INFO | UPGRADE_STATUS | SUB_STATUS | PROGRESS | INSTALL_MODE | ERROR_MESSAGE | VERSION_COMPONENT

fun taskBodyTemplate :: "EventId \<Rightarrow> TaskBodyMember list option" where
  "taskBodyTemplate EVENT_TASK_RECEIVE = Some [VERSION_DIGEST_INFO]"
| "taskBodyTemplate EVENT_TASK_CHANGE = Some [VERSION_DIGEST_INFO, UPGRADE_STATUS, PROGRESS]"
| "taskBodyTemplate EVENT_TASK_CANCEL = Some [VERSION_DIGEST_INFO]"
| "taskBodyTemplate EVENT_VERSION_INFO_CHANGE = Some [VERSION_DIGEST_INFO, UPGRADE_STATUS]"
| "taskBodyTemplate EVENT_DOWNLOAD_WAIT = Some [VERSION_DIGEST_INFO, UPGRADE_STATUS, INSTALL_MODE]"
| "taskBodyTemplate EVENT_DOWNLOAD_START = Some [VERSION_DIGEST_INFO, INSTALL_MODE]"
| "taskBodyTemplate EVENT_DOWNLOAD_UPDATE = Some [VERSION_DIGEST_INFO, UPGRADE_STATUS, PROGRESS, INSTALL_MODE, SUB_STATUS]"
| "taskBodyTemplate EVENT_DOWNLOAD_PAUSE = Some [VERSION_DIGEST_INFO, UPGRADE_STATUS, PROGRESS, INSTALL_MODE, ERROR_MESSAGE]"
| "taskBodyTemplate EVENT_DOWNLOAD_RESUME = Some [VERSION_DIGEST_INFO, UPGRADE_STATUS, PROGRESS, INSTALL_MODE]"
| "taskBodyTemplate EVENT_DOWNLOAD_SUCCESS = Some [VERSION_DIGEST_INFO, INSTALL_MODE, SUB_STATUS]"
| "taskBodyTemplate EVENT_DOWNLOAD_CANCEL = Some [VERSION_DIGEST_INFO, UPGRADE_STATUS]"
| "taskBodyTemplate EVENT_DOWNLOAD_FAIL = Some [VERSION_DIGEST_INFO, INSTALL_MODE, ERROR_MESSAGE, SUB_STATUS]"
| "taskBodyTemplate EVENT_TRANSFER_WAIT = Some [VERSION_DIGEST_INFO, UPGRADE_STATUS, INSTALL_MODE, SUB_STATUS]"
| "taskBodyTemplate EVENT_TRANSFER_START = Some [VERSION_DIGEST_INFO, INSTALL_MODE]"
| "taskBodyTemplate EVENT_TRANSFERING = Some [VERSION_DIGEST_INFO, UPGRADE_STATUS, PROGRESS, INSTALL_MODE, SUB_STATUS]"
| "taskBodyTemplate EVENT_TRANSFER_SUCCESS = Some [VERSION_DIGEST_INFO, INSTALL_MODE]"
| "taskBodyTemplate EVENT_TRANSFER_FAIL = Some [VERSION_DIGEST_INFO, ERROR_MESSAGE, INSTALL_MODE]"
| "taskBodyTemplate EVENT_UPGRADE_WAIT = Some [VERSION_DIGEST_INFO, UPGRADE_STATUS, INSTALL_MODE, ERROR_MESSAGE, SUB_STATUS]"
| "taskBodyTemplate EVENT_UPGRADE_START = Some [VERSION_DIGEST_INFO, UPGRADE_STATUS, INSTALL_MODE]"
| "taskBodyTemplate EVENT_UPGRADE_UPDATE = Some [VERSION_DIGEST_INFO, UPGRADE_STATUS, PROGRESS, INSTALL_MODE]"
| "taskBodyTemplate EVENT_APPLY_WAIT = Some [VERSION_DIGEST_INFO, UPGRADE_STATUS, ERROR_MESSAGE]"
| "taskBodyTemplate EVENT_APPLY_START = Some [VERSION_DIGEST_INFO]"
| "taskBodyTemplate EVENT_UPGRADE_SUCCESS = Some [VERSION_DIGEST_INFO, VERSION_COMPONENT, SUB_STATUS]"
| "taskBodyTemplate EVENT_UPGRADE_FAIL = Some [VERSION_DIGEST_INFO, VERSION_COMPONENT, ERROR_MESSAGE]"
| "taskBodyTemplate EVENT_UPGRADE_PAUSE = Some [VERSION_DIGEST_INFO, UPGRADE_STATUS, PROGRESS, ERROR_MESSAGE]"
| "taskBodyTemplate EVENT_AUTH_START = Some [VERSION_DIGEST_INFO, VERSION_COMPONENT, UPGRADE_STATUS]"
| "taskBodyTemplate EVENT_AUTH_SUCCESS = Some [VERSION_DIGEST_INFO, VERSION_COMPONENT, UPGRADE_STATUS]"
| "taskBodyTemplate EVENT_INITIALIZE = Some [UPGRADE_STATUS]"
| "taskBodyTemplate _ = None"

definition shown :: "TaskBodyMember list \<Rightarrow> TaskBodyMember \<Rightarrow> (JsonBuilder \<Rightarrow> JsonBuilder) \<Rightarrow> JsonBuilder \<Rightarrow> JsonBuilder" where
  "shown members m f = (if m \<in> set members then f else id)"

definition TaskBody_GetJsonBuilder :: "EventId \<Rightarrow> TaskBody \<Rightarrow> JsonBuilder" where
  "TaskBody_GetJsonBuilder eventId b =
     (case taskBodyTemplate eventId of
        None \<Rightarrow> new_builder
      | Some ms \<Rightarrow> chain [append_raw ''{'',
          shown ms VERSION_DIGEST_INFO (append_builder ''versionDigestInfo'' (VersionDigestInfo_GetJsonBuilder (tb_versionDigest b))),
          shown ms UPGRADE_STATUS (append_num ''status'' (tb_status b)),
          shown ms SUB_STATUS (append_num ''subStatus'' (tb_subStatus b)),
          shown ms PROGRESS (append_num ''progress'' (tb_progress b)),
          shown ms INSTALL_MODE (append_num ''installMode'' (tb_installMode b)),
          shown ms ERROR_MESSAGE (append_list ''errorMessages'' (map ErrorMessage_GetJsonBuilder (tb_errorMessages b))),
          shown ms VERSION_COMPONENT (append_list ''versionComponents'' (map VersionComponent_GetJsonBuilder (tb_versionComponents b))),
          append_raw ''}''])"

definition EventInfo_ToJson :: "EventId \<Rightarrow> TaskBody \<Rightarrow> string" where
  "EventInfo_ToJson eventId b = jb_builder (chain [append_raw ''{'', append_num ''eventId'' (event_code eventId),
     append_builder ''taskBody'' (TaskBody_GetJsonBuilder eventId b), append_raw ''}''])"

text \<open>The task body of an event of the firmware layer (\<open>BaseCallbackUtils::NotifyEvent\<close>, \<open>UpdateServiceUtil::BuildTaskBody\<close>).\<close>

definition event_body :: "fw_event \<Rightarrow> TaskBody" where
  "event_body ev = new_task_body\<lparr>tb_status := ustatus_code (ev_status ev), tb_progress := ev_progress ev,
     tb_versionDigest := ev_digest ev, tb_errorMessages := ev_errors ev, tb_versionComponents := ev_components ev\<rparr>"

section \<open>What a JSON text means\<close>

text \<open>The part of JSON (RFC 8259) without blanks, fractions and escapes: enough for every text the builder is meant to make.\<close>

datatype json_value = VNull | VNum int | VStr string | VObj "(string \<times> json_value) list" | VArr "json_value list"

definition clean :: "string \<Rightarrow> bool" where
  "clean s = list_all (\<lambda>c. c \<noteq> dquote \<and> c \<noteq> CHR 0x5C \<and> 32 \<le> (of_char c :: nat)) s"

inductive json_text :: "string \<Rightarrow> json_value \<Rightarrow> bool"
  and members_text :: "string \<Rightarrow> (string \<times> json_value) list \<Rightarrow> bool"
  and elements_text :: "string \<Rightarrow> json_value list \<Rightarrow> bool" where
  null: "json_text ''null'' VNull"
| number: "json_text (to_string n) (VNum n)"
| quoted: "clean s \<Longrightarrow> json_text (dquote # s @ [dquote]) (VStr s)"
| empty_object: "json_text ''{}'' (VObj [])"
| object: "members_text s ms \<Longrightarrow> json_text (''{'' @ s @ ''}'') (VObj ms)"
| array: "elements_text s vs \<Longrightarrow> json_text (''['' @ s @ '']'') (VArr vs)"
| one_member: "clean k \<Longrightarrow> json_text s v \<Longrightarrow> members_text (dquote # k @ dquote # '':'' @ s) [(k, v)]"
| more_members: "clean k \<Longrightarrow> json_text s v \<Longrightarrow> members_text t ms \<Longrightarrow>
    members_text (dquote # k @ dquote # '':'' @ s @ '','' @ t) ((k, v) # ms)"
| one_element: "json_text s v \<Longrightarrow> elements_text s [v]"
| more_elements: "json_text s v \<Longrightarrow> elements_text t vs \<Longrightarrow> elements_text (s @ '','' @ t) (v # vs)"

section \<open>A text has one meaning\<close>

text \<open>What may follow a value.\<close>

definition delimited :: "string \<Rightarrow> bool" where
  "delimited r = (r = [] \<or> hd r \<in> {CHR '','', CHR ''}'', CHR '']''})"

inductive_cases json_nullE: "json_text s VNull"
inductive_cases json_numE: "json_text s (VNum n)"
inductive_cases json_strE: "json_text s (VStr t)"
inductive_cases json_objE: "json_text s (VObj ms)"
inductive_cases json_arrE: "json_text s (VArr vs)"

lemma quoted_split: "clean s \<Longrightarrow> clean s' \<Longrightarrow> s @ dquote # r = s' @ dquote # r' \<Longrightarrow> s = s' \<and> r = r'"
proof (induction s arbitrary: s')
  case Nil
  then show ?case by (cases s') (auto simp: clean_def)
next
  case (Cons c s)
  then show ?case by (cases s') (auto simp: clean_def)
qed

definition number_char :: "char \<Rightarrow> bool" where "number_char c = (cxx_isdigit c \<or> c = CHR ''-'')"

lemma number_chars: "\<forall>c \<in> set (to_string n). number_char c" "to_string n \<noteq> []"
  by (auto simp: to_string_def number_char_def nat_digits_ne dest: nat_digits_digit)

lemma not_number_char: "\<not> number_char (CHR '','')" "\<not> number_char (CHR ''}'')" "\<not> number_char (CHR '']'')"
  "\<not> number_char (CHR ''{'')" "\<not> number_char (CHR ''['')" "\<not> number_char (CHR ''n'')" "\<not> number_char dquote" "\<not> number_char (CHR 0x22)"
  by (simp_all add: number_char_def cxx_isdigit_def dquote_def)

lemma number_split:
  assumes "to_string n @ r = to_string n' @ r'" "delimited r" "delimited r'"
  shows "n = n' \<and> r = r'"
proof -
  have stop: "takeWhile number_char x = []" "dropWhile number_char x = x" if "delimited x" for x
    using that not_number_char by (cases x; auto simp: delimited_def)+
  have scan: "takeWhile number_char (to_string k @ x) = to_string k" "dropWhile number_char (to_string k @ x) = x"
    if "delimited x" for k x
    using stop [OF that] number_chars(1) [of k]
    by (metis append_Nil2 takeWhile_append2, metis dropWhile_append2)
  have "to_string n = takeWhile number_char (to_string n @ r)" by (rule scan(1) [OF assms(2), symmetric])
  also have "\<dots> = to_string n'" by (simp only: assms(1) scan(1) [OF assms(3)])
  finally have same: "to_string n = to_string n'" .
  have "from_chars (to_string n) = Some ([], n')" unfolding same by (rule from_chars_to_string)
  from trans [OF from_chars_to_string [symmetric] this] have "n = n'" by (simp only: option.inject prod.inject)
  moreover have "r = r'" using assms(1) by (simp only: same append_same_eq same_append_eq)
  ultimately show ?thesis ..
qed

text \<open>The first character tells the kind of a value.\<close>

fun starts :: "json_value \<Rightarrow> char \<Rightarrow> bool" where
  "starts VNull c = (c = CHR ''n'')"
| "starts (VNum _) c = number_char c"
| "starts (VStr _) c = (c = dquote)"
| "starts (VObj _) c = (c = CHR ''{'')"
| "starts (VArr _) c = (c = CHR ''['')"

lemma json_starts: "json_text s v \<Longrightarrow> \<exists>c t. s = c # t \<and> starts v c"
proof (erule json_text.cases)
  fix n assume "s = to_string n" "v = VNum n"
  then show ?thesis using number_chars [of n] by (cases "to_string n") auto
qed auto

lemma starts_same:
  assumes "json_text s v" "json_text s' v'" "s @ r = s' @ r'"
  obtains c where "starts v c" "starts v' c"
  using json_starts [OF assms(1)] json_starts [OF assms(2)] assms(3) by auto

lemma members_head: "members_text s ms \<Longrightarrow> \<exists>t. s = dquote # t"
  by (erule members_text.cases) auto

lemma delimiters [simp]: "delimited []" "delimited (CHR '','' # r)" "delimited (CHR ''}'' # r)" "delimited (CHR '']'' # r)"
  by (simp_all add: delimited_def)

lemma json_unique_split:
  "json_text s v \<Longrightarrow> json_text s' v' \<Longrightarrow> s @ r = s' @ r' \<Longrightarrow> delimited r \<Longrightarrow> delimited r' \<Longrightarrow> v = v' \<and> r = r'"
  "members_text s ms \<Longrightarrow> members_text s' ms' \<Longrightarrow> s @ CHR ''}'' # r = s' @ CHR ''}'' # r' \<Longrightarrow> ms = ms' \<and> r = r'"
  "elements_text s vs \<Longrightarrow> elements_text s' vs' \<Longrightarrow> s @ CHR '']'' # r = s' @ CHR '']'' # r' \<Longrightarrow> vs = vs' \<and> r = r'"
proof (induction arbitrary: s' v' r r' and s' ms' r r' and s' vs' r r'
    rule: json_text_members_text_elements_text.inducts)
  case null
  obtain c where "starts VNull c" "starts v' c" using starts_same [OF json_text_members_text_elements_text.null null(1,2)] .
  then have "v' = VNull" by (cases v') (auto simp: not_number_char dquote_def)
  with null show ?case by (auto elim: json_nullE)
next
  case (number n)
  obtain c where "starts (VNum n) c" "starts v' c" using starts_same [OF json_text_members_text_elements_text.number number(1,2)] .
  then obtain m where "v' = VNum m" by (cases v') (auto simp: not_number_char)
  with number number_split show ?case by (auto elim!: json_numE)
next
  case (quoted s)
  obtain c where "starts (VStr s) c" "starts v' c"
    using starts_same [OF json_text_members_text_elements_text.quoted [OF quoted(1)] quoted(2,3)] .
  then obtain t where "v' = VStr t" by (cases v') (auto simp: not_number_char dquote_def)
  with quoted(2) have t: "clean t" "s' = dquote # t @ [dquote]" by (auto elim: json_strE)
  with quoted(3) have "s @ dquote # r = t @ dquote # r'" by simp
  from quoted_split [OF quoted(1) t(1) this] \<open>v' = VStr t\<close> show ?case by simp
next
  case empty_object
  obtain c where "starts (VObj []) c" "starts v' c"
    using starts_same [OF json_text_members_text_elements_text.empty_object empty_object(1,2)] .
  then obtain ms where "v' = VObj ms" by (cases v') (auto simp: not_number_char dquote_def)
  with empty_object show ?case by (auto elim!: json_objE dest!: members_head simp: dquote_def)
next
  case (object s ms)
  obtain c where "starts (VObj ms) c" "starts v' c"
    using starts_same [OF json_text_members_text_elements_text.object [OF object(1)] object(3,4)] .
  then obtain ms' where "v' = VObj ms'" by (cases v') (auto simp: not_number_char dquote_def)
  with object(3) show ?case
  proof (auto elim!: json_objE)
    show "ms = []" if "s' = ''{}''" using that object(1,4) by (auto dest!: members_head simp: dquote_def)
    show "r = r'" if "s' = ''{}''" using that object(1,4) by (auto dest!: members_head simp: dquote_def)
  next
    fix t assume "members_text t ms'" "s' = CHR ''{'' # t @ ''}''"
    with object(2) [of t ms' r r'] object(4) show "ms = ms'" "r = r'" by simp_all
  qed
next
  case (array s vs)
  obtain c where "starts (VArr vs) c" "starts v' c"
    using starts_same [OF json_text_members_text_elements_text.array [OF array(1)] array(3,4)] .
  then obtain vs' where "v' = VArr vs'" by (cases v') (auto simp: not_number_char dquote_def)
  with array(3) array(2) array(4) show ?case by (fastforce elim!: json_arrE)
next
  case (one_member k s v)
  from one_member(4) show ?case
  proof cases
    case (one_member k' s1 v1)
    then show ?thesis
      using one_member.prems(2) \<open>clean k\<close> quoted_split [of k k' "'':'' @ s @ CHR ''}'' # r" "'':'' @ s1 @ CHR ''}'' # r'"]
        one_member.IH [of s1 v1 "CHR ''}'' # r" "CHR ''}'' # r'"] by simp
  next
    case (more_members k' s1 v1 t ms)
    then show ?thesis
      using one_member.prems(2) \<open>clean k\<close> quoted_split [of k k' "'':'' @ s @ CHR ''}'' # r" "'':'' @ s1 @ '','' @ t @ CHR ''}'' # r'"]
        one_member.IH [of s1 v1 "CHR ''}'' # r" "'','' @ t @ CHR ''}'' # r'"] by simp
  qed
next
  case (more_members k s v t ms)
  from more_members(6) show ?case
  proof cases
    case (one_member k' s1 v1)
    then show ?thesis
      using more_members.prems(2) \<open>clean k\<close> quoted_split [of k k' "'':'' @ s @ '','' @ t @ CHR ''}'' # r" "'':'' @ s1 @ CHR ''}'' # r'"]
        more_members.IH(1) [of s1 v1 "'','' @ t @ CHR ''}'' # r" "CHR ''}'' # r'"] by simp
  next
    case (more_members k' s1 v1 u ms1)
    then show ?thesis
      using more_members.prems(2) \<open>clean k\<close>
        quoted_split [of k k' "'':'' @ s @ '','' @ t @ CHR ''}'' # r" "'':'' @ s1 @ '','' @ u @ CHR ''}'' # r'"]
        more_members.IH(1) [of s1 v1 "'','' @ t @ CHR ''}'' # r" "'','' @ u @ CHR ''}'' # r'"]
        more_members.IH(2) [of u ms1 r r'] by simp
  qed
next
  case (one_element s v)
  from one_element(3) show ?case
  proof cases
    case one_element
    then show ?thesis using one_element.prems(2) one_element.IH [of s' _ "CHR '']'' # r" "CHR '']'' # r'"] by auto
  next
    case (more_elements s1 v1 t vs)
    then show ?thesis
      using one_element.prems(2) one_element.IH [of s1 v1 "CHR '']'' # r" "'','' @ t @ CHR '']'' # r'"] by simp
  qed
next
  case (more_elements s v t vs)
  from more_elements(5) show ?case
  proof cases
    case (one_element v1)
    then show ?thesis
      using more_elements.prems(2) more_elements.IH(1) [of s' v1 "'','' @ t @ CHR '']'' # r" "CHR '']'' # r'"] by simp
  next
    case (more_elements s1 v1 u vs1)
    then show ?thesis
      using more_elements.prems(2) more_elements.IH(1) [of s1 v1 "'','' @ t @ CHR '']'' # r" "'','' @ u @ CHR '']'' # r'"]
        more_elements.IH(2) [of u vs1 r r'] by simp
  qed
qed

lemma json_unique: "json_text s v \<Longrightarrow> json_text s v' \<Longrightarrow> v = v'"
  using json_unique_split(1) [of s v s v' "[]" "[]"] by simp

section \<open>What a builder has built\<close>

lemma members_append:
  "members_text s ms \<Longrightarrow> members_text t ms' \<Longrightarrow> members_text (s @ '','' @ t) (ms @ ms')"
proof (induction rule: json_text_members_text_elements_text.inducts(2) [where ?P1.0 = "\<lambda>_ _. True" and ?P3.0 = "\<lambda>_ _. True"])
  case (one_member k s v)
  then show ?case using json_text_members_text_elements_text.more_members [of k s v t ms'] by simp
next
  case (more_members k s v u ms)
  then show ?case using json_text_members_text_elements_text.more_members [of k s v "u @ '','' @ t" "ms @ ms'"] by simp
qed simp_all

text \<open>A builder in the middle of an object with the members \<open>ms\<close>.\<close>

definition shows_object :: "JsonBuilder \<Rightarrow> (string \<times> json_value) list \<Rightarrow> bool" where
  "shows_object b ms = (\<exists>s. jb_builder b = ''{'' @ s \<and> (if ms = [] then s = [] else members_text s ms) \<and> (jb_isFirstItem b \<longleftrightarrow> ms = []))"

named_theorems json_intros \<open>what the calls on a builder add to its object\<close>

lemma object_begin [json_intros]: "shows_object (append_raw ''{'' new_builder) []"
  by (simp add: shows_object_def append_raw_def new_builder_def)

lemma object_key:
  assumes "shows_object b ms" "clean key" "json_text s v"
  shows "shows_object (append_key key s b) (ms @ [(key, v)])"
proof (cases "ms = []")
  case True
  with assms show ?thesis
    using json_text_members_text_elements_text.one_member [of key s v] by (auto simp: shows_object_def append_key_def append_raw_def AppendComma_def)
next
  case False
  with assms(1) obtain t where t: "jb_builder b = ''{'' @ t" "members_text t ms" "\<not> jb_isFirstItem b" by (auto simp: shows_object_def)
  have "members_text (t @ '','' @ (dquote # key @ dquote # '':'' @ s)) (ms @ [(key, v)])"
    by (intro members_append json_text_members_text_elements_text.one_member t assms(2,3))
  with t show ?thesis by (simp add: shows_object_def append_key_def append_raw_def AppendComma_def)
qed

lemma object_num [json_intros]: "shows_object b ms \<Longrightarrow> clean key \<Longrightarrow> shows_object (append_num key n b) (ms @ [(key, VNum n)])"
  by (simp add: append_num_def object_key json_text_members_text_elements_text.number)

lemma object_text [json_intros]:
  "shows_object b ms \<Longrightarrow> clean key \<Longrightarrow> clean s \<Longrightarrow> shows_object (append_text key s False b) (ms @ [(key, VStr s)])"
  by (simp add: append_text_def object_key json_text_members_text_elements_text.quoted)

lemma object_json [json_intros]:
  "shows_object b ms \<Longrightarrow> clean key \<Longrightarrow> json_text s v \<Longrightarrow> shows_object (append_text key s True b) (ms @ [(key, v)])"
  by (simp add: append_text_def object_key)

lemma object_builder [json_intros]:
  "shows_object b ms \<Longrightarrow> clean key \<Longrightarrow> json_text (jb_builder x) v \<Longrightarrow> shows_object (append_builder key x b) (ms @ [(key, v)])"
  by (simp add: append_builder_def object_key)

lemma array_text_elements:
  "list_all2 (\<lambda>x v. json_text (jb_builder x) v) xs vs \<Longrightarrow> xs \<noteq> [] \<Longrightarrow> elements_text (array_text xs) vs"
proof (induction xs arbitrary: vs rule: array_text.induct)
  case (3 x y xs)
  then obtain v ws where "vs = v # ws" "json_text (jb_builder x) v" "list_all2 (\<lambda>x v. json_text (jb_builder x) v) (y # xs) ws"
    by (auto simp: list_all2_Cons1)
  with 3 show ?case by (simp only: array_text.simps) (rule json_text_members_text_elements_text.more_elements, simp_all)
qed (auto simp: list_all2_Cons1 intro: json_text_members_text_elements_text.one_element)

text \<open>An empty vector adds no member.\<close>

definition list_member :: "string \<Rightarrow> json_value list \<Rightarrow> (string \<times> json_value) list" where
  "list_member key vs = (if vs = [] then [] else [(key, VArr vs)])"

lemma object_list [json_intros]:
  assumes "shows_object b ms" "clean key" "list_all2 (\<lambda>x v. json_text (jb_builder x) v) xs vs"
  shows "shows_object (append_list key xs b) (ms @ list_member key vs)"
proof (cases "xs = []")
  case False
  then have "json_text (''['' @ array_text xs @ '']'') (VArr vs)"
    by (intro json_text_members_text_elements_text.array array_text_elements assms(3))
  with assms False show ?thesis
    by (auto simp: append_list_def list_member_def append_raw_def new_builder_def intro: object_builder)
qed (use assms in \<open>simp add: append_list_def list_member_def\<close>)

lemma object_shown [json_intros]:
  assumes "shows_object b ms" "\<And>b. shows_object b ms \<Longrightarrow> shows_object (f b) (ms @ ns)"
  shows "shows_object (shown members m f b) (ms @ (if m \<in> set members then ns else []))"
  using assms by (simp add: shown_def)

lemma object_end: "shows_object b ms \<Longrightarrow> json_text (jb_builder (append_raw ''}'' b)) (VObj ms)"
  using json_text_members_text_elements_text.object json_text_members_text_elements_text.empty_object
  by (fastforce simp: shows_object_def append_raw_def split: if_splits)

section \<open>The text of an event is JSON for it\<close>

definition error_value :: "ErrorMessage \<Rightarrow> json_value" where
  "error_value m = VObj [(''errorCode'', VNum (em_errorCode m)), (''errorMessage'', VStr (em_errorMessage m))]"

definition component_value :: "json_value \<Rightarrow> VersionComponent \<Rightarrow> json_value" where
  "component_value extra c = VObj [(''componentId'', VStr (vc_componentId c)), (''componentType'', VNum (vc_componentType c)),
     (''upgradeAction'', VStr (vc_upgradeAction c)), (''displayVersion'', VStr (vc_displayVersion c)),
     (''innerVersion'', VStr (vc_innerVersion c)), (''size'', VNum (i64 (vc_size c))),
     (''effectiveMode'', VNum (i32 (vc_effectiveMode c))), (''otaMode'', VNum (i32 (vc_otaMode c))),
     (''descriptionInfo'', VObj [(''descriptionType'', VNum (vc_descriptionType c)), (''content'', VStr (vc_content c))]),
     (''componentExtra'', extra)]"

definition error_clean :: "ErrorMessage \<Rightarrow> bool" where "error_clean m = clean (em_errorMessage m)"

definition component_clean :: "json_value \<Rightarrow> VersionComponent \<Rightarrow> bool" where
  "component_clean extra c = (list_all clean [vc_componentId c, vc_upgradeAction c, vc_displayVersion c, vc_innerVersion c, vc_content c]
     \<and> json_text (vc_componentExtra c) extra)"

definition showing :: "'m list \<Rightarrow> 'm \<Rightarrow> 'x list \<Rightarrow> 'x list" where "showing ms m xs = (if m \<in> set ms then xs else [])"

definition body_value :: "TaskBodyMember list \<Rightarrow> json_value list \<Rightarrow> TaskBody \<Rightarrow> json_value" where
  "body_value ms extras b = VObj (
     showing ms VERSION_DIGEST_INFO [(''versionDigestInfo'', VObj [(''versionDigest'', VStr (tb_versionDigest b))])]
     @ showing ms UPGRADE_STATUS [(''status'', VNum (tb_status b))] @ showing ms SUB_STATUS [(''subStatus'', VNum (tb_subStatus b))]
     @ showing ms PROGRESS [(''progress'', VNum (tb_progress b))] @ showing ms INSTALL_MODE [(''installMode'', VNum (tb_installMode b))]
     @ showing ms ERROR_MESSAGE (list_member ''errorMessages'' (map error_value (tb_errorMessages b)))
     @ showing ms VERSION_COMPONENT (list_member ''versionComponents'' (map2 component_value extras (tb_versionComponents b))))"

definition event_value :: "EventId \<Rightarrow> TaskBodyMember list \<Rightarrow> json_value list \<Rightarrow> TaskBody \<Rightarrow> json_value" where
  "event_value eventId ms extras b =
     VObj [(''eventId'', VNum (event_code eventId)), (''taskBody'', body_value ms extras b)]"

lemma clean_keys [simp]:
  "clean ''errorCode''" "clean ''errorMessage''" "clean ''descriptionType''" "clean ''content''" "clean ''versionDigest''"
  "clean ''componentId''" "clean ''componentType''" "clean ''upgradeAction''" "clean ''displayVersion''" "clean ''innerVersion''"
  "clean ''size''" "clean ''effectiveMode''" "clean ''otaMode''" "clean ''descriptionInfo''" "clean ''componentExtra''"
  "clean ''versionDigestInfo''" "clean ''status''" "clean ''subStatus''" "clean ''progress''" "clean ''installMode''"
  "clean ''errorMessages''" "clean ''versionComponents''" "clean ''eventId''" "clean ''taskBody''"
  by (simp_all add: clean_def dquote_def)

lemma error_json: "error_clean m \<Longrightarrow> json_text (jb_builder (ErrorMessage_GetJsonBuilder m)) (error_value m)"
  unfolding ErrorMessage_GetJsonBuilder_def error_value_def chain_def error_clean_def
  using object_end [OF object_text [OF object_num [OF object_begin]]] by simp

lemma description_json:
  "clean content \<Longrightarrow> json_text (jb_builder (DescriptionInfo_GetJsonBuilder ty content))
     (VObj [(''descriptionType'', VNum ty), (''content'', VStr content)])"
  unfolding DescriptionInfo_GetJsonBuilder_def chain_def
  using object_end [OF object_text [OF object_num [OF object_begin]]] by simp

lemma digest_json:
  "clean d \<Longrightarrow> json_text (jb_builder (VersionDigestInfo_GetJsonBuilder d)) (VObj [(''versionDigest'', VStr d)])"
  unfolding VersionDigestInfo_GetJsonBuilder_def chain_def using object_end [OF object_text [OF object_begin]] by simp

lemma component_json:
  assumes "component_clean extra c"
  shows "json_text (jb_builder (VersionComponent_GetJsonBuilder c)) (component_value extra c)"
proof -
  let ?b = "append_text ''innerVersion'' (vc_innerVersion c) False (append_text ''displayVersion'' (vc_displayVersion c) False
    (append_text ''upgradeAction'' (vc_upgradeAction c) False (append_num ''componentType'' (vc_componentType c)
    (append_text ''componentId'' (vc_componentId c) False (append_raw ''{'' new_builder)))))"
  have c: "clean (vc_componentId c)" "clean (vc_upgradeAction c)" "clean (vc_displayVersion c)" "clean (vc_innerVersion c)"
    "clean (vc_content c)" "json_text (vc_componentExtra c) extra"
    using assms by (simp_all add: component_clean_def)
  have "shows_object ?b [(''componentId'', VStr (vc_componentId c)), (''componentType'', VNum (vc_componentType c)),
     (''upgradeAction'', VStr (vc_upgradeAction c)), (''displayVersion'', VStr (vc_displayVersion c)),
     (''innerVersion'', VStr (vc_innerVersion c))]"
    using object_text [OF object_text [OF object_text [OF object_num [OF object_text [OF object_begin]]]]] c by simp
  note members = object_json [OF object_builder [OF object_num [OF object_num [OF object_num [OF this]]]]]
  show ?thesis
    unfolding VersionComponent_GetJsonBuilder_def component_value_def chain_def
    using object_end [OF members, of "''size''" "''effectiveMode''" "''otaMode''" "''descriptionInfo''"
        "DescriptionInfo_GetJsonBuilder (vc_descriptionType c) (vc_content c)" _ "''componentExtra''" "vc_componentExtra c" extra]
      c description_json [OF c(5), of "vc_descriptionType c"]
    by simp
qed

lemma body_json:
  assumes "taskBodyTemplate eventId = Some ms" "clean (tb_versionDigest b)" "list_all error_clean (tb_errorMessages b)"
    and "list_all2 component_clean extras (tb_versionComponents b)"
  shows "json_text (jb_builder (TaskBody_GetJsonBuilder eventId b)) (body_value ms extras b)"
proof -
  have errors: "list_all2 (\<lambda>x v. json_text (jb_builder x) v) (map ErrorMessage_GetJsonBuilder (tb_errorMessages b))
      (map error_value (tb_errorMessages b))"
    using assms(3) by (induction "tb_errorMessages b") (auto simp: list.rel_map list.rel_refl_strong list_all_iff error_json)
  have components: "list_all2 (\<lambda>x v. json_text (jb_builder x) v) (map VersionComponent_GetJsonBuilder (tb_versionComponents b))
      (map2 component_value extras (tb_versionComponents b))"
    using assms(4) by (auto simp: list_all2_conv_all_nth component_json)
  show ?thesis
    using assms(1) object_end
      [OF object_shown [OF object_shown [OF object_shown [OF object_shown [OF object_shown [OF object_shown [OF object_shown
        [OF object_begin object_builder] object_num] object_num] object_num] object_num] object_list] object_list]]
      digest_json [OF assms(2)] errors components
    by (simp add: TaskBody_GetJsonBuilder_def body_value_def chain_def showing_def)
qed

lemma event_json:
  assumes "taskBodyTemplate eventId = Some ms" "clean (tb_versionDigest b)" "list_all error_clean (tb_errorMessages b)"
    and "list_all2 component_clean extras (tb_versionComponents b)"
  shows "json_text (EventInfo_ToJson eventId b) (event_value eventId ms extras b)"
  unfolding EventInfo_ToJson_def event_value_def chain_def
  using object_end [OF object_builder [OF object_num [OF object_begin] _ body_json [OF assms]]] by simp

end
