(* ===== verification/Update_Notify.thy ===== *)
theory Update_Notify
  imports Event_Json
begin

text \<open>
  The way of an event that no client takes: \<open>services/engine/src/update_notify.cpp\<close> connects to the update application and
  sends it a message, \<open>base_callback_utils.cpp\<close> chooses between a client and the application. The ability manager, the
  remote object and the JSON library are parameters; a remote object is its number.
\<close>

section \<open>\<open>NotifyConnection\<close>\<close>

record NotifyConnection =
  nc_remoteObject :: "nat option"

definition new_connection :: NotifyConnection where "new_connection = \<lparr>nc_remoteObject = None\<rparr>"

definition IsConnected :: "NotifyConnection \<Rightarrow> bool" where "IsConnected c = (nc_remoteObject c \<noteq> None)"

text \<open>\<open>arrives\<close> is the remote object that the connection is told about before the wait of five seconds is over.\<close>

definition GetRemoteObj :: "nat option \<Rightarrow> NotifyConnection \<Rightarrow> nat option \<times> NotifyConnection" where
  "GetRemoteObj arrives c =
     (let c1 = (if nc_remoteObject c = None then c\<lparr>nc_remoteObject := arrives\<rparr> else c) in (nc_remoteObject c1, c1))"

definition OnAbilityConnectDone :: "nat option \<Rightarrow> int \<Rightarrow> NotifyConnection \<Rightarrow> NotifyConnection" where
  "OnAbilityConnectDone remoteObject resultCode c =
     (if resultCode = 0 \<and> remoteObject \<noteq> None then c\<lparr>nc_remoteObject := remoteObject\<rparr> else c\<lparr>nc_remoteObject := None\<rparr>)"

definition OnAbilityDisconnectDone :: "NotifyConnection \<Rightarrow> NotifyConnection" where
  "OnAbilityDisconnectDone c = c\<lparr>nc_remoteObject := None\<rparr>"

section \<open>\<open>UpdateNotify\<close>\<close>

text \<open>What the platform does during one notification: the answer to the request to connect, the remote object that arrives, and
  the result of sending to it. The state is the member \<open>connectionStub_\<close> with the messages that were delivered.\<close>

record notify_env =
  ne_connectAbility :: int
  ne_arrives :: "nat option"
  ne_sendRequest :: "nat \<Rightarrow> int"
  ne_writeOk :: bool

record notify =
  no_connectionStub :: "NotifyConnection option"
  no_delivered :: "(nat \<times> string) list"
  no_disconnects :: nat

definition new_notify :: notify where "new_notify = \<lparr>no_connectionStub = None, no_delivered = [], no_disconnects = 0\<rparr>"

text \<open>The stub is not null where the code calls it.\<close>

definition notify_ConnectAbility :: "notify_env \<Rightarrow> bool" where
  "notify_ConnectAbility e = (ne_connectAbility e = 0)"

definition GetRemoteConnectObj :: "notify_env \<Rightarrow> notify \<Rightarrow> nat option \<times> notify" where
  "GetRemoteConnectObj e n =
     (let stub = (case no_connectionStub n of None \<Rightarrow> new_connection | Some c \<Rightarrow> c);
          n1 = n\<lparr>no_connectionStub := Some stub\<rparr>
      in if \<not> IsConnected stub \<and> \<not> notify_ConnectAbility e then (None, n1)
         else let (obj, stub1) = GetRemoteObj (ne_arrives e) stub in (obj, n1\<lparr>no_connectionStub := Some stub1\<rparr>))"

definition HandleMessage :: "notify_env \<Rightarrow> string \<Rightarrow> notify \<Rightarrow> bool \<times> notify" where
  "HandleMessage e message n =
     (case GetRemoteConnectObj e n of
        (None, n1) \<Rightarrow> (False, n1)
      | (Some obj, n1) \<Rightarrow>
          if \<not> ne_writeOk e then (False, n1)
          else if ne_sendRequest e obj \<noteq> 0
          then (False, n1\<lparr>no_connectionStub := None,
                  no_disconnects := no_disconnects n1 + (if no_connectionStub n1 = None then 0 else 1)\<rparr>)
          else (True, n1\<lparr>no_delivered := no_delivered n1 @ [(obj, message)]\<rparr>))"

text \<open>The JSON library: what a text is parsed to, and the text of a value.\<close>

record json_library =
  jl_Parse :: "string \<Rightarrow> json_value option"
  jl_PrintUnformatted :: "json_value \<Rightarrow> string option"

definition parsed_or_null :: "json_library \<Rightarrow> string \<Rightarrow> json_value" where
  "parsed_or_null jl s = (case jl_Parse jl s of None \<Rightarrow> VNull | Some v \<Rightarrow> v)"

definition ConnectToAppService :: "json_library \<Rightarrow> notify_env \<Rightarrow> string \<Rightarrow> string \<Rightarrow> notify \<Rightarrow> bool \<times> notify" where
  "ConnectToAppService jl e eventInfo subscribeInfo n =
     (if eventInfo = [] then (False, n)
      else case jl_PrintUnformatted jl (VObj [(''EventInfo'', parsed_or_null jl eventInfo), (''SubscribeInfo'', parsed_or_null jl subscribeInfo)]) of
        None \<Rightarrow> (False, n)
      | Some message \<Rightarrow> HandleMessage e message n)"

definition NotifyToHap :: "json_library \<Rightarrow> notify_env \<Rightarrow> int \<Rightarrow> EventId \<Rightarrow> TaskBody \<Rightarrow> notify \<Rightarrow> notify" where
  "NotifyToHap jl e subType eventId b n =
     (let eventInfoStr = EventInfo_ToJson eventId b in
      if eventInfoStr \<noteq> []
      then snd (ConnectToAppService jl e eventInfoStr (jb_builder (SubscribeInfo_GetJsonBuilder (new_SubscribeInfo subType))) n)
      else n)"

text \<open>\<open>CallbackToHap\<close> as a whole: the client that takes the event, or the notification.\<close>

definition deliver_event ::
  "json_library \<Rightarrow> notify_env \<Rightarrow> update_service \<Rightarrow> int \<Rightarrow> EventId \<Rightarrow> TaskBody \<Rightarrow> notify \<Rightarrow> nat option \<times> notify" where
  "deliver_event jl e s subType eventId b n =
     (case CallbackToHap subType s of
        Some callback \<Rightarrow> (Some callback, n)
      | None \<Rightarrow> (None, NotifyToHap jl e subType eventId b n))"

section \<open>Facts\<close>

text \<open>A library that understands a JSON text.\<close>

definition understands :: "json_library \<Rightarrow> string \<Rightarrow> bool" where
  "understands jl s = (\<forall>v. json_text s v \<longrightarrow> jl_Parse jl s = Some v)"

definition subscribe_value :: "int \<Rightarrow> json_value" where
  "subscribe_value subType = VObj [(''upgradeApp'', VStr ''com.ohos.updateapp''),
     (''businessType'', VObj [(''vendor'', VStr []), (''subType'', VNum subType)]), (''abilityName'', VStr []),
     (''subscriberDevId'', VStr []), (''upgradeDevId'', VStr []), (''deviceType'', VNum 0), (''deviceName'', VStr [])]"

lemma clean_subscribe_keys [simp]:
  "clean ''upgradeApp''" "clean ''businessType''" "clean ''vendor''" "clean ''subType''" "clean ''abilityName''"
  "clean ''subscriberDevId''" "clean ''upgradeDevId''" "clean ''deviceType''" "clean ''deviceName''" "clean ''com.ohos.updateapp''" "clean []"
  by (simp_all add: clean_def dquote_def)

lemma business_json: "json_text (jb_builder (BusinessType_GetJsonBuilder (BusinessType [] k))) (VObj [(''vendor'', VStr []), (''subType'', VNum k)])"
  unfolding BusinessType_GetJsonBuilder_def chain_def using object_end [OF object_num [OF object_text [OF object_begin]]] by simp

lemma subscribe_json:
  "json_text (jb_builder (SubscribeInfo_GetJsonBuilder (new_SubscribeInfo k))) (subscribe_value k)"
  unfolding SubscribeInfo_GetJsonBuilder_def new_SubscribeInfo_def subscribe_value_def chain_def
  using object_end [OF object_text [OF object_num [OF object_text [OF object_text [OF object_text [OF object_builder
    [OF object_text [OF object_begin]]]]]]]] business_json [of k]
  by simp

lemma EventInfo_ToJson_nonempty: "EventInfo_ToJson eventId b \<noteq> []"
  by (simp add: EventInfo_ToJson_def chain_def append_raw_def append_num_def append_builder_def append_key_def AppendComma_def)

text \<open>What an event becomes on its way to the application.\<close>

lemma NotifyToHap_clean:
  assumes "understands jl (EventInfo_ToJson eventId b)"
    "understands jl (jb_builder (SubscribeInfo_GetJsonBuilder (new_SubscribeInfo subType)))"
    and "taskBodyTemplate eventId = Some ms" "clean (tb_versionDigest b)"
    "list_all error_clean (tb_errorMessages b)" "list_all2 component_clean extras (tb_versionComponents b)"
  shows "NotifyToHap jl e subType eventId b n =
    (case jl_PrintUnformatted jl (VObj [(''EventInfo'', event_value eventId ms extras b), (''SubscribeInfo'', subscribe_value subType)]) of
       None \<Rightarrow> n | Some message \<Rightarrow> snd (HandleMessage e message n))"
  using assms(1,2) event_json [OF assms(3-6)] subscribe_json [of subType]
  by (simp add: NotifyToHap_def ConnectToAppService_def EventInfo_ToJson_nonempty parsed_or_null_def understands_def split: option.split)

text \<open>A message is delivered to the connected object, or to the one that arrives after a connection that was accepted.\<close>

definition notify_target :: "notify_env \<Rightarrow> notify \<Rightarrow> nat option" where
  "notify_target e n =
     (case Option.bind (no_connectionStub n) nc_remoteObject of
        Some obj \<Rightarrow> Some obj
      | None \<Rightarrow> if ne_connectAbility e = 0 then ne_arrives e else None)"

lemma HandleMessage_target:
  "fst (HandleMessage e message n) \<longleftrightarrow> (\<exists>obj. notify_target e n = Some obj \<and> ne_writeOk e \<and> ne_sendRequest e obj = 0)"
  "no_delivered (snd (HandleMessage e message n)) =
     no_delivered n @ (if fst (HandleMessage e message n) then [(the (notify_target e n), message)] else [])"
  by (auto simp: HandleMessage_def GetRemoteConnectObj_def GetRemoteObj_def IsConnected_def notify_ConnectAbility_def notify_target_def
      new_connection_def Let_def split: option.splits prod.splits if_splits)

end
