(* ===== verification/Service_Access.thy ===== *)
theory Service_Access
  imports Service_Clients
begin

text \<open>
  Who may ask the service for what: \<open>interfaces/inner_api/modulemgr/src/module_manager.cpp\<close> (the extension library and its
  hooks), \<open>services/core/ability/user_unlock\<close> (the wait for the first unlock of the device), the checks at the entry of
  \<open>services/engine/src/update_service.cpp\<close> and \<open>update_service_common.cpp\<close>, and the resets of
  \<open>update_service_restorer.cpp\<close>. The access token service, \<open>dlopen\<close>, the account manager, the storage manager and the
  updater are parameters.
\<close>

section \<open>Codes\<close>

definition INT_CALL_SUCCESS :: int where "INT_CALL_SUCCESS = 0"
definition INT_CALL_FAIL :: int where "INT_CALL_FAIL = 100"
definition INT_FORBIDDEN :: int where "INT_FORBIDDEN = 103"
definition INT_CALL_IPC_ERR :: int where "INT_CALL_IPC_ERR = 104"
definition INT_APP_NOT_GRANTED :: int where "INT_APP_NOT_GRANTED = 201"
definition INT_NOT_SYSTEM_APP :: int where "INT_NOT_SYSTEM_APP = 202"
definition INT_MDM_DISABLE_RESET :: int where "INT_MDM_DISABLE_RESET = 203"
definition INT_PARAM_ERR :: int where "INT_PARAM_ERR = 401"

lemmas call_results = INT_CALL_SUCCESS_def INT_CALL_FAIL_def INT_FORBIDDEN_def INT_CALL_IPC_ERR_def INT_APP_NOT_GRANTED_def
  INT_NOT_SYSTEM_APP_def INT_MDM_DISABLE_RESET_def INT_PARAM_ERR_def

datatype UpdaterSaInterfaceCode =
    CHECK_VERSION | DOWNLOAD | PAUSE_DOWNLOAD | RESUME_DOWNLOAD | UPGRADE | CLEAR_ERROR | TERMINATE_UPGRADE | SET_POLICY
  | GET_POLICY | GET_NEW_VERSION | GET_NEW_VERSION_DESCRIPTION | GET_CURRENT_VERSION | GET_CURRENT_VERSION_DESCRIPTION
  | GET_TASK_INFO | REGISTER_CALLBACK | UNREGISTER_CALLBACK | CANCEL | FACTORY_RESET | APPLY_NEW_VERSION
  | VERIFY_UPGRADE_PACKAGE | FORCE_FACTORY_RESET | DEEP_FACTORY_RESET | GET_DEEP_FACTORY_RESET_INFO

fun interface_code :: "UpdaterSaInterfaceCode \<Rightarrow> int" where
  "interface_code CHECK_VERSION = 1"
| "interface_code DOWNLOAD = 2"
| "interface_code PAUSE_DOWNLOAD = 3"
| "interface_code RESUME_DOWNLOAD = 4"
| "interface_code UPGRADE = 5"
| "interface_code CLEAR_ERROR = 6"
| "interface_code TERMINATE_UPGRADE = 7"
| "interface_code SET_POLICY = 8"
| "interface_code GET_POLICY = 9"
| "interface_code GET_NEW_VERSION = 10"
| "interface_code GET_NEW_VERSION_DESCRIPTION = 11"
| "interface_code GET_CURRENT_VERSION = 12"
| "interface_code GET_CURRENT_VERSION_DESCRIPTION = 13"
| "interface_code GET_TASK_INFO = 14"
| "interface_code REGISTER_CALLBACK = 15"
| "interface_code UNREGISTER_CALLBACK = 16"
| "interface_code CANCEL = 17"
| "interface_code FACTORY_RESET = 18"
| "interface_code APPLY_NEW_VERSION = 19"
| "interface_code VERIFY_UPGRADE_PACKAGE = 20"
| "interface_code FORCE_FACTORY_RESET = 21"
| "interface_code DEEP_FACTORY_RESET = 22"
| "interface_code GET_DEEP_FACTORY_RESET_INFO = 23"

section \<open>\<open>ModuleManager\<close>\<close>

text \<open>A hook is a function of the extension library on a request \<open>'r\<close>, or null. The dump hook has its own argument type,
  which the same type variable covers.\<close>

type_synonym 'r hook = "('r \<Rightarrow> int) option"

record 'r module_manager =
  mm_isLoaded :: bool
  mm_hasHandler :: bool
  mm_retryInterval :: int
  mm_onRemoteRequest :: "(int, 'r hook) cmap"
  mm_onStartOnStop :: "(string, 'r hook) cmap"
  mm_onIdle :: "(string, 'r hook) cmap"
  mm_onDump :: "(string, 'r hook) cmap"

definition new_module_manager :: "'r module_manager" where
  "new_module_manager = \<lparr>mm_isLoaded = False, mm_hasHandler = False, mm_retryInterval = 0, mm_onRemoteRequest = [],
     mm_onStartOnStop = [], mm_onIdle = [], mm_onDump = []\<rparr>"

text \<open>The attempts to open the library: the result and the number of attempts. \<open>opens n\<close>: attempt \<open>n\<close> succeeds.\<close>

function open_loop :: "(nat \<Rightarrow> bool) \<Rightarrow> nat \<Rightarrow> bool \<times> nat" where
  "open_loop opens retryTimes =
     (if opens retryTimes then (True, retryTimes + 1)
      else if retryTimes + 1 \<le> 1 then open_loop opens (retryTimes + 1)
      else (False, retryTimes + 1))"
  by pat_completeness auto
termination by (relation "measure (\<lambda>(_, r). 2 - r)") auto

declare open_loop.simps [simp del]

definition has_prefix :: "string \<Rightarrow> string \<Rightarrow> bool" where
  "has_prefix p s = (take (length p) s = p)"

definition has_suffix :: "string \<Rightarrow> string \<Rightarrow> bool" where
  "has_suffix p s = (drop (length s - length p) s = p)"

text \<open>The second component of the result is the file that was opened and how often it was tried.\<close>

definition LoadModule ::
  "(string \<Rightarrow> string option) \<Rightarrow> (string \<Rightarrow> nat \<Rightarrow> bool) \<Rightarrow> string \<Rightarrow> 'r module_manager \<Rightarrow> 'r module_manager \<times> (string \<times> nat) option" where
  "LoadModule realpath opens libPath m =
     (if libPath = [] \<or> length libPath < length ''.so'' then (m, None)
      else if (\<not> has_prefix ''/system/lib64/updateext'' libPath \<and> \<not> has_prefix ''/module_update/3006/lib64/updateext'' libPath)
              \<or> \<not> has_suffix ''.so'' libPath then (m, None)
      else if \<not> mm_hasHandler m
      then case realpath libPath of
             None \<Rightarrow> (m, None)
           | Some dealPath \<Rightarrow>
               let (ok, n) = open_loop (opens dealPath) 0
               in (if ok then m\<lparr>mm_hasHandler := True, mm_isLoaded := True\<rparr> else m, Some (dealPath, n))
      else (m\<lparr>mm_isLoaded := True\<rparr>, None))"

definition IsMapFuncExist :: "int \<Rightarrow> 'r module_manager \<Rightarrow> bool" where
  "IsMapFuncExist code m = cm_has code (mm_onRemoteRequest m)"

text \<open>\<open>std::map::insert\<close> for codes that have no hook yet.\<close>

definition HookFunc :: "int list \<Rightarrow> 'r hook \<Rightarrow> 'r module_manager \<Rightarrow> 'r module_manager" where
  "HookFunc codes f m =
     (if f = None then m
      else fold (\<lambda>code m1. if \<not> IsMapFuncExist code m1
                           then m1\<lparr>mm_onRemoteRequest := cm_put code f (mm_onRemoteRequest m1)\<rparr> else m1) codes m)"

text \<open>What a hook table answers; \<open>missing\<close> for no entry.\<close>

definition call_hook :: "int \<Rightarrow> ('k, 'r hook) cmap \<Rightarrow> 'k \<Rightarrow> 'r \<Rightarrow> int" where
  "call_hook missing table k r =
     (case map_of table k of None \<Rightarrow> missing | Some None \<Rightarrow> - 1 | Some (Some f) \<Rightarrow> f r)"

definition HandleFunc :: "int \<Rightarrow> 'r \<Rightarrow> 'r module_manager \<Rightarrow> int" where
  "HandleFunc code r m = call_hook 0 (mm_onRemoteRequest m) code r"

definition HookOnStartOnStopFunc :: "string \<Rightarrow> 'r hook \<Rightarrow> 'r module_manager \<Rightarrow> 'r module_manager" where
  "HookOnStartOnStopFunc phase f m =
     (if f = None then m else m\<lparr>mm_onStartOnStop := cm_put phase f (mm_onStartOnStop m)\<rparr>)"

text \<open>The start and stop hooks have no result; the phases that were called are the result here.\<close>

definition HandleOnStartOnStopFunc :: "string \<Rightarrow> 'r module_manager \<Rightarrow> string list" where
  "HandleOnStartOnStopFunc phase m =
     (case map_of (mm_onStartOnStop m) phase of None \<Rightarrow> [] | Some None \<Rightarrow> [] | Some (Some f) \<Rightarrow> [phase])"

definition HookOnIdleFunc :: "string \<Rightarrow> 'r hook \<Rightarrow> 'r module_manager \<Rightarrow> 'r module_manager" where
  "HookOnIdleFunc phase f m = (if f = None then m else m\<lparr>mm_onIdle := cm_put phase f (mm_onIdle m)\<rparr>)"

definition HandleOnIdleFunc :: "string \<Rightarrow> 'r \<Rightarrow> 'r module_manager \<Rightarrow> int" where
  "HandleOnIdleFunc phase r m = call_hook 0 (mm_onIdle m) phase r"

definition HookDumpFunc :: "string \<Rightarrow> 'r hook \<Rightarrow> 'r module_manager \<Rightarrow> 'r module_manager" where
  "HookDumpFunc phase f m = (if f = None then m else m\<lparr>mm_onDump := cm_put phase f (mm_onDump m)\<rparr>)"

definition HandleDumpFunc :: "string \<Rightarrow> 'r \<Rightarrow> 'r module_manager \<Rightarrow> int" where
  "HandleDumpFunc phase r m = call_hook 0 (mm_onDump m) phase r"

section \<open>The wait for the unlock\<close>

text \<open>\<open>GetActiveUserId\<close> asks at most ten times; \<open>ask n\<close> is answer \<open>n\<close> of the account manager, \<open>None\<close> an error, after which
  the identifier is what it was.\<close>

function active_user_loop :: "(nat \<Rightarrow> int option) \<Rightarrow> nat \<Rightarrow> int \<times> nat" where
  "active_user_loop ask retryCount =
     (case ask retryCount of
        Some userId \<Rightarrow> (userId, retryCount + 1)
      | None \<Rightarrow> if retryCount + 1 < 10 then active_user_loop ask (retryCount + 1) else (- 1, retryCount + 1))"
  by pat_completeness auto
termination by (relation "measure (\<lambda>(_, r). 10 - r)") auto

declare active_user_loop.simps [simp del]

definition GetActiveUserId :: "(nat \<Rightarrow> int option) \<Rightarrow> int" where
  "GetActiveUserId ask = fst (active_user_loop ask 0)"

definition IsActiveUserUnlocked :: "(int \<Rightarrow> bool option) \<Rightarrow> int \<Rightarrow> bool" where
  "IsActiveUserUnlocked verified userId =
     (if userId < 0 then False else case verified userId of None \<Rightarrow> False | Some b \<Rightarrow> b)"

text \<open>
  The observer. \<open>uo_pendingUnlock\<close> and \<open>uo_pendingLeave\<close> count the tasks handed to the task queue: reports of the event and
  terminations of the subscription. \<open>uo_started\<close> counts the calls of \<open>InitBusinessAfterUnlock\<close>.
\<close>

record unlock_observer =
  uo_initialized :: bool
  uo_subscribed :: bool
  uo_pendingUnlock :: nat
  uo_pendingLeave :: nat
  uo_started :: nat

definition new_unlock_observer :: unlock_observer where
  "new_unlock_observer = \<lparr>uo_initialized = False, uo_subscribed = False, uo_pendingUnlock = 0, uo_pendingLeave = 0, uo_started = 0\<rparr>"

definition HasUserUnlocked :: "unlock_observer \<Rightarrow> bool" where
  "HasUserUnlocked o1 = uo_initialized o1"

definition RegisterUserUnlockListener :: "bool \<Rightarrow> unlock_observer \<Rightarrow> unlock_observer" where
  "RegisterUserUnlockListener accepted o1 = (if uo_subscribed o1 then o1 else o1\<lparr>uo_subscribed := accepted\<rparr>)"

definition UnregisterUserUnlockListener :: "unlock_observer \<Rightarrow> unlock_observer" where
  "UnregisterUserUnlockListener o1 = (if \<not> uo_subscribed o1 then o1 else o1\<lparr>uo_subscribed := False\<rparr>)"

definition TryNotifyUnlocked :: "unlock_observer \<Rightarrow> unlock_observer" where
  "TryNotifyUnlocked o1 =
     (if uo_initialized o1 then UnregisterUserUnlockListener o1
      else o1\<lparr>uo_initialized := True, uo_started := uo_started o1 + 1, uo_pendingLeave := uo_pendingLeave o1 + 1\<rparr>)"

text \<open>\<open>UserUnlockSubscriber::OnReceiveEvent\<close>: \<open>isUnlock\<close> says whether the event is the one that was subscribed.\<close>

definition OnReceiveEvent :: "bool \<Rightarrow> unlock_observer \<Rightarrow> unlock_observer" where
  "OnReceiveEvent isUnlock o1 = (if \<not> isUnlock then o1 else o1\<lparr>uo_pendingUnlock := uo_pendingUnlock o1 + 1\<rparr>)"

text \<open>
  \<open>Start\<close> asks, subscribes, asks again, because the unlock may come in between: it runs in steps, and \<open>at\<close> says which one is
  next. The device is unlocked at some time; whoever is subscribed then gets the event.
\<close>

datatype start_point = AT_CHECK | AT_REGISTER | AT_RECHECK | AT_NOTIFY | AT_END

record unlock_system =
  ul_unlocked :: bool
  ul_observer :: unlock_observer
  ul_at :: start_point

definition start_unlock_system :: "bool \<Rightarrow> unlock_system" where
  "start_unlock_system unlocked = \<lparr>ul_unlocked = unlocked, ul_observer = new_unlock_observer, ul_at = AT_CHECK\<rparr>"

text \<open>One step of \<open>Start\<close>; \<open>userId\<close> is the result of \<open>GetActiveUserId\<close>, \<open>verified\<close> what the account manager answers when the
  device is unlocked or not, \<open>accepted\<close> whether the subscription is taken.\<close>

fun observer_Start :: "int \<Rightarrow> (bool \<Rightarrow> int \<Rightarrow> bool option) \<Rightarrow> bool \<Rightarrow> unlock_system \<Rightarrow> start_point \<Rightarrow> unlock_system" where
  "observer_Start userId verified accepted u AT_CHECK =
     u\<lparr>ul_at := (if IsActiveUserUnlocked (verified (ul_unlocked u)) userId then AT_NOTIFY else AT_REGISTER)\<rparr>"
| "observer_Start userId verified accepted u AT_REGISTER =
     u\<lparr>ul_observer := RegisterUserUnlockListener accepted (ul_observer u), ul_at := AT_RECHECK\<rparr>"
| "observer_Start userId verified accepted u AT_RECHECK =
     u\<lparr>ul_at := (if IsActiveUserUnlocked (verified (ul_unlocked u)) userId then AT_NOTIFY else AT_END)\<rparr>"
| "observer_Start userId verified accepted u AT_NOTIFY = u\<lparr>ul_observer := TryNotifyUnlocked (ul_observer u), ul_at := AT_END\<rparr>"
| "observer_Start userId verified accepted u AT_END = u"

text \<open>What can happen until \<open>OnStop\<close> takes the listener away. \<open>accepted\<close>: whether \<open>SubscribeCommonEvent\<close> takes the subscriber.\<close>

inductive unlock_step :: "int \<Rightarrow> (bool \<Rightarrow> int \<Rightarrow> bool option) \<Rightarrow> bool \<Rightarrow> unlock_system \<Rightarrow> unlock_system \<Rightarrow> bool"
  for userId :: int and verified :: "bool \<Rightarrow> int \<Rightarrow> bool option" and accepted :: bool where
  starting: "unlock_step userId verified accepted u (observer_Start userId verified accepted u (ul_at u))"
| unlock: "\<not> ul_unlocked u \<Longrightarrow> unlock_step userId verified accepted u (u\<lparr>ul_unlocked := True,
      ul_observer := (if uo_subscribed (ul_observer u) then OnReceiveEvent True (ul_observer u) else ul_observer u)\<rparr>)"
| other_event: "unlock_step userId verified accepted u (u\<lparr>ul_observer := OnReceiveEvent False (ul_observer u)\<rparr>)"
| report: "uo_pendingUnlock (ul_observer u) = Suc n \<Longrightarrow> unlock_step userId verified accepted u
      (u\<lparr>ul_observer := TryNotifyUnlocked ((ul_observer u)\<lparr>uo_pendingUnlock := n\<rparr>)\<rparr>)"
| leave: "uo_pendingLeave (ul_observer u) = Suc n \<Longrightarrow> unlock_step userId verified accepted u
      (u\<lparr>ul_observer := UnregisterUserUnlockListener ((ul_observer u)\<lparr>uo_pendingLeave := n\<rparr>)\<rparr>)"

section \<open>The checks at the entry\<close>

text \<open>What the access token service and the parameters say of a caller; \<open>ca_bundleName\<close> is \<open>None\<close> when it cannot be found.\<close>

datatype token_type = TOKEN_HAP | TOKEN_NATIVE | TOKEN_OTHER

record caller =
  ca_tokenType :: token_type
  ca_isSystemApp :: bool
  ca_uid :: int
  ca_granted :: "string \<Rightarrow> bool"
  ca_bundleName :: "string option"

definition IsCallerValid :: "caller \<Rightarrow> bool" where
  "IsCallerValid c =
     (case ca_tokenType c of
        TOKEN_HAP \<Rightarrow> ca_isSystemApp c
      | TOKEN_NATIVE \<Rightarrow> ca_uid c = 0 \<or> ca_uid c = 3057 \<or> ca_uid c = 8011
      | TOKEN_OTHER \<Rightarrow> False)"

definition permission_of :: "int \<Rightarrow> string" where
  "permission_of code =
     (let permission = ''ohos.permission.UPDATE_SYSTEM'';
          permission1 = (if code = interface_code FACTORY_RESET \<or> code = interface_code DEEP_FACTORY_RESET
                            \<or> code = interface_code GET_DEEP_FACTORY_RESET_INFO
                         then ''ohos.permission.FACTORY_RESET'' else permission)
      in if code = interface_code FORCE_FACTORY_RESET then ''ohos.permission.FORCE_FACTORY_RESET'' else permission1)"

definition IsPermissionGranted :: "caller \<Rightarrow> int \<Rightarrow> bool" where
  "IsPermissionGranted c code = ca_granted c (permission_of code)"

text \<open>\<open>mdm\<close> is the parameter \<^verbatim>\<open>persist.edm.reset_factory_disallowed\<close>.\<close>

definition IsResetDisabledByMdm :: "bool \<Rightarrow> int \<Rightarrow> bool" where
  "IsResetDisabledByMdm mdm code =
     (if code \<in> set (map interface_code [FORCE_FACTORY_RESET, FACTORY_RESET, DEEP_FACTORY_RESET]) then mdm else False)"

definition GetCallingAppId :: "caller \<Rightarrow> string" where
  "GetCallingAppId c =
     (case ca_tokenType c of
        TOKEN_HAP \<Rightarrow> (case ca_bundleName c of None \<Rightarrow> [] | Some name \<Rightarrow> name)
      | TOKEN_NATIVE \<Rightarrow> to_string (ca_uid c)
      | TOKEN_OTHER \<Rightarrow> [])"

text \<open>The second component is the audit report of a reset that the device management forbids: the application that is
  reported, none when its name is empty (\<open>audit_event_report.cpp\<close>).\<close>

definition ReportResetAuditEvent :: "string \<Rightarrow> string list" where
  "ReportResetAuditEvent caller = (if caller = [] then [] else [caller])"

definition PermissionCheck :: "caller \<Rightarrow> bool \<Rightarrow> int \<Rightarrow> int \<times> string list" where
  "PermissionCheck c mdm code =
     (if \<not> IsCallerValid c then (INT_NOT_SYSTEM_APP, [])
      else if \<not> IsPermissionGranted c code then (INT_APP_NOT_GRANTED, [])
      else if IsResetDisabledByMdm mdm code then (INT_MDM_DISABLE_RESET, ReportResetAuditEvent (GetCallingAppId c))
      else (INT_CALL_SUCCESS, []))"

definition IsUserUnlockRequired :: "int \<Rightarrow> bool" where
  "IsUserUnlockRequired code =
     (code \<notin> set (map interface_code [FACTORY_RESET, APPLY_NEW_VERSION, VERIFY_UPGRADE_PACKAGE, FORCE_FACTORY_RESET,
        DEEP_FACTORY_RESET, GET_DEEP_FACTORY_RESET_INFO]))"

text \<open>The observer is null until \<open>OnStart\<close> made it.\<close>

definition CallbackEnter :: "'r module_manager \<Rightarrow> unlock_observer option \<Rightarrow> caller \<Rightarrow> bool \<Rightarrow> int \<Rightarrow> int \<times> string list" where
  "CallbackEnter m observer c mdm code =
     (if \<not> mm_isLoaded m then
        if IsUserUnlockRequired code \<and> (case observer of None \<Rightarrow> True | Some o1 \<Rightarrow> \<not> HasUserUnlocked o1)
        then (INT_FORBIDDEN, [])
        else PermissionCheck c mdm code
      else if \<not> IsMapFuncExist code m then PermissionCheck c mdm code
      else (INT_CALL_SUCCESS, []))"

definition CallbackExit :: "int \<Rightarrow> int \<Rightarrow> int" where
  "CallbackExit code result = INT_CALL_SUCCESS"

text \<open>Zero lets the generated stub dispatch the request.\<close>

definition CallbackParcel :: "'r module_manager \<Rightarrow> int \<Rightarrow> 'r \<Rightarrow> int" where
  "CallbackParcel m code r =
     (if \<not> mm_isLoaded m then INT_CALL_SUCCESS
      else if \<not> IsMapFuncExist code m then INT_CALL_SUCCESS
      else let ret = HandleFunc code r m in if ret \<noteq> INT_CALL_SUCCESS then ret else INT_CALL_FAIL)"

text \<open>The end of \<open>OnStart\<close> and \<open>OnStop\<close>: the observer, where its start begins, and the hooks that are called.\<close>

definition service_OnStart ::
  "'r module_manager \<Rightarrow> unlock_observer option \<Rightarrow> unlock_observer option \<times> start_point \<times> string list" where
  "service_OnStart m observer =
     (let (observer1, begins) =
            (if \<not> mm_isLoaded m
             then (Some (case observer of None \<Rightarrow> new_unlock_observer | Some o1 \<Rightarrow> o1), AT_CHECK)
             else (observer, AT_END))
      in (observer1, begins, if mm_isLoaded m then HandleOnStartOnStopFunc ''OnStart'' m else []))"

definition service_OnStop :: "'r module_manager \<Rightarrow> unlock_observer option \<Rightarrow> unlock_observer option \<times> string list" where
  "service_OnStop m observer =
     (map_option UnregisterUserUnlockListener observer, HandleOnStartOnStopFunc ''OnStop'' m)"

definition service_OnIdle :: "'r module_manager \<Rightarrow> 'r \<Rightarrow> int" where
  "service_OnIdle m r = HandleOnIdleFunc ''OnIdle'' r m"

section \<open>\<open>UpdateServiceRestorer\<close>\<close>

text \<open>The calls to the storage manager and to the updater, in order.\<close>

datatype reset_call =
    EraseAllUserEncryptedKeys
  | RebootAndCleanUserData string string
  | RebootAndSecureErase string string

record reset_env =
  re_miscBlockDev :: string
  re_storageManager :: "int option"
  re_rebootOk :: bool
  re_secureEraseOk :: bool
  re_estimate :: "string \<Rightarrow> int"

definition MISC_FILE :: string where "MISC_FILE = ''/dev/block/by-name/misc''"
definition CMD_WIPE_DATA :: string where "CMD_WIPE_DATA = ''--user_wipe_data''"

definition newline :: char where "newline = CHR 0x0A"

definition ExecReset :: "reset_env \<Rightarrow> caller \<Rightarrow> BusinessError \<Rightarrow> bool \<Rightarrow> int \<times> BusinessError \<times> reset_call list" where
  "ExecReset e c err forceFlag =
     (let err1 = err\<lparr>be_errorNum := CR_SUCCESS\<rparr>;
          miscBlockDev = (if re_miscBlockDev e = [] then MISC_FILE else re_miscBlockDev e);
          suffix = (if forceFlag then newline # ''--reset_enter:forceFactoryReset|'' else newline # ''--reset_enter:factoryReset|'');
          paramData = CMD_WIPE_DATA @ suffix @ GetCallingAppId c
      in (if re_rebootOk e then INT_CALL_SUCCESS else INT_CALL_FAIL, err1, [RebootAndCleanUserData miscBlockDev paramData]))"

datatype FactoryResetScope = SCOPE_DATA | SCOPE_DATA_AND_OS | SCOPE_OTHER

definition ExecuteDeepReset :: "reset_env \<Rightarrow> caller \<Rightarrow> FactoryResetScope \<Rightarrow> int \<times> reset_call list" where
  "ExecuteDeepReset e c scope =
     (let eraseType = (if scope = SCOPE_DATA then ''DATA'' else ''DATA_AND_OS'');
          paramData = newline # ''--reset_enter:deepFactoryReset|'' @ GetCallingAppId c
      in (if re_secureEraseOk e then INT_CALL_SUCCESS else INT_CALL_FAIL, [RebootAndSecureErase eraseType paramData]))"

text \<open>\<open>re_storageManager\<close>: \<open>None\<close> if the proxy of the storage manager cannot be had, otherwise its answer.\<close>

definition FileManagerEraseKeys :: "reset_env \<Rightarrow> int \<times> reset_call list" where
  "FileManagerEraseKeys e =
     (case re_storageManager e of None \<Rightarrow> (INT_CALL_FAIL, []) | Some ret \<Rightarrow> (ret, [EraseAllUserEncryptedKeys]))"

definition restorer_FactoryReset :: "reset_env \<Rightarrow> caller \<Rightarrow> BusinessError \<Rightarrow> int \<times> BusinessError \<times> reset_call list" where
  "restorer_FactoryReset e c err = ExecReset e c err False"

definition restorer_ForceFactoryReset :: "reset_env \<Rightarrow> caller \<Rightarrow> BusinessError \<Rightarrow> int \<times> BusinessError \<times> reset_call list" where
  "restorer_ForceFactoryReset e c err =
     (let (ret, calls) = FileManagerEraseKeys e in
      if ret \<noteq> 0 then (INT_CALL_FAIL, err, calls)
      else let (ret1, err1, calls1) = ExecReset e c err True in (ret1, err1, calls @ calls1))"

definition restorer_DeepFactoryReset ::
  "reset_env \<Rightarrow> caller \<Rightarrow> FactoryResetScope \<Rightarrow> BusinessError \<Rightarrow> int \<times> BusinessError \<times> reset_call list" where
  "restorer_DeepFactoryReset e c scope err =
     (let err1 = err\<lparr>be_errorNum := CR_SUCCESS\<rparr> in
      if scope \<noteq> SCOPE_DATA \<and> scope \<noteq> SCOPE_DATA_AND_OS
      then (INT_CALL_FAIL, err1\<lparr>be_errorNum := CR_FAIL, be_message := ''strategy scope type error''\<rparr>, [])
      else let (ret, calls) = ExecuteDeepReset e c scope in (ret, err1, calls))"

text \<open>The duration is an \<open>int\<close> cast from \<open>uint32_t\<close>.\<close>

definition restorer_GetDeepFactoryResetInfo ::
  "reset_env \<Rightarrow> FactoryResetScope \<Rightarrow> int \<Rightarrow> BusinessError \<Rightarrow> int \<times> int \<times> BusinessError" where
  "restorer_GetDeepFactoryResetInfo e scope duration err =
     (let err1 = err\<lparr>be_errorNum := CR_SUCCESS\<rparr> in
      if scope \<noteq> SCOPE_DATA \<and> scope \<noteq> SCOPE_DATA_AND_OS
      then (INT_CALL_FAIL, duration, err1\<lparr>be_errorNum := CR_FAIL, be_message := ''strategy scope type error''\<rparr>)
      else let eraseType = (if scope = SCOPE_DATA then ''DATA'' else ''DATA_AND_OS'')
           in (INT_CALL_SUCCESS, i32 (re_estimate e eraseType), err1))"

section \<open>\<open>UpdateServiceLocalUpdater\<close>\<close>

text \<open>\<open>reboots\<close> and \<open>verifies\<close> are \<open>RebootAndInstallSdcardPackage\<close> and \<open>VerifyPackageWithCallback\<close>.\<close>

definition local_ApplyNewVersion ::
  "(string \<Rightarrow> string list \<Rightarrow> bool) \<Rightarrow> string \<Rightarrow> string list \<Rightarrow> BusinessError \<Rightarrow> int \<times> BusinessError" where
  "local_ApplyNewVersion reboots miscFile packageNames err =
     (if reboots miscFile packageNames then INT_CALL_SUCCESS else INT_CALL_FAIL, err\<lparr>be_errorNum := CR_SUCCESS\<rparr>)"

definition local_VerifyUpgradePackage ::
  "(string \<Rightarrow> string \<Rightarrow> int) \<Rightarrow> string \<Rightarrow> string \<Rightarrow> BusinessError \<Rightarrow> int \<times> BusinessError" where
  "local_VerifyUpgradePackage verifies packagePath keyPath err =
     (if verifies packagePath keyPath = 0 then INT_CALL_SUCCESS else INT_CALL_FAIL, err\<lparr>be_errorNum := CR_SUCCESS\<rparr>)"

section \<open>Facts\<close>

lemma interface_code_inject [simp]: "interface_code a = interface_code b \<longleftrightarrow> a = b"
  by (cases a; cases b) simp_all

lemma open_loop_two: "open_loop opens 0 = (if opens 0 then (True, 1) else (opens 1, 2))"
  by (simp add: open_loop.simps [of opens 0] open_loop.simps [of opens "Suc 0"])

lemma PermissionCheck_success:
  "fst (PermissionCheck c mdm code) = INT_CALL_SUCCESS \<longleftrightarrow>
     IsCallerValid c \<and> ca_granted c (permission_of code) \<and> \<not> IsResetDisabledByMdm mdm code"
  by (simp add: PermissionCheck_def IsPermissionGranted_def call_results)

text \<open>The observer starts the business at most once, whatever the account manager and the event service answer.\<close>

definition started_once :: "unlock_observer \<Rightarrow> bool" where
  "started_once o1 = (uo_started o1 = (if uo_initialized o1 then 1 else 0))"

lemma unlock_step_once:
  assumes "unlock_step userId verified accepted u u'" "started_once (ul_observer u)"
  shows "started_once (ul_observer u')"
  using assms
proof cases
  case starting
  with assms(2) show ?thesis
    by (cases "ul_at u") (auto simp: started_once_def RegisterUserUnlockListener_def TryNotifyUnlocked_def
        UnregisterUserUnlockListener_def)
qed (auto simp: started_once_def OnReceiveEvent_def TryNotifyUnlocked_def UnregisterUserUnlockListener_def)

text \<open>It does not miss the unlock if the user is known and answered for and the subscription is taken.\<close>

definition unlock_inv :: "unlock_system \<Rightarrow> bool" where
  "unlock_inv u = (let o1 = ul_observer u in
     (0 < uo_pendingLeave o1 \<longrightarrow> uo_initialized o1)
     \<and> (ul_at u \<in> {AT_RECHECK, AT_END} \<longrightarrow> uo_initialized o1 \<or> uo_subscribed o1)
     \<and> (ul_unlocked u \<and> ul_at u = AT_END \<longrightarrow> uo_initialized o1 \<or> 0 < uo_pendingUnlock o1))"

lemma unlock_step_inv:
  assumes "unlock_step userId verified True u u'" "unlock_inv u" "0 \<le> userId" "\<And>b. verified b userId = Some b"
  shows "unlock_inv u'"
  using assms(1,2)
proof cases
  case starting
  with assms(2-4) show ?thesis
    by (cases "ul_at u") (auto simp: unlock_inv_def IsActiveUserUnlocked_def RegisterUserUnlockListener_def TryNotifyUnlocked_def
        UnregisterUserUnlockListener_def Let_def)
next
  case unlock
  with assms(2) show ?thesis by (auto simp: unlock_inv_def OnReceiveEvent_def Let_def)
qed (auto simp: unlock_inv_def OnReceiveEvent_def TryNotifyUnlocked_def UnregisterUserUnlockListener_def Let_def)

text \<open>Without a subscription no event comes in, so what the start has not done stays undone.\<close>

definition deaf :: "unlock_system \<Rightarrow> bool" where
  "deaf u = (let o1 = ul_observer u in
     \<not> uo_subscribed o1 \<and> uo_pendingUnlock o1 = 0 \<and> (uo_initialized o1 = (0 < uo_started o1)))"

lemma deaf_step:
  assumes "unlock_step userId verified False u u'" "deaf u"
  shows "deaf u'" "ul_at u = AT_END \<Longrightarrow> ul_at u' = AT_END \<and> uo_started (ul_observer u') = uo_started (ul_observer u)"
proof -
  have step: "deaf u' \<and> (ul_at u = AT_END \<longrightarrow> ul_at u' = AT_END \<and> uo_started (ul_observer u') = uo_started (ul_observer u))"
    using assms(1)
  proof cases
    case starting
    with assms(2) show ?thesis
      by (cases "ul_at u") (auto simp: deaf_def RegisterUserUnlockListener_def TryNotifyUnlocked_def
          UnregisterUserUnlockListener_def Let_def)
  qed (use assms(2) in \<open>auto simp: deaf_def OnReceiveEvent_def UnregisterUserUnlockListener_def Let_def\<close>)
  then show "deaf u'" "ul_at u = AT_END \<Longrightarrow> ul_at u' = AT_END \<and> uo_started (ul_observer u') = uo_started (ul_observer u)"
    by blast+
qed

lemma deaf_steps:
  assumes "(unlock_step userId verified False)\<^sup>*\<^sup>* u u'" "deaf u"
  shows "deaf u' \<and> (ul_at u = AT_END \<longrightarrow> ul_at u' = AT_END \<and> uo_started (ul_observer u') = uo_started (ul_observer u))"
  using assms
proof (induction rule: rtranclp_induct)
  case (step y z)
  then show ?case using deaf_step [of userId verified y z] by simp
qed simp

end
