(* ===== verification/Service_Dispatch.thy ===== *)
theory Service_Dispatch
  imports Service_Access Firmware_Service
begin

text \<open>
  How a request finds its implementation: \<open>services/engine/src/update_service_impl_manager.cpp\<close> and the request methods of
  \<open>update_service.cpp\<close> and \<open>update_service_common.cpp\<close>. An implementation object has one member of its own, the flag
  \<open>checkComplete_\<close> of a search that is waited for, so the map of the implementations is a map to flags. A request returns
  the code for the caller, what it writes to the output parameters, and the state.
\<close>

type_synonym impl_map = "(UpgradeInfo, bool) cmap"

definition GetOnlineUpdater :: "UpgradeInfo \<Rightarrow> impl_map \<Rightarrow> bool option \<times> impl_map" where
  "GetOnlineUpdater info impls =
     (case map_of impls info of
        Some checkComplete \<Rightarrow> (Some checkComplete, impls)
      | None \<Rightarrow>
          if bt_subType (ui_businessType info) = SUB_FIRMWARE then (Some False, cm_put info False impls) else (None, impls))"

text \<open>What every request has in common: no implementation is an error and nothing else happens; the methods of the firmware
  implementation return \<open>INT_CALL_SUCCESS\<close> always.\<close>

definition with_online :: "UpgradeInfo \<Rightarrow> impl_map \<Rightarrow> 'a \<Rightarrow> 'a \<Rightarrow> int \<times> 'a \<times> impl_map" where
  "with_online info impls unchanged answer =
     (case GetOnlineUpdater info impls of
        (None, impls1) \<Rightarrow> (INT_CALL_FAIL, unchanged, impls1)
      | (Some _, impls1) \<Rightarrow> (INT_CALL_SUCCESS, answer, impls1))"

section \<open>Searches\<close>

text \<open>The part of a search request before the wait, and the wait; between the two the search may bring its answer and the
  firmware layer may take other steps.\<close>

definition service_CheckNewVersion_start :: "UpgradeInfo \<Rightarrow> fw_env \<Rightarrow> fw \<Rightarrow> impl_map \<Rightarrow> (started \<times> impl_map) option" where
  "service_CheckNewVersion_start info env w impls =
     (case GetOnlineUpdater info impls of (None, _) \<Rightarrow> None | (Some _, impls1) \<Rightarrow> Some (manager_DoCheck env w, impls1))"

definition service_CheckNewVersion_end ::
  "UpgradeInfo \<Rightarrow> (BusinessError \<times> CheckResult) option \<Rightarrow> BusinessError \<times> CheckResult \<Rightarrow> impl_map
    \<Rightarrow> int \<times> (BusinessError \<times> CheckResult) \<times> impl_map" where
  "service_CheckNewVersion_end info arrived out impls =
     (case map_of impls info of
        None \<Rightarrow> (INT_CALL_FAIL, out, impls)
      | Some checkComplete \<Rightarrow>
          let (out1, flag) = wait_CheckNewVersion checkComplete arrived out
          in (INT_CALL_SUCCESS, out1, cm_adj info (\<lambda>_. flag) impls))"

definition service_late_answer :: "UpgradeInfo \<Rightarrow> impl_map \<Rightarrow> impl_map" where
  "service_late_answer info impls = cm_adj info late_answer impls"

section \<open>Downloads and upgrades\<close>

definition service_Download ::
  "UpgradeInfo \<Rightarrow> fw_env \<Rightarrow> DownloadOptions \<Rightarrow> BusinessError \<Rightarrow> fw \<Rightarrow> impl_map \<Rightarrow> int \<times> (BusinessError \<times> started) \<times> impl_map" where
  "service_Download info env opts err w impls = with_online info impls (err, [], w) (svc_Download env opts err w)"

definition service_PauseDownload :: "BusinessError \<Rightarrow> int \<times> BusinessError" where
  "service_PauseDownload err =
     (INT_CALL_SUCCESS, be_Build CR_UN_SUPPORT ''PauseDownload unsupport'' (err\<lparr>be_errorNum := CR_SUCCESS\<rparr>))"

definition service_ResumeDownload :: "BusinessError \<Rightarrow> int \<times> BusinessError" where
  "service_ResumeDownload err = (INT_CALL_SUCCESS, be_Build CR_UN_SUPPORT ''ResumeDownload unsupport'' err)"

definition service_Upgrade ::
  "UpgradeInfo \<Rightarrow> fw_env \<Rightarrow> UpgradeOptions \<Rightarrow> BusinessError \<Rightarrow> fw \<Rightarrow> impl_map \<Rightarrow> int \<times> (BusinessError \<times> started) \<times> impl_map" where
  "service_Upgrade info env opts err w impls = with_online info impls (err, [], w) (svc_Upgrade env opts err w)"

definition service_ClearError ::
  "UpgradeInfo \<Rightarrow> BusinessError \<Rightarrow> fw \<Rightarrow> impl_map \<Rightarrow> int \<times> (BusinessError \<times> fw) \<times> impl_map" where
  "service_ClearError info err w impls = with_online info impls (err, w) (svc_ClearError err w)"

text \<open>The first component of the answer: the process ends.\<close>

definition service_TerminateUpgrade ::
  "UpgradeInfo \<Rightarrow> fw_env \<Rightarrow> BusinessError \<Rightarrow> fw \<Rightarrow> impl_map \<Rightarrow> int \<times> (bool \<times> BusinessError \<times> fw) \<times> impl_map" where
  "service_TerminateUpgrade info env err w impls =
     with_online info impls (False, err, w) (svc_TerminateUpgrade env err w)"

definition service_Cancel ::
  "UpgradeInfo \<Rightarrow> fw_env \<Rightarrow> BusinessError \<Rightarrow> fw \<Rightarrow> impl_map \<Rightarrow> int \<times> (BusinessError \<times> fw) \<times> impl_map" where
  "service_Cancel info env err w impls = with_online info impls (err, w) (svc_Cancel env err w)"

section \<open>Questions\<close>

definition service_GetNewVersionInfo ::
  "UpgradeInfo \<Rightarrow> fw_env \<Rightarrow> string \<times> VersionComponent list \<Rightarrow> fw \<Rightarrow> impl_map \<Rightarrow> int \<times> (string \<times> VersionComponent list) \<times> impl_map" where
  "service_GetNewVersionInfo info env out w impls = with_online info impls out (GetNewVersionInfo env w)"

definition service_GetNewVersionDescription ::
  "UpgradeInfo \<Rightarrow> (string \<Rightarrow> string option) \<Rightarrow> string \<Rightarrow> BusinessError \<Rightarrow> fw \<Rightarrow> impl_map
    \<Rightarrow> int \<times> (BusinessError \<times> ComponentDescription list) \<times> impl_map" where
  "service_GetNewVersionDescription info realpath language err w impls =
     with_online info impls (err, []) (GetNewVersionDescription realpath language err w)"

text \<open>What the device adapter knows of the running version; \<open>BuildCurrentVersionInfo\<close> appends a component to its argument.\<close>

record device_version =
  dv_osVersion :: string
  dv_deviceName :: string
  dv_displayVersion :: string
  dv_realVersion :: string

record CurrentVersionInfo =
  cv_osVersion :: string
  cv_deviceName :: string
  cv_versionComponents :: "VersionComponent list"

definition BuildCurrentVersionInfo :: "device_version \<Rightarrow> prefs \<Rightarrow> CurrentVersionInfo \<Rightarrow> CurrentVersionInfo" where
  "BuildCurrentVersionInfo d p i =
     i\<lparr>cv_osVersion := dv_osVersion d, cv_deviceName := dv_deviceName d,
       cv_versionComponents := cv_versionComponents i @ [new_version_component\<lparr>
         vc_displayVersion := dv_displayVersion d, vc_innerVersion := dv_realVersion d, vc_descriptionType := 2,
         vc_componentId := ObtainString HOTA_CURRENT_COMPONENT_ID [] p, vc_componentType := 1\<rparr>]\<rparr>"

definition svc_GetCurrentVersionInfo ::
  "device_version \<Rightarrow> CurrentVersionInfo \<Rightarrow> BusinessError \<Rightarrow> fw \<Rightarrow> BusinessError \<times> CurrentVersionInfo" where
  "svc_GetCurrentVersionInfo d i err w = (err\<lparr>be_errorNum := CR_SUCCESS\<rparr>, BuildCurrentVersionInfo d (fw_prefs w) i)"

definition service_GetCurrentVersionInfo ::
  "UpgradeInfo \<Rightarrow> device_version \<Rightarrow> CurrentVersionInfo \<Rightarrow> BusinessError \<Rightarrow> fw \<Rightarrow> impl_map
    \<Rightarrow> int \<times> (BusinessError \<times> CurrentVersionInfo) \<times> impl_map" where
  "service_GetCurrentVersionInfo info d i err w impls =
     with_online info impls (err, i) (svc_GetCurrentVersionInfo d i err w)"

definition service_GetCurrentVersionDescription ::
  "UpgradeInfo \<Rightarrow> (string \<Rightarrow> string option) \<Rightarrow> string \<Rightarrow> BusinessError \<Rightarrow> fw \<Rightarrow> impl_map
    \<Rightarrow> int \<times> (BusinessError \<times> ComponentDescription list) \<times> impl_map" where
  "service_GetCurrentVersionDescription info realpath language err w impls =
     with_online info impls (err, []) (GetCurrentVersionDescription realpath language err w)"

definition service_GetTaskInfo ::
  "UpgradeInfo \<Rightarrow> TaskInfo \<Rightarrow> BusinessError \<Rightarrow> fw \<Rightarrow> impl_map \<Rightarrow> int \<times> (BusinessError \<times> TaskInfo) \<times> impl_map" where
  "service_GetTaskInfo info taskInfo err w impls = with_online info impls (err, taskInfo) (GetTaskInfo taskInfo err w)"

definition service_SetUpgradePolicy ::
  "UpgradeInfo \<Rightarrow> fw_env \<Rightarrow> UpgradePolicy \<Rightarrow> BusinessError \<Rightarrow> fw \<Rightarrow> impl_map \<Rightarrow> int \<times> (BusinessError \<times> fw) \<times> impl_map" where
  "service_SetUpgradePolicy info env policy err w impls = with_online info impls (err, w) (SetUpgradePolicy env policy err w)"

definition service_GetUpgradePolicy ::
  "UpgradeInfo \<Rightarrow> UpgradePolicy \<Rightarrow> BusinessError \<Rightarrow> fw \<Rightarrow> impl_map \<Rightarrow> int \<times> (BusinessError \<times> UpgradePolicy) \<times> impl_map" where
  "service_GetUpgradePolicy info policy err w impls =
     with_online info impls (err, policy) (err, GetUpgradePolicy policy w)"

section \<open>Resets and local packages\<close>

text \<open>\<open>MakeSptr\<close> of the restorer and the local updater succeeds; a failed allocation ends the process.\<close>

definition service_FactoryReset :: "reset_env \<Rightarrow> caller \<Rightarrow> BusinessError \<Rightarrow> int \<times> BusinessError \<times> reset_call list" where
  "service_FactoryReset e c err = restorer_FactoryReset e c err"

definition service_ForceFactoryReset :: "reset_env \<Rightarrow> caller \<Rightarrow> BusinessError \<Rightarrow> int \<times> BusinessError \<times> reset_call list" where
  "service_ForceFactoryReset e c err = restorer_ForceFactoryReset e c err"

definition service_DeepFactoryReset ::
  "reset_env \<Rightarrow> caller \<Rightarrow> FactoryResetScope \<Rightarrow> BusinessError \<Rightarrow> int \<times> BusinessError \<times> reset_call list" where
  "service_DeepFactoryReset e c scope err = restorer_DeepFactoryReset e c scope err"

definition service_GetDeepFactoryResetInfo ::
  "reset_env \<Rightarrow> FactoryResetScope \<Rightarrow> int \<Rightarrow> BusinessError \<Rightarrow> int \<times> int \<times> BusinessError" where
  "service_GetDeepFactoryResetInfo e scope duration err = restorer_GetDeepFactoryResetInfo e scope duration err"

definition service_ApplyNewVersion ::
  "(string \<Rightarrow> string list \<Rightarrow> bool) \<Rightarrow> string \<Rightarrow> string list \<Rightarrow> BusinessError \<Rightarrow> int \<times> BusinessError" where
  "service_ApplyNewVersion reboots miscFile packageNames err = local_ApplyNewVersion reboots miscFile packageNames err"

definition service_VerifyUpgradePackage ::
  "(string \<Rightarrow> string \<Rightarrow> int) \<Rightarrow> string \<Rightarrow> string \<Rightarrow> BusinessError \<Rightarrow> int \<times> BusinessError" where
  "service_VerifyUpgradePackage verifies packagePath keyPath err = local_VerifyUpgradePackage verifies packagePath keyPath err"

section \<open>Resets at the entry\<close>

text \<open>
  A request for a reset as it comes in. The stub that is generated from the interface calls \<open>CallbackEnter\<close>, then
  \<open>CallbackParcel\<close> with the raw request, and dispatches to the method when both answer zero. The last component of the
  result is what this service asks the storage manager and the updater for; what the function of an extension does with a
  request it takes over is not in the repository.
\<close>

definition reset_request ::
  "'r module_manager \<Rightarrow> unlock_observer option \<Rightarrow> caller \<Rightarrow> bool \<Rightarrow> reset_env \<Rightarrow> UpdaterSaInterfaceCode \<Rightarrow> 'r \<Rightarrow> FactoryResetScope
    \<Rightarrow> BusinessError \<Rightarrow> int \<times> BusinessError \<times> reset_call list" where
  "reset_request m observer c mdm e code data scope err =
     (let (ret, _) = CallbackEnter m observer c mdm (interface_code code) in
      if ret \<noteq> INT_CALL_SUCCESS then (ret, err, [])
      else let ret1 = CallbackParcel m (interface_code code) data in
      if ret1 \<noteq> INT_CALL_SUCCESS then (ret1, err, [])
      else case code of
        FACTORY_RESET \<Rightarrow> service_FactoryReset e c err
      | FORCE_FACTORY_RESET \<Rightarrow> service_ForceFactoryReset e c err
      | DEEP_FACTORY_RESET \<Rightarrow> service_DeepFactoryReset e c scope err
      | _ \<Rightarrow> (INT_CALL_FAIL, err, []))"

section \<open>Facts\<close>

lemma with_online_cases:
  "with_online info impls unchanged answer =
     (if cm_has info impls then (INT_CALL_SUCCESS, answer, impls)
      else if bt_subType (ui_businessType info) = SUB_FIRMWARE then (INT_CALL_SUCCESS, answer, cm_put info False impls)
      else (INT_CALL_FAIL, unchanged, impls))"
  by (simp add: with_online_def GetOnlineUpdater_def cm_has_iff split: option.split)

text \<open>Only firmware requests have an implementation.\<close>

definition only_firmware :: "impl_map \<Rightarrow> bool" where
  "only_firmware impls = list_all (\<lambda>(info, _). bt_subType (ui_businessType info) = SUB_FIRMWARE) impls"

lemma only_firmware_online:
  "only_firmware impls \<Longrightarrow> only_firmware (snd (snd (with_online info impls unchanged answer)))"
  by (auto simp: with_online_cases only_firmware_def list_all_iff dest: cm_put_mem)

lemma only_firmware_has: "only_firmware impls \<Longrightarrow> cm_has info impls \<Longrightarrow> bt_subType (ui_businessType info) = SUB_FIRMWARE"
  by (auto simp: only_firmware_def list_all_iff cm_has_def)

end
