(* ===== verification/Parcel_Requests.thy ===== *)
theory Parcel_Requests
  imports Parcel_Structs Service_Dispatch Firmware_Check
begin

text \<open>
  The other structures of \<open>interfaces/inner_api/feature/update/model\<close>: the arguments of the requests, the versions and the
  errors they return. As in \<open>Parcel_Structs\<close> each one is a \<open>codec\<close>.
\<close>

section \<open>Options with one or two members\<close>

record ClearOptions =
  co_status :: int

definition ClearOptions_items :: "ClearOptions \<Rightarrow> item list" where
  "ClearOptions_items x = [U32 (u32 (co_status x))]"

definition ClearOptions_Marshalling :: "parcel_env \<Rightarrow> ClearOptions \<Rightarrow> parcel \<Rightarrow> bool \<times> parcel" where
  "ClearOptions_Marshalling e x p = write_checked e (ClearOptions_items x) p"

definition ClearOptions_ReadFromParcel :: "parcel_env \<Rightarrow> ClearOptions \<Rightarrow> parcel \<Rightarrow> (bool \<times> ClearOptions) \<times> parcel" where
  "ClearOptions_ReadFromParcel e x p = (let (v1, p1) = ReadUint32 e p in ((True, x\<lparr>co_status := i32 v1\<rparr>), p1))"

definition ClearOptions_Unmarshalling :: "parcel_env \<Rightarrow> parcel \<Rightarrow> ClearOptions option \<times> parcel" where
  "ClearOptions_Unmarshalling e p = unmarshalled (ClearOptions_ReadFromParcel e \<lparr>co_status = 0\<rparr> p)"

interpretation ClearOptions_codec: codec ClearOptions_Marshalling ClearOptions_Unmarshalling ClearOptions_items "\<lambda>e x. is_i32 (co_status x)"
  by unfold_locales
    (simp_all add: ClearOptions_Marshalling_def ClearOptions_Unmarshalling_def ClearOptions_ReadFromParcel_def ClearOptions_items_def unmarshalled_def
      plain_def i32_u32)

record DownloadOptions_parcel =
  dop_allowNetwork :: int
  dop_order :: int

definition DownloadOptions_parcel_items :: "DownloadOptions_parcel \<Rightarrow> item list" where
  "DownloadOptions_parcel_items x = [U32 (u32 (dop_allowNetwork x)), U32 (u32 (dop_order x))]"

definition DownloadOptions_parcel_Marshalling :: "parcel_env \<Rightarrow> DownloadOptions_parcel \<Rightarrow> parcel \<Rightarrow> bool \<times> parcel" where
  "DownloadOptions_parcel_Marshalling e x p = write_checked e (DownloadOptions_parcel_items x) p"

definition DownloadOptions_parcel_ReadFromParcel :: "parcel_env \<Rightarrow> DownloadOptions_parcel \<Rightarrow> parcel \<Rightarrow> (bool \<times> DownloadOptions_parcel) \<times> parcel" where
  "DownloadOptions_parcel_ReadFromParcel e x p = (let (v1, p1) = ReadUint32 e p; (v2, p2) = ReadUint32 e p1 in ((True, x\<lparr>dop_allowNetwork := i32 v1, dop_order := i32 v2\<rparr>), p2))"

definition DownloadOptions_parcel_Unmarshalling :: "parcel_env \<Rightarrow> parcel \<Rightarrow> DownloadOptions_parcel option \<times> parcel" where
  "DownloadOptions_parcel_Unmarshalling e p = unmarshalled (DownloadOptions_parcel_ReadFromParcel e \<lparr>dop_allowNetwork = 6, dop_order = 1\<rparr> p)"

interpretation DownloadOptions_codec: codec DownloadOptions_parcel_Marshalling DownloadOptions_parcel_Unmarshalling DownloadOptions_parcel_items "\<lambda>e x. is_i32 (dop_allowNetwork x) \<and> is_i32 (dop_order x)"
  by unfold_locales
    (simp_all add: DownloadOptions_parcel_Marshalling_def DownloadOptions_parcel_Unmarshalling_def DownloadOptions_parcel_ReadFromParcel_def DownloadOptions_parcel_items_def unmarshalled_def
      plain_def i32_u32)

record ResumeDownloadOptions =
  ro_allowNetwork :: int

definition ResumeDownloadOptions_items :: "ResumeDownloadOptions \<Rightarrow> item list" where
  "ResumeDownloadOptions_items x = [U32 (u32 (ro_allowNetwork x))]"

definition ResumeDownloadOptions_Marshalling :: "parcel_env \<Rightarrow> ResumeDownloadOptions \<Rightarrow> parcel \<Rightarrow> bool \<times> parcel" where
  "ResumeDownloadOptions_Marshalling e x p = write_checked e (ResumeDownloadOptions_items x) p"

definition ResumeDownloadOptions_ReadFromParcel :: "parcel_env \<Rightarrow> ResumeDownloadOptions \<Rightarrow> parcel \<Rightarrow> (bool \<times> ResumeDownloadOptions) \<times> parcel" where
  "ResumeDownloadOptions_ReadFromParcel e x p = (let (v1, p1) = ReadUint32 e p in ((True, x\<lparr>ro_allowNetwork := i32 v1\<rparr>), p1))"

definition ResumeDownloadOptions_Unmarshalling :: "parcel_env \<Rightarrow> parcel \<Rightarrow> ResumeDownloadOptions option \<times> parcel" where
  "ResumeDownloadOptions_Unmarshalling e p = unmarshalled (ResumeDownloadOptions_ReadFromParcel e \<lparr>ro_allowNetwork = 6\<rparr> p)"

interpretation ResumeDownloadOptions_codec: codec ResumeDownloadOptions_Marshalling ResumeDownloadOptions_Unmarshalling ResumeDownloadOptions_items "\<lambda>e x. is_i32 (ro_allowNetwork x)"
  by unfold_locales
    (simp_all add: ResumeDownloadOptions_Marshalling_def ResumeDownloadOptions_Unmarshalling_def ResumeDownloadOptions_ReadFromParcel_def ResumeDownloadOptions_items_def unmarshalled_def
      plain_def i32_u32)

record PauseDownloadOptions =
  pa_isAllowAutoResume :: bool

definition PauseDownloadOptions_items :: "PauseDownloadOptions \<Rightarrow> item list" where
  "PauseDownloadOptions_items x = [Bool (pa_isAllowAutoResume x)]"

definition PauseDownloadOptions_Marshalling :: "parcel_env \<Rightarrow> PauseDownloadOptions \<Rightarrow> parcel \<Rightarrow> bool \<times> parcel" where
  "PauseDownloadOptions_Marshalling e x p = write_checked e (PauseDownloadOptions_items x) p"

definition PauseDownloadOptions_ReadFromParcel :: "parcel_env \<Rightarrow> PauseDownloadOptions \<Rightarrow> parcel \<Rightarrow> (bool \<times> PauseDownloadOptions) \<times> parcel" where
  "PauseDownloadOptions_ReadFromParcel e x p = (let (v1, p1) = ReadBool e p in ((True, x\<lparr>pa_isAllowAutoResume := v1\<rparr>), p1))"

definition PauseDownloadOptions_Unmarshalling :: "parcel_env \<Rightarrow> parcel \<Rightarrow> PauseDownloadOptions option \<times> parcel" where
  "PauseDownloadOptions_Unmarshalling e p = unmarshalled (PauseDownloadOptions_ReadFromParcel e \<lparr>pa_isAllowAutoResume = False\<rparr> p)"

interpretation PauseDownloadOptions_codec: codec PauseDownloadOptions_Marshalling PauseDownloadOptions_Unmarshalling PauseDownloadOptions_items "\<lambda>e x. True"
  by unfold_locales
    (simp_all add: PauseDownloadOptions_Marshalling_def PauseDownloadOptions_Unmarshalling_def PauseDownloadOptions_ReadFromParcel_def PauseDownloadOptions_items_def unmarshalled_def
      plain_def i32_u32)

record UpgradeOptions_parcel =
  uop_order :: int

definition UpgradeOptions_parcel_items :: "UpgradeOptions_parcel \<Rightarrow> item list" where
  "UpgradeOptions_parcel_items x = [U32 (u32 (uop_order x))]"

definition UpgradeOptions_parcel_Marshalling :: "parcel_env \<Rightarrow> UpgradeOptions_parcel \<Rightarrow> parcel \<Rightarrow> bool \<times> parcel" where
  "UpgradeOptions_parcel_Marshalling e x p = write_checked e (UpgradeOptions_parcel_items x) p"

definition UpgradeOptions_parcel_ReadFromParcel :: "parcel_env \<Rightarrow> UpgradeOptions_parcel \<Rightarrow> parcel \<Rightarrow> (bool \<times> UpgradeOptions_parcel) \<times> parcel" where
  "UpgradeOptions_parcel_ReadFromParcel e x p = (let (v1, p1) = ReadUint32 e p in ((True, x\<lparr>uop_order := i32 v1\<rparr>), p1))"

definition UpgradeOptions_parcel_Unmarshalling :: "parcel_env \<Rightarrow> parcel \<Rightarrow> UpgradeOptions_parcel option \<times> parcel" where
  "UpgradeOptions_parcel_Unmarshalling e p = unmarshalled (UpgradeOptions_parcel_ReadFromParcel e \<lparr>uop_order = 2\<rparr> p)"

interpretation UpgradeOptions_codec: codec UpgradeOptions_parcel_Marshalling UpgradeOptions_parcel_Unmarshalling UpgradeOptions_parcel_items "\<lambda>e x. is_i32 (uop_order x)"
  by unfold_locales
    (simp_all add: UpgradeOptions_parcel_Marshalling_def UpgradeOptions_parcel_Unmarshalling_def UpgradeOptions_parcel_ReadFromParcel_def UpgradeOptions_parcel_items_def unmarshalled_def
      plain_def i32_u32)

record FactoryResetInfo =
  ri_duration :: int

definition FactoryResetInfo_items :: "FactoryResetInfo \<Rightarrow> item list" where
  "FactoryResetInfo_items x = [I32 (ri_duration x)]"

definition FactoryResetInfo_Marshalling :: "parcel_env \<Rightarrow> FactoryResetInfo \<Rightarrow> parcel \<Rightarrow> bool \<times> parcel" where
  "FactoryResetInfo_Marshalling e x p = write_checked e (FactoryResetInfo_items x) p"

definition FactoryResetInfo_ReadFromParcel :: "parcel_env \<Rightarrow> FactoryResetInfo \<Rightarrow> parcel \<Rightarrow> (bool \<times> FactoryResetInfo) \<times> parcel" where
  "FactoryResetInfo_ReadFromParcel e x p = (let (v1, p1) = ReadInt32 e p in ((True, x\<lparr>ri_duration := v1\<rparr>), p1))"

definition FactoryResetInfo_Unmarshalling :: "parcel_env \<Rightarrow> parcel \<Rightarrow> FactoryResetInfo option \<times> parcel" where
  "FactoryResetInfo_Unmarshalling e p = unmarshalled (FactoryResetInfo_ReadFromParcel e \<lparr>ri_duration = 0\<rparr> p)"

interpretation FactoryResetInfo_codec: codec FactoryResetInfo_Marshalling FactoryResetInfo_Unmarshalling FactoryResetInfo_items "\<lambda>e x. True"
  by unfold_locales
    (simp_all add: FactoryResetInfo_Marshalling_def FactoryResetInfo_Unmarshalling_def FactoryResetInfo_ReadFromParcel_def FactoryResetInfo_items_def unmarshalled_def
      plain_def i32_u32)

record FactoryResetStrategy =
  rs_scope :: int
  rs_strategy :: string

definition FactoryResetStrategy_items :: "FactoryResetStrategy \<Rightarrow> item list" where
  "FactoryResetStrategy_items x = [U32 (u32 (rs_scope x)), Txt (rs_strategy x)]"

definition FactoryResetStrategy_Marshalling :: "parcel_env \<Rightarrow> FactoryResetStrategy \<Rightarrow> parcel \<Rightarrow> bool \<times> parcel" where
  "FactoryResetStrategy_Marshalling e x p = write_checked e (FactoryResetStrategy_items x) p"

definition FactoryResetStrategy_ReadFromParcel :: "parcel_env \<Rightarrow> FactoryResetStrategy \<Rightarrow> parcel \<Rightarrow> (bool \<times> FactoryResetStrategy) \<times> parcel" where
  "FactoryResetStrategy_ReadFromParcel e x p = (let (v1, p1) = ReadUint32 e p; (v2, p2) = ReadText e p1 in ((True, x\<lparr>rs_scope := i32 v1, rs_strategy := v2\<rparr>), p2))"

definition FactoryResetStrategy_Unmarshalling :: "parcel_env \<Rightarrow> parcel \<Rightarrow> FactoryResetStrategy option \<times> parcel" where
  "FactoryResetStrategy_Unmarshalling e p = unmarshalled (FactoryResetStrategy_ReadFromParcel e \<lparr>rs_scope = 1, rs_strategy = []\<rparr> p)"

interpretation FactoryResetStrategy_codec: codec FactoryResetStrategy_Marshalling FactoryResetStrategy_Unmarshalling FactoryResetStrategy_items "\<lambda>e x. is_i32 (rs_scope x) \<and> plain e (rs_strategy x)"
  by unfold_locales
    (simp_all add: FactoryResetStrategy_Marshalling_def FactoryResetStrategy_Unmarshalling_def FactoryResetStrategy_ReadFromParcel_def FactoryResetStrategy_items_def unmarshalled_def
      plain_def i32_u32)

record DescriptionOptions =
  de_format :: int
  de_language :: string

definition DescriptionOptions_items :: "DescriptionOptions \<Rightarrow> item list" where
  "DescriptionOptions_items x = [U32 (u32 (de_format x)), Txt (de_language x)]"

definition DescriptionOptions_Marshalling :: "parcel_env \<Rightarrow> DescriptionOptions \<Rightarrow> parcel \<Rightarrow> bool \<times> parcel" where
  "DescriptionOptions_Marshalling e x p = write_checked e (DescriptionOptions_items x) p"

definition DescriptionOptions_ReadFromParcel :: "parcel_env \<Rightarrow> DescriptionOptions \<Rightarrow> parcel \<Rightarrow> (bool \<times> DescriptionOptions) \<times> parcel" where
  "DescriptionOptions_ReadFromParcel e x p = (let (v1, p1) = ReadUint32 e p; (v2, p2) = ReadText e p1 in ((True, x\<lparr>de_format := i32 v1, de_language := v2\<rparr>), p2))"

definition DescriptionOptions_Unmarshalling :: "parcel_env \<Rightarrow> parcel \<Rightarrow> DescriptionOptions option \<times> parcel" where
  "DescriptionOptions_Unmarshalling e p = unmarshalled (DescriptionOptions_ReadFromParcel e \<lparr>de_format = 0, de_language = []\<rparr> p)"

interpretation DescriptionOptions_codec: codec DescriptionOptions_Marshalling DescriptionOptions_Unmarshalling DescriptionOptions_items "\<lambda>e x. is_i32 (de_format x) \<and> plain e (de_language x)"
  by unfold_locales
    (simp_all add: DescriptionOptions_Marshalling_def DescriptionOptions_Unmarshalling_def DescriptionOptions_ReadFromParcel_def DescriptionOptions_items_def unmarshalled_def
      plain_def i32_u32)

record VersionDigestInfo =
  vd_versionDigest :: string

definition VersionDigestInfo_items :: "VersionDigestInfo \<Rightarrow> item list" where
  "VersionDigestInfo_items x = [Txt (vd_versionDigest x)]"

definition VersionDigestInfo_Marshalling :: "parcel_env \<Rightarrow> VersionDigestInfo \<Rightarrow> parcel \<Rightarrow> bool \<times> parcel" where
  "VersionDigestInfo_Marshalling e x p = write_checked e (VersionDigestInfo_items x) p"

definition VersionDigestInfo_ReadFromParcel :: "parcel_env \<Rightarrow> VersionDigestInfo \<Rightarrow> parcel \<Rightarrow> (bool \<times> VersionDigestInfo) \<times> parcel" where
  "VersionDigestInfo_ReadFromParcel e x p = (let (v1, p1) = ReadText e p in ((True, x\<lparr>vd_versionDigest := v1\<rparr>), p1))"

definition VersionDigestInfo_Unmarshalling :: "parcel_env \<Rightarrow> parcel \<Rightarrow> VersionDigestInfo option \<times> parcel" where
  "VersionDigestInfo_Unmarshalling e p = unmarshalled (VersionDigestInfo_ReadFromParcel e \<lparr>vd_versionDigest = []\<rparr> p)"

interpretation VersionDigestInfo_codec: codec VersionDigestInfo_Marshalling VersionDigestInfo_Unmarshalling VersionDigestInfo_items "\<lambda>e x. plain e (vd_versionDigest x)"
  by unfold_locales
    (simp_all add: VersionDigestInfo_Marshalling_def VersionDigestInfo_Unmarshalling_def VersionDigestInfo_ReadFromParcel_def VersionDigestInfo_items_def unmarshalled_def
      plain_def i32_u32)

section \<open>\<open>UpgradeInfo\<close>\<close>

definition UpgradeInfo_items :: "UpgradeInfo \<Rightarrow> item list" where
  "UpgradeInfo_items i =
     [Txt (ui_upgradeApp i), Txt (bt_vendor (ui_businessType i)), I32 (bt_subType (ui_businessType i)), Txt (ui_upgradeDevId i),
      Txt (ui_controlDevId i), I32 (ui_processId i), I32 (ui_deviceType i)]"

definition UpgradeInfo_Marshalling :: "parcel_env \<Rightarrow> UpgradeInfo \<Rightarrow> parcel \<Rightarrow> bool \<times> parcel" where
  "UpgradeInfo_Marshalling e i p = write_checked e (UpgradeInfo_items i) p"

definition UpgradeInfo_ReadFromParcel :: "parcel_env \<Rightarrow> parcel \<Rightarrow> (bool \<times> UpgradeInfo) \<times> parcel" where
  "UpgradeInfo_ReadFromParcel e p =
     (let (app, p1) = ReadText e p; (vendor, p2) = ReadText e p1; (sub, p3) = ReadInt32 e p2; (upgradeDev, p4) = ReadText e p3;
          (controlDev, p5) = ReadText e p4; (process, p6) = ReadInt32 e p5; (deviceType, p7) = ReadInt32 e p6
      in ((True, UpgradeInfo app (BusinessType vendor sub) upgradeDev controlDev process deviceType), p7))"

definition UpgradeInfo_Unmarshalling :: "parcel_env \<Rightarrow> parcel \<Rightarrow> UpgradeInfo option \<times> parcel" where
  "UpgradeInfo_Unmarshalling e p = unmarshalled (UpgradeInfo_ReadFromParcel e p)"

definition UpgradeInfo_fits :: "parcel_env \<Rightarrow> UpgradeInfo \<Rightarrow> bool" where
  "UpgradeInfo_fits e i =
     list_all (plain e) [ui_upgradeApp i, bt_vendor (ui_businessType i), ui_upgradeDevId i, ui_controlDevId i]"

interpretation upgrade_info_codec: codec UpgradeInfo_Marshalling UpgradeInfo_Unmarshalling UpgradeInfo_items UpgradeInfo_fits
  by unfold_locales
    (simp_all add: UpgradeInfo_Marshalling_def UpgradeInfo_Unmarshalling_def UpgradeInfo_ReadFromParcel_def UpgradeInfo_items_def
      UpgradeInfo_fits_def unmarshalled_def plain_def)

section \<open>\<open>BusinessError\<close>\<close>

record BusinessError_parcel =
  bp_message :: string
  bp_errorNum :: int
  bp_data :: "ErrorMessage list"

definition BusinessError_Marshalling :: "parcel_env \<Rightarrow> BusinessError_parcel \<Rightarrow> parcel \<Rightarrow> bool \<times> parcel" where
  "BusinessError_Marshalling e b p =
     (case write_checked e [Txt (bp_message b), I32 (bp_errorNum b)] p of
        (False, p1) \<Rightarrow> (False, p1)
      | (True, p1) \<Rightarrow> (True, write_vector e (\<lambda>m q. snd (ErrorMessage_Marshalling e m q)) (bp_data b) p1))"

text \<open>The test for an empty vector comes before the test of the range.\<close>

definition BusinessError_ReadFromParcel ::
  "parcel_env \<Rightarrow> BusinessError_parcel \<Rightarrow> parcel \<Rightarrow> (bool \<times> BusinessError_parcel) \<times> parcel" where
  "BusinessError_ReadFromParcel e b p =
     (let (msg, p1) = ReadText e p; (num, p2) = ReadInt32 e p1; b1 = b\<lparr>bp_message := msg, bp_errorNum := num\<rparr>
      in if fst (ReadInt32 e p2) = 0 then ((True, b1), snd (ReadInt32 e p2))
         else let ((ok, errors), p3) = read_vector e (ErrorMessage_Unmarshalling e) (bp_data b1) p2
              in ((ok, b1\<lparr>bp_data := errors\<rparr>), p3))"

definition BusinessError_Unmarshalling :: "parcel_env \<Rightarrow> parcel \<Rightarrow> BusinessError_parcel option \<times> parcel" where
  "BusinessError_Unmarshalling e p =
     unmarshalled (BusinessError_ReadFromParcel e \<lparr>bp_message = [], bp_errorNum = 0, bp_data = []\<rparr> p)"

definition BusinessError_items :: "BusinessError_parcel \<Rightarrow> item list" where
  "BusinessError_items b = [Txt (bp_message b), I32 (bp_errorNum b)] @ vector_items ErrorMessage_items (bp_data b)"

definition BusinessError_fits :: "parcel_env \<Rightarrow> BusinessError_parcel \<Rightarrow> bool" where
  "BusinessError_fits e b = (plain e (bp_message b) \<and> vector_fits (ErrorMessage_fits e) (bp_data b))"

lemma read_size_vector: "vector_fits f xs \<Longrightarrow> ReadInt32 e (vector_items g xs @ rest) = (int (length xs), concat (map g xs) @ rest)"
  by (simp add: vector_items_def vector_fits_def length_i32)

interpretation business_error_codec: codec BusinessError_Marshalling BusinessError_Unmarshalling BusinessError_items BusinessError_fits
proof
  show "accepting e \<Longrightarrow> BusinessError_Marshalling e b p = (True, p @ BusinessError_items b)" for e b p
    by (simp add: BusinessError_Marshalling_def BusinessError_items_def error_codec.write_vector_items)
  show "BusinessError_fits e b \<Longrightarrow> BusinessError_Unmarshalling e (BusinessError_items b @ rest) = (Some b, rest)" for e b rest
    by (cases "bp_data b = []")
      (simp_all add: BusinessError_Unmarshalling_def BusinessError_ReadFromParcel_def BusinessError_items_def BusinessError_fits_def
        unmarshalled_def plain_def Let_def read_size_vector [of "ErrorMessage_fits e"] error_codec.read_vector_items)
qed

section \<open>\<open>UpgradePolicy\<close>\<close>

record UpgradePolicy_parcel =
  pp_downloadStrategy :: bool
  pp_autoUpgradeStrategy :: bool
  pp_first :: "int \<times> int"
  pp_second :: "int \<times> int"
  pp_customPolicyType :: int

definition UpgradePolicy_Marshalling :: "parcel_env \<Rightarrow> UpgradePolicy_parcel \<Rightarrow> parcel \<Rightarrow> bool \<times> parcel" where
  "UpgradePolicy_Marshalling e x p =
     (case write_checked e [Bool (pp_downloadStrategy x), Bool (pp_autoUpgradeStrategy x), I32 (pp_customPolicyType x), I32 2] p of
        (False, p1) \<Rightarrow> (False, p1)
      | (True, p1) \<Rightarrow> (True, write_unchecked e [U32 (fst (pp_first x)), U32 (snd (pp_first x)), U32 (fst (pp_second x)),
          U32 (snd (pp_second x))] p1))"

definition read_period :: "parcel_env \<Rightarrow> bool \<Rightarrow> int \<times> int \<Rightarrow> parcel \<Rightarrow> (int \<times> int) \<times> parcel" where
  "read_period e there old p =
     (if \<not> there then (old, p)
      else let (begins, p1) = ReadUint32 e p; (ends, p2) = ReadUint32 e p1 in ((begins, ends), p2))"

definition UpgradePolicy_ReadFromParcel ::
  "parcel_env \<Rightarrow> UpgradePolicy_parcel \<Rightarrow> parcel \<Rightarrow> (bool \<times> UpgradePolicy_parcel) \<times> parcel" where
  "UpgradePolicy_ReadFromParcel e x p =
     (let (download, p1) = ReadBool e p; (upgrade, p2) = ReadBool e p1; (custom, p3) = ReadInt32 e p2; (size, p4) = ReadInt32 e p3;
          x1 = x\<lparr>pp_downloadStrategy := download, pp_autoUpgradeStrategy := upgrade, pp_customPolicyType := custom\<rparr>
      in if size < MIN_VECTOR_SIZE \<or> MAX_VECTOR_SIZE < size then ((False, x1), p4)
         else let (first, p5) = read_period e (0 < size) (pp_first x1) p4;
                  (second, p6) = read_period e (1 < size) (pp_second x1) p5
              in ((True, x1\<lparr>pp_first := first, pp_second := second\<rparr>), p6))"

definition UpgradePolicy_Unmarshalling :: "parcel_env \<Rightarrow> parcel \<Rightarrow> UpgradePolicy_parcel option \<times> parcel" where
  "UpgradePolicy_Unmarshalling e p = unmarshalled (UpgradePolicy_ReadFromParcel e
     \<lparr>pp_downloadStrategy = False, pp_autoUpgradeStrategy = False, pp_first = (0, 0), pp_second = (0, 0), pp_customPolicyType = 0\<rparr> p)"

interpretation policy_codec: codec UpgradePolicy_Marshalling UpgradePolicy_Unmarshalling
    "\<lambda>x. [Bool (pp_downloadStrategy x), Bool (pp_autoUpgradeStrategy x), I32 (pp_customPolicyType x), I32 2,
      U32 (fst (pp_first x)), U32 (snd (pp_first x)), U32 (fst (pp_second x)), U32 (snd (pp_second x))]" "\<lambda>e x. True"
  by unfold_locales
    (simp_all add: UpgradePolicy_Marshalling_def UpgradePolicy_Unmarshalling_def UpgradePolicy_ReadFromParcel_def read_period_def
      unmarshalled_def MAX_VECTOR_SIZE_def MIN_VECTOR_SIZE_def)

section \<open>Versions\<close>

record NewVersionInfo_parcel =
  nv_versionDigest :: string
  nv_versionComponents :: "VersionComponent list"

definition NewVersionInfo_Marshalling :: "parcel_env \<Rightarrow> NewVersionInfo_parcel \<Rightarrow> parcel \<Rightarrow> bool \<times> parcel" where
  "NewVersionInfo_Marshalling e x p =
     (case write_checked e [Txt (nv_versionDigest x)] p of
        (False, p1) \<Rightarrow> (False, p1)
      | (True, p1) \<Rightarrow> (True, write_vector e (\<lambda>c q. snd (VersionComponent_Marshalling e c q)) (nv_versionComponents x) p1))"

definition NewVersionInfo_ReadFromParcel ::
  "parcel_env \<Rightarrow> NewVersionInfo_parcel \<Rightarrow> parcel \<Rightarrow> (bool \<times> NewVersionInfo_parcel) \<times> parcel" where
  "NewVersionInfo_ReadFromParcel e x p =
     (let (digest, p1) = ReadText e p; x1 = x\<lparr>nv_versionDigest := digest\<rparr>;
          ((ok, cs), p2) = read_vector e (VersionComponent_Unmarshalling e) (nv_versionComponents x1) p1
      in ((ok, x1\<lparr>nv_versionComponents := cs\<rparr>), p2))"

definition NewVersionInfo_Unmarshalling :: "parcel_env \<Rightarrow> parcel \<Rightarrow> NewVersionInfo_parcel option \<times> parcel" where
  "NewVersionInfo_Unmarshalling e p =
     unmarshalled (NewVersionInfo_ReadFromParcel e \<lparr>nv_versionDigest = [], nv_versionComponents = []\<rparr> p)"

interpretation new_version_codec: codec NewVersionInfo_Marshalling NewVersionInfo_Unmarshalling
    "\<lambda>x. Txt (nv_versionDigest x) # vector_items VersionComponent_items (nv_versionComponents x)"
    "\<lambda>e x. plain e (nv_versionDigest x) \<and> vector_fits (VersionComponent_fits e) (nv_versionComponents x)"
  by unfold_locales
    (simp_all add: NewVersionInfo_Marshalling_def NewVersionInfo_Unmarshalling_def NewVersionInfo_ReadFromParcel_def
      unmarshalled_def plain_def component_codec.write_vector_items component_codec.read_vector_items)

definition CheckResult_Marshalling :: "parcel_env \<Rightarrow> CheckResult \<Rightarrow> parcel \<Rightarrow> bool \<times> parcel" where
  "CheckResult_Marshalling e x p =
     (case write_checked e [Bool (cr_isExistNewVersion x), Txt (cr_versionDigest x)] p of
        (False, p1) \<Rightarrow> (False, p1)
      | (True, p1) \<Rightarrow> (True, write_vector e (\<lambda>c q. snd (VersionComponent_Marshalling e c q)) (cr_versionComponents x) p1))"

definition CheckResult_ReadFromParcel ::
  "parcel_env \<Rightarrow> CheckResult \<Rightarrow> parcel \<Rightarrow> (bool \<times> CheckResult) \<times> parcel" where
  "CheckResult_ReadFromParcel e x p =
     (let (exist, p1) = ReadBool e p; (digest, p2) = ReadText e p1;
          x1 = x\<lparr>cr_isExistNewVersion := exist, cr_versionDigest := digest\<rparr>;
          ((ok, cs), p3) = read_vector e (VersionComponent_Unmarshalling e) (cr_versionComponents x1) p2
      in ((ok, x1\<lparr>cr_versionComponents := cs\<rparr>), p3))"

definition CheckResult_Unmarshalling :: "parcel_env \<Rightarrow> parcel \<Rightarrow> CheckResult option \<times> parcel" where
  "CheckResult_Unmarshalling e p = unmarshalled (CheckResult_ReadFromParcel e
     \<lparr>cr_isExistNewVersion = False, cr_versionDigest = [], cr_versionComponents = []\<rparr> p)"

definition CheckResult_items :: "CheckResult \<Rightarrow> item list" where
  "CheckResult_items x = Bool (cr_isExistNewVersion x) # Txt (cr_versionDigest x) # vector_items VersionComponent_items (cr_versionComponents x)"

definition CheckResult_fits :: "parcel_env \<Rightarrow> CheckResult \<Rightarrow> bool" where
  "CheckResult_fits e x = (plain e (cr_versionDigest x) \<and> vector_fits (VersionComponent_fits e) (cr_versionComponents x))"

interpretation check_result_codec: codec CheckResult_Marshalling CheckResult_Unmarshalling CheckResult_items CheckResult_fits
  by unfold_locales
    (simp_all add: CheckResult_Marshalling_def CheckResult_Unmarshalling_def CheckResult_ReadFromParcel_def CheckResult_items_def
      CheckResult_fits_def unmarshalled_def plain_def component_codec.write_vector_items component_codec.read_vector_items)

definition CurrentVersionInfo_Marshalling :: "parcel_env \<Rightarrow> CurrentVersionInfo \<Rightarrow> parcel \<Rightarrow> bool \<times> parcel" where
  "CurrentVersionInfo_Marshalling e x p =
     (case write_checked e [Txt (cv_osVersion x), Txt (cv_deviceName x)] p of
        (False, p1) \<Rightarrow> (False, p1)
      | (True, p1) \<Rightarrow> (True, write_vector e (\<lambda>c q. snd (VersionComponent_Marshalling e c q)) (cv_versionComponents x) p1))"

definition CurrentVersionInfo_ReadFromParcel ::
  "parcel_env \<Rightarrow> CurrentVersionInfo \<Rightarrow> parcel \<Rightarrow> (bool \<times> CurrentVersionInfo) \<times> parcel" where
  "CurrentVersionInfo_ReadFromParcel e x p =
     (let (os, p1) = ReadText e p; (device, p2) = ReadText e p1; x1 = x\<lparr>cv_osVersion := os, cv_deviceName := device\<rparr>;
          ((ok, cs), p3) = read_vector e (VersionComponent_Unmarshalling e) (cv_versionComponents x1) p2
      in ((ok, x1\<lparr>cv_versionComponents := cs\<rparr>), p3))"

definition CurrentVersionInfo_Unmarshalling :: "parcel_env \<Rightarrow> parcel \<Rightarrow> CurrentVersionInfo option \<times> parcel" where
  "CurrentVersionInfo_Unmarshalling e p = unmarshalled (CurrentVersionInfo_ReadFromParcel e
     \<lparr>cv_osVersion = [], cv_deviceName = [], cv_versionComponents = []\<rparr> p)"

interpretation current_version_codec: codec CurrentVersionInfo_Marshalling CurrentVersionInfo_Unmarshalling
    "\<lambda>x. Txt (cv_osVersion x) # Txt (cv_deviceName x) # vector_items VersionComponent_items (cv_versionComponents x)"
    "\<lambda>e x. plain e (cv_osVersion x) \<and> plain e (cv_deviceName x) \<and> vector_fits (VersionComponent_fits e) (cv_versionComponents x)"
  by unfold_locales
    (simp_all add: CurrentVersionInfo_Marshalling_def CurrentVersionInfo_Unmarshalling_def CurrentVersionInfo_ReadFromParcel_def
      unmarshalled_def plain_def component_codec.write_vector_items component_codec.read_vector_items)

section \<open>Descriptions\<close>

record ComponentDescription_parcel =
  cp_componentId :: string
  cp_descriptionType :: int
  cp_content :: string
  cp_notifyDescriptionType :: int
  cp_notifyContent :: string

definition ComponentDescription_items :: "ComponentDescription_parcel \<Rightarrow> item list" where
  "ComponentDescription_items x = [Txt (cp_componentId x), U32 (u32 (cp_descriptionType x)), Txt (cp_content x),
     U32 (u32 (cp_notifyDescriptionType x)), Txt (cp_notifyContent x)]"

definition ComponentDescription_Marshalling :: "parcel_env \<Rightarrow> ComponentDescription_parcel \<Rightarrow> parcel \<Rightarrow> bool \<times> parcel" where
  "ComponentDescription_Marshalling e x p = (True, write_unchecked e (ComponentDescription_items x) p)"

definition ComponentDescription_ReadFromParcel ::
  "parcel_env \<Rightarrow> ComponentDescription_parcel \<Rightarrow> parcel \<Rightarrow> (bool \<times> ComponentDescription_parcel) \<times> parcel" where
  "ComponentDescription_ReadFromParcel e x p =
     (let (cid, p1) = ReadText e p; (ty, p2) = ReadUint32 e p1; (content, p3) = ReadText e p2; (nty, p4) = ReadUint32 e p3;
          (ncontent, p5) = ReadText e p4
      in ((True, x\<lparr>cp_componentId := cid, cp_descriptionType := i32 ty, cp_content := content, cp_notifyDescriptionType := i32 nty,
        cp_notifyContent := ncontent\<rparr>), p5))"

definition ComponentDescription_Unmarshalling :: "parcel_env \<Rightarrow> parcel \<Rightarrow> ComponentDescription_parcel option \<times> parcel" where
  "ComponentDescription_Unmarshalling e p = unmarshalled (ComponentDescription_ReadFromParcel e
     \<lparr>cp_componentId = [], cp_descriptionType = 0, cp_content = [], cp_notifyDescriptionType = 0, cp_notifyContent = []\<rparr> p)"

definition ComponentDescription_fits :: "parcel_env \<Rightarrow> ComponentDescription_parcel \<Rightarrow> bool" where
  "ComponentDescription_fits e x = (list_all (plain e) [cp_componentId x, cp_content x, cp_notifyContent x]
     \<and> is_i32 (cp_descriptionType x) \<and> is_i32 (cp_notifyDescriptionType x))"

interpretation description_codec: codec ComponentDescription_Marshalling ComponentDescription_Unmarshalling
    ComponentDescription_items ComponentDescription_fits
  by unfold_locales
    (simp_all add: ComponentDescription_Marshalling_def ComponentDescription_Unmarshalling_def
      ComponentDescription_ReadFromParcel_def ComponentDescription_items_def ComponentDescription_fits_def unmarshalled_def plain_def
      i32_u32)

text \<open>\<open>VersionDescriptionInfo\<close> is the vector of its descriptions.\<close>

definition VersionDescriptionInfo_Marshalling :: "parcel_env \<Rightarrow> ComponentDescription_parcel list \<Rightarrow> parcel \<Rightarrow> bool \<times> parcel" where
  "VersionDescriptionInfo_Marshalling e xs p =
     (True, write_vector e (\<lambda>x q. snd (ComponentDescription_Marshalling e x q)) xs p)"

definition VersionDescriptionInfo_ReadFromParcel ::
  "parcel_env \<Rightarrow> ComponentDescription_parcel list \<Rightarrow> parcel \<Rightarrow> (bool \<times> ComponentDescription_parcel list) \<times> parcel" where
  "VersionDescriptionInfo_ReadFromParcel e xs p = read_vector e (ComponentDescription_Unmarshalling e) xs p"

definition VersionDescriptionInfo_Unmarshalling :: "parcel_env \<Rightarrow> parcel \<Rightarrow> ComponentDescription_parcel list option \<times> parcel" where
  "VersionDescriptionInfo_Unmarshalling e p = unmarshalled (VersionDescriptionInfo_ReadFromParcel e [] p)"

interpretation descriptions_codec: codec VersionDescriptionInfo_Marshalling VersionDescriptionInfo_Unmarshalling
    "vector_items ComponentDescription_items" "\<lambda>e. vector_fits (ComponentDescription_fits e)"
  by unfold_locales
    (simp_all add: VersionDescriptionInfo_Marshalling_def VersionDescriptionInfo_Unmarshalling_def
      VersionDescriptionInfo_ReadFromParcel_def unmarshalled_def description_codec.write_vector_items
      description_codec.read_vector_items)

end
