(* ===== verification/Service_Kits.thy ===== *)
theory Service_Kits
  imports Service_Dispatch
begin

text \<open>
  The library in the process of an application: \<open>interfaces/inner_api/engine/src/update_service_kits_impl.cpp\<close> and
  \<open>foundations/ability/sa_loader/include/base_service_kits_impl.h\<close>. It holds the connection to the service, repeats the
  registration of the callbacks when it connects, and reconnects when the service dies. Here the two processes are put
  together: a request runs in the service process through the checks at its entry and the dispatch of \<open>Service_Dispatch\<close>.
\<close>

section \<open>Two processes\<close>

record service_process =
  sp_clients :: update_service
  sp_fw :: fw
  sp_impls :: impl_map

text \<open>A service process is known by its number, so a reference to one that has died is told from a reference to the next.\<close>

record kits =
  ki_remoteServer :: "nat option"
  ki_hasRecipient :: bool
  ki_callbackMap :: "(UpgradeInfo, nat) cmap"
  ki_retryTimes :: int

definition new_kits :: kits where
  "new_kits = \<lparr>ki_remoteServer = None, ki_hasRecipient = False, ki_callbackMap = [], ki_retryTimes = 0\<rparr>"

record ipc =
  ip_kits :: kits
  ip_process :: "(nat \<times> service_process) option"
  ip_started :: nat

text \<open>What the platform does: the result of the entry checks for this application, the process that is started when none is
  running (\<open>LoadSaService\<close>; none if that fails), whether a reference can be cast, and the code of a call into a dead process.\<close>

record kits_env =
  ke_enter :: "UpdaterSaInterfaceCode \<Rightarrow> int"
  ke_loads :: "service_process option"
  ke_casts :: bool
  ke_deadObject :: int

definition on_kits :: "(kits \<Rightarrow> kits) \<Rightarrow> ipc \<Rightarrow> ipc" where
  "on_kits f x = x\<lparr>ip_kits := f (ip_kits x)\<rparr>"

text \<open>A call of the proxy: the stub checks the request and runs the method.\<close>

definition remote_call ::
  "kits_env \<Rightarrow> UpdaterSaInterfaceCode \<Rightarrow> (service_process \<Rightarrow> int \<times> 'a \<times> service_process) \<Rightarrow> 'a \<Rightarrow> ipc \<Rightarrow> int \<times> 'a \<times> ipc" where
  "remote_call e code f unchanged x =
     (case (ki_remoteServer (ip_kits x), ip_process x) of
        (Some n, Some (m, sp)) \<Rightarrow>
          if n \<noteq> m then (ke_deadObject e, unchanged, x)
          else if ke_enter e code \<noteq> INT_CALL_SUCCESS then (ke_enter e code, unchanged, x)
          else (case f sp of (ret, out, sp1) \<Rightarrow> (ret, out, x\<lparr>ip_process := Some (m, sp1)\<rparr>))
      | _ \<Rightarrow> (ke_deadObject e, unchanged, x))"

definition process_Register :: "UpgradeInfo \<Rightarrow> nat \<Rightarrow> service_process \<Rightarrow> int \<times> unit \<times> service_process" where
  "process_Register info cb sp =
     (INT_CALL_SUCCESS, (), sp\<lparr>sp_clients := RegisterUpdateCallback info (Some cb) (sp_clients sp)\<rparr>)"

definition process_Unregister :: "UpgradeInfo \<Rightarrow> service_process \<Rightarrow> int \<times> unit \<times> service_process" where
  "process_Unregister info sp = (INT_CALL_SUCCESS, (), sp\<lparr>sp_clients := UnregisterUpdateCallback info (sp_clients sp)\<rparr>)"

section \<open>\<open>BaseServiceKitsImpl\<close>\<close>

text \<open>\<open>UpdateServiceKitsImpl::RegisterCallback\<close>: the results are not looked at.\<close>

definition kits_RegisterCallback :: "kits_env \<Rightarrow> ipc \<Rightarrow> ipc" where
  "kits_RegisterCallback e x =
     fold (\<lambda>(info, cb) y. snd (snd (remote_call e REGISTER_CALLBACK (process_Register info cb) () y))) (ki_callbackMap (ip_kits x)) x"

definition kits_AddDeathRecipient :: "ipc \<Rightarrow> ipc" where
  "kits_AddDeathRecipient = on_kits (\<lambda>k. k\<lparr>ki_hasRecipient := True\<rparr>)"

text \<open>True: there is a connection afterwards.\<close>

definition GetService :: "kits_env \<Rightarrow> ipc \<Rightarrow> bool \<times> ipc" where
  "GetService e x =
     (if ki_remoteServer (ip_kits x) \<noteq> None then (True, x)
      else
        case (case ip_process x of
                Some _ \<Rightarrow> Some x
              | None \<Rightarrow> map_option (\<lambda>sp. x\<lparr>ip_process := Some (ip_started x, sp), ip_started := ip_started x + 1\<rparr>) (ke_loads e)) of
          None \<Rightarrow> (False, x)
        | Some x1 \<Rightarrow>
            let x2 = kits_AddDeathRecipient x1 in
            if \<not> ke_casts e then (False, x2)
            else (True, kits_RegisterCallback e (on_kits (\<lambda>k. k\<lparr>ki_remoteServer := map_option fst (ip_process x2)\<rparr>) x2)))"

definition ResetRemoteService :: "ipc \<Rightarrow> ipc" where
  "ResetRemoteService = on_kits (\<lambda>k. k\<lparr>ki_remoteServer := None\<rparr>)"

definition base_ResetService :: "ipc \<Rightarrow> ipc" where
  "base_ResetService = on_kits (\<lambda>k. k\<lparr>ki_remoteServer := None, ki_hasRecipient := False\<rparr>)"

text \<open>The service is dead and the library is told.\<close>

definition kits_ResetService :: "kits_env \<Rightarrow> ipc \<Rightarrow> ipc" where
  "kits_ResetService e x =
     (let x1 = base_ResetService x in
      if ki_callbackMap (ip_kits x1) \<noteq> [] \<and> ki_retryTimes (ip_kits x1) < 3
      then on_kits (\<lambda>k. k\<lparr>ki_retryTimes := ki_retryTimes k + 1\<rparr>) (snd (GetService e x1)) else x1)"

definition service_dies :: "ipc \<Rightarrow> ipc" where
  "service_dies x = x\<lparr>ip_process := None\<rparr>"

section \<open>Requests\<close>

text \<open>What all requests do: connect, call, and forget the connection after a failure.\<close>

definition kits_request ::
  "kits_env \<Rightarrow> UpdaterSaInterfaceCode \<Rightarrow> (service_process \<Rightarrow> int \<times> 'a \<times> service_process) \<Rightarrow> 'a \<Rightarrow> ipc \<Rightarrow> int \<times> 'a \<times> ipc" where
  "kits_request e code f unchanged x =
     (case GetService e x of
        (False, x1) \<Rightarrow> (INT_CALL_IPC_ERR, unchanged, x1)
      | (True, x1) \<Rightarrow>
          (case remote_call e code f unchanged x1 of
             (ret, out, x2) \<Rightarrow> (ret, out, if ret = INT_CALL_SUCCESS then x2 else ResetRemoteService x2)))"

definition kits_RegisterUpdateCallback :: "kits_env \<Rightarrow> UpgradeInfo \<Rightarrow> nat \<Rightarrow> ipc \<Rightarrow> int \<times> ipc" where
  "kits_RegisterUpdateCallback e info cb x =
     (case GetService e x of
        (False, x1) \<Rightarrow> (INT_CALL_IPC_ERR, x1)
      | (True, x1) \<Rightarrow>
          (case remote_call e REGISTER_CALLBACK (process_Register info cb) () x1 of
             (ret, _, x2) \<Rightarrow>
               let x3 = on_kits (\<lambda>k. k\<lparr>ki_callbackMap := cm_put info cb (ki_callbackMap k)\<rparr>) x2
               in (ret, if ret = INT_CALL_SUCCESS then x3 else ResetRemoteService x3)))"

definition kits_UnregisterUpdateCallback :: "kits_env \<Rightarrow> UpgradeInfo \<Rightarrow> ipc \<Rightarrow> int \<times> ipc" where
  "kits_UnregisterUpdateCallback e info x =
     (case GetService e x of
        (False, x1) \<Rightarrow> (INT_CALL_IPC_ERR, x1)
      | (True, x1) \<Rightarrow>
          (case remote_call e UNREGISTER_CALLBACK (process_Unregister info) ()
                  (on_kits (\<lambda>k. k\<lparr>ki_callbackMap := cm_del info (ki_callbackMap k)\<rparr>) x1) of
             (ret, _, x2) \<Rightarrow> (ret, if ret = INT_CALL_SUCCESS then x2 else ResetRemoteService x2)))"

text \<open>A method of the dispatch that changes the firmware layer, and one that only asks.\<close>

definition changing :: "(fw \<Rightarrow> impl_map \<Rightarrow> int \<times> ('a \<times> fw) \<times> impl_map) \<Rightarrow> service_process \<Rightarrow> int \<times> 'a \<times> service_process" where
  "changing f sp = (case f (sp_fw sp) (sp_impls sp) of (ret, (out, w), impls) \<Rightarrow> (ret, out, sp\<lparr>sp_fw := w, sp_impls := impls\<rparr>))"

definition asking :: "(fw \<Rightarrow> impl_map \<Rightarrow> int \<times> 'a \<times> impl_map) \<Rightarrow> service_process \<Rightarrow> int \<times> 'a \<times> service_process" where
  "asking f sp = (case f (sp_fw sp) (sp_impls sp) of (ret, out, impls) \<Rightarrow> (ret, out, sp\<lparr>sp_impls := impls\<rparr>))"

definition pure_call :: "int \<times> 'a \<Rightarrow> service_process \<Rightarrow> int \<times> 'a \<times> service_process" where
  "pure_call r sp = (fst r, snd r, sp)"

text \<open>The outputs of a request that starts a flow: the error and the flows.\<close>

definition flow_outputs :: "int \<times> ('e \<times> started) \<times> impl_map \<Rightarrow> int \<times> (('e \<times> flow_state list) \<times> fw) \<times> impl_map" where
  "flow_outputs r = (case r of (ret, (err, (flows, w)), impls) \<Rightarrow> (ret, ((err, flows), w), impls))"

definition kits_Download :: "kits_env \<Rightarrow> UpgradeInfo \<Rightarrow> fw_env \<Rightarrow> DownloadOptions \<Rightarrow> BusinessError \<Rightarrow> ipc \<Rightarrow> int \<times> (BusinessError \<times> flow_state list) \<times> ipc" where
  "kits_Download e info env opts err x =
     kits_request e DOWNLOAD (changing (\<lambda>w impls. flow_outputs (service_Download info env opts err w impls))) (err, []) x"

definition kits_PauseDownload :: "kits_env \<Rightarrow> BusinessError \<Rightarrow> ipc \<Rightarrow> int \<times> (BusinessError) \<times> ipc" where
  "kits_PauseDownload e err x =
     kits_request e PAUSE_DOWNLOAD (pure_call (service_PauseDownload err)) err x"

definition kits_ResumeDownload :: "kits_env \<Rightarrow> BusinessError \<Rightarrow> ipc \<Rightarrow> int \<times> (BusinessError) \<times> ipc" where
  "kits_ResumeDownload e err x =
     kits_request e RESUME_DOWNLOAD (pure_call (service_ResumeDownload err)) err x"

definition kits_Upgrade :: "kits_env \<Rightarrow> UpgradeInfo \<Rightarrow> fw_env \<Rightarrow> UpgradeOptions \<Rightarrow> BusinessError \<Rightarrow> ipc \<Rightarrow> int \<times> (BusinessError \<times> flow_state list) \<times> ipc" where
  "kits_Upgrade e info env opts err x =
     kits_request e UPGRADE (changing (\<lambda>w impls. flow_outputs (service_Upgrade info env opts err w impls))) (err, []) x"

definition kits_ClearError :: "kits_env \<Rightarrow> UpgradeInfo \<Rightarrow> BusinessError \<Rightarrow> ipc \<Rightarrow> int \<times> (BusinessError) \<times> ipc" where
  "kits_ClearError e info err x =
     kits_request e CLEAR_ERROR (changing (service_ClearError info err)) err x"

definition kits_TerminateUpgrade :: "kits_env \<Rightarrow> UpgradeInfo \<Rightarrow> fw_env \<Rightarrow> BusinessError \<Rightarrow> ipc \<Rightarrow> int \<times> (bool \<times> BusinessError) \<times> ipc" where
  "kits_TerminateUpgrade e info env err x =
     kits_request e TERMINATE_UPGRADE (changing (\<lambda>w impls. case service_TerminateUpgrade info env err w impls of (ret, (ends, err1, w1), impls1) \<Rightarrow> (ret, ((ends, err1), w1), impls1))) (False, err) x"

definition kits_GetNewVersionInfo :: "kits_env \<Rightarrow> UpgradeInfo \<Rightarrow> fw_env \<Rightarrow> string \<times> VersionComponent list \<Rightarrow> ipc \<Rightarrow> int \<times> (string \<times> VersionComponent list) \<times> ipc" where
  "kits_GetNewVersionInfo e info env out x =
     kits_request e GET_NEW_VERSION (asking (service_GetNewVersionInfo info env out)) out x"

definition kits_GetNewVersionDescription :: "kits_env \<Rightarrow> UpgradeInfo \<Rightarrow> (string \<Rightarrow> string option) \<Rightarrow> string \<Rightarrow> BusinessError \<Rightarrow> ipc \<Rightarrow> int \<times> (BusinessError \<times> ComponentDescription list) \<times> ipc" where
  "kits_GetNewVersionDescription e info realpath language err x =
     kits_request e GET_NEW_VERSION_DESCRIPTION (asking (service_GetNewVersionDescription info realpath language err)) (err, []) x"

definition kits_GetCurrentVersionInfo :: "kits_env \<Rightarrow> UpgradeInfo \<Rightarrow> device_version \<Rightarrow> CurrentVersionInfo \<Rightarrow> BusinessError \<Rightarrow> ipc \<Rightarrow> int \<times> (BusinessError \<times> CurrentVersionInfo) \<times> ipc" where
  "kits_GetCurrentVersionInfo e info d i err x =
     kits_request e GET_CURRENT_VERSION (asking (service_GetCurrentVersionInfo info d i err)) (err, i) x"

definition kits_GetCurrentVersionDescription :: "kits_env \<Rightarrow> UpgradeInfo \<Rightarrow> (string \<Rightarrow> string option) \<Rightarrow> string \<Rightarrow> BusinessError \<Rightarrow> ipc \<Rightarrow> int \<times> (BusinessError \<times> ComponentDescription list) \<times> ipc" where
  "kits_GetCurrentVersionDescription e info realpath language err x =
     kits_request e GET_CURRENT_VERSION_DESCRIPTION (asking (service_GetCurrentVersionDescription info realpath language err)) (err, []) x"

definition kits_GetTaskInfo :: "kits_env \<Rightarrow> UpgradeInfo \<Rightarrow> TaskInfo \<Rightarrow> BusinessError \<Rightarrow> ipc \<Rightarrow> int \<times> (BusinessError \<times> TaskInfo) \<times> ipc" where
  "kits_GetTaskInfo e info taskInfo err x =
     kits_request e GET_TASK_INFO (asking (service_GetTaskInfo info taskInfo err)) (err, taskInfo) x"

definition kits_SetUpgradePolicy :: "kits_env \<Rightarrow> UpgradeInfo \<Rightarrow> fw_env \<Rightarrow> UpgradePolicy \<Rightarrow> BusinessError \<Rightarrow> ipc \<Rightarrow> int \<times> (BusinessError) \<times> ipc" where
  "kits_SetUpgradePolicy e info env policy err x =
     kits_request e SET_POLICY (changing (service_SetUpgradePolicy info env policy err)) err x"

definition kits_GetUpgradePolicy :: "kits_env \<Rightarrow> UpgradeInfo \<Rightarrow> UpgradePolicy \<Rightarrow> BusinessError \<Rightarrow> ipc \<Rightarrow> int \<times> (BusinessError \<times> UpgradePolicy) \<times> ipc" where
  "kits_GetUpgradePolicy e info policy err x =
     kits_request e GET_POLICY (asking (service_GetUpgradePolicy info policy err)) (err, policy) x"

definition kits_Cancel :: "kits_env \<Rightarrow> UpgradeInfo \<Rightarrow> fw_env \<Rightarrow> BusinessError \<Rightarrow> ipc \<Rightarrow> int \<times> (BusinessError) \<times> ipc" where
  "kits_Cancel e info env err x =
     kits_request e CANCEL (changing (service_Cancel info env err)) err x"

definition kits_FactoryReset :: "kits_env \<Rightarrow> reset_env \<Rightarrow> caller \<Rightarrow> BusinessError \<Rightarrow> ipc \<Rightarrow> int \<times> (BusinessError \<times> reset_call list) \<times> ipc" where
  "kits_FactoryReset e re c err x =
     kits_request e FACTORY_RESET (pure_call (service_FactoryReset re c err)) (err, []) x"

definition kits_ForceFactoryReset :: "kits_env \<Rightarrow> reset_env \<Rightarrow> caller \<Rightarrow> BusinessError \<Rightarrow> ipc \<Rightarrow> int \<times> (BusinessError \<times> reset_call list) \<times> ipc" where
  "kits_ForceFactoryReset e re c err x =
     kits_request e FORCE_FACTORY_RESET (pure_call (service_ForceFactoryReset re c err)) (err, []) x"

definition kits_DeepFactoryReset :: "kits_env \<Rightarrow> reset_env \<Rightarrow> caller \<Rightarrow> FactoryResetScope \<Rightarrow> BusinessError \<Rightarrow> ipc \<Rightarrow> int \<times> (BusinessError \<times> reset_call list) \<times> ipc" where
  "kits_DeepFactoryReset e re c scope err x =
     kits_request e DEEP_FACTORY_RESET (pure_call (service_DeepFactoryReset re c scope err)) (err, []) x"

definition kits_GetDeepFactoryResetInfo :: "kits_env \<Rightarrow> reset_env \<Rightarrow> FactoryResetScope \<Rightarrow> int \<Rightarrow> BusinessError \<Rightarrow> ipc \<Rightarrow> int \<times> (int \<times> BusinessError) \<times> ipc" where
  "kits_GetDeepFactoryResetInfo e re scope duration err x =
     kits_request e GET_DEEP_FACTORY_RESET_INFO (pure_call (service_GetDeepFactoryResetInfo re scope duration err)) (duration, err) x"

definition kits_ApplyNewVersion :: "kits_env \<Rightarrow> (string \<Rightarrow> string list \<Rightarrow> bool) \<Rightarrow> string \<Rightarrow> string list \<Rightarrow> BusinessError \<Rightarrow> ipc \<Rightarrow> int \<times> (BusinessError) \<times> ipc" where
  "kits_ApplyNewVersion e reboots miscFile packageNames err x =
     kits_request e APPLY_NEW_VERSION (pure_call (service_ApplyNewVersion reboots miscFile packageNames err)) err x"

definition kits_VerifyUpgradePackage :: "kits_env \<Rightarrow> (string \<Rightarrow> string \<Rightarrow> int) \<Rightarrow> string \<Rightarrow> string \<Rightarrow> BusinessError \<Rightarrow> ipc \<Rightarrow> int \<times> (BusinessError) \<times> ipc" where
  "kits_VerifyUpgradePackage e verifies packagePath keyPath err x =
     kits_request e VERIFY_UPGRADE_PACKAGE (pure_call (service_VerifyUpgradePackage verifies packagePath keyPath err)) err x"

text \<open>A search is waited for in the service process; \<open>arrived\<close> is the answer that comes in time. The search itself is started
  by \<open>service_CheckNewVersion_start\<close>.\<close>

definition process_CheckNewVersion ::
  "UpgradeInfo \<Rightarrow> fw_env \<Rightarrow> (BusinessError \<times> CheckResult) option \<Rightarrow> BusinessError \<times> CheckResult \<Rightarrow> service_process
    \<Rightarrow> int \<times> ((BusinessError \<times> CheckResult) \<times> flow_state list) \<times> service_process" where
  "process_CheckNewVersion info env arrived out sp =
     (case service_CheckNewVersion_start info env (sp_fw sp) (sp_impls sp) of
        None \<Rightarrow> (INT_CALL_FAIL, (out, []), sp)
      | Some ((flows, w), impls) \<Rightarrow>
          (case service_CheckNewVersion_end info arrived out impls of
             (ret, out1, impls1) \<Rightarrow> (ret, (out1, flows), sp\<lparr>sp_fw := w, sp_impls := impls1\<rparr>)))"

definition kits_CheckNewVersion ::
  "kits_env \<Rightarrow> UpgradeInfo \<Rightarrow> fw_env \<Rightarrow> (BusinessError \<times> CheckResult) option \<Rightarrow> BusinessError \<times> CheckResult \<Rightarrow> ipc
    \<Rightarrow> int \<times> ((BusinessError \<times> CheckResult) \<times> flow_state list) \<times> ipc" where
  "kits_CheckNewVersion e info env arrived out x =
     kits_request e CHECK_VERSION (process_CheckNewVersion info env arrived out) (out, []) x"

section \<open>Facts\<close>

lemma kits_fields [simp]:
  "ip_process (on_kits f x) = ip_process x" "ip_started (on_kits f x) = ip_started x" "ip_kits (on_kits f x) = f (ip_kits x)"
  by (simp_all add: on_kits_def)

lemma remote_call_kits [simp]: "ip_kits (snd (snd (remote_call e code f u x))) = ip_kits x"
  by (simp add: remote_call_def split: option.split prod.split)

lemma remote_call_connected:
  "ki_remoteServer (ip_kits x) = Some n \<Longrightarrow> ip_process x = Some (n, sp) \<Longrightarrow> ke_enter e code = INT_CALL_SUCCESS \<Longrightarrow>
     remote_call e code f u x = (fst (f sp), fst (snd (f sp)), x\<lparr>ip_process := Some (n, snd (snd (f sp)))\<rparr>)"
  by (simp add: remote_call_def split: prod.split)

text \<open>Repeating the registrations leaves the service with the callbacks of the library.\<close>

lemma repeated_registrations:
  assumes "ke_enter e REGISTER_CALLBACK = INT_CALL_SUCCESS" "ki_remoteServer (ip_kits x) = Some n" "ip_process x = Some (n, sp)"
    and "distinct (map fst cs)"
  shows "\<exists>sp'. ip_process (fold (\<lambda>(info, cb) y. snd (snd (remote_call e REGISTER_CALLBACK (process_Register info cb) () y))) cs x) = Some (n, sp')
      \<and> ip_kits (fold (\<lambda>(info, cb) y. snd (snd (remote_call e REGISTER_CALLBACK (process_Register info cb) () y))) cs x) = ip_kits x
      \<and> (\<forall>i. GetUpgradeCallback i (sp_clients sp') = (case map_of cs i of Some cb \<Rightarrow> Some cb | None \<Rightarrow> GetUpgradeCallback i (sp_clients sp)))"
  using assms(2-4)
proof (induction cs arbitrary: x sp)
  case (Cons c cs)
  obtain info cb where c: "c = (info, cb)" by (cases c)
  let ?x = "x\<lparr>ip_process := Some (n, snd (snd (process_Register info cb sp)))\<rparr>"
  have step: "snd (snd (remote_call e REGISTER_CALLBACK (process_Register info cb) () x)) = ?x"
    by (simp add: remote_call_connected [OF Cons.prems(1,2) assms(1)])
  have notin: "map_of cs info = None" using Cons.prems(3) c by (auto simp: map_of_eq_None_iff)
  have server: "ki_remoteServer (ip_kits ?x) = Some n" "ip_process ?x = Some (n, snd (snd (process_Register info cb sp)))"
    "distinct (map fst cs)"
    using Cons.prems by simp_all
  from Cons.IH [OF server] obtain sp' where sp':
    "ip_process (fold (\<lambda>(info, cb) y. snd (snd (remote_call e REGISTER_CALLBACK (process_Register info cb) () y))) cs ?x) = Some (n, sp')"
    "ip_kits (fold (\<lambda>(info, cb) y. snd (snd (remote_call e REGISTER_CALLBACK (process_Register info cb) () y))) cs ?x) = ip_kits x"
    "\<forall>i. GetUpgradeCallback i (sp_clients sp') = (case map_of cs i of Some cb \<Rightarrow> Some cb
       | None \<Rightarrow> GetUpgradeCallback i (sp_clients (snd (snd (process_Register info cb sp)))))" by auto
  then have "\<forall>i. GetUpgradeCallback i (sp_clients sp') =
      (case map_of (c # cs) i of Some cb \<Rightarrow> Some cb | None \<Rightarrow> GetUpgradeCallback i (sp_clients sp))"
    using notin by (simp add: c process_Register_def split: option.split)
  with sp'(1,2) step show ?case by (auto simp: c)
qed simp

end
