(* ===== verification/Engine_Claims.thy ===== *)
theory Engine_Claims
  imports Update_Notify Parcel_Requests Service_Kits Service_Claims
begin

text \<open>
  The properties of the service as its clients see it: who keeps it alive, who may ask for what, what crosses the process
  boundary, and where an event ends up.
\<close>

section \<open>Clients\<close>

text \<open>C19: A client that is registered keeps the process alive: in every reachable state of the registry, whatever registrations,
  deaths and late notices came in any order, a round of the idle loop that begins while some client is in the map does not
  ask for the end of the process. (A client that comes in the middle of a round is the subject of the next theorem.)\<close>

theorem registered_client_keeps_service:
  assumes "service_reach y" "GetUpgradeCallback info (sy_service y) = Some cb" "su_access st = us_access (sy_service y)"
  shows "\<not> fst (IdleLoop sm env w st)"
proof -
  have "us_clientProxyMap (sy_service y) \<noteq> []" using assms(2) by (auto simp: GetUpgradeCallback_def split: option.splits)
  with reachable_idle_flag [OF assms(1)] show ?thesis by (intro IdleLoop_stays) (simp add: idle_flag_ok_def assms(3))
qed

definition ex_client :: UpgradeInfo where
  "ex_client = UpgradeInfo ''app'' (BusinessType ''ohos'' SUB_FIRMWARE) [] [] 7 0"

definition ex_registered :: service_system where
  "ex_registered = (start_system new_access_manager)\<lparr>
     sy_service := insert_client ex_client (Some 3) (UnregisterUpdateCallback ex_client (new_update_service new_access_manager)),
     sy_remembering := [ex_client]\<rparr>"

lemma ex_registered_reach: "service_reach ex_registered"
proof -
  let ?y0 = "start_system new_access_manager"
  let ?y1 = "?y0\<lparr>sy_service := UnregisterUpdateCallback ex_client (sy_service ?y0), sy_entering := (ex_client, Some 3) # sy_entering ?y0\<rparr>"
  have "service_reach ?y0" by (rule service_reach.start) (simp add: new_access_manager_def)
  then have y1: "service_reach ?y1" by (rule service_reach.step) (rule client_step.begin_register)
  have "(ex_client, Some 3) \<in> set (sy_entering ?y1)" by simp
  from service_reach.step [OF y1 client_step.insert [OF this]] show ?thesis
    by (simp add: ex_registered_def start_system_def)
qed

theorem registered_client_keeps_service_witness:
  "\<not> fst (IdleLoop None ex_device ex_firmware ((new_startup ex_device [])\<lparr>su_access := us_access (sy_service ex_registered)\<rparr>))"
proof -
  have "GetUpgradeCallback ex_client (sy_service ex_registered) = Some 3" by code_simp
  from registered_client_keeps_service [OF ex_registered_reach this] show ?thesis by simp
qed

text \<open>C35: A registration that comes between the idle check and the exit of a round comes too late: the exit does not look
  at the idle flag again, so a round that would have ended the process without the client ends it with the client
  registered and the flag taken back.\<close>

theorem late_registration_loses_service:
  assumes "su_access st = us_access sv" "fst (IdleLoop sm env w st)"
  shows "fst (idle_round (\<lambda>s. s\<lparr>su_access := us_access (RegisterUpdateCallback info (Some cb) sv)\<rparr>) sm env w st)
    \<and> GetUpgradeCallback info (RegisterUpdateCallback info (Some cb) sv) = Some cb
    \<and> \<not> am_isRemoteIdle (us_access (RegisterUpdateCallback info (Some cb) sv))"
proof -
  obtain b s1 where c: "startup_IdleCheck env w st = (b, s1)" by fastforce
  show ?thesis
    using idle_round_late [OF c, of "\<lambda>s. s\<lparr>su_access := us_access (RegisterUpdateCallback info (Some cb) sv)\<rparr>" sm]
      startup_IdleCheck_access [OF c] assms register_access [of info "Some cb" sv]
    by simp
qed

text \<open>An idle service whose next search is far away, and a client that registers while it is leaving.\<close>

definition ex_leaving_firmware :: fw where
  "ex_leaving_firmware = ex_firmware\<lparr>fw_prefs := \<lparr>pr_up = True, pr_values = [(''auto_upgrade_time'', PrefLong 100100)]\<rparr>\<rparr>"

theorem late_registration_loses_service_witness:
  "fst (idle_round (\<lambda>s. s\<lparr>su_access := us_access (RegisterUpdateCallback ex_client (Some 3)
       (new_update_service (su_access ex_startup)))\<rparr>) (Some (\<lambda>_. 0)) ex_device ex_leaving_firmware ex_startup)"
proof -
  have "fst (IdleLoop (Some (\<lambda>_. 0)) ex_device ex_leaving_firmware ex_startup)" by code_simp
  moreover have "su_access ex_startup = us_access (new_update_service (su_access ex_startup))"
    by (simp add: new_update_service_def)
  ultimately show ?thesis using late_registration_loses_service [of ex_startup] by blast
qed

text \<open>When the object of a client dies, the notice of its death may come after the same client has registered a new object:
  then the notice removes the new registration, although its object is alive.\<close>

theorem late_notice_removes_successor:
  assumes "r \<in> set (sy_notices y)" "dr_upgradeInfo r = info"
  shows "\<exists>y'. client_step (y\<lparr>sy_service := RegisterUpdateCallback info (Some cb) (sy_service y)\<rparr>) y'
    \<and> GetUpgradeCallback info (RegisterUpdateCallback info (Some cb) (sy_service y)) = Some cb
    \<and> GetUpgradeCallback info (sy_service y') = None"
proof -
  let ?y = "y\<lparr>sy_service := RegisterUpdateCallback info (Some cb) (sy_service y)\<rparr>"
  have "r \<in> set (sy_notices ?y)" using assms(1) by simp
  from client_step.notice [OF this] show ?thesis
    using assms(2) by (intro exI [of _ "?y\<lparr>sy_service := OnRemoteDied r (sy_service ?y), sy_notices := remove1 r (sy_notices ?y)\<rparr>"])
      (simp add: OnRemoteDied_def)
qed

theorem late_notice_removes_successor_witness:
  "\<exists>y'. client_step (ex_registered\<lparr>sy_notices := [\<lparr>dr_serial = 0, dr_upgradeInfo = ex_client\<rparr>],
        sy_service := RegisterUpdateCallback ex_client (Some 4) (sy_service ex_registered)\<rparr>) y'
    \<and> GetUpgradeCallback ex_client (sy_service y') = None"
  using late_notice_removes_successor [of "\<lparr>dr_serial = 0, dr_upgradeInfo = ex_client\<rparr>"
      "ex_registered\<lparr>sy_notices := [\<lparr>dr_serial = 0, dr_upgradeInfo = ex_client\<rparr>]\<rparr>" ex_client 4]
  by auto

text \<open>The events of a business go to the client that registered last. When this client leaves, they go to the update
  application, and a client that registered before it and is still registered gets none of them.\<close>

theorem events_go_to_last_client:
  assumes "\<not> IsLocal info" "IsTypelegal (bt_subType (ui_businessType info))" "other \<noteq> info"
    and "GetUpgradeCallback other s = Some cb'"
  shows "let s1 = RegisterUpdateCallback info (Some cb) s; s2 = UnregisterUpdateCallback info s1; k = bt_subType (ui_businessType info)
    in CallbackToHap k s1 = Some cb \<and> CallbackToHap k s2 = None \<and> GetUpgradeCallback other s2 = Some cb'"
  using assms by (auto simp: CallbackToHap_def GetUpgradeInfo_def SetUpgradeInfo_def Let_def)

definition ex_other :: UpgradeInfo where
  "ex_other = UpgradeInfo ''settings'' (BusinessType ''ohos'' SUB_FIRMWARE) [] [] 8 0"

theorem events_go_to_last_client_witness:
  "let s2 = UnregisterUpdateCallback ex_other (RegisterUpdateCallback ex_other (Some 4) (sy_service ex_registered))
   in CallbackToHap SUB_FIRMWARE s2 = None \<and> GetUpgradeCallback ex_client s2 = Some 3"
proof -
  have "\<not> IsLocal ex_other" "IsTypelegal (bt_subType (ui_businessType ex_other))" "ex_client \<noteq> ex_other"
    "GetUpgradeCallback ex_client (sy_service ex_registered) = Some 3"
    by code_simp+
  from events_go_to_last_client [OF this, of 4] show ?thesis by (simp add: Let_def ex_other_def)
qed

section \<open>Access\<close>

text \<open>C20: The service asks the storage manager or the updater for a reset only for a caller that may ask for it: a system
  application or a privileged process with the permission that belongs to the request, while the device management allows
  resets; and a forced reset restarts the device only after the keys of all users have been erased. This holds with an
  extension module too: a request that the module takes over skips the check, and never gets to the resets of the service
  (the module has to check its caller itself).\<close>

theorem reset_needs_permission:
  assumes "reset_request m observer c mdm e code data scope err = (ret, err', calls)" "calls \<noteq> []"
  shows "\<not> (mm_isLoaded m \<and> IsMapFuncExist (interface_code code) m)
    \<and> IsCallerValid c \<and> \<not> mdm \<and> ca_granted c (if code = FORCE_FACTORY_RESET then ''ohos.permission.FORCE_FACTORY_RESET''
      else ''ohos.permission.FACTORY_RESET'')
    \<and> (code = FORCE_FACTORY_RESET \<longrightarrow> hd calls = EraseAllUserEncryptedKeys
        \<and> (\<exists>dev text. RebootAndCleanUserData dev text \<in> set calls) = (re_storageManager e = Some 0))"
proof -
  have enter: "fst (CallbackEnter m observer c mdm (interface_code code)) = INT_CALL_SUCCESS"
    and parcel: "CallbackParcel m (interface_code code) data = INT_CALL_SUCCESS"
    and code: "code \<in> {FACTORY_RESET, FORCE_FACTORY_RESET, DEEP_FACTORY_RESET}"
    using assms by (auto simp: reset_request_def Let_def split: prod.splits if_splits UpdaterSaInterfaceCode.splits)
  have own: "\<not> (mm_isLoaded m \<and> IsMapFuncExist (interface_code code) m)"
    using parcel by (auto simp: CallbackParcel_def call_results Let_def split: if_splits)
  then have check: "fst (PermissionCheck c mdm (interface_code code)) = INT_CALL_SUCCESS"
    using enter by (auto simp: CallbackEnter_def call_results split: if_splits)
  have "IsCallerValid c" "\<not> mdm" "ca_granted c (permission_of (interface_code code))"
    using check [unfolded PermissionCheck_success] code by (auto simp: IsResetDisabledByMdm_def)
  moreover have "(code = FORCE_FACTORY_RESET \<longrightarrow> hd calls = EraseAllUserEncryptedKeys
        \<and> (\<exists>dev text. RebootAndCleanUserData dev text \<in> set calls) = (re_storageManager e = Some 0))"
    using assms enter parcel code
    by (auto simp: reset_request_def service_FactoryReset_def service_ForceFactoryReset_def service_DeepFactoryReset_def
        restorer_FactoryReset_def restorer_ForceFactoryReset_def restorer_DeepFactoryReset_def ExecReset_def ExecuteDeepReset_def
        FileManagerEraseKeys_def INT_CALL_FAIL_def Let_def split: prod.splits if_splits option.splits)
  ultimately show ?thesis using code own by (auto simp: permission_of_def Let_def)
qed

definition ex_caller :: caller where
  "ex_caller = \<lparr>ca_tokenType = TOKEN_HAP, ca_isSystemApp = True, ca_uid = 20010, ca_granted = (\<lambda>_. True), ca_bundleName = Some ''settings''\<rparr>"

definition ex_reset :: reset_env where
  "ex_reset = \<lparr>re_miscBlockDev = [], re_storageManager = Some 0, re_rebootOk = True, re_secureEraseOk = True, re_estimate = (\<lambda>_. 60)\<rparr>"

theorem reset_needs_permission_witness:
  "hd (snd (snd (reset_request (new_module_manager :: unit module_manager) None ex_caller False ex_reset FORCE_FACTORY_RESET ()
     SCOPE_DATA new_business_error))) = EraseAllUserEncryptedKeys"
proof -
  let ?r = "reset_request (new_module_manager :: unit module_manager) None ex_caller False ex_reset FORCE_FACTORY_RESET () SCOPE_DATA new_business_error"
  have "length (snd (snd ?r)) = 2"
    by (simp add: reset_request_def CallbackEnter_def CallbackParcel_def PermissionCheck_def IsUserUnlockRequired_def new_module_manager_def IsMapFuncExist_def
        IsCallerValid_def IsResetDisabledByMdm_def IsPermissionGranted_def ex_caller_def service_ForceFactoryReset_def
        restorer_ForceFactoryReset_def FileManagerEraseKeys_def ExecReset_def ex_reset_def Let_def INT_CALL_SUCCESS_def)
  moreover from this have "snd (snd ?r) \<noteq> []" by auto
  ultimately show ?thesis
    using reset_needs_permission [of "new_module_manager :: unit module_manager" None ex_caller False ex_reset FORCE_FACTORY_RESET
        "()" SCOPE_DATA new_business_error "fst ?r" "fst (snd ?r)" "snd (snd ?r)"]
    by simp
qed

lemma three_steps: "r a b \<Longrightarrow> r b c \<Longrightarrow> r c d \<Longrightarrow> r\<^sup>*\<^sup>* a d"
  by (blast intro: rtranclp.intros)

text \<open>C21: The service starts its business at most once, whatever order the start of the observer, the unlock, its event and the
  reports come in and whatever the account manager and the event service answer. And it does not miss the unlock, provided
  that the active user is known (\<open>0 \<le> userId\<close>), the account manager answers whether that user is unlocked and the event
  service takes the subscription: when the start has run to its end on a device that is unlocked by then or later, the
  business has been started, or the report of the unlock is in the queue and starts it when it is run.\<close>

theorem unlock_is_not_missed:
  assumes "(unlock_step userId verified accepted)\<^sup>*\<^sup>* (start_unlock_system unlocked) u"
  shows "uo_started (ul_observer u) = (if HasUserUnlocked (ul_observer u) then 1 else 0)
    \<and> (0 \<le> userId \<and> (\<forall>b. verified b userId = Some b) \<and> accepted \<and> ul_at u = AT_END \<and> ul_unlocked u
        \<and> uo_started (ul_observer u) \<noteq> 1 \<longrightarrow>
       (\<exists>n. uo_pendingUnlock (ul_observer u) = Suc n
         \<and> uo_started (TryNotifyUnlocked ((ul_observer u)\<lparr>uo_pendingUnlock := n\<rparr>)) = 1))"
proof -
  have "started_once (ul_observer (start_unlock_system unlocked))"
    by (simp add: started_once_def start_unlock_system_def new_unlock_observer_def)
  with assms have once: "started_once (ul_observer u)"
    by (induction rule: rtranclp_induct) (auto intro: unlock_step_once)
  have inv: "unlock_inv u" if ok: "0 \<le> userId" "\<forall>b. verified b userId = Some b" "accepted"
  proof -
    have "unlock_inv (start_unlock_system unlocked)"
      by (simp add: unlock_inv_def start_unlock_system_def new_unlock_observer_def)
    with assms show ?thesis
    proof (induction rule: rtranclp_induct)
      case (step y z)
      then show ?case using unlock_step_inv [of userId verified y z] ok by simp
    qed
  qed
  have "uo_started (TryNotifyUnlocked ((ul_observer u)\<lparr>uo_pendingUnlock := n\<rparr>)) = 1" if "\<not> uo_initialized (ul_observer u)" for n
    using once that by (simp add: TryNotifyUnlocked_def started_once_def)
  with inv once show ?thesis
    by (auto simp: unlock_inv_def HasUserUnlocked_def started_once_def Let_def gr0_conv_Suc split: if_splits)
qed

text \<open>The device is unlocked after the start has subscribed and looked again: the event is in the queue.\<close>

theorem unlock_is_not_missed_witness:
  "\<exists>u. (unlock_step 100 (\<lambda>b _. Some b) True)\<^sup>*\<^sup>* (start_unlock_system False) u \<and> ul_unlocked u
     \<and> uo_started (ul_observer u) = 0 \<and> (\<exists>n. uo_started (TryNotifyUnlocked ((ul_observer u)\<lparr>uo_pendingUnlock := n\<rparr>)) = 1)"
proof -
  let ?ver = "\<lambda>b _. Some b :: bool option" and ?u0 = "start_unlock_system False"
  let ?o = "new_unlock_observer\<lparr>uo_subscribed := True\<rparr>"
  let ?u1 = "?u0\<lparr>ul_at := AT_REGISTER\<rparr>" and ?u2 = "?u0\<lparr>ul_at := AT_RECHECK, ul_observer := ?o\<rparr>"
  let ?u3 = "?u0\<lparr>ul_at := AT_END, ul_observer := ?o\<rparr>"
  let ?u4 = "?u0\<lparr>ul_at := AT_END, ul_unlocked := True, ul_observer := ?o\<lparr>uo_pendingUnlock := 1\<rparr>\<rparr>"
  have s1: "unlock_step 100 ?ver True ?u0 ?u1"
    using unlock_step.starting [of 100 ?ver True ?u0] by (simp add: start_unlock_system_def IsActiveUserUnlocked_def)
  have s2: "unlock_step 100 ?ver True ?u1 ?u2"
    using unlock_step.starting [of 100 ?ver True ?u1]
    by (simp add: start_unlock_system_def RegisterUserUnlockListener_def new_unlock_observer_def)
  have s3: "unlock_step 100 ?ver True ?u2 ?u3"
    using unlock_step.starting [of 100 ?ver True ?u2] by (simp add: start_unlock_system_def IsActiveUserUnlocked_def)
  have s4: "unlock_step 100 ?ver True ?u3 ?u4"
    using unlock_step.unlock [of ?u3 100 ?ver True]
    by (simp add: start_unlock_system_def OnReceiveEvent_def new_unlock_observer_def)
  have r: "(unlock_step 100 ?ver True)\<^sup>*\<^sup>* ?u0 ?u4"
    by (rule rtranclp.rtrancl_into_rtrancl [OF three_steps [of "unlock_step 100 ?ver True", OF s1 s2 s3] s4])
  have "ul_at ?u4 = AT_END" "ul_unlocked ?u4" "uo_started (ul_observer ?u4) = 0"
    by (simp_all add: new_unlock_observer_def)
  with r unlock_is_not_missed [OF r] show ?thesis by (intro exI [of _ ?u4]) auto
qed

text \<open>A subscription that is refused is not tried again. When the event service refuses it and the start of the observer
  ends without having found the device unlocked, the business is not started any more, whatever happens afterwards: not when the
  device is unlocked either, until the process starts anew.\<close>

theorem refused_subscription_misses_unlock:
  assumes "(unlock_step userId verified False)\<^sup>*\<^sup>* (start_unlock_system unlocked) u0" "ul_at u0 = AT_END"
    "\<not> HasUserUnlocked (ul_observer u0)" "(unlock_step userId verified False)\<^sup>*\<^sup>* u0 u"
  shows "uo_started (ul_observer u) = 0 \<and> \<not> HasUserUnlocked (ul_observer u)"
proof -
  have "deaf (start_unlock_system unlocked)"
    by (simp add: deaf_def start_unlock_system_def new_unlock_observer_def)
  with assms(1) have d: "deaf u0" using deaf_steps by blast
  with assms(3) have "uo_started (ul_observer u0) = 0" by (simp add: deaf_def HasUserUnlocked_def Let_def)
  with deaf_steps [OF assms(4) d] assms(2) show ?thesis by (simp add: deaf_def HasUserUnlocked_def Let_def)
qed

text \<open>The device is unlocked after the start, with the account manager answering as it should.\<close>

theorem refused_subscription_misses_unlock_witness:
  "\<exists>u. (unlock_step 100 (\<lambda>b _. Some b) False)\<^sup>*\<^sup>* (start_unlock_system False) u \<and> ul_unlocked u \<and> ul_at u = AT_END
     \<and> uo_started (ul_observer u) = 0"
proof -
  let ?ver = "\<lambda>b _. Some b :: bool option" and ?u0 = "start_unlock_system False"
  let ?u1 = "?u0\<lparr>ul_at := AT_REGISTER\<rparr>" and ?u2 = "?u0\<lparr>ul_at := AT_RECHECK\<rparr>" and ?u3 = "?u0\<lparr>ul_at := AT_END\<rparr>"
  let ?u4 = "?u0\<lparr>ul_at := AT_END, ul_unlocked := True\<rparr>"
  have s: "unlock_step 100 ?ver False ?u0 ?u1" "unlock_step 100 ?ver False ?u1 ?u2" "unlock_step 100 ?ver False ?u2 ?u3"
    using unlock_step.starting [of 100 ?ver False ?u0] unlock_step.starting [of 100 ?ver False ?u1]
      unlock_step.starting [of 100 ?ver False ?u2]
    by (simp_all add: start_unlock_system_def IsActiveUserUnlocked_def RegisterUserUnlockListener_def new_unlock_observer_def)
  have r: "(unlock_step 100 ?ver False)\<^sup>*\<^sup>* ?u0 ?u3" by (rule three_steps [of "unlock_step 100 ?ver False", OF s])
  have last: "unlock_step 100 ?ver False ?u3 ?u4"
    using unlock_step.unlock [of ?u3 100 ?ver False] by (simp add: start_unlock_system_def new_unlock_observer_def)
  have "ul_at ?u3 = AT_END" "\<not> HasUserUnlocked (ul_observer ?u3)"
    by (simp_all add: start_unlock_system_def new_unlock_observer_def HasUserUnlocked_def)
  then have "uo_started (ul_observer ?u4) = 0"
    using refused_subscription_misses_unlock [OF r _ _ r_into_rtranclp [of "unlock_step 100 ?ver False", OF last]] by blast
  with r last show ?thesis by (intro exI [of _ ?u4]) (auto intro: rtranclp.rtrancl_into_rtrancl)
qed

section \<open>Across the boundary\<close>

text \<open>C22: An event reaches the process of a client as it was sent: what the service writes for it, with the task body in it, is
  read back as the same event, for texts that survive the conversion and at most 128 errors and components.\<close>

theorem event_roundtrip:
  assumes "accepting e" "TaskBody_fits e (event_body ev)"
  shows "EventInfo_Unmarshalling e (snd (EventInfo_Marshalling e \<lparr>ei_eventId = event_code k, ei_taskBody = event_body ev\<rparr> []) @ rest) =
    (Some \<lparr>ei_eventId = event_code k, ei_taskBody = event_body ev\<rparr>, rest)"
  using assms by (intro event_codec.roundtrip) (cases k; simp add: EventInfo_fits_def is_i32_def)+

definition ex_parcels :: parcel_env where
  "ex_parcels = \<lparr>pv_accepts = (\<lambda>_ _. True), pv_other_bool = (\<lambda>p. (False, p)), pv_other_int = (\<lambda>p. (0, p)),
     pv_other_text = (\<lambda>p. ([], p)), pv_convert = (\<lambda>s. s)\<rparr>"

definition ex_event :: fw_event where
  "ex_event = \<lparr>ev_channel = NOTIFY, ev_id = EVENT_UPGRADE_FAIL, ev_digest = ''digest'', ev_status = US_UPDATE_FAIL, ev_progress = 0,
     ev_errors = [\<lparr>em_errorCode = 2, em_errorMessage = ''verify failed''\<rparr>],
     ev_components = [new_version_component\<lparr>vc_componentId := ''c1'', vc_componentExtra := ''{}''\<rparr>]\<rparr>"

lemma ex_parcels_accept: "accepting ex_parcels" "plain ex_parcels s"
  by (simp_all add: ex_parcels_def accepting_def plain_def)

theorem event_roundtrip_witness:
  "fst (EventInfo_Unmarshalling ex_parcels (snd (EventInfo_Marshalling ex_parcels
     \<lparr>ei_eventId = event_code EVENT_UPGRADE_FAIL, ei_taskBody = event_body ex_event\<rparr> []) @ [])) \<noteq> None"
proof -
  have "TaskBody_fits ex_parcels (event_body ex_event)"
    by (simp add: TaskBody_fits_def event_body_def ex_event_def new_task_body_def vector_fits_def ErrorMessage_fits_def
        VersionComponent_fits_def new_version_component_def ex_parcels_accept MAX_VECTOR_SIZE_def is_u32_def is_u64_def is_i32_def)
  from event_roundtrip [OF ex_parcels_accept(1) this, of EVENT_UPGRADE_FAIL "[]"] show ?thesis by simp
qed

text \<open>The result of a search is read by the application exactly when it has at most 128 components; a longer one is sent
  without complaint and refused as a whole.\<close>

theorem search_result_limit:
  assumes "accepting e" "plain e (cr_versionDigest x)" "list_all (VersionComponent_fits e) (cr_versionComponents x)"
    and "int (length (cr_versionComponents x)) < 2 ^ 31"
  shows "fst (CheckResult_Marshalling e x []) \<and>
    fst (CheckResult_Unmarshalling e (snd (CheckResult_Marshalling e x []) @ rest)) =
      (if length (cr_versionComponents x) \<le> 128 then Some x else None)"
proof -
  have sent: "CheckResult_Marshalling e x [] = (True, CheckResult_items x)"
    using check_result_codec.marshal_accepting [OF assms(1), of x "[]"] by simp
  have "CheckResult_fits e x" if "length (cr_versionComponents x) \<le> 128"
    using assms(2,3) that by (simp add: CheckResult_fits_def vector_fits_def MAX_VECTOR_SIZE_def)
  then have "fst (CheckResult_Unmarshalling e (CheckResult_items x @ rest)) = Some x" if "length (cr_versionComponents x) \<le> 128"
    using that check_result_codec.unmarshal_items by simp
  moreover have "fst (CheckResult_Unmarshalling e (CheckResult_items x @ rest)) = None" if "\<not> length (cr_versionComponents x) \<le> 128"
    using that component_codec.read_vector_too_long [of "cr_versionComponents x" e "[]" rest] assms(4)
    by (auto simp: CheckResult_Unmarshalling_def CheckResult_ReadFromParcel_def CheckResult_items_def unmarshalled_def
        MAX_VECTOR_SIZE_def split: prod.splits)
  ultimately show ?thesis by (simp add: sent)
qed

theorem search_result_limit_witness:
  "fst (CheckResult_Unmarshalling ex_parcels (snd (CheckResult_Marshalling ex_parcels
     (new_check_result\<lparr>cr_versionComponents := replicate 129 new_version_component\<rparr>) []) @ [])) = None"
proof -
  let ?x = "new_check_result\<lparr>cr_versionComponents := replicate 129 new_version_component\<rparr>"
  have "list_all (VersionComponent_fits ex_parcels) (cr_versionComponents ?x)"
    by (simp add: list_all_iff VersionComponent_fits_def new_version_component_def ex_parcels_accept is_u32_def is_u64_def is_i32_def)
  from search_result_limit [OF ex_parcels_accept(1) ex_parcels_accept(2) this, of "[]"] show ?thesis by simp
qed

text \<open>C24: An event without a client reaches the update application as JSON that means the event: when its texts have no
  characters to be escaped and the extras of its components are JSON themselves, the message that is delivered is the
  printed object with the event and the subscription in it, and it goes to the connected object, or to the one that
  arrives after an accepted connection.\<close>

theorem event_reaches_application:
  assumes "understands jl (EventInfo_ToJson k b)" "understands jl (jb_builder (SubscribeInfo_GetJsonBuilder (new_SubscribeInfo sub)))"
    and "taskBodyTemplate k = Some ms" "clean (tb_versionDigest b)" "list_all error_clean (tb_errorMessages b)"
    and "list_all2 component_clean extras (tb_versionComponents b)"
    and "jl_PrintUnformatted jl (VObj [(''EventInfo'', event_value k ms extras b), (''SubscribeInfo'', subscribe_value sub)]) = Some message"
  shows "no_delivered (NotifyToHap jl e sub k b n) = no_delivered n @
    (case notify_target e n of Some obj \<Rightarrow> if ne_writeOk e \<and> ne_sendRequest e obj = 0 then [(obj, message)] else [] | None \<Rightarrow> [])"
  using NotifyToHap_clean [OF assms(1-6), of e n] assms(7) HandleMessage_target [of e message n]
  by (auto split: option.split)

definition ex_library :: json_library where
  "ex_library = \<lparr>jl_Parse = (\<lambda>s. if s = EventInfo_ToJson EVENT_UPGRADE_FAIL (event_body ex_event)
         then Some (event_value EVENT_UPGRADE_FAIL [VERSION_DIGEST_INFO, VERSION_COMPONENT, ERROR_MESSAGE] [VObj []] (event_body ex_event))
         else Some (subscribe_value SUB_FIRMWARE)),
     jl_PrintUnformatted = (\<lambda>_. Some ''printed'')\<rparr>"

lemma ex_event_clean:
  "clean (tb_versionDigest (event_body ex_event))" "list_all error_clean (tb_errorMessages (event_body ex_event))"
  "list_all2 component_clean [VObj []] (tb_versionComponents (event_body ex_event))"
  by (simp_all add: event_body_def ex_event_def error_clean_def component_clean_def new_version_component_def clean_def dquote_def
      json_text_members_text_elements_text.empty_object)

theorem event_reaches_application_witness:
  "no_delivered (NotifyToHap ex_library \<lparr>ne_connectAbility = 0, ne_arrives = Some 5, ne_sendRequest = (\<lambda>_. 0), ne_writeOk = True\<rparr>
     SUB_FIRMWARE EVENT_UPGRADE_FAIL (event_body ex_event) new_notify) = [(5, ''printed'')]"
proof -
  let ?ms = "[VERSION_DIGEST_INFO, VERSION_COMPONENT, ERROR_MESSAGE]"
  let ?sub = "jb_builder (SubscribeInfo_GetJsonBuilder (new_SubscribeInfo SUB_FIRMWARE))"
  have json: "json_text (EventInfo_ToJson EVENT_UPGRADE_FAIL (event_body ex_event)) (event_value EVENT_UPGRADE_FAIL ?ms [VObj []] (event_body ex_event))"
    using ex_event_clean by (intro event_json) simp_all
  then have "understands ex_library (EventInfo_ToJson EVENT_UPGRADE_FAIL (event_body ex_event))"
    by (auto simp: understands_def ex_library_def dest: json_unique)
  moreover have "?sub \<noteq> EventInfo_ToJson EVENT_UPGRADE_FAIL (event_body ex_event)"
  proof
    assume "?sub = EventInfo_ToJson EVENT_UPGRADE_FAIL (event_body ex_event)"
    with json have "json_text ?sub (event_value EVENT_UPGRADE_FAIL ?ms [VObj []] (event_body ex_event))" by simp
    from json_unique [OF subscribe_json this] show False by (simp add: event_value_def subscribe_value_def)
  qed
  then have "understands ex_library ?sub"
    using json_unique [OF subscribe_json [of SUB_FIRMWARE]] by (auto simp: understands_def ex_library_def)
  ultimately show ?thesis
    using event_reaches_application [of ex_library EVENT_UPGRADE_FAIL "event_body ex_event" SUB_FIRMWARE ?ms "[VObj []]" "''printed''"
        "\<lparr>ne_connectAbility = 0, ne_arrives = Some 5, ne_sendRequest = (\<lambda>_. 0), ne_writeOk = True\<rparr>" new_notify] ex_event_clean
    by (simp add: ex_library_def new_notify_def notify_target_def)
qed

section \<open>The two processes together\<close>

text \<open>C25: When the service has died, the library of an application that has registered callbacks starts it again and leaves it
  with exactly these callbacks, three times; after the third death it is not started again until the next request.\<close>

theorem callbacks_are_restored:
  assumes "ip_process x = None" "ke_loads e = Some sp0" "us_clientProxyMap (sp_clients sp0) = []" "ke_casts e"
    and "ke_enter e REGISTER_CALLBACK = INT_CALL_SUCCESS" "cm_ok (ki_callbackMap (ip_kits x))" "ki_callbackMap (ip_kits x) \<noteq> []"
  shows "let x' = kits_ResetService e x in
    if ki_retryTimes (ip_kits x) < 3
    then \<exists>n sp. ip_process x' = Some (n, sp) \<and> ki_remoteServer (ip_kits x') = Some n
           \<and> (\<forall>info. GetUpgradeCallback info (sp_clients sp) = map_of (ki_callbackMap (ip_kits x)) info)
    else ip_process x' = None \<and> ki_remoteServer (ip_kits x') = None"
proof (cases "ki_retryTimes (ip_kits x) < 3")
  case True
  let ?x1 = "base_ResetService x"
  let ?x2 = "on_kits (\<lambda>k. k\<lparr>ki_remoteServer := Some (ip_started x)\<rparr>)
    (kits_AddDeathRecipient (?x1\<lparr>ip_process := Some (ip_started x, sp0), ip_started := ip_started x + 1\<rparr>))"
  have "ki_remoteServer (ip_kits ?x2) = Some (ip_started x)" "ip_process ?x2 = Some (ip_started x, sp0)"
    "ki_callbackMap (ip_kits ?x2) = ki_callbackMap (ip_kits x)" "distinct (map fst (ki_callbackMap (ip_kits x)))"
    using assms(6) by (simp_all add: base_ResetService_def kits_AddDeathRecipient_def on_kits_def cm_ok_def)
  from repeated_registrations [OF assms(5) this(1,2,4)] this(1,3) obtain sp where
    sp: "ip_process (kits_RegisterCallback e ?x2) = Some (ip_started x, sp)"
      "ki_remoteServer (ip_kits (kits_RegisterCallback e ?x2)) = Some (ip_started x)"
      "\<forall>i. GetUpgradeCallback i (sp_clients sp) =
         (case map_of (ki_callbackMap (ip_kits x)) i of Some cb \<Rightarrow> Some cb | None \<Rightarrow> GetUpgradeCallback i (sp_clients sp0))"
    by (auto simp: kits_RegisterCallback_def)
  have "GetUpgradeCallback i (sp_clients sp0) = None" for i by (simp add: GetUpgradeCallback_def assms(3))
  with sp(3) have callbacks: "GetUpgradeCallback i (sp_clients sp) = map_of (ki_callbackMap (ip_kits x)) i" for i
    by (simp split: option.split)
  have "GetService e ?x1 = (True, kits_RegisterCallback e ?x2)"
    using assms(1,2,4) by (simp add: GetService_def base_ResetService_def kits_AddDeathRecipient_def on_kits_def)
  then have "kits_ResetService e x = on_kits (\<lambda>k. k\<lparr>ki_retryTimes := ki_retryTimes k + 1\<rparr>) (kits_RegisterCallback e ?x2)"
    using True assms(7) by (simp add: kits_ResetService_def base_ResetService_def)
  then show ?thesis using True sp(1,2) callbacks by (simp add: Let_def)
next
  case False
  then show ?thesis using assms(1) by (simp add: kits_ResetService_def base_ResetService_def Let_def)
qed

definition ex_process :: service_process where
  "ex_process = \<lparr>sp_clients = new_update_service new_access_manager, sp_fw = ex_firmware, sp_impls = []\<rparr>"

theorem callbacks_are_restored_witness:
  "ip_process (kits_ResetService \<lparr>ke_enter = (\<lambda>_. 0), ke_loads = Some ex_process, ke_casts = True, ke_deadObject = 29189\<rparr>
     \<lparr>ip_kits = new_kits\<lparr>ki_callbackMap := [(ex_client, 3)], ki_retryTimes := 2\<rparr>, ip_process = None, ip_started = 2\<rparr>) \<noteq> None"
proof -
  let ?e = "\<lparr>ke_enter = (\<lambda>_. 0), ke_loads = Some ex_process, ke_casts = True, ke_deadObject = 29189\<rparr>"
  let ?x = "\<lparr>ip_kits = new_kits\<lparr>ki_callbackMap := [(ex_client, 3)], ki_retryTimes := 2\<rparr>, ip_process = None, ip_started = 2\<rparr>"
  show ?thesis
    using callbacks_are_restored [of ?x ?e ex_process]
    by (auto simp: ex_process_def new_update_service_def call_results cm_ok_def new_kits_def Let_def)
qed

text \<open>A search whose answer comes after the wait of 40 seconds spoils the next one: the first request reports the time-out,
  the late answer sets the flag, and the next request of the same client returns at once as if it had succeeded, with the
  result its caller passed in.\<close>

theorem late_search_answer:
  assumes "map_of impls info = Some False" "service_CheckNewVersion_end info None out impls = (ret, out1, impls1)"
  shows "be_errorNum (fst out1) = CR_TIME_OUT
    \<and> service_CheckNewVersion_end info None out2 (service_late_answer info impls1) =
        (INT_CALL_SUCCESS, out2, cm_adj info (\<lambda>_. False) (service_late_answer info impls1))"
  using assms
  by (auto simp: service_CheckNewVersion_end_def service_late_answer_def wait_CheckNewVersion_def late_answer_def)

theorem late_search_answer_witness:
  "fst (snd (service_CheckNewVersion_end ex_client None (new_business_error, new_check_result)
     (service_late_answer ex_client (snd (snd (service_CheckNewVersion_end ex_client None (new_business_error, new_check_result)
       [(ex_client, False)])))))) = (new_business_error, new_check_result)"
proof -
  have "map_of [(ex_client, False)] ex_client = Some False" by simp
  from late_search_answer [OF this] show ?thesis
    by (metis fst_conv prod.collapse snd_conv)
qed

end
