(* ===== verification/Progress_Thread.thy ===== *)
theory Progress_Thread
  imports Firmware_World Cxx_Float Complex_Main
begin

text \<open>
  The worker threads of \<open>services/engine/include/progress_thread.h\<close>: the thread itself with its mutex
  (\<open>services/engine/src/progress_thread.cpp\<close>) and the download that streams its bytes to the installer
  (\<open>stream_progress_thread.cpp\<close>). Curl and the installer are parameters.
\<close>

section \<open>\<open>ProgressThread\<close>\<close>

text \<open>
  Where the worker is: there is none, it is about to take the mutex, it waits for the condition (without the mutex), it
  executes its task (without the mutex), or its function has returned. \<open>pt_joining\<close>: the owner waits in \<open>join\<close>, holding
  the mutex.
\<close>

datatype worker = W_NONE | W_LOCKING | W_WAITING | W_EXECUTING | W_RETURNED

record progress_thread =
  pt_worker :: worker
  pt_isWake :: bool
  pt_isExitThread :: bool
  pt_joining :: bool
  pt_exits :: nat

definition new_progress_thread :: progress_thread where
  "new_progress_thread = \<lparr>pt_worker = W_NONE, pt_isWake = False, pt_isExitThread = False, pt_joining = False, pt_exits = 0\<rparr>"

definition StartProgress :: "progress_thread \<Rightarrow> progress_thread" where
  "StartProgress t = (if pt_worker t = W_NONE then t\<lparr>pt_worker := W_LOCKING\<rparr> else t)\<lparr>pt_isWake := True\<rparr>"

definition StopProgress :: "progress_thread \<Rightarrow> progress_thread" where
  "StopProgress t = t\<lparr>pt_isWake := True, pt_isExitThread := False\<rparr>"

text \<open>The first half of \<open>QuitDownloadThread\<close>, and what follows when the worker has returned.\<close>

definition Quit_begin :: "progress_thread \<Rightarrow> progress_thread" where
  "Quit_begin t = t\<lparr>pt_isWake := True, pt_isExitThread := True, pt_joining := (pt_worker t \<noteq> W_NONE)\<rparr>"

definition Quit_end :: "progress_thread \<Rightarrow> progress_thread" where
  "Quit_end t = t\<lparr>pt_worker := W_NONE, pt_joining := False\<rparr>"

text \<open>The worker in its critical section: it waits, leaves the loop, or goes on to execute.\<close>

definition worker_section :: "progress_thread \<Rightarrow> progress_thread" where
  "worker_section t =
     (if \<not> pt_isWake t then t\<lparr>pt_worker := W_WAITING\<rparr>
      else if pt_isExitThread t then t\<lparr>pt_worker := W_RETURNED, pt_exits := pt_exits t + 1\<rparr>
      else t\<lparr>pt_isWake := False, pt_worker := W_EXECUTING\<rparr>)"

definition worker_executed :: "bool \<Rightarrow> progress_thread \<Rightarrow> progress_thread" where
  "worker_executed again t = t\<lparr>pt_worker := (if again then W_LOCKING else W_RETURNED)\<rparr>"

text \<open>The owner calls one method at a time; whoever needs the mutex waits while it is held.\<close>

inductive thread_step :: "progress_thread \<Rightarrow> progress_thread \<Rightarrow> bool" where
  start: "\<not> pt_joining t \<Longrightarrow> thread_step t (StartProgress t)"
| stop: "\<not> pt_joining t \<Longrightarrow> thread_step t (StopProgress t)"
| quit: "\<not> pt_joining t \<Longrightarrow> thread_step t (Quit_begin t)"
| joined: "pt_joining t \<Longrightarrow> pt_worker t = W_RETURNED \<Longrightarrow> thread_step t (Quit_end t)"
| critical: "\<not> pt_joining t \<Longrightarrow> pt_worker t = W_LOCKING \<Longrightarrow> thread_step t (worker_section t)"
| woken: "\<not> pt_joining t \<Longrightarrow> pt_worker t = W_WAITING \<Longrightarrow> thread_step t (worker_section t)"
| executed: "pt_worker t = W_EXECUTING \<Longrightarrow> thread_step t (worker_executed again t)"

section \<open>\<open>StreamProgressThread\<close>\<close>

definition BUFFER_SIZE :: nat where "BUFFER_SIZE = 50 * 1024"

text \<open>The bytes in use of the buffer, the sizes, and the pieces the installer has taken; \<open>st_reports\<close> are the calls of the
  callback.\<close>

record stream =
  st_buffer :: string
  st_totalFileSize :: int
  st_downloadedSize :: int
  st_exitDownload :: bool
  st_isCancel :: bool
  st_delivered :: "string list"
  st_reports :: "Progress list"

definition stream_StartDownload :: "int \<Rightarrow> int \<Rightarrow> stream \<Rightarrow> stream" where
  "stream_StartDownload size1 recordPoint s =
     s\<lparr>st_downloadedSize := recordPoint, st_totalFileSize := size1, st_buffer := [], st_isCancel := False, st_exitDownload := False\<rparr>"

definition stream_StopDownload :: "stream \<Rightarrow> stream" where
  "stream_StopDownload s = s\<lparr>st_exitDownload := True\<rparr>"

text \<open>\<open>take_piece pieces p\<close> is the answer of \<open>ProcessStreamData\<close> to the piece \<open>p\<close> after \<open>pieces\<close>. The sum of the sizes is
  \<open>size_t\<close>. The result says whether all bytes were taken; the loop might not end, were the buffer ever full at its head.\<close>

partial_function (option) write_loop ::
  "(string list \<Rightarrow> string \<Rightarrow> int) \<Rightarrow> string \<Rightarrow> int \<Rightarrow> stream \<Rightarrow> (bool \<times> stream) option" where
  "write_loop take_piece data processed s =
     (if data = [] then Some (True, s)
      else
        let bytesToCopy = min (BUFFER_SIZE - length (st_buffer s) - 1) (length data);
            buffer = st_buffer s @ take bytesToCopy data;
            processed1 = processed + int bytesToCopy;
            s1 = s\<lparr>st_buffer := buffer\<rparr>
        in if length buffer = BUFFER_SIZE - 1 \<or> (st_downloadedSize s + processed1) mod 2 ^ 64 = st_totalFileSize s mod 2 ^ 64
           then if take_piece (st_delivered s) buffer \<noteq> 0 then Some (False, s1)
                else write_loop take_piece (drop bytesToCopy data) processed1
                       (s1\<lparr>st_buffer := [], st_delivered := st_delivered s @ [buffer]\<rparr>)
           else write_loop take_piece (drop bytesToCopy data) processed1 s1)"

text \<open>The number of bytes \<open>WriteFunc\<close> says it has taken; a failure is \<open>size_t(-1)\<close>.\<close>

definition stream_WriteFunc :: "(string list \<Rightarrow> string \<Rightarrow> int) \<Rightarrow> string \<Rightarrow> stream \<Rightarrow> (int \<times> stream) option" where
  "stream_WriteFunc take_piece data s =
     (case write_loop take_piece data 0 s of
        None \<Rightarrow> None
      | Some (True, s1) \<Rightarrow> Some (int (length data), s1\<lparr>st_downloadedSize := i64 (st_downloadedSize s1 + int (length data))\<rparr>)
      | Some (False, s1) \<Rightarrow> Some (2 ^ 64 - 1, s1))"

definition DealExitOrCancel :: "stream \<Rightarrow> bool" where
  "DealExitOrCancel s = (if st_exitDownload s then True else if st_isCancel s then True else False)"

text \<open>\<open>DownloadProgress\<close>: the percentage is only logged.\<close>

definition stream_DownloadProgress :: "rat \<Rightarrow> stream \<Rightarrow> int" where
  "stream_DownloadProgress dlTotal s = (if dlTotal > 0 then (if DealExitOrCancel s then - 1 else 0) else 0)"

text \<open>What curl does during the transfer, with what other threads do to the flags in between.\<close>

datatype stream_event = Header string | Data string | Tick rat | Stop | Cancel_install

text \<open>
  \<open>HeaderCallback\<close> appends a header to the string that \<open>CURLOPT_HEADERDATA\<close> points to. It is the local \<open>headerData\<close> of
  \<open>CheckFileSize\<close>: \<open>Some\<close> the string while it lives, \<open>None\<close> once its scope has been left, and then what the call does is
  undefined (\<open>None\<close>).
\<close>

definition stream_HeaderCallback :: "string \<Rightarrow> string option \<Rightarrow> string option" where
  "stream_HeaderCallback buffer userp = (case userp of None \<Rightarrow> None | Some header \<Rightarrow> Some (header @ buffer))"

text \<open>\<open>curl_easy_perform\<close>: it hands every header to \<open>HeaderCallback\<close>, with the string \<open>userp\<close>; gives up with a write error when
  not all bytes are taken; and is aborted by the progress function. \<open>result\<close> is its own verdict otherwise. The result is
  whether it is \<open>CURLE_OK\<close>.\<close>

fun run_transfer ::
  "(string list \<Rightarrow> string \<Rightarrow> int) \<Rightarrow> string option \<Rightarrow> bool \<Rightarrow> stream_event list \<Rightarrow> stream \<Rightarrow> (bool \<times> stream) option" where
  "run_transfer take_piece userp result [] s = Some (result, s)"
| "run_transfer take_piece userp result (Header h # es) s =
     (case stream_HeaderCallback h userp of
        None \<Rightarrow> None
      | Some header \<Rightarrow> run_transfer take_piece (Some header) result es s)"
| "run_transfer take_piece userp result (Data d # es) s =
     (case stream_WriteFunc take_piece d s of
        None \<Rightarrow> None
      | Some (n, s1) \<Rightarrow> if n \<noteq> int (length d) then Some (False, s1) else run_transfer take_piece userp result es s1)"
| "run_transfer take_piece userp result (Tick tot # es) s =
     (if stream_DownloadProgress tot s \<noteq> 0 then Some (False, s) else run_transfer take_piece userp result es s)"
| "run_transfer take_piece userp result (Stop # es) s = run_transfer take_piece userp result es (stream_StopDownload s)"
| "run_transfer take_piece userp result (Cancel_install # es) s = run_transfer take_piece userp result es (s\<lparr>st_isCancel := True\<rparr>)"

text \<open>The request for the headers alone, during which the string lives; those of redirections are among them.\<close>

definition collect_headers :: "string list \<Rightarrow> string" where
  "collect_headers headers = fold (\<lambda>h headerData. the (stream_HeaderCallback h (Some headerData))) headers []"

text \<open>\<open>std::stoll\<close> throws for a number that is too large, which nobody catches: \<open>None\<close>.\<close>

definition CheckFileSize :: "bool \<Rightarrow> string list \<Rightarrow> stream \<Rightarrow> bool option" where
  "CheckFileSize headOk headers s =
     (if \<not> headOk then Some False
      else
        let headerData = collect_headers headers; key = ''Content-Length:'' in
        case find_sub key headerData of
          None \<Rightarrow> Some False
        | Some pos \<Rightarrow>
            let digits = takeWhile cxx_isdigit (dropWhile (\<lambda>c. \<not> cxx_isdigit c) (drop (pos + length key) headerData)) in
            if digits = [] then Some False
            else let fileSize = dec_value digits 0 in
              if INT64_MAX < fileSize then None
              else Some (\<not> (fileSize \<le> 0 \<or> fileSize \<noteq> st_totalFileSize s)))"

definition stream_DownloadCallback :: "int \<Rightarrow> UpgradeStatus \<Rightarrow> string \<Rightarrow> stream \<Rightarrow> stream" where
  "stream_DownloadCallback percent status error s =
     s\<lparr>st_reports := st_reports s @ [\<lparr>pg_percent = percent, pg_status = status, pg_endReason = error\<rparr>]\<rparr>"

text \<open>Curl in one execution: whether a handle can be had, the answer to the request for the headers, the transfer.\<close>

record stream_curl =
  cu_init :: bool
  cu_headOk :: bool
  cu_headers :: "string list"
  cu_events :: "stream_event list"
  cu_result :: bool

text \<open>\<open>DownloadFile\<close> uses the same handle, on which \<open>CheckFileSize\<close> has left the header function and the address of its string,
  which is gone by now.\<close>

definition stream_DownloadFile ::
  "(string list \<Rightarrow> string \<Rightarrow> int) \<Rightarrow> stream_curl \<Rightarrow> stream \<Rightarrow> (bool \<times> stream) option" where
  "stream_DownloadFile take_piece c s = run_transfer take_piece None (cu_result c) (cu_events c) s"

text \<open>True: the worker goes back to its wait. \<open>None\<close>: the process ends with an exception, the write loop does not end, or the
  behaviour is undefined.\<close>

definition stream_ProcessThreadExecute ::
  "(string list \<Rightarrow> string \<Rightarrow> int) \<Rightarrow> stream_curl \<Rightarrow> stream \<Rightarrow> (bool \<times> stream) option" where
  "stream_ProcessThreadExecute take_piece c s =
     (if \<not> cu_init c then Some (True, stream_DownloadCallback 0 US_DOWNLOAD_FAIL ''Failed to init curl'' s)
      else case CheckFileSize (cu_headOk c) (cu_headers c) s of
        None \<Rightarrow> None
      | Some False \<Rightarrow> Some (False, stream_DownloadCallback 0 US_DOWNLOAD_FAIL (to_string (reason_code R_CURL_ERROR)) s)
      | Some True \<Rightarrow>
          (case stream_DownloadFile take_piece c s of
             None \<Rightarrow> None
           | Some (False, s1) \<Rightarrow> Some (False, stream_DownloadCallback 0 US_DOWNLOAD_CANCEL (to_string (reason_code R_CANCEL)) s1)
           | Some (True, s1) \<Rightarrow> Some (False, stream_DownloadCallback 100 US_DOWNLOAD_SUCCESS [] s1)))"

section \<open>The engine's \<open>DownloadThread\<close>\<close>

text \<open>
  The second worker of \<open>progress_thread.h\<close>, which downloads into a file. \<open>dl_fs\<close> is the file system, where the name of the
  package stands for the file it resolves to; \<open>dl_buffered\<close> are the bytes that the open \<open>FILE\<close> has not written yet.
  \<open>isNoNet_\<close> and \<open>isCancel_\<close> are shared by all workers.
\<close>

definition DOWNLOAD_FINISH_PERCENT :: int where "DOWNLOAD_FINISH_PERCENT = 100"
definition DOWNLOAD_PERIOD_PERCENT :: int where "DOWNLOAD_PERIOD_PERCENT = 1"

record dl_thread =
  dl_fileName :: string
  dl_serverUrl :: string
  dl_exitDownload :: bool
  dl_isNoNet :: bool
  dl_isCancel :: bool
  dl_progress :: Progress
  dl_packageSize :: int
  dl_fs :: file_system
  dl_buffered :: string
  dl_reports :: "Progress list"

definition dl_report :: "int \<Rightarrow> UpgradeStatus \<Rightarrow> string \<Rightarrow> dl_thread \<Rightarrow> dl_thread" where
  "dl_report percent status error d =
     (let p = \<lparr>pg_percent = percent, pg_status = status, pg_endReason = error\<rparr>
      in d\<lparr>dl_progress := p, dl_reports := dl_reports d @ [p]\<rparr>)"

definition dl_StartDownload :: "string \<Rightarrow> string \<Rightarrow> dl_thread \<Rightarrow> dl_thread" where
  "dl_StartDownload fileName url d = d\<lparr>dl_fileName := fileName, dl_serverUrl := url, dl_exitDownload := False\<rparr>"

definition dl_StopDownload :: "dl_thread \<Rightarrow> dl_thread" where
  "dl_StopDownload d = d\<lparr>dl_exitDownload := True\<rparr>"

definition FileOpen :: "(string \<Rightarrow> string option) \<Rightarrow> (string \<Rightarrow> bool) \<Rightarrow> string \<Rightarrow> bool" where
  "FileOpen realpath fopen_ok fileName = (GetFileRealPath realpath fileName \<noteq> [] \<and> fopen_ok fileName)"

definition GetLocalFileLength :: "(string \<Rightarrow> string option) \<Rightarrow> file_system \<Rightarrow> string \<Rightarrow> int" where
  "GetLocalFileLength realpath fs fileName =
     (if has_dot_segment fileName then 0
      else if \<not> FileOpen realpath (\<lambda>n. fs n \<noteq> None) fileName then 0
      else GetFileSize fs fileName)"

definition GetPackageSize :: "(string \<Rightarrow> string option) \<Rightarrow> dl_thread \<Rightarrow> int \<times> dl_thread" where
  "GetPackageSize realpath d =
     (let size1 = GetLocalFileLength realpath (dl_fs d) (dl_fileName d) in (size1, d\<lparr>dl_packageSize := size1\<rparr>))"

definition DealAbnormal :: "int \<Rightarrow> dl_thread \<Rightarrow> bool \<times> dl_thread" where
  "DealAbnormal percent d =
     (if dl_isNoNet d \<or> dl_isCancel d then
        (True, dl_report percent (if dl_isNoNet d then US_DOWNLOAD_FAIL else US_DOWNLOAD_CANCEL)
           (to_string (reason_code (if dl_isNoNet d then R_NET_NOT_AVAILIABLE else R_CANCEL))) (d\<lparr>dl_isCancel := False\<rparr>))
      else (False, d))"

definition dl_DownloadCallback :: "int \<Rightarrow> UpgradeStatus \<Rightarrow> string \<Rightarrow> dl_thread \<Rightarrow> int \<times> dl_thread" where
  "dl_DownloadCallback percent status error d =
     (if dl_exitDownload d then (- 1, d)
      else let (abnormal, d1) = DealAbnormal percent d in
      if abnormal then (- 1, d1)
      else if pg_status (dl_progress d1) = status \<and> pg_percent (dl_progress d1) = percent then (0, d1)
      else
        let d2 = (if status = US_DOWNLOAD_FAIL then d1\<lparr>dl_fs := (dl_fs d1)(dl_fileName d1 := None)\<rparr> else d1)
        in if status \<noteq> US_DOWNLOAD_FAIL \<and> percent \<noteq> DOWNLOAD_FINISH_PERCENT
              \<and> percent < u32 (pg_percent (dl_progress d1) + DOWNLOAD_PERIOD_PERCENT) then (0, d2)
           else if percent = DOWNLOAD_FINISH_PERCENT \<and> status = US_DOWNLOADING then (0, d2)
           else (0, dl_report percent status error d2))"

text \<open>The percentage is computed with doubles, from the length that the file has by now.\<close>

definition dl_percent :: "int \<Rightarrow> int \<Rightarrow> int \<Rightarrow> int" where
  "dl_percent len dlTotal dlNow =
     (let f = fp_of_int 53
      in fp_to_int (fp_mul 53 (fp_div 53 (fp_add 53 (f dlNow) (f len)) (fp_add 53 (f len) (f dlTotal))) (f DOWNLOAD_FINISH_PERCENT)))"

definition dl_DownloadProgress :: "(string \<Rightarrow> string option) \<Rightarrow> int \<Rightarrow> int \<Rightarrow> dl_thread \<Rightarrow> int \<times> dl_thread" where
  "dl_DownloadProgress realpath dlTotal dlNow d =
     (if \<not> dlTotal > 0 then (0, d)
      else let (len, d1) = GetPackageSize realpath d
           in dl_DownloadCallback (u32 (dl_percent len dlTotal dlNow)) US_DOWNLOADING [] d1)"

text \<open>What happens during the transfer: bytes arrive of which \<open>fwrite\<close> takes some, the buffer is written out, curl calls the
  progress function, and the other threads set the flags.\<close>

datatype dl_event = D_data string nat | D_flush | D_tick int int | D_stop | D_cancel | D_net bool

datatype curl_verdict = CURL_DONE | CURL_ABORTED | CURL_OTHER

definition dl_flush :: "dl_thread \<Rightarrow> dl_thread" where
  "dl_flush d =
     d\<lparr>dl_fs := (dl_fs d)(dl_fileName d \<mapsto>
         Regular ((case dl_fs d (dl_fileName d) of Some (Regular c) \<Rightarrow> c | _ \<Rightarrow> []) @ dl_buffered d)), dl_buffered := []\<rparr>"

fun dl_transfer :: "(string \<Rightarrow> string option) \<Rightarrow> curl_verdict \<Rightarrow> dl_event list \<Rightarrow> dl_thread \<Rightarrow> curl_verdict \<times> dl_thread" where
  "dl_transfer realpath verdict [] d = (verdict, d)"
| "dl_transfer realpath verdict (D_data bytes n # es) d =
     (let d1 = d\<lparr>dl_buffered := dl_buffered d @ take n bytes\<rparr>
      in if n < length bytes then (CURL_OTHER, d1) else dl_transfer realpath verdict es d1)"
| "dl_transfer realpath verdict (D_flush # es) d = dl_transfer realpath verdict es (dl_flush d)"
| "dl_transfer realpath verdict (D_tick dlTotal dlNow # es) d =
     (let (r, d1) = dl_DownloadProgress realpath dlTotal dlNow d
      in if r \<noteq> 0 then (CURL_ABORTED, d1) else dl_transfer realpath verdict es d1)"
| "dl_transfer realpath verdict (D_stop # es) d = dl_transfer realpath verdict es (dl_StopDownload d)"
| "dl_transfer realpath verdict (D_cancel # es) d = dl_transfer realpath verdict es (d\<lparr>dl_isCancel := True\<rparr>)"
| "dl_transfer realpath verdict (D_net noNet # es) d = dl_transfer realpath verdict es (d\<lparr>dl_isNoNet := noNet\<rparr>)"

text \<open>True: the worker goes back to its wait. \<open>fclose\<close> writes what is buffered.\<close>

definition dl_ProcessThreadExecute ::
  "(string \<Rightarrow> string option) \<Rightarrow> (string \<Rightarrow> bool) \<Rightarrow> bool \<Rightarrow> curl_verdict \<Rightarrow> dl_event list \<Rightarrow> dl_thread \<Rightarrow> bool \<times> dl_thread" where
  "dl_ProcessThreadExecute realpath fopen_ok initOk verdict events d =
     (let d0 = d\<lparr>dl_packageSize := GetLocalFileLength realpath (dl_fs d) (dl_fileName d)\<rparr> in
      if has_dot_segment (dl_fileName d) then (True, snd (dl_DownloadCallback 0 US_DOWNLOAD_FAIL ''Failed to check file'' d0))
      else if \<not> FileOpen realpath fopen_ok (dl_fileName d)
      then (True, snd (dl_DownloadCallback 0 US_DOWNLOAD_FAIL ''Failed ot open file'' d0))
      else
        let d1 = dl_flush d0 in
        if \<not> initOk then (True, snd (dl_DownloadCallback 0 US_DOWNLOAD_FAIL ''Failed to init curl'' d1))
        else
          let (v, d2) = dl_transfer realpath verdict events d1; d3 = dl_flush d2 in
          (False,
           case v of
             CURL_DONE \<Rightarrow> snd (dl_DownloadCallback DOWNLOAD_FINISH_PERCENT US_DOWNLOAD_SUCCESS [] d3)
           | CURL_ABORTED \<Rightarrow> d3
           | CURL_OTHER \<Rightarrow> snd (dl_DownloadCallback 0 US_DOWNLOAD_FAIL (to_string (reason_code R_CURL_ERROR)) d3)))"

section \<open>Facts\<close>


text \<open>What the installer has taken and what is still in the buffer is what has been received.\<close>

definition received :: "stream \<Rightarrow> string" where
  "received s = concat (st_delivered s) @ st_buffer s"

text \<open>How a run of the loop on \<open>data\<close> that began in \<open>s\<close> may end.\<close>

definition loop_result :: "stream \<Rightarrow> string \<Rightarrow> (bool \<times> stream) option \<Rightarrow> bool" where
  "loop_result s data r =
     (case r of
        None \<Rightarrow> False
      | Some (ok, s') \<Rightarrow>
          (\<exists>rest. received s @ data = received s' @ rest \<and> (ok \<longrightarrow> rest = []))
          \<and> (ok \<longrightarrow> length (st_buffer s') < BUFFER_SIZE - 1)
          \<and> (\<exists>extra. st_delivered s' = st_delivered s @ extra \<and> (\<forall>p \<in> set extra. length p \<le> BUFFER_SIZE - 1))
          \<and> s' = s\<lparr>st_buffer := st_buffer s', st_delivered := st_delivered s'\<rparr>)"

lemma loop_result_passed:
  assumes "received s @ data = received s1 @ data1"
    "st_delivered s1 = st_delivered s @ extra" "\<forall>p \<in> set extra. length p \<le> BUFFER_SIZE - 1"
    "s1 = s\<lparr>st_buffer := st_buffer s1, st_delivered := st_delivered s1\<rparr>" "loop_result s1 data1 r"
  shows "loop_result s data r"
proof -
  from assms(5) obtain ok s' rest extra' where r: "r = Some (ok, s')" and rest: "received s1 @ data1 = received s' @ rest" "ok \<longrightarrow> rest = []"
    and b: "ok \<longrightarrow> length (st_buffer s') < BUFFER_SIZE - 1"
    and d: "st_delivered s' = st_delivered s1 @ extra'" "\<forall>p \<in> set extra'. length p \<le> BUFFER_SIZE - 1"
    and u: "s' = s1\<lparr>st_buffer := st_buffer s', st_delivered := st_delivered s'\<rparr>"
    by (auto simp: loop_result_def split: option.splits prod.splits)
  have "s' = s\<lparr>st_buffer := st_buffer s', st_delivered := st_delivered s'\<rparr>"
    by (subst u, subst assms(4)) simp
  moreover have "st_delivered s' = st_delivered s @ extra @ extra'" "\<forall>p \<in> set (extra @ extra'). length p \<le> BUFFER_SIZE - 1"
    using d assms(2,3) by auto
  ultimately show ?thesis using rest b assms(1) by (auto simp: loop_result_def r)
qed

lemma stream_selectors:
  "st_delivered (s\<lparr>st_buffer := b\<rparr>) = st_delivered s"
  "s\<lparr>st_buffer := b, st_buffer := c, st_delivered := ds\<rparr> = s\<lparr>st_buffer := c, st_delivered := ds\<rparr>"
  by simp_all

lemma write_loop_ends:
  assumes "length (st_buffer s) < BUFFER_SIZE - 1"
  shows "loop_result s data (write_loop take_piece data processed s)"
  using assms
proof (induction "length data" arbitrary: data processed s rule: less_induct)
  case less
  show ?case
  proof (cases "data = []")
    case True
    then show ?thesis using less.prems by (subst write_loop.simps) (simp add: loop_result_def)
  next
    case False
    define n where "n = min (BUFFER_SIZE - length (st_buffer s) - 1) (length data)"
    define buffer where "buffer = st_buffer s @ take n data"
    have n: "0 < n" "n \<le> length data" "length buffer \<le> BUFFER_SIZE - 1"
      using False less.prems by (auto simp: n_def buffer_def)
    then have shorter: "length (drop n data) < length data" by simp
    let ?full = "length buffer = BUFFER_SIZE - 1 \<or> (st_downloadedSize s + (processed + int n)) mod 2 ^ 64 = st_totalFileSize s mod 2 ^ 64"
    let ?s1 = "s\<lparr>st_buffer := buffer\<rparr>" and ?s2 = "s\<lparr>st_buffer := [], st_delivered := st_delivered s @ [buffer]\<rparr>"
    have unfolded: "write_loop take_piece data processed s =
       (if ?full then if take_piece (st_delivered s) buffer \<noteq> 0 then Some (False, ?s1)
          else write_loop take_piece (drop n data) (processed + int n) ?s2
        else write_loop take_piece (drop n data) (processed + int n) ?s1)"
      unfolding write_loop.simps [of take_piece data processed s] Let_def n_def [symmetric] buffer_def [symmetric]
      using False by (simp only: if_False stream_selectors)
    have kept: "received s @ data = received ?s1 @ drop n data" "received s @ data = received ?s2 @ drop n data"
      by (simp_all add: received_def buffer_def)
    have rec1: "loop_result s data (write_loop take_piece (drop n data) (processed + int n) ?s1)" if "\<not> ?full"
      using that n(3) by (intro loop_result_passed [OF kept(1), of "[]"] less.hyps [OF shorter]) simp_all
    have rec2: "loop_result s data (write_loop take_piece (drop n data) (processed + int n) ?s2)"
      using n(3) by (intro loop_result_passed [OF kept(2), of "[buffer]"] less.hyps [OF shorter]) (simp_all add: BUFFER_SIZE_def)
    have "loop_result s data (Some (False, ?s1))" using kept(1) by (auto simp: loop_result_def)
    with rec1 rec2 show ?thesis unfolding unfolded by simp
  qed
qed

text \<open>The loop leaves nothing in the buffer when the last byte of the file was among the data.\<close>

lemma write_loop_last:
  assumes "length (st_buffer s) < BUFFER_SIZE - 1" "data \<noteq> []"
    "(st_downloadedSize s + processed + int (length data)) mod 2 ^ 64 = st_totalFileSize s mod 2 ^ 64"
    "write_loop take_piece data processed s = Some (True, s')"
  shows "st_buffer s' = []"
  using assms
proof (induction "length data" arbitrary: data processed s rule: less_induct)
  case less
  define n where "n = min (BUFFER_SIZE - length (st_buffer s) - 1) (length data)"
  define buffer where "buffer = st_buffer s @ take n data"
  have n: "0 < n" "n \<le> length data" "length buffer \<le> BUFFER_SIZE - 1"
    using less.prems(1,2) by (auto simp: n_def buffer_def)
  let ?full = "length buffer = BUFFER_SIZE - 1 \<or> (st_downloadedSize s + (processed + int n)) mod 2 ^ 64 = st_totalFileSize s mod 2 ^ 64"
  let ?s1 = "s\<lparr>st_buffer := buffer\<rparr>" and ?s2 = "s\<lparr>st_buffer := [], st_delivered := st_delivered s @ [buffer]\<rparr>"
  let ?next = "\<lambda>s1. write_loop take_piece (drop n data) (processed + int n) s1"
  have unfolded: "write_loop take_piece data processed s =
     (if ?full then if take_piece (st_delivered s) buffer \<noteq> 0 then Some (False, ?s1) else ?next ?s2 else ?next ?s1)"
    unfolding write_loop.simps [of take_piece data processed s] Let_def n_def [symmetric] buffer_def [symmetric]
    using less.prems(2) by (simp only: if_False stream_selectors)
  have shorter: "length (drop n data) < length data" using n by simp
  have sum: "st_downloadedSize s + (processed + int n) + int (length (drop n data)) = st_downloadedSize s + processed + int (length data)"
    using n(2) by simp
  show ?case
  proof (cases "drop n data = []")
    case True
    then have "processed + int n = processed + int (length data)" using n(2) by simp
    then have "?full" using less.prems(3) by (metis add.assoc)
    with unfolded less.prems(4) True have "Some (True, s') = Some (True, ?s2)"
      by (simp add: write_loop.simps [of take_piece "[]"] split: if_splits)
    then show ?thesis by simp
  next
    case False
    from unfolded less.prems(4) consider "?full" "?next ?s2 = Some (True, s')" | "\<not> ?full" "?next ?s1 = Some (True, s')"
      by (simp split: if_splits)
    then show ?thesis
    proof cases
      case 1
      show ?thesis
        by (rule less.hyps [OF shorter _ False _ 1(2)]) (use less.prems(3) sum in \<open>simp_all add: BUFFER_SIZE_def add.assoc\<close>)
    next
      case 2
      have "length (st_buffer ?s1) < BUFFER_SIZE - 1" using 2(1) n(3) by simp
      then show ?thesis by (rule less.hyps [OF shorter _ False _ 2(2)]) (use less.prems(3) sum in \<open>simp add: add.assoc\<close>)
    qed
  qed
qed

text \<open>Before the last byte of the file has come, only full buffers are handed on.\<close>

lemma write_loop_short:
  assumes "length (st_buffer s) < BUFFER_SIZE - 1" "0 \<le> st_downloadedSize s + processed"
    "st_downloadedSize s + processed + int (length data) < st_totalFileSize s" "st_totalFileSize s < 2 ^ 63"
    "write_loop take_piece data processed s = Some (True, s')"
  shows "\<exists>extra. st_delivered s' = st_delivered s @ extra \<and> (\<forall>p \<in> set extra. length p = BUFFER_SIZE - 1)"
  using assms
proof (induction "length data" arbitrary: data processed s rule: less_induct)
  case less
  show ?case
  proof (cases "data = []")
    case True
    with less.prems(5) show ?thesis by (simp add: write_loop.simps [of take_piece "[]"])
  next
    case False
    define n where "n = min (BUFFER_SIZE - length (st_buffer s) - 1) (length data)"
    define buffer where "buffer = st_buffer s @ take n data"
    have n: "0 < n" "n \<le> length data" "length buffer \<le> BUFFER_SIZE - 1"
      using less.prems(1) False by (auto simp: n_def buffer_def)
    let ?s1 = "s\<lparr>st_buffer := buffer\<rparr>" and ?s2 = "s\<lparr>st_buffer := [], st_delivered := st_delivered s @ [buffer]\<rparr>"
    let ?next = "\<lambda>s1. write_loop take_piece (drop n data) (processed + int n) s1"
    have "(st_downloadedSize s + (processed + int n)) mod 2 ^ 64 \<noteq> st_totalFileSize s mod 2 ^ 64"
      using less.prems(2-4) n(2) by simp
    then have unfolded: "write_loop take_piece data processed s =
       (if length buffer = BUFFER_SIZE - 1 then if take_piece (st_delivered s) buffer \<noteq> 0 then Some (False, ?s1) else ?next ?s2
        else ?next ?s1)"
      unfolding write_loop.simps [of take_piece data processed s] Let_def n_def [symmetric] buffer_def [symmetric]
      using False by (simp only: if_False stream_selectors simp_thms)
    have shorter: "length (drop n data) < length data" using n by simp
    have bounds: "0 \<le> st_downloadedSize s + (processed + int n)"
      "st_downloadedSize s + (processed + int n) + int (length (drop n data)) < st_totalFileSize s"
      using less.prems(2,3) n(2) by simp_all
    show ?thesis
    proof (cases "length buffer = BUFFER_SIZE - 1")
      case True
      have "?next ?s2 = Some (True, s')" using unfolded less.prems(5) True by (simp split: if_splits)
      from less.hyps [OF shorter _ _ _ _ this] bounds less.prems(4)
      obtain extra where "st_delivered s' = st_delivered s @ [buffer] @ extra" "\<forall>p \<in> set extra. length p = BUFFER_SIZE - 1"
        by (auto simp: BUFFER_SIZE_def)
      with True show ?thesis by (intro exI [of _ "[buffer] @ extra"]) simp
    next
      case False
      then have "?next ?s1 = Some (True, s')" using unfolded less.prems(5) by simp
      from less.hyps [OF shorter _ _ _ _ this] bounds less.prems(4) False n(3) show ?thesis by simp
    qed
  qed
qed

text \<open>While the file is downloaded, the reported percentage only grows, and 100 is left to the final report.\<close>

lemma dl_progress_grows:
  assumes "dl_DownloadCallback percent US_DOWNLOADING error d = (0, d')" "0 \<le> pg_percent (dl_progress d)"
    "pg_percent (dl_progress d) < 2 ^ 32 - 1"
  shows "dl_reports d' = dl_reports d \<or>
    (dl_reports d' = dl_reports d @ [dl_progress d'] \<and> pg_percent (dl_progress d) < pg_percent (dl_progress d')
      \<and> pg_percent (dl_progress d') \<noteq> DOWNLOAD_FINISH_PERCENT)"
  using assms
  by (auto simp: dl_DownloadCallback_def DealAbnormal_def dl_report_def Let_def DOWNLOAD_PERIOD_PERCENT_def u32_def
      split: if_splits)

text \<open>A worker that was told to stop reports nothing more, whatever comes.\<close>

lemma dl_silent_after_stop:
  assumes "dl_exitDownload d"
  shows "dl_reports (snd (dl_transfer realpath verdict es d)) = dl_reports d \<and> dl_exitDownload (snd (dl_transfer realpath verdict es d))"
  using assms
  by (induction realpath verdict es d rule: dl_transfer.induct)
    (auto simp: Let_def dl_flush_def dl_DownloadProgress_def GetPackageSize_def dl_DownloadCallback_def dl_StopDownload_def
      split: prod.splits if_splits)

end
