(* ===== verification/Progress_Claims.thy ===== *)
theory Progress_Claims
  imports Progress_Thread
begin

text \<open>
  The properties of the worker threads: a streamed package reaches the installer complete and in pieces that fit its buffer,
  every execution reports its outcome once, and ending a worker may wait for ever.
\<close>

section \<open>The transfer\<close>

definition data_of :: "stream_event list \<Rightarrow> string" where
  "data_of es = concat (map (\<lambda>e. case e of Data d \<Rightarrow> d | _ \<Rightarrow> []) es)"

lemma data_of_simps [simp]:
  "data_of [] = []" "data_of (Header h # es) = data_of es" "data_of (Data d # es) = d @ data_of es" "data_of (Tick r # es) = data_of es"
  "data_of (Stop # es) = data_of es" "data_of (Cancel_install # es) = data_of es"
  by (simp_all add: data_of_def)

lemma WriteFunc_cases:
  assumes "length (st_buffer s) < BUFFER_SIZE - 1"
  obtains (taken) s1 where "write_loop tp d 0 s = Some (True, s1)" "loop_result s d (Some (True, s1))"
    "stream_WriteFunc tp d s = Some (int (length d), s1\<lparr>st_downloadedSize := i64 (st_downloadedSize s + int (length d))\<rparr>)"
  | (refused) s1 where "loop_result s d (Some (False, s1))" "stream_WriteFunc tp d s = Some (2 ^ 64 - 1, s1)"
proof -
  have r: "loop_result s d (write_loop tp d 0 s)" using assms by (rule write_loop_ends)
  then obtain ok s1 where w: "write_loop tp d 0 s = Some (ok, s1)"
    by (cases "write_loop tp d 0 s") (auto simp: loop_result_def)
  have "s1 = s\<lparr>st_buffer := st_buffer s1, st_delivered := st_delivered s1\<rparr>" using r w by (simp add: loop_result_def)
  then have "st_downloadedSize s1 = st_downloadedSize s" by (metis (no_types, lifting) stream.select_convs(3) stream.surjective stream.update_convs(1,6))
  with r w that show thesis by (cases ok) (auto simp: stream_WriteFunc_def)
qed

lemma loop_result_frame:
  assumes "loop_result s d (Some (ok, s1))"
  shows "st_reports s1 = st_reports s" "st_totalFileSize s1 = st_totalFileSize s" "st_downloadedSize s1 = st_downloadedSize s"
    "st_exitDownload s1 = st_exitDownload s" "st_isCancel s1 = st_isCancel s"
proof -
  obtain b ds where "s1 = s\<lparr>st_buffer := b, st_delivered := ds\<rparr>" using assms by (auto simp: loop_result_def)
  then show "st_reports s1 = st_reports s" "st_totalFileSize s1 = st_totalFileSize s" "st_downloadedSize s1 = st_downloadedSize s"
    "st_exitDownload s1 = st_exitDownload s" "st_isCancel s1 = st_isCancel s" by simp_all
qed

text \<open>A transfer without headers always has a result; one with headers has none if it gets to the first of them and the string
  is gone.\<close>

definition no_header :: "stream_event \<Rightarrow> bool" where
  "no_header e = (case e of Header h \<Rightarrow> False | _ \<Rightarrow> True)"

lemma no_header_simps [simp]:
  "\<not> no_header (Header h)" "no_header (Data d)" "no_header (Tick r)" "no_header Stop" "no_header Cancel_install"
  by (simp_all add: no_header_def)

lemma run_transfer_returns:
  assumes "length (st_buffer s) < BUFFER_SIZE - 1" "int (length (data_of es)) < 2 ^ 63" "list_all no_header es"
  shows "\<exists>ok s'. run_transfer tp userp result es s = Some (ok, s') \<and> st_reports s' = st_reports s"
  using assms
proof (induction es arbitrary: s)
  case (Cons e es)
  show ?case
  proof (cases e)
    case (Header h)
    then show ?thesis using Cons.prems(3) by simp
  next
    case (Data d)
    have short: "int (length (data_of es)) < 2 ^ 63" "2 ^ 64 - 1 \<noteq> int (length d)" "list_all no_header es"
      using Cons.prems(2,3) by (simp_all add: Data)
    from Cons.prems(1) show ?thesis
    proof (cases rule: WriteFunc_cases [of s tp d])
      case (taken s1)
      let ?s2 = "s1\<lparr>st_downloadedSize := i64 (st_downloadedSize s + int (length d))\<rparr>"
      have "\<exists>ok s'. run_transfer tp userp result es ?s2 = Some (ok, s') \<and> st_reports s' = st_reports ?s2"
        using taken(2) by (intro Cons.IH short) (simp add: loop_result_def)
      then show ?thesis using loop_result_frame(1) [OF taken(2)] by (simp add: Data taken(3))
    next
      case (refused s1)
      then show ?thesis using loop_result_frame(1) [OF refused(1)] short(2) by (intro exI [of _ False]) (simp add: Data)
    qed
  next
    case (Tick tot)
    then show ?thesis using Cons by (auto simp: stream_DownloadProgress_def)
  next
    case Stop
    with Cons.prems Cons.IH [of "stream_StopDownload s"] show ?thesis by (simp add: stream_StopDownload_def)
  next
    case Cancel_install
    with Cons.prems Cons.IH [of "s\<lparr>st_isCancel := True\<rparr>"] show ?thesis by simp
  qed
qed simp

lemma run_transfer_header:
  assumes "list_all no_header es"
  shows "run_transfer tp None result (es @ Header h # es') s =
     (case run_transfer tp None True es s of None \<Rightarrow> None | Some (ok, s') \<Rightarrow> (if ok then None else Some (False, s')))"
  using assms
proof (induction es arbitrary: s)
  case Nil
  then show ?case by (simp add: stream_HeaderCallback_def)
next
  case (Cons e es)
  then show ?case by (cases e) (auto split: option.split prod.split)
qed

lemma run_transfer_nothing:
  assumes "data_of es = []" "run_transfer tp userp result es s = Some (True, s')" "length (st_buffer s) < BUFFER_SIZE - 1"
  shows "st_buffer s' = st_buffer s"
  using assms
proof (induction es arbitrary: s userp)
  case (Cons e es)
  show ?case
  proof (cases e)
    case (Header h)
    with Cons show ?thesis by (auto simp: stream_HeaderCallback_def split: option.splits)
  next
    case (Data d)
    with Cons show ?thesis by (simp add: stream_WriteFunc_def write_loop.simps [of _ "[]"])
  next
    case (Tick tot)
    with Cons show ?thesis by (simp split: if_splits)
  next
    case Stop
    with Cons.prems Cons.IH [of userp "stream_StopDownload s"] show ?thesis by (simp add: stream_StopDownload_def)
  next
    case Cancel_install
    with Cons.prems Cons.IH [of userp "s\<lparr>st_isCancel := True\<rparr>"] show ?thesis by simp
  qed
qed simp

lemma run_transfer_delivers:
  assumes "run_transfer tp userp result es s = Some (True, s')" "length (st_buffer s) < BUFFER_SIZE - 1"
    "0 \<le> st_downloadedSize s" "st_downloadedSize s + int (length (data_of es)) < 2 ^ 63"
  shows "received s' = received s @ data_of es
    \<and> (\<exists>extra. st_delivered s' = st_delivered s @ extra \<and> (\<forall>p \<in> set extra. length p \<le> BUFFER_SIZE - 1))
    \<and> (data_of es \<noteq> [] \<and> st_downloadedSize s + int (length (data_of es)) = st_totalFileSize s \<longrightarrow> st_buffer s' = [])"
  using assms
proof (induction es arbitrary: s userp)
  case Nil
  then show ?case by simp
next
  case (Cons e es)
  show ?case
  proof (cases e)
    case (Header h)
    with Cons show ?thesis by (auto simp: stream_HeaderCallback_def split: option.splits)
  next
    case (Data d)
    have short: "int (length d) \<noteq> 2 ^ 64 - 1" using Cons.prems(3,4) by (simp add: Data)
    from Cons.prems(2) show ?thesis
    proof (cases rule: WriteFunc_cases [of s tp d])
      case (taken s1)
      define s2 where "s2 = s1\<lparr>st_downloadedSize := i64 (st_downloadedSize s + int (length d))\<rparr>"
      have down: "st_downloadedSize s2 = st_downloadedSize s + int (length d)"
        using Cons.prems(3,4) by (simp add: s2_def Data i64_id)
      have run: "run_transfer tp userp result es s2 = Some (True, s')" using Cons.prems(1) by (simp add: Data taken(3) s2_def)
      obtain ds where s1: "received s @ d = received s1" "length (st_buffer s1) < BUFFER_SIZE - 1"
        "st_delivered s1 = st_delivered s @ ds" "\<forall>p \<in> set ds. length p \<le> BUFFER_SIZE - 1"
        using taken(2) by (auto simp: loop_result_def)
      have IH: "received s' = received s2 @ data_of es
        \<and> (\<exists>extra. st_delivered s' = st_delivered s2 @ extra \<and> (\<forall>p \<in> set extra. length p \<le> BUFFER_SIZE - 1))
        \<and> (data_of es \<noteq> [] \<and> st_downloadedSize s2 + int (length (data_of es)) = st_totalFileSize s2 \<longrightarrow> st_buffer s' = [])"
        using Cons.prems(3,4) s1(2) down by (intro Cons.IH [OF run]) (simp_all add: s2_def Data)
      have same: "received s2 = received s1" "st_delivered s2 = st_delivered s1" "st_totalFileSize s2 = st_totalFileSize s"
        "st_buffer s2 = st_buffer s1"
        using loop_result_frame(2) [OF taken(2)] by (simp_all add: s2_def received_def)
      have last: "st_buffer s' = []"
        if *: "data_of (e # es) \<noteq> []" "st_downloadedSize s + int (length (data_of (e # es))) = st_totalFileSize s"
      proof (cases "data_of es = []")
        case False
        with IH * show ?thesis by (simp add: down same Data)
      next
        case True
        with * have d: "d \<noteq> []" "st_downloadedSize s + 0 + int (length d) = st_totalFileSize s" by (simp_all add: Data)
        have "st_buffer s1 = []" by (rule write_loop_last [OF Cons.prems(2) d(1) _ taken(1)]) (use d(2) in simp)
        with run_transfer_nothing [OF True run] s1(2) show ?thesis by (simp add: same)
      qed
      from IH obtain extra where "st_delivered s' = st_delivered s1 @ extra" "\<forall>p \<in> set extra. length p \<le> BUFFER_SIZE - 1"
        by (auto simp: same)
      with s1(3,4) have "st_delivered s' = st_delivered s @ (ds @ extra)" "\<forall>p \<in> set (ds @ extra). length p \<le> BUFFER_SIZE - 1"
        by auto
      moreover have "received s' = received s @ data_of (e # es)" using IH by (simp add: Data same(1) flip: s1(1))
      ultimately show ?thesis using last by blast
    next
      case (refused s1)
      then show ?thesis using Cons.prems(1) short by (simp add: Data)
    qed
  next
    case (Tick tot)
    with Cons show ?thesis by (simp split: if_splits)
  next
    case Stop
    have "received (stream_StopDownload s) = received s" by (simp add: received_def stream_StopDownload_def)
    with Stop Cons.prems Cons.IH [of userp "stream_StopDownload s"] show ?thesis by (simp add: stream_StopDownload_def)
  next
    case Cancel_install
    have "received (s\<lparr>st_isCancel := True\<rparr>) = received s" by (simp add: received_def)
    with Cancel_install Cons.prems Cons.IH [of userp "s\<lparr>st_isCancel := True\<rparr>"] show ?thesis by simp
  qed
qed

lemma run_transfer_short:
  assumes "run_transfer tp userp result es s = Some (True, s')" "length (st_buffer s) < BUFFER_SIZE - 1"
    "0 \<le> st_downloadedSize s" "st_downloadedSize s + int (length (data_of es)) < st_totalFileSize s" "st_totalFileSize s < 2 ^ 63"
  shows "length (st_buffer s') < BUFFER_SIZE - 1
    \<and> (\<exists>extra. st_delivered s' = st_delivered s @ extra \<and> (\<forall>p \<in> set extra. length p = BUFFER_SIZE - 1))"
  using assms
proof (induction es arbitrary: s userp)
  case (Cons e es)
  show ?case
  proof (cases e)
    case (Header h)
    with Cons show ?thesis by (auto simp: stream_HeaderCallback_def split: option.splits)
  next
    case (Data d)
    from Cons.prems(2) show ?thesis
    proof (cases rule: WriteFunc_cases [of s tp d])
      case (taken s1)
      define s2 where "s2 = s1\<lparr>st_downloadedSize := i64 (st_downloadedSize s + int (length d))\<rparr>"
      have s2: "st_downloadedSize s2 = st_downloadedSize s + int (length d)" "st_totalFileSize s2 = st_totalFileSize s"
        "st_delivered s2 = st_delivered s1" "length (st_buffer s2) < BUFFER_SIZE - 1"
        using Cons.prems(3-5) taken(2) loop_result_frame(2) [OF taken(2)] by (simp_all add: s2_def Data i64_id loop_result_def)
      have run: "run_transfer tp userp result es s2 = Some (True, s')" using Cons.prems(1) by (simp add: Data taken(3) s2_def)
      have "\<exists>extra. st_delivered s1 = st_delivered s @ extra \<and> (\<forall>p \<in> set extra. length p = BUFFER_SIZE - 1)"
        by (rule write_loop_short [OF Cons.prems(2) _ _ Cons.prems(5) taken(1)]) (use Cons.prems(3,4) in \<open>simp_all add: Data\<close>)
      then obtain extra where "st_delivered s1 = st_delivered s @ extra" "\<forall>p \<in> set extra. length p = BUFFER_SIZE - 1" by blast
      moreover have "length (st_buffer s') < BUFFER_SIZE - 1
        \<and> (\<exists>extra. st_delivered s' = st_delivered s2 @ extra \<and> (\<forall>p \<in> set extra. length p = BUFFER_SIZE - 1))"
        using Cons.prems(3-5) by (intro Cons.IH [OF run] s2(4)) (simp_all add: s2 Data)
      ultimately show ?thesis unfolding s2(3) by (metis (no_types, lifting) Un_iff append.assoc set_append)
    next
      case (refused s1)
      then show ?thesis using Cons.prems(1,3,4,5) by (simp add: Data)
    qed
  next
    case (Tick tot)
    with Cons show ?thesis by (simp split: if_splits)
  next
    case Stop
    with Cons.prems Cons.IH [of userp "stream_StopDownload s"] show ?thesis by (simp add: stream_StopDownload_def)
  next
    case Cancel_install
    with Cons.prems Cons.IH [of userp "s\<lparr>st_isCancel := True\<rparr>"] show ?thesis by simp
  qed
qed simp

lemma length_concat_full: "\<forall>p \<in> set ps. length p = n \<Longrightarrow> length (concat ps) mod n = 0"
  by (induction ps) simp_all

section \<open>Claims\<close>

text \<open>C23: A transfer that curl ends with \<open>CURLE_OK\<close> hands what was received after the record point to the installer in order,
  in pieces that fit the buffer, however curl cuts the data and whatever headers (as long as the string they go to exists) and
  progress calls come between; what the installer has not got is still in the buffer. If the bytes received are those that
  the package lacks, nothing stays behind. If there are fewer, the last ones, up to a whole buffer, stay behind: nobody
  compares the lengths after the transfer, and the execution reports success for \<open>CURLE_OK\<close> alone.\<close>

theorem streamed_package_is_complete:
  assumes "s = stream_StartDownload size1 recordPoint s0" "st_delivered s0 = []"
    "0 \<le> recordPoint" "recordPoint + int (length (data_of es)) \<le> size1" "size1 < 2 ^ 63"
    "run_transfer take_piece userp result es s = Some (True, s')"
  shows "concat (st_delivered s') @ st_buffer s' = data_of es \<and> list_all (\<lambda>p. length p \<le> BUFFER_SIZE - 1) (st_delivered s')
    \<and> length (st_buffer s') = (if recordPoint + int (length (data_of es)) = size1 then 0 else length (data_of es) mod (BUFFER_SIZE - 1))"
proof -
  have s: "st_buffer s = []" "st_delivered s = []" "st_downloadedSize s = recordPoint" "st_totalFileSize s = size1"
    using assms(1,2) by (simp_all add: stream_StartDownload_def)
  have d: "received s' = received s @ data_of es
    \<and> (\<exists>extra. st_delivered s' = st_delivered s @ extra \<and> (\<forall>p \<in> set extra. length p \<le> BUFFER_SIZE - 1))
    \<and> (data_of es \<noteq> [] \<and> st_downloadedSize s + int (length (data_of es)) = st_totalFileSize s \<longrightarrow> st_buffer s' = [])"
    using assms(3-5) by (intro run_transfer_delivers [OF assms(6)]) (simp_all add: s BUFFER_SIZE_def)
  then have all: "concat (st_delivered s') @ st_buffer s' = data_of es" by (simp add: received_def s)
  moreover have "st_buffer s' = []" if "recordPoint + int (length (data_of es)) = size1"
    using d that all by (cases "data_of es = []") (auto simp: s)
  moreover have "length (st_buffer s') = length (data_of es) mod (BUFFER_SIZE - 1)" if "recordPoint + int (length (data_of es)) \<noteq> size1"
  proof -
    have "length (st_buffer s') < BUFFER_SIZE - 1
      \<and> (\<exists>extra. st_delivered s' = st_delivered s @ extra \<and> (\<forall>p \<in> set extra. length p = BUFFER_SIZE - 1))"
      using assms(3-5) that by (intro run_transfer_short [OF assms(6)]) (simp_all add: s BUFFER_SIZE_def)
    then have "length (concat (st_delivered s')) mod (BUFFER_SIZE - 1) = 0" "length (st_buffer s') < BUFFER_SIZE - 1"
      by (auto simp: s intro: length_concat_full)
    with arg_cong [OF all, of length] show ?thesis
      by (metis add_0 length_append mod_add_left_eq mod_less)
  qed
  ultimately show ?thesis using d by (auto simp: s list_all_iff)
qed

definition ex_stream :: stream where
  "ex_stream = \<lparr>st_buffer = [], st_totalFileSize = 0, st_downloadedSize = 0, st_exitDownload = False, st_isCancel = False,
     st_delivered = [], st_reports = []\<rparr>"

definition ex_transfer :: "stream_event list" where
  "ex_transfer = [Header ''Content-Length: 3'', Data ''ab'', Tick 5, Data ''c'']"

lemma ex_transfer_runs:
  "run_transfer (\<lambda>_ _. 0) (Some []) True ex_transfer (stream_StartDownload 5 2 ex_stream)
   = Some (True, ex_stream\<lparr>st_totalFileSize := 5, st_downloadedSize := 5, st_delivered := [''abc'']\<rparr>)"
  by (simp add: ex_transfer_def ex_stream_def stream_StartDownload_def stream_WriteFunc_def write_loop.simps Let_def BUFFER_SIZE_def
      stream_DownloadProgress_def DealExitOrCancel_def stream_HeaderCallback_def i64_id)

lemma ex_transfer_short:
  "run_transfer (\<lambda>_ _. 0) (Some []) True ex_transfer (stream_StartDownload 9 2 ex_stream)
   = Some (True, ex_stream\<lparr>st_totalFileSize := 9, st_downloadedSize := 5, st_buffer := ''abc''\<rparr>)"
  by (simp add: ex_transfer_def ex_stream_def stream_StartDownload_def stream_WriteFunc_def write_loop.simps Let_def BUFFER_SIZE_def
      stream_DownloadProgress_def DealExitOrCancel_def stream_HeaderCallback_def i64_id)

theorem streamed_package_is_complete_witness:
  "concat (st_delivered (ex_stream\<lparr>st_totalFileSize := 5, st_downloadedSize := 5, st_delivered := [''abc'']\<rparr>)) = ''abc''
   \<and> length (st_buffer (ex_stream\<lparr>st_totalFileSize := 9, st_downloadedSize := 5, st_buffer := ''abc''\<rparr>)) = 3"
  using streamed_package_is_complete [OF refl _ _ _ _ ex_transfer_runs] streamed_package_is_complete [OF refl _ _ _ _ ex_transfer_short]
  by (simp add: ex_stream_def ex_transfer_def BUFFER_SIZE_def)

text \<open>What leaves an execution without a defined result, as far as curl gives a handle.\<close>

definition length_overflows :: "stream_curl \<Rightarrow> stream \<Rightarrow> bool" where
  "length_overflows c s = (CheckFileSize (cu_headOk c) (cu_headers c) s = None)"

definition header_arrives :: "(string list \<Rightarrow> string \<Rightarrow> int) \<Rightarrow> stream_curl \<Rightarrow> stream \<Rightarrow> bool" where
  "header_arrives take_piece c s \<longleftrightarrow>
     CheckFileSize (cu_headOk c) (cu_headers c) s = Some True \<and> \<not> list_all no_header (cu_events c)
     \<and> fst (the (run_transfer take_piece None True (takeWhile no_header (cu_events c)) s))"

text \<open>C31: An execution of the streaming download reports exactly once, if its behaviour is defined: success when the length
  agreed and curl ended with \<open>CURLE_OK\<close>, a failure when there was no handle or no agreement on the length, and a cancellation
  for every failure of the transfer itself, whatever its cause. It is not defined (\<open>None\<close>) when the announced length is no
  64-bit number, and when the transfer gets to a header: \<open>HeaderCallback\<close> is still installed then, and appends it to a
  string that no longer exists. The answer of an HTTP server begins with headers, so this is the rule.\<close>

theorem stream_reports_once:
  assumes "length (st_buffer s) < BUFFER_SIZE - 1" "int (length (data_of (cu_events c))) < 2 ^ 63"
  shows "if cu_init c \<and> (length_overflows c s \<or> header_arrives take_piece c s) then stream_ProcessThreadExecute take_piece c s = None
    else \<exists>s' p. stream_ProcessThreadExecute take_piece c s = Some (\<not> cu_init c, s') \<and> st_reports s' = st_reports s @ [p]
      \<and> pg_status p = (if \<not> cu_init c \<or> CheckFileSize (cu_headOk c) (cu_headers c) s = Some False then US_DOWNLOAD_FAIL
          else if fst (the (stream_DownloadFile take_piece c s)) then US_DOWNLOAD_SUCCESS else US_DOWNLOAD_CANCEL)"
proof -
  let ?es = "takeWhile no_header (cu_events c)"
  have all: "list_all no_header ?es" by (metis list_all_iff set_takeWhileD)
  have "data_of (cu_events c) = data_of ?es @ data_of (dropWhile no_header (cu_events c))"
    by (metis concat_append data_of_def map_append takeWhile_dropWhile_id)
  with assms(2) have "int (length (data_of ?es)) < 2 ^ 63" by simp
  from run_transfer_returns [OF assms(1) this all, of take_piece None True]
  obtain ok s1 where run: "run_transfer take_piece None True ?es s = Some (ok, s1)" "st_reports s1 = st_reports s"
    by blast
  have ended: "if list_all no_header (cu_events c)
     then \<exists>ok s1. stream_DownloadFile take_piece c s = Some (ok, s1) \<and> st_reports s1 = st_reports s
     else stream_DownloadFile take_piece c s = (if ok then None else Some (False, s1))"
  proof (cases "list_all no_header (cu_events c)")
    case True
    then show ?thesis using run_transfer_returns [OF assms True] by (simp add: stream_DownloadFile_def)
  next
    case False
    then obtain e es' where drop: "dropWhile no_header (cu_events c) = e # es'"
      by (cases "dropWhile no_header (cu_events c)") (auto simp: list_all_iff dropWhile_eq_Nil_conv)
    then have "\<not> no_header e" by (simp add: dropWhile_eq_Cons_conv)
    then obtain h where "e = Header h" by (cases e) simp_all
    with drop have "cu_events c = ?es @ Header h # es'" by (metis takeWhile_dropWhile_id)
    then have "stream_DownloadFile take_piece c s = run_transfer take_piece None (cu_result c) (?es @ Header h # es') s"
      by (metis stream_DownloadFile_def)
    with False show ?thesis by (simp add: run_transfer_header [OF all] run(1))
  qed
  show ?thesis
    using ended run
    by (cases "list_all no_header (cu_events c)"; cases "CheckFileSize (cu_headOk c) (cu_headers c) s"; cases ok)
      (auto simp: stream_ProcessThreadExecute_def stream_DownloadCallback_def length_overflows_def header_arrives_def
        split: bool.splits)
qed

definition ex_stream_curl :: "stream_event list \<Rightarrow> stream_curl" where
  "ex_stream_curl es = \<lparr>cu_init = True, cu_headOk = True, cu_headers = [''Content-Length: 5''], cu_events = es, cu_result = True\<rparr>"

lemma ex_stream_curl_length: "CheckFileSize True [''Content-Length: 5''] (stream_StartDownload 5 2 ex_stream) = Some True"
  by code_simp

lemma ex_stopped:
  "\<not> fst (the (stream_DownloadFile (\<lambda>_ _. 0) (ex_stream_curl [Data ''ab'', Stop, Tick 5]) (stream_StartDownload 5 2 ex_stream)))"
  by (simp add: ex_stream_def ex_stream_curl_def stream_DownloadFile_def stream_StartDownload_def stream_StopDownload_def
      stream_WriteFunc_def write_loop.simps Let_def BUFFER_SIZE_def stream_DownloadProgress_def DealExitOrCancel_def i64_id)

text \<open>The download is stopped after two bytes that came without a header; and an HTTP answer begins with its status line.\<close>

theorem stream_reports_once_witness:
  "(\<exists>s'. stream_ProcessThreadExecute (\<lambda>_ _. 0) (ex_stream_curl [Data ''ab'', Stop, Tick 5]) (stream_StartDownload 5 2 ex_stream)
       = Some (False, s') \<and> map pg_status (st_reports s') = [US_DOWNLOAD_CANCEL])
   \<and> stream_ProcessThreadExecute (\<lambda>_ _. 0) (ex_stream_curl [Header ''HTTP/1.1 200 OK'', Data ''abc'']) (stream_StartDownload 5 2 ex_stream)
       = None"
proof -
  let ?s = "stream_StartDownload 5 2 ex_stream" and ?c = "ex_stream_curl [Data ''ab'', Stop, Tick 5]"
  let ?h = "ex_stream_curl [Header ''HTTP/1.1 200 OK'', Data ''abc'']"
  have s: "st_reports ?s = []" "length (st_buffer ?s) < BUFFER_SIZE - 1"
    by (simp_all add: ex_stream_def stream_StartDownload_def BUFFER_SIZE_def)
  have c: "int (length (data_of (cu_events ?c))) < 2 ^ 63" "int (length (data_of (cu_events ?h))) < 2 ^ 63"
    "cu_init ?c" "cu_init ?h" "\<not> length_overflows ?c ?s" "\<not> header_arrives (\<lambda>_ _. 0) ?c ?s" "header_arrives (\<lambda>_ _. 0) ?h ?s"
    "CheckFileSize (cu_headOk ?c) (cu_headers ?c) ?s = Some True"
    by (simp_all add: ex_stream_curl_def length_overflows_def header_arrives_def ex_stream_curl_length)
  from stream_reports_once [OF s(2) c(1), of "\<lambda>_ _. 0"] stream_reports_once [OF s(2) c(2), of "\<lambda>_ _. 0"]
  show ?thesis by (auto simp: c s(1) ex_stopped)
qed

text \<open>\<open>QuitDownloadThread\<close> joins the worker while it holds the mutex that the worker needs. If the worker is waiting, or is
  about to take the mutex, nothing can move any more; if it is executing, the join ends only when the execution asks the
  worker to leave, so a streaming worker that got no curl handle hangs for ever.\<close>

theorem quit_may_hang:
  "(pt_worker t = W_WAITING \<or> pt_worker t = W_LOCKING \<longrightarrow> \<not> thread_step (Quit_begin t) t')
   \<and> (pt_worker t = W_EXECUTING \<and> stream_ProcessThreadExecute take_piece c s = Some (again, s') \<longrightarrow>
       (\<exists>t''. thread_step (worker_executed again (Quit_begin t)) t'') = cu_init c)"
proof (intro conjI impI)
  assume "pt_worker t = W_WAITING \<or> pt_worker t = W_LOCKING"
  then show "\<not> thread_step (Quit_begin t) t'" by (auto simp: Quit_begin_def elim!: thread_step.cases)
next
  assume *: "pt_worker t = W_EXECUTING \<and> stream_ProcessThreadExecute take_piece c s = Some (again, s')"
  then have "again = (\<not> cu_init c)"
    by (auto simp: stream_ProcessThreadExecute_def split: if_splits option.splits bool.splits prod.splits)
  with * show "(\<exists>t''. thread_step (worker_executed again (Quit_begin t)) t'') = cu_init c"
    by (auto simp: Quit_begin_def worker_executed_def elim!: thread_step.cases intro!: exI thread_step.joined)
qed

definition ex_worker :: progress_thread where
  "ex_worker = new_progress_thread\<lparr>pt_worker := W_EXECUTING\<rparr>"

theorem quit_may_hang_witness:
  "(\<exists>s'. stream_ProcessThreadExecute (\<lambda>_ _. 0) ((ex_stream_curl [])\<lparr>cu_init := False\<rparr>) ex_stream = Some (True, s'))
   \<and> (\<nexists>t''. thread_step (worker_executed True (Quit_begin ex_worker)) t'')
   \<and> \<not> thread_step (Quit_begin (StartProgress new_progress_thread)) ex_worker"
proof -
  have run: "stream_ProcessThreadExecute (\<lambda>_ _. 0) ((ex_stream_curl [])\<lparr>cu_init := False\<rparr>) ex_stream
      = Some (True, stream_DownloadCallback 0 US_DOWNLOAD_FAIL ''Failed to init curl'' ex_stream)"
    by (simp add: stream_ProcessThreadExecute_def ex_stream_curl_def)
  then show ?thesis
    using quit_may_hang [of ex_worker _ "\<lambda>_ _. 0" "(ex_stream_curl [])\<lparr>cu_init := False\<rparr>" ex_stream True]
      quit_may_hang [of "StartProgress new_progress_thread" ex_worker "\<lambda>_ _. 0" "ex_stream_curl []" ex_stream True]
    by (auto simp: ex_worker_def ex_stream_curl_def StartProgress_def new_progress_thread_def)
qed

end
