(* ===== verification/Js_Values.thy ===== *)
theory Js_Values
  imports Parcel_Requests Event_Json
begin

text \<open>
  What scripts and the bindings exchange: \<open>frameworks/js/napi/session/src/napi_common_utils.cpp\<close> and
  \<open>frameworks/js/napi/update/common/src/client_helper.cpp\<close>. The script engine is Node-API: its calls on values of the right
  kind succeed, and a value of the wrong kind leaves the output argument as it is. A function is its number, since all the
  code asks of it is whether it is the same one.
\<close>

section \<open>Values of a script\<close>

text \<open>Of a number only the integer part is kept, because every reader cuts the fraction off.\<close>

datatype js = JUndef | JNull | JBool bool | JNum int | JStr string | JArr "js list" | JObj "(string \<times> js) list" | JFun nat

datatype napi_valuetype = T_undefined | T_null | T_boolean | T_number | T_string | T_object | T_function

fun napi_typeof :: "js \<Rightarrow> napi_valuetype" where
  "napi_typeof JUndef = T_undefined"
| "napi_typeof JNull = T_null"
| "napi_typeof (JBool _) = T_boolean"
| "napi_typeof (JNum _) = T_number"
| "napi_typeof (JStr _) = T_string"
| "napi_typeof (JArr _) = T_object"
| "napi_typeof (JObj _) = T_object"
| "napi_typeof (JFun _) = T_function"

fun napi_named_property :: "js \<Rightarrow> string \<Rightarrow> js option" where
  "napi_named_property (JObj ms) attrName = map_of ms attrName"
| "napi_named_property _ _ = None"

fun put_member :: "string \<Rightarrow> js \<Rightarrow> (string \<times> js) list \<Rightarrow> (string \<times> js) list" where
  "put_member k v [] = [(k, v)]"
| "put_member k v ((a, b) # ms) = (if a = k then (a, v) # ms else (a, b) # put_member k v ms)"

fun napi_set_named_property :: "string \<Rightarrow> js \<Rightarrow> js \<Rightarrow> js" where
  "napi_set_named_property k v (JObj ms) = JObj (put_member k v ms)"
| "napi_set_named_property k v x = x"

definition js_empty :: js where "js_empty = JObj []"

text \<open>\<open>s.c_str()\<close> taken as a string again.\<close>

definition c_str :: "string \<Rightarrow> string" where "c_str s = takeWhile (\<lambda>c. c \<noteq> CHR 0x00) s"

section \<open>\<open>NapiCommonUtils\<close>: reading\<close>

datatype ClientStatus = CLIENT_SUCCESS | CLIENT_INVALID_PARAM | CLIENT_INVALID_TYPE | CLIENT_REPEAT_REQ | CLIENT_FAIL
  | CLIENT_CHECK_NEW_FIRST

definition STRING_MAX_LENGTH :: nat where "STRING_MAX_LENGTH = 81920"

fun napi_get_value_int32 :: "js \<Rightarrow> int \<Rightarrow> int" where
  "napi_get_value_int32 (JNum n) _ = i32 n"
| "napi_get_value_int32 _ old = old"

fun napi_get_value_uint32 :: "js \<Rightarrow> int \<Rightarrow> int" where
  "napi_get_value_uint32 (JNum n) _ = u32 n"
| "napi_get_value_uint32 _ old = old"

fun napi_get_value_bool :: "js \<Rightarrow> bool \<Rightarrow> bool" where
  "napi_get_value_bool (JBool b) _ = b"
| "napi_get_value_bool _ old = old"

definition GetInt32_attr :: "js \<Rightarrow> string \<Rightarrow> int \<Rightarrow> ClientStatus \<times> int" where
  "GetInt32_attr arg attrName intValue =
     (case napi_named_property arg attrName of
        Some v \<Rightarrow> (CLIENT_SUCCESS, napi_get_value_int32 v intValue)
      | None \<Rightarrow> (CLIENT_FAIL, intValue))"

definition GetInt32_arg :: "js \<Rightarrow> int \<Rightarrow> ClientStatus \<times> int" where
  "GetInt32_arg arg intValue =
     (if napi_typeof arg \<noteq> T_number then (CLIENT_INVALID_TYPE, intValue)
      else (CLIENT_SUCCESS, napi_get_value_int32 arg intValue))"

definition GetUInt32_arg :: "js \<Rightarrow> int \<Rightarrow> ClientStatus \<times> int" where
  "GetUInt32_arg arg uintValue =
     (if napi_typeof arg \<noteq> T_number then (CLIENT_INVALID_TYPE, uintValue)
      else (CLIENT_SUCCESS, napi_get_value_uint32 arg uintValue))"

definition GetBool_attr :: "js \<Rightarrow> string \<Rightarrow> bool \<Rightarrow> ClientStatus \<times> bool" where
  "GetBool_attr arg attrName value0 =
     (case napi_named_property arg attrName of
        Some v \<Rightarrow> (CLIENT_SUCCESS, napi_get_value_bool v value0)
      | None \<Rightarrow> (CLIENT_FAIL, value0))"

text \<open>The buffer ends with a zero, so one character fewer than its size is copied.\<close>

definition GetString_arg :: "js \<Rightarrow> string \<Rightarrow> ClientStatus \<times> string" where
  "GetString_arg arg strValue =
     (case arg of
        JStr s \<Rightarrow> (CLIENT_SUCCESS, take (STRING_MAX_LENGTH - 1) s)
      | _ \<Rightarrow> (CLIENT_INVALID_TYPE, strValue))"

definition GetString_attr :: "js \<Rightarrow> string \<Rightarrow> string \<Rightarrow> ClientStatus \<times> string" where
  "GetString_attr arg attrName strValue =
     (case napi_named_property arg attrName of
        Some v \<Rightarrow> GetString_arg v strValue
      | None \<Rightarrow> (CLIENT_FAIL, strValue))"

definition IsTypeOf :: "js \<Rightarrow> napi_valuetype \<Rightarrow> ClientStatus" where
  "IsTypeOf arg type = (if napi_typeof arg = type then CLIENT_SUCCESS else CLIENT_INVALID_TYPE)"

definition CheckNapiObjectType :: "js \<Rightarrow> ClientStatus" where
  "CheckNapiObjectType arg = (if napi_typeof arg = T_object then CLIENT_SUCCESS else CLIENT_INVALID_TYPE)"

section \<open>\<open>NapiCommonUtils\<close>: writing\<close>

definition SetString :: "string \<Rightarrow> string \<Rightarrow> js \<Rightarrow> js" where
  "SetString attrName s obj = napi_set_named_property attrName (JStr s) obj"

definition SetUint32 :: "string \<Rightarrow> int \<Rightarrow> js \<Rightarrow> js" where
  "SetUint32 attrName intValue obj = napi_set_named_property attrName (JNum (u32 intValue)) obj"

definition SetInt32 :: "string \<Rightarrow> int \<Rightarrow> js \<Rightarrow> js" where
  "SetInt32 attrName intValue obj = napi_set_named_property attrName (JNum (i32 intValue)) obj"

text \<open>A 64-bit integer becomes a number of the script, which is a double.\<close>

definition SetInt64 :: "string \<Rightarrow> int \<Rightarrow> js \<Rightarrow> js" where
  "SetInt64 attrName intValue obj =
     napi_set_named_property attrName (JNum (fp_to_int (fp_of_int 53 (i64 intValue)))) obj"

definition SetBool :: "string \<Rightarrow> bool \<Rightarrow> js \<Rightarrow> js" where
  "SetBool attrName b obj = napi_set_named_property attrName (JBool b) obj"

definition CreateUint32 :: "int \<Rightarrow> js" where "CreateUint32 code = JNum (u32 code)"
definition CreateStringUtf8 :: "string \<Rightarrow> js" where "CreateStringUtf8 str = JStr (c_str str)"

text \<open>\<open>CreateProperty\<close>: an object of named constants.\<close>

definition CreateProperty :: "string \<Rightarrow> (string \<times> js) list \<Rightarrow> js \<Rightarrow> js" where
  "CreateProperty name properties exports =
     napi_set_named_property name
       (fold (\<lambda>(k, v) obj. if k = [] then obj else napi_set_named_property k v obj) properties js_empty) exports"

section \<open>Errors\<close>

definition COMPONENT_ERR :: int where "COMPONENT_ERR = 11500000"

fun call_result_code :: "CallResult \<Rightarrow> int" where
  "call_result_code CR_APP_NOT_GRANTED = 201" | "call_result_code CR_NOT_SYSTEM_APP = 202"
| "call_result_code CR_MDM_DISABLE_RESET = 203" | "call_result_code CR_PARAM_ERR = 401"
| "call_result_code CR_UN_SUPPORT = 801" | "call_result_code CR_SUCCESS = 0" | "call_result_code CR_FAIL = 100"
| "call_result_code CR_DEV_UPG_INFO_ERR = 102" | "call_result_code CR_FORBIDDEN = 103"
| "call_result_code CR_IPC_ERR = 104" | "call_result_code CR_TIME_OUT = 402" | "call_result_code CR_DB_ERROR = 501"
| "call_result_code CR_IO_ERROR = 502" | "call_result_code CR_NET_ERROR = 503" | "call_result_code CR_CANCEL_ERROR = 504"

text \<open>A result that came from another process is any number cast to \<open>CallResult\<close>.\<close>

definition IsCommonError :: "int \<Rightarrow> bool" where
  "IsCommonError callResult =
     (callResult = call_result_code CR_UN_SUPPORT \<or> callResult = call_result_code CR_NOT_SYSTEM_APP
      \<or> callResult = call_result_code CR_APP_NOT_GRANTED \<or> callResult = call_result_code CR_PARAM_ERR
      \<or> callResult = call_result_code CR_MDM_DISABLE_RESET)"

definition ConvertToErrorCode :: "int \<Rightarrow> int" where
  "ConvertToErrorCode callResult =
     (if IsCommonError callResult \<or> callResult = call_result_code CR_SUCCESS then callResult
      else COMPONENT_ERR + callResult)"

definition error_message_object :: "ErrorMessage \<Rightarrow> js" where
  "error_message_object m =
     SetString ''errorMessage'' (em_errorMessage m) (SetInt32 ''errorCode'' (em_errorCode m) js_empty)"

definition BuildErrorMessages :: "string \<Rightarrow> ErrorMessage list \<Rightarrow> js \<Rightarrow> js" where
  "BuildErrorMessages name errorMessages obj =
     (let valid = filter (\<lambda>m. em_errorCode m \<noteq> 0) errorMessages
      in if valid = [] then obj else napi_set_named_property name (JArr (map error_message_object valid)) obj)"

definition BuildThrowError :: "BusinessError_parcel \<Rightarrow> js" where
  "BuildThrowError b =
     BuildErrorMessages ''data'' (bp_data b)
       (SetString ''message'' (bp_message b) (SetInt32 ''code'' (ConvertToErrorCode (bp_errorNum b))
         (JObj [(''message'', JStr (c_str (bp_message b)))])))"

definition BuildBusinessError :: "BusinessError_parcel \<Rightarrow> js option" where
  "BuildBusinessError b =
     (if bp_errorNum b = call_result_code CR_SUCCESS then None
      else Some (BuildErrorMessages ''data'' (bp_data b)
        (SetInt32 ''code'' (ConvertToErrorCode (bp_errorNum b)) (SetString ''message'' (bp_message b) js_empty))))"

definition BuildCallFuncResult :: "BusinessError_parcel \<Rightarrow> js" where
  "BuildCallFuncResult b = JBool (bp_errorNum b = call_result_code CR_SUCCESS)"

definition ConvertVectorToStr :: "(string \<times> string) list \<Rightarrow> bool \<Rightarrow> string" where
  "ConvertVectorToStr strVector isFirst =
     foldl (\<lambda>acc p. (if acc \<noteq> [] then acc @ '', '' else acc) @ (if isFirst then fst p else snd p)) [] strVector"

definition new_error :: "int \<Rightarrow> string \<Rightarrow> BusinessError_parcel" where
  "new_error code msg = \<lparr>bp_message = msg, bp_errorNum = code, bp_data = []\<rparr>"

text \<open>The four errors that are thrown at the caller.\<close>

definition NapiThrowParamError :: "(string \<times> string) list \<Rightarrow> js" where
  "NapiThrowParamError paramInfos =
     (let code = call_result_code CR_PARAM_ERR
      in BuildThrowError (new_error code (''BusinessError '' @ to_string code @ '': Parameter error. The type of { ''
        @ ConvertVectorToStr paramInfos True @ '' }'' @ ''must be { '' @ ConvertVectorToStr paramInfos False @ '' }.'')))"

definition NapiThrowNotSystemAppError :: js where
  "NapiThrowNotSystemAppError =
     (let code = call_result_code CR_NOT_SYSTEM_APP
      in BuildThrowError (new_error code (''BusinessError '' @ to_string code
        @ '': Permission verification failed. A non-system application calls a system API.'')))"

definition NapiThrowUnSupportError :: js where
  "NapiThrowUnSupportError =
     (let code = call_result_code CR_UN_SUPPORT
      in BuildThrowError (new_error code (''BusinessError '' @ to_string code
        @ '': Capability not supported. Failed to call the API due to limited device capabilities.'')))"

definition NapiThrowPermissionError :: js where
  "NapiThrowPermissionError =
     (let code = call_result_code CR_APP_NOT_GRANTED
      in BuildThrowError (new_error code (''BusinessError '' @ to_string code @ '': Permission not granted.'')))"

end
