(* ===== verification/Js_Arguments.thy ===== *)
theory Js_Arguments
  imports Js_Values
begin

text \<open>
  The arguments of the requests of a script: the reading half of \<open>ClientHelper\<close> in
  \<open>frameworks/js/napi/update/common/src/client_helper.cpp\<close>. A reader gets the object that it fills and returns it with its
  status; what it has filled before it refuses stays filled.
\<close>

section \<open>Enumerations\<close>

definition IsValidEnum :: "int list \<Rightarrow> int \<Rightarrow> bool" where
  "IsValidEnum enumList number = list_ex (\<lambda>key. number = key) enumList"

text \<open>The common form of these readers: a missing member counts as zero, an unknown number is refused.\<close>

definition read_enum :: "string \<Rightarrow> int list \<Rightarrow> js \<Rightarrow> int \<Rightarrow> ClientStatus \<times> int" where
  "read_enum attrName enumList arg old =
     (let n = snd (GetInt32_attr arg attrName 0)
      in if IsValidEnum enumList n then (CLIENT_SUCCESS, n) else (CLIENT_INVALID_TYPE, old))"

definition GetDescriptionFormat :: "js \<Rightarrow> int \<Rightarrow> ClientStatus \<times> int" where
  "GetDescriptionFormat arg format = read_enum ''format'' [0, 1] arg format"

definition GetNetType :: "js \<Rightarrow> int \<Rightarrow> ClientStatus \<times> int" where
  "GetNetType arg netType = read_enum ''allowNetwork'' [1, 2, 4, 6, 7] arg netType"

definition GetOrder :: "js \<Rightarrow> int \<Rightarrow> ClientStatus \<times> int" where
  "GetOrder arg order =
     read_enum ''order'' (map order_code [O_DOWNLOAD, O_INSTALL, O_APPLY, O_DOWNLOAD_AND_INSTALL, O_INSTALL_AND_APPLY, O_TRANSFER,
       O_TRANSFER_AND_APPLY]) arg order"

section \<open>Options\<close>

definition read_DescriptionOptions :: "js \<Rightarrow> DescriptionOptions \<Rightarrow> ClientStatus \<times> DescriptionOptions" where
  "read_DescriptionOptions arg x =
     (case GetDescriptionFormat arg (de_format x) of
        (CLIENT_SUCCESS, f) \<Rightarrow>
          (CLIENT_SUCCESS, x\<lparr>de_format := f, de_language := snd (GetString_attr arg ''language'' (de_language x))\<rparr>)
      | _ \<Rightarrow> (CLIENT_INVALID_TYPE, x))"

definition read_DownloadOptions :: "js \<Rightarrow> DownloadOptions_parcel \<Rightarrow> ClientStatus \<times> DownloadOptions_parcel" where
  "read_DownloadOptions arg x =
     (case GetNetType arg (dop_allowNetwork x) of
        (CLIENT_SUCCESS, n) \<Rightarrow>
          let x1 = x\<lparr>dop_allowNetwork := n\<rparr>
          in (case GetOrder arg (dop_order x1) of
                (CLIENT_SUCCESS, ord) \<Rightarrow> (CLIENT_SUCCESS, x1\<lparr>dop_order := ord\<rparr>)
              | _ \<Rightarrow> (CLIENT_INVALID_TYPE, x1))
      | _ \<Rightarrow> (CLIENT_INVALID_TYPE, x))"

definition read_PauseDownloadOptions :: "js \<Rightarrow> PauseDownloadOptions \<Rightarrow> ClientStatus \<times> PauseDownloadOptions" where
  "read_PauseDownloadOptions arg x =
     (CLIENT_SUCCESS, x\<lparr>pa_isAllowAutoResume := snd (GetBool_attr arg ''isAllowAutoResume'' (pa_isAllowAutoResume x))\<rparr>)"

definition read_ResumeDownloadOptions :: "js \<Rightarrow> ResumeDownloadOptions \<Rightarrow> ClientStatus \<times> ResumeDownloadOptions" where
  "read_ResumeDownloadOptions arg x = (case GetNetType arg (ro_allowNetwork x) of (st, n) \<Rightarrow> (st, x\<lparr>ro_allowNetwork := n\<rparr>))"

definition read_UpgradeOptions :: "js \<Rightarrow> UpgradeOptions_parcel \<Rightarrow> ClientStatus \<times> UpgradeOptions_parcel" where
  "read_UpgradeOptions arg x = (case GetOrder arg (uop_order x) of (st, n) \<Rightarrow> (st, x\<lparr>uop_order := n\<rparr>))"

text \<open>The three statuses of an authentication are not among the ones that can be cleared.\<close>

definition clear_statuses :: "int list" where
  "clear_statuses = [0, 10, 11, 12, 20, 21, 22, 23, 24, 30, 31, 32, 68, 69, 70, 71, 72, 80, 81, 82, 83, 90, 91, 92, 93, 100, 101, -1]"

definition read_ClearOptions :: "js \<Rightarrow> ClearOptions \<Rightarrow> ClientStatus \<times> ClearOptions" where
  "read_ClearOptions arg x = (case read_enum ''status'' clear_statuses arg (co_status x) of (st, n) \<Rightarrow> (st, x\<lparr>co_status := n\<rparr>))"

definition GetVersionDigestInfoFromArg :: "js \<Rightarrow> VersionDigestInfo \<Rightarrow> ClientStatus \<times> VersionDigestInfo" where
  "GetVersionDigestInfoFromArg arg x =
     (CLIENT_SUCCESS, x\<lparr>vd_versionDigest := snd (GetString_attr arg ''versionDigest'' (vd_versionDigest x))\<rparr>)"

section \<open>The updater that is asked for\<close>

definition SUB_ROLLBACK :: int where "SUB_ROLLBACK = 3"
definition SUB_ACCESSORY :: int where "SUB_ACCESSORY = 4"
definition SUB_ASSIST :: int where "SUB_ASSIST = 5"

definition ParseBusinessType :: "js \<Rightarrow> BusinessType \<Rightarrow> BusinessType" where
  "ParseBusinessType arg bt =
     (let bt1 = (case napi_named_property arg ''businessType'' of
                   None \<Rightarrow> bt
                 | Some v \<Rightarrow> BusinessType (snd (GetString_attr v ''vendor'' (bt_vendor bt))) (snd (GetInt32_attr v ''subType'' 0)))
      in if bt_subType bt1 = SUB_ROLLBACK then bt1
         else if bt_subType bt1 = SUB_ASSIST then bt1
         else if bt_subType bt1 = SUB_ACCESSORY then bt1
         else if bt_subType bt1 \<noteq> SUB_PARAM then BusinessType (bt_vendor bt1) SUB_FIRMWARE
         else bt1)"

definition GetUpgradeInfoFromArg :: "int \<Rightarrow> js \<Rightarrow> UpgradeInfo \<Rightarrow> ClientStatus \<times> UpgradeInfo" where
  "GetUpgradeInfoFromArg pid arg i =
     (if CheckNapiObjectType arg \<noteq> CLIENT_SUCCESS then (CLIENT_INVALID_TYPE, i)
      else (CLIENT_SUCCESS,
        UpgradeInfo (snd (GetString_attr arg ''upgradeApp'' (ui_upgradeApp i))) (ParseBusinessType arg (ui_businessType i))
          (snd (GetString_attr arg ''upgradeDevId'' (ui_upgradeDevId i)))
          (snd (GetString_attr arg ''controlDevId'' (ui_controlDevId i))) pid (snd (GetInt32_attr arg ''deviceType'' 0))))"

section \<open>The policy\<close>

text \<open>An element of the array is read as a number, twice; an object, which is what \<open>BuildUpgradePolicy\<close> makes, is not one.\<close>

definition read_element_period :: "js \<Rightarrow> int \<times> int \<Rightarrow> int \<times> int" where
  "read_element_period element old = (napi_get_value_uint32 element (fst old), napi_get_value_uint32 element (snd old))"

definition napi_get_element :: "js list \<Rightarrow> nat \<Rightarrow> js" where
  "napi_get_element vs i = (if i < length vs then vs ! i else JUndef)"

definition GetUpgradePolicyFromArg :: "js \<Rightarrow> UpgradePolicy_parcel \<Rightarrow> ClientStatus \<times> UpgradePolicy_parcel" where
  "GetUpgradePolicyFromArg arg p =
     (if CheckNapiObjectType arg \<noteq> CLIENT_SUCCESS then (CLIENT_INVALID_TYPE, p)
      else
        let p1 = p\<lparr>pp_downloadStrategy := snd (GetBool_attr arg ''downloadStrategy'' (pp_downloadStrategy p)),
                   pp_autoUpgradeStrategy := snd (GetBool_attr arg ''autoUpgradeStrategy'' (pp_autoUpgradeStrategy p))\<rparr>
        in case napi_named_property arg ''autoUpgradePeriods'' of
             None \<Rightarrow> (CLIENT_SUCCESS, p1)
           | Some (JArr vs) \<Rightarrow>
               let p2 = p1\<lparr>pp_first := read_element_period (napi_get_element vs 0) (pp_first p1)\<rparr>
               in (CLIENT_SUCCESS,
                   if 1 < length vs then p2\<lparr>pp_second := read_element_period (napi_get_element vs 1) (pp_second p2)\<rparr> else p2)
           | Some _ \<Rightarrow> (CLIENT_FAIL, p1))"

section \<open>Local packages\<close>

definition TrimString :: "string \<Rightarrow> string" where
  "TrimString str =
     (let s = dropWhile (\<lambda>c. c = CHR '' '') str in rev (dropWhile (\<lambda>c. c = CHR '' '') (rev s)))"

definition IsValidUpgradeFile :: "string \<Rightarrow> bool" where
  "IsValidUpgradeFile upgradeFile =
     (if upgradeFile = [] then False
      else if find_pos (\<lambda>c. c = CHR ''/'') upgradeFile \<noteq> Some 0 then False
      else case find_last_pos (\<lambda>c. c = CHR ''.'') upgradeFile of
        None \<Rightarrow> False
      | Some pos \<Rightarrow>
          let postfix = map cxx_tolower (drop (pos + 1) upgradeFile)
          in postfix = ''bin'' \<or> postfix = ''zip'' \<or> postfix = ''lz4'' \<or> postfix = ''gz'')"

record UpgradeFile =
  uf_fileType :: int
  uf_filePath :: string

definition new_upgrade_file :: UpgradeFile where "new_upgrade_file = \<lparr>uf_fileType = 0, uf_filePath = []\<rparr>"

definition ParseUpgradeFile :: "js \<Rightarrow> UpgradeFile \<Rightarrow> ClientStatus \<times> UpgradeFile" where
  "ParseUpgradeFile arg f =
     (if napi_typeof arg \<noteq> T_object then (CLIENT_INVALID_TYPE, f)
      else
        let fileType = snd (GetInt32_attr arg ''fileType'' 0)
        in if \<not> IsValidEnum [1, 2, 4, 8] fileType then (CLIENT_INVALID_PARAM, f)
           else
             let path = TrimString (snd (GetString_attr arg ''filePath'' (uf_filePath f)));
                 f1 = f\<lparr>uf_fileType := fileType, uf_filePath := path\<rparr>
             in if \<not> IsValidUpgradeFile path then (CLIENT_INVALID_PARAM, f1) else (CLIENT_SUCCESS, f1))"

definition GetUpgradeFileFromArg :: "js \<Rightarrow> UpgradeFile \<Rightarrow> ClientStatus \<times> UpgradeFile" where
  "GetUpgradeFileFromArg arg f = ParseUpgradeFile arg f"

fun parse_files :: "js list \<Rightarrow> UpgradeFile list \<Rightarrow> ClientStatus \<times> UpgradeFile list" where
  "parse_files [] upgradeFiles = (CLIENT_SUCCESS, upgradeFiles)"
| "parse_files (element # vs) upgradeFiles =
     (case ParseUpgradeFile element new_upgrade_file of
        (CLIENT_SUCCESS, f) \<Rightarrow> parse_files vs (upgradeFiles @ [f])
      | (st, _) \<Rightarrow> (st, upgradeFiles))"

definition GetUpgradeFilesFromArg :: "js \<Rightarrow> UpgradeFile list \<Rightarrow> ClientStatus \<times> UpgradeFile list" where
  "GetUpgradeFilesFromArg arg upgradeFiles =
     (case arg of
        JArr vs \<Rightarrow> if vs = [] then (CLIENT_FAIL, upgradeFiles) else parse_files vs upgradeFiles
      | _ \<Rightarrow> (CLIENT_FAIL, upgradeFiles))"

section \<open>Events and resets\<close>

definition CLASSIFY_TASK :: int where "CLASSIFY_TASK = 0x01000000"
definition CLASSIFY_SYSTEM :: int where "CLASSIFY_SYSTEM = 0x02000000"
definition CLASSIFY_COMMAND :: int where "CLASSIFY_COMMAND = 0x04000000"

definition g_eventClassifyList :: "int list" where
  "g_eventClassifyList = [CLASSIFY_TASK, CLASSIFY_SYSTEM, CLASSIFY_COMMAND]"

record EventClassifyInfo =
  ec_eventClassify :: int
  ec_extraInfo :: string

definition new_EventClassifyInfo :: "int \<Rightarrow> EventClassifyInfo" where
  "new_EventClassifyInfo classify = \<lparr>ec_eventClassify = classify, ec_extraInfo = []\<rparr>"

definition GetEventClassifyInfoFromArg :: "js \<Rightarrow> EventClassifyInfo \<Rightarrow> ClientStatus \<times> EventClassifyInfo" where
  "GetEventClassifyInfoFromArg arg x =
     (if napi_typeof arg \<noteq> T_object then (CLIENT_INVALID_TYPE, x)
      else case read_enum ''eventClassify'' g_eventClassifyList arg (ec_eventClassify x) of
        (CLIENT_SUCCESS, n) \<Rightarrow>
          (CLIENT_SUCCESS, x\<lparr>ec_eventClassify := n, ec_extraInfo := snd (GetString_attr arg ''extraInfo'' (ec_extraInfo x))\<rparr>)
      | (st, _) \<Rightarrow> (st, x))"

definition GetFactoryResetStrategyFromArg :: "js \<Rightarrow> FactoryResetStrategy \<Rightarrow> ClientStatus \<times> FactoryResetStrategy" where
  "GetFactoryResetStrategyFromArg arg x =
     (if CheckNapiObjectType arg \<noteq> CLIENT_SUCCESS then (CLIENT_INVALID_TYPE, x)
      else case read_enum ''scope'' [1, 2] arg (rs_scope x) of
        (CLIENT_SUCCESS, n) \<Rightarrow>
          (CLIENT_SUCCESS, x\<lparr>rs_scope := n, rs_strategy := snd (GetString_attr arg ''strategy'' (rs_strategy x))\<rparr>)
      | (st, _) \<Rightarrow> (st, x))"

section \<open>Facts\<close>

text \<open>What a reader of an enumeration accepts.\<close>

lemma read_enum_cases:
  "read_enum k es arg old =
     (let n = snd (GetInt32_attr arg k 0) in if n \<in> set es then (CLIENT_SUCCESS, n) else (CLIENT_INVALID_TYPE, old))"
  by (auto simp: read_enum_def IsValidEnum_def list_ex_iff Let_def)

lemma read_enum_success: "read_enum k es arg old = (CLIENT_SUCCESS, n) \<Longrightarrow> n \<in> set es"
  by (auto simp: read_enum_cases Let_def split: if_splits)

text \<open>A path that is accepted is absolute.\<close>

lemma valid_file_absolute: "IsValidUpgradeFile s \<Longrightarrow> \<exists>t. s = CHR ''/'' # t"
  by (cases s) (auto simp: IsValidUpgradeFile_def split: if_splits)

lemma parse_files_valid:
  "parse_files vs fs = (CLIENT_SUCCESS, gs) \<Longrightarrow>
     \<exists>new. gs = fs @ new \<and> length new = length vs \<and> list_all (\<lambda>f. uf_fileType f \<in> {1, 2, 4, 8} \<and> IsValidUpgradeFile (uf_filePath f)) new"
proof (induction vs arbitrary: fs)
  case (Cons v vs)
  from Cons.prems obtain f where f: "ParseUpgradeFile v new_upgrade_file = (CLIENT_SUCCESS, f)"
    and rest: "parse_files vs (fs @ [f]) = (CLIENT_SUCCESS, gs)"
    by (auto split: prod.splits ClientStatus.splits)
  have "uf_fileType f \<in> {1, 2, 4, 8} \<and> IsValidUpgradeFile (uf_filePath f)"
    using f by (auto simp: ParseUpgradeFile_def Let_def IsValidEnum_def split: if_splits)
  with Cons.IH [OF rest] show ?case by force
qed simp

end
