(* ===== verification/Js_Results.thy ===== *)
theory Js_Results
  imports Js_Arguments
begin

text \<open>
  The answers and the events as objects of a script: the building half of \<open>ClientHelper\<close> in
  \<open>frameworks/js/napi/update/common/src/client_helper.cpp\<close>. A builder of an answer returns its status and the value, which
  is none where the code leaves a null handle.
\<close>

section \<open>Kinds of requests\<close>

definition SESSION_CHECK_VERSION :: int where "SESSION_CHECK_VERSION = 0"
definition SESSION_DOWNLOAD :: int where "SESSION_DOWNLOAD = 1"
definition SESSION_PAUSE_DOWNLOAD :: int where "SESSION_PAUSE_DOWNLOAD = 2"
definition SESSION_RESUME_DOWNLOAD :: int where "SESSION_RESUME_DOWNLOAD = 3"
definition SESSION_UPGRADE :: int where "SESSION_UPGRADE = 4"
definition SESSION_SET_POLICY :: int where "SESSION_SET_POLICY = 5"
definition SESSION_GET_POLICY :: int where "SESSION_GET_POLICY = 6"
definition SESSION_CLEAR_ERROR :: int where "SESSION_CLEAR_ERROR = 7"
definition SESSION_TERMINATE_UPGRADE :: int where "SESSION_TERMINATE_UPGRADE = 8"
definition SESSION_GET_NEW_VERSION :: int where "SESSION_GET_NEW_VERSION = 9"
definition SESSION_GET_NEW_VERSION_DESCRIPTION :: int where "SESSION_GET_NEW_VERSION_DESCRIPTION = 10"
definition SESSION_SUBSCRIBE :: int where "SESSION_SUBSCRIBE = 11"
definition SESSION_APPLY_NEW_VERSION :: int where "SESSION_APPLY_NEW_VERSION = 14"
definition SESSION_FACTORY_RESET :: int where "SESSION_FACTORY_RESET = 15"
definition SESSION_VERIFY_PACKAGE :: int where "SESSION_VERIFY_PACKAGE = 16"
definition SESSION_CANCEL_UPGRADE :: int where "SESSION_CANCEL_UPGRADE = 17"
definition SESSION_GET_CUR_VERSION :: int where "SESSION_GET_CUR_VERSION = 18"
definition SESSION_GET_CUR_VERSION_DESCRIPTION :: int where "SESSION_GET_CUR_VERSION_DESCRIPTION = 19"
definition SESSION_GET_TASK_INFO :: int where "SESSION_GET_TASK_INFO = 20"
definition SESSION_REPLY_PARAM_ERROR :: int where "SESSION_REPLY_PARAM_ERROR = 21"
definition SESSION_FORCE_FACTORY_RESET :: int where "SESSION_FORCE_FACTORY_RESET = 22"
definition SESSION_DEEP_FACTORY_RESET :: int where "SESSION_DEEP_FACTORY_RESET = 23"
definition SESSION_GET_DEEP_FACTORY_RESET_INFO :: int where "SESSION_GET_DEEP_FACTORY_RESET_INFO = 24"

named_theorems session_types \<open>the numbers of the kinds of requests\<close>

lemmas session_type_defs [session_types] =
  SESSION_CHECK_VERSION_def SESSION_DOWNLOAD_def SESSION_PAUSE_DOWNLOAD_def SESSION_RESUME_DOWNLOAD_def SESSION_UPGRADE_def
  SESSION_SET_POLICY_def SESSION_GET_POLICY_def SESSION_CLEAR_ERROR_def SESSION_TERMINATE_UPGRADE_def
  SESSION_GET_NEW_VERSION_def SESSION_GET_NEW_VERSION_DESCRIPTION_def SESSION_SUBSCRIBE_def SESSION_APPLY_NEW_VERSION_def
  SESSION_FACTORY_RESET_def SESSION_VERIFY_PACKAGE_def SESSION_CANCEL_UPGRADE_def SESSION_GET_CUR_VERSION_def
  SESSION_GET_CUR_VERSION_DESCRIPTION_def SESSION_GET_TASK_INFO_def SESSION_REPLY_PARAM_ERROR_def
  SESSION_FORCE_FACTORY_RESET_def SESSION_DEEP_FACTORY_RESET_def SESSION_GET_DEEP_FACTORY_RESET_INFO_def

section \<open>Parts\<close>

definition description_object :: "int \<Rightarrow> string \<Rightarrow> js" where
  "description_object descriptionType content = SetString ''content'' (c_str content) (SetInt32 ''descriptionType'' descriptionType js_empty)"

definition BuildDescInfo :: "ComponentDescription_parcel \<Rightarrow> js \<Rightarrow> js" where
  "BuildDescInfo d obj =
     napi_set_named_property ''notifyDescriptionInfo'' (description_object (cp_notifyDescriptionType d) (cp_notifyContent d))
       (napi_set_named_property ''descriptionInfo'' (description_object (cp_descriptionType d) (cp_content d)) obj)"

definition IsValidData_error :: "ErrorMessage \<Rightarrow> bool" where "IsValidData_error m = (em_errorCode m \<noteq> 0)"
definition IsValidData_description :: "ComponentDescription_parcel \<Rightarrow> bool" where "IsValidData_description d = (cp_componentId d \<noteq> [])"
definition IsValidData_component :: "VersionComponent \<Rightarrow> bool" where "IsValidData_component c = (vc_componentType c \<noteq> 0)"

definition GetValidDataCount :: "('a \<Rightarrow> bool) \<Rightarrow> 'a list \<Rightarrow> nat" where
  "GetValidDataCount valid xs = fold (\<lambda>x n. if valid x then n + 1 else n) xs 0"

text \<open>The elements of an array that is sized for the valid entries; the loop stops when it is full.\<close>

fun fill_array :: "('a \<Rightarrow> bool) \<Rightarrow> ('a \<Rightarrow> js) \<Rightarrow> nat \<Rightarrow> 'a list \<Rightarrow> js list" where
  "fill_array valid build 0 _ = []"
| "fill_array valid build n [] = []"
| "fill_array valid build (Suc n) (x # xs) =
     (if valid x then build x # fill_array valid build n xs else fill_array valid build (Suc n) xs)"

definition description_element :: "ComponentDescription_parcel \<Rightarrow> js" where
  "description_element d = BuildDescInfo d (SetString ''componentId'' (c_str (cp_componentId d)) js_empty)"

definition BuildComponentDescriptions :: "ComponentDescription_parcel list \<Rightarrow> js option \<Rightarrow> js option" where
  "BuildComponentDescriptions ds obj =
     (let n = GetValidDataCount IsValidData_description ds
      in if n = 0 then obj else Some (JArr (fill_array IsValidData_description description_element n ds)))"

definition component_element :: "VersionComponent \<Rightarrow> js" where
  "component_element c =
     SetString ''componentExtra'' (c_str (vc_componentExtra c))
       (BuildDescInfo \<lparr>cp_componentId = [], cp_descriptionType = vc_descriptionType c, cp_content = vc_content c,
          cp_notifyDescriptionType = 0, cp_notifyContent = []\<rparr>
         (SetInt32 ''otaMode'' (vc_otaMode c) (SetInt32 ''effectiveMode'' (vc_effectiveMode c) (SetInt64 ''size'' (vc_size c)
           (SetString ''innerVersion'' (c_str (vc_innerVersion c)) (SetString ''displayVersion'' (c_str (vc_displayVersion c))
             (SetString ''upgradeAction'' (c_str (vc_upgradeAction c)) (SetInt32 ''componentType'' (vc_componentType c)
               (SetString ''componentId'' (c_str (vc_componentId c)) js_empty)))))))))"

definition BuildVersionComponents :: "VersionComponent list \<Rightarrow> js \<Rightarrow> js" where
  "BuildVersionComponents cs obj =
     (let n = GetValidDataCount IsValidData_component cs
      in if n = 0 then obj
         else napi_set_named_property ''versionComponents'' (JArr (fill_array IsValidData_component component_element n cs)) obj)"

definition BuildVersionDigestInfo :: "string \<Rightarrow> js \<Rightarrow> js" where
  "BuildVersionDigestInfo digest obj =
     napi_set_named_property ''versionDigestInfo'' (SetString ''versionDigest'' digest js_empty) obj"

text \<open>The file has a second \<open>BuildErrorMessages\<close>, for tasks.\<close>

definition BuildTaskErrors :: "string \<Rightarrow> ErrorMessage list \<Rightarrow> js \<Rightarrow> js" where
  "BuildTaskErrors name errorMessages obj =
     (let n = GetValidDataCount IsValidData_error errorMessages
      in if n = 0 then obj
         else napi_set_named_property name (JArr (fill_array IsValidData_error error_message_object n errorMessages)) obj)"

definition BuildTaskBody_all :: "TaskBody \<Rightarrow> js \<Rightarrow> js" where
  "BuildTaskBody_all b obj =
     (let o1 = BuildVersionDigestInfo (tb_versionDigest b) js_empty;
          o2 = SetInt32 ''status'' (tb_status b) o1;
          o3 = SetInt32 ''subStatus'' (tb_subStatus b) o2;
          o4 = SetInt32 ''progress'' (tb_progress b) o3;
          o5 = SetInt32 ''installMode'' (tb_installMode b) o4;
          o6 = BuildTaskErrors ''errorMessages'' (tb_errorMessages b) o5;
          o7 = BuildVersionComponents (tb_versionComponents b) o6
      in napi_set_named_property ''taskBody'' o7 obj)"

section \<open>Answers\<close>

text \<open>What the union of \<open>UpdateResult\<close> points to; \<open>GetUpdateResult\<close> picks it together with the builder.\<close>

datatype result_union = U_check CheckResult | U_new NewVersionInfo_parcel | U_description "ComponentDescription_parcel list"
  | U_task TaskInfo_parcel | U_current CurrentVersionInfo | U_policy UpgradePolicy_parcel | U_reset FactoryResetInfo | U_none

type_synonym built = "ClientStatus \<times> js option"

definition BuildCurrentVersion :: "int \<Rightarrow> CurrentVersionInfo \<Rightarrow> built" where
  "BuildCurrentVersion type i =
     (if type \<noteq> SESSION_GET_CUR_VERSION then (CLIENT_INVALID_TYPE, None)
      else (CLIENT_SUCCESS, Some (BuildVersionComponents (cv_versionComponents i)
        (SetString ''deviceName'' (cv_deviceName i) (SetString ''osVersion'' (cv_osVersion i) js_empty)))))"

definition BuildTaskInfo :: "TaskInfo_parcel \<Rightarrow> built" where
  "BuildTaskInfo t =
     (let obj = SetBool ''existTask'' (tp_existTask t) js_empty
      in (CLIENT_SUCCESS, Some (if tp_existTask t then BuildTaskBody_all (tp_taskBody t) obj else obj)))"

definition BuildNewVersion :: "int \<Rightarrow> NewVersionInfo_parcel \<Rightarrow> built" where
  "BuildNewVersion type i =
     (if type \<noteq> SESSION_GET_NEW_VERSION then (CLIENT_INVALID_TYPE, None)
      else (CLIENT_SUCCESS, Some (BuildVersionComponents (nv_versionComponents i) (BuildVersionDigestInfo (nv_versionDigest i) js_empty))))"

definition BuildVersionDescriptionInfo :: "int \<Rightarrow> ComponentDescription_parcel list \<Rightarrow> built" where
  "BuildVersionDescriptionInfo type ds =
     (if type \<noteq> SESSION_GET_NEW_VERSION_DESCRIPTION \<and> type \<noteq> SESSION_GET_CUR_VERSION_DESCRIPTION then (CLIENT_INVALID_TYPE, None)
      else (CLIENT_SUCCESS, BuildComponentDescriptions ds None))"

definition BuildCheckResult :: "int \<Rightarrow> CheckResult \<Rightarrow> built" where
  "BuildCheckResult type r =
     (if type \<noteq> SESSION_CHECK_VERSION then (CLIENT_INVALID_TYPE, None)
      else
        let obj = SetBool ''isExistNewVersion'' (cr_isExistNewVersion r) js_empty
        in (CLIENT_SUCCESS, Some (if cr_isExistNewVersion r
              then napi_set_named_property ''newVersionInfo''
                (BuildVersionComponents (cr_versionComponents r) (BuildVersionDigestInfo (cr_versionDigest r) js_empty)) obj
              else obj)))"

definition period_object :: "int \<times> int \<Rightarrow> js" where
  "period_object p = SetInt32 ''end'' (snd p) (SetInt32 ''start'' (fst p) js_empty)"

definition policy_object :: "UpgradePolicy_parcel \<Rightarrow> js" where
  "policy_object p = napi_set_named_property ''autoUpgradePeriods'' (JArr [period_object (pp_first p), period_object (pp_second p)])
     (SetInt32 ''customPolicyType'' (pp_customPolicyType p) (SetBool ''autoUpgradeStrategy'' (pp_autoUpgradeStrategy p)
       (SetBool ''downloadStrategy'' (pp_downloadStrategy p) js_empty)))"

definition BuildUpgradePolicy :: "int \<Rightarrow> UpgradePolicy_parcel \<Rightarrow> built" where
  "BuildUpgradePolicy type p =
     (if type \<noteq> SESSION_GET_POLICY then (CLIENT_INVALID_TYPE, None) else (CLIENT_SUCCESS, Some (policy_object p)))"

definition BuildUndefinedStatus :: built where "BuildUndefinedStatus = (CLIENT_SUCCESS, Some JUndef)"

definition BuildFactoryResetInfo :: "int \<Rightarrow> FactoryResetInfo \<Rightarrow> built" where
  "BuildFactoryResetInfo type i =
     (if type \<noteq> SESSION_GET_DEEP_FACTORY_RESET_INFO then (CLIENT_INVALID_TYPE, None)
      else (CLIENT_SUCCESS, Some (SetInt32 ''duration'' (ri_duration i) js_empty)))"

text \<open>\<open>result.buildJSObject\<close>.\<close>

definition buildJSObject :: "int \<Rightarrow> result_union \<Rightarrow> built" where
  "buildJSObject type u =
     (case u of
        U_check r \<Rightarrow> BuildCheckResult type r
      | U_new i \<Rightarrow> BuildNewVersion type i
      | U_description ds \<Rightarrow> BuildVersionDescriptionInfo type ds
      | U_task t \<Rightarrow> BuildTaskInfo t
      | U_current i \<Rightarrow> BuildCurrentVersion type i
      | U_policy p \<Rightarrow> BuildUpgradePolicy type p
      | U_reset i \<Rightarrow> BuildFactoryResetInfo type i
      | U_none \<Rightarrow> BuildUndefinedStatus)"

section \<open>Events\<close>

definition all_events :: "EventId list" where
  "all_events = [EVENT_TASK_BASE, EVENT_TASK_RECEIVE, EVENT_TASK_CANCEL, EVENT_DOWNLOAD_WAIT, EVENT_DOWNLOAD_START,
     EVENT_DOWNLOAD_UPDATE, EVENT_DOWNLOAD_PAUSE, EVENT_DOWNLOAD_RESUME, EVENT_DOWNLOAD_SUCCESS, EVENT_DOWNLOAD_FAIL,
     EVENT_UPGRADE_WAIT, EVENT_UPGRADE_START, EVENT_UPGRADE_UPDATE, EVENT_APPLY_WAIT, EVENT_APPLY_START, EVENT_UPGRADE_SUCCESS,
     EVENT_UPGRADE_FAIL, EVENT_UPGRADE_PAUSE, EVENT_AUTH_START, EVENT_AUTH_SUCCESS, EVENT_DOWNLOAD_CANCEL, EVENT_TASK_CHANGE,
     EVENT_VERSION_INFO_CHANGE, EVENT_TRANSFER_WAIT, EVENT_TRANSFER_START, EVENT_TRANSFERING, EVENT_TRANSFER_SUCCESS,
     EVENT_TRANSFER_FAIL, EVENT_INITIALIZE]"

text \<open>The look-up in \<open>g_taskBodyTemplateMap\<close> by a number; the base numbers of the classes are not in it.\<close>

definition template_of :: "int \<Rightarrow> TaskBodyMember list option" where
  "template_of eventId = (case find (\<lambda>ev. event_code ev = eventId) all_events of Some ev \<Rightarrow> taskBodyTemplate ev | None \<Rightarrow> None)"

definition when_shown :: "TaskBodyMember list \<Rightarrow> TaskBodyMember \<Rightarrow> (js \<Rightarrow> js) \<Rightarrow> js \<Rightarrow> js" where
  "when_shown ms m f obj = (if m \<in> set ms then f obj else obj)"

definition BuildTaskBody :: "int \<Rightarrow> TaskBody \<Rightarrow> js \<Rightarrow> ClientStatus \<times> js" where
  "BuildTaskBody eventId b obj =
     (case template_of eventId of
        None \<Rightarrow> (CLIENT_INVALID_PARAM, obj)
      | Some ms \<Rightarrow>
          let o1 = when_shown ms VERSION_DIGEST_INFO (BuildVersionDigestInfo (tb_versionDigest b)) js_empty;
              o2 = when_shown ms UPGRADE_STATUS (SetInt32 ''status'' (tb_status b)) o1;
              o3 = when_shown ms SUB_STATUS (SetInt32 ''subStatus'' (tb_subStatus b)) o2;
              o4 = when_shown ms PROGRESS (SetInt32 ''progress'' (tb_progress b)) o3;
              o5 = when_shown ms INSTALL_MODE (SetInt32 ''installMode'' (tb_installMode b)) o4;
              o6 = when_shown ms ERROR_MESSAGE (BuildTaskErrors ''errorMessages'' (tb_errorMessages b)) o5;
              o7 = when_shown ms VERSION_COMPONENT (BuildVersionComponents (tb_versionComponents b)) o6
          in (CLIENT_SUCCESS, napi_set_named_property ''taskBody'' o7 obj))"

definition BuildEventInfo :: "EventInfo \<Rightarrow> ClientStatus \<times> js" where
  "BuildEventInfo i =
     (case BuildTaskBody (ei_eventId i) (ei_taskBody i) (SetInt32 ''eventId'' (ei_eventId i) js_empty) of
        (CLIENT_SUCCESS, obj) \<Rightarrow> (CLIENT_SUCCESS, obj)
      | (_, obj) \<Rightarrow> (CLIENT_FAIL, obj))"

section \<open>Facts\<close>

lemma GetValidDataCount_filter: "GetValidDataCount valid xs = length (filter valid xs)"
proof -
  have "fold (\<lambda>x n. if valid x then n + 1 else n) xs k = k + length (filter valid xs)" for k
    by (induction xs arbitrary: k) simp_all
  then show ?thesis by (simp add: GetValidDataCount_def)
qed

text \<open>The array holds every valid entry, once and in order.\<close>

lemma fill_array_filter: "fill_array valid build (length (filter valid xs)) xs = map build (filter valid xs)"
proof -
  have none: "fill_array valid build n xs = []" if "filter valid xs = []" for n xs
    using that by (induction valid build n xs rule: fill_array.induct) (simp_all split: if_splits)
  show ?thesis
  proof (induction xs)
    case (Cons x xs)
    then show ?case by (cases "valid x"; cases "filter valid xs") (simp_all add: none)
  qed simp
qed

lemmas valid_entries = GetValidDataCount_filter fill_array_filter

lemma built_success:
  "fst (buildJSObject type u) = CLIENT_SUCCESS \<Longrightarrow>
     snd (buildJSObject type u) = None \<longleftrightarrow> (\<exists>ds. u = U_description ds \<and> filter IsValidData_description ds = [])"
  by (cases u)
    (auto simp: buildJSObject_def BuildCheckResult_def BuildNewVersion_def BuildVersionDescriptionInfo_def BuildTaskInfo_def
      BuildCurrentVersion_def BuildUpgradePolicy_def BuildFactoryResetInfo_def BuildUndefinedStatus_def
      BuildComponentDescriptions_def valid_entries Let_def split: if_splits)

end
