(* ===== verification/Js_Sessions.thy ===== *)
theory Js_Sessions
  imports Js_Results Service_Kits
begin

text \<open>
  The sessions of the bindings: \<open>frameworks/js/napi/session\<close> and \<open>update_session.cpp\<close>, \<open>session_manager.cpp\<close> of
  \<open>frameworks/js/napi/update/src\<close>. A request of a script makes a session: the request is executed by a thread of the engine's
  pool and completed on the thread of the script, where the callback is called or the promise is settled. A listener is a
  session too. The calls that create references, promises and work succeed.
\<close>

section \<open>The objects\<close>

record SessionParams =
  par_type :: int
  par_callbackStartIndex :: nat
  par_isNeedBusinessError :: bool
  par_isAsyncCompleteWork :: bool

definition new_SessionParams :: "int \<Rightarrow> nat \<Rightarrow> bool \<Rightarrow> SessionParams" where
  "new_SessionParams type callbackPosition isNeedBusinessError =
     \<lparr>par_type = type, par_callbackStartIndex = (if callbackPosition < 1 then 1 else callbackPosition - 1),
      par_isNeedBusinessError = isNeedBusinessError, par_isAsyncCompleteWork = False\<rparr>"

text \<open>The classes \<open>UpdateAsyncession\<close>, \<open>UpdatePromiseSession\<close> and \<open>UpdateListener\<close>; whether the work of a session has been
  queued or executed is what the engine knows of it.\<close>

datatype session_kind = ASYNC | PROMISE | LISTENER
datatype work_stage = NOT_STARTED | QUEUED | EXECUTED

text \<open>\<open>doWorker_\<close>: a request of the client, or the answer that the arguments are wrong.\<close>

datatype 'w worker = Request 'w | ParamErrorWorker

record 'w NapiSession =
  ns_sessionId :: int
  ns_kind :: session_kind
  ns_params :: SessionParams
  ns_totalArgc :: nat
  ns_callbackNumber :: nat
  ns_doWorker :: "'w worker option"
  ns_reference :: "js option"
  ns_businessError :: BusinessError_parcel
  ns_workResult :: int
  ns_asyncExecuteComplete :: bool
  ns_stage :: work_stage
  ns_classify :: EventClassifyInfo
  ns_mutex :: bool

text \<open>The counter is a \<open>uint32_t\<close>.\<close>

definition new_NapiSession :: "session_kind \<Rightarrow> SessionParams \<Rightarrow> nat \<Rightarrow> nat \<Rightarrow> int \<Rightarrow> 'w NapiSession" where
  "new_NapiSession kind params argc callbackNumber g_sessionId =
     \<lparr>ns_sessionId = u32 (g_sessionId + 1), ns_kind = kind, ns_params = params, ns_totalArgc = argc,
      ns_callbackNumber = callbackNumber, ns_doWorker = None, ns_reference = None,
      ns_businessError = new_error (call_result_code CR_SUCCESS) [], ns_workResult = INT_CALL_SUCCESS,
      ns_asyncExecuteComplete = False, ns_stage = NOT_STARTED, ns_classify = new_EventClassifyInfo CLASSIFY_TASK, ns_mutex = False\<rparr>"

definition GetType :: "'w NapiSession \<Rightarrow> int" where "GetType s = par_type (ns_params s)"

definition IsWorkExecuteSuccess :: "'w NapiSession \<Rightarrow> bool" where
  "IsWorkExecuteSuccess s = (ns_workResult s = INT_CALL_SUCCESS)"

definition OnAsyncComplete :: "BusinessError_parcel \<Rightarrow> 'w NapiSession \<Rightarrow> 'w NapiSession" where
  "OnAsyncComplete err s = s\<lparr>ns_businessError := err, ns_asyncExecuteComplete := True\<rparr>"

section \<open>The error of a request that the service did not carry out\<close>

definition sessionFuncMap :: "(int \<times> string) list" where
  "sessionFuncMap = [(SESSION_CHECK_VERSION, ''checkNewVersion''), (SESSION_DOWNLOAD, ''download''),
     (SESSION_PAUSE_DOWNLOAD, ''pauseDownload''), (SESSION_RESUME_DOWNLOAD, ''resumeDownload''), (SESSION_UPGRADE, ''upgrade''),
     (SESSION_SET_POLICY, ''setUpgradePolicy''), (SESSION_GET_POLICY, ''getUpgradePolicy''), (SESSION_CLEAR_ERROR, ''clearError''),
     (SESSION_TERMINATE_UPGRADE, ''terminateUpgrade''), (SESSION_GET_NEW_VERSION, ''getNewVersionInfo''),
     (SESSION_GET_NEW_VERSION_DESCRIPTION, ''getNewVersionDescription''), (SESSION_SUBSCRIBE, ''subscribe''), (12, ''unsubscribe''),
     (13, ''getUpdater''), (SESSION_APPLY_NEW_VERSION, ''applyNewVersion''), (SESSION_FACTORY_RESET, ''factoryReset''),
     (SESSION_FORCE_FACTORY_RESET, ''forceFactoryReset''), (SESSION_DEEP_FACTORY_RESET, ''deepFactoryReset''),
     (SESSION_GET_DEEP_FACTORY_RESET_INFO, ''getDeepFactoryResetInfo''), (SESSION_VERIFY_PACKAGE, ''verifyPackage''),
     (SESSION_CANCEL_UPGRADE, ''cancel''), (SESSION_GET_CUR_VERSION, ''getCurrentVersionInfo''),
     (SESSION_GET_CUR_VERSION_DESCRIPTION, ''getCurrentVersionDescription''), (SESSION_GET_TASK_INFO, ''getTaskInfo''),
     (SESSION_REPLY_PARAM_ERROR, ''replyParamError''), (4294967295, ''max'')]"

definition GetFuncName :: "int \<Rightarrow> string" where
  "GetFuncName sessionType = (case map_of sessionFuncMap sessionType of None \<Rightarrow> [] | Some name \<Rightarrow> name)"

text \<open>The permission that the text of the error names; the two classes of sessions disagree on the deep reset.\<close>

definition async_permission :: "int \<Rightarrow> string" where
  "async_permission type =
     (if type = SESSION_FACTORY_RESET then ''ohos.permission.FACTORY_RESET'' else ''ohos.permission.UPDATE_SYSTEM'')"

definition promise_permission :: "int \<Rightarrow> string" where
  "promise_permission type =
     (if type = SESSION_FACTORY_RESET \<or> type = SESSION_DEEP_FACTORY_RESET \<or> type = SESSION_GET_DEEP_FACTORY_RESET_INFO
      then ''ohos.permission.FACTORY_RESET'' else ''ohos.permission.UPDATE_SYSTEM'')"

definition GetFunctionPermissionName :: "'w NapiSession \<Rightarrow> string" where
  "GetFunctionPermissionName s =
     (case ns_kind s of
        ASYNC \<Rightarrow> async_permission (GetType s)
      | PROMISE \<Rightarrow> promise_permission (GetType s)
      | LISTENER \<Rightarrow> [])"

definition GetIpcErrorMessage :: "int \<Rightarrow> string \<Rightarrow> string \<Rightarrow> string \<Rightarrow> string" where
  "GetIpcErrorMessage workResult funcName permissionName msg =
     (let plain_error = ''BusinessError '' @ to_string workResult;
          module_error = ''BusinessError '' @ to_string (COMPONENT_ERR + workResult)
      in if workResult = call_result_code CR_NOT_SYSTEM_APP
         then plain_error @ '': Permission verification failed. A non-system application calls a system API.''
         else if workResult = call_result_code CR_APP_NOT_GRANTED
         then plain_error @ '': Permission denied. An attempt was made to '' @ funcName @ '' forbidden by permission: ''
           @ permissionName @ ''.''
         else if workResult = call_result_code CR_IPC_ERR then module_error @ '': IPC error.''
         else if workResult = call_result_code CR_UN_SUPPORT
         then plain_error @ '': Capability not supported. '' @ ''function '' @ funcName
           @ '' can not work correctly due to limited device capabilities.''
         else if workResult = call_result_code CR_PARAM_ERR then plain_error @ '': Parameter verification failed.''
         else if workResult = call_result_code CR_MDM_DISABLE_RESET
         then plain_error @ '': This function is prohibited by enterprise management policies.''
         else if workResult = call_result_code CR_FAIL then module_error @ '': Execute fail.''
         else if workResult = call_result_code CR_FORBIDDEN then module_error @ '': Forbidden execution.''
         else if workResult = call_result_code CR_DEV_UPG_INFO_ERR then module_error @ '': Device info error.''
         else if workResult = call_result_code CR_TIME_OUT then module_error @ '': Execute timeout.''
         else if workResult = call_result_code CR_DB_ERROR then module_error @ '': DB error.''
         else if workResult = call_result_code CR_IO_ERROR then module_error @ '': IO error.''
         else if workResult = call_result_code CR_NET_ERROR then module_error @ '': Network error.''
         else msg)"

definition BuildWorkBusinessErr :: "'w NapiSession \<Rightarrow> BusinessError_parcel" where
  "BuildWorkBusinessErr s =
     new_error (ns_workResult s)
       (GetIpcErrorMessage (ns_workResult s) (GetFuncName (GetType s)) (GetFunctionPermissionName s) ''execute error'')"

definition GetBusinessError :: "BusinessError_parcel \<Rightarrow> 'w NapiSession \<Rightarrow> BusinessError_parcel" where
  "GetBusinessError err s = (if IsWorkExecuteSuccess s then err else BuildWorkBusinessErr s)"

section \<open>What the script sees\<close>

text \<open>A call of a callback with an error and a value, the end of a promise, and the call of a listener. The first number is the
  session.\<close>

datatype js_effect = CallsBack int js js js | Resolves int js | Rejects int js | Hears int js js

fun settled_session :: "js_effect \<Rightarrow> int option" where
  "settled_session (CallsBack sid _ _ _) = Some sid"
| "settled_session (Resolves sid _) = Some sid"
| "settled_session (Rejects sid _) = Some sid"
| "settled_session (Hears _ _ _) = None"

text \<open>The arguments of a callback that stay null arrive as undefined.\<close>

definition js_arg :: "js option \<Rightarrow> js" where "js_arg v = (case v of None \<Rightarrow> JUndef | Some x \<Rightarrow> x)"

definition async_NotifyJS :: "BusinessError_parcel \<Rightarrow> result_union \<Rightarrow> 'w NapiSession \<Rightarrow> js_effect list" where
  "async_NotifyJS err u s =
     (let b = GetBusinessError err s;
          (ret, args) = (if bp_errorNum b \<noteq> call_result_code CR_SUCCESS then (CLIENT_SUCCESS, BuildBusinessError b, None)
                         else (case buildJSObject (GetType s) u of (st, v) \<Rightarrow> (st, None, v)))
      in if ret \<noteq> CLIENT_SUCCESS then []
         else case ns_reference s of
           None \<Rightarrow> []
         | Some callback \<Rightarrow> [CallsBack (ns_sessionId s) callback (js_arg (fst args)) (js_arg (snd args))])"

text \<open>The engine refuses to settle a promise with a null handle.\<close>

definition promise_NotifyJS :: "BusinessError_parcel \<Rightarrow> result_union \<Rightarrow> 'w NapiSession \<Rightarrow> js_effect list" where
  "promise_NotifyJS err u s =
     (let b = GetBusinessError err s
      in if bp_errorNum b = call_result_code CR_SUCCESS
         then (case snd (buildJSObject (GetType s) u) of None \<Rightarrow> [] | Some v \<Rightarrow> [Resolves (ns_sessionId s) v])
         else (case BuildBusinessError b of None \<Rightarrow> [] | Some v \<Rightarrow> [Rejects (ns_sessionId s) v]))"

section \<open>\<open>SessionManager\<close>\<close>

type_synonym 'w sessions = "(int, 'w NapiSession) cmap"

text \<open>\<open>insert\<close> keeps an entry that is there.\<close>

definition AddSession :: "'w NapiSession \<Rightarrow> 'w sessions \<Rightarrow> 'w sessions" where
  "AddSession s m = (if cm_has (ns_sessionId s) m then m else cm_put (ns_sessionId s) s m)"

definition RemoveSession :: "int \<Rightarrow> 'w sessions \<Rightarrow> 'w sessions" where
  "RemoveSession sid m = cm_del sid m"

definition IsSubscribeEvent :: "int \<Rightarrow> 'w NapiSession \<Rightarrow> bool" where
  "IsSubscribeEvent classify s = (ec_eventClassify (ns_classify s) = classify)"

text \<open>Taking the mutex of a listener that the same thread holds blocks: the result is none. The mutex is held while the
  listener is called.\<close>

definition IsSameListener :: "int \<Rightarrow> js \<Rightarrow> 'w NapiSession \<Rightarrow> bool option" where
  "IsSameListener classify handler s =
     (if ec_eventClassify (ns_classify s) \<noteq> classify then Some False
      else if ns_mutex s then None
      else Some (case ns_reference s of None \<Rightarrow> False | Some current \<Rightarrow> handler = current))"

text \<open>The same for \<open>RemoveHandlerRef\<close>, which is called on a listener that is erased then.\<close>

definition RemoveHandlerRef :: "'w NapiSession \<Rightarrow> 'w NapiSession option" where
  "RemoveHandlerRef s = (if ns_mutex s then None else Some (s\<lparr>ns_reference := None\<rparr>))"

fun Unsubscribe :: "int \<Rightarrow> js option \<Rightarrow> 'w sessions \<Rightarrow> 'w sessions option" where
  "Unsubscribe classify handle [] = Some []"
| "Unsubscribe classify handle ((sid, s) # m) =
     (let skip = map_option ((#) (sid, s)) (Unsubscribe classify handle m);
          erase = (case RemoveHandlerRef s of None \<Rightarrow> None | Some _ \<Rightarrow> Unsubscribe classify handle m)
      in if GetType s \<noteq> SESSION_SUBSCRIBE then skip
         else if handle = None \<and> IsSubscribeEvent classify s then erase
         else case IsSameListener classify (js_arg handle) s of
           None \<Rightarrow> None
         | Some same \<Rightarrow> if same then erase else skip)"

fun FindSessionByHandle :: "int \<Rightarrow> js \<Rightarrow> 'w sessions \<Rightarrow> 'w NapiSession option option" where
  "FindSessionByHandle classify handler [] = Some None"
| "FindSessionByHandle classify handler ((sid, s) # m) =
     (if GetType s \<noteq> SESSION_SUBSCRIBE then FindSessionByHandle classify handler m
      else case IsSameListener classify handler s of
        None \<Rightarrow> None
      | Some same \<Rightarrow> if same then Some (Some s) else FindSessionByHandle classify handler m)"

end
