(* ===== verification/Js_Updater.thy ===== *)
theory Js_Updater
  imports Js_Sessions
begin

text \<open>
  What the three objects of the bindings share: \<open>frameworks/js/napi/update/common/src/iupdater.cpp\<close>, the start, the execution
  and the end of a session (\<open>base_async_session.h\<close>, \<open>base_promise_session.h\<close>, \<open>napi_session.cpp\<close>) and the way of an event to the
  listeners (\<open>session_manager.cpp\<close>). Every operation works on an object that extends \<open>IUpdater\<close> and on what the process
  shares.
\<close>

section \<open>State\<close>

record 'w IUpdater =
  iu_sessions :: "'w sessions"

text \<open>What the objects of a process share: the counter of the sessions, the library below, and what scripts have seen. The
  flows, resets and ends of the service that requests bring about are kept too.\<close>

record js_process =
  jp_sessionId :: int
  jp_ipc :: ipc
  jp_seen :: "js_effect list"
  jp_flows :: "flow_state list"
  jp_resets :: "reset_call list"
  jp_ends :: bool

text \<open>What a call returns: a value, a promise (known by its session), an exception, or a null handle.\<close>

datatype js_return = Returns js | Promises int | Throws js | Returns_null

definition js_argument :: "js list \<Rightarrow> nat \<Rightarrow> js" where
  "js_argument args i = (if i < length args then args ! i else JUndef)"

definition see :: "js_effect list \<Rightarrow> js_process \<Rightarrow> js_process" where
  "see es g = g\<lparr>jp_seen := jp_seen g @ es\<rparr>"

definition on_sessions :: "('w sessions \<Rightarrow> 'w sessions) \<Rightarrow> ('w, 'm) IUpdater_scheme \<Rightarrow> ('w, 'm) IUpdater_scheme" where
  "on_sessions f u = u\<lparr>iu_sessions := f (iu_sessions u)\<rparr>"

definition IUpdater_RemoveSession :: "int \<Rightarrow> ('w, 'm) IUpdater_scheme \<Rightarrow> ('w, 'm) IUpdater_scheme" where
  "IUpdater_RemoveSession sid u = on_sessions (RemoveSession sid) u"

section \<open>Starting a request\<close>

text \<open>The result of a start and the session as it is afterwards; a callback that is not a function is refused.\<close>

definition async_StartWork :: "js list \<Rightarrow> 'w NapiSession \<Rightarrow> js_return \<times> 'w NapiSession" where
  "async_StartWork args s =
     (let start = par_callbackStartIndex (ns_params s)
      in if ns_totalArgc s < start then (Returns_null, s)
         else if 0 < ns_totalArgc s - start \<and> 0 < ns_callbackNumber s
         then if IsTypeOf (js_argument args start) T_function \<noteq> CLIENT_SUCCESS
              then (Throws (NapiThrowParamError [(''callback'', ''napi_function'')]), s)
              else (Returns (JNum 0), s\<lparr>ns_reference := Some (js_argument args start), ns_stage := QUEUED\<rparr>)
         else (Returns (JNum 0), s\<lparr>ns_stage := QUEUED\<rparr>))"

definition promise_StartWork :: "js list \<Rightarrow> 'w NapiSession \<Rightarrow> js_return \<times> 'w NapiSession" where
  "promise_StartWork args s = (Promises (ns_sessionId s), s\<lparr>ns_stage := QUEUED\<rparr>)"

definition accepted :: "js_return \<Rightarrow> bool" where
  "accepted r = (case r of Returns _ \<Rightarrow> True | Promises _ \<Rightarrow> True | _ \<Rightarrow> False)"

text \<open>A session that could not be started is taken out again.\<close>

definition StartSession ::
  "js list \<Rightarrow> SessionParams \<Rightarrow> 'w worker \<Rightarrow> ('w, 'm) IUpdater_scheme \<Rightarrow> js_process
    \<Rightarrow> js_return \<times> ('w, 'm) IUpdater_scheme \<times> js_process" where
  "StartSession args params function u g =
     (let argc = length args;
          async = par_callbackStartIndex params < argc;
          s = (if async then new_NapiSession ASYNC params argc 1 (jp_sessionId g) else new_NapiSession PROMISE params argc 0 (jp_sessionId g));
          g1 = g\<lparr>jp_sessionId := ns_sessionId s\<rparr>;
          s1 = s\<lparr>ns_doWorker := Some function\<rparr>;
          (ret, s2) = (if async then async_StartWork args s1 else promise_StartWork args s1)
      in if accepted ret then (ret, on_sessions (AddSession s2) u, g1)
         else (ret, on_sessions (\<lambda>m. RemoveSession (ns_sessionId s) (AddSession s2 m)) u, g1))"

definition StartParamErrorSession ::
  "js list \<Rightarrow> nat \<Rightarrow> ('w, 'm) IUpdater_scheme \<Rightarrow> js_process \<Rightarrow> js_return \<times> ('w, 'm) IUpdater_scheme \<times> js_process" where
  "StartParamErrorSession args callbackPosition u g =
     StartSession args (new_SessionParams SESSION_REPLY_PARAM_ERROR callbackPosition True) ParamErrorWorker u g"

section \<open>Executing and completing it\<close>

text \<open>The work of an object: the result of a request, its error, and what it changes in the object and the process.\<close>

type_synonym ('w, 'u) work_runner = "'w \<Rightarrow> 'u \<Rightarrow> js_process \<Rightarrow> int \<times> BusinessError_parcel \<times> 'u \<times> js_process"

definition INT_PARAM_ERR_result :: int where "INT_PARAM_ERR_result = call_result_code CR_PARAM_ERR"

text \<open>Waiting for an asynchronous answer is asked for by no request; when it is, a missing answer is a timeout.\<close>

definition ExecuteWork ::
  "('w, ('w, 'm) IUpdater_scheme) work_runner \<Rightarrow> 'w NapiSession \<Rightarrow> ('w, 'm) IUpdater_scheme \<Rightarrow> js_process
    \<Rightarrow> 'w NapiSession \<times> ('w, 'm) IUpdater_scheme \<times> js_process" where
  "ExecuteWork run s u g =
     (case ns_doWorker s of
        None \<Rightarrow> (s, u, g)
      | Some worker \<Rightarrow>
          (case (case worker of
                   Request w \<Rightarrow> run w u g
                 | ParamErrorWorker \<Rightarrow> (INT_PARAM_ERR_result, ns_businessError s, u, g)) of
             (result, err, u1, g1) \<Rightarrow>
               let s1 = s\<lparr>ns_workResult := result,
                          ns_businessError := (if par_isNeedBusinessError (ns_params s) then err else ns_businessError s)\<rparr>;
                   s2 = (if par_isAsyncCompleteWork (ns_params s) \<and> IsWorkExecuteSuccess s1 \<and> \<not> ns_asyncExecuteComplete s1
                         then s1\<lparr>ns_businessError := (ns_businessError s1)\<lparr>bp_errorNum := call_result_code CR_TIME_OUT\<rparr>\<rparr> else s1)
               in (s2, u1, g1)))"

text \<open>A thread of the pool executes a queued session; the script thread completes an executed one.\<close>

definition execute_session ::
  "('w, ('w, 'm) IUpdater_scheme) work_runner \<Rightarrow> int \<Rightarrow> ('w, 'm) IUpdater_scheme \<Rightarrow> js_process
    \<Rightarrow> ('w, 'm) IUpdater_scheme \<times> js_process" where
  "execute_session run sid u g =
     (case map_of (iu_sessions u) sid of
        None \<Rightarrow> (u, g)
      | Some s \<Rightarrow>
          if ns_stage s \<noteq> QUEUED then (u, g)
          else case ExecuteWork run s u g of
            (s1, u1, g1) \<Rightarrow> (on_sessions (cm_adj sid (\<lambda>_. s1\<lparr>ns_stage := EXECUTED\<rparr>)) u1, g1))"

definition session_NotifyJS :: "result_union \<Rightarrow> 'w NapiSession \<Rightarrow> js_effect list" where
  "session_NotifyJS outcome s =
     (case ns_kind s of
        ASYNC \<Rightarrow> async_NotifyJS (ns_businessError s) outcome s
      | PROMISE \<Rightarrow> promise_NotifyJS (ns_businessError s) outcome s
      | LISTENER \<Rightarrow> [])"

text \<open>\<open>results\<close> is the \<open>GetUpdateResult\<close> of the object.\<close>

definition CompleteWork ::
  "(int \<Rightarrow> ('w, 'm) IUpdater_scheme \<Rightarrow> result_union) \<Rightarrow> int \<Rightarrow> ('w, 'm) IUpdater_scheme \<Rightarrow> js_process
    \<Rightarrow> ('w, 'm) IUpdater_scheme \<times> js_process" where
  "CompleteWork results sid u g =
     (case map_of (iu_sessions u) sid of
        None \<Rightarrow> (u, g)
      | Some s \<Rightarrow>
          if ns_stage s \<noteq> EXECUTED then (u, g)
          else (IUpdater_RemoveSession sid u, see (session_NotifyJS (results (GetType s) u) s) g))"

definition IUpdater_GetUpdateResult :: "int \<Rightarrow> ('w, 'm) IUpdater_scheme \<Rightarrow> result_union" where
  "IUpdater_GetUpdateResult type u = U_none"

section \<open>Listening\<close>

text \<open>The rule of \<open>NapiCommonUtils\<close>: only system applications.\<close>

definition napi_IsCallerValid :: "caller \<Rightarrow> bool" where
  "napi_IsCallerValid c = (case ca_tokenType c of TOKEN_HAP \<Rightarrow> ca_isSystemApp c | _ \<Rightarrow> False)"

text \<open>The start of a listener: the class of events, the callback, and then the work, which registers with the service.\<close>

definition listener_StartWork ::
  "js list \<Rightarrow> ('u \<Rightarrow> js_process \<Rightarrow> 'u \<times> js_process) \<Rightarrow> 'w NapiSession \<Rightarrow> 'u \<Rightarrow> js_process
    \<Rightarrow> js_return \<times> 'w NapiSession \<times> 'u \<times> js_process" where
  "listener_StartWork args register s u g =
     (let start = par_callbackStartIndex (ns_params s)
      in if ns_totalArgc s \<le> start then (Returns_null, s, u, g)
         else case (if IsTypeOf (js_argument args 0) T_string = CLIENT_SUCCESS then (CLIENT_SUCCESS, ns_classify s)
                    else GetEventClassifyInfoFromArg (js_argument args 0) (ns_classify s)) of
           (CLIENT_SUCCESS, c) \<Rightarrow>
             let s1 = s\<lparr>ns_classify := c\<rparr>
             in if IsTypeOf (js_argument args start) T_function \<noteq> CLIENT_SUCCESS then (Returns_null, s1, u, g)
                else (case register u g of
                  (u1, g1) \<Rightarrow> (Returns (JNum 0), s1\<lparr>ns_reference := Some (js_argument args start)\<rparr>, u1, g1))
         | (_, c) \<Rightarrow> (Returns_null, s\<lparr>ns_classify := c\<rparr>, u, g))"

text \<open>The result is none when the script thread blocks. \<open>register\<close> is the virtual \<open>RegisterCallback\<close>.\<close>

definition On ::
  "caller \<Rightarrow> (('w, 'm) IUpdater_scheme \<Rightarrow> js_process \<Rightarrow> ('w, 'm) IUpdater_scheme \<times> js_process) \<Rightarrow> js list
    \<Rightarrow> ('w, 'm) IUpdater_scheme \<Rightarrow> js_process \<Rightarrow> (js_return \<times> ('w, 'm) IUpdater_scheme \<times> js_process) option" where
  "On c register args u g =
     (if length args < 2 then Some (Returns_null, u, g)
      else if \<not> napi_IsCallerValid c then Some (Throws NapiThrowNotSystemAppError, u, g)
      else case GetEventClassifyInfoFromArg (js_argument args 0) (new_EventClassifyInfo CLASSIFY_TASK) of
        (CLIENT_SUCCESS, info) \<Rightarrow>
          (case FindSessionByHandle (ec_eventClassify info) (js_argument args 1) (iu_sessions u) of
             None \<Rightarrow> None
           | Some (Some _) \<Rightarrow> Some (Returns_null, u, g)
           | Some None \<Rightarrow>
               let s = new_NapiSession LISTENER (new_SessionParams SESSION_SUBSCRIBE 2 False) (length args) 1 (jp_sessionId g);
                   g1 = g\<lparr>jp_sessionId := ns_sessionId s\<rparr>
               in (case listener_StartWork args register s u g1 of
                     (ret, s1, u1, g2) \<Rightarrow>
                       Some (if accepted ret then (ret, on_sessions (AddSession s1) u1, g2)
                             else (ret, on_sessions (\<lambda>m. RemoveSession (ns_sessionId s) (AddSession s1 m)) u1, g2))))
      | _ \<Rightarrow> Some (Throws (NapiThrowParamError [(''eventClassifyInfo'', ''EventClassifyInfo'')]), u, g))"

definition Off ::
  "caller \<Rightarrow> (('w, 'm) IUpdater_scheme \<Rightarrow> js_process \<Rightarrow> ('w, 'm) IUpdater_scheme \<times> js_process) \<Rightarrow> js list
    \<Rightarrow> ('w, 'm) IUpdater_scheme \<Rightarrow> js_process \<Rightarrow> (js_return \<times> ('w, 'm) IUpdater_scheme \<times> js_process) option" where
  "Off c unregister args u g =
     (if \<not> napi_IsCallerValid c then Some (Throws NapiThrowNotSystemAppError, u, g)
      else case GetEventClassifyInfoFromArg (js_argument args 0) (new_EventClassifyInfo CLASSIFY_TASK) of
        (CLIENT_SUCCESS, info) \<Rightarrow>
          if 2 \<le> length args \<and> IsTypeOf (js_argument args 1) T_function \<noteq> CLIENT_SUCCESS
          then Some (Throws (NapiThrowParamError [(''callback'', ''napi_function'')]), u, g)
          else (case Unsubscribe (ec_eventClassify info) (if 2 \<le> length args then Some (js_argument args 1) else None) (iu_sessions u) of
                  None \<Rightarrow> None
                | Some m \<Rightarrow>
                    (case unregister (u\<lparr>iu_sessions := m\<rparr>) g of (u1, g1) \<Rightarrow> Some (Returns (JNum 0), u1, g1)))
      | _ \<Rightarrow> Some (Throws (NapiThrowParamError [(''eventClassifyInfo'', ''EventClassifyInfo'')]), u, g))"

section \<open>Events\<close>

text \<open>The class of an event: the first of the list with which its number has a bit in common.\<close>

definition event_class :: "int \<Rightarrow> int" where
  "event_class eventId =
     (case find (\<lambda>item. (word_of_int eventId :: 32 word) AND word_of_int item \<noteq> 0) g_eventClassifyList of
        Some item \<Rightarrow> item | None \<Rightarrow> CLASSIFY_TASK)"

text \<open>\<open>UpdateListener::NotifyJS\<close>: the call of the handler and what the script does in it, none when it blocks. The mutex of the
  listener is held meanwhile.\<close>

type_synonym 'u script = "js \<Rightarrow> js \<Rightarrow> 'u \<Rightarrow> js_process \<Rightarrow> ('u \<times> js_process) option"

definition listener_NotifyJS ::
  "('w, 'm) IUpdater_scheme script \<Rightarrow> EventInfo \<Rightarrow> int \<Rightarrow> 'w NapiSession \<Rightarrow> ('w, 'm) IUpdater_scheme \<Rightarrow> js_process
    \<Rightarrow> (('w, 'm) IUpdater_scheme \<times> js_process) option" where
  "listener_NotifyJS react event sid s u g =
     (case BuildEventInfo event of
        (CLIENT_SUCCESS, jsEvent) \<Rightarrow>
          (case ns_reference s of
             None \<Rightarrow> Some (u, g)
           | Some handler \<Rightarrow>
               (case react handler jsEvent (on_sessions (cm_adj sid (ns_mutex_update (\<lambda>_. True))) u) (see [Hears sid handler jsEvent] g) of
                  None \<Rightarrow> None
                | Some (u1, g1) \<Rightarrow> Some (on_sessions (cm_adj sid (ns_mutex_update (\<lambda>_. False))) u1, g1)))
      | _ \<Rightarrow> Some (u, g))"

text \<open>The loop over the sessions stands on one of them. It goes on to the next one that is in the map then; when the script has
  erased the one it stands on, there is no next one to go to.\<close>

definition next_session :: "int \<Rightarrow> 'w sessions \<Rightarrow> int option" where
  "next_session sid m = (case filter (\<lambda>e. sid < fst e) m of [] \<Rightarrow> None | e # _ \<Rightarrow> Some (fst e))"

datatype 'u published = Published 'u js_process | Erased 'u js_process

partial_function (option) publish_from ::
  "('w, 'm) IUpdater_scheme script \<Rightarrow> int \<Rightarrow> EventInfo \<Rightarrow> int \<Rightarrow> ('w, 'm) IUpdater_scheme \<Rightarrow> js_process
    \<Rightarrow> ('w, 'm) IUpdater_scheme published option" where
  "publish_from react classify event sid u g =
     (case map_of (iu_sessions u) sid of
        None \<Rightarrow> Some (Erased u g)
      | Some s \<Rightarrow>
          (case (if GetType s \<noteq> SESSION_SUBSCRIBE \<or> \<not> IsSubscribeEvent classify s then Some (u, g)
                 else listener_NotifyJS react event sid s u g) of
             None \<Rightarrow> None
           | Some (u1, g1) \<Rightarrow>
               if \<not> cm_has sid (iu_sessions u1) then Some (Erased u1 g1)
               else (case next_session sid (iu_sessions u1) of
                       None \<Rightarrow> Some (Published u1 g1)
                     | Some sid1 \<Rightarrow> publish_from react classify event sid1 u1 g1)))"

definition PublishToJS ::
  "('w, 'm) IUpdater_scheme script \<Rightarrow> int \<Rightarrow> EventInfo \<Rightarrow> ('w, 'm) IUpdater_scheme \<Rightarrow> js_process
    \<Rightarrow> ('w, 'm) IUpdater_scheme published option" where
  "PublishToJS react classify event u g =
     (case iu_sessions u of [] \<Rightarrow> Some (Published u g) | (sid, _) # _ \<Rightarrow> publish_from react classify event sid u g)"

text \<open>\<open>NotifyEventInfo\<close> and \<open>Emit\<close>, which posts the publication to the script thread; sending the event succeeds.\<close>

definition NotifyEventInfo :: "EventInfo \<Rightarrow> int \<times> EventInfo" where
  "NotifyEventInfo event = (event_class (ei_eventId event), event)"

end
