(* ===== verification/Js_Client.thy ===== *)
theory Js_Client
  imports Js_Updater
begin

text \<open>
  The online updater of a script: \<open>frameworks/js/napi/update/src/update_client.cpp\<close>. The arguments of a request are read into
  members of the object and are taken from there when the request is executed; the answers go through members too. Requests run
  through the client library of \<open>Service_Kits\<close> into the service.
\<close>

section \<open>Between the library and the bindings\<close>

text \<open>What the platform and the service bring to the execution of a request. \<open>je_kits\<close> is what the library meets at an attempt:
  requests make one, the registration of a callback up to five.\<close>

record js_env =
  je_kits :: "nat \<Rightarrow> kits_env"
  je_fw :: fw_env
  je_realpath :: "string \<Rightarrow> string option"
  je_device :: device_version
  je_reset :: reset_env
  je_caller :: caller
  je_reboots :: "string \<Rightarrow> string list \<Rightarrow> bool"
  je_verifies :: "string \<Rightarrow> string \<Rightarrow> int"
  je_arrived :: "(BusinessError \<times> CheckResult) option"
  je_pid :: int

text \<open>The errors, options and answers of the library, where enumerations have names, as the structures of the bindings.\<close>

definition wire_error :: "BusinessError \<Rightarrow> BusinessError_parcel" where
  "wire_error b = \<lparr>bp_message = be_message b, bp_errorNum = call_result_code (be_errorNum b), bp_data = be_data b\<rparr>"

definition download_options :: "DownloadOptions_parcel \<Rightarrow> DownloadOptions" where
  "download_options x = \<lparr>do_allowNetwork = nettype_of_code (dop_allowNetwork x), do_order = order_of_code (dop_order x)\<rparr>"

definition upgrade_options :: "UpgradeOptions_parcel \<Rightarrow> UpgradeOptions" where
  "upgrade_options x = \<lparr>uo_order = order_of_code (uop_order x)\<rparr>"

definition policy_down :: "UpgradePolicy_parcel \<Rightarrow> UpgradePolicy" where
  "policy_down p = \<lparr>po_downloadStrategy = pp_downloadStrategy p, po_autoUpgradeStrategy = pp_autoUpgradeStrategy p,
     po_periods = [pp_first p, pp_second p]\<rparr>"

definition policy_up :: "UpgradePolicy_parcel \<Rightarrow> UpgradePolicy \<Rightarrow> UpgradePolicy_parcel" where
  "policy_up old p = old\<lparr>pp_downloadStrategy := po_downloadStrategy p, pp_autoUpgradeStrategy := po_autoUpgradeStrategy p,
     pp_first := po_periods p ! 0, pp_second := po_periods p ! 1\<rparr>"

definition description_up :: "ComponentDescription \<Rightarrow> ComponentDescription_parcel" where
  "description_up d = \<lparr>cp_componentId = cd_componentId d, cp_descriptionType = cd_descriptionType d, cp_content = cd_content d,
     cp_notifyDescriptionType = 0, cp_notifyContent = []\<rparr>"

definition task_up :: "TaskInfo \<Rightarrow> TaskInfo_parcel" where
  "task_up t = \<lparr>tp_existTask = ti_existTask t, tp_taskBody = new_task_body\<lparr>tb_versionDigest := ti_digest t,
     tb_status := ustatus_code (ti_status t), tb_progress := ti_progress t\<rparr>\<rparr>"

section \<open>State\<close>

datatype client_work = W_CheckNewVersion | W_CancelUpgrade | W_Download | W_PauseDownload | W_ResumeDownload | W_Upgrade
  | W_ClearError | W_TerminateUpgrade | W_SetUpgradePolicy | W_GetUpgradePolicy | W_GetNewVersionInfo
  | W_GetNewVersionDescription | W_GetCurrentVersionInfo | W_GetCurrentVersionDescription | W_GetTaskInfo

text \<open>\<open>uc_callback\<close> is the number of the callback object that the client registers with the service.\<close>

record UpdateClient = "client_work IUpdater" +
  uc_callback :: nat
  uc_isInit :: bool
  uc_upgradeInfo :: UpgradeInfo
  uc_upgradePolicy :: UpgradePolicy_parcel
  uc_checkResult :: CheckResult
  uc_newVersionInfo :: NewVersionInfo_parcel
  uc_newVersionDescriptionInfo :: "ComponentDescription_parcel list"
  uc_currentVersionInfo :: CurrentVersionInfo
  uc_currentVersionDescriptionInfo :: "ComponentDescription_parcel list"
  uc_taskInfo :: TaskInfo
  uc_versionDigestInfo :: VersionDigestInfo
  uc_descriptionOptions :: DescriptionOptions
  uc_upgradeOptions :: UpgradeOptions_parcel
  uc_clearOptions :: ClearOptions
  uc_downloadOptions :: DownloadOptions_parcel
  uc_resumeDownloadOptions :: ResumeDownloadOptions
  uc_pauseDownloadOptions :: PauseDownloadOptions

definition new_UpdateClient :: "nat \<Rightarrow> UpdateClient" where
  "new_UpdateClient callback =
     \<lparr>iu_sessions = [], uc_callback = callback, uc_isInit = False, uc_upgradeInfo = new_upgrade_info,
      uc_upgradePolicy = \<lparr>pp_downloadStrategy = False, pp_autoUpgradeStrategy = False, pp_first = (0, 0), pp_second = (0, 0),
        pp_customPolicyType = 0\<rparr>,
      uc_checkResult = new_check_result, uc_newVersionInfo = \<lparr>nv_versionDigest = [], nv_versionComponents = []\<rparr>,
      uc_newVersionDescriptionInfo = [], uc_currentVersionInfo = \<lparr>cv_osVersion = [], cv_deviceName = [], cv_versionComponents = []\<rparr>,
      uc_currentVersionDescriptionInfo = [], uc_taskInfo = new_task_info, uc_versionDigestInfo = \<lparr>vd_versionDigest = []\<rparr>,
      uc_descriptionOptions = \<lparr>de_format = 0, de_language = []\<rparr>, uc_upgradeOptions = \<lparr>uop_order = 2\<rparr>,
      uc_clearOptions = \<lparr>co_status = 0\<rparr>, uc_downloadOptions = \<lparr>dop_allowNetwork = 6, dop_order = 1\<rparr>,
      uc_resumeDownloadOptions = \<lparr>ro_allowNetwork = 6\<rparr>, uc_pauseDownloadOptions = \<lparr>pa_isAllowAutoResume = False\<rparr>\<rparr>"

text \<open>An object is initialised once; a second call finds it so.\<close>

definition client_GetOnlineUpdater :: "int \<Rightarrow> js list \<Rightarrow> UpdateClient \<Rightarrow> js_return \<times> UpdateClient" where
  "client_GetOnlineUpdater pid args u =
     (let paramInfos = [(''upgradeInfo'', ''UpgradeInfo'')]
      in if args = [] then (Throws (NapiThrowParamError paramInfos), u)
         else if uc_isInit u then (Returns (JNum 0), u)
         else (case GetUpgradeInfoFromArg pid (js_argument args 0) (uc_upgradeInfo u) of
                 (CLIENT_SUCCESS, info) \<Rightarrow> (Returns (JNum 0), u\<lparr>uc_upgradeInfo := info, uc_isInit := True\<rparr>)
               | (_, info) \<Rightarrow> (Throws (NapiThrowParamError paramInfos), u\<lparr>uc_upgradeInfo := info\<rparr>)))"

section \<open>The callback at the service\<close>

definition on_ipc :: "(ipc \<Rightarrow> ipc) \<Rightarrow> js_process \<Rightarrow> js_process" where
  "on_ipc f g = g\<lparr>jp_ipc := f (jp_ipc g)\<rparr>"

definition maxRetryTimes :: nat where "maxRetryTimes = 5"

function register_attempts :: "(nat \<Rightarrow> kits_env) \<Rightarrow> UpgradeInfo \<Rightarrow> nat \<Rightarrow> nat \<Rightarrow> ipc \<Rightarrow> int \<times> ipc" where
  "register_attempts e info callback retryTimes x =
     (case kits_RegisterUpdateCallback (e retryTimes) info callback x of
        (ret, x1) \<Rightarrow>
          if ret = INT_CALL_SUCCESS then (ret, x1)
          else if retryTimes + 1 < maxRetryTimes then register_attempts e info callback (retryTimes + 1) x1
          else (ret, x1))"
  by pat_completeness auto
termination by (relation "measure (\<lambda>(e, info, callback, retryTimes, x). maxRetryTimes - retryTimes)") auto

declare register_attempts.simps [simp del]

definition client_RegisterCallback :: "js_env \<Rightarrow> UpdateClient \<Rightarrow> js_process \<Rightarrow> UpdateClient \<times> js_process" where
  "client_RegisterCallback e u g =
     (u, on_ipc (\<lambda>x. snd (register_attempts (je_kits e) (uc_upgradeInfo u) (uc_callback u) 0 x)) g)"

definition client_UnRegisterCallback :: "js_env \<Rightarrow> UpdateClient \<Rightarrow> js_process \<Rightarrow> UpdateClient \<times> js_process" where
  "client_UnRegisterCallback e u g =
     (u, on_ipc (\<lambda>x. snd (kits_UnregisterUpdateCallback (je_kits e 0) (uc_upgradeInfo u) x)) g)"

definition client_On :: "js_env \<Rightarrow> js list \<Rightarrow> UpdateClient \<Rightarrow> js_process \<Rightarrow> (js_return \<times> UpdateClient \<times> js_process) option" where
  "client_On e args u g = On (je_caller e) (client_RegisterCallback e) args u g"

definition client_Off :: "js_env \<Rightarrow> js list \<Rightarrow> UpdateClient \<Rightarrow> js_process \<Rightarrow> (js_return \<times> UpdateClient \<times> js_process) option" where
  "client_Off e args u g = Off (je_caller e) (client_UnRegisterCallback e) args u g"

section \<open>Requests\<close>

definition client_request ::
  "int \<Rightarrow> nat \<Rightarrow> client_work \<Rightarrow> js list \<Rightarrow> UpdateClient \<Rightarrow> js_process \<Rightarrow> js_return \<times> UpdateClient \<times> js_process" where
  "client_request type callbackPosition w args u g =
     StartSession args (new_SessionParams type callbackPosition True) (Request w) u g"

text \<open>\<open>ParseUpgOptions\<close> reads the digest and then the options, and has stored the digest when it refuses the options.\<close>

definition ParseUpgOptions ::
  "(js \<Rightarrow> 'o \<Rightarrow> ClientStatus \<times> 'o) \<Rightarrow> js list \<Rightarrow> VersionDigestInfo \<Rightarrow> 'o \<Rightarrow> ClientStatus \<times> VersionDigestInfo \<times> 'o" where
  "ParseUpgOptions reader args digest options =
     (case GetVersionDigestInfoFromArg (js_argument args 0) digest of
        (CLIENT_SUCCESS, digest1) \<Rightarrow>
          (case reader (js_argument args 1) options of
             (CLIENT_SUCCESS, options1) \<Rightarrow> (CLIENT_SUCCESS, digest1, options1)
           | (_, options1) \<Rightarrow> (CLIENT_INVALID_PARAM, digest1, options1))
      | (_, digest1) \<Rightarrow> (CLIENT_INVALID_PARAM, digest1, options))"

definition ParseOptions :: "(js \<Rightarrow> 'o \<Rightarrow> ClientStatus \<times> 'o) \<Rightarrow> js list \<Rightarrow> 'o \<Rightarrow> ClientStatus \<times> 'o" where
  "ParseOptions reader args options =
     (case reader (js_argument args 0) options of
        (CLIENT_SUCCESS, options1) \<Rightarrow> (CLIENT_SUCCESS, options1)
      | (_, options1) \<Rightarrow> (CLIENT_INVALID_PARAM, options1))"

definition client_CheckNewVersion :: "js list \<Rightarrow> UpdateClient \<Rightarrow> js_process \<Rightarrow> js_return \<times> UpdateClient \<times> js_process" where
  "client_CheckNewVersion args u g = client_request SESSION_CHECK_VERSION 1 W_CheckNewVersion args u g"

definition client_CancelUpgrade :: "js list \<Rightarrow> UpdateClient \<Rightarrow> js_process \<Rightarrow> js_return \<times> UpdateClient \<times> js_process" where
  "client_CancelUpgrade args u g = client_request SESSION_CANCEL_UPGRADE 1 W_CancelUpgrade args u g"

definition client_Download :: "js list \<Rightarrow> UpdateClient \<Rightarrow> js_process \<Rightarrow> js_return \<times> UpdateClient \<times> js_process" where
  "client_Download args u g =
     (case ParseUpgOptions read_DownloadOptions args (uc_versionDigestInfo u) (uc_downloadOptions u) of
        (st, d, x) \<Rightarrow>
          let u1 = u\<lparr>uc_versionDigestInfo := d, uc_downloadOptions := x\<rparr>
          in if st \<noteq> CLIENT_SUCCESS
             then (Throws (NapiThrowParamError [(''versionDigestInfo'', ''VersionDigestInfo''), (''downloadOptions'', ''DownloadOptions'')]), u1, g)
             else client_request SESSION_DOWNLOAD 3 W_Download args u1 g)"

definition client_PauseDownload :: "js list \<Rightarrow> UpdateClient \<Rightarrow> js_process \<Rightarrow> js_return \<times> UpdateClient \<times> js_process" where
  "client_PauseDownload args u g =
     (case ParseUpgOptions read_PauseDownloadOptions args (uc_versionDigestInfo u) (uc_pauseDownloadOptions u) of
        (st, d, x) \<Rightarrow>
          let u1 = u\<lparr>uc_versionDigestInfo := d, uc_pauseDownloadOptions := x\<rparr>
          in if st \<noteq> CLIENT_SUCCESS
             then (Throws (NapiThrowParamError [(''versionDigestInfo'', ''VersionDigestInfo''), (''pauseDownloadOptions'', ''PauseDownloadOptions'')]), u1, g)
             else client_request SESSION_PAUSE_DOWNLOAD 3 W_PauseDownload args u1 g)"

definition client_ResumeDownload :: "js list \<Rightarrow> UpdateClient \<Rightarrow> js_process \<Rightarrow> js_return \<times> UpdateClient \<times> js_process" where
  "client_ResumeDownload args u g =
     (case ParseUpgOptions read_ResumeDownloadOptions args (uc_versionDigestInfo u) (uc_resumeDownloadOptions u) of
        (st, d, x) \<Rightarrow>
          let u1 = u\<lparr>uc_versionDigestInfo := d, uc_resumeDownloadOptions := x\<rparr>
          in if st \<noteq> CLIENT_SUCCESS
             then (Throws (NapiThrowParamError [(''versionDigestInfo'', ''VersionDigestInfo''), (''resumeDownloadOptions'', ''ResumeDownloadOptions'')]), u1, g)
             else client_request SESSION_RESUME_DOWNLOAD 3 W_ResumeDownload args u1 g)"

definition client_Upgrade :: "js list \<Rightarrow> UpdateClient \<Rightarrow> js_process \<Rightarrow> js_return \<times> UpdateClient \<times> js_process" where
  "client_Upgrade args u g =
     (case ParseUpgOptions read_UpgradeOptions args (uc_versionDigestInfo u) (uc_upgradeOptions u) of
        (st, d, x) \<Rightarrow>
          let u1 = u\<lparr>uc_versionDigestInfo := d, uc_upgradeOptions := x\<rparr>
          in if st \<noteq> CLIENT_SUCCESS
             then (Throws (NapiThrowParamError [(''versionDigestInfo'', ''VersionDigestInfo''), (''upgradeOptions'', ''UpgradeOptions'')]), u1, g)
             else client_request SESSION_UPGRADE 3 W_Upgrade args u1 g)"

definition client_ClearError :: "js list \<Rightarrow> UpdateClient \<Rightarrow> js_process \<Rightarrow> js_return \<times> UpdateClient \<times> js_process" where
  "client_ClearError args u g =
     (case ParseUpgOptions read_ClearOptions args (uc_versionDigestInfo u) (uc_clearOptions u) of
        (st, d, x) \<Rightarrow>
          let u1 = u\<lparr>uc_versionDigestInfo := d, uc_clearOptions := x\<rparr>
          in if st \<noteq> CLIENT_SUCCESS
             then (Throws (NapiThrowParamError [(''versionDigestInfo'', ''VersionDigestInfo''), (''clearOptions'', ''ClearOptions'')]), u1, g)
             else client_request SESSION_CLEAR_ERROR 3 W_ClearError args u1 g)"

definition client_TerminateUpgrade :: "js list \<Rightarrow> UpdateClient \<Rightarrow> js_process \<Rightarrow> js_return \<times> UpdateClient \<times> js_process" where
  "client_TerminateUpgrade args u g = client_request SESSION_TERMINATE_UPGRADE 1 W_TerminateUpgrade args u g"

definition client_SetUpgradePolicy :: "js list \<Rightarrow> UpdateClient \<Rightarrow> js_process \<Rightarrow> js_return \<times> UpdateClient \<times> js_process" where
  "client_SetUpgradePolicy args u g =
     (case GetUpgradePolicyFromArg (js_argument args 0) (uc_upgradePolicy u) of
        (st, p) \<Rightarrow>
          let u1 = u\<lparr>uc_upgradePolicy := p\<rparr>
          in if st \<noteq> CLIENT_SUCCESS then (Throws (NapiThrowParamError [(''upgradePolicy'', ''UpgradePolicy'')]), u1, g)
             else client_request SESSION_SET_POLICY 2 W_SetUpgradePolicy args u1 g)"

definition client_GetUpgradePolicy :: "js list \<Rightarrow> UpdateClient \<Rightarrow> js_process \<Rightarrow> js_return \<times> UpdateClient \<times> js_process" where
  "client_GetUpgradePolicy args u g = client_request SESSION_GET_POLICY 1 W_GetUpgradePolicy args u g"

definition client_GetNewVersionInfo :: "js list \<Rightarrow> UpdateClient \<Rightarrow> js_process \<Rightarrow> js_return \<times> UpdateClient \<times> js_process" where
  "client_GetNewVersionInfo args u g = client_request SESSION_GET_NEW_VERSION 1 W_GetNewVersionInfo args u g"

definition client_GetNewVersionDescription :: "js list \<Rightarrow> UpdateClient \<Rightarrow> js_process \<Rightarrow> js_return \<times> UpdateClient \<times> js_process" where
  "client_GetNewVersionDescription args u g =
     (case ParseUpgOptions read_DescriptionOptions args (uc_versionDigestInfo u) (uc_descriptionOptions u) of
        (st, d, x) \<Rightarrow>
          let u1 = u\<lparr>uc_versionDigestInfo := d, uc_descriptionOptions := x\<rparr>
          in if st \<noteq> CLIENT_SUCCESS
             then (Throws (NapiThrowParamError [(''versionDigestInfo'', ''VersionDigestInfo''), (''descriptionOptions'', ''DescriptionOptions'')]), u1, g)
             else client_request SESSION_GET_NEW_VERSION_DESCRIPTION 3 W_GetNewVersionDescription args u1 g)"

definition client_GetCurrentVersionInfo :: "js list \<Rightarrow> UpdateClient \<Rightarrow> js_process \<Rightarrow> js_return \<times> UpdateClient \<times> js_process" where
  "client_GetCurrentVersionInfo args u g = client_request SESSION_GET_CUR_VERSION 1 W_GetCurrentVersionInfo args u g"

definition client_GetCurrentVersionDescription ::
  "js list \<Rightarrow> UpdateClient \<Rightarrow> js_process \<Rightarrow> js_return \<times> UpdateClient \<times> js_process" where
  "client_GetCurrentVersionDescription args u g =
     (case ParseOptions read_DescriptionOptions args (uc_descriptionOptions u) of
        (st, x) \<Rightarrow>
          let u1 = u\<lparr>uc_descriptionOptions := x\<rparr>
          in if st \<noteq> CLIENT_SUCCESS
             then (Throws (NapiThrowParamError [(''descriptionOptions'', ''DescriptionOptions'')]), u1, g)
             else client_request SESSION_GET_CUR_VERSION_DESCRIPTION 2 W_GetCurrentVersionDescription args u1 g)"

definition client_GetTaskInfo :: "js list \<Rightarrow> UpdateClient \<Rightarrow> js_process \<Rightarrow> js_return \<times> UpdateClient \<times> js_process" where
  "client_GetTaskInfo args u g = client_request SESSION_GET_TASK_INFO 1 W_GetTaskInfo args u g"

section \<open>Executing a request\<close>

text \<open>What an executed request leaves: its result and error, the members that its answer fills, and the process. The output
  parameters of the service are new objects; what they replace stays when the request fails on the way.\<close>

definition done_work ::
  "int \<times> BusinessError \<times> ipc \<Rightarrow> UpdateClient \<Rightarrow> js_process \<Rightarrow> int \<times> BusinessError_parcel \<times> UpdateClient \<times> js_process" where
  "done_work r u g = (case r of (ret, err, x) \<Rightarrow> (ret, wire_error err, u, g\<lparr>jp_ipc := x\<rparr>))"

definition starts_flows :: "flow_state list \<Rightarrow> js_process \<Rightarrow> js_process" where
  "starts_flows fs g = g\<lparr>jp_flows := jp_flows g @ fs\<rparr>"

definition no_policy :: UpgradePolicy where
  "no_policy = \<lparr>po_downloadStrategy = False, po_autoUpgradeStrategy = False, po_periods = [(0, 0), (0, 0)]\<rparr>"

fun client_run :: "js_env \<Rightarrow> (client_work, UpdateClient) work_runner" where
  "client_run e W_CheckNewVersion u g =
     (case kits_CheckNewVersion (je_kits e 0) (uc_upgradeInfo u) (je_fw e) (je_arrived e) (new_business_error, new_check_result) (jp_ipc g) of
        (ret, ((err, r), flows), x) \<Rightarrow>
          done_work (ret, err, x) (if ret = INT_CALL_SUCCESS then u\<lparr>uc_checkResult := r\<rparr> else u) (starts_flows flows g))"
| "client_run e W_CancelUpgrade u g =
     done_work (kits_Cancel (je_kits e 0) (uc_upgradeInfo u) (je_fw e) new_business_error (jp_ipc g)) u g"
| "client_run e W_Download u g =
     (case kits_Download (je_kits e 0) (uc_upgradeInfo u) (je_fw e) (download_options (uc_downloadOptions u)) new_business_error (jp_ipc g) of
        (ret, (err, flows), x) \<Rightarrow> done_work (ret, err, x) u (starts_flows flows g))"
| "client_run e W_PauseDownload u g = done_work (kits_PauseDownload (je_kits e 0) new_business_error (jp_ipc g)) u g"
| "client_run e W_ResumeDownload u g = done_work (kits_ResumeDownload (je_kits e 0) new_business_error (jp_ipc g)) u g"
| "client_run e W_Upgrade u g =
     (case kits_Upgrade (je_kits e 0) (uc_upgradeInfo u) (je_fw e) (upgrade_options (uc_upgradeOptions u)) new_business_error (jp_ipc g) of
        (ret, (err, flows), x) \<Rightarrow> done_work (ret, err, x) u (starts_flows flows g))"
| "client_run e W_ClearError u g =
     done_work (kits_ClearError (je_kits e 0) (uc_upgradeInfo u) new_business_error (jp_ipc g)) u g"
| "client_run e W_TerminateUpgrade u g =
     (case kits_TerminateUpgrade (je_kits e 0) (uc_upgradeInfo u) (je_fw e) new_business_error (jp_ipc g) of
        (ret, (ends, err), x) \<Rightarrow> done_work (ret, err, x) u (g\<lparr>jp_ends := jp_ends g \<or> ends\<rparr>))"
| "client_run e W_SetUpgradePolicy u g =
     done_work (kits_SetUpgradePolicy (je_kits e 0) (uc_upgradeInfo u) (je_fw e) (policy_down (uc_upgradePolicy u)) new_business_error (jp_ipc g)) u g"
| "client_run e W_GetUpgradePolicy u g =
     (case kits_GetUpgradePolicy (je_kits e 0) (uc_upgradeInfo u) no_policy new_business_error (jp_ipc g) of
        (ret, (err, p), x) \<Rightarrow>
          done_work (ret, err, x) (if ret = INT_CALL_SUCCESS then u\<lparr>uc_upgradePolicy := policy_up (uc_upgradePolicy u) p\<rparr> else u) g)"
| "client_run e W_GetNewVersionInfo u g =
     (case kits_GetNewVersionInfo (je_kits e 0) (uc_upgradeInfo u) (je_fw e) ([], []) (jp_ipc g) of
        (ret, (digest, cs), x) \<Rightarrow>
          done_work (ret, new_business_error, x)
            (if ret = INT_CALL_SUCCESS then u\<lparr>uc_newVersionInfo := \<lparr>nv_versionDigest = digest, nv_versionComponents = cs\<rparr>\<rparr> else u) g)"
| "client_run e W_GetNewVersionDescription u g =
     (case kits_GetNewVersionDescription (je_kits e 0) (uc_upgradeInfo u) (je_realpath e) (de_language (uc_descriptionOptions u))
             new_business_error (jp_ipc g) of
        (ret, (err, ds), x) \<Rightarrow>
          done_work (ret, err, x) (if ret = INT_CALL_SUCCESS then u\<lparr>uc_newVersionDescriptionInfo := map description_up ds\<rparr> else u) g)"
| "client_run e W_GetCurrentVersionInfo u g =
     (case kits_GetCurrentVersionInfo (je_kits e 0) (uc_upgradeInfo u) (je_device e)
             \<lparr>cv_osVersion = [], cv_deviceName = [], cv_versionComponents = []\<rparr> new_business_error (jp_ipc g) of
        (ret, (err, i), x) \<Rightarrow> done_work (ret, err, x) (if ret = INT_CALL_SUCCESS then u\<lparr>uc_currentVersionInfo := i\<rparr> else u) g)"
| "client_run e W_GetCurrentVersionDescription u g =
     (case kits_GetCurrentVersionDescription (je_kits e 0) (uc_upgradeInfo u) (je_realpath e) (de_language (uc_descriptionOptions u))
             new_business_error (jp_ipc g) of
        (ret, (err, ds), x) \<Rightarrow>
          done_work (ret, err, x) (if ret = INT_CALL_SUCCESS then u\<lparr>uc_currentVersionDescriptionInfo := map description_up ds\<rparr> else u) g)"
| "client_run e W_GetTaskInfo u g =
     (case kits_GetTaskInfo (je_kits e 0) (uc_upgradeInfo u) new_task_info new_business_error (jp_ipc g) of
        (ret, (err, t), x) \<Rightarrow> done_work (ret, err, x) (if ret = INT_CALL_SUCCESS then u\<lparr>uc_taskInfo := t\<rparr> else u) g)"

text \<open>\<open>GetUpdateResult\<close>: the member that the answer is in.\<close>

definition client_GetUpdateResult :: "int \<Rightarrow> UpdateClient \<Rightarrow> result_union" where
  "client_GetUpdateResult type u =
     (if type = SESSION_CHECK_VERSION then U_check (uc_checkResult u)
      else if type = SESSION_GET_NEW_VERSION then U_new (uc_newVersionInfo u)
      else if type = SESSION_GET_NEW_VERSION_DESCRIPTION then U_description (uc_newVersionDescriptionInfo u)
      else if type = SESSION_GET_TASK_INFO then U_task (task_up (uc_taskInfo u))
      else if type = SESSION_GET_CUR_VERSION then U_current (uc_currentVersionInfo u)
      else if type = SESSION_GET_CUR_VERSION_DESCRIPTION then U_description (uc_currentVersionDescriptionInfo u)
      else if type = SESSION_GET_POLICY then U_policy (uc_upgradePolicy u)
      else U_none)"

lemma client_results_build: "fst (buildJSObject type (client_GetUpdateResult type u)) = CLIENT_SUCCESS"
  by (simp add: client_GetUpdateResult_def buildJSObject_def BuildCheckResult_def BuildNewVersion_def
      BuildVersionDescriptionInfo_def BuildTaskInfo_def BuildCurrentVersion_def BuildUpgradePolicy_def BuildUndefinedStatus_def
      Let_def)

end
