(* ===== verification/Js_Constants.thy ===== *)
theory Js_Constants
  imports Js_Results
begin

text \<open>
  The constants that a script sees: \<open>frameworks/js/napi/update/src/define_property.cpp\<close>. A constant is declared by its
  name in the source, which becomes its name in the script.
\<close>

definition GetEnumValueString :: "string \<Rightarrow> string" where
  "GetEnumValueString enumItem =
     (case find_sub ''::'' enumItem of None \<Rightarrow> [] | Some split \<Rightarrow> drop (split + 2) enumItem)"

definition DECLARE_ENUM_PROPERTY :: "string \<Rightarrow> int \<Rightarrow> string \<times> js" where
  "DECLARE_ENUM_PROPERTY item code = (GetEnumValueString item, CreateUint32 code)"

definition DECLARE_STRING_PROPERTY :: "string \<Rightarrow> string \<Rightarrow> string \<times> js" where
  "DECLARE_STRING_PROPERTY item str = (GetEnumValueString item, CreateStringUtf8 str)"

definition DECLARE_CALL_RESULT_PROPERTY :: "string \<Rightarrow> int \<Rightarrow> string \<times> js" where
  "DECLARE_CALL_RESULT_PROPERTY item code = (GetEnumValueString item, CreateUint32 (u32 (ConvertToErrorCode code)))"

section \<open>The enumerations\<close>

definition DefineCallResult :: "js \<Rightarrow> js" where
  "DefineCallResult exports = CreateProperty ''CallResult''
     [DECLARE_CALL_RESULT_PROPERTY ''CallResult::APP_NOT_GRANTED'' (call_result_code CR_APP_NOT_GRANTED),
      DECLARE_CALL_RESULT_PROPERTY ''CallResult::PARAM_ERR'' (call_result_code CR_PARAM_ERR),
      DECLARE_CALL_RESULT_PROPERTY ''CallResult::UN_SUPPORT'' (call_result_code CR_UN_SUPPORT),
      DECLARE_CALL_RESULT_PROPERTY ''CallResult::SUCCESS'' (call_result_code CR_SUCCESS),
      DECLARE_CALL_RESULT_PROPERTY ''CallResult::FAIL'' (call_result_code CR_FAIL),
      DECLARE_CALL_RESULT_PROPERTY ''CallResult::DEV_UPG_INFO_ERR'' (call_result_code CR_DEV_UPG_INFO_ERR),
      DECLARE_CALL_RESULT_PROPERTY ''CallResult::FORBIDDEN'' (call_result_code CR_FORBIDDEN),
      DECLARE_CALL_RESULT_PROPERTY ''CallResult::IPC_ERR'' (call_result_code CR_IPC_ERR),
      DECLARE_CALL_RESULT_PROPERTY ''CallResult::TIME_OUT'' (call_result_code CR_TIME_OUT),
      DECLARE_CALL_RESULT_PROPERTY ''CallResult::DB_ERROR'' (call_result_code CR_DB_ERROR),
      DECLARE_CALL_RESULT_PROPERTY ''CallResult::IO_ERROR'' (call_result_code CR_IO_ERROR),
      DECLARE_CALL_RESULT_PROPERTY ''CallResult::NET_ERROR'' (call_result_code CR_NET_ERROR)] exports"

definition DefineUpgradeStatus :: "js \<Rightarrow> js" where
  "DefineUpgradeStatus exports = CreateProperty ''UpgradeStatus''
     [DECLARE_ENUM_PROPERTY ''UpgradeStatus::INIT'' 0, DECLARE_ENUM_PROPERTY ''UpgradeStatus::CHECKING_VERSION'' 10,
      DECLARE_ENUM_PROPERTY ''UpgradeStatus::CHECK_VERSION_FAIL'' 11,
      DECLARE_ENUM_PROPERTY ''UpgradeStatus::CHECK_VERSION_SUCCESS'' 12,
      DECLARE_ENUM_PROPERTY ''UpgradeStatus::DOWNLOADING'' 20, DECLARE_ENUM_PROPERTY ''UpgradeStatus::DOWNLOAD_PAUSE'' 21,
      DECLARE_ENUM_PROPERTY ''UpgradeStatus::DOWNLOAD_CANCEL'' 22,
      DECLARE_ENUM_PROPERTY ''UpgradeStatus::DOWNLOAD_FAIL'' 23,
      DECLARE_ENUM_PROPERTY ''UpgradeStatus::DOWNLOAD_SUCCESS'' 24, DECLARE_ENUM_PROPERTY ''UpgradeStatus::VERIFYING'' 30,
      DECLARE_ENUM_PROPERTY ''UpgradeStatus::VERIFY_FAIL'' 31, DECLARE_ENUM_PROPERTY ''UpgradeStatus::VERIFY_SUCCESS'' 32,
      DECLARE_ENUM_PROPERTY ''UpgradeStatus::PACKAGE_TRANSING'' 70,
      DECLARE_ENUM_PROPERTY ''UpgradeStatus::PACKAGE_TRANS_FAIL'' 71,
      DECLARE_ENUM_PROPERTY ''UpgradeStatus::PACKAGE_TRANS_SUCCESS'' 72,
      DECLARE_ENUM_PROPERTY ''UpgradeStatus::INSTALLING'' 80, DECLARE_ENUM_PROPERTY ''UpgradeStatus::INSTALL_FAIL'' 81,
      DECLARE_ENUM_PROPERTY ''UpgradeStatus::INSTALL_SUCCESS'' 82,
      DECLARE_ENUM_PROPERTY ''UpgradeStatus::INSTALL_PAUSE'' 83, DECLARE_ENUM_PROPERTY ''UpgradeStatus::UPDATING'' 90,
      DECLARE_ENUM_PROPERTY ''UpgradeStatus::UPDATE_FAIL'' 91,
      DECLARE_ENUM_PROPERTY ''UpgradeStatus::UPDATE_SUCCESS'' 92] exports"

definition DefineComponentType :: "js \<Rightarrow> js" where
  "DefineComponentType exports = CreateProperty ''ComponentType''
     [DECLARE_ENUM_PROPERTY ''ComponentType::OTA'' 1, DECLARE_ENUM_PROPERTY ''ComponentType::PATCH'' 2,
      DECLARE_ENUM_PROPERTY ''ComponentType::COTA'' 4, DECLARE_ENUM_PROPERTY ''ComponentType::PARAM'' 8] exports"

definition DefineEffectiveMode :: "js \<Rightarrow> js" where
  "DefineEffectiveMode exports = CreateProperty ''EffectiveMode''
     [DECLARE_ENUM_PROPERTY ''EffectiveMode::COLD'' 1, DECLARE_ENUM_PROPERTY ''EffectiveMode::LIVE'' 2,
      DECLARE_ENUM_PROPERTY ''EffectiveMode::LIVE_AND_COLD'' 3] exports"

definition DefineOtaType :: "js \<Rightarrow> js" where
  "DefineOtaType exports = CreateProperty ''OtaMode''
     [DECLARE_ENUM_PROPERTY ''OtaMode::REGULAR_OTA'' 0, DECLARE_ENUM_PROPERTY ''OtaMode::STREAM_OTA'' 1,
      DECLARE_ENUM_PROPERTY ''OtaMode::AB_REGULAR_OTA'' 2, DECLARE_ENUM_PROPERTY ''OtaMode::AB_STREAM_OTA'' 3] exports"

definition DefineNetType :: "js \<Rightarrow> js" where
  "DefineNetType exports = CreateProperty ''NetType''
     [DECLARE_ENUM_PROPERTY ''NetType::CELLULAR'' 1, DECLARE_ENUM_PROPERTY ''NetType::METERED_WIFI'' 2,
      DECLARE_ENUM_PROPERTY ''NetType::NOT_METERED_WIFI'' 4, DECLARE_ENUM_PROPERTY ''NetType::WIFI'' 6,
      DECLARE_ENUM_PROPERTY ''NetType::CELLULAR_AND_WIFI'' 7] exports"

definition DefineOrder :: "js \<Rightarrow> js" where
  "DefineOrder exports = CreateProperty ''Order''
     [DECLARE_ENUM_PROPERTY ''Order::DOWNLOAD'' 1, DECLARE_ENUM_PROPERTY ''Order::INSTALL'' 2,
      DECLARE_ENUM_PROPERTY ''Order::DOWNLOAD_AND_INSTALL'' 3, DECLARE_ENUM_PROPERTY ''Order::APPLY'' 4,
      DECLARE_ENUM_PROPERTY ''Order::INSTALL_AND_APPLY'' 6] exports"

definition DefineEventClassify :: "js \<Rightarrow> js" where
  "DefineEventClassify exports = CreateProperty ''EventClassify''
     [DECLARE_ENUM_PROPERTY ''EventClassify::TASK'' CLASSIFY_TASK,
      DECLARE_ENUM_PROPERTY ''EventClassify::SYSTEM'' CLASSIFY_SYSTEM] exports"

definition DefineBusinessSubType :: "js \<Rightarrow> js" where
  "DefineBusinessSubType exports = CreateProperty ''BusinessSubType''
     [DECLARE_ENUM_PROPERTY ''BusinessSubType::FIRMWARE'' 1, DECLARE_ENUM_PROPERTY ''BusinessSubType::PARAM'' 2,
      DECLARE_ENUM_PROPERTY ''BusinessSubType::ROLLBACK'' 3] exports"

definition DefineDescriptionType :: "js \<Rightarrow> js" where
  "DefineDescriptionType exports = CreateProperty ''DescriptionType''
     [DECLARE_ENUM_PROPERTY ''DescriptionType::CONTENT'' 0, DECLARE_ENUM_PROPERTY ''DescriptionType::URI'' 1,
      DECLARE_ENUM_PROPERTY ''DescriptionType::ID'' 2] exports"

definition DefineDescriptionFormat :: "js \<Rightarrow> js" where
  "DefineDescriptionFormat exports = CreateProperty ''DescriptionFormat''
     [DECLARE_ENUM_PROPERTY ''DescriptionFormat::STANDARD'' 0,
      DECLARE_ENUM_PROPERTY ''DescriptionFormat::SIMPLIFIED'' 1] exports"

definition DefineEventId :: "js \<Rightarrow> js" where
  "DefineEventId exports = CreateProperty ''EventId''
     [DECLARE_ENUM_PROPERTY ''EventId::EVENT_TASK_BASE'' 0x1000000,
      DECLARE_ENUM_PROPERTY ''EventId::EVENT_TASK_RECEIVE'' 0x1000001,
      DECLARE_ENUM_PROPERTY ''EventId::EVENT_TASK_CANCEL'' 0x1000002,
      DECLARE_ENUM_PROPERTY ''EventId::EVENT_DOWNLOAD_WAIT'' 0x1000003,
      DECLARE_ENUM_PROPERTY ''EventId::EVENT_DOWNLOAD_START'' 0x1000004,
      DECLARE_ENUM_PROPERTY ''EventId::EVENT_DOWNLOAD_UPDATE'' 0x1000005,
      DECLARE_ENUM_PROPERTY ''EventId::EVENT_DOWNLOAD_PAUSE'' 0x1000006,
      DECLARE_ENUM_PROPERTY ''EventId::EVENT_DOWNLOAD_RESUME'' 0x1000007,
      DECLARE_ENUM_PROPERTY ''EventId::EVENT_DOWNLOAD_SUCCESS'' 0x1000008,
      DECLARE_ENUM_PROPERTY ''EventId::EVENT_DOWNLOAD_FAIL'' 0x1000009,
      DECLARE_ENUM_PROPERTY ''EventId::EVENT_UPGRADE_WAIT'' 0x100000a,
      DECLARE_ENUM_PROPERTY ''EventId::EVENT_UPGRADE_START'' 0x100000b,
      DECLARE_ENUM_PROPERTY ''EventId::EVENT_UPGRADE_UPDATE'' 0x100000c,
      DECLARE_ENUM_PROPERTY ''EventId::EVENT_APPLY_WAIT'' 0x100000d,
      DECLARE_ENUM_PROPERTY ''EventId::EVENT_APPLY_START'' 0x100000e,
      DECLARE_ENUM_PROPERTY ''EventId::EVENT_UPGRADE_SUCCESS'' 0x100000f,
      DECLARE_ENUM_PROPERTY ''EventId::EVENT_UPGRADE_FAIL'' 0x1000010,
      DECLARE_ENUM_PROPERTY ''EventId::EVENT_AUTH_START'' 0x1000012,
      DECLARE_ENUM_PROPERTY ''EventId::EVENT_AUTH_SUCCESS'' 0x1000013,
      DECLARE_ENUM_PROPERTY ''EventId::EVENT_DOWNLOAD_CANCEL'' 0x1000014,
      DECLARE_ENUM_PROPERTY ''EventId::EVENT_INITIALIZE'' 0x4000001,
      DECLARE_ENUM_PROPERTY ''EventId::EVENT_TASK_CHANGE'' 0x1000015,
      DECLARE_ENUM_PROPERTY ''EventId::EVENT_VERSION_INFO_CHANGE'' 0x1000016,
      DECLARE_ENUM_PROPERTY ''EventId::SYSTEM_BASE'' 0x2000000,
      DECLARE_ENUM_PROPERTY ''EventId::SYSTEM_BOOT_COMPLETE'' 0x2000001] exports"

definition DefineUpgradeAction :: "js \<Rightarrow> js" where
  "DefineUpgradeAction exports = CreateProperty ''UpgradeAction''
     [DECLARE_STRING_PROPERTY ''UpgradeAction::UPGRADE'' ''upgrade'',
      DECLARE_STRING_PROPERTY ''UpgradeAction::RECOVERY'' ''recovery'',
      DECLARE_STRING_PROPERTY ''UpgradeAction::ROLLBACK'' ''rollback''] exports"

definition DefineBusinessVendor :: "js \<Rightarrow> js" where
  "DefineBusinessVendor exports = CreateProperty ''BusinessVendor''
     [DECLARE_STRING_PROPERTY ''BusinessVendor::PUBLIC'' ''public''] exports"

definition DefineFactoryResetScope :: "js \<Rightarrow> js" where
  "DefineFactoryResetScope exports = CreateProperty ''FactoryResetScope''
     [DECLARE_ENUM_PROPERTY ''FactoryResetScope::DATA'' 1,
      DECLARE_ENUM_PROPERTY ''FactoryResetScope::DATA_AND_OS'' 2] exports"

definition DefineProperties :: "js \<Rightarrow> js" where
  "DefineProperties exports =
     fold (\<lambda>define obj. define obj)
       [DefineCallResult, DefineUpgradeStatus, DefineComponentType, DefineEffectiveMode, DefineOtaType, DefineNetType, DefineOrder,
        DefineEventClassify, DefineBusinessSubType, DefineDescriptionType, DefineDescriptionFormat, DefineEventId,
        DefineUpgradeAction, DefineBusinessVendor, DefineFactoryResetScope] exports"

section \<open>Facts\<close>

lemmas define_defs = DefineCallResult_def DefineUpgradeStatus_def DefineComponentType_def DefineEffectiveMode_def DefineOtaType_def
  DefineNetType_def DefineOrder_def DefineEventClassify_def DefineBusinessSubType_def DefineDescriptionType_def
  DefineDescriptionFormat_def DefineEventId_def DefineUpgradeAction_def DefineBusinessVendor_def DefineFactoryResetScope_def

text \<open>Looking a constant up, by the names of its object and its own.\<close>

definition exported :: "string \<Rightarrow> string \<Rightarrow> js option" where
  "exported name constant =
     (case napi_named_property (DefineProperties js_empty) name of Some obj \<Rightarrow> napi_named_property obj constant | None \<Rightarrow> None)"

end
