(* ===== verification/Js_Module.thy ===== *)
theory Js_Module
  imports Js_Client Js_Constants
begin

text \<open>
  The module that a script imports and its two smaller objects: \<open>update_module.cpp\<close>, \<open>restorer.cpp\<close> and
  \<open>local_updater.cpp\<close> of \<open>frameworks/js/napi/update/src\<close>. There is one restorer and one local updater, and one online updater
  for every \<open>UpgradeInfo\<close>. Defining the classes of the module succeeds.
\<close>

section \<open>\<open>Restorer\<close>\<close>

datatype restorer_work = W_FactoryReset | W_ForceFactoryReset | W_DeepFactoryReset | W_GetDeepFactoryResetInfo

record Restorer = "restorer_work IUpdater" +
  re_strategy :: FactoryResetStrategy
  re_info :: FactoryResetInfo

definition new_Restorer :: Restorer where
  "new_Restorer = \<lparr>iu_sessions = [], re_strategy = \<lparr>rs_scope = 1, rs_strategy = []\<rparr>, re_info = \<lparr>ri_duration = 0\<rparr>\<rparr>"

definition restorer_request ::
  "int \<Rightarrow> nat \<Rightarrow> restorer_work \<Rightarrow> js list \<Rightarrow> Restorer \<Rightarrow> js_process \<Rightarrow> js_return \<times> Restorer \<times> js_process" where
  "restorer_request type callbackPosition w args u g =
     StartSession args (new_SessionParams type callbackPosition True) (Request w) u g"

definition js_FactoryReset :: "js list \<Rightarrow> Restorer \<Rightarrow> js_process \<Rightarrow> js_return \<times> Restorer \<times> js_process" where
  "js_FactoryReset args u g = restorer_request SESSION_FACTORY_RESET 1 W_FactoryReset args u g"

definition js_ForceFactoryReset :: "js list \<Rightarrow> Restorer \<Rightarrow> js_process \<Rightarrow> js_return \<times> Restorer \<times> js_process" where
  "js_ForceFactoryReset args u g = restorer_request SESSION_FORCE_FACTORY_RESET 1 W_ForceFactoryReset args u g"

text \<open>A strategy that is refused ends the call without an exception.\<close>

definition ParseParamResetStrategy :: "js list \<Rightarrow> Restorer \<Rightarrow> bool \<times> Restorer" where
  "ParseParamResetStrategy args u =
     (case GetFactoryResetStrategyFromArg (js_argument args 0) (re_strategy u) of
        (st, x) \<Rightarrow> (st = CLIENT_SUCCESS, u\<lparr>re_strategy := x\<rparr>))"

definition js_DeepFactoryReset :: "js list \<Rightarrow> Restorer \<Rightarrow> js_process \<Rightarrow> js_return \<times> Restorer \<times> js_process" where
  "js_DeepFactoryReset args u g =
     (case ParseParamResetStrategy args u of
        (False, u1) \<Rightarrow> (Returns_null, u1, g)
      | (True, u1) \<Rightarrow> restorer_request SESSION_DEEP_FACTORY_RESET 2 W_DeepFactoryReset args u1 g)"

definition js_GetDeepFactoryResetInfo :: "js list \<Rightarrow> Restorer \<Rightarrow> js_process \<Rightarrow> js_return \<times> Restorer \<times> js_process" where
  "js_GetDeepFactoryResetInfo args u g =
     (case ParseParamResetStrategy args u of
        (False, u1) \<Rightarrow> (Returns_null, u1, g)
      | (True, u1) \<Rightarrow> restorer_request SESSION_GET_DEEP_FACTORY_RESET_INFO 2 W_GetDeepFactoryResetInfo args u1 g)"

definition reset_scope :: "int \<Rightarrow> FactoryResetScope" where
  "reset_scope n = (if n = 1 then SCOPE_DATA else if n = 2 then SCOPE_DATA_AND_OS else SCOPE_OTHER)"

definition done_reset ::
  "int \<times> (BusinessError \<times> reset_call list) \<times> ipc \<Rightarrow> Restorer \<Rightarrow> js_process \<Rightarrow> int \<times> BusinessError_parcel \<times> Restorer \<times> js_process" where
  "done_reset r u g =
     (case r of (ret, (err, calls), x) \<Rightarrow> (ret, wire_error err, u, g\<lparr>jp_ipc := x, jp_resets := jp_resets g @ calls\<rparr>))"

fun restorer_run :: "js_env \<Rightarrow> (restorer_work, Restorer) work_runner" where
  "restorer_run e W_FactoryReset u g =
     done_reset (kits_FactoryReset (je_kits e 0) (je_reset e) (je_caller e) new_business_error (jp_ipc g)) u g"
| "restorer_run e W_ForceFactoryReset u g =
     done_reset (kits_ForceFactoryReset (je_kits e 0) (je_reset e) (je_caller e) new_business_error (jp_ipc g)) u g"
| "restorer_run e W_DeepFactoryReset u g =
     done_reset (kits_DeepFactoryReset (je_kits e 0) (je_reset e) (je_caller e) (reset_scope (rs_scope (re_strategy u))) new_business_error (jp_ipc g)) u g"
| "restorer_run e W_GetDeepFactoryResetInfo u g =
     (case kits_GetDeepFactoryResetInfo (je_kits e 0) (je_reset e) (reset_scope (rs_scope (re_strategy u))) 0 new_business_error (jp_ipc g) of
        (ret, (duration, err), x) \<Rightarrow>
          (ret, wire_error err, if ret = INT_CALL_SUCCESS then u\<lparr>re_info := \<lparr>ri_duration = duration\<rparr>\<rparr> else u, g\<lparr>jp_ipc := x\<rparr>))"

definition restorer_GetUpdateResult :: "int \<Rightarrow> Restorer \<Rightarrow> result_union" where
  "restorer_GetUpdateResult type u = (if type = SESSION_GET_DEEP_FACTORY_RESET_INFO then U_reset (re_info u) else U_none)"

section \<open>\<open>LocalUpdater\<close>\<close>

datatype local_work = W_VerifyUpgradePackage string string | W_ApplyNewVersion "string list"

record LocalUpdater = "local_work IUpdater" +
  lu_callback :: nat
  lu_isInit :: bool

definition new_LocalUpdater :: "nat \<Rightarrow> LocalUpdater" where
  "new_LocalUpdater callback = \<lparr>iu_sessions = [], lu_callback = callback, lu_isInit = False\<rparr>"

definition local_misc_file :: string where "local_misc_file = ''/dev/block/by-name/misc''"

definition local_upgrade_info :: UpgradeInfo where
  "local_upgrade_info = UpgradeInfo LOCAL_UPGRADE_INFO (BusinessType [] SUB_FIRMWARE) [] [] 0 0"

text \<open>The result of the registration is not looked at.\<close>

definition LocalUpdater_Init :: "js_env \<Rightarrow> LocalUpdater \<Rightarrow> js_process \<Rightarrow> LocalUpdater \<times> js_process" where
  "LocalUpdater_Init e u g =
     (if lu_isInit u then (u, g)
      else (u\<lparr>lu_isInit := True\<rparr>, on_ipc (\<lambda>x. snd (kits_RegisterUpdateCallback (je_kits e 0) local_upgrade_info (lu_callback u) x)) g))"

definition js_VerifyUpgradePackage :: "js list \<Rightarrow> LocalUpdater \<Rightarrow> js_process \<Rightarrow> js_return \<times> LocalUpdater \<times> js_process" where
  "js_VerifyUpgradePackage args u g =
     (if length args < 2 then (Returns_null, u, g)
      else case GetUpgradeFileFromArg (js_argument args 0) new_upgrade_file of
        (CLIENT_SUCCESS, f) \<Rightarrow>
          (case GetString_arg (js_argument args 1) [] of
             (CLIENT_SUCCESS, certsFile) \<Rightarrow>
               StartSession args (new_SessionParams SESSION_VERIFY_PACKAGE 3 True)
                 (Request (W_VerifyUpgradePackage (uf_filePath f) certsFile)) u g
           | _ \<Rightarrow> StartParamErrorSession args 3 u g)
      | _ \<Rightarrow> StartParamErrorSession args 3 u g)"

definition js_ApplyNewVersion :: "js list \<Rightarrow> LocalUpdater \<Rightarrow> js_process \<Rightarrow> js_return \<times> LocalUpdater \<times> js_process" where
  "js_ApplyNewVersion args u g =
     (if length args < 1 then (Returns_null, u, g)
      else case GetUpgradeFilesFromArg (js_argument args 0) [] of
        (st, upgradeFiles) \<Rightarrow>
          if st \<noteq> CLIENT_SUCCESS \<or> upgradeFiles = [] then StartParamErrorSession args 2 u g
          else StartSession args (new_SessionParams SESSION_APPLY_NEW_VERSION 2 True)
            (Request (W_ApplyNewVersion (map uf_filePath upgradeFiles))) u g)"

fun local_run :: "js_env \<Rightarrow> (local_work, LocalUpdater) work_runner" where
  "local_run e (W_VerifyUpgradePackage filePath certsFile) u g =
     (case kits_VerifyUpgradePackage (je_kits e 0) (je_verifies e) filePath certsFile new_business_error (jp_ipc g) of
        (ret, err, x) \<Rightarrow> (ret, wire_error err, u, g\<lparr>jp_ipc := x\<rparr>))"
| "local_run e (W_ApplyNewVersion packageNames) u g =
     (case kits_ApplyNewVersion (je_kits e 0) (je_reboots e) local_misc_file packageNames new_business_error (jp_ipc g) of
        (ret, err, x) \<Rightarrow> (ret, wire_error err, u, g\<lparr>jp_ipc := x\<rparr>))"

text \<open>\<open>RegisterCallback\<close> and \<open>UnRegisterCallback\<close> are those of \<open>IUpdater\<close>, which do nothing.\<close>

definition local_On :: "js_env \<Rightarrow> js list \<Rightarrow> LocalUpdater \<Rightarrow> js_process \<Rightarrow> (js_return \<times> LocalUpdater \<times> js_process) option" where
  "local_On e args u g = On (je_caller e) Pair args u g"

definition local_Off :: "js_env \<Rightarrow> js list \<Rightarrow> LocalUpdater \<Rightarrow> js_process \<Rightarrow> (js_return \<times> LocalUpdater \<times> js_process) option" where
  "local_Off e args u g = Off (je_caller e) Pair args u g"

section \<open>The module\<close>

text \<open>The callbacks are numbered in the order in which the objects are made.\<close>

record update_module =
  um_restorer :: "Restorer option"
  um_localUpdater :: "LocalUpdater option"
  um_onlineUpdater :: "(UpgradeInfo, UpdateClient) cmap"
  um_callbacks :: nat
  um_process :: js_process

text \<open>An object of the module wraps the native object that is found by this.\<close>

datatype js_object = Online UpgradeInfo | TheRestorer | TheLocalUpdater
datatype module_return = Wraps js_object | Module_throws js | Module_null

definition JsConstructor :: "js_env \<Rightarrow> js \<Rightarrow> update_module \<Rightarrow> UpgradeInfo option \<times> update_module" where
  "JsConstructor e arg m =
     (case GetUpgradeInfoFromArg (je_pid e) arg new_upgrade_info of
        (CLIENT_SUCCESS, info) \<Rightarrow>
          (Some info,
           if cm_has info (um_onlineUpdater m) then m
           else m\<lparr>um_onlineUpdater := cm_put info (new_UpdateClient (um_callbacks m)) (um_onlineUpdater m),
                  um_callbacks := um_callbacks m + 1\<rparr>)
      | _ \<Rightarrow> (None, m))"

definition JsConstructorRestorer :: "update_module \<Rightarrow> update_module" where
  "JsConstructorRestorer m = (if um_restorer m = None then m\<lparr>um_restorer := Some new_Restorer\<rparr> else m)"

definition JsConstructorLocalUpdater :: "update_module \<Rightarrow> update_module" where
  "JsConstructorLocalUpdater m =
     (if um_localUpdater m = None
      then m\<lparr>um_localUpdater := Some (new_LocalUpdater (um_callbacks m)), um_callbacks := um_callbacks m + 1\<rparr> else m)"

text \<open>\<open>online\<close> is the build flag \<^verbatim>\<open>UPDATE_SERVICE_ONLINE_UPDATER\<close>.\<close>

definition module_GetOnlineUpdater :: "bool \<Rightarrow> js_env \<Rightarrow> js list \<Rightarrow> update_module \<Rightarrow> module_return \<times> update_module" where
  "module_GetOnlineUpdater online e args m =
     (if \<not> online then (Module_throws NapiThrowUnSupportError, m)
      else if \<not> napi_IsCallerValid (je_caller e) then (Module_throws NapiThrowNotSystemAppError, m)
      else case JsConstructor e (js_argument args 0) m of
        (None, m1) \<Rightarrow> (Module_null, m1)
      | (Some info, m1) \<Rightarrow>
          (case map_of (um_onlineUpdater m1) info of
             None \<Rightarrow> (Module_null, m1)
           | Some u \<Rightarrow>
               (case client_GetOnlineUpdater (je_pid e) args u of
                  (ret, u1) \<Rightarrow>
                    let m2 = m1\<lparr>um_onlineUpdater := cm_adj info (\<lambda>_. u1) (um_onlineUpdater m1)\<rparr>
                    in (case ret of Returns _ \<Rightarrow> (Wraps (Online info), m2) | Throws ex \<Rightarrow> (Module_throws ex, m2) | _ \<Rightarrow> (Module_null, m2)))))"

definition module_GetRestorer :: "js_env \<Rightarrow> update_module \<Rightarrow> module_return \<times> update_module" where
  "module_GetRestorer e m =
     (if \<not> napi_IsCallerValid (je_caller e) then (Module_throws NapiThrowNotSystemAppError, m)
      else (Wraps TheRestorer, JsConstructorRestorer m))"

definition module_GetLocalUpdater :: "js_env \<Rightarrow> update_module \<Rightarrow> module_return \<times> update_module" where
  "module_GetLocalUpdater e m =
     (if \<not> napi_IsCallerValid (je_caller e) then (Module_throws NapiThrowNotSystemAppError, m)
      else
        let m1 = JsConstructorLocalUpdater m
        in case um_localUpdater m1 of
             None \<Rightarrow> (Module_null, m1)
           | Some u \<Rightarrow>
               (case LocalUpdater_Init e u (um_process m1) of
                  (u1, g1) \<Rightarrow> (Wraps TheLocalUpdater, m1\<lparr>um_localUpdater := Some u1, um_process := g1\<rparr>)))"

text \<open>The methods of the class of the online updater, by their names.\<close>

type_synonym client_method = "js list \<Rightarrow> UpdateClient \<Rightarrow> js_process \<Rightarrow> js_return \<times> UpdateClient \<times> js_process"

definition DefineUpdateClient :: "(string \<times> client_method) list" where
  "DefineUpdateClient =
     [(''checkNewVersion'', client_CheckNewVersion), (''getNewVersionInfo'', client_GetNewVersionInfo),
      (''getNewVersionDescription'', client_GetNewVersionDescription), (''getCurrentVersionInfo'', client_GetCurrentVersionInfo),
      (''getCurrentVersionDescription'', client_GetCurrentVersionDescription), (''getTaskInfo'', client_GetTaskInfo),
      (''setUpgradePolicy'', client_SetUpgradePolicy), (''getUpgradePolicy'', client_GetUpgradePolicy),
      (''cancel'', client_CancelUpgrade), (''download'', client_Download), (''pauseDownload'', client_PauseDownload),
      (''resumeDownload'', client_ResumeDownload), (''upgrade'', client_Upgrade), (''clearError'', client_ClearError),
      (''terminateUpgrade'', client_TerminateUpgrade)]"

end
