(* ===== verification/Js_Facts.thy ===== *)
theory Js_Facts
  imports Js_Module
begin

text \<open>
  The steps of a script with its online updater, and the facts that the properties rest on: a well-formedness of the sessions
  that every step keeps, what a call can do, and what the work of a request leaves alone.
\<close>

section \<open>Steps\<close>

text \<open>The script calls a method, listens or stops listening; a thread of the pool executes a session; the script thread
  completes one or publishes an event to listeners that do nothing with the updater; the rest of the system changes. A process makes fewer than \<open>2 ^ 32\<close>
  sessions. The list is that of the sessions whose request was accepted.\<close>

inductive client_reach :: "UpdateClient \<Rightarrow> js_process \<Rightarrow> int list \<Rightarrow> UpdateClient \<Rightarrow> js_process \<Rightarrow> bool" for u0 g0 where
  start: "client_reach u0 g0 [] u0 g0"
| call: "client_reach u0 g0 acc u g \<Longrightarrow> jp_sessionId g + 1 < 2 ^ 32 \<Longrightarrow> (name, m) \<in> set DefineUpdateClient \<Longrightarrow>
    m args u g = (ret, u1, g1) \<Longrightarrow>
    client_reach u0 g0 (if accepted ret then jp_sessionId g1 # acc else acc) u1 g1"
| listen: "client_reach u0 g0 acc u g \<Longrightarrow> jp_sessionId g + 1 < 2 ^ 32 \<Longrightarrow> client_On e args u g = Some (ret, u1, g1) \<Longrightarrow>
    client_reach u0 g0 acc u1 g1"
| ignore: "client_reach u0 g0 acc u g \<Longrightarrow> client_Off e args u g = Some (ret, u1, g1) \<Longrightarrow> client_reach u0 g0 acc u1 g1"
| execute: "client_reach u0 g0 acc u g \<Longrightarrow> execute_session (client_run e) sid u g = (u1, g1) \<Longrightarrow> client_reach u0 g0 acc u1 g1"
| complete: "client_reach u0 g0 acc u g \<Longrightarrow> CompleteWork client_GetUpdateResult sid u g = (u1, g1) \<Longrightarrow>
    client_reach u0 g0 acc u1 g1"
| event: "client_reach u0 g0 acc u g \<Longrightarrow> PublishToJS (\<lambda>_ _ v h. Some (v, h)) classify event u g = Some (Published u1 g1) \<Longrightarrow>
    client_reach u0 g0 acc u1 g1"
| outside: "client_reach u0 g0 acc u g \<Longrightarrow> client_reach u0 g0 acc u (g\<lparr>jp_ipc := x\<rparr>)"

section \<open>Well-formed sessions\<close>

text \<open>A session is found under its number and has one that was given out; a listener is idle, a request is queued or executed
  and has what it needs to report its end.\<close>

definition session_ok :: "int \<Rightarrow> int \<times> 'w NapiSession \<Rightarrow> bool" where
  "session_ok counter e =
     (case e of (sid, s) \<Rightarrow>
        ns_sessionId s = sid \<and> 0 < sid \<and> sid \<le> counter \<and> \<not> ns_mutex s \<and> (ns_kind s = PROMISE \<or> ns_reference s \<noteq> None))"

definition sessions_ok :: "int \<Rightarrow> 'w sessions \<Rightarrow> bool" where
  "sessions_ok counter m =
     (cm_ok m \<and> 0 \<le> counter \<and> list_all (session_ok counter) m
      \<and> list_all (\<lambda>(_, s). (ns_kind s = LISTENER) = (GetType s = SESSION_SUBSCRIBE)
          \<and> (ns_kind s = LISTENER \<or> ns_stage s \<in> {QUEUED, EXECUTED})) m)"

lemma cm_del_put [simp]: "\<not> cm_has k m \<Longrightarrow> cm_del k (cm_put k v m) = m"
proof (induction k v m rule: cm_put.induct)
  case (2 k v a b m)
  then show ?case by (auto simp: cm_del_def cm_has_def filter_id_conv image_iff)
qed (simp add: cm_del_def)

lemma list_all_cm_put: "list_all P m \<Longrightarrow> P (k, v) \<Longrightarrow> list_all P (cm_put k v m)"
  by (auto simp: list_all_iff dest: cm_put_mem)

lemma list_all_cm_del: "list_all P m \<Longrightarrow> list_all P (cm_del k m)"
  by (auto simp: list_all_iff cm_del_def)

lemma list_all_cm_adj: "list_all P m \<Longrightarrow> (\<And>v. P (k, v) \<Longrightarrow> P (k, f v)) \<Longrightarrow> list_all P (cm_adj k f m)"
  by (auto simp: list_all_iff cm_adj_def)

lemma sessions_ok_mono: "sessions_ok n m \<Longrightarrow> n \<le> n' \<Longrightarrow> sessions_ok n' m"
  by (auto simp: sessions_ok_def session_ok_def list_all_iff)

lemma sessions_ok_fresh: "sessions_ok n m \<Longrightarrow> n < sid \<Longrightarrow> \<not> cm_has sid m"
  by (force simp: sessions_ok_def session_ok_def list_all_iff cm_has_def)

lemma sessions_ok_lookup:
  assumes "sessions_ok n m" "map_of m sid = Some s"
  shows "ns_sessionId s = sid" "0 < sid" "sid \<le> n" "\<not> ns_mutex s"
    "ns_kind s = ASYNC \<or> ns_kind s = LISTENER \<Longrightarrow> ns_reference s \<noteq> None"
    "(ns_kind s = LISTENER) = (GetType s = SESSION_SUBSCRIBE)"
  using assms map_of_SomeD [OF assms(2)] by (auto simp: sessions_ok_def session_ok_def list_all_iff)

lemma sessions_ok_del: "sessions_ok n m \<Longrightarrow> sessions_ok n (cm_del sid m)"
  by (simp add: sessions_ok_def list_all_cm_del cm_ok_del)

section \<open>A call\<close>

lemma IUpdater_fields [simp]:
  "iu_sessions (on_sessions f u) = f (iu_sessions u)"
  "jp_sessionId (see es g) = jp_sessionId g" "jp_seen (see es g) = jp_seen g @ es" "jp_ipc (see es g) = jp_ipc g"
  "jp_sessionId (on_ipc h g) = jp_sessionId g" "jp_seen (on_ipc h g) = jp_seen g" "jp_ipc (on_ipc h g) = h (jp_ipc g)"
  by (simp_all add: on_sessions_def see_def on_ipc_def)

lemma on_sessions_client [simp]:
  "uc_downloadOptions (on_sessions f v) = uc_downloadOptions v" "uc_upgradeInfo (on_sessions f v) = uc_upgradeInfo v"
  "uc_newVersionDescriptionInfo (on_sessions f v) = uc_newVersionDescriptionInfo v"
  "uc_currentVersionDescriptionInfo (on_sessions f v) = uc_currentVersionDescriptionInfo v"
  for v :: UpdateClient
  by (simp_all add: on_sessions_def)

text \<open>An unused number: the session is put under the next one, or the call is refused and the sessions are what they were.\<close>

lemma StartSession_cases:
  assumes "\<not> cm_has (u32 (jp_sessionId g + 1)) (iu_sessions u)" "par_type params \<noteq> SESSION_SUBSCRIBE"
    "StartSession args params function u g = (ret, u1, g1)"
  obtains (refused) "\<not> accepted ret" "iu_sessions u1 = iu_sessions u" "g1 = g\<lparr>jp_sessionId := u32 (jp_sessionId g + 1)\<rparr>"
  | (accepted) s where "accepted ret" "iu_sessions u1 = cm_put (u32 (jp_sessionId g + 1)) s (iu_sessions u)"
      "g1 = g\<lparr>jp_sessionId := u32 (jp_sessionId g + 1)\<rparr>" "ns_sessionId s = u32 (jp_sessionId g + 1)" "\<not> ns_mutex s"
      "ns_kind s = PROMISE \<or> ns_kind s = ASYNC \<and> ns_reference s \<noteq> None" "ns_stage s = QUEUED" "GetType s \<noteq> SESSION_SUBSCRIBE"
      "ns_doWorker s = Some function" "ns_params s = params"
proof (cases "par_callbackStartIndex params < length args")
  case True
  show thesis
  proof (cases "IsTypeOf (js_argument args (par_callbackStartIndex params)) T_function = CLIENT_SUCCESS")
    case yes: True
    show thesis
      by (rule accepted) (use True yes assms in \<open>auto simp: StartSession_def Let_def async_StartWork_def new_NapiSession_def accepted_def
          AddSession_def GetType_def\<close>)
  next
    case False
    show thesis
      by (rule refused) (use True False assms in \<open>auto simp: StartSession_def Let_def async_StartWork_def new_NapiSession_def accepted_def
          AddSession_def RemoveSession_def\<close>)
  qed
next
  case False
  show thesis
    by (rule accepted) (use False assms in \<open>auto simp: StartSession_def Let_def promise_StartWork_def new_NapiSession_def accepted_def
        AddSession_def GetType_def\<close>)
qed

section \<open>Events and scripts\<close>

text \<open>The sessions of an object as an event meets them: in the order of their numbers, which have been given out.\<close>

definition ids_ok :: "('w, 'm) IUpdater_scheme \<Rightarrow> js_process \<Rightarrow> bool" where
  "ids_ok u g = (cm_ok (iu_sessions u) \<and> (\<forall>k \<in> set (map fst (iu_sessions u)). k \<le> jp_sessionId g))"

definition listens :: "int \<Rightarrow> 'w NapiSession \<Rightarrow> bool" where
  "listens classify s = (GetType s = SESSION_SUBSCRIBE \<and> IsSubscribeEvent classify s)"

definition heard :: "int \<Rightarrow> js \<Rightarrow> 'w sessions \<Rightarrow> js_effect list" where
  "heard classify jsEvent m =
     map (\<lambda>(sid, s). Hears sid (js_arg (ns_reference s)) jsEvent) (filter (\<lambda>(sid, s). listens classify s) m)"

text \<open>A script that does not listen or stop listening in its callbacks: it makes requests, at most \<open>budget\<close> of them.\<close>

locale quiet_script =
  fixes react :: "('w, 'm) IUpdater_scheme script" and budget :: int
  assumes budget: "0 \<le> budget"
    and quiet: "ids_ok u g \<Longrightarrow> jp_sessionId g + budget < 2 ^ 32 \<Longrightarrow> 0 \<le> jp_sessionId g \<Longrightarrow>
      \<exists>u1 g1 new. react handler v u g = Some (u1, g1) \<and> iu_sessions u1 = iu_sessions u @ new \<and> ids_ok u1 g1
        \<and> list_all (\<lambda>(sid, s). jp_sessionId g < sid \<and> GetType s \<noteq> SESSION_SUBSCRIBE) new
        \<and> jp_sessionId g \<le> jp_sessionId g1 \<and> jp_sessionId g1 \<le> jp_sessionId g + budget \<and> jp_seen g1 = jp_seen g"

lemma cm_ok_split:
  assumes "cm_ok (pre @ (sid, s) # post)"
  shows "e \<in> set pre \<Longrightarrow> fst e < sid" "e \<in> set post \<Longrightarrow> sid < fst e"
proof -
  have no: "sid \<notin> fst ` set pre" "sid \<notin> fst ` set post" and le: "\<forall>x \<in> set pre. fst x \<le> sid" "\<forall>x \<in> set post. sid \<le> fst x"
    using assms by (simp_all add: cm_ok_def sorted_append)
  show "e \<in> set pre \<Longrightarrow> fst e < sid" using no(1) le(1) by (metis image_eqI order_less_le)
  show "e \<in> set post \<Longrightarrow> sid < fst e" using no(2) le(2) by (metis image_eqI order_less_le)
qed

lemma next_session_split:
  assumes "cm_ok (pre @ (sid, s) # post)"
  shows "next_session sid (pre @ (sid, s) # post) = (case post of [] \<Rightarrow> None | e # _ \<Rightarrow> Some (fst e))"
proof -
  have "filter (\<lambda>e. sid < fst e) pre = []" using cm_ok_split(1) [OF assms] by (simp add: filter_empty_conv) force
  moreover have "filter (\<lambda>e. sid < fst e) post = post" using cm_ok_split(2) [OF assms] by (simp add: filter_id_conv)
  ultimately show ?thesis by (simp add: next_session_def split: list.split)
qed

lemma cm_ok_split_lookup: "cm_ok (pre @ (sid, s) # post) \<Longrightarrow> map_of (pre @ (sid, s) # post) sid = Some s"
  by (intro map_of_is_SomeI) (auto simp: cm_ok_def)

lemma cm_adj_split:
  assumes "cm_ok (pre @ (sid, s) # post)"
  shows "cm_adj sid f (pre @ (sid, s) # post) = pre @ (sid, f s) # post"
proof -
  have "map (\<lambda>(a, b). (a, if a = sid then f b else b)) xs = xs" if "\<And>e. e \<in> set xs \<Longrightarrow> fst e \<noteq> sid" for xs
    using that by (induction xs) force+
  from this [of pre] this [of post] cm_ok_split [OF assms] show ?thesis by (force simp: cm_adj_def)
qed

lemma cm_ok_append_del: "cm_ok (m @ new) \<Longrightarrow> cm_ok m"
  by (auto simp: cm_ok_def sorted_append)

lemma mutex_free: "\<not> ns_mutex s \<Longrightarrow> s\<lparr>ns_mutex := True\<rparr>\<lparr>ns_mutex := False\<rparr> = s"
  by simp

lemma ids_ok_see [simp]: "ids_ok u (see es g) = ids_ok u g"
  by (simp add: ids_ok_def)

lemma ids_ok_on_sessions: "map fst (f (iu_sessions u)) = map fst (iu_sessions u) \<Longrightarrow> ids_ok (on_sessions f u) g = ids_ok u g"
  by (simp add: ids_ok_def cm_ok_def)

context quiet_script
begin

text \<open>One listener: the script sees the event once, the sessions are as before and requests of the script come after them.\<close>

lemma notify_one:
  assumes "BuildEventInfo event = (CLIENT_SUCCESS, jsEvent)" "ns_reference s = Some handler" "\<not> ns_mutex s"
    and "iu_sessions u = pre @ (sid, s) # post" "ids_ok u g" "0 \<le> jp_sessionId g" "jp_sessionId g + budget < 2 ^ 32"
  shows "\<exists>u1 g1 new. listener_NotifyJS react event sid s u g = Some (u1, g1) \<and> iu_sessions u1 = iu_sessions u @ new \<and> ids_ok u1 g1
    \<and> list_all (\<lambda>(sid, s). jp_sessionId g < sid \<and> GetType s \<noteq> SESSION_SUBSCRIBE) new
    \<and> jp_sessionId g \<le> jp_sessionId g1 \<and> jp_sessionId g1 \<le> jp_sessionId g + budget
    \<and> jp_seen g1 = jp_seen g @ [Hears sid handler jsEvent]"
proof -
  let ?lock = "cm_adj sid (ns_mutex_update (\<lambda>_. True))" and ?free = "cm_adj sid (ns_mutex_update (\<lambda>_. False))"
  let ?u = "on_sessions ?lock u" and ?g = "see [Hears sid handler jsEvent] g"
  have ok: "cm_ok (pre @ (sid, s) # post)" using assms(4,5) by (simp add: ids_ok_def)
  have "ids_ok ?u ?g" using assms(5) by (simp add: ids_ok_on_sessions)
  from quiet [OF this] assms(6,7) obtain u1 g1 new where r: "react handler jsEvent ?u ?g = Some (u1, g1)"
    "iu_sessions u1 = iu_sessions ?u @ new" "ids_ok u1 g1"
    "list_all (\<lambda>(sid, s). jp_sessionId g < sid \<and> GetType s \<noteq> SESSION_SUBSCRIBE) new"
    "jp_sessionId g \<le> jp_sessionId g1" "jp_sessionId g1 \<le> jp_sessionId g + budget" "jp_seen g1 = jp_seen ?g" by force
  let ?t = "s\<lparr>ns_mutex := True\<rparr>"
  have locked: "iu_sessions u1 = pre @ (sid, ?t) # (post @ new)" using r(2) assms(4) by (simp add: cm_adj_split [OF ok])
  have ok1: "cm_ok (pre @ (sid, ?t) # (post @ new))" using r(3) locked by (simp add: ids_ok_def)
  have "?free (iu_sessions u1) = pre @ (sid, s) # (post @ new)"
    using assms(3) unfolding locked cm_adj_split [OF ok1] by simp
  then have "iu_sessions (on_sessions ?free u1) = iu_sessions u @ new" using assms(4) by simp
  moreover have "ids_ok (on_sessions ?free u1) g1" using r(3) by (simp add: ids_ok_on_sessions)
  moreover have "listener_NotifyJS react event sid s u g = Some (on_sessions ?free u1, g1)"
    using assms(1,2) r(1) by (simp add: listener_NotifyJS_def)
  ultimately show ?thesis using r(4-7) by fastforce
qed

text \<open>From one session on: everybody who listens hears the event once, in order.\<close>

lemma publish_all:
  assumes "BuildEventInfo event = (CLIENT_SUCCESS, jsEvent)" "iu_sessions u = pre @ post" "post \<noteq> []" "ids_ok u g"
    and "0 \<le> jp_sessionId g" "jp_sessionId g + budget * int (length (filter (\<lambda>(_, s). listens classify s) post)) < 2 ^ 32"
    and "list_all (\<lambda>(_, s). listens classify s \<longrightarrow> ns_reference s \<noteq> None \<and> \<not> ns_mutex s) post"
  shows "\<exists>u1 g1. publish_from react classify event (fst (hd post)) u g = Some (Published u1 g1)
    \<and> jp_seen g1 = jp_seen g @ heard classify jsEvent post
    \<and> (\<exists>new. iu_sessions u1 = iu_sessions u @ new \<and> list_all (\<lambda>(sid, s). jp_sessionId g < sid) new) \<and> ids_ok u1 g1
    \<and> jp_sessionId g \<le> jp_sessionId g1
    \<and> jp_sessionId g1 \<le> jp_sessionId g + budget * int (length (filter (\<lambda>(_, s). listens classify s) post))"
  using assms(2-)
proof (induction "(length (filter (\<lambda>(_, s). listens classify s) post), length post)" arbitrary: pre post u g
    rule: wf_induct_rule [OF wf_lex_prod [OF wf_less_than wf_less_than]])
  case 1
  obtain sid s rest where post: "post = (sid, s) # rest" using "1.prems"(2) by (cases post) auto
  have ok: "cm_ok (pre @ (sid, s) # rest)" using "1.prems"(1,3) post by (simp add: ids_ok_def)
  have look: "map_of (iu_sessions u) sid = Some s" using cm_ok_split_lookup [OF ok] "1.prems"(1) post by simp
  have step: "\<exists>u1 g1 new. (if GetType s \<noteq> SESSION_SUBSCRIBE \<or> \<not> IsSubscribeEvent classify s then Some (u, g)
        else listener_NotifyJS react event sid s u g) = Some (u1, g1) \<and> iu_sessions u1 = iu_sessions u @ new \<and> ids_ok u1 g1
      \<and> list_all (\<lambda>(sid, s). jp_sessionId g < sid \<and> GetType s \<noteq> SESSION_SUBSCRIBE) new
      \<and> jp_sessionId g \<le> jp_sessionId g1 \<and> jp_sessionId g1 \<le> jp_sessionId g + (if listens classify s then budget else 0)
      \<and> (listens classify s \<or> new = []) \<and> jp_seen g1 = jp_seen g @ heard classify jsEvent [(sid, s)]"
  proof (cases "listens classify s")
    case True
    with "1.prems"(6) post obtain h where h: "ns_reference s = Some h" "\<not> ns_mutex s" by auto
    have "jp_sessionId g + budget < 2 ^ 32"
      using "1.prems"(5) True post budget by (simp add: algebra_simps) (smt (verit) mult_nonneg_nonneg of_nat_0_le_iff)
    from notify_one [where pre = pre and post = rest, OF assms(1) h _ "1.prems"(3,4) this] "1.prems"(1) post True h show ?thesis
      by (simp add: listens_def heard_def js_arg_def)
  next
    case False
    with "1.prems" show ?thesis by (auto simp: listens_def heard_def)
  qed
  then obtain u1 g1 new where st: "(if GetType s \<noteq> SESSION_SUBSCRIBE \<or> \<not> IsSubscribeEvent classify s then Some (u, g)
        else listener_NotifyJS react event sid s u g) = Some (u1, g1)"
    and new: "iu_sessions u1 = iu_sessions u @ new" "ids_ok u1 g1"
      "list_all (\<lambda>(sid, s). jp_sessionId g < sid \<and> GetType s \<noteq> SESSION_SUBSCRIBE) new" "listens classify s \<or> new = []"
    and ids: "jp_sessionId g \<le> jp_sessionId g1" "jp_sessionId g1 \<le> jp_sessionId g + (if listens classify s then budget else 0)"
    and seen: "jp_seen g1 = jp_seen g @ heard classify jsEvent [(sid, s)]" by blast
  have split: "iu_sessions u1 = pre @ (sid, s) # (rest @ new)" using new(1) "1.prems"(1) post by simp
  have ok1: "cm_ok (pre @ (sid, s) # (rest @ new))" using new(2) split by (simp add: ids_ok_def)
  have has: "cm_has sid (iu_sessions u1)" using split by (simp add: cm_has_def)
  have quiet_new: "filter (\<lambda>(_, s). listens classify s) new = []"
    using new(3) by (auto simp: list_all_iff filter_empty_conv listens_def)
  have unf: "publish_from react classify event (fst (hd post)) u g =
      (case next_session sid (iu_sessions u1) of None \<Rightarrow> Some (Published u1 g1) | Some sid1 \<Rightarrow> publish_from react classify event sid1 u1 g1)"
    unfolding post list.sel fst_conv
    by (subst publish_from.simps) (simp only: look st has option.case prod.case not_True_eq_False if_False)
  show ?case
  proof (cases "rest @ new")
    case Nil
    with unf split next_session_split [OF ok1] seen new ids post show ?thesis by (auto split: if_splits)
  next
    case (Cons e es)
    have lt: "((length (filter (\<lambda>(_, s). listens classify s) (rest @ new)), length (rest @ new)),
        (length (filter (\<lambda>(_, s). listens classify s) post), length post)) \<in> less_than <*lex*> less_than"
      using quiet_new new(4) post by auto
    have bound: "jp_sessionId g1 + budget * int (length (filter (\<lambda>(_, s). listens classify s) (rest @ new))) < 2 ^ 32"
      using "1.prems"(5) ids(2) quiet_new post by (auto simp: algebra_simps split: if_splits)
    have refs: "list_all (\<lambda>(_, s). listens classify s \<longrightarrow> ns_reference s \<noteq> None \<and> \<not> ns_mutex s) (rest @ new)"
      using "1.prems"(6) post new(3) by (auto simp: list_all_iff listens_def)
    have "iu_sessions u1 = (pre @ [(sid, s)]) @ (rest @ new)" using split by simp
    from "1.hyps" [OF lt this _ new(2) _ bound refs] Cons ids(1) "1.prems"(4) obtain u2 g2 where r:
      "publish_from react classify event (fst (hd (rest @ new))) u1 g1 = Some (Published u2 g2)"
      "jp_seen g2 = jp_seen g1 @ heard classify jsEvent (rest @ new)"
      "\<exists>new. iu_sessions u2 = iu_sessions u1 @ new \<and> list_all (\<lambda>(sid, s). jp_sessionId g1 < sid) new" "ids_ok u2 g2"
      "jp_sessionId g1 \<le> jp_sessionId g2"
      "jp_sessionId g2 \<le> jp_sessionId g1 + budget * int (length (filter (\<lambda>(_, s). listens classify s) (rest @ new)))" by auto
    have more_room: "jp_sessionId g2 \<le> jp_sessionId g + budget * int (length (filter (\<lambda>(_, s). listens classify s) post))"
      using r(6) ids(2) quiet_new post by (auto simp: algebra_simps split: if_splits)
    from r(3) new(1,3) ids(1) have grown:
      "\<exists>new. iu_sessions u2 = iu_sessions u @ new \<and> list_all (\<lambda>(sid, s). jp_sessionId g < sid) new"
      by (fastforce simp: list_all_iff)
    have "heard classify jsEvent (rest @ new) = heard classify jsEvent rest" using quiet_new by (simp add: heard_def)
    with r(1,2,4) grown more_room seen unf split next_session_split [OF ok1] Cons post show ?thesis
      using order_trans [OF ids(1) r(5)] by (auto simp: heard_def)
  qed
qed

end

section \<open>The methods of the online updater\<close>

text \<open>A method refuses its arguments and makes no session, or it starts a session that is not a listener.\<close>

fun work_type :: "client_work \<Rightarrow> int" where
  "work_type W_CheckNewVersion = SESSION_CHECK_VERSION" | "work_type W_CancelUpgrade = SESSION_CANCEL_UPGRADE"
| "work_type W_Download = SESSION_DOWNLOAD" | "work_type W_PauseDownload = SESSION_PAUSE_DOWNLOAD"
| "work_type W_ResumeDownload = SESSION_RESUME_DOWNLOAD" | "work_type W_Upgrade = SESSION_UPGRADE"
| "work_type W_ClearError = SESSION_CLEAR_ERROR" | "work_type W_TerminateUpgrade = SESSION_TERMINATE_UPGRADE"
| "work_type W_SetUpgradePolicy = SESSION_SET_POLICY" | "work_type W_GetUpgradePolicy = SESSION_GET_POLICY"
| "work_type W_GetNewVersionInfo = SESSION_GET_NEW_VERSION"
| "work_type W_GetNewVersionDescription = SESSION_GET_NEW_VERSION_DESCRIPTION"
| "work_type W_GetCurrentVersionInfo = SESSION_GET_CUR_VERSION"
| "work_type W_GetCurrentVersionDescription = SESSION_GET_CUR_VERSION_DESCRIPTION"
| "work_type W_GetTaskInfo = SESSION_GET_TASK_INFO"

lemma work_type_not_subscribe: "work_type w \<noteq> SESSION_SUBSCRIBE"
  by (cases w) (simp_all add: session_types)

definition call_shape :: "js list \<Rightarrow> UpdateClient \<Rightarrow> js_process \<Rightarrow> js_return \<times> UpdateClient \<times> js_process \<Rightarrow> bool" where
  "call_shape args u g r =
     ((\<exists>ex u1. r = (Throws ex, u1, g) \<and> iu_sessions u1 = iu_sessions u)
      \<or> (\<exists>u1 pos w. r = client_request (work_type w) pos w args u1 g \<and> iu_sessions u1 = iu_sessions u))"

lemma call_shape_refused: "iu_sessions v = iu_sessions u \<Longrightarrow> call_shape args u g (Throws e, v, g)"
  by (simp add: call_shape_def)

lemma call_shape_started:
  "iu_sessions v = iu_sessions u \<Longrightarrow> t = work_type w \<Longrightarrow> call_shape args u g (client_request t p w args v g)"
  unfolding call_shape_def by blast

lemma client_method_shape: "(name, m) \<in> set DefineUpdateClient \<Longrightarrow> call_shape args u g (m args u g)"
  unfolding DefineUpdateClient_def
  by (auto simp: client_CheckNewVersion_def client_GetNewVersionInfo_def client_GetNewVersionDescription_def
      client_GetCurrentVersionInfo_def client_GetCurrentVersionDescription_def client_GetTaskInfo_def client_SetUpgradePolicy_def
      client_GetUpgradePolicy_def client_CancelUpgrade_def client_Download_def client_PauseDownload_def client_ResumeDownload_def
      client_Upgrade_def client_ClearError_def client_TerminateUpgrade_def Let_def
      intro!: call_shape_refused call_shape_started split: prod.split)

text \<open>What a call does to the sessions and to the process.\<close>

lemma client_method_cases:
  assumes "(name, m) \<in> set DefineUpdateClient" "m args u g = (ret, u1, g1)" "jp_sessionId g + 1 < 2 ^ 32" "0 \<le> jp_sessionId g"
    and "\<not> cm_has (jp_sessionId g + 1) (iu_sessions u)"
  obtains (refused) "\<not> accepted ret" "iu_sessions u1 = iu_sessions u" "g1 = g \<or> g1 = g\<lparr>jp_sessionId := jp_sessionId g + 1\<rparr>"
  | (accepted) s where "accepted ret" "iu_sessions u1 = cm_put (jp_sessionId g + 1) s (iu_sessions u)"
      "g1 = g\<lparr>jp_sessionId := jp_sessionId g + 1\<rparr>" "ns_sessionId s = jp_sessionId g + 1" "\<not> ns_mutex s"
      "ns_kind s = PROMISE \<or> ns_kind s = ASYNC \<and> ns_reference s \<noteq> None" "ns_stage s = QUEUED" "GetType s \<noteq> SESSION_SUBSCRIBE"
      "\<exists>w. ns_doWorker s = Some (Request w) \<and> GetType s = work_type w" "par_isNeedBusinessError (ns_params s)"
      "\<not> par_isAsyncCompleteWork (ns_params s)"
proof -
  have wrap: "u32 (jp_sessionId g + 1) = jp_sessionId g + 1" using assms(3,4) by (simp add: u32_def)
  from client_method_shape [OF assms(1), of args u g] assms(2)
  consider ex where "ret = Throws ex" "g1 = g" "iu_sessions u1 = iu_sessions u"
    | v pos w where "client_request (work_type w) pos w args v g = (ret, u1, g1)" "iu_sessions v = iu_sessions u"
    unfolding call_shape_def by fastforce
  then show thesis
  proof cases
    case 1
    then show thesis by (intro refused) (simp_all add: accepted_def)
  next
    case 2
    have s: "StartSession args (new_SessionParams (work_type w) pos True) (Request w) v g = (ret, u1, g1)"
      using 2(1) by (simp add: client_request_def)
    have no: "\<not> cm_has (u32 (jp_sessionId g + 1)) (iu_sessions v)" using assms(5) wrap 2(2) by simp
    have ty: "par_type (new_SessionParams (work_type w) pos True) \<noteq> SESSION_SUBSCRIBE"
      by (simp add: new_SessionParams_def work_type_not_subscribe)
    show thesis
    proof (rule StartSession_cases [OF no ty s])
      assume "\<not> accepted ret" "iu_sessions u1 = iu_sessions v" "g1 = g\<lparr>jp_sessionId := u32 (jp_sessionId g + 1)\<rparr>"
      then show thesis using refused 2(2) wrap by simp
    next
      fix s assume "accepted ret" "iu_sessions u1 = cm_put (u32 (jp_sessionId g + 1)) s (iu_sessions v)"
        "g1 = g\<lparr>jp_sessionId := u32 (jp_sessionId g + 1)\<rparr>" "ns_sessionId s = u32 (jp_sessionId g + 1)" "\<not> ns_mutex s"
        "ns_kind s = PROMISE \<or> ns_kind s = ASYNC \<and> ns_reference s \<noteq> None" "ns_stage s = QUEUED" "GetType s \<noteq> SESSION_SUBSCRIBE"
        "ns_doWorker s = Some (Request w)" "ns_params s = new_SessionParams (work_type w) pos True"
      then show thesis using accepted [of s] 2(2) wrap by (simp add: GetType_def new_SessionParams_def)
    qed
  qed
qed

text \<open>A script whose callbacks make requests.\<close>

fun make_requests :: "(string \<times> js list) list \<Rightarrow> UpdateClient \<Rightarrow> js_process \<Rightarrow> UpdateClient \<times> js_process" where
  "make_requests [] u g = (u, g)"
| "make_requests ((name, args) # calls) u g =
     (case map_of DefineUpdateClient name of
        None \<Rightarrow> make_requests calls u g
      | Some m \<Rightarrow> (case m args u g of (_, u1, g1) \<Rightarrow> make_requests calls u1 g1))"

definition requesting :: "(string \<times> js list) list \<Rightarrow> UpdateClient script" where
  "requesting calls handler v u g = Some (make_requests calls u g)"

lemma make_requests_quiet:
  "ids_ok u g \<Longrightarrow> 0 \<le> jp_sessionId g \<Longrightarrow> jp_sessionId g + int (length calls) < 2 ^ 32 \<Longrightarrow> make_requests calls u g = (u1, g1) \<Longrightarrow>
     \<exists>new. iu_sessions u1 = iu_sessions u @ new \<and> ids_ok u1 g1
       \<and> list_all (\<lambda>(sid, s). jp_sessionId g < sid \<and> GetType s \<noteq> SESSION_SUBSCRIBE) new
       \<and> jp_sessionId g \<le> jp_sessionId g1 \<and> jp_sessionId g1 \<le> jp_sessionId g + int (length calls) \<and> jp_seen g1 = jp_seen g"
proof (induction calls u g rule: make_requests.induct)
  case (2 name args calls u g)
  show ?case
  proof (cases "map_of DefineUpdateClient name")
    case None
    with "2.prems" "2.IH"(1) show ?thesis by fastforce
  next
    case (Some m)
    obtain ret v h where call: "m args u g = (ret, v, h)" by (cases "m args u g") auto
    have fresh: "\<not> cm_has (jp_sessionId g + 1) (iu_sessions u)" using "2.prems"(1) by (force simp: ids_ok_def cm_has_def)
    have below: "\<forall>a \<in> set (map fst (iu_sessions u)). a < jp_sessionId g + 1" using "2.prems"(1) by (auto simp: ids_ok_def)
    have room: "jp_sessionId g + 1 < 2 ^ 32" using "2.prems"(3) by simp
    have one: "\<exists>new. iu_sessions v = iu_sessions u @ new \<and> ids_ok v h
        \<and> list_all (\<lambda>(sid, s). jp_sessionId g < sid \<and> GetType s \<noteq> SESSION_SUBSCRIBE) new
        \<and> jp_sessionId g \<le> jp_sessionId h \<and> jp_sessionId h \<le> jp_sessionId g + 1 \<and> jp_seen h = jp_seen g"
    proof (rule client_method_cases [OF map_of_SomeD [OF Some] call room "2.prems"(2) fresh])
      assume "iu_sessions v = iu_sessions u" "h = g \<or> h = g\<lparr>jp_sessionId := jp_sessionId g + 1\<rparr>"
      with "2.prems"(1) show ?thesis by (auto simp: ids_ok_def)
    next
      fix s assume s: "iu_sessions v = cm_put (jp_sessionId g + 1) s (iu_sessions u)" "h = g\<lparr>jp_sessionId := jp_sessionId g + 1\<rparr>"
        "GetType s \<noteq> SESSION_SUBSCRIBE"
      then have "ids_ok v h" using "2.prems"(1) by (auto simp: ids_ok_def cm_ok_put)
      with s cm_put_last [OF below] show ?thesis by force
    qed
    then obtain new where new: "iu_sessions v = iu_sessions u @ new" "ids_ok v h"
      "list_all (\<lambda>(sid, s). jp_sessionId g < sid \<and> GetType s \<noteq> SESSION_SUBSCRIBE) new"
      "jp_sessionId g \<le> jp_sessionId h" "jp_sessionId h \<le> jp_sessionId g + 1" "jp_seen h = jp_seen g" by blast
    have rest: "make_requests calls v h = (u1, g1)" using "2.prems"(4) Some call by simp
    have "0 \<le> jp_sessionId h" "jp_sessionId h + int (length calls) < 2 ^ 32" using new(4,5) "2.prems"(2,3) by auto
    from "2.IH"(2) [OF Some call [symmetric] refl new(2) this rest] obtain new2 where
      "iu_sessions u1 = iu_sessions v @ new2" "ids_ok u1 g1"
      "list_all (\<lambda>(sid, s). jp_sessionId h < sid \<and> GetType s \<noteq> SESSION_SUBSCRIBE) new2"
      "jp_sessionId h \<le> jp_sessionId g1" "jp_sessionId g1 \<le> jp_sessionId h + int (length calls)" "jp_seen g1 = jp_seen h" by blast
    with new show ?thesis by (intro exI [of _ "new @ new2"]) (auto simp: list_all_iff)
  qed
qed auto

interpretation requesting: quiet_script "requesting calls" "int (length calls)" for calls
proof
  fix u :: UpdateClient and g :: js_process and handler v
  assume "ids_ok u g" "jp_sessionId g + int (length calls) < 2 ^ 32" "0 \<le> jp_sessionId g"
  from make_requests_quiet [OF this(1,3,2)] show "\<exists>u1 g1 new. requesting calls handler v u g = Some (u1, g1) \<and>
      iu_sessions u1 = iu_sessions u @ new \<and> ids_ok u1 g1
      \<and> list_all (\<lambda>(sid, s). jp_sessionId g < sid \<and> GetType s \<noteq> SESSION_SUBSCRIBE) new
      \<and> jp_sessionId g \<le> jp_sessionId g1 \<and> jp_sessionId g1 \<le> jp_sessionId g + int (length calls) \<and> jp_seen g1 = jp_seen g"
    by (cases "make_requests calls u g") (simp add: requesting_def)
qed simp

end
