(* ===== verification/Js_Steps.thy ===== *)
theory Js_Steps
  imports Js_Facts
begin

text \<open>
  What the steps of \<open>client_reach\<close> do to the sessions, and the invariant of all of them: every accepted request is waiting or
  was settled, and never both.
\<close>

section \<open>Executing and completing\<close>

lemma client_run_keeps:
  "client_run e w u g = (ret, err, u1, g1) \<Longrightarrow>
     iu_sessions u1 = iu_sessions u \<and> jp_sessionId g1 = jp_sessionId g \<and> jp_seen g1 = jp_seen g"
  by (cases w) (auto simp: done_work_def starts_flows_def split: prod.splits if_splits)

text \<open>A session after its execution, as far as it is what it was.\<close>

definition same_session :: "'w NapiSession \<Rightarrow> 'w NapiSession \<Rightarrow> bool" where
  "same_session s t =
     (ns_sessionId t = ns_sessionId s \<and> ns_kind t = ns_kind s \<and> ns_params t = ns_params s \<and> ns_reference t = ns_reference s
      \<and> ns_mutex t = ns_mutex s \<and> ns_doWorker t = ns_doWorker s)"

lemma ExecuteWork_keeps:
  assumes "ExecuteWork (client_run e) s u g = (s1, u1, g1)"
  shows "same_session s s1" "iu_sessions u1 = iu_sessions u" "jp_sessionId g1 = jp_sessionId g" "jp_seen g1 = jp_seen g"
proof -
  have "same_session s s1 \<and> iu_sessions u1 = iu_sessions u \<and> jp_sessionId g1 = jp_sessionId g \<and> jp_seen g1 = jp_seen g"
  proof (cases "ns_doWorker s")
    case None
    with assms show ?thesis by (auto simp: ExecuteWork_def same_session_def)
  next
    case (Some w)
    show ?thesis
    proof (cases w)
      case (Request r)
      obtain ret err v h where run: "client_run e r u g = (ret, err, v, h)" by (cases "client_run e r u g") auto
      from client_run_keeps [OF run] assms show ?thesis
        by (auto simp: ExecuteWork_def Some Request run same_session_def Let_def split: if_splits)
    next
      case ParamErrorWorker
      with assms Some show ?thesis by (auto simp: ExecuteWork_def same_session_def Let_def split: if_splits)
    qed
  qed
  then show "same_session s s1" "iu_sessions u1 = iu_sessions u" "jp_sessionId g1 = jp_sessionId g" "jp_seen g1 = jp_seen g"
    by simp_all
qed

lemma execute_cases:
  assumes "execute_session (client_run e) sid u g = (u1, g1)"
  obtains (idle) "u1 = u" "g1 = g"
  | (ran) s t where "map_of (iu_sessions u) sid = Some s" "ns_stage s = QUEUED" "same_session s t" "ns_stage t = EXECUTED"
      "iu_sessions u1 = cm_adj sid (\<lambda>_. t) (iu_sessions u)" "jp_sessionId g1 = jp_sessionId g" "jp_seen g1 = jp_seen g"
proof (cases "map_of (iu_sessions u) sid")
  case None
  with assms show thesis by (intro idle) (auto simp: execute_session_def)
next
  case (Some s)
  show thesis
  proof (cases "ns_stage s = QUEUED")
    case True
    obtain s1 v h where run: "ExecuteWork (client_run e) s u g = (s1, v, h)" by (cases "ExecuteWork (client_run e) s u g") auto
    note keeps = ExecuteWork_keeps [OF run]
    show thesis
      by (rule ran [of s "s1\<lparr>ns_stage := EXECUTED\<rparr>"])
        (use keeps assms Some True run in \<open>auto simp: execute_session_def same_session_def\<close>)
  next
    case False
    with Some assms show thesis by (intro idle) (auto simp: execute_session_def)
  qed
qed

lemma settled_at_most_one: "length (session_NotifyJS r s) \<le> 1"
proof (cases "ns_kind s")
  case ASYNC
  obtain st v where "buildJSObject (GetType s) r = (st, v)" by (cases "buildJSObject (GetType s) r") auto
  with ASYNC show ?thesis by (simp add: session_NotifyJS_def async_NotifyJS_def Let_def split: option.split)
next
  case PROMISE
  then show ?thesis by (simp add: session_NotifyJS_def promise_NotifyJS_def Let_def split: option.split)
qed (simp add: session_NotifyJS_def)

lemma settles_itself:
  assumes "eff \<in> set (session_NotifyJS r s)"
  shows "settled_session eff = Some (ns_sessionId s)"
proof (cases "ns_kind s")
  case ASYNC
  obtain st v where "buildJSObject (GetType s) r = (st, v)" by (cases "buildJSObject (GetType s) r") auto
  with ASYNC assms show ?thesis
    by (cases "ns_reference s") (auto simp: session_NotifyJS_def async_NotifyJS_def Let_def split: if_splits)
next
  case PROMISE
  with assms show ?thesis
    by (cases "snd (buildJSObject (GetType s) r)"; cases "BuildBusinessError (GetBusinessError (ns_businessError s) s)")
      (auto simp: session_NotifyJS_def promise_NotifyJS_def Let_def split: if_splits)
next
  case LISTENER
  with assms show ?thesis by (simp add: session_NotifyJS_def)
qed

section \<open>The invariant\<close>

definition waiting :: "int \<Rightarrow> ('w, 'm) IUpdater_scheme \<Rightarrow> bool" where
  "waiting sid u = (case map_of (iu_sessions u) sid of Some s \<Rightarrow> ns_kind s \<noteq> LISTENER | None \<Rightarrow> False)"

definition settlements :: "int \<Rightarrow> js_process \<Rightarrow> nat" where
  "settlements sid g = length (filter (\<lambda>eff. settled_session eff = Some sid) (jp_seen g))"

definition client_inv :: "int list \<Rightarrow> UpdateClient \<Rightarrow> js_process \<Rightarrow> bool" where
  "client_inv acc u g =
     (sessions_ok (jp_sessionId g) (iu_sessions u) \<and> distinct acc \<and> (\<forall>sid \<in> set acc. sid \<le> jp_sessionId g)
      \<and> (\<forall>sid. settlements sid g + (if waiting sid u then 1 else 0) \<le> (if sid \<in> set acc then 1 else 0)))"

lemma client_inv_ids: "client_inv acc u g \<Longrightarrow> 0 \<le> jp_sessionId g"
  by (simp add: client_inv_def sessions_ok_def)

text \<open>A step that leaves the counter and what was seen alone, and the requests that wait.\<close>

lemma client_inv_same:
  assumes "client_inv acc u g" "sessions_ok (jp_sessionId g1) (iu_sessions u1)" "jp_sessionId g \<le> jp_sessionId g1"
    and "\<And>sid. settlements sid g1 = settlements sid g" "\<And>sid. waiting sid u1 \<Longrightarrow> waiting sid u"
  shows "client_inv acc u1 g1"
proof -
  have "settlements sid g1 + (if waiting sid u1 then 1 else 0) \<le> settlements sid g + (if waiting sid u then 1 else 0)" for sid
    using assms(4,5) [of sid] by auto
  moreover have "sid \<le> jp_sessionId g1" if "sid \<in> set acc" for sid
    using assms(1,3) that by (force simp: client_inv_def)
  ultimately show ?thesis using assms(1,2) unfolding client_inv_def by (meson le_trans)
qed

lemma client_inv_call:
  assumes inv: "client_inv acc u g" and room: "jp_sessionId g + 1 < 2 ^ 32" and m: "(name, m) \<in> set DefineUpdateClient"
    and r: "m args u g = (ret, u1, g1)"
  shows "client_inv (if accepted ret then jp_sessionId g1 # acc else acc) u1 g1"
proof -
  have ok: "sessions_ok (jp_sessionId g) (iu_sessions u)" using inv by (simp add: client_inv_def)
  have fresh: "\<not> cm_has (jp_sessionId g + 1) (iu_sessions u)" by (rule sessions_ok_fresh [OF ok]) simp
  show ?thesis
  proof (rule client_method_cases [OF m r room client_inv_ids [OF inv] fresh])
    assume a: "\<not> accepted ret" "iu_sessions u1 = iu_sessions u" "g1 = g \<or> g1 = g\<lparr>jp_sessionId := jp_sessionId g + 1\<rparr>"
    then have "client_inv acc u1 g1"
      by (intro client_inv_same [OF inv]) (auto simp: settlements_def waiting_def intro: sessions_ok_mono [OF ok])
    with a show ?thesis by simp
  next
    fix s
    assume a: "accepted ret" "iu_sessions u1 = cm_put (jp_sessionId g + 1) s (iu_sessions u)"
      "g1 = g\<lparr>jp_sessionId := jp_sessionId g + 1\<rparr>" "ns_sessionId s = jp_sessionId g + 1" "\<not> ns_mutex s"
      "ns_kind s = PROMISE \<or> ns_kind s = ASYNC \<and> ns_reference s \<noteq> None" "ns_stage s = QUEUED" "GetType s \<noteq> SESSION_SUBSCRIBE"
    have "sessions_ok (jp_sessionId g1) (iu_sessions u1)"
      using sessions_ok_mono [OF ok, of "jp_sessionId g + 1"] a client_inv_ids [OF inv]
      by (auto simp: sessions_ok_def session_ok_def intro!: list_all_cm_put cm_ok_put)
    moreover have new: "jp_sessionId g + 1 \<notin> set acc" using inv by (auto simp: client_inv_def)
    moreover have "sid \<le> jp_sessionId g1" if "sid \<in> set (jp_sessionId g1 # acc)" for sid
      using that inv a by (force simp: client_inv_def)
    moreover have "settlements sid g1 + (if waiting sid u1 then 1 else 0) \<le> (if sid \<in> set (jp_sessionId g1 # acc) then 1 else 0)" for sid
    proof -
      have le: "settlements sid g + (if waiting sid u then 1 else 0) \<le> (if sid \<in> set acc then 1 else 0)"
        using inv by (simp add: client_inv_def)
      have "settlements sid g1 = settlements sid g" using a by (simp add: settlements_def)
      then show ?thesis
        using le new a by (cases "sid = jp_sessionId g + 1") (auto simp: waiting_def split: if_splits)
    qed
    ultimately show ?thesis using inv a unfolding client_inv_def by auto
  qed
qed

lemma client_inv_execute:
  assumes inv: "client_inv acc u g" and r: "execute_session (client_run e) sid u g = (u1, g1)"
  shows "client_inv acc u1 g1"
proof (rule execute_cases [OF r])
  assume "u1 = u" "g1 = g"
  with inv show ?thesis by simp
next
  fix s t
  assume a: "map_of (iu_sessions u) sid = Some s" "ns_stage s = QUEUED" "same_session s t" "ns_stage t = EXECUTED"
    "iu_sessions u1 = cm_adj sid (\<lambda>_. t) (iu_sessions u)" "jp_sessionId g1 = jp_sessionId g" "jp_seen g1 = jp_seen g"
  have ok: "sessions_ok (jp_sessionId g) (iu_sessions u)" using inv by (simp add: client_inv_def)
  note l = sessions_ok_lookup [OF ok a(1)]
  have t: "session_ok (jp_sessionId g) (sid, t)"
    using l a(3) by (cases "ns_kind s") (auto simp: session_ok_def same_session_def)
  have kind: "(ns_kind t = LISTENER) = (GetType t = SESSION_SUBSCRIBE)"
    using l(6) a(3) by (simp add: same_session_def GetType_def)
  have "sessions_ok (jp_sessionId g1) (iu_sessions u1)"
    unfolding a(5,6) sessions_ok_def
    using ok t kind a(4) by (intro conjI list_all_cm_adj) (auto simp: sessions_ok_def cm_ok_adj)
  then show ?thesis
    by (rule client_inv_same [OF inv])
      (use a in \<open>auto simp: settlements_def waiting_def same_session_def split: option.splits if_splits\<close>)
qed

lemma client_inv_complete:
  assumes inv: "client_inv acc u g" and r: "CompleteWork client_GetUpdateResult sid u g = (u1, g1)"
  shows "client_inv acc u1 g1"
proof (cases "map_of (iu_sessions u) sid")
  case None
  with inv r show ?thesis by (simp add: CompleteWork_def)
next
  case (Some s)
  show ?thesis
  proof (cases "ns_stage s = EXECUTED")
    case False
    with inv r Some show ?thesis by (simp add: CompleteWork_def)
  next
    case True
    let ?es = "session_NotifyJS (client_GetUpdateResult (GetType s) u) s"
    have u1: "u1 = IUpdater_RemoveSession sid u" "g1 = see ?es g" using r Some True by (simp_all add: CompleteWork_def)
    have ok: "sessions_ok (jp_sessionId g) (iu_sessions u)" using inv by (simp add: client_inv_def)
    note l = sessions_ok_lookup [OF ok Some]
    have listener: "?es = []" if "ns_kind s = LISTENER" using that by (simp add: session_NotifyJS_def)
    have es: "length (filter (\<lambda>eff. settled_session eff = Some k) ?es) \<le> (if k = sid \<and> ns_kind s \<noteq> LISTENER then 1 else 0)" for k
    proof (cases "k = sid")
      case True
      then show ?thesis using settled_at_most_one [of "client_GetUpdateResult (GetType s) u" s] listener
        by (auto intro: le_trans [OF length_filter_le])
    next
      case False
      then show ?thesis using settles_itself [of _ "client_GetUpdateResult (GetType s) u" s] l(1) by (auto simp: filter_empty_conv)
    qed
    have "settlements k g1 + (if waiting k u1 then 1 else 0) \<le> settlements k g + (if waiting k u then 1 else 0)" for k
      using es [of k] Some u1
      by (auto simp: settlements_def waiting_def IUpdater_RemoveSession_def RemoveSession_def split: if_splits option.splits)
    moreover have "settlements k g + (if waiting k u then 1 else 0) \<le> (if k \<in> set acc then 1 else 0)" for k
      using inv by (simp add: client_inv_def)
    ultimately have "settlements k g1 + (if waiting k u1 then 1 else 0) \<le> (if k \<in> set acc then 1 else 0)" for k
      by (meson le_trans)
    moreover have "sessions_ok (jp_sessionId g1) (iu_sessions u1)"
      using sessions_ok_del [OF ok, of sid] u1 by (simp add: IUpdater_RemoveSession_def RemoveSession_def)
    ultimately show ?thesis using inv u1(2) by (simp add: client_inv_def)
  qed
qed

end
