(* ===== verification/Js_Reach.thy ===== *)
theory Js_Reach
  imports Js_Steps
begin

text \<open>
  Listening, stopping to listen and events keep the invariant of the requests, so it holds in every state that a script reaches.
\<close>

section \<open>Listening\<close>

lemma client_On_cases:
  assumes "client_On e args u g = Some (ret, u1, g1)" "jp_sessionId g + 1 < 2 ^ 32" "0 \<le> jp_sessionId g"
    and fresh: "\<not> cm_has (jp_sessionId g + 1) (iu_sessions u)"
  obtains (same) "iu_sessions u1 = iu_sessions u" "jp_sessionId g1 = jp_sessionId g \<or> jp_sessionId g1 = jp_sessionId g + 1"
      "jp_seen g1 = jp_seen g"
  | (listener) s where "iu_sessions u1 = cm_put (jp_sessionId g + 1) s (iu_sessions u)" "jp_sessionId g1 = jp_sessionId g + 1"
      "jp_seen g1 = jp_seen g" "ns_sessionId s = jp_sessionId g + 1" "ns_kind s = LISTENER" "GetType s = SESSION_SUBSCRIBE"
      "ns_reference s \<noteq> None" "\<not> ns_mutex s"
proof -
  have wrap: "u32 (jp_sessionId g + 1) = jp_sessionId g + 1" using assms(2,3) by (simp add: u32_def)
  let ?s = "new_NapiSession LISTENER (new_SessionParams SESSION_SUBSCRIBE 2 False) (length args) 1 (jp_sessionId g)
      :: client_work NapiSession"
  let ?g = "g\<lparr>jp_sessionId := ns_sessionId ?s\<rparr>"
  have s: "ns_sessionId ?s = jp_sessionId g + 1" "ns_kind ?s = LISTENER" "GetType ?s = SESSION_SUBSCRIBE" "\<not> ns_mutex ?s"
    by (simp_all add: new_NapiSession_def wrap GetType_def new_SessionParams_def)
  obtain r t v h where start: "listener_StartWork args (client_RegisterCallback e) ?s u ?g = (r, t, v, h)"
    by (cases "listener_StartWork args (client_RegisterCallback e) ?s u ?g") auto
  have t: "v = u" "jp_sessionId h = jp_sessionId g + 1" "jp_seen h = jp_seen g" "ns_sessionId t = jp_sessionId g + 1"
    "ns_kind t = LISTENER" "GetType t = SESSION_SUBSCRIBE" "\<not> ns_mutex t" "accepted r \<Longrightarrow> ns_reference t \<noteq> None"
    using start s by (auto simp: listener_StartWork_def client_RegisterCallback_def accepted_def Let_def GetType_def
        split: if_splits prod.splits ClientStatus.splits)
  show thesis
  proof (cases "(ret, u1, g1) = (if accepted r then (r, on_sessions (AddSession t) v, h)
      else (r, on_sessions (\<lambda>m. RemoveSession (ns_sessionId ?s) (AddSession t m)) v, h))")
    case True
    show thesis
    proof (cases "accepted r")
      case yes: True
      show thesis by (rule listener [of t]) (use True yes t fresh in \<open>auto simp: AddSession_def\<close>)
    next
      case False
      show thesis by (rule same) (use True False t s fresh in \<open>auto simp: AddSession_def RemoveSession_def\<close>)
    qed
  next
    case False
    show thesis
      by (rule same) (use False assms(1) start in \<open>auto simp: client_On_def On_def Let_def
          split: if_splits prod.splits option.splits ClientStatus.splits\<close>)
  qed
qed

lemma client_inv_listen:
  assumes inv: "client_inv acc u g" and room: "jp_sessionId g + 1 < 2 ^ 32" and r: "client_On e args u g = Some (ret, u1, g1)"
  shows "client_inv acc u1 g1"
proof -
  have ok: "sessions_ok (jp_sessionId g) (iu_sessions u)" using inv by (simp add: client_inv_def)
  have fresh: "\<not> cm_has (jp_sessionId g + 1) (iu_sessions u)" by (rule sessions_ok_fresh [OF ok]) simp
  show ?thesis
  proof (rule client_On_cases [OF r room client_inv_ids [OF inv] fresh])
    assume "iu_sessions u1 = iu_sessions u" "jp_sessionId g1 = jp_sessionId g \<or> jp_sessionId g1 = jp_sessionId g + 1"
      "jp_seen g1 = jp_seen g"
    then show ?thesis
      by (intro client_inv_same [OF inv]) (auto simp: settlements_def waiting_def intro: sessions_ok_mono [OF ok])
  next
    fix s
    assume a: "iu_sessions u1 = cm_put (jp_sessionId g + 1) s (iu_sessions u)" "jp_sessionId g1 = jp_sessionId g + 1"
      "jp_seen g1 = jp_seen g" "ns_sessionId s = jp_sessionId g + 1" "ns_kind s = LISTENER" "GetType s = SESSION_SUBSCRIBE"
      "ns_reference s \<noteq> None" "\<not> ns_mutex s"
    have "sessions_ok (jp_sessionId g1) (iu_sessions u1)"
      using sessions_ok_mono [OF ok, of "jp_sessionId g + 1"] a client_inv_ids [OF inv]
      by (auto simp: sessions_ok_def session_ok_def intro!: list_all_cm_put cm_ok_put)
    then show ?thesis
      by (intro client_inv_same [OF inv]) (use a in \<open>auto simp: settlements_def waiting_def split: if_splits option.splits\<close>)
  qed
qed

section \<open>Stopping to listen\<close>

lemma cm_ok_Cons: "cm_ok ((k, v) # m) = ((\<forall>a \<in> fst ` set m. k < a) \<and> cm_ok m)"
  by (auto simp: cm_ok_def image_iff order_less_le)

lemma Unsubscribe_keeps:
  "Unsubscribe classify handle m = Some m1 \<Longrightarrow> cm_ok m \<Longrightarrow> set m1 \<subseteq> set m \<and> cm_ok m1"
proof (induction m arbitrary: m1)
  case (Cons e m)
  obtain sid s where e: "e = (sid, s)" by (cases e)
  obtain rest where rest: "Unsubscribe classify handle m = Some rest" "m1 = (sid, s) # rest \<or> m1 = rest"
    using Cons.prems(1) unfolding e by (auto simp: Let_def split: if_splits option.splits)
  then have "set rest \<subseteq> set m" "cm_ok rest" using Cons.IH [of rest] Cons.prems(2) unfolding e by (auto simp: cm_ok_Cons)
  moreover have "\<forall>a \<in> fst ` set rest. sid < a" using \<open>set rest \<subseteq> set m\<close> Cons.prems(2) unfolding e cm_ok_Cons by blast
  ultimately show ?case using rest(2) Cons.prems(2) unfolding e by (auto simp: cm_ok_Cons)
qed simp

lemma cm_ok_lookup: "cm_ok m \<Longrightarrow> map_of m k = Some v \<longleftrightarrow> (k, v) \<in> set m"
  by (simp add: cm_ok_def)

lemma client_Off_outcome:
  assumes "client_Off e args u g = Some (ret, u1, g1)"
  shows "(iu_sessions u1 = iu_sessions u \<or> (\<exists>c h. Unsubscribe c h (iu_sessions u) = Some (iu_sessions u1)))
      \<and> jp_sessionId g1 = jp_sessionId g \<and> jp_seen g1 = jp_seen g"
proof -
  let ?info = "GetEventClassifyInfoFromArg (js_argument args 0) (new_EventClassifyInfo CLASSIFY_TASK)"
  let ?handle = "if 2 \<le> length args then Some (js_argument args 1) else None"
  obtain st info where info: "?info = (st, info)" by (cases ?info) auto
  show ?thesis
  proof (cases "Unsubscribe (ec_eventClassify info) ?handle (iu_sessions u)")
    case None
    with assms info show ?thesis by (auto simp: client_Off_def Off_def split: if_splits ClientStatus.splits)
  next
    case (Some m)
    with assms info have "(u1 = u \<and> g1 = g) \<or> (iu_sessions u1 = m \<and> jp_sessionId g1 = jp_sessionId g \<and> jp_seen g1 = jp_seen g)"
      by (auto simp: client_Off_def Off_def client_UnRegisterCallback_def split: if_splits ClientStatus.splits)
    with Some show ?thesis by auto
  qed
qed

lemmas client_Off_sessions = client_Off_outcome [THEN conjunct1]
  and client_Off_process = client_Off_outcome [THEN conjunct2]

lemma client_inv_ignore:
  assumes inv: "client_inv acc u g" and r: "client_Off e args u g = Some (ret, u1, g1)"
  shows "client_inv acc u1 g1"
proof -
  have ok: "sessions_ok (jp_sessionId g) (iu_sessions u)" using inv by (simp add: client_inv_def)
  have cm: "cm_ok (iu_sessions u)" using ok by (simp add: sessions_ok_def)
  have g1: "jp_sessionId g1 = jp_sessionId g" "jp_seen g1 = jp_seen g"
    using client_Off_process [OF r] by simp_all
  have "set (iu_sessions u1) \<subseteq> set (iu_sessions u) \<and> cm_ok (iu_sessions u1)"
    using client_Off_sessions [OF r] cm Unsubscribe_keeps [OF _ cm] by auto
  then have sub: "set (iu_sessions u1) \<subseteq> set (iu_sessions u)" "cm_ok (iu_sessions u1)" by simp_all
  have kept: "sessions_ok (jp_sessionId g1) (iu_sessions u1)"
    using ok sub unfolding sessions_ok_def g1 list_all_iff by blast
  have still: "waiting sid u" if "waiting sid u1" for sid
  proof -
    obtain s where s: "map_of (iu_sessions u1) sid = Some s" "ns_kind s \<noteq> LISTENER"
      using \<open>waiting sid u1\<close> by (auto simp: waiting_def split: option.splits)
    then have "map_of (iu_sessions u) sid = Some s"
      using sub(1) cm_ok_lookup [OF cm] cm_ok_lookup [OF sub(2)] by auto
    with s(2) show ?thesis by (simp add: waiting_def)
  qed
  show ?thesis by (rule client_inv_same [OF inv kept _ _ still]) (simp_all add: g1 settlements_def)
qed

section \<open>Events\<close>

text \<open>Listeners that only look at the event.\<close>

interpretation looking: quiet_script "\<lambda>_ _ u g. Some (u, g)" 0
proof
  fix u :: "('w, 'm) IUpdater_scheme" and g :: js_process and handler v :: js
  assume "ids_ok u g"
  then show "\<exists>u1 g1 new. Some (u, g) = Some (u1, g1) \<and> iu_sessions u1 = iu_sessions u @ new \<and> ids_ok u1 g1
        \<and> list_all (\<lambda>(sid, s). jp_sessionId g < sid \<and> GetType s \<noteq> SESSION_SUBSCRIBE) new
        \<and> jp_sessionId g \<le> jp_sessionId g1 \<and> jp_sessionId g1 \<le> jp_sessionId g + 0 \<and> jp_seen g1 = jp_seen g"
    by (intro exI [of _ u] exI [of _ g] exI [of _ "[]"]) simp
qed simp

text \<open>An event of a number without a template is not shown to anybody.\<close>

lemma publish_unknown:
  "fst (BuildEventInfo event) \<noteq> CLIENT_SUCCESS \<Longrightarrow> cm_ok (iu_sessions u) \<Longrightarrow> iu_sessions u = pre @ (sid, s) # post \<Longrightarrow>
     publish_from react classify event sid u g = Some (Published u g)"
proof (induction post arbitrary: pre sid s)
  case (Cons e post)
  obtain k t where e: "e = (k, t)" by (cases e)
  have quiet: "listener_NotifyJS react event sid s u g = Some (u, g)"
    using Cons.prems(1) by (auto simp: listener_NotifyJS_def split: prod.split ClientStatus.split)
  have ok: "cm_ok (pre @ (sid, s) # (k, t) # post)" using Cons.prems(2,3) e by simp
  from Cons.IH [OF Cons.prems(1,2), of "pre @ [(sid, s)]" k t] Cons.prems(3) e
  have "publish_from react classify event k u g = Some (Published u g)" by simp
  then show ?case
    by (subst publish_from.simps)
      (simp add: Cons.prems(3) cm_ok_split_lookup [OF ok] next_session_split [OF ok] quiet cm_has_def e del: map_of_append)
next
  case Nil
  have quiet: "listener_NotifyJS react event sid s u g = Some (u, g)"
    using Nil.prems(1) by (auto simp: listener_NotifyJS_def split: prod.split ClientStatus.split)
  have ok: "cm_ok (pre @ [(sid, s)])" using Nil.prems(2,3) by simp
  show ?case
    by (subst publish_from.simps)
      (simp add: Nil.prems(3) cm_ok_split_lookup [OF ok] next_session_split [OF ok] quiet cm_has_def del: map_of_append)
qed

lemma PublishToJS_looking:
  assumes "sessions_ok (jp_sessionId g) (iu_sessions u)" "jp_sessionId g < 2 ^ 32"
    and "PublishToJS (\<lambda>_ _ v h. Some (v, h)) classify event u g = Some (Published u1 g1)"
  shows "iu_sessions u1 = iu_sessions u \<and> jp_sessionId g1 = jp_sessionId g
    \<and> (\<exists>es. jp_seen g1 = jp_seen g @ es \<and> (\<forall>eff \<in> set es. settled_session eff = None))"
proof (cases "iu_sessions u")
  case Nil
  with assms(3) show ?thesis by (simp add: PublishToJS_def)
next
  case (Cons e post)
  obtain sid s where e: "e = (sid, s)" by (cases e)
  have cm: "cm_ok (iu_sessions u)" using assms(1) by (simp add: sessions_ok_def)
  have published: "publish_from (\<lambda>_ _ v h. Some (v, h)) classify event sid u g = Some (Published u1 g1)"
    using assms(3) Cons e by (simp add: PublishToJS_def)
  show ?thesis
  proof (cases "fst (BuildEventInfo event) = CLIENT_SUCCESS")
    case True
    then obtain v where v: "BuildEventInfo event = (CLIENT_SUCCESS, v)" by (cases "BuildEventInfo event") auto
    have ids: "ids_ok u g" using assms(1) by (auto simp: ids_ok_def sessions_ok_def session_ok_def list_all_iff)
    have refs: "list_all (\<lambda>(_, s). listens classify s \<longrightarrow> ns_reference s \<noteq> None \<and> \<not> ns_mutex s) (iu_sessions u)"
      using assms(1) by (fastforce simp: sessions_ok_def session_ok_def list_all_iff listens_def)
    have pos: "0 \<le> jp_sessionId g" using assms(1) by (simp add: sessions_ok_def)
    have room: "jp_sessionId g + 0 * int (length (filter (\<lambda>(_, s). listens classify s) (iu_sessions u))) < 2 ^ 32"
      using assms(2) by simp
    from looking.publish_all [OF v _ _ ids pos room refs, of "[]"] published Cons e obtain new where r:
      "jp_seen g1 = jp_seen g @ heard classify v (iu_sessions u)" "iu_sessions u1 = iu_sessions u @ new"
      "list_all (\<lambda>(sid, s). jp_sessionId g < sid) new" "ids_ok u1 g1" "jp_sessionId g \<le> jp_sessionId g1"
      "jp_sessionId g1 \<le> jp_sessionId g"
      by auto
    have "new = []" using r(2-6) by (cases new) (auto simp: ids_ok_def)
    then show ?thesis using r by (auto simp: heard_def)
  next
    case False
    from publish_unknown [OF this cm, of "[]" sid s post] Cons e published show ?thesis by simp
  qed
qed

section \<open>Every state that a script reaches\<close>

definition client_good :: "int list \<Rightarrow> UpdateClient \<Rightarrow> js_process \<Rightarrow> bool" where
  "client_good acc u g = (client_inv acc u g \<and> jp_sessionId g < 2 ^ 32)"

lemma client_good_start:
  "jp_seen g = [] \<Longrightarrow> 0 \<le> jp_sessionId g \<Longrightarrow> jp_sessionId g < 2 ^ 32 \<Longrightarrow> client_good [] (new_UpdateClient callback) g"
  by (simp add: client_good_def client_inv_def sessions_ok_def new_UpdateClient_def settlements_def waiting_def)

lemma call_counter:
  assumes "client_inv acc u g" "jp_sessionId g + 1 < 2 ^ 32" "(name, m) \<in> set DefineUpdateClient" "m args u g = (ret, u1, g1)"
  shows "jp_sessionId g1 < 2 ^ 32"
proof -
  have "sessions_ok (jp_sessionId g) (iu_sessions u)" using assms(1) by (simp add: client_inv_def)
  then have "\<not> cm_has (jp_sessionId g + 1) (iu_sessions u)" by (rule sessions_ok_fresh) simp
  show ?thesis
    by (rule client_method_cases [OF assms(3,4,2) client_inv_ids [OF assms(1)] \<open>\<not> cm_has _ _\<close>]) (use assms(2) in auto)
qed

lemma client_inv_event:
  assumes inv: "client_inv acc u g" and room: "jp_sessionId g < 2 ^ 32"
    and r: "PublishToJS (\<lambda>_ _ v h. Some (v, h)) classify event u g = Some (Published u1 g1)"
  shows "client_inv acc u1 g1 \<and> jp_sessionId g1 = jp_sessionId g"
proof -
  have ok: "sessions_ok (jp_sessionId g) (iu_sessions u)" using inv by (simp add: client_inv_def)
  from PublishToJS_looking [OF ok room r] obtain es where e: "iu_sessions u1 = iu_sessions u" "jp_sessionId g1 = jp_sessionId g"
    "jp_seen g1 = jp_seen g @ es" "\<forall>eff \<in> set es. settled_session eff = None" by blast
  have "settlements sid g1 = settlements sid g" for sid
    using e(3,4) by (auto simp: settlements_def filter_empty_conv)
  moreover have "waiting sid u1 = waiting sid u" for sid using e(1) by (simp add: waiting_def)
  ultimately have "client_inv acc u1 g1" by (intro client_inv_same [OF inv]) (use ok e(1,2) in simp_all)
  with e(2) show ?thesis by simp
qed

lemma client_reach_good:
  "client_reach u0 g0 acc u g \<Longrightarrow> client_good [] u0 g0 \<Longrightarrow> client_good acc u g"
proof (induction rule: client_reach.induct)
  case (call acc u g name m args ret u1 g1)
  then show ?case using client_inv_call call_counter unfolding client_good_def by blast
next
  case (listen acc u g e args ret u1 g1)
  then have inv: "client_inv acc u g" by (simp add: client_good_def)
  then have "sessions_ok (jp_sessionId g) (iu_sessions u)" by (simp add: client_inv_def)
  then have "\<not> cm_has (jp_sessionId g + 1) (iu_sessions u)" by (rule sessions_ok_fresh) simp
  then have "jp_sessionId g1 < 2 ^ 32"
    by (rule client_On_cases [OF listen.hyps(3,2) client_inv_ids [OF inv]]) (use listen.hyps(2) in auto)
  with client_inv_listen [OF inv listen.hyps(2,3)] show ?case by (simp add: client_good_def)
next
  case (ignore acc u g e args ret u1 g1)
  then show ?case using client_inv_ignore client_Off_process unfolding client_good_def by metis
next
  case (execute acc u g e sid u1 g1)
  then have "jp_sessionId g1 = jp_sessionId g" by (auto elim: execute_cases)
  with execute show ?case using client_inv_execute unfolding client_good_def by metis
next
  case (complete acc u g sid u1 g1)
  then have "jp_sessionId g1 = jp_sessionId g" by (auto simp: CompleteWork_def split: option.splits if_splits)
  with complete show ?case using client_inv_complete unfolding client_good_def by metis
next
  case (event acc u g classify event u1 g1)
  then show ?case using client_inv_event unfolding client_good_def by metis
next
  case (outside acc u g x)
  then have "client_inv acc u g" by (simp add: client_good_def)
  then have "client_inv acc u (g\<lparr>jp_ipc := x\<rparr>)"
    by (rule client_inv_same) (use \<open>client_inv acc u g\<close> in \<open>auto simp: client_inv_def settlements_def\<close>)
  with outside show ?case by (simp add: client_good_def)
qed simp

end
