(* ===== verification/Js_Live.thy ===== *)
theory Js_Live
  imports Js_Reach
begin

text \<open>
  A request that nothing comes between is settled: every request has the work of its kind, and the service answers a request for
  descriptions with an error or with descriptions that can be shown.
\<close>

section \<open>The work of a request\<close>

definition worker_ok :: "int \<times> client_work NapiSession \<Rightarrow> bool" where
  "worker_ok x = (case x of (sid, s) \<Rightarrow> ns_kind s \<noteq> LISTENER \<longrightarrow>
     (\<exists>w. ns_doWorker s = Some (Request w) \<and> GetType s = work_type w) \<and> par_isNeedBusinessError (ns_params s)
       \<and> \<not> par_isAsyncCompleteWork (ns_params s))"

definition workers_ok :: "UpdateClient \<Rightarrow> bool" where
  "workers_ok u = list_all worker_ok (iu_sessions u)"

lemma workers_ok_subset: "workers_ok u \<Longrightarrow> set (iu_sessions v) \<subseteq> set (iu_sessions u) \<Longrightarrow> workers_ok v"
  by (auto simp: workers_ok_def list_all_iff)

lemma workers_ok_put:
  "workers_ok u \<Longrightarrow> iu_sessions v = cm_put k s (iu_sessions u) \<Longrightarrow> worker_ok (k, s) \<Longrightarrow> workers_ok v"
  by (simp add: workers_ok_def list_all_cm_put)

lemma client_reach_workers:
  "client_reach u0 g0 acc u g \<Longrightarrow> client_good [] u0 g0 \<Longrightarrow> workers_ok u0 \<Longrightarrow> workers_ok u"
proof (induction rule: client_reach.induct)
  case (call acc u g name m args ret u1 g1)
  then have inv: "client_inv acc u g" using client_reach_good by (auto simp: client_good_def)
  then have "sessions_ok (jp_sessionId g) (iu_sessions u)" by (simp add: client_inv_def)
  then have "\<not> cm_has (jp_sessionId g + 1) (iu_sessions u)" by (rule sessions_ok_fresh) simp
  then show ?case
  proof (rule client_method_cases [OF call.hyps(3,4,2) client_inv_ids [OF inv]])
    assume "iu_sessions u1 = iu_sessions u"
    then show ?thesis using workers_ok_subset [OF call.IH [OF call.prems]] by simp
  next
    fix s
    assume "iu_sessions u1 = cm_put (jp_sessionId g + 1) s (iu_sessions u)"
      "\<exists>w. ns_doWorker s = Some (Request w) \<and> GetType s = work_type w" "par_isNeedBusinessError (ns_params s)"
      "\<not> par_isAsyncCompleteWork (ns_params s)"
    then show ?thesis using workers_ok_put [OF call.IH [OF call.prems]] by (simp add: worker_ok_def)
  qed
next
  case (listen acc u g e args ret u1 g1)
  then have inv: "client_inv acc u g" using client_reach_good by (auto simp: client_good_def)
  then have "sessions_ok (jp_sessionId g) (iu_sessions u)" by (simp add: client_inv_def)
  then have "\<not> cm_has (jp_sessionId g + 1) (iu_sessions u)" by (rule sessions_ok_fresh) simp
  then show ?case
  proof (rule client_On_cases [OF listen.hyps(3,2) client_inv_ids [OF inv]])
    assume "iu_sessions u1 = iu_sessions u"
    then show ?thesis using workers_ok_subset [OF listen.IH [OF listen.prems]] by simp
  next
    fix s
    assume "iu_sessions u1 = cm_put (jp_sessionId g + 1) s (iu_sessions u)" "ns_kind s = LISTENER"
    then show ?thesis using workers_ok_put [OF listen.IH [OF listen.prems]] by (simp add: worker_ok_def)
  qed
next
  case (ignore acc u g e args ret u1 g1)
  then have "cm_ok (iu_sessions u)" using client_reach_good by (auto simp: client_good_def client_inv_def sessions_ok_def)
  then have "set (iu_sessions u1) \<subseteq> set (iu_sessions u)"
    using client_Off_sessions [OF ignore.hyps(2)] Unsubscribe_keeps [OF _ \<open>cm_ok (iu_sessions u)\<close>] by auto
  then show ?case using ignore.IH [OF ignore.prems] by (rule workers_ok_subset [rotated])
next
  case (execute acc u g e sid u1 g1)
  show ?case
  proof (rule execute_cases [OF execute.hyps(2)])
    fix s t
    assume a: "map_of (iu_sessions u) sid = Some s" "same_session s t" "iu_sessions u1 = cm_adj sid (\<lambda>_. t) (iu_sessions u)"
    have "worker_ok (sid, s)" using execute.IH [OF execute.prems] map_of_SomeD [OF a(1)] by (auto simp: workers_ok_def list_all_iff)
    then have "worker_ok (sid, t)" using a(2) by (simp add: worker_ok_def same_session_def GetType_def)
    then show ?thesis using execute.IH [OF execute.prems] unfolding workers_ok_def a(3) by (intro list_all_cm_adj) auto
  qed (use execute.IH [OF execute.prems] in simp)
next
  case (complete acc u g sid u1 g1)
  then have "set (iu_sessions u1) \<subseteq> set (iu_sessions u)"
    by (auto simp: CompleteWork_def IUpdater_RemoveSession_def RemoveSession_def cm_del_def split: option.splits if_splits)
  then show ?case using complete.IH [OF complete.prems] by (rule workers_ok_subset [rotated])
next
  case (event acc u g classify event u1 g1)
  then have good: "client_good acc u g" using client_reach_good by blast
  then have "iu_sessions u1 = iu_sessions u"
    using PublishToJS_looking event.hyps(2) unfolding client_good_def client_inv_def by blast
  then show ?case using workers_ok_subset [OF event.IH [OF event.prems]] by simp
qed (simp_all add: workers_ok_def)

section \<open>Descriptions\<close>

lemma read_description_valid:
  assumes "read_description realpath fs failure language componentId err = r"
  shows "(\<exists>err1. r = Inl err1 \<and> be_errorNum err1 = CR_FAIL) \<or> (\<exists>d. r = Inr d \<and> cd_componentId d \<noteq> [])"
  using assms unfolding read_description_def
  by (auto simp: be_Build_def CheckFilePathValid_def IsValidComponentId_def Let_def split: if_splits option.splits)


lemma describe_read_valid:
  assumes "describe_components (read_description realpath fs failure language) cs ds err = (err1, es)"
    "be_errorNum err1 \<noteq> CR_FAIL" "list_all (\<lambda>d. cd_componentId d \<noteq> []) ds"
  shows "list_all (\<lambda>d. cd_componentId d \<noteq> []) es \<and> length es = length ds + length cs"
  using assms
proof (induction cs arbitrary: ds)
  case (Cons c cs)
  from read_description_valid [OF refl, of realpath fs failure language "fc_componentId c" err] show ?case
    using Cons.prems Cons.IH [of "ds @ [_]"] by (auto split: sum.splits)
qed simp

lemma GetNewVersionDescription_valid:
  assumes "GetNewVersionDescription realpath language err w = (err1, ds)" "be_errorNum err1 \<noteq> CR_FAIL"
  shows "ds \<noteq> [] \<and> list_all (\<lambda>d. cd_componentId d \<noteq> []) ds"
proof -
  have c: "stored_components w \<noteq> []" using assms by (auto simp: GetNewVersionDescription_def be_Build_def Let_def)
  with assms(1) have "describe_components (read_description realpath (fw_fs w) ''GetNewVersionDescription failed'' language)
      (stored_components w) [] (be_Build CR_SUCCESS ''start GetNewVersionDescription'' err) = (err1, ds)"
    by (simp add: GetNewVersionDescription_def Let_def)
  from describe_read_valid [OF this assms(2)] c show ?thesis by auto
qed

lemma GetCurrentVersionDescription_valid:
  assumes "GetCurrentVersionDescription realpath language err w = (err1, ds)" "be_errorNum err1 \<noteq> CR_FAIL"
  shows "ds \<noteq> [] \<and> list_all (\<lambda>d. cd_componentId d \<noteq> []) ds"
proof -
  let ?c = "ObtainString HOTA_CURRENT_COMPONENT_ID [] (fw_prefs w)"
  from read_description_valid [OF refl, of realpath "fw_fs w" "''GetCurrentVersionDescription failed''" language ?c err]
  show ?thesis using assms by (auto simp: GetCurrentVersionDescription_def be_Build_def Let_def split: if_splits sum.splits)
qed

text \<open>What a request for descriptions brings back when the call and the service succeed.\<close>

lemma kits_request_success:
  assumes "kits_request e code f unchanged x = (INT_CALL_SUCCESS, out, x1)" "ke_deadObject e \<noteq> INT_CALL_SUCCESS"
  shows "\<exists>sp sp1. f sp = (INT_CALL_SUCCESS, out, sp1)"
  using assms by (auto simp: kits_request_def remote_call_def call_results split: prod.splits bool.splits option.splits if_splits)

lemma asking_online_success:
  assumes "asking (\<lambda>w impls. with_online info impls unchanged (answer w)) sp = (INT_CALL_SUCCESS, out, sp1)"
  shows "\<exists>w. out = answer w"
  using assms by (auto simp: asking_def with_online_def call_results split: prod.splits option.splits)

lemma kits_new_description:
  assumes "kits_GetNewVersionDescription e info realpath language err x = (INT_CALL_SUCCESS, (err1, ds), x1)"
    "ke_deadObject e \<noteq> INT_CALL_SUCCESS" "be_errorNum err1 = CR_SUCCESS"
  shows "ds \<noteq> [] \<and> list_all (\<lambda>d. cd_componentId d \<noteq> []) ds"
proof -
  from kits_request_success [OF assms(1) [unfolded kits_GetNewVersionDescription_def] assms(2)]
  obtain sp sp1 where "asking (service_GetNewVersionDescription info realpath language err) sp = (INT_CALL_SUCCESS, (err1, ds), sp1)"
    by blast
  then have "\<exists>w. (err1, ds) = GetNewVersionDescription realpath language err w"
    unfolding service_GetNewVersionDescription_def [abs_def] by (rule asking_online_success)
  then obtain w where w: "GetNewVersionDescription realpath language err w = (err1, ds)" by auto
  show ?thesis by (rule GetNewVersionDescription_valid [OF w]) (simp add: assms(3))
qed

lemma kits_current_description:
  assumes "kits_GetCurrentVersionDescription e info realpath language err x = (INT_CALL_SUCCESS, (err1, ds), x1)"
    "ke_deadObject e \<noteq> INT_CALL_SUCCESS" "be_errorNum err1 = CR_SUCCESS"
  shows "ds \<noteq> [] \<and> list_all (\<lambda>d. cd_componentId d \<noteq> []) ds"
proof -
  from kits_request_success [OF assms(1) [unfolded kits_GetCurrentVersionDescription_def] assms(2)]
  obtain sp sp1 where "asking (service_GetCurrentVersionDescription info realpath language err) sp = (INT_CALL_SUCCESS, (err1, ds), sp1)"
    by blast
  then have "\<exists>w. (err1, ds) = GetCurrentVersionDescription realpath language err w"
    unfolding service_GetCurrentVersionDescription_def [abs_def] by (rule asking_online_success)
  then obtain w where w: "GetCurrentVersionDescription realpath language err w = (err1, ds)" by auto
  show ?thesis by (rule GetCurrentVersionDescription_valid [OF w]) (simp add: assms(3))
qed

section \<open>Settling\<close>

text \<open>Nothing is shown at the end of a request only where descriptions were asked for, none is there and no error is.\<close>

definition shows_result :: "client_work NapiSession \<Rightarrow> UpdateClient \<Rightarrow> bool" where
  "shows_result s u =
     (bp_errorNum (GetBusinessError (ns_businessError s) s) = call_result_code CR_SUCCESS \<longrightarrow>
      (\<forall>ds. client_GetUpdateResult (GetType s) u = U_description ds \<longrightarrow> filter IsValidData_description ds \<noteq> []))"

lemma NotifyJS_settles:
  assumes "ns_kind s \<noteq> LISTENER" "ns_kind s = PROMISE \<or> ns_reference s \<noteq> None" "shows_result s u"
  shows "\<exists>eff. session_NotifyJS (client_GetUpdateResult (GetType s) u) s = [eff] \<and> settled_session eff = Some (ns_sessionId s)"
proof -
  let ?r = "client_GetUpdateResult (GetType s) u" and ?b = "GetBusinessError (ns_businessError s) s"
  obtain v where v: "buildJSObject (GetType s) ?r = (CLIENT_SUCCESS, v)"
    using client_results_build [of "GetType s" u] by (cases "buildJSObject (GetType s) ?r") auto
  show ?thesis
  proof (cases "ns_kind s")
    case ASYNC
    with assms(1,2) v show ?thesis by (auto simp: session_NotifyJS_def async_NotifyJS_def Let_def)
  next
    case PROMISE
    show ?thesis
    proof (cases "bp_errorNum ?b = call_result_code CR_SUCCESS")
      case True
      then have "v \<noteq> None" using built_success [of "GetType s" ?r] v assms(3) by (auto simp: shows_result_def)
      with PROMISE True v show ?thesis by (auto simp: session_NotifyJS_def promise_NotifyJS_def Let_def)
    next
      case False
      with PROMISE show ?thesis by (simp add: session_NotifyJS_def promise_NotifyJS_def Let_def BuildBusinessError_def)
    qed
  qed (use assms(1) in simp)
qed

lemma error_success: "(call_result_code r = 0) = (r = CR_SUCCESS)"
  by (cases r) simp_all

lemma INT_CALL_SUCCESS_code: "INT_CALL_SUCCESS = call_result_code CR_SUCCESS"
  by (simp add: call_results)

lemma shown_descriptions:
  "ds \<noteq> [] \<and> list_all (\<lambda>d. cd_componentId d \<noteq> []) ds \<Longrightarrow> filter IsValidData_description (map description_up ds) \<noteq> []"
  by (cases ds) (auto simp: IsValidData_description_def description_up_def)

text \<open>The two requests for descriptions.\<close>

lemma run_description_shows:
  assumes "w = W_GetNewVersionDescription \<or> w = W_GetCurrentVersionDescription" "client_run e w u g = (ret, err, u1, g1)"
    "ke_deadObject (je_kits e 0) \<noteq> INT_CALL_SUCCESS" "ret = INT_CALL_SUCCESS" "bp_errorNum err = call_result_code CR_SUCCESS"
    "client_GetUpdateResult (work_type w) u1 = U_description ds"
  shows "filter IsValidData_description ds \<noteq> []"
proof (cases "w = W_GetNewVersionDescription")
  case True
  obtain q berr es x where k: "kits_GetNewVersionDescription (je_kits e 0) (uc_upgradeInfo u) (je_realpath e)
      (de_language (uc_descriptionOptions u)) new_business_error (jp_ipc g) = (q, (berr, es), x)"
    by (metis prod.exhaust)
  with True assms(2) have r: "q = INT_CALL_SUCCESS" "err = wire_error berr" "u1 = u\<lparr>uc_newVersionDescriptionInfo := map description_up es\<rparr>"
    using assms(4) by (auto simp: done_work_def)
  then have "be_errorNum berr = CR_SUCCESS" using assms(5) by (simp add: wire_error_def error_success)
  from shown_descriptions [OF kits_new_description [OF k [unfolded r(1)] assms(3) this]] show ?thesis
    using assms(6) True r(3) by (simp add: client_GetUpdateResult_def session_types)
next
  case False
  with assms(1) have w: "w = W_GetCurrentVersionDescription" by simp
  obtain q berr es x where k: "kits_GetCurrentVersionDescription (je_kits e 0) (uc_upgradeInfo u) (je_realpath e)
      (de_language (uc_descriptionOptions u)) new_business_error (jp_ipc g) = (q, (berr, es), x)"
    by (metis prod.exhaust)
  with w assms(2) have r: "q = INT_CALL_SUCCESS" "err = wire_error berr" "u1 = u\<lparr>uc_currentVersionDescriptionInfo := map description_up es\<rparr>"
    using assms(4) by (auto simp: done_work_def)
  then have "be_errorNum berr = CR_SUCCESS" using assms(5) by (simp add: wire_error_def error_success)
  from shown_descriptions [OF kits_current_description [OF k [unfolded r(1)] assms(3) this]] show ?thesis
    using assms(6) w r(3) by (simp add: client_GetUpdateResult_def session_types)
qed

lemma other_results:
  assumes "client_GetUpdateResult (work_type w) u = U_description ds"
  shows "w = W_GetNewVersionDescription \<or> w = W_GetCurrentVersionDescription"
  using assms by (cases w) (simp_all add: client_GetUpdateResult_def session_types)

lemma executed_alone_shows:
  assumes "worker_ok (sid, s)" "ns_kind s \<noteq> LISTENER" "ke_deadObject (je_kits e 0) \<noteq> INT_CALL_SUCCESS"
    "ExecuteWork (client_run e) s u g = (s1, u1, g1)"
  shows "shows_result s1 u1"
proof -
  from assms(1,2) obtain w where w: "ns_doWorker s = Some (Request w)" "GetType s = work_type w"
    "par_isNeedBusinessError (ns_params s)" "\<not> par_isAsyncCompleteWork (ns_params s)" by (auto simp: worker_ok_def)
  obtain ret err v h where run: "client_run e w u g = (ret, err, v, h)" by (cases "client_run e w u g") auto
  have s1: "s1 = s\<lparr>ns_workResult := ret, ns_businessError := err\<rparr>" "u1 = v"
    using assms(4) w run by (simp_all add: ExecuteWork_def Let_def)
  have ty: "GetType s1 = work_type w" using s1 w(2) by (simp add: GetType_def)
  show ?thesis unfolding shows_result_def
  proof (intro impI allI)
    fix ds
    assume b: "bp_errorNum (GetBusinessError (ns_businessError s1) s1) = call_result_code CR_SUCCESS"
      and d: "client_GetUpdateResult (GetType s1) u1 = U_description ds"
    have ret: "ret = INT_CALL_SUCCESS"
      using b s1 by (auto simp: GetBusinessError_def IsWorkExecuteSuccess_def BuildWorkBusinessErr_def new_error_def
          INT_CALL_SUCCESS_code split: if_splits)
    then have "bp_errorNum err = call_result_code CR_SUCCESS"
      using b s1 by (simp add: GetBusinessError_def IsWorkExecuteSuccess_def)
    then show "filter IsValidData_description ds \<noteq> []"
      using run_description_shows [OF other_results run assms(3) ret] d ty s1(2) by simp
  qed
qed

end
