(* ===== verification/Js_Blocking.thy ===== *)
theory Js_Blocking
  imports Js_Live
begin

text \<open>
  What the mutex of a listener does while the listener is called: it makes the script that stops listening wait for itself.
\<close>

lemma Unsubscribe_blocks:
  assumes "(sid, s) \<in> set m" "GetType s = SESSION_SUBSCRIBE" "IsSubscribeEvent classify s" "ns_mutex s"
  shows "Unsubscribe classify handle m = None"
  using assms(1)
proof (induction m)
  case (Cons e m)
  obtain k t where e: "e = (k, t)" by (cases e)
  show ?case
  proof (cases "e = (sid, s)")
    case True
    then show ?thesis using assms(2-4) by (simp add: RemoveHandlerRef_def IsSameListener_def IsSubscribeEvent_def)
  next
    case False
    with Cons have "Unsubscribe classify handle m = None" by auto
    then show ?thesis by (cases handle) (simp_all add: e Let_def RemoveHandlerRef_def IsSameListener_def)
  qed
qed simp

text \<open>A call of \<open>off\<close> for a class, with one argument or with a function as the second.\<close>

definition off_call :: "int \<Rightarrow> js list \<Rightarrow> bool" where
  "off_call classify args =
     (args \<noteq> [] \<and> (2 \<le> length args \<longrightarrow> IsTypeOf (args ! 1) T_function = CLIENT_SUCCESS)
      \<and> (case GetEventClassifyInfoFromArg (js_argument args 0) (new_EventClassifyInfo CLASSIFY_TASK) of
           (CLIENT_SUCCESS, info) \<Rightarrow> ec_eventClassify info = classify | _ \<Rightarrow> False))"

lemma Off_blocks:
  assumes "napi_IsCallerValid c" "off_call classify args" "Unsubscribe classify (if 2 \<le> length args then Some (js_argument args 1) else None)
      (iu_sessions u) = None"
  shows "Off c unregister args u g = None"
  using assms by (auto simp: Off_def off_call_def js_argument_def split: prod.splits ClientStatus.splits)

lemma publish_first_listener:
  assumes "cm_ok (iu_sessions u)" "iu_sessions u = pre @ (k, t) # post"
    "\<And>j r. (j, r) \<in> set ((k, t) # post) \<Longrightarrow> listens classify r \<Longrightarrow> listener_NotifyJS react event j r u g = None"
    "\<exists>(j, r) \<in> set ((k, t) # post). listens classify r"
  shows "publish_from react classify event k u g = None"
  using assms(2-)
proof (induction post arbitrary: pre k t)
  case Nil
  have ok: "cm_ok (pre @ [(k, t)])" using assms(1) Nil.prems(1) by simp
  from Nil.prems have "listener_NotifyJS react event k t u g = None" "GetType t = SESSION_SUBSCRIBE" "IsSubscribeEvent classify t"
    by (auto simp: listens_def)
  then show ?case
    by (subst publish_from.simps) (simp add: Nil.prems(1) cm_ok_split_lookup [OF ok] del: map_of_append)
next
  case (Cons e post)
  obtain j r where e: "e = (j, r)" by (cases e)
  have ok: "cm_ok (pre @ (k, t) # (j, r) # post)" using assms(1) Cons.prems(1) e by simp
  show ?case
  proof (cases "listens classify t")
    case True
    then have "listener_NotifyJS react event k t u g = None" "GetType t = SESSION_SUBSCRIBE" "IsSubscribeEvent classify t"
      using Cons.prems(2) by (auto simp: listens_def)
    then show ?thesis
      by (subst publish_from.simps) (simp add: Cons.prems(1) e cm_ok_split_lookup [OF ok] del: map_of_append)
  next
    case False
    have "publish_from react classify event j u g = None"
      using Cons.IH [of "pre @ [(k, t)]" j r] Cons.prems False e by auto
    moreover have "GetType t \<noteq> SESSION_SUBSCRIBE \<or> \<not> IsSubscribeEvent classify t" using False by (simp add: listens_def)
    ultimately show ?thesis
      by (subst publish_from.simps)
        (auto simp: Cons.prems(1) e cm_ok_split_lookup [OF ok] next_session_split [OF ok] cm_has_def simp del: map_of_append)
  qed
qed

text \<open>The script that calls \<open>off\<close> in its callback.\<close>

definition calls_off :: "js_env \<Rightarrow> js list \<Rightarrow> UpdateClient script" where
  "calls_off e args handler v u g = map_option snd (client_Off e args u g)"

lemma calls_off_blocks:
  assumes "BuildEventInfo event = (CLIENT_SUCCESS, v)" "napi_IsCallerValid (je_caller e)" "off_call classify args"
    and "cm_ok (iu_sessions u)" "(sid, s) \<in> set (iu_sessions u)" "listens classify s" "ns_reference s \<noteq> None"
  shows "listener_NotifyJS (calls_off e args) event sid s u g = None"
proof -
  obtain h where h: "ns_reference s = Some h" using assms(7) by auto
  let ?u = "on_sessions (cm_adj sid (ns_mutex_update (\<lambda>_. True))) u"
  have "map_of (iu_sessions u) sid = Some s" using assms(4,5) by (simp add: cm_ok_lookup)
  then have "map_of (iu_sessions ?u) sid = Some (s\<lparr>ns_mutex := True\<rparr>)" by simp
  then have "(sid, s\<lparr>ns_mutex := True\<rparr>) \<in> set (iu_sessions ?u)" by (rule map_of_SomeD)
  then have "Unsubscribe classify handle (iu_sessions ?u) = None" for handle
    by (rule Unsubscribe_blocks) (use assms(6) in \<open>simp_all add: listens_def GetType_def IsSubscribeEvent_def\<close>)
  from Off_blocks [OF assms(2,3) this] show ?thesis
    by (simp add: listener_NotifyJS_def assms(1) h calls_off_def client_Off_def)
qed

section \<open>What \<open>off\<close> does at the service\<close>

lemma unregistered_at_service:
  assumes "ip_process x = Some (n, sp)" "ki_remoteServer (ip_kits x) = Some n" "ke_enter e UNREGISTER_CALLBACK = INT_CALL_SUCCESS"
  shows "ip_process (snd (kits_UnregisterUpdateCallback e info x)) = Some (n, sp\<lparr>sp_clients := UnregisterUpdateCallback info (sp_clients sp)\<rparr>)"
  using assms by (simp add: kits_UnregisterUpdateCallback_def GetService_def remote_call_def process_Unregister_def on_kits_def)

lemma unregistered_is_gone: "GetUpgradeCallback info (UnregisterUpdateCallback info s) = None"
  by (auto simp: GetUpgradeCallback_def UnregisterUpdateCallback_def on_access_def Let_def split: option.splits)

lemma Unsubscribe_others:
  assumes "Unsubscribe classify (Some h) m = Some m1" "(k, t) \<in> set m" "ns_reference t \<noteq> Some h"
  shows "(k, t) \<in> set m1"
  using assms(1,2)
proof (induction m arbitrary: m1)
  case (Cons e m)
  obtain j r where e: "e = (j, r)" by (cases e)
  obtain rest where "Unsubscribe classify (Some h) m = Some rest"
    "m1 = (j, r) # rest \<or> m1 = rest \<and> IsSameListener classify h r = Some True"
    using Cons.prems(1) unfolding e by (auto simp: Let_def js_arg_def split: if_splits option.splits)
  with Cons.IH [of rest] Cons.prems(2) assms(3) show ?case
    unfolding e by (auto simp: IsSameListener_def split: if_splits option.splits)
qed simp

end
