(* ===== verification/Js_Claims.thy ===== *)
theory Js_Claims
  imports Js_Live Engine_Claims
begin

text \<open>
  The properties of the bindings as a script meets them: requests end once, events are heard once, and what scripts can do to
  each other and to themselves.
\<close>

section \<open>Requests\<close>

definition ex_platform :: kits_env where
  "ex_platform = \<lparr>ke_enter = (\<lambda>_. 0), ke_loads = Some ex_process, ke_casts = True, ke_deadObject = 29189\<rparr>"

definition ex_js_env :: js_env where
  "ex_js_env = \<lparr>je_kits = (\<lambda>_. ex_platform), je_fw = ex_device, je_realpath = Some,
     je_device = \<lparr>dv_osVersion = ''os'', dv_deviceName = ''phone'', dv_displayVersion = ''1'', dv_realVersion = ''1''\<rparr>,
     je_reset = ex_reset, je_caller = ex_caller, je_reboots = (\<lambda>_ _. True), je_verifies = (\<lambda>_ _. 0), je_arrived = None, je_pid = 7\<rparr>"

definition ex_script :: js_process where
  "ex_script = \<lparr>jp_sessionId = 0, jp_ipc = \<lparr>ip_kits = new_kits, ip_process = Some (0, ex_process), ip_started = 1\<rparr>, jp_seen = [],
     jp_flows = [], jp_resets = [], jp_ends = False\<rparr>"

text \<open>After the start of a process, the script has asked for the state of the task.\<close>

definition ex_asked :: "js_return \<times> UpdateClient \<times> js_process" where
  "ex_asked = client_GetTaskInfo [] (new_UpdateClient 0) ex_script"

lemma ex_asked_value:
  "ex_asked = (Promises 1, on_sessions (AddSession (snd (promise_StartWork [] ((new_NapiSession PROMISE
      (new_SessionParams SESSION_GET_TASK_INFO 1 True) 0 0 0)\<lparr>ns_doWorker := Some (Request W_GetTaskInfo)\<rparr>)))) (new_UpdateClient 0),
    ex_script\<lparr>jp_sessionId := 1\<rparr>)"
  by (simp add: ex_asked_def client_GetTaskInfo_def client_request_def StartSession_def promise_StartWork_def new_NapiSession_def
      new_SessionParams_def ex_script_def u32_def accepted_def Let_def)

lemma ex_asked_reach: "client_reach (new_UpdateClient 0) ex_script [1] (fst (snd ex_asked)) (snd (snd ex_asked))"
proof -
  have m: "(''getTaskInfo'', client_GetTaskInfo) \<in> set DefineUpdateClient" by (simp add: DefineUpdateClient_def)
  have "client_GetTaskInfo [] (new_UpdateClient 0) ex_script = (Promises 1, fst (snd ex_asked), snd (snd ex_asked))"
    using ex_asked_value by (simp add: ex_asked_def)
  from client_reach.call [OF client_reach.start _ m this] show ?thesis
    by (simp add: ex_script_def accepted_def ex_asked_value)
qed

lemma ex_script_start: "client_good [] (new_UpdateClient 0) ex_script"
  by (rule client_good_start) (simp_all add: ex_script_def)

text \<open>C16: Whatever a script asks of its online updater, in whatever order the threads execute and complete the requests and
  listeners come, hear events and go: a request that was accepted is settled at most once (its callback called, its promise
  resolved or rejected), not while it is still waiting, and nothing else is ever settled. That it is settled at all is not
  claimed here: a request may be lost. The listeners that hear events here do nothing with the updater themselves.\<close>

theorem request_settles_at_most_once:
  assumes "client_reach (new_UpdateClient callback) g0 acc u g" "jp_seen g0 = []" "0 \<le> jp_sessionId g0" "jp_sessionId g0 < 2 ^ 32"
  shows "settlements sid g + (if waiting sid u then 1 else 0) \<le> (if sid \<in> set acc then 1 else 0) \<and> distinct acc"
  using client_reach_good [OF assms(1) client_good_start [OF assms(2-4)]] by (simp add: client_good_def client_inv_def)

theorem request_settles_at_most_once_witness:
  "settlements 1 (snd (snd ex_asked)) + (if waiting 1 (fst (snd ex_asked)) then 1 else 0) \<le> 1"
  using request_settles_at_most_once [OF ex_asked_reach, of 1] by (simp add: ex_script_def)

text \<open>C17: A request that the pool executes and that is completed before another one is executed is settled, whatever the service
  answers or if it does not answer: its callback is called or its promise ends, and it is no longer waiting.\<close>

theorem undisturbed_request_settles:
  assumes "client_reach (new_UpdateClient callback) g0 acc u g" "jp_seen g0 = []" "0 \<le> jp_sessionId g0" "jp_sessionId g0 < 2 ^ 32"
    and "map_of (iu_sessions u) sid = Some s" "ns_kind s \<noteq> LISTENER" "ns_stage s = QUEUED"
    and "ke_deadObject (je_kits e 0) \<noteq> INT_CALL_SUCCESS"
  shows "case execute_session (client_run e) sid u g of (u1, g1) \<Rightarrow>
    (case CompleteWork client_GetUpdateResult sid u1 g1 of (u2, g2) \<Rightarrow> settlements sid g2 = 1 \<and> \<not> waiting sid u2)"
proof -
  note start = client_good_start [OF assms(2-4), of callback]
  have inv: "client_inv acc u g" using client_reach_good [OF assms(1) start] by (simp add: client_good_def)
  have ok: "sessions_ok (jp_sessionId g) (iu_sessions u)" using inv by (simp add: client_inv_def)
  have "workers_ok (new_UpdateClient callback)" by (simp add: workers_ok_def new_UpdateClient_def)
  then have w: "worker_ok (sid, s)"
    using client_reach_workers [OF assms(1) start] map_of_SomeD [OF assms(5)] by (auto simp: workers_ok_def list_all_iff)
  have none: "settlements sid g = 0"
  proof -
    have "waiting sid u" using assms(5,6) by (simp add: waiting_def)
    then have "settlements sid g + 1 \<le> (if sid \<in> set acc then 1 else 0)" using inv unfolding client_inv_def by metis
    then show ?thesis by (simp split: if_splits)
  qed
  obtain s1 v h where run: "ExecuteWork (client_run e) s u g = (s1, v, h)" by (cases "ExecuteWork (client_run e) s u g") auto
  note same = ExecuteWork_keeps [OF run]
  let ?t = "s1\<lparr>ns_stage := EXECUTED\<rparr>" and ?u1 = "on_sessions (cm_adj sid (\<lambda>_. s1\<lparr>ns_stage := EXECUTED\<rparr>)) v"
  have executed: "execute_session (client_run e) sid u g = (?u1, h)"
    using assms(5,7) run by (simp add: execute_session_def)
  have found: "map_of (iu_sessions ?u1) sid = Some ?t" using same(2) assms(5) by simp
  have result: "client_GetUpdateResult k ?u1 = client_GetUpdateResult k v" for k
    by (simp add: client_GetUpdateResult_def on_sessions_def)
  have "shows_result s1 v" by (rule executed_alone_shows [OF w assms(6,8) run])
  then have shown: "shows_result ?t ?u1"
    by (simp add: shows_result_def result GetType_def GetBusinessError_def IsWorkExecuteSuccess_def BuildWorkBusinessErr_def
        GetFunctionPermissionName_def cong: session_kind.case_cong)
  have kind: "ns_kind ?t = ns_kind s" "ns_reference ?t = ns_reference s" "ns_sessionId ?t = sid"
    using same(1) sessions_ok_lookup(1) [OF ok assms(5)] by (simp_all add: same_session_def)
  have "ns_kind s = PROMISE \<or> ns_reference s \<noteq> None"
    using sessions_ok_lookup(5) [OF ok assms(5)] by (cases "ns_kind s") auto
  with NotifyJS_settles [OF _ _ shown] kind assms(6) obtain eff where
    eff: "session_NotifyJS (client_GetUpdateResult (GetType ?t) ?u1) ?t = [eff]" "settled_session eff = Some sid" by auto
  have "CompleteWork client_GetUpdateResult sid ?u1 h = (IUpdater_RemoveSession sid ?u1, see [eff] h)"
    unfolding CompleteWork_def found by (simp add: eff(1))
  moreover have "settlements sid (see [eff] h) = 1" using none eff(2) same(4) by (simp add: settlements_def)
  moreover have "\<not> waiting sid (IUpdater_RemoveSession sid ?u1)"
    by (simp add: waiting_def IUpdater_RemoveSession_def RemoveSession_def)
  ultimately show ?thesis using executed by simp
qed

theorem undisturbed_request_settles_witness:
  "case execute_session (client_run ex_js_env) 1 (fst (snd ex_asked)) (snd (snd ex_asked)) of (u1, g1) \<Rightarrow>
    (case CompleteWork client_GetUpdateResult 1 u1 g1 of (u2, g2) \<Rightarrow> settlements 1 g2 = 1 \<and> \<not> waiting 1 u2)"
proof -
  obtain s where "map_of (iu_sessions (fst (snd ex_asked))) 1 = Some s" "ns_kind s \<noteq> LISTENER" "ns_stage s = QUEUED"
    by (simp add: ex_asked_value AddSession_def promise_StartWork_def new_NapiSession_def new_UpdateClient_def u32_def cm_has_def)
  then show ?thesis
    by (intro undisturbed_request_settles [OF ex_asked_reach])
      (simp_all add: ex_script_def ex_js_env_def ex_platform_def call_results)
qed

end
