(* ===== verification/Js_Listener_Claims.thy ===== *)
theory Js_Listener_Claims
  imports Js_Blocking Js_Claims
begin

text \<open>
  The properties of the listeners of a script, and two of the requests that run at the same time.
\<close>

section \<open>A script that listens\<close>

definition ex_classify :: js where "ex_classify = js.JObj [(''eventClassify'', js.JNum 0x01000000), (''extraInfo'', js.JStr [])]"

definition ex_listening :: "(js_return \<times> UpdateClient \<times> js_process) option" where
  "ex_listening = client_On ex_js_env [ex_classify, JFun 5] (new_UpdateClient 0) ex_script"

definition ex_listener :: "client_work NapiSession" where
  "ex_listener = (new_NapiSession LISTENER (new_SessionParams SESSION_SUBSCRIBE 2 False) 2 1 0)\<lparr>
     ns_reference := Some (JFun 5), ns_classify := \<lparr>ec_eventClassify = CLASSIFY_TASK, ec_extraInfo = []\<rparr>\<rparr>"

lemma ex_class_read: "GetEventClassifyInfoFromArg ex_classify c = (CLIENT_SUCCESS, \<lparr>ec_eventClassify = CLASSIFY_TASK, ec_extraInfo = []\<rparr>)"
  by (cases c) (simp add: GetEventClassifyInfoFromArg_def ex_classify_def read_enum_def IsValidEnum_def g_eventClassifyList_def
      CLASSIFY_TASK_def GetInt32_attr_def GetString_attr_def GetString_arg_def i32_def Let_def)

lemma ex_listening_value:
  "\<exists>g. ex_listening = Some (Returns (js.JNum 0), (new_UpdateClient 0)\<lparr>iu_sessions := [(1, ex_listener)]\<rparr>, g) \<and> jp_sessionId g = 1
     \<and> jp_seen g = []"
proof -
  have "napi_IsCallerValid (je_caller ex_js_env)" by (simp add: ex_js_env_def ex_caller_def napi_IsCallerValid_def)
  then show ?thesis
    by (simp add: ex_listening_def client_On_def On_def ex_class_read js_argument_def new_UpdateClient_def listener_StartWork_def
        client_RegisterCallback_def on_sessions_def AddSession_def cm_has_def accepted_def ex_listener_def new_NapiSession_def
        new_SessionParams_def IsTypeOf_def ex_script_def u32_def Let_def)
      (simp add: ex_classify_def)
qed

definition ex_js_event :: EventInfo where
  "ex_js_event = \<lparr>ei_eventId = 0x01000001, ei_taskBody = new_task_body\<rparr>"

lemma ex_listening_reach:
  obtains g where "ex_listening = Some (Returns (js.JNum 0), (new_UpdateClient 0)\<lparr>iu_sessions := [(1, ex_listener)]\<rparr>, g)"
    "client_reach (new_UpdateClient 0) ex_script [] ((new_UpdateClient 0)\<lparr>iu_sessions := [(1, ex_listener)]\<rparr>) g"
    "jp_sessionId g = 1" "jp_seen g = []"
proof -
  obtain g where g: "ex_listening = Some (Returns (js.JNum 0), (new_UpdateClient 0)\<lparr>iu_sessions := [(1, ex_listener)]\<rparr>, g)"
    "jp_sessionId g = 1" "jp_seen g = []" using ex_listening_value by blast
  have "client_reach (new_UpdateClient 0) ex_script [] ((new_UpdateClient 0)\<lparr>iu_sessions := [(1, ex_listener)]\<rparr>) g"
    by (rule client_reach.listen [OF client_reach.start _ g(1) [unfolded ex_listening_def]]) (simp add: ex_script_def)
  with g that show thesis by blast
qed

lemma ex_listens: "listens CLASSIFY_TASK ex_listener" "ns_reference ex_listener = Some (JFun 5)"
  by (simp_all add: listens_def ex_listener_def new_NapiSession_def new_SessionParams_def GetType_def IsSubscribeEvent_def)

lemma ex_js_event_class: "event_class (ei_eventId ex_js_event) = CLASSIFY_TASK"
  by code_simp

lemma ex_js_event_built: "fst (BuildEventInfo ex_js_event) = CLIENT_SUCCESS"
  by code_simp

text \<open>C18: An event that can be shown is heard exactly once by every listener of its class and by nobody else, in the order in which
  they started to listen, and the publication ends, whatever requests to the updater the listeners make when they are called;
  these come after everybody who hears the event.\<close>

theorem every_listener_hears_once:
  assumes "client_reach (new_UpdateClient callback) g0 acc u g" "jp_seen g0 = []" "0 \<le> jp_sessionId g0" "jp_sessionId g0 < 2 ^ 32"
    and "BuildEventInfo event = (CLIENT_SUCCESS, v)" "NotifyEventInfo event = (classify, event)"
    and "jp_sessionId g + int (length calls) * int (length (filter (\<lambda>(_, s). listens classify s) (iu_sessions u))) < 2 ^ 32"
  shows "\<exists>u1 g1 new. PublishToJS (requesting calls) classify event u g = Some (Published u1 g1)
    \<and> jp_seen g1 = jp_seen g @ map (\<lambda>(sid, s). Hears sid (js_arg (ns_reference s)) v)
        (filter (\<lambda>(sid, s). listens classify s) (iu_sessions u))
    \<and> iu_sessions u1 = iu_sessions u @ new"
proof -
  have inv: "client_inv acc u g"
    using client_reach_good [OF assms(1) client_good_start [OF assms(2-4)]] by (simp add: client_good_def)
  have ok: "sessions_ok (jp_sessionId g) (iu_sessions u)" using inv by (simp add: client_inv_def)
  have ids: "ids_ok u g" using ok by (auto simp: ids_ok_def sessions_ok_def session_ok_def list_all_iff)
  have refs: "list_all (\<lambda>(_, s). listens classify s \<longrightarrow> ns_reference s \<noteq> None \<and> \<not> ns_mutex s) (iu_sessions u)"
    using ok by (fastforce simp: sessions_ok_def session_ok_def list_all_iff listens_def)
  show ?thesis
  proof (cases "iu_sessions u")
    case Nil
    then show ?thesis by (simp add: PublishToJS_def)
  next
    case (Cons e rest)
    from requesting.publish_all [OF assms(5) _ _ ids client_inv_ids [OF inv] assms(7) refs, of "[]"] Cons show ?thesis
      by (cases e) (auto simp: PublishToJS_def heard_def)
  qed
qed

theorem every_listener_hears_once_witness:
  "\<exists>u g v u1 g1. ex_listening = Some (Returns (js.JNum 0), u, g) \<and> BuildEventInfo ex_js_event = (CLIENT_SUCCESS, v)
     \<and> PublishToJS (requesting [(''getTaskInfo'', [])]) CLASSIFY_TASK ex_js_event u g = Some (Published u1 g1)
     \<and> jp_seen g1 = [Hears 1 (JFun 5) v]"
proof -
  obtain v where v: "BuildEventInfo ex_js_event = (CLIENT_SUCCESS, v)" using ex_js_event_built by (cases "BuildEventInfo ex_js_event") auto
  obtain g where g: "ex_listening = Some (Returns (js.JNum 0), (new_UpdateClient 0)\<lparr>iu_sessions := [(1, ex_listener)]\<rparr>, g)"
    "client_reach (new_UpdateClient 0) ex_script [] ((new_UpdateClient 0)\<lparr>iu_sessions := [(1, ex_listener)]\<rparr>) g"
    "jp_sessionId g = 1" "jp_seen g = []" by (rule ex_listening_reach)
  from every_listener_hears_once [OF g(2) _ _ _ v, of CLASSIFY_TASK "[(''getTaskInfo'', [])]"] g v show ?thesis
    by (auto simp: ex_script_def NotifyEventInfo_def ex_js_event_class ex_listens js_arg_def)
qed

text \<open>C36: A listener that stops listening to its own class when it is called (with or without naming a callback) blocks the thread
  of the script for good: the mutex of the listener is held during the call, and \<open>off\<close> takes it again. The publication of the
  event has no result.\<close>

theorem off_in_callback_blocks:
  assumes "client_reach (new_UpdateClient callback) g0 acc u g" "jp_seen g0 = []" "0 \<le> jp_sessionId g0" "jp_sessionId g0 < 2 ^ 32"
    and "BuildEventInfo event = (CLIENT_SUCCESS, v)" "NotifyEventInfo event = (classify, event)"
    and "(sid, s) \<in> set (iu_sessions u)" "listens classify s" "napi_IsCallerValid (je_caller e)" "off_call classify args"
  shows "PublishToJS (calls_off e args) classify event u g = None"
proof -
  have ok: "sessions_ok (jp_sessionId g) (iu_sessions u)"
    using client_reach_good [OF assms(1) client_good_start [OF assms(2-4)]] by (simp add: client_good_def client_inv_def)
  have cm: "cm_ok (iu_sessions u)" using ok by (simp add: sessions_ok_def)
  have refs: "ns_reference r \<noteq> None" if "(j, r) \<in> set (iu_sessions u)" "listens classify r" for j r
    using ok that by (fastforce simp: sessions_ok_def session_ok_def list_all_iff listens_def)
  obtain k t post where u: "iu_sessions u = [] @ (k, t) # post" using assms(7) by (cases "iu_sessions u") auto
  have "publish_from (calls_off e args) classify event k u g = None"
  proof (rule publish_first_listener [OF cm u])
    show "listener_NotifyJS (calls_off e args) event j r u g = None" if "(j, r) \<in> set ((k, t) # post)" "listens classify r" for j r
      using calls_off_blocks [OF assms(5,9,10) cm _ that(2) refs] that u by simp
    show "\<exists>(j, r) \<in> set ((k, t) # post). listens classify r" using assms(7,8) u by auto
  qed
  with u show ?thesis by (simp add: PublishToJS_def)
qed

theorem off_in_callback_blocks_witness:
  "\<exists>u g. ex_listening = Some (Returns (js.JNum 0), u, g)
     \<and> PublishToJS (calls_off ex_js_env [ex_classify]) CLASSIFY_TASK ex_js_event u g = None"
proof -
  obtain v where v: "BuildEventInfo ex_js_event = (CLIENT_SUCCESS, v)" using ex_js_event_built by (cases "BuildEventInfo ex_js_event") auto
  obtain g where g: "ex_listening = Some (Returns (js.JNum 0), (new_UpdateClient 0)\<lparr>iu_sessions := [(1, ex_listener)]\<rparr>, g)"
    "client_reach (new_UpdateClient 0) ex_script [] ((new_UpdateClient 0)\<lparr>iu_sessions := [(1, ex_listener)]\<rparr>) g"
    by (rule ex_listening_reach)
  have "off_call CLASSIFY_TASK [ex_classify]" by (simp add: off_call_def js_argument_def ex_class_read)
  then have "PublishToJS (calls_off ex_js_env [ex_classify]) CLASSIFY_TASK ex_js_event
      ((new_UpdateClient 0)\<lparr>iu_sessions := [(1, ex_listener)]\<rparr>) g = None"
    by (intro off_in_callback_blocks [OF g(2) _ _ _ v, of CLASSIFY_TASK 1 ex_listener])
      (simp_all add: ex_script_def NotifyEventInfo_def ex_js_event_class ex_listens ex_js_env_def ex_caller_def napi_IsCallerValid_def)
  with g(1) show ?thesis by blast
qed

text \<open>C37: When one of several listeners stops listening, the updater takes its callback back from the service: the others are
  still listeners of the updater, but the service has nothing to call for it any more.\<close>

theorem off_silences_the_others:
  assumes "client_Off e [c, h] u g = Some (Returns r, u1, g1)" "(k, t) \<in> set (iu_sessions u)" "ns_reference t \<noteq> Some h"
    and "ip_process (jp_ipc g) = Some (n, sp)" "ki_remoteServer (ip_kits (jp_ipc g)) = Some n"
    and "ke_enter (je_kits e 0) UNREGISTER_CALLBACK = INT_CALL_SUCCESS"
  shows "(k, t) \<in> set (iu_sessions u1) \<and> (\<exists>sp1. ip_process (jp_ipc g1) = Some (n, sp1)
    \<and> GetUpgradeCallback (uc_upgradeInfo u) (sp_clients sp1) = None)"
proof -
  obtain m classify where m: "Unsubscribe classify (Some h) (iu_sessions u) = Some m" "iu_sessions u1 = m"
    "jp_ipc g1 = snd (kits_UnregisterUpdateCallback (je_kits e 0) (uc_upgradeInfo u) (jp_ipc g))"
    using assms(1) by (auto simp: client_Off_def Off_def client_UnRegisterCallback_def js_argument_def
        split: if_splits prod.splits ClientStatus.splits option.splits)
  from Unsubscribe_others [OF m(1) assms(2,3)] show ?thesis
    using unregistered_at_service [OF assms(4-6), of "uc_upgradeInfo u"] unregistered_is_gone m(2,3) by auto
qed

definition ex_second :: "client_work NapiSession" where
  "ex_second = ex_listener\<lparr>ns_sessionId := 2, ns_reference := Some (JFun 6)\<rparr>"

definition ex_connected :: js_process where
  "ex_connected = ex_script\<lparr>jp_ipc := \<lparr>ip_kits = new_kits\<lparr>ki_remoteServer := Some 0\<rparr>, ip_process = Some (0, ex_process), ip_started = 1\<rparr>\<rparr>"

theorem off_silences_the_others_witness:
  "\<exists>u1 g1. client_Off ex_js_env [ex_classify, JFun 5] ((new_UpdateClient 0)\<lparr>iu_sessions := [(1, ex_listener), (2, ex_second)]\<rparr>)
       ex_connected = Some (Returns (js.JNum 0), u1, g1) \<and> (2, ex_second) \<in> set (iu_sessions u1)"
proof -
  let ?u = "(new_UpdateClient 0)\<lparr>iu_sessions := [(1, ex_listener), (2, ex_second)]\<rparr>"
  have types: "GetType ex_listener = SESSION_SUBSCRIBE" "GetType ex_second = SESSION_SUBSCRIBE" "\<not> ns_mutex ex_listener"
    "\<not> ns_mutex ex_second" "ec_eventClassify (ns_classify ex_listener) = CLASSIFY_TASK"
    "ec_eventClassify (ns_classify ex_second) = CLASSIFY_TASK" "ns_reference ex_second = Some (JFun 6)"
    using ex_listens by (simp_all add: listens_def ex_second_def GetType_def IsSubscribeEvent_def ex_listener_def new_NapiSession_def)
  have "Unsubscribe CLASSIFY_TASK (Some (JFun 5)) [(1, ex_listener), (2, ex_second)] = Some [(2, ex_second)]"
    using types ex_listens(2) by (simp add: RemoveHandlerRef_def IsSameListener_def js_arg_def)
  then obtain u1 g1 where off: "client_Off ex_js_env [ex_classify, JFun 5] ?u ex_connected = Some (Returns (js.JNum 0), u1, g1)"
    by (simp add: client_Off_def Off_def ex_class_read js_argument_def client_UnRegisterCallback_def IsTypeOf_def ex_js_env_def
        ex_caller_def napi_IsCallerValid_def del: Unsubscribe.simps)
  have "(2, ex_second) \<in> set (iu_sessions u1)"
    using off_silences_the_others [OF off, of 2 ex_second 0 ex_process] types(7)
    by (simp add: ex_connected_def ex_js_env_def ex_platform_def call_results new_kits_def)
  with off show ?thesis by blast
qed

section \<open>Requests at the same time\<close>

text \<open>C38: Two requests for the description of the new version share the member that the answer goes through. When the second one
  is executed before the first is completed and the service answers it with an error and no descriptions, the promise of the
  first, which succeeded, is neither resolved nor rejected, and nothing is left that could do it.\<close>

theorem overlapping_description_is_lost:
  assumes "cm_ok (iu_sessions u)" "map_of (iu_sessions u) a = Some s" "ns_kind s = PROMISE" "ns_stage s = EXECUTED"
    and "GetType s = SESSION_GET_NEW_VERSION_DESCRIPTION" "IsWorkExecuteSuccess s"
    and "bp_errorNum (ns_businessError s) = call_result_code CR_SUCCESS"
    and "map_of (iu_sessions u) b = Some t" "ns_stage t = QUEUED" "ns_doWorker t = Some (Request W_GetNewVersionDescription)"
    and "kits_GetNewVersionDescription (je_kits e 0) (uc_upgradeInfo u) (je_realpath e) (de_language (uc_descriptionOptions u))
      new_business_error (jp_ipc g) = (INT_CALL_SUCCESS, (err, []), x)"
  shows "case execute_session (client_run e) b u g of (u1, g1) \<Rightarrow>
    (case CompleteWork client_GetUpdateResult a u1 g1 of (u2, g2) \<Rightarrow> jp_seen g2 = jp_seen g \<and> \<not> waiting a u2)"
proof -
  have ne: "b \<noteq> a" using assms(2,4,8,9) by auto
  obtain t1 u1 g1 where run: "ExecuteWork (client_run e) t u g = (t1, u1, g1)" "uc_newVersionDescriptionInfo u1 = []"
    "iu_sessions u1 = iu_sessions u" "jp_seen g1 = jp_seen g"
    using assms(10,11) by (simp add: ExecuteWork_def done_work_def Let_def)
  let ?u1 = "on_sessions (cm_adj b (\<lambda>_. t1\<lparr>ns_stage := EXECUTED\<rparr>)) u1"
  have executed: "execute_session (client_run e) b u g = (?u1, g1)" using assms(8,9) run(1) by (simp add: execute_session_def)
  have found: "map_of (iu_sessions ?u1) a = Some s" using assms(2) run(3) ne by simp
  have "client_GetUpdateResult (GetType s) ?u1 = U_description []"
    using run(2) assms(5) by (simp add: client_GetUpdateResult_def session_types)
  moreover have "snd (buildJSObject (GetType s) (U_description [])) = None"
    using assms(5) by (simp add: buildJSObject_def BuildVersionDescriptionInfo_def BuildComponentDescriptions_def valid_entries Let_def)
  ultimately have "session_NotifyJS (client_GetUpdateResult (GetType s) ?u1) s = []"
    using assms(3,6,7) by (simp add: session_NotifyJS_def promise_NotifyJS_def GetBusinessError_def Let_def)
  then have "CompleteWork client_GetUpdateResult a ?u1 g1 = (IUpdater_RemoveSession a ?u1, see [] g1)"
    unfolding CompleteWork_def found using assms(4) by simp
  moreover have "\<not> waiting a (IUpdater_RemoveSession a ?u1)" by (simp add: waiting_def IUpdater_RemoveSession_def RemoveSession_def)
  ultimately show ?thesis using executed run(4) by simp
qed

definition ex_description :: "int \<Rightarrow> work_stage \<Rightarrow> client_work NapiSession" where
  "ex_description counter stage = (new_NapiSession PROMISE (new_SessionParams SESSION_GET_NEW_VERSION_DESCRIPTION 3 True) 2 0 counter)\<lparr>
     ns_doWorker := Some (Request W_GetNewVersionDescription), ns_stage := stage\<rparr>"

definition ex_two :: UpdateClient where
  "ex_two = (new_UpdateClient 0)\<lparr>iu_sessions := [(1, ex_description 0 EXECUTED), (2, ex_description 1 QUEUED)], uc_upgradeInfo := ex_client\<rparr>"

theorem overlapping_description_is_lost_witness:
  "case execute_session (client_run ex_js_env) 2 ex_two ex_connected of (u1, g1) \<Rightarrow>
    (case CompleteWork client_GetUpdateResult 1 u1 g1 of (u2, g2) \<Rightarrow> jp_seen g2 = [] \<and> \<not> waiting 1 u2)"
proof -
  have s: "map_of (iu_sessions ex_two) 1 = Some (ex_description 0 EXECUTED)"
    "map_of (iu_sessions ex_two) 2 = Some (ex_description 1 QUEUED)" "cm_ok (iu_sessions ex_two)"
    by (simp_all add: ex_two_def cm_ok_def)
  have none: "stored_components ex_firmware = []" by code_simp
  obtain err x where k: "kits_GetNewVersionDescription (je_kits ex_js_env 0) (uc_upgradeInfo ex_two) (je_realpath ex_js_env)
      (de_language (uc_descriptionOptions ex_two)) new_business_error (jp_ipc ex_connected) = (INT_CALL_SUCCESS, (err, []), x)"
    by (simp add: kits_GetNewVersionDescription_def kits_request_def GetService_def remote_call_def asking_def
        service_GetNewVersionDescription_def with_online_def GetOnlineUpdater_def GetNewVersionDescription_def ex_connected_def
        ex_js_env_def ex_platform_def ex_process_def ex_two_def ex_client_def new_kits_def call_results none Let_def)
  have seen: "jp_seen ex_connected = []" by (simp add: ex_connected_def ex_script_def)
  show ?thesis
    using overlapping_description_is_lost [OF s(3,1) _ _ _ _ _ s(2) _ _ k]
    by (simp add: ex_description_def new_NapiSession_def new_SessionParams_def GetType_def IsWorkExecuteSuccess_def new_error_def seen)
qed

text \<open>A download request whose order is refused has already changed the network that the requests of the updater allow: it
  throws and makes no session, but a download that waits for a thread is then executed with the network of the refused one.\<close>

theorem refused_download_changes_pending:
  assumes "GetNetType arg (dop_allowNetwork (uc_downloadOptions u)) = (CLIENT_SUCCESS, n)"
    and "fst (GetOrder arg (dop_order (uc_downloadOptions u))) \<noteq> CLIENT_SUCCESS"
  shows "\<exists>ex u1. client_Download [digest, arg] u g = (Throws ex, u1, g) \<and> iu_sessions u1 = iu_sessions u \<and>
    client_run e W_Download u1 g =
      (case kits_Download (je_kits e 0) (uc_upgradeInfo u) (je_fw e)
              \<lparr>do_allowNetwork = nettype_of_code n, do_order = order_of_code (dop_order (uc_downloadOptions u))\<rparr> new_business_error
              (jp_ipc g) of
         (ret, (err, flows), x) \<Rightarrow> (ret, wire_error err, u1, (starts_flows flows g)\<lparr>jp_ipc := x\<rparr>))"
proof -
  obtain st k where k: "GetOrder arg (dop_order (uc_downloadOptions u)) = (st, k)" "st \<noteq> CLIENT_SUCCESS"
    using assms(2) by (cases "GetOrder arg (dop_order (uc_downloadOptions u))") auto
  have read: "read_DownloadOptions arg (uc_downloadOptions u) = (CLIENT_INVALID_TYPE, (uc_downloadOptions u)\<lparr>dop_allowNetwork := n\<rparr>)"
    using assms(1) k by (cases st) (simp_all add: read_DownloadOptions_def Let_def)
  obtain d where d: "GetVersionDigestInfoFromArg digest (uc_versionDigestInfo u) = (CLIENT_SUCCESS, d)"
    by (simp add: GetVersionDigestInfoFromArg_def)
  show ?thesis
    by (intro exI conjI, simp add: client_Download_def ParseUpgOptions_def js_argument_def read d Let_def)
      (simp_all add: download_options_def done_work_def split: prod.split)
qed

definition ex_download :: js where
  "ex_download = js.JObj [(''allowNetwork'', js.JNum 1), (''order'', js.JNum 99)]"

theorem refused_download_changes_pending_witness:
  "\<exists>ex u1. client_Download [js_empty, ex_download] (new_UpdateClient 0) ex_script = (Throws ex, u1, ex_script)"
  using refused_download_changes_pending [of ex_download "new_UpdateClient 0" 1 js_empty ex_script ex_js_env]
  by (auto simp: GetNetType_def GetOrder_def read_enum_def ex_download_def GetInt32_attr_def IsValidEnum_def i32_def
      new_UpdateClient_def Let_def)

text \<open>The policy that \<open>getUpgradePolicy\<close> gives to a script, handed back to \<open>setUpgradePolicy\<close> as it is, is accepted with its
  two switches and without its periods: those of the last policy are sent instead.\<close>

theorem policy_periods_are_lost:
  "GetUpgradePolicyFromArg (policy_object p) q =
     (CLIENT_SUCCESS, q\<lparr>pp_downloadStrategy := pp_downloadStrategy p, pp_autoUpgradeStrategy := pp_autoUpgradeStrategy p\<rparr>)"
  by (simp add: GetUpgradePolicyFromArg_def policy_object_def js_empty_def SetBool_def SetInt32_def CheckNapiObjectType_def
      GetBool_attr_def period_object_def napi_get_element_def read_element_period_def Let_def)

end
