(* ===== verification/Ani_Convert.thy ===== *)
theory Ani_Convert
  imports Js_Client
begin

text \<open>
  The conversions of the bindings for the static language: \<open>AniCommonConverter\<close> in
  \<open>frameworks/js/ani/src/ani_common_conveter.cpp\<close>, and the structures and enumerations of \<open>idl/ohos.update.taihe\<close>. The classes
  of these enumerations are generated from the description: a value of one is held as its number or text, and the
  function \<open>from_value\<close> that makes it is a parameter.
\<close>

section \<open>Enumerations of the interface\<close>

datatype idl_enum = E_UpgradeStatus | E_ComponentType | E_DescriptionType | E_EffectiveMode | E_EventId

fun idl_values :: "idl_enum \<Rightarrow> int list" where
  "idl_values E_UpgradeStatus = [- 1, 0, 10, 11, 12, 20, 21, 22, 23, 24, 30, 31, 32, 60, 61, 62, 68, 69, 70, 71, 72, 80, 81, 82,
     83, 90, 91, 92, 93, 100, 101]"
| "idl_values E_ComponentType = [1]"
| "idl_values E_DescriptionType = [0, 1]"
| "idl_values E_EffectiveMode = [1, 2, 3]"
| "idl_values E_EventId = map (\<lambda>n. 16777216 + n) [0..16]"

definition idl_actions :: "string list" where "idl_actions = [''upgrade'', ''recovery'']"

record generated =
  from_value :: "idl_enum \<Rightarrow> int \<Rightarrow> int"
  from_action :: "string \<Rightarrow> string"

text \<open>What is documented of the generated code: a value that the description lists is represented by itself.\<close>

definition follows_idl :: "generated \<Rightarrow> bool" where
  "follows_idl T = ((\<forall>e. \<forall>v \<in> set (idl_values e). from_value T e v = v) \<and> (\<forall>s \<in> set idl_actions. from_action T s = s))"

section \<open>Structures of the interface\<close>

record ani_ErrorMessage =
  ae_errorCode :: int
  ae_errorMessage :: string

record ani_DescriptionInfo =
  ad_descriptionType :: int
  ad_content :: string

record ani_VersionComponent =
  av_componentId :: string
  av_componentType :: int
  av_upgradeAction :: string
  av_displayVersion :: string
  av_innerVersion :: string
  av_size :: int
  av_effectiveMode :: int
  av_descriptionInfo :: ani_DescriptionInfo

record ani_ComponentDescription =
  ac_componentId :: string
  ac_descriptionInfo :: ani_DescriptionInfo

record ani_VersionDigestInfo =
  an_versionDigest :: string

record ani_TaskBody =
  at_versionDigestInfo :: ani_VersionDigestInfo
  at_status :: int
  at_subStatus :: int
  at_progress :: int
  at_installMode :: int
  at_errorMessages :: "ani_ErrorMessage list"
  at_versionComponents :: "ani_VersionComponent list"

record ani_TaskInfo =
  ak_existTask :: bool
  ak_taskBody :: ani_TaskBody

record ani_EventInfo =
  av_eventId :: int
  av_taskBody :: ani_TaskBody

record ani_NewVersionInfo =
  aw_versionDigestInfo :: ani_VersionDigestInfo
  aw_versionComponents :: "ani_VersionComponent list"

record ani_CurrentVersionInfo =
  au_osVersion :: string
  au_deviceName :: string
  au_versionComponents :: "ani_VersionComponent list"

record ani_CheckResult =
  ah_isExistNewVersion :: bool
  ah_newVersionInfo :: ani_NewVersionInfo

record ani_UpgradePolicy =
  ap_downloadStrategy :: bool
  ap_autoUpgradeStrategy :: bool
  ap_autoUpgradePeriods :: "(int \<times> int) list"

record ani_FactoryResetInfo =
  af_duration :: int

record ani_BusinessType =
  ab_vendor :: string
  ab_subType :: int

record ani_UpgradeInfo =
  ai_upgradeApp :: string
  ai_businessType :: ani_BusinessType

record ani_DownloadOptions =
  ao_allowNetwork :: int
  ao_order :: int

section \<open>To the interface\<close>

definition Converter_ErrorMessage :: "ErrorMessage \<Rightarrow> ani_ErrorMessage" where
  "Converter_ErrorMessage m = \<lparr>ae_errorCode = i32 (em_errorCode m), ae_errorMessage = em_errorMessage m\<rparr>"

definition Converter_VersionDigestInfo :: "string \<Rightarrow> ani_VersionDigestInfo" where
  "Converter_VersionDigestInfo digest = \<lparr>an_versionDigest = digest\<rparr>"

definition Converter_DescriptionInfo :: "generated \<Rightarrow> int \<Rightarrow> string \<Rightarrow> ani_DescriptionInfo" where
  "Converter_DescriptionInfo T descriptionType content =
     \<lparr>ad_descriptionType = from_value T E_DescriptionType (i32 descriptionType), ad_content = content\<rparr>"

text \<open>The size and the effective mode are \<open>size_t\<close>; the mode is cast to the enumeration and then to \<open>int32_t\<close>.\<close>

definition Converter_VersionComponent :: "generated \<Rightarrow> VersionComponent \<Rightarrow> ani_VersionComponent" where
  "Converter_VersionComponent T c =
     \<lparr>av_componentId = vc_componentId c, av_componentType = from_value T E_ComponentType (i32 (vc_componentType c)),
      av_upgradeAction = from_action T (vc_upgradeAction c), av_displayVersion = vc_displayVersion c,
      av_innerVersion = vc_innerVersion c, av_size = i32 (vc_size c),
      av_effectiveMode = from_value T E_EffectiveMode (i32 (vc_effectiveMode c)),
      av_descriptionInfo = Converter_DescriptionInfo T (vc_descriptionType c) (vc_content c)\<rparr>"

definition Converter_ComponentDescription :: "generated \<Rightarrow> ComponentDescription_parcel \<Rightarrow> ani_ComponentDescription" where
  "Converter_ComponentDescription T d =
     \<lparr>ac_componentId = cp_componentId d, ac_descriptionInfo = Converter_DescriptionInfo T (cp_descriptionType d) (cp_content d)\<rparr>"

definition Converter_TaskBody :: "generated \<Rightarrow> TaskBody \<Rightarrow> ani_TaskBody" where
  "Converter_TaskBody T b =
     \<lparr>at_versionDigestInfo = Converter_VersionDigestInfo (tb_versionDigest b),
      at_status = from_value T E_UpgradeStatus (i32 (tb_status b)), at_subStatus = i32 (tb_subStatus b),
      at_progress = tb_progress b, at_installMode = i32 (tb_installMode b),
      at_errorMessages = map Converter_ErrorMessage (tb_errorMessages b),
      at_versionComponents = map (Converter_VersionComponent T) (tb_versionComponents b)\<rparr>"

definition Converter_TaskInfo :: "generated \<Rightarrow> TaskInfo_parcel \<Rightarrow> ani_TaskInfo" where
  "Converter_TaskInfo T t = \<lparr>ak_existTask = tp_existTask t, ak_taskBody = Converter_TaskBody T (tp_taskBody t)\<rparr>"

definition Converter_EventInfo :: "generated \<Rightarrow> EventInfo \<Rightarrow> ani_EventInfo" where
  "Converter_EventInfo T i =
     \<lparr>av_eventId = from_value T E_EventId (i32 (ei_eventId i)), av_taskBody = Converter_TaskBody T (ei_taskBody i)\<rparr>"

definition Converter_NewVersionInfo :: "generated \<Rightarrow> NewVersionInfo_parcel \<Rightarrow> ani_NewVersionInfo" where
  "Converter_NewVersionInfo T i =
     \<lparr>aw_versionDigestInfo = Converter_VersionDigestInfo (nv_versionDigest i),
      aw_versionComponents = map (Converter_VersionComponent T) (nv_versionComponents i)\<rparr>"

definition Converter_CurrentVersionInfo :: "generated \<Rightarrow> CurrentVersionInfo \<Rightarrow> ani_CurrentVersionInfo" where
  "Converter_CurrentVersionInfo T i =
     \<lparr>au_osVersion = cv_osVersion i, au_deviceName = cv_deviceName i,
      au_versionComponents = map (Converter_VersionComponent T) (cv_versionComponents i)\<rparr>"

definition Converter_CheckResult :: "generated \<Rightarrow> CheckResult \<Rightarrow> ani_CheckResult" where
  "Converter_CheckResult T r =
     \<lparr>ah_isExistNewVersion = cr_isExistNewVersion r,
      ah_newVersionInfo = Converter_NewVersionInfo T
        \<lparr>nv_versionDigest = cr_versionDigest r, nv_versionComponents = cr_versionComponents r\<rparr>\<rparr>"

definition Converter_UpgradePeriod :: "int \<times> int \<Rightarrow> int \<times> int" where
  "Converter_UpgradePeriod p = (i32 (fst p), i32 (snd p))"

definition Converter_UpgradePolicy :: "UpgradePolicy \<Rightarrow> ani_UpgradePolicy" where
  "Converter_UpgradePolicy p =
     \<lparr>ap_downloadStrategy = po_downloadStrategy p, ap_autoUpgradeStrategy = po_autoUpgradeStrategy p,
      ap_autoUpgradePeriods = map Converter_UpgradePeriod (po_periods p)\<rparr>"

definition Converter_FactoryResetInfo :: "FactoryResetInfo \<Rightarrow> ani_FactoryResetInfo" where
  "Converter_FactoryResetInfo i = \<lparr>af_duration = ri_duration i\<rparr>"

section \<open>From the interface\<close>

text \<open>The options for the descriptions, the pause, the resumption, the upgrade and the error, the digest, the file and the
  strategy of a reset have the same members on both sides, an enumeration by its number.\<close>

definition BusinessType_of :: "ani_BusinessType \<Rightarrow> BusinessType" where
  "BusinessType_of b = BusinessType (ab_vendor b) (ab_subType b)"

text \<open>The other members of the structure keep the values they are made with.\<close>

definition UpgradeInfo_of :: "ani_UpgradeInfo \<Rightarrow> UpgradeInfo" where
  "UpgradeInfo_of i =
     (let u = new_upgrade_info
      in UpgradeInfo (ai_upgradeApp i) (BusinessType_of (ai_businessType i)) (ui_upgradeDevId u) (ui_controlDevId u)
           (ui_processId u) (ui_deviceType u))"

definition DownloadOptions_of :: "ani_DownloadOptions \<Rightarrow> DownloadOptions_parcel" where
  "DownloadOptions_of x = \<lparr>dop_allowNetwork = ao_allowNetwork x, dop_order = ao_order x\<rparr>"

text \<open>The members of a period are \<open>uint32_t\<close>.\<close>

definition UpgradePeriod_of :: "int \<times> int \<Rightarrow> int \<times> int" where
  "UpgradePeriod_of p = (u32 (fst p), u32 (snd p))"

definition UpgradePolicy_of :: "ani_UpgradePolicy \<Rightarrow> UpgradePolicy" where
  "UpgradePolicy_of p =
     (let range = min (length (ap_autoUpgradePeriods p)) 2
      in \<lparr>po_downloadStrategy = ap_downloadStrategy p, po_autoUpgradeStrategy = ap_autoUpgradeStrategy p,
          po_periods = map (\<lambda>index. if index < range then UpgradePeriod_of (ap_autoUpgradePeriods p ! index) else (0, 0)) [0, 1]\<rparr>)"

section \<open>Facts\<close>

lemma u32_i32: "is_u32 v \<Longrightarrow> u32 (i32 v) = v"
proof -
  assume "is_u32 v"
  then have "u32 v = v" by (simp add: is_u32_def u32_id)
  moreover have "u32 (i32 v) = u32 v" by (simp add: u32_def i32_def mod_diff_left_eq)
  ultimately show "u32 (i32 v) = v" by simp
qed

text \<open>A policy that is read and set again is the same, its periods included.\<close>

lemma policy_survives:
  assumes "length (po_periods p) = 2" "\<forall>(s, t) \<in> set (po_periods p). is_u32 s \<and> is_u32 t"
  shows "UpgradePolicy_of (Converter_UpgradePolicy p) = p"
proof -
  obtain s1 t1 s2 t2 where "po_periods p = [(s1, t1), (s2, t2)]"
    using assms(1) by (auto simp: length_Suc_conv numeral_2_eq_2)
  then show ?thesis using assms(2)
    by (auto simp: UpgradePolicy_of_def Converter_UpgradePolicy_def Converter_UpgradePeriod_def UpgradePeriod_of_def Let_def u32_i32
        intro!: UpgradePolicy.equality)
qed

text \<open>The size of a package of two gigabytes or more is wrong; up to four gigabytes it is negative.\<close>

lemma size_is_truncated:
  "0 \<le> vc_size c \<Longrightarrow> (av_size (Converter_VersionComponent T c) = vc_size c) = (vc_size c < 2 ^ 31)"
  "2 ^ 31 \<le> vc_size c \<Longrightarrow> vc_size c < 2 ^ 32 \<Longrightarrow> av_size (Converter_VersionComponent T c) < 0"
proof -
  have "i32 v < 2 ^ 31" "v < 2 ^ 31 \<longrightarrow> 0 \<le> v \<longrightarrow> i32 v = v" "2 ^ 31 \<le> v \<longrightarrow> v < 2 ^ 32 \<longrightarrow> i32 v = v - 2 ^ 32" for v
    by (auto simp: i32_def mod_pos_pos_trivial)
      (subst mod_pos_geq; simp add: mod_pos_pos_trivial)
  then show "0 \<le> vc_size c \<Longrightarrow> (av_size (Converter_VersionComponent T c) = vc_size c) = (vc_size c < 2 ^ 31)"
    "2 ^ 31 \<le> vc_size c \<Longrightarrow> vc_size c < 2 ^ 32 \<Longrightarrow> av_size (Converter_VersionComponent T c) < 0"
    by (auto simp: Converter_VersionComponent_def) (metis linorder_not_less)+
qed

end
