(* ===== verification/Ani_Updater.thy ===== *)
theory Ani_Updater
  imports Ani_Convert Js_Module
begin

text \<open>
  The objects of the bindings for the static language: \<open>AniBaseUpdater\<close>, \<open>AniUpdater\<close>, \<open>AniRestorer\<close>, \<open>AniLocalUpdater\<close> and
  the implementations of the interface in \<open>taihe_impl.cpp\<close> (\<open>frameworks/js/ani/src\<close>). A request is carried out on the calling
  thread, through the client library of \<open>Service_Kits\<close>. What the platform and the service bring to it is that of the
  bindings for scripts (\<open>js_env\<close>).
\<close>

section \<open>Errors\<close>

definition ani_IsCommonError :: "int \<Rightarrow> bool" where
  "ani_IsCommonError callResult =
     (callResult = call_result_code CR_UN_SUPPORT \<or> callResult = call_result_code CR_NOT_SYSTEM_APP
      \<or> callResult = call_result_code CR_APP_NOT_GRANTED \<or> callResult = call_result_code CR_PARAM_ERR)"

definition ani_ConvertToErrorCode :: "int \<Rightarrow> int" where
  "ani_ConvertToErrorCode callResult =
     (if ani_IsCommonError callResult \<or> callResult = call_result_code CR_SUCCESS then callResult else 11500000 + callResult)"

definition ani_GetIpcErrorMessage :: "string \<Rightarrow> string \<Rightarrow> int \<Rightarrow> string \<Rightarrow> string \<Rightarrow> string" where
  "ani_GetIpcErrorMessage permissionName funcName ipcRequestCode callResultStr msg =
     (let error = ''BusinessError '' @ callResultStr
      in if ipcRequestCode = call_result_code CR_NOT_SYSTEM_APP
         then error @ '': Permission verification failed. A non-system application calls a system API.''
         else if ipcRequestCode = call_result_code CR_APP_NOT_GRANTED
         then error @ '': Permission denied. An attempt was made to '' @ funcName @ '' forbidden by permission: ''
           @ permissionName @ ''.''
         else if ipcRequestCode = call_result_code CR_IPC_ERR then error @ '': IPC error.''
         else if ipcRequestCode = call_result_code CR_UN_SUPPORT
         then error @ '': Capability not supported. '' @ ''function '' @ funcName
           @ '' can not work correctly due to limited device capabilities.''
         else if ipcRequestCode = call_result_code CR_PARAM_ERR then ''param error''
         else if ipcRequestCode = call_result_code CR_MDM_DISABLE_RESET
         then error @ '': This function is prohibited by enterprise management policies.''
         else if ipcRequestCode = call_result_code CR_FAIL then error @ '': Execute fail.''
         else if ipcRequestCode = call_result_code CR_FORBIDDEN then error @ '': Forbidden execution.''
         else if ipcRequestCode = call_result_code CR_DEV_UPG_INFO_ERR then error @ '': Device info error.''
         else if ipcRequestCode = call_result_code CR_TIME_OUT then error @ '': Execute timeout.''
         else if ipcRequestCode = call_result_code CR_DB_ERROR then error @ '': DB error.''
         else if ipcRequestCode = call_result_code CR_IO_ERROR then error @ '': IO error.''
         else if ipcRequestCode = call_result_code CR_NET_ERROR then error @ '': Network error.''
         else msg)"

definition ani_GetIpcBusinessError :: "string \<Rightarrow> string \<Rightarrow> int \<Rightarrow> BusinessError_parcel" where
  "ani_GetIpcBusinessError permissionName funcName ipcRequestCode =
     new_error ipcRequestCode (ani_GetIpcErrorMessage permissionName funcName ipcRequestCode
       (to_string (ani_ConvertToErrorCode ipcRequestCode)) ''execute error'')"

text \<open>The error that the runtime is told, if any: the caller of the method gets it as an exception.\<close>

definition SetError :: "string \<Rightarrow> int \<Rightarrow> string \<Rightarrow> BusinessError_parcel \<Rightarrow> (int \<times> string) option" where
  "SetError permissionName ret funcName error =
     (if ret \<noteq> 0 then
        let errorInfo = ani_GetIpcBusinessError permissionName funcName ret
        in Some (ani_ConvertToErrorCode (bp_errorNum errorInfo), bp_message errorInfo)
      else if bp_errorNum error \<noteq> call_result_code CR_SUCCESS
      then Some (ani_ConvertToErrorCode (bp_errorNum error), bp_message error)
      else None)"

definition base_permission :: string where "base_permission = ''ohos.permission.UPDATE_SYSTEM''"
definition restorer_permission :: string where "restorer_permission = ''ohos.permission.FACTORY_RESET''"

section \<open>State\<close>

text \<open>What the objects of a process share, and what its listeners have heard: the listener and the event.\<close>

record ani_process =
  ax_ipc :: ipc
  ax_heard :: "(nat \<times> ani_EventInfo) list"
  ax_flows :: "flow_state list"
  ax_resets :: "reset_call list"
  ax_ends :: bool

text \<open>A callback is known by its number. \<open>ab_mutex\<close> says that the thread that is looked at holds the mutex.\<close>

record AniBaseUpdater =
  ab_mutex :: bool
  ab_callbacks :: "nat list"

text \<open>\<open>an_callback\<close> is the number of the callback that the updater registers with the library.\<close>

record AniUpdater = AniBaseUpdater +
  an_upgradeInfo :: UpgradeInfo
  an_callback :: nat

definition new_AniUpdater :: "nat \<Rightarrow> UpgradeInfo \<Rightarrow> AniUpdater" where
  "new_AniUpdater callback info = \<lparr>ab_mutex = False, ab_callbacks = [], an_upgradeInfo = info, an_callback = callback\<rparr>"

section \<open>Listeners\<close>

text \<open>The two methods of an updater at the service are arguments. Locking the mutex that the same thread holds blocks: the
  result is none.\<close>

type_synonym 'u at_service = "'u \<Rightarrow> ani_process \<Rightarrow> ani_process"

definition ani_On :: "('m AniBaseUpdater_scheme) at_service \<Rightarrow> nat \<Rightarrow> 'm AniBaseUpdater_scheme \<Rightarrow> ani_process
    \<Rightarrow> ('m AniBaseUpdater_scheme \<times> ani_process) option" where
  "ani_On register callback u g =
     (if ab_mutex u then None
      else if callback \<in> set (ab_callbacks u) then Some (u, g)
      else
        let g1 = (if ab_callbacks u = [] then register u g else g)
        in Some (u\<lparr>ab_callbacks := ab_callbacks u @ [callback]\<rparr>, g1))"

definition ani_Off :: "('m AniBaseUpdater_scheme) at_service \<Rightarrow> nat \<Rightarrow> 'm AniBaseUpdater_scheme \<Rightarrow> ani_process
    \<Rightarrow> ('m AniBaseUpdater_scheme \<times> ani_process) option" where
  "ani_Off unregister callback u g =
     (if ab_mutex u then None
      else
        let u1 = u\<lparr>ab_callbacks := filter (\<lambda>cb. cb \<noteq> callback) (ab_callbacks u)\<rparr>
        in Some (u1, if ab_callbacks u1 = [] then unregister u1 g else g))"

definition ani_OffAll :: "('m AniBaseUpdater_scheme) at_service \<Rightarrow> 'm AniBaseUpdater_scheme \<Rightarrow> ani_process
    \<Rightarrow> ('m AniBaseUpdater_scheme \<times> ani_process) option" where
  "ani_OffAll unregister u g =
     (if ab_mutex u then None
      else let u1 = u\<lparr>ab_callbacks := []\<rparr> in Some (u1, unregister u1 g))"

text \<open>In the base class the two methods do nothing, and these are what the destructor of the base class reaches, since the
  derived part is gone.\<close>

definition base_RegisterCallback :: "('m AniBaseUpdater_scheme) at_service" where "base_RegisterCallback u g = g"
definition base_UnRegisterCallback :: "('m AniBaseUpdater_scheme) at_service" where "base_UnRegisterCallback u g = g"

definition destroy_AniBaseUpdater ::
  "'m AniBaseUpdater_scheme \<Rightarrow> ani_process \<Rightarrow> ('m AniBaseUpdater_scheme \<times> ani_process) option" where
  "destroy_AniBaseUpdater u g = ani_OffAll base_UnRegisterCallback u g"

text \<open>What a listener does with the updater when it is called, on the thread that calls it.\<close>

datatype listener_action = Does_On nat | Does_Off nat | Does_OffAll | Does_other "ani_process \<Rightarrow> ani_process"

fun listener_acts :: "('m AniBaseUpdater_scheme) at_service \<Rightarrow> ('m AniBaseUpdater_scheme) at_service \<Rightarrow> listener_action list
    \<Rightarrow> 'm AniBaseUpdater_scheme \<Rightarrow> ani_process \<Rightarrow> ('m AniBaseUpdater_scheme \<times> ani_process) option" where
  "listener_acts register unregister [] u g = Some (u, g)"
| "listener_acts register unregister (a # as) u g =
     (case (case a of
              Does_On cb \<Rightarrow> ani_On register cb u g
            | Does_Off cb \<Rightarrow> ani_Off unregister cb u g
            | Does_OffAll \<Rightarrow> ani_OffAll unregister u g
            | Does_other f \<Rightarrow> Some (u, f g)) of
        None \<Rightarrow> None
      | Some (u1, g1) \<Rightarrow> listener_acts register unregister as u1 g1)"

text \<open>The loop of \<open>CallbackEventInfo\<close> over the callbacks, which nobody changes while the mutex is held.\<close>

fun call_callbacks :: "('m AniBaseUpdater_scheme) at_service \<Rightarrow> ('m AniBaseUpdater_scheme) at_service
    \<Rightarrow> (nat \<Rightarrow> listener_action list) \<Rightarrow> ani_EventInfo \<Rightarrow> nat list
    \<Rightarrow> 'm AniBaseUpdater_scheme \<Rightarrow> ani_process \<Rightarrow> ('m AniBaseUpdater_scheme \<times> ani_process) option" where
  "call_callbacks register unregister does event [] u g = Some (u, g)"
| "call_callbacks register unregister does event (cb # cbs) u g =
     (case listener_acts register unregister (does cb) u (g\<lparr>ax_heard := ax_heard g @ [(cb, event)]\<rparr>) of
        None \<Rightarrow> None
      | Some (u1, g1) \<Rightarrow> call_callbacks register unregister does event cbs u1 g1)"

definition CallbackEventInfo :: "('m AniBaseUpdater_scheme) at_service \<Rightarrow> ('m AniBaseUpdater_scheme) at_service
    \<Rightarrow> (nat \<Rightarrow> listener_action list) \<Rightarrow> generated \<Rightarrow> EventInfo \<Rightarrow> 'm AniBaseUpdater_scheme \<Rightarrow> ani_process
    \<Rightarrow> ('m AniBaseUpdater_scheme \<times> ani_process) option" where
  "CallbackEventInfo register unregister does T eventInfo u g =
     (if ab_mutex u then None
      else map_option (\<lambda>(u1, g1). (u1\<lparr>ab_mutex := False\<rparr>, g1))
        (call_callbacks register unregister does (Converter_EventInfo T eventInfo) (ab_callbacks u) (u\<lparr>ab_mutex := True\<rparr>) g))"

text \<open>\<open>AniUpdater::RegisterCallback\<close> makes the same attempts as the object of a script (\<open>register_attempts\<close>).\<close>

definition ani_RegisterCallback :: "js_env \<Rightarrow> AniUpdater at_service" where
  "ani_RegisterCallback e u g =
     g\<lparr>ax_ipc := snd (register_attempts (je_kits e) (an_upgradeInfo u) (an_callback u) 0 (ax_ipc g))\<rparr>"

definition ani_UnRegisterCallback :: "js_env \<Rightarrow> AniUpdater at_service" where
  "ani_UnRegisterCallback e u g =
     g\<lparr>ax_ipc := snd (kits_UnregisterUpdateCallback (je_kits e 0) (an_upgradeInfo u) (ax_ipc g))\<rparr>"

section \<open>Requests of the updater\<close>

text \<open>The error, the answer and the process afterwards. The output parameters are new objects, which the library fills when the
  request is carried out.\<close>

type_synonym 'a ani_call = "ani_process \<Rightarrow> (int \<times> string) option \<times> 'a \<times> ani_process"

definition answered :: "int \<Rightarrow> 'a \<Rightarrow> 'a \<Rightarrow> 'a" where
  "answered ret new old = (if ret = INT_CALL_SUCCESS then new else old)"

definition ani_done :: "string \<Rightarrow> string \<Rightarrow> int \<times> BusinessError \<times> ipc \<Rightarrow> 'a \<Rightarrow> 'a ani_call" where
  "ani_done permissionName funcName r answer g =
     (case r of (ret, err, x) \<Rightarrow> (SetError permissionName ret funcName (wire_error err), answer, g\<lparr>ax_ipc := x\<rparr>))"

definition ani_starts :: "flow_state list \<Rightarrow> ani_process \<Rightarrow> ani_process" where
  "ani_starts flows g = g\<lparr>ax_flows := ax_flows g @ flows\<rparr>"

definition CheckNewVersionSync :: "js_env \<Rightarrow> generated \<Rightarrow> AniUpdater \<Rightarrow> ani_CheckResult ani_call" where
  "CheckNewVersionSync e T u g =
     (case kits_CheckNewVersion (je_kits e 0) (an_upgradeInfo u) (je_fw e) (je_arrived e) (new_business_error, new_check_result) (ax_ipc g) of
        (ret, ((err, result), flows), x) \<Rightarrow>
          ani_done base_permission ''checkNewVersion'' (ret, err, x) (Converter_CheckResult T (answered ret result new_check_result))
            (ani_starts flows g))"

definition GetNewVersionInfoSync :: "js_env \<Rightarrow> generated \<Rightarrow> AniUpdater \<Rightarrow> ani_NewVersionInfo ani_call" where
  "GetNewVersionInfoSync e T u g =
     (case kits_GetNewVersionInfo (je_kits e 0) (an_upgradeInfo u) (je_fw e) ([], []) (ax_ipc g) of
        (ret, (digest, components), x) \<Rightarrow>
          ani_done base_permission ''getNewVersionInfo'' (ret, new_business_error, x)
            (Converter_NewVersionInfo T (answered ret \<lparr>nv_versionDigest = digest, nv_versionComponents = components\<rparr>
              \<lparr>nv_versionDigest = [], nv_versionComponents = []\<rparr>)) g)"

text \<open>The library takes the language of the options for the descriptions.\<close>

definition GetNewVersionDescriptionSync ::
  "js_env \<Rightarrow> generated \<Rightarrow> ani_VersionDigestInfo \<Rightarrow> DescriptionOptions \<Rightarrow> AniUpdater \<Rightarrow> ani_ComponentDescription list ani_call" where
  "GetNewVersionDescriptionSync e T versionDigestInfo descriptionOptions u g =
     (case kits_GetNewVersionDescription (je_kits e 0) (an_upgradeInfo u) (je_realpath e) (de_language descriptionOptions)
             new_business_error (ax_ipc g) of
        (ret, (err, ds), x) \<Rightarrow>
          ani_done base_permission ''getNewVersionDescription'' (ret, err, x)
            (map (Converter_ComponentDescription T) (answered ret (map description_up ds) [])) g)"

definition GetCurrentVersionInfoSync :: "js_env \<Rightarrow> generated \<Rightarrow> AniUpdater \<Rightarrow> ani_CurrentVersionInfo ani_call" where
  "GetCurrentVersionInfoSync e T u g =
     (let info = \<lparr>cv_osVersion = [], cv_deviceName = [], cv_versionComponents = []\<rparr>
      in case kits_GetCurrentVersionInfo (je_kits e 0) (an_upgradeInfo u) (je_device e) info new_business_error (ax_ipc g) of
        (ret, (err, i), x) \<Rightarrow>
          ani_done base_permission ''getCurrentVersionInfo'' (ret, err, x) (Converter_CurrentVersionInfo T (answered ret i info)) g)"

definition GetCurrentVersionDescriptionSync ::
  "js_env \<Rightarrow> generated \<Rightarrow> DescriptionOptions \<Rightarrow> AniUpdater \<Rightarrow> ani_ComponentDescription list ani_call" where
  "GetCurrentVersionDescriptionSync e T descriptionOptions u g =
     (case kits_GetCurrentVersionDescription (je_kits e 0) (an_upgradeInfo u) (je_realpath e) (de_language descriptionOptions)
             new_business_error (ax_ipc g) of
        (ret, (err, ds), x) \<Rightarrow>
          ani_done base_permission ''getCurrentVersionDescription'' (ret, err, x)
            (map (Converter_ComponentDescription T) (answered ret (map description_up ds) [])) g)"

definition GetTaskInfoSync :: "js_env \<Rightarrow> generated \<Rightarrow> AniUpdater \<Rightarrow> ani_TaskInfo ani_call" where
  "GetTaskInfoSync e T u g =
     (case kits_GetTaskInfo (je_kits e 0) (an_upgradeInfo u) new_task_info new_business_error (ax_ipc g) of
        (ret, (err, t), x) \<Rightarrow>
          ani_done base_permission ''getTaskInfo'' (ret, err, x) (Converter_TaskInfo T (task_up (answered ret t new_task_info))) g)"

definition DownloadSync :: "js_env \<Rightarrow> ani_VersionDigestInfo \<Rightarrow> ani_DownloadOptions \<Rightarrow> AniUpdater \<Rightarrow> unit ani_call" where
  "DownloadSync e versionDigestInfo downloadOptions u g =
     (case kits_Download (je_kits e 0) (an_upgradeInfo u) (je_fw e) (download_options (DownloadOptions_of downloadOptions))
             new_business_error (ax_ipc g) of
        (ret, (err, flows), x) \<Rightarrow> ani_done base_permission ''download'' (ret, err, x) () (ani_starts flows g))"

definition ResumeDownloadSync :: "js_env \<Rightarrow> ani_VersionDigestInfo \<Rightarrow> ResumeDownloadOptions \<Rightarrow> AniUpdater \<Rightarrow> unit ani_call" where
  "ResumeDownloadSync e versionDigestInfo resumeDownloadOptions u g =
     ani_done base_permission ''resumeDownload'' (kits_ResumeDownload (je_kits e 0) new_business_error (ax_ipc g)) () g"

definition PauseDownloadSync :: "js_env \<Rightarrow> ani_VersionDigestInfo \<Rightarrow> PauseDownloadOptions \<Rightarrow> AniUpdater \<Rightarrow> unit ani_call" where
  "PauseDownloadSync e versionDigestInfo pauseDownloadOptions u g =
     ani_done base_permission ''pauseDownload'' (kits_PauseDownload (je_kits e 0) new_business_error (ax_ipc g)) () g"

definition UpgradeSync :: "js_env \<Rightarrow> ani_VersionDigestInfo \<Rightarrow> UpgradeOptions_parcel \<Rightarrow> AniUpdater \<Rightarrow> unit ani_call" where
  "UpgradeSync e versionDigestInfo upgradeOptions u g =
     (case kits_Upgrade (je_kits e 0) (an_upgradeInfo u) (je_fw e) (upgrade_options upgradeOptions) new_business_error (ax_ipc g) of
        (ret, (err, flows), x) \<Rightarrow> ani_done base_permission ''upgrade'' (ret, err, x) () (ani_starts flows g))"

definition ClearErrorSync :: "js_env \<Rightarrow> ani_VersionDigestInfo \<Rightarrow> ClearOptions \<Rightarrow> AniUpdater \<Rightarrow> unit ani_call" where
  "ClearErrorSync e versionDigestInfo clearOptions u g =
     ani_done base_permission ''clearError'' (kits_ClearError (je_kits e 0) (an_upgradeInfo u) new_business_error (ax_ipc g)) () g"

definition GetUpgradePolicySync :: "js_env \<Rightarrow> AniUpdater \<Rightarrow> ani_UpgradePolicy ani_call" where
  "GetUpgradePolicySync e u g =
     (case kits_GetUpgradePolicy (je_kits e 0) (an_upgradeInfo u) no_policy new_business_error (ax_ipc g) of
        (ret, (err, p), x) \<Rightarrow>
          ani_done base_permission ''getUpgradePolicy'' (ret, err, x) (Converter_UpgradePolicy (answered ret p no_policy)) g)"

definition SetUpgradePolicySync :: "js_env \<Rightarrow> ani_UpgradePolicy \<Rightarrow> AniUpdater \<Rightarrow> unit ani_call" where
  "SetUpgradePolicySync e policy u g =
     ani_done base_permission ''setUpgradePolicy''
       (kits_SetUpgradePolicy (je_kits e 0) (an_upgradeInfo u) (je_fw e) (UpgradePolicy_of policy) new_business_error (ax_ipc g)) () g"

definition TerminateUpgradeSync :: "js_env \<Rightarrow> AniUpdater \<Rightarrow> unit ani_call" where
  "TerminateUpgradeSync e u g =
     (case kits_TerminateUpgrade (je_kits e 0) (an_upgradeInfo u) (je_fw e) new_business_error (ax_ipc g) of
        (ret, (ends, err), x) \<Rightarrow>
          ani_done base_permission ''terminateUpgrade'' (ret, err, x) () (g\<lparr>ax_ends := ax_ends g \<or> ends\<rparr>))"

end
