(* ===== verification/Ani_Module.thy ===== *)
theory Ani_Module
  imports Ani_Updater
begin

text \<open>
  The other objects and the module of the bindings for the static language: \<open>ani_restorer.cpp\<close>, \<open>ani_local_updater.cpp\<close> and
  \<open>taihe_impl.cpp\<close> of \<open>frameworks/js/ani/src\<close>. An object that the caller holds only knows its description; the updaters
  themselves are kept in a map of the process and are made when they are first needed.
\<close>

section \<open>\<open>AniRestorer\<close>\<close>

definition ani_reset :: "string \<Rightarrow> int \<times> (BusinessError \<times> reset_call list) \<times> ipc \<Rightarrow> unit ani_call" where
  "ani_reset funcName r g =
     (case r of (ret, (err, calls), x) \<Rightarrow>
        ani_done restorer_permission funcName (ret, err, x) () (g\<lparr>ax_resets := ax_resets g @ calls\<rparr>))"

definition FactoryResetSync :: "js_env \<Rightarrow> unit ani_call" where
  "FactoryResetSync e g =
     ani_reset ''factoryReset'' (kits_FactoryReset (je_kits e 0) (je_reset e) (je_caller e) new_business_error (ax_ipc g)) g"

definition ForceFactoryResetSync :: "js_env \<Rightarrow> unit ani_call" where
  "ForceFactoryResetSync e g =
     ani_reset ''forceFactoryReset'' (kits_ForceFactoryReset (je_kits e 0) (je_reset e) (je_caller e) new_business_error (ax_ipc g)) g"

definition DeepFactoryResetSync :: "js_env \<Rightarrow> FactoryResetStrategy \<Rightarrow> unit ani_call" where
  "DeepFactoryResetSync e factoryResetStrategy g =
     ani_reset ''deepFactoryResetSync''
       (kits_DeepFactoryReset (je_kits e 0) (je_reset e) (je_caller e) (reset_scope (rs_scope factoryResetStrategy))
         new_business_error (ax_ipc g)) g"

definition GetDeepFactoryResetInfoSync :: "js_env \<Rightarrow> FactoryResetStrategy \<Rightarrow> ani_FactoryResetInfo ani_call" where
  "GetDeepFactoryResetInfoSync e factoryResetStrategy g =
     (case kits_GetDeepFactoryResetInfo (je_kits e 0) (je_reset e) (reset_scope (rs_scope factoryResetStrategy)) 0
             new_business_error (ax_ipc g) of
        (ret, (duration, err), x) \<Rightarrow>
          ani_done restorer_permission ''getDeepFactoryResetInfoSync'' (ret, err, x)
            (Converter_FactoryResetInfo \<lparr>ri_duration = answered ret duration 0\<rparr>) g)"

section \<open>\<open>AniLocalUpdater\<close>\<close>

definition VerifyUpgradePackageSync :: "js_env \<Rightarrow> UpgradeFile \<Rightarrow> string \<Rightarrow> unit ani_call" where
  "VerifyUpgradePackageSync e upgradeFile certsFile g =
     ani_done base_permission ''verifyUpgradePackage''
       (kits_VerifyUpgradePackage (je_kits e 0) (je_verifies e) (uf_filePath upgradeFile) certsFile new_business_error (ax_ipc g)) () g"

definition ApplyNewVersionSync :: "js_env \<Rightarrow> UpgradeFile list \<Rightarrow> unit ani_call" where
  "ApplyNewVersionSync e upgradeFiles g =
     ani_done base_permission ''applyNewVersion''
       (kits_ApplyNewVersion (je_kits e 0) (je_reboots e) ''/dev/block/by-name/misc'' (map uf_filePath upgradeFiles)
         new_business_error (ax_ipc g)) () g"

section \<open>The module\<close>

text \<open>\<open>aniUpdatersMap_\<close> and \<open>localUpdater_\<close>; the object for resets has no state. The callbacks are numbered in the order in
  which the updaters are made.\<close>

record ani_module =
  am_aniUpdatersMap :: "(UpgradeInfo, AniUpdater) cmap"
  am_localUpdater :: "AniBaseUpdater option"
  am_callbacks :: nat
  am_process :: ani_process

definition new_ani_module :: "ani_process \<Rightarrow> ani_module" where
  "new_ani_module g = \<lparr>am_aniUpdatersMap = [], am_localUpdater = None, am_callbacks = 0, am_process = g\<rparr>"

text \<open>\<open>GetOnlineUpdater\<close> makes an \<open>UpdaterImpl\<close>, which is the description it holds.\<close>

definition ani_GetOnlineUpdater :: "ani_UpgradeInfo \<Rightarrow> UpgradeInfo" where
  "ani_GetOnlineUpdater upgradeInfo = UpgradeInfo_of upgradeInfo"

definition GetAniUpdater :: "UpgradeInfo \<Rightarrow> ani_module \<Rightarrow> AniUpdater \<times> ani_module" where
  "GetAniUpdater info m =
     (case map_of (am_aniUpdatersMap m) info of
        Some u \<Rightarrow> (u, m)
      | None \<Rightarrow>
          let u = new_AniUpdater (am_callbacks m) info
          in (u, m\<lparr>am_aniUpdatersMap := cm_put info u (am_aniUpdatersMap m), am_callbacks := am_callbacks m + 1\<rparr>))"

definition GetAniLocalUpdater :: "ani_module \<Rightarrow> AniBaseUpdater \<times> ani_module" where
  "GetAniLocalUpdater m =
     (case am_localUpdater m of
        Some u \<Rightarrow> (u, m)
      | None \<Rightarrow> let u = \<lparr>ab_mutex = False, ab_callbacks = []\<rparr> in (u, m\<lparr>am_localUpdater := Some u\<rparr>))"

text \<open>A request of an \<open>UpdaterImpl\<close>: the updater is found and the request is passed to it.\<close>

definition impl_request :: "(AniUpdater \<Rightarrow> 'a ani_call) \<Rightarrow> UpgradeInfo \<Rightarrow> ani_module \<Rightarrow> (int \<times> string) option \<times> 'a \<times> ani_module" where
  "impl_request method info m =
     (case GetAniUpdater info m of
        (u, m1) \<Rightarrow> (case method u (am_process m1) of (err, answer, g) \<Rightarrow> (err, answer, m1\<lparr>am_process := g\<rparr>)))"

text \<open>A method that changes the updater, or blocks.\<close>

definition with_updater :: "(AniUpdater \<Rightarrow> ani_process \<Rightarrow> (AniUpdater \<times> ani_process) option) \<Rightarrow> UpgradeInfo \<Rightarrow> ani_module
    \<Rightarrow> ani_module option" where
  "with_updater method info m =
     (case GetAniUpdater info m of
        (u, m1) \<Rightarrow>
          (case method u (am_process m1) of
             None \<Rightarrow> None
           | Some (u1, g) \<Rightarrow>
               Some (m1\<lparr>am_aniUpdatersMap := cm_adj info (\<lambda>_. u1) (am_aniUpdatersMap m1), am_process := g\<rparr>)))"

text \<open>The class of the events, the first argument, is not looked at.\<close>

definition impl_On :: "js_env \<Rightarrow> EventClassifyInfo \<Rightarrow> nat \<Rightarrow> UpgradeInfo \<Rightarrow> ani_module \<Rightarrow> ani_module option" where
  "impl_On e eventClassifyInfo taskCallback info m = with_updater (ani_On (ani_RegisterCallback e) taskCallback) info m"

definition impl_Off :: "js_env \<Rightarrow> EventClassifyInfo \<Rightarrow> nat option \<Rightarrow> UpgradeInfo \<Rightarrow> ani_module \<Rightarrow> ani_module option" where
  "impl_Off e eventClassifyInfo taskCallback info m =
     (case taskCallback of
        Some cb \<Rightarrow> with_updater (ani_Off (ani_UnRegisterCallback e) cb) info m
      | None \<Rightarrow> with_updater (ani_OffAll (ani_UnRegisterCallback e)) info m)"

definition with_local_updater ::
  "(AniBaseUpdater \<Rightarrow> ani_process \<Rightarrow> (AniBaseUpdater \<times> ani_process) option) \<Rightarrow> ani_module \<Rightarrow> ani_module option" where
  "with_local_updater method m =
     (case GetAniLocalUpdater m of
        (u, m1) \<Rightarrow>
          (case method u (am_process m1) of
             None \<Rightarrow> None
           | Some (u1, g) \<Rightarrow> Some (m1\<lparr>am_localUpdater := Some u1, am_process := g\<rparr>)))"

definition local_impl_On :: "EventClassifyInfo \<Rightarrow> nat \<Rightarrow> ani_module \<Rightarrow> ani_module option" where
  "local_impl_On eventClassifyInfo taskCallback m = with_local_updater (ani_On base_RegisterCallback taskCallback) m"

definition local_impl_Off :: "EventClassifyInfo \<Rightarrow> nat option \<Rightarrow> ani_module \<Rightarrow> ani_module option" where
  "local_impl_Off eventClassifyInfo taskCallback m =
     (case taskCallback of
        Some cb \<Rightarrow> with_local_updater (ani_Off base_UnRegisterCallback cb) m
      | None \<Rightarrow> with_local_updater (ani_OffAll base_UnRegisterCallback) m)"

text \<open>The library calls the callback of an updater with an event of the service.\<close>

definition impl_event :: "js_env \<Rightarrow> (nat \<Rightarrow> listener_action list) \<Rightarrow> generated \<Rightarrow> EventInfo \<Rightarrow> UpgradeInfo \<Rightarrow> ani_module
    \<Rightarrow> ani_module option" where
  "impl_event e does T eventInfo info m =
     with_updater (CallbackEventInfo (ani_RegisterCallback e) (ani_UnRegisterCallback e) does T eventInfo) info m"

section \<open>The requests an updater has\<close>

datatype ani_request = A_CheckNewVersion | A_GetNewVersionInfo | A_GetNewVersionDescription ani_VersionDigestInfo DescriptionOptions
  | A_GetCurrentVersionInfo | A_GetCurrentVersionDescription DescriptionOptions | A_GetTaskInfo
  | A_Download ani_VersionDigestInfo ani_DownloadOptions | A_ResumeDownload ani_VersionDigestInfo ResumeDownloadOptions
  | A_PauseDownload ani_VersionDigestInfo PauseDownloadOptions | A_Upgrade ani_VersionDigestInfo UpgradeOptions_parcel
  | A_ClearError ani_VersionDigestInfo ClearOptions | A_GetUpgradePolicy | A_SetUpgradePolicy ani_UpgradePolicy | A_TerminateUpgrade

text \<open>The error of a request and the process afterwards.\<close>

definition outcome :: "(int \<times> string) option \<times> 'a \<times> ani_module \<Rightarrow> (int \<times> string) option \<times> ani_module" where
  "outcome r = (fst r, snd (snd r))"

fun impl_requests :: "js_env \<Rightarrow> generated \<Rightarrow> ani_request \<Rightarrow> UpgradeInfo \<Rightarrow> ani_module \<Rightarrow> (int \<times> string) option \<times> ani_module" where
  "impl_requests e T A_CheckNewVersion info m = outcome (impl_request (CheckNewVersionSync e T) info m)"
| "impl_requests e T A_GetNewVersionInfo info m = outcome (impl_request (GetNewVersionInfoSync e T) info m)"
| "impl_requests e T (A_GetNewVersionDescription d x) info m = outcome (impl_request (GetNewVersionDescriptionSync e T d x) info m)"
| "impl_requests e T A_GetCurrentVersionInfo info m = outcome (impl_request (GetCurrentVersionInfoSync e T) info m)"
| "impl_requests e T (A_GetCurrentVersionDescription x) info m = outcome (impl_request (GetCurrentVersionDescriptionSync e T x) info m)"
| "impl_requests e T A_GetTaskInfo info m = outcome (impl_request (GetTaskInfoSync e T) info m)"
| "impl_requests e T (A_Download d x) info m = outcome (impl_request (DownloadSync e d x) info m)"
| "impl_requests e T (A_ResumeDownload d x) info m = outcome (impl_request (ResumeDownloadSync e d x) info m)"
| "impl_requests e T (A_PauseDownload d x) info m = outcome (impl_request (PauseDownloadSync e d x) info m)"
| "impl_requests e T (A_Upgrade d x) info m = outcome (impl_request (UpgradeSync e d x) info m)"
| "impl_requests e T (A_ClearError d x) info m = outcome (impl_request (ClearErrorSync e d x) info m)"
| "impl_requests e T A_GetUpgradePolicy info m = outcome (impl_request (GetUpgradePolicySync e) info m)"
| "impl_requests e T (A_SetUpgradePolicy p) info m = outcome (impl_request (SetUpgradePolicySync e p) info m)"
| "impl_requests e T A_TerminateUpgrade info m = outcome (impl_request (TerminateUpgradeSync e) info m)"

end
