(* ===== verification/Ani_Facts.thy ===== *)
theory Ani_Facts
  imports Ani_Module
begin

text \<open>
  Facts about the bindings for the static language: the steps of a process with its updaters (\<open>ani_reach\<close>), what they leave
  registered with the library, and what the mutex of an updater does.
\<close>

section \<open>The callbacks that the library keeps\<close>

abbreviation kept_callbacks :: "ipc \<Rightarrow> (UpgradeInfo, nat) cmap" where
  "kept_callbacks x \<equiv> ki_callbackMap (ip_kits x)"

abbreviation kept :: "ani_module \<Rightarrow> UpgradeInfo \<Rightarrow> nat option" where
  "kept m info \<equiv> map_of (kept_callbacks (ax_ipc (am_process m))) info"

lemma kits_RegisterCallback_kits [simp]: "ip_kits (kits_RegisterCallback e x) = ip_kits x"
proof -
  have "ip_kits (fold (\<lambda>(info, cb) y. snd (snd (remote_call e REGISTER_CALLBACK (process_Register info cb) () y))) cs y) = ip_kits y"
    for cs y by (induction cs arbitrary: y) (simp_all split: prod.split)
  then show ?thesis by (simp add: kits_RegisterCallback_def)
qed

lemma GetService_keeps [simp]: "GetService e x = (b, x') \<Longrightarrow> kept_callbacks x' = kept_callbacks x"
  by (auto simp: GetService_def kits_AddDeathRecipient_def Let_def split: if_splits option.splits)

lemma remote_call_keeps: "remote_call e code f u x = (ret, out, x') \<Longrightarrow> ip_kits x' = ip_kits x"
  by (metis remote_call_kits snd_conv)

lemma kits_request_keeps: "kits_request e code f u x = (ret, out, x') \<Longrightarrow> kept_callbacks x' = kept_callbacks x"
  by (auto simp: kits_request_def ResetRemoteService_def remote_call_keeps dest: GetService_keeps
      split: prod.splits bool.splits if_splits)

lemma kits_RegisterUpdateCallback_keeps:
  "kits_RegisterUpdateCallback e info cb x = (ret, x') \<Longrightarrow>
     kept_callbacks x' = (if fst (GetService e x) then cm_put info cb (kept_callbacks x) else kept_callbacks x)"
  by (auto simp: kits_RegisterUpdateCallback_def ResetRemoteService_def remote_call_keeps Let_def dest: GetService_keeps
      split: prod.splits bool.splits if_splits)

lemma kits_UnregisterUpdateCallback_keeps:
  "kits_UnregisterUpdateCallback e info x = (ret, x') \<Longrightarrow>
     kept_callbacks x' = (if fst (GetService e x) then cm_del info (kept_callbacks x) else kept_callbacks x)"
  by (auto simp: kits_UnregisterUpdateCallback_def ResetRemoteService_def remote_call_keeps Let_def dest: GetService_keeps
      split: prod.splits bool.splits if_splits)

lemma register_attempts_other:
  "register_attempts e info cb k x = (ret, x') \<Longrightarrow> i \<noteq> info \<Longrightarrow> map_of (kept_callbacks x') i = map_of (kept_callbacks x) i"
proof (induction e info cb k x arbitrary: ret x' rule: register_attempts.induct)
  case (1 e info cb k x)
  obtain r y where y: "kits_RegisterUpdateCallback (e k) info cb x = (r, y)" by (cases "kits_RegisterUpdateCallback (e k) info cb x")
  from kits_RegisterUpdateCallback_keeps [OF y] 1(3) have "map_of (kept_callbacks y) i = map_of (kept_callbacks x) i" by simp
  then show ?case using 1(1) [OF y [symmetric]] 1(2,3) by (auto simp: register_attempts.simps [of e info cb k x] y split: if_splits)
qed

lemma register_attempts_kept:
  "register_attempts e info cb k x = (ret, x') \<Longrightarrow> fst (GetService (e k) x) \<or> map_of (kept_callbacks x) info = Some cb \<Longrightarrow>
     map_of (kept_callbacks x') info = Some cb"
proof (induction e info cb k x arbitrary: ret x' rule: register_attempts.induct)
  case (1 e info cb k x)
  obtain r y where y: "kits_RegisterUpdateCallback (e k) info cb x = (r, y)" by (cases "kits_RegisterUpdateCallback (e k) info cb x")
  from kits_RegisterUpdateCallback_keeps [OF y] 1(3) have "map_of (kept_callbacks y) info = Some cb" by auto
  then show ?case using 1(1) [OF y [symmetric]] 1(2) by (auto simp: register_attempts.simps [of e info cb k x] y split: if_splits)
qed

text \<open>When no service runs and none can be started, five attempts change nothing.\<close>

lemma register_attempts_without_service:
  "ki_remoteServer (ip_kits x) = None \<Longrightarrow> ip_process x = None \<Longrightarrow> \<forall>i < maxRetryTimes. ke_loads (e i) = None \<Longrightarrow> k < maxRetryTimes \<Longrightarrow>
     register_attempts e info cb k x = (INT_CALL_IPC_ERR, x)"
proof (induction e info cb k x rule: register_attempts.induct)
  case (1 e info cb k x)
  have "kits_RegisterUpdateCallback (e k) info cb x = (INT_CALL_IPC_ERR, x)"
    using 1(2-5) by (simp add: kits_RegisterUpdateCallback_def GetService_def)
  then show ?case using 1
    by (simp add: register_attempts.simps [of e info cb k x] INT_CALL_IPC_ERR_def INT_CALL_SUCCESS_def)
qed

section \<open>Requests\<close>

lemmas ani_request_defs = CheckNewVersionSync_def GetNewVersionInfoSync_def GetNewVersionDescriptionSync_def
  GetCurrentVersionInfoSync_def GetCurrentVersionDescriptionSync_def GetTaskInfoSync_def DownloadSync_def ResumeDownloadSync_def
  PauseDownloadSync_def UpgradeSync_def ClearErrorSync_def GetUpgradePolicySync_def SetUpgradePolicySync_def
  TerminateUpgradeSync_def

lemmas kits_defs = kits_CheckNewVersion_def kits_GetNewVersionInfo_def kits_GetNewVersionDescription_def
  kits_GetCurrentVersionInfo_def kits_GetCurrentVersionDescription_def kits_GetTaskInfo_def kits_Download_def
  kits_ResumeDownload_def kits_PauseDownload_def kits_Upgrade_def kits_ClearError_def kits_GetUpgradePolicy_def
  kits_SetUpgradePolicy_def kits_TerminateUpgrade_def

text \<open>No request changes the callbacks that the library keeps.\<close>

definition quiet :: "'a ani_call \<Rightarrow> bool" where
  "quiet call = (\<forall>g. kept_callbacks (ax_ipc (snd (snd (call g)))) = kept_callbacks (ax_ipc g))"

lemma requests_quiet:
  "quiet (CheckNewVersionSync e T u)" "quiet (GetNewVersionInfoSync e T u)" "quiet (GetNewVersionDescriptionSync e T d x u)"
  "quiet (GetCurrentVersionInfoSync e T u)" "quiet (GetCurrentVersionDescriptionSync e T x u)" "quiet (GetTaskInfoSync e T u)"
  "quiet (DownloadSync e d dx u)" "quiet (ResumeDownloadSync e d rx u)" "quiet (PauseDownloadSync e d px u)"
  "quiet (UpgradeSync e d ux u)" "quiet (ClearErrorSync e d cx u)" "quiet (GetUpgradePolicySync e u)"
  "quiet (SetUpgradePolicySync e p u)" "quiet (TerminateUpgradeSync e u)"
  by (auto simp: quiet_def ani_request_defs kits_defs ani_done_def ani_starts_def Let_def kits_request_keeps split: prod.split)

end
