(* ===== verification/Ani_Claims.thy ===== *)
theory Ani_Claims
  imports Ani_Facts Js_Listener_Claims
begin

text \<open>
  The listeners of the bindings for the static language: what is registered with the library in every state a process can
  reach, and how a listener is lost.
\<close>

section \<open>Steps\<close>

text \<open>A process takes listeners of any updater in and out while the library can reach the service, makes requests, and its
  listeners hear events; a listener that does something with an updater other than its own acts in the other steps. Outside
  of these the service may die, be connected again and do what it wants, but the callbacks that the library keeps are this
  module's.\<close>

inductive ani_reach :: "ani_module \<Rightarrow> bool" where
  start: "kept_callbacks (ax_ipc g) = [] \<Longrightarrow> ani_reach (new_ani_module g)"
| listen: "ani_reach m \<Longrightarrow> fst (GetService (je_kits e 0) (ax_ipc (am_process m))) \<Longrightarrow> impl_On e c cb info m = Some m' \<Longrightarrow> ani_reach m'"
| ignore: "ani_reach m \<Longrightarrow> fst (GetService (je_kits e 0) (ax_ipc (am_process m))) \<Longrightarrow> impl_Off e c cb info m = Some m' \<Longrightarrow> ani_reach m'"
| request: "ani_reach m \<Longrightarrow> impl_requests e T r info m = (err, m') \<Longrightarrow> ani_reach m'"
| event: "ani_reach m \<Longrightarrow> \<forall>cb f. Does_other f \<in> set (does cb) \<longrightarrow> (\<forall>g. kept_callbacks (ax_ipc (f g)) = kept_callbacks (ax_ipc g)) \<Longrightarrow>
    impl_event e does T ev info m = Some m' \<Longrightarrow> ani_reach m'"
| local_listen: "ani_reach m \<Longrightarrow> local_impl_On c cb m = Some m' \<Longrightarrow> ani_reach m'"
| local_ignore: "ani_reach m \<Longrightarrow> local_impl_Off c cb' m = Some m' \<Longrightarrow> ani_reach m'"
| outside: "ani_reach m \<Longrightarrow> kept_callbacks (ax_ipc g) = kept_callbacks (ax_ipc (am_process m)) \<Longrightarrow> ani_reach (m\<lparr>am_process := g\<rparr>)"

section \<open>The invariant\<close>

definition updater_ok :: "ani_module \<Rightarrow> UpgradeInfo \<Rightarrow> AniUpdater \<Rightarrow> bool" where
  "updater_ok m info u = (an_upgradeInfo u = info \<and> \<not> ab_mutex u \<and> distinct (ab_callbacks u)
     \<and> kept m info = (if ab_callbacks u = [] then None else Some (an_callback u)))"

definition ani_inv :: "ani_module \<Rightarrow> bool" where
  "ani_inv m = ((\<forall>info u. map_of (am_aniUpdatersMap m) info = Some u \<longrightarrow> updater_ok m info u)
     \<and> (\<forall>info. map_of (am_aniUpdatersMap m) info = None \<longrightarrow> kept m info = None))"

lemma found_updater:
  assumes "GetAniUpdater info m = (u, m1)" "ani_inv m"
  shows "updater_ok m1 info u" "ani_inv m1" "map_of (am_aniUpdatersMap m1) info = Some u" "am_process m1 = am_process m"
proof -
  have "updater_ok m1 info u \<and> ani_inv m1 \<and> map_of (am_aniUpdatersMap m1) info = Some u \<and> am_process m1 = am_process m"
  proof (cases "map_of (am_aniUpdatersMap m) info")
    case None
    then have m1: "u = new_AniUpdater (am_callbacks m) info"
        "m1 = m\<lparr>am_aniUpdatersMap := cm_put info u (am_aniUpdatersMap m), am_callbacks := am_callbacks m + 1\<rparr>"
      using assms(1) by (auto simp: GetAniUpdater_def Let_def)
    moreover have "kept m info = None" using assms(2) None by (simp add: ani_inv_def)
    ultimately have "updater_ok m1 info u" by (simp add: updater_ok_def new_AniUpdater_def)
    then show ?thesis using assms(2) unfolding ani_inv_def by (simp add: m1(2) updater_ok_def)
  qed (use assms in \<open>simp_all add: GetAniUpdater_def ani_inv_def\<close>)
  then show "updater_ok m1 info u" "ani_inv m1" "map_of (am_aniUpdatersMap m1) info = Some u" "am_process m1 = am_process m"
    by simp_all
qed

text \<open>A method keeps the invariant when it leaves its updater sound and other descriptions alone.\<close>

lemma with_updater_inv:
  assumes "ani_inv m" "with_updater method info m = Some m'"
    and "\<And>u m1 u1 g. GetAniUpdater info m = (u, m1) \<Longrightarrow> method u (am_process m1) = Some (u1, g) \<Longrightarrow>
      updater_ok (m1\<lparr>am_process := g\<rparr>) info u1
      \<and> (\<forall>i. i \<noteq> info \<longrightarrow> map_of (kept_callbacks (ax_ipc g)) i = kept m1 i)"
  shows "ani_inv m'"
proof -
  obtain u m1 where u: "GetAniUpdater info m = (u, m1)" by (cases "GetAniUpdater info m")
  obtain u1 g where g: "method u (am_process m1) = Some (u1, g)"
      "m' = m1\<lparr>am_aniUpdatersMap := cm_adj info (\<lambda>_. u1) (am_aniUpdatersMap m1), am_process := g\<rparr>"
    using assms(2) by (auto simp: with_updater_def u split: option.splits)
  note found = found_updater [OF u assms(1)] and after = assms(3) [OF u g(1)]
  show ?thesis using found(2,3) after unfolding g(2) ani_inv_def
    by (auto simp: updater_ok_def split: if_splits)
qed

lemma impl_On_inv:
  assumes "ani_inv m" "fst (GetService (je_kits e 0) (ax_ipc (am_process m)))" "impl_On e c cb info m = Some m'"
  shows "ani_inv m'"
proof (rule with_updater_inv [OF assms(1) assms(3) [unfolded impl_On_def]])
  fix u m1 u1 g
  assume u: "GetAniUpdater info m = (u, m1)" and g: "ani_On (ani_RegisterCallback e) cb u (am_process m1) = Some (u1, g)"
  note found = found_updater [OF u assms(1)]
  obtain ret x where x: "register_attempts (je_kits e) info (an_callback u) 0 (ax_ipc (am_process m1)) = (ret, x)" by fastforce
  have reg: "map_of (kept_callbacks x) info = Some (an_callback u)" "\<forall>i. i \<noteq> info \<longrightarrow> map_of (kept_callbacks x) i = kept m1 i"
    using register_attempts_kept [OF x] register_attempts_other [OF x] assms(2) by (simp_all add: found(4))
  then show "updater_ok (m1\<lparr>am_process := g\<rparr>) info u1 \<and> (\<forall>i. i \<noteq> info \<longrightarrow> map_of (kept_callbacks (ax_ipc g)) i = kept m1 i)"
    using found(1) g x by (auto simp: ani_On_def ani_RegisterCallback_def updater_ok_def Let_def split: if_splits)
qed

lemma unregistered:
  assumes "ani_inv m" "fst (GetService (je_kits e 0) (ax_ipc (am_process m)))" "GetAniUpdater info m = (u, m1)"
  shows "map_of (kept_callbacks (ax_ipc (ani_UnRegisterCallback e (u\<lparr>ab_callbacks := []\<rparr>) (am_process m1)))) info = None"
    "i \<noteq> info \<Longrightarrow> map_of (kept_callbacks (ax_ipc (ani_UnRegisterCallback e (u\<lparr>ab_callbacks := []\<rparr>) (am_process m1)))) i = kept m1 i"
proof -
  note found = found_updater [OF assms(3,1)]
  obtain ret x where x: "kits_UnregisterUpdateCallback (je_kits e 0) info (ax_ipc (am_process m1)) = (ret, x)" by fastforce
  from kits_UnregisterUpdateCallback_keeps [OF x] assms(2)
  have "kept_callbacks x = cm_del info (kept_callbacks (ax_ipc (am_process m1)))" by (simp add: found(4))
  then show "map_of (kept_callbacks (ax_ipc (ani_UnRegisterCallback e (u\<lparr>ab_callbacks := []\<rparr>) (am_process m1)))) info = None"
    "i \<noteq> info \<Longrightarrow> map_of (kept_callbacks (ax_ipc (ani_UnRegisterCallback e (u\<lparr>ab_callbacks := []\<rparr>) (am_process m1)))) i = kept m1 i"
    using found(1) x by (simp_all add: ani_UnRegisterCallback_def updater_ok_def)
qed

lemma impl_Off_inv:
  assumes "ani_inv m" "fst (GetService (je_kits e 0) (ax_ipc (am_process m)))" "impl_Off e c cb info m = Some m'"
  shows "ani_inv m'"
proof (cases cb)
  case None
  show ?thesis
  proof (rule with_updater_inv [OF assms(1)])
    show "with_updater (ani_OffAll (ani_UnRegisterCallback e)) info m = Some m'"
      using assms(3) by (simp add: impl_Off_def None)
  next
    fix u m1 u1 g
    assume u: "GetAniUpdater info m = (u, m1)" and g: "ani_OffAll (ani_UnRegisterCallback e) u (am_process m1) = Some (u1, g)"
    show "updater_ok (m1\<lparr>am_process := g\<rparr>) info u1 \<and> (\<forall>i. i \<noteq> info \<longrightarrow> map_of (kept_callbacks (ax_ipc g)) i = kept m1 i)"
      using found_updater(1) [OF u assms(1)] g unregistered [OF assms(1,2) u]
      by (auto simp: ani_OffAll_def updater_ok_def Let_def split: if_splits)
  qed
next
  case (Some k)
  show ?thesis
  proof (rule with_updater_inv [OF assms(1)])
    show "with_updater (ani_Off (ani_UnRegisterCallback e) k) info m = Some m'"
      using assms(3) by (simp add: impl_Off_def Some)
  next
    fix u m1 u1 g
    assume u: "GetAniUpdater info m = (u, m1)" and g: "ani_Off (ani_UnRegisterCallback e) k u (am_process m1) = Some (u1, g)"
    show "updater_ok (m1\<lparr>am_process := g\<rparr>) info u1 \<and> (\<forall>i. i \<noteq> info \<longrightarrow> map_of (kept_callbacks (ax_ipc g)) i = kept m1 i)"
    proof (cases "filter (\<lambda>c. c \<noteq> k) (ab_callbacks u) = []")
      case True
      then show ?thesis using found_updater(1) [OF u assms(1)] g unregistered [OF assms(1,2) u]
        by (auto simp: ani_Off_def updater_ok_def Let_def simp del: filter_empty_conv split: if_splits)
    next
      case False
      moreover from False have "ab_callbacks u \<noteq> []" by auto
      ultimately show ?thesis using found_updater(1) [OF u assms(1)] g
        by (auto simp: ani_Off_def updater_ok_def Let_def simp del: filter_empty_conv split: if_splits)
    qed
  qed
qed

text \<open>While the mutex is held a listener can only do other things.\<close>

lemma locked_listener:
  "ab_mutex u \<Longrightarrow> listener_acts register unregister as u g = Some (u1, g1) \<Longrightarrow> \<forall>f. Does_other f \<in> set as \<longrightarrow> (\<forall>g. h (f g) = h g) \<Longrightarrow>
     u1 = u \<and> h g1 = h g"
proof (induction register unregister as u g rule: listener_acts.induct)
  case (2 register unregister a as u g)
  then show ?case by (cases a) (auto simp: ani_On_def ani_Off_def ani_OffAll_def)
qed simp

lemma locked_callbacks:
  "ab_mutex u \<Longrightarrow> call_callbacks register unregister does event cbs u g = Some (u1, g1) \<Longrightarrow>
     \<forall>cb f. Does_other f \<in> set (does cb) \<longrightarrow> (\<forall>g. kept_callbacks (ax_ipc (f g)) = kept_callbacks (ax_ipc g)) \<Longrightarrow>
     u1 = u \<and> kept_callbacks (ax_ipc g1) = kept_callbacks (ax_ipc g)"
proof (induction cbs arbitrary: g)
  case (Cons cb cbs)
  from Cons.prems(2) obtain u2 g2 where
    act: "listener_acts register unregister (does cb) u (g\<lparr>ax_heard := ax_heard g @ [(cb, event)]\<rparr>) = Some (u2, g2)"
      "call_callbacks register unregister does event cbs u2 g2 = Some (u1, g1)"
    by (auto split: option.splits)
  from locked_listener [OF Cons.prems(1) act(1), of "\<lambda>g. kept_callbacks (ax_ipc g)"] Cons.prems(3)
  have "u2 = u" "kept_callbacks (ax_ipc g2) = kept_callbacks (ax_ipc g)" by simp_all
  then show ?case using Cons.IH [of g2] Cons.prems(1,3) act(2) by simp
qed simp

lemma impl_event_inv:
  assumes "ani_inv m" "impl_event e does T ev info m = Some m'"
    and "\<forall>cb f. Does_other f \<in> set (does cb) \<longrightarrow> (\<forall>g. kept_callbacks (ax_ipc (f g)) = kept_callbacks (ax_ipc g))"
  shows "ani_inv m'"
proof (rule with_updater_inv [OF assms(1) assms(2) [unfolded impl_event_def]])
  fix u m1 u1 g
  assume u: "GetAniUpdater info m = (u, m1)"
    and g: "CallbackEventInfo (ani_RegisterCallback e) (ani_UnRegisterCallback e) does T ev u (am_process m1) = Some (u1, g)"
  from g obtain u2 where
    "call_callbacks (ani_RegisterCallback e) (ani_UnRegisterCallback e) does (Converter_EventInfo T ev) (ab_callbacks u)
      (u\<lparr>ab_mutex := True\<rparr>) (am_process m1) = Some (u2, g)" "u1 = u2\<lparr>ab_mutex := False\<rparr>"
    by (auto simp: CallbackEventInfo_def split: if_splits)
  with locked_callbacks [OF _ this(1) assms(3)] found_updater(1) [OF u assms(1)]
  show "updater_ok (m1\<lparr>am_process := g\<rparr>) info u1 \<and> (\<forall>i. i \<noteq> info \<longrightarrow> map_of (kept_callbacks (ax_ipc g)) i = kept m1 i)"
    by (simp add: updater_ok_def)
qed

lemma same_callbacks_inv:
  assumes "ani_inv m" "am_aniUpdatersMap m' = am_aniUpdatersMap m"
    and "kept_callbacks (ax_ipc (am_process m')) = kept_callbacks (ax_ipc (am_process m))"
  shows "ani_inv m'"
  using assms by (simp add: ani_inv_def updater_ok_def)

lemma impl_request_inv:
  assumes "ani_inv m" "\<And>u. quiet (method u)"
  shows "ani_inv (snd (outcome (impl_request method info m)))"
proof -
  obtain u m1 where u: "GetAniUpdater info m = (u, m1)" by (cases "GetAniUpdater info m")
  obtain err answer g where g: "method u (am_process m1) = (err, answer, g)" by (cases "method u (am_process m1)") auto
  have "kept_callbacks (ax_ipc g) = kept_callbacks (ax_ipc (am_process m1))"
    using assms(2) [of u] g by (metis quiet_def snd_conv)
  then have "ani_inv (m1\<lparr>am_process := g\<rparr>)" using found_updater(2) [OF u assms(1)] by (rule_tac same_callbacks_inv) simp_all
  then show ?thesis by (simp add: outcome_def impl_request_def u g)
qed

lemma impl_requests_inv: "ani_inv m \<Longrightarrow> ani_inv (snd (impl_requests e T r info m))"
  by (cases r) (simp_all add: impl_request_inv requests_quiet)

lemma local_inv:
  assumes "ani_inv m"
  shows "local_impl_On c cb m = Some m' \<Longrightarrow> ani_inv m'" "local_impl_Off c cb' m = Some m' \<Longrightarrow> ani_inv m'"
  by (auto intro!: same_callbacks_inv [OF assms]
      simp: local_impl_On_def local_impl_Off_def with_local_updater_def GetAniLocalUpdater_def ani_On_def ani_Off_def ani_OffAll_def
        base_RegisterCallback_def base_UnRegisterCallback_def Let_def split: option.splits if_splits)

lemma ani_reach_inv: "ani_reach m \<Longrightarrow> ani_inv m"
proof (induction rule: ani_reach.induct)
  case (start g)
  then show ?case by (simp add: ani_inv_def new_ani_module_def)
next
  case (request m e T r info err m')
  then show ?case by (metis impl_requests_inv snd_conv)
next
  case (outside m g)
  then show ?case by (auto intro: same_callbacks_inv)
qed (auto intro: impl_On_inv impl_Off_inv impl_event_inv local_inv)

section \<open>Properties\<close>

text \<open>C39: In every state that a process can reach while its library can reach the service, the library keeps a callback for a
  description exactly when an updater for it has a listener, and it is the callback of this updater; no listener is in the
  list twice. So the callback is registered when the first listener comes and taken back when the last one goes.\<close>

theorem ani_callback_while_listening:
  assumes "ani_reach m"
  shows "kept m info = (case map_of (am_aniUpdatersMap m) info of
      Some u \<Rightarrow> if ab_callbacks u = [] then None else Some (an_callback u)
    | None \<Rightarrow> None)
    \<and> (\<forall>u. map_of (am_aniUpdatersMap m) info = Some u \<longrightarrow> an_upgradeInfo u = info \<and> distinct (ab_callbacks u))"
  using ani_reach_inv [OF assms] by (auto simp: ani_inv_def updater_ok_def split: option.split)

definition ex_ani :: ani_process where
  "ex_ani = \<lparr>ax_ipc = jp_ipc ex_connected, ax_heard = [], ax_flows = [], ax_resets = [], ax_ends = False\<rparr>"

text \<open>A listener comes, and the library keeps the first callback of the process.\<close>

theorem ani_callback_while_listening_witness:
  "\<exists>m. impl_On ex_js_env (new_EventClassifyInfo CLASSIFY_TASK) 5 ex_client (new_ani_module ex_ani) = Some m
     \<and> kept m ex_client = Some 0"
proof -
  obtain u m where m: "impl_On ex_js_env (new_EventClassifyInfo CLASSIFY_TASK) 5 ex_client (new_ani_module ex_ani) = Some m"
      "map_of (am_aniUpdatersMap m) ex_client = Some u" "ab_callbacks u = [5]" "an_callback u = 0"
    by (auto simp: impl_On_def with_updater_def GetAniUpdater_def new_ani_module_def new_AniUpdater_def ani_On_def Let_def)
  have start: "kept_callbacks (ax_ipc ex_ani) = []" by (simp add: ex_ani_def ex_connected_def ex_script_def new_kits_def)
  have "fst (GetService (je_kits ex_js_env 0) (ax_ipc (am_process (new_ani_module ex_ani))))"
    by (simp add: new_ani_module_def ex_ani_def ex_connected_def ex_script_def GetService_def)
  from ani_callback_while_listening [OF ani_reach.listen [OF ani_reach.start [OF start] this m(1)], of ex_client] m
  show ?thesis by simp
qed

text \<open>An event is heard once by every listener, in the order in which they came, when the listeners leave the updater alone.\<close>

lemma callbacks_hear:
  "ab_mutex u \<Longrightarrow> \<forall>cb \<in> set cbs. \<forall>a \<in> set (does cb). \<exists>f. a = Does_other f \<and> (\<forall>g. ax_heard (f g) = ax_heard g) \<Longrightarrow>
     \<exists>g1. call_callbacks register unregister does event cbs u g = Some (u, g1)
       \<and> ax_heard g1 = ax_heard g @ map (\<lambda>cb. (cb, event)) cbs"
proof (induction cbs arbitrary: g)
  case (Cons cb cbs)
  have acts: "\<exists>g1. listener_acts register unregister as u g0 = Some (u, g1) \<and> ax_heard g1 = ax_heard g0"
    if "\<forall>a \<in> set as. \<exists>f. a = Does_other f \<and> (\<forall>g. ax_heard (f g) = ax_heard g)" for as g0
    using that by (induction as arbitrary: g0) fastforce+
  from acts [of "does cb" "g\<lparr>ax_heard := ax_heard g @ [(cb, event)]\<rparr>"] Cons.prems(2) obtain g1 where
    "listener_acts register unregister (does cb) u (g\<lparr>ax_heard := ax_heard g @ [(cb, event)]\<rparr>) = Some (u, g1)"
    "ax_heard g1 = ax_heard g @ [(cb, event)]" by auto
  then show ?case using Cons.IH [of g1] Cons.prems by auto
qed simp

theorem ani_listeners_hear_once:
  assumes "ani_reach m" "map_of (am_aniUpdatersMap m) info = Some u"
    and "\<forall>cb. \<forall>a \<in> set (does cb). \<exists>f. a = Does_other f \<and> (\<forall>g. ax_heard (f g) = ax_heard g)"
  shows "\<exists>m1. impl_event e does T ev info m = Some m1 \<and> ax_heard (am_process m1) =
    ax_heard (am_process m) @ map (\<lambda>cb. (cb, Converter_EventInfo T ev)) (ab_callbacks u)"
proof -
  have "\<not> ab_mutex u" using ani_reach_inv [OF assms(1)] assms(2) by (simp add: ani_inv_def updater_ok_def)
  moreover obtain g1 where
    "call_callbacks (ani_RegisterCallback e) (ani_UnRegisterCallback e) does (Converter_EventInfo T ev) (ab_callbacks u)
        (u\<lparr>ab_mutex := True\<rparr>) (am_process m) = Some (u\<lparr>ab_mutex := True\<rparr>, g1)"
      "ax_heard g1 = ax_heard (am_process m) @ map (\<lambda>cb. (cb, Converter_EventInfo T ev)) (ab_callbacks u)"
    using callbacks_hear [of "u\<lparr>ab_mutex := True\<rparr>" "ab_callbacks u" does] assms(3) by fastforce
  ultimately show ?thesis
    by (simp add: impl_event_def with_updater_def GetAniUpdater_def assms(2) CallbackEventInfo_def)
qed

text \<open>A listener that takes itself out, or another one in, while it is called blocks the thread.\<close>

theorem ani_change_in_callback_blocks:
  assumes "\<not> ab_mutex u" "ab_callbacks u = cb # cbs" "does cb = a # as" "a \<in> {Does_On k, Does_Off k, Does_OffAll}"
  shows "CallbackEventInfo register unregister does T ev u g = None"
  using assms by (auto simp: CallbackEventInfo_def ani_On_def ani_Off_def ani_OffAll_def)

text \<open>The destructor takes the listeners away but not the callback, which refers to the object.\<close>

theorem destroyed_updater_stays_registered:
  assumes "\<not> ab_mutex u"
  shows "destroy_AniBaseUpdater u g = Some (u\<lparr>ab_callbacks := []\<rparr>, g)"
  using assms by (simp add: destroy_AniBaseUpdater_def ani_OffAll_def base_UnRegisterCallback_def)

text \<open>The two bindings report the same number for every result but one: a reset that is prohibited by enterprise policies.\<close>

theorem error_codes_agree: "(ani_ConvertToErrorCode r = ConvertToErrorCode r) = (r \<noteq> call_result_code CR_MDM_DISABLE_RESET)"
  by (auto simp: ani_ConvertToErrorCode_def ConvertToErrorCode_def ani_IsCommonError_def IsCommonError_def COMPONENT_ERR_def)

text \<open>Only the first listener of an updater makes it register.\<close>

lemma later_listener_is_quiet:
  assumes "map_of (am_aniUpdatersMap m) info = Some u" "\<not> ab_mutex u" "ab_callbacks u \<noteq> []"
  shows "\<exists>m1. impl_On e c cb info m = Some m1 \<and> am_process m1 = am_process m"
  using assms by (simp add: impl_On_def with_updater_def GetAniUpdater_def ani_On_def Let_def)

text \<open>C40: A first listener that comes while no service runs and none can be started is taken in without an error, after five
  attempts that changed nothing, and is lost: the library has no callback for the description, and no listener that comes
  later makes it register one, whether or not the service can be reached by then.\<close>

theorem ani_listener_is_lost:
  assumes "fst (GetAniUpdater info m) = u" "ab_callbacks u = []" "\<not> ab_mutex u" "an_upgradeInfo u = info" "kept m info = None"
    and "ki_remoteServer (ip_kits (ax_ipc (am_process m))) = None" "ip_process (ax_ipc (am_process m)) = None"
      "\<forall>i < maxRetryTimes. ke_loads (je_kits e i) = None"
  shows "\<exists>m1. impl_On e c cb info m = Some m1 \<and> map_of (am_aniUpdatersMap m1) info = Some (u\<lparr>ab_callbacks := [cb]\<rparr>)
    \<and> kept m1 info = None
    \<and> (\<forall>e2 c2 cb2. \<exists>m2. impl_On e2 c2 cb2 info m1 = Some m2 \<and> am_process m2 = am_process m1)"
proof -
  obtain m0 where m0: "GetAniUpdater info m = (u, m0)" using assms(1) by (cases "GetAniUpdater info m") auto
  then have found: "map_of (am_aniUpdatersMap m0) info = Some u" "am_process m0 = am_process m"
    by (auto simp: GetAniUpdater_def Let_def split: option.splits)
  have "ani_RegisterCallback e u (am_process m0) = am_process m0"
    using assms(6-8) by (simp add: ani_RegisterCallback_def found register_attempts_without_service maxRetryTimes_def)
  then have on: "impl_On e c cb info m = Some (m0\<lparr>am_aniUpdatersMap := cm_adj info (\<lambda>_. u\<lparr>ab_callbacks := [cb]\<rparr>) (am_aniUpdatersMap m0),
      am_process := am_process m0\<rparr>)"
    using assms(2,3) by (simp add: impl_On_def with_updater_def m0 ani_On_def)
  let ?m1 = "m0\<lparr>am_aniUpdatersMap := cm_adj info (\<lambda>_. u\<lparr>ab_callbacks := [cb]\<rparr>) (am_aniUpdatersMap m0), am_process := am_process m0\<rparr>"
  have listed: "map_of (am_aniUpdatersMap ?m1) info = Some (u\<lparr>ab_callbacks := [cb]\<rparr>)" by (simp add: found)
  have unknown: "kept ?m1 info = None" using assms(5) by (simp add: found)
  have "\<exists>m2. impl_On e2 c2 cb2 info ?m1 = Some m2 \<and> am_process m2 = am_process ?m1" for e2 c2 cb2
    by (rule later_listener_is_quiet [OF listed]) (simp_all add: assms(3))
  with on listed unknown show ?thesis by blast
qed

definition ex_alone :: ani_process where
  "ex_alone = ex_ani\<lparr>ax_ipc := \<lparr>ip_kits = new_kits, ip_process = None, ip_started = 0\<rparr>\<rparr>"

theorem ani_listener_is_lost_witness:
  "\<exists>m1 m2. impl_On (ex_js_env\<lparr>je_kits := \<lambda>_. ex_platform\<lparr>ke_loads := None\<rparr>\<rparr>) (new_EventClassifyInfo CLASSIFY_TASK) 5 ex_client
       (new_ani_module ex_alone) = Some m1
     \<and> impl_On ex_js_env (new_EventClassifyInfo CLASSIFY_TASK) 6 ex_client m1 = Some m2 \<and> am_process m2 = am_process m1"
proof -
  let ?m = "new_ani_module ex_alone" and ?u = "new_AniUpdater 0 ex_client"
  have "fst (GetAniUpdater ex_client ?m) = ?u" by (simp add: GetAniUpdater_def new_ani_module_def Let_def)
  from ani_listener_is_lost [OF this, of "ex_js_env\<lparr>je_kits := \<lambda>_. ex_platform\<lparr>ke_loads := None\<rparr>\<rparr>"
      "new_EventClassifyInfo CLASSIFY_TASK" 5]
  show ?thesis by (auto simp: new_AniUpdater_def new_ani_module_def ex_alone_def new_kits_def)
qed

end
