(* ===== verification/Spec2Isabelle.thy ===== *)
theory Spec2Isabelle
  imports Foundation_Claims Download_Claims Firmware_Claims Check_Claims Service_Claims Engine_Claims Progress_Claims Js_Listener_Claims Ani_Claims
begin

text \<open>
  A verification library for the update service, the system ability that searches, downloads and installs new versions
  of the firmware.

  \<^bold>\<open>The program.\<close> The service has three layers. The foundation (\<^verbatim>\<open>foundations/\<close>, \<^verbatim>\<open>services/core/ability/utils\<close>,
  \<^verbatim>\<open>net\<close>, \<^verbatim>\<open>sqlite\<close>, \<^verbatim>\<open>preference\<close>) has strings, files, digests, requests, tables and preferences. The download
  subsystem (\<^verbatim>\<open>services/core/ability/download\<close>) keeps a map of download tasks; a task owns a service, the service
  owns one thread for each package, and the threads report to the task through a queue. The firmware layer
  (\<^verbatim>\<open>services/firmware\<close>) keeps one upgrade task and its components in two tables; each request of an application and
  each event of the system starts a flow, a mode decides which step comes next, and an executor does the step and
  reports back to the flow. Start-up (\<^verbatim>\<open>services/startup\<close>) initialises the layers, watches whether they are idle and
  ends the process after it asked the system to wake it up for the next search. Applications reach the service through a
  library (\<^verbatim>\<open>interfaces/inner_api\<close>), and scripts reach the library through the bindings (\<^verbatim>\<open>frameworks/js/napi\<close>), which turn
  a request into a session that a thread executes and the script's thread completes. The bindings for the static language
  (\<^verbatim>\<open>frameworks/js/ani\<close>) carry a request out on the thread of the caller.

  \<^bold>\<open>Theories.\<close>
  \<^item> \<open>Update_Prelude\<close>: the simp collections, machine arithmetic (\<open>i32\<close>, \<open>u32\<close>, \<open>i64\<close>, C division), ordered association
    lists for \<^verbatim>\<open>std::map\<close> and generic lemmas.
  \<^item> \<open>Cxx_Strings\<close>, \<open>Cxx_Float\<close>: \<^verbatim>\<open>string_utils.h\<close> and \<^verbatim>\<open>response_header_parse.cpp\<close>; doubles as rounded rationals.
  \<^item> \<open>Net_Manager\<close>, \<open>Network_Request\<close>, \<open>File_Utils\<close>: \<^verbatim>\<open>dupdate_net_manager.cpp\<close>, the requests on an abstract curl,
    \<^verbatim>\<open>file_utils.cpp\<close> and \<^verbatim>\<open>sha256_utils.cpp\<close> on an explicit file system.
  \<^item> \<open>Table_Store\<close>: the relational store as typed rows; the locales there state what an operator may rely on, and
    \<open>Download_Table\<close> and \<open>Firmware_Data\<close> interpret them on the row formats of packages, tasks and components.
  \<^item> \<open>Download_Common\<close>, \<open>Download_Progress\<close>, \<open>Download_Thread\<close>, \<open>Download_Task\<close>, \<open>Download_Manager\<close>: data types,
    progress arithmetic, the thread with its environment (curl, other threads, and the files as they are at each look), the
    task with its service, which keeps the threads in a map, and the threads it has stopped, the manager with its restart
    (\<open>manager_restart\<close>, which restores the tasks from the table); \<open>Download_Task_Inv\<close> and \<open>Download_Task_Props\<close> hold the invariants over all interleavings.
  \<^item> \<open>Night_Alarm\<close>, \<open>Firmware_Alarm\<close>: the night alarm queue and the alarm of the next search.
  \<^item> \<open>Firmware_World\<close>: the state of the firmware layer (tables, downloads, preferences, status cache, events sent to the
    application, alarms) and the helpers of \<^verbatim>\<open>firmware_update_helper.cpp\<close>.
  \<^item> \<open>Firmware_Processors\<close>, \<open>Firmware_Modes\<close>, \<open>Firmware_Install\<close>, \<open>Firmware_Flow\<close>, \<open>Firmware_Result\<close>: the data
    processors, the five modes, the three installers against an install service, flow and executors, the result file of
    the updater; \<open>Firmware_Processor_Facts\<close> and \<open>Firmware_Flow_Facts\<close> hold their lemmas.
  \<^item> \<open>Firmware_Manager\<close>, \<open>Firmware_System\<close>: requests, events and boot; the step relation \<open>fw_step\<close> of the whole layer.
  \<^item> \<open>Startup_Schedule\<close>, \<open>Startup_Manager\<close>: the access registry, the schedule, the start-up reason and the idle loop
    (\<open>idle_round\<close>, with what others do between its check and its exit).
  \<^item> \<open>Firmware_Spec\<close>: the abstract upgrade (\<open>upgrade\<close>, \<open>up_check\<close>, \<open>up_refresh\<close>, \<open>boot_outcome\<close>) and the refinement of the
    tables to it.
  \<^item> \<open>Firmware_Check\<close>: the request to the search server and the analysis of its answer (\<^verbatim>\<open>firmware_icheck.h\<close>,
    \<^verbatim>\<open>firmware_check_analyze_utils.cpp\<close>) on an abstract cJSON.
  \<^item> \<open>Firmware_Service\<close>, \<open>Service_Facts\<close>: the requests of an application (\<^verbatim>\<open>update_service_impl_firmware.cpp\<close>).
  \<^item> \<open>Service_Clients\<close>: the registry of clients with their death recipients (\<^verbatim>\<open>update_service_common.cpp\<close>,
    \<^verbatim>\<open>update_service_cache.cpp\<close>) and the step relation \<open>client_step\<close> of registrations, deaths and late notices.
  \<^item> \<open>Service_Access\<close>: who may call what, the module that takes requests over (\<^verbatim>\<open>module_manager.cpp\<close>), the observer of
    the unlock with a subscription that may be refused, the resets (\<^verbatim>\<open>update_service_restorer.cpp\<close>); \<open>Service_Dispatch\<close>:
    each request of the interface (\<^verbatim>\<open>update_service.cpp\<close>), a reset with the checks before it (\<open>reset_request\<close>); \<open>Service_Kits\<close>: the library on the side of the application
    (\<^verbatim>\<open>update_service_kits_impl.cpp\<close>, \<^verbatim>\<open>base_service_kits_impl.h\<close>) with the death and restart of the service.
  \<^item> \<open>Parcel_Codec\<close>, \<open>Parcel_Structs\<close>, \<open>Parcel_Requests\<close>: the structures of \<^verbatim>\<open>interfaces/inner_api/feature/update/model\<close>
    as they cross the process boundary; the locale \<open>codec\<close> states the round trip and is interpreted for each of them.
  \<^item> \<open>Event_Json\<close>, \<open>Update_Notify\<close>: \<^verbatim>\<open>json_builder.h\<close>, the text of an event with a grammar that gives it a meaning, and
    its way to the update application (\<^verbatim>\<open>update_notify.cpp\<close>, \<^verbatim>\<open>base_callback_utils.cpp\<close>).
  \<^item> \<open>Progress_Thread\<close>: the worker threads of the engine and the download that streams to the install service. What a call
    with a string that is gone does is undefined: the execution has no result (\<open>None\<close>).
  \<^item> \<open>Js_Values\<close>, \<open>Js_Arguments\<close>, \<open>Js_Results\<close>, \<open>Js_Constants\<close>: values of a script, how arguments are read and answers built
    (\<^verbatim>\<open>napi_common_utils.cpp\<close>, \<^verbatim>\<open>client_helper.cpp\<close>) and the exported constants (\<^verbatim>\<open>define_property.cpp\<close>).
  \<^item> \<open>Js_Sessions\<close>, \<open>Js_Updater\<close>: requests and listeners (\<^verbatim>\<open>napi_session.cpp\<close>, \<^verbatim>\<open>base_async_session.h\<close>,
    \<^verbatim>\<open>base_promise_session.h\<close>, \<^verbatim>\<open>update_session.cpp\<close>, \<^verbatim>\<open>session_manager.cpp\<close>, \<^verbatim>\<open>iupdater.cpp\<close>); \<open>Js_Client\<close>, \<open>Js_Module\<close>: the
    three objects of a script (\<^verbatim>\<open>update_client.cpp\<close>, \<^verbatim>\<open>restorer.cpp\<close>, \<^verbatim>\<open>local_updater.cpp\<close>, \<^verbatim>\<open>update_module.cpp\<close>).
  \<^item> \<open>Js_Facts\<close>: the steps of a script with its updater (\<open>client_reach\<close>) and the locale of the scripts that only make requests
    (\<open>quiet_script\<close>); \<open>Js_Steps\<close>, \<open>Js_Reach\<close>, \<open>Js_Live\<close>, \<open>Js_Blocking\<close>: the invariant of the requests, their end, and what
    the mutex of a listener does.
  \<^item> \<open>Ani_Convert\<close>, \<open>Ani_Updater\<close>, \<open>Ani_Module\<close>: the bindings for the static language, their conversions
    (\<^verbatim>\<open>ani_common_conveter.cpp\<close>), the updater with its listeners and requests (\<^verbatim>\<open>ani_base_updater.cpp\<close>,
    \<^verbatim>\<open>ani_updater.cpp\<close>) and the other objects of the module (\<^verbatim>\<open>ani_restorer.cpp\<close>, \<^verbatim>\<open>ani_local_updater.cpp\<close>,
    \<^verbatim>\<open>taihe_impl.cpp\<close>); \<open>Ani_Facts\<close>: what they do to the callbacks that the library keeps.
  \<^item> \<open>Engine_Claims\<close>, \<open>Progress_Claims\<close>, \<open>Foundation_Claims\<close>, \<open>Download_Claims\<close>, \<open>Firmware_Claims\<close>, \<open>Check_Claims\<close>,
    \<open>Service_Claims\<close>, \<open>Js_Claims\<close>, \<open>Js_Listener_Claims\<close>, \<open>Ani_Claims\<close>: the numbered properties with their witnesses.

  \<^bold>\<open>State and effects.\<close> Every class is a record, every method a function on it that returns the new record; callbacks to
  the application are appended to a list. Singletons are fields of the state that the caller passes on. Threads are
  modelled by interleaving: the thread's environment says what the others do between two of its steps, and the manager
  and the firmware layer are transition systems (\<open>manager_step\<close>, \<open>task_step\<close>, \<open>fw_step\<close>, \<open>client_reach\<close>, \<open>ani_reach\<close>) whose steps may come in any
  order. Errors are values, an invalidated iterator is \<open>None\<close>. Code of other repositories is a parameter: curl, SHA-256,
  the relational store's status, the install service, the time and timer services, the ability manager.

  \<^bold>\<open>What is shown.\<close> Foundations: requests are retried as configured, tables give back what was written, directories are
  created, replacement agrees with a reference. Downloads: a success is always a verified file; retries are bounded in
  every reachable state, restarts included; progress is monotone and in range; pause, cancel, recovery and loss of the network do what they
  promise, with the exceptions stated as such. Firmware: the tables refine an abstract upgrade with at most one task,
  running flows are well formed and end, installs end their step, the boot gives one verdict, alarms lie in their
  windows, and the service leaves only with a wake-up set. Service: a registered client keeps it alive, resets need their
  permission, the unlock is not missed while the subscription is accepted, the change log of a single package is read back as
  it was found, events and results cross the process boundary unchanged or reach the update
  application as JSON, callbacks survive the death of the service, and a streamed package arrives whole if all its bytes come (the
  transfer over HTTP itself has no defined behaviour, which is stated too). Scripts: a request is settled at most once, and
  exactly once when no other comes between; an event is heard once by every listener. Static bindings: the library keeps a
  callback exactly while there is a listener. Properties that state a surprising behaviour of the code are
  marked as errors in their text.

  \<^bold>\<open>Fuel and bounds.\<close> No loop of the firmware layer needs fuel. The loops that may not end (\<open>notify_loop\<close>,
  \<open>replace_from\<close>, \<open>write_loop\<close>, \<open>publish_from\<close>) are partial functions whose result \<open>None\<close> is characterised; the download loop runs over the finite list
  of events its environment supplies. Five reports are enough to finish a flow since steps only advance and there are
  five of them before the last.

  \<^bold>\<open>Not modelled.\<close> Failures of the script engine and what a script does in the callback of a request, the two operations of
  \<^verbatim>\<open>session_manager.cpp\<close> on names of events, which nothing calls (\<open>ProcessUnsubscribe\<close> and the first
  \<open>FindSessionByHandle\<close>), the classes that are generated
  from the description of the static interface and the registration of its module, the generated proxies and stubs of the service interface, dumps and logging,
  loading of libraries and of the service, the configuration file, subscription of system events, the device adapters, and
  the SQL text of the tables.
\<close>

end
